(* ===== verification/Prelude.thy ===== *)
theory Prelude
  imports Complex_Main "HOL-Library.Multiset" "HOL-Library.Word"
begin

text \<open>
  What every component shares. The development's fact collections; saturating
  64-bit arithmetic as Rust's \<open>i64\<close> has it; the string operations the source
  uses (\<open>trim\<close>, \<open>to_ascii_lowercase\<close>, \<open>starts_with\<close>, \<open>split\<close>,
  \<open>parse::<i64>\<close>); and two interfaces stated as locales that several
  components implement: steps that commute (so that the order in which replayed
  mutations arrive does not matter) and steps that keep an invariant.

  Conventions. An \<open>i64\<close> is an \<open>int\<close>: where the source saturates, checks or wraps
  the model writes it out; the remaining sums and differences are of a millisecond
  clock and of constants of at most 180 days, far from the bounds. A \<open>usize\<close> that
  only counts is a \<open>nat\<close>. A Rust \<open>String\<close> is a list of characters, each standing for
  one ASCII character: \<open>trim\<close> removes the six ASCII characters that Rust's
  \<open>char::is_whitespace\<close> accepts and lower-casing maps \<open>A\<close>-\<open>Z\<close>, which is what the
  source's functions do on ASCII input. The clock is an argument \<open>now\<close> of every
  operation that calls \<open>now_ms()\<close>.
\<close>

named_theorems stream_defs \<open>definitions of the operations, for unfolding them together\<close>
named_theorems invariant_intros \<open>each operation keeps its component's invariant\<close>

section \<open>64-bit integers\<close>

definition i64_max :: int where "i64_max = 9223372036854775807"
definition i64_min :: int where "i64_min = - 9223372036854775808"

definition sat64 :: "int \<Rightarrow> int" where
  "sat64 x = max i64_min (min i64_max x)"

definition i64_range :: "int \<Rightarrow> bool" where
  "i64_range x \<longleftrightarrow> i64_min \<le> x \<and> x \<le> i64_max"

definition saturating_add :: "int \<Rightarrow> int \<Rightarrow> int" where
  "saturating_add a b = sat64 (a + b)"

definition saturating_sub :: "int \<Rightarrow> int \<Rightarrow> int" where
  "saturating_sub a b = sat64 (a - b)"

definition saturating_mul :: "int \<Rightarrow> int \<Rightarrow> int" where
  "saturating_mul a b = sat64 (a * b)"

definition checked_neg :: "int \<Rightarrow> int option" where
  "checked_neg x = (if x = i64_min then None else Some (- x))"

lemma sat64_id [simp]: "i64_range x \<Longrightarrow> sat64 x = x"
  by (simp add: sat64_def i64_range_def)

lemma sat64_range [simp]: "i64_range (sat64 x)"
  by (auto simp: sat64_def i64_range_def i64_max_def i64_min_def)

lemma sat64_mono: "x \<le> y \<Longrightarrow> sat64 x \<le> sat64 y"
  by (auto simp: sat64_def)

lemma sat64_min:
  assumes "i64_range m"
  shows "min (sat64 x) m = max i64_min (min x m)"
  using assms by (auto simp: sat64_def i64_range_def)

lemma sat64_upper: "sat64 x \<le> i64_max"
  by (auto simp: sat64_def i64_max_def i64_min_def)

section \<open>Strings\<close>

definition is_whitespace :: "char \<Rightarrow> bool" where
  "is_whitespace c \<longleftrightarrow> c \<in> {CHR '' '', CHR 0x09, CHR 0x0A, CHR 0x0B, CHR 0x0C, CHR 0x0D}"

definition trim_start :: "string \<Rightarrow> string" where
  "trim_start s = dropWhile is_whitespace s"

definition trim_end :: "string \<Rightarrow> string" where
  "trim_end s = rev (dropWhile is_whitespace (rev s))"

definition trim :: "string \<Rightarrow> string" where
  "trim s = trim_end (trim_start s)"

definition is_ascii_digit :: "char \<Rightarrow> bool" where
  "is_ascii_digit c \<longleftrightarrow> 48 \<le> (of_char c :: nat) \<and> (of_char c :: nat) \<le> 57"

definition is_ascii_upper :: "char \<Rightarrow> bool" where
  "is_ascii_upper c \<longleftrightarrow> 65 \<le> (of_char c :: nat) \<and> (of_char c :: nat) \<le> 90"

definition is_ascii_lower :: "char \<Rightarrow> bool" where
  "is_ascii_lower c \<longleftrightarrow> 97 \<le> (of_char c :: nat) \<and> (of_char c :: nat) \<le> 122"

definition is_ascii_alphabetic :: "char \<Rightarrow> bool" where
  "is_ascii_alphabetic c \<longleftrightarrow> is_ascii_upper c \<or> is_ascii_lower c"

definition lower_char :: "char \<Rightarrow> char" where
  "lower_char c = (if is_ascii_upper c then char_of ((of_char c :: nat) + 32) else c)"

text \<open>The same on the bits of a character, for evaluation.\<close>

lemma is_ascii_digit_bits [code]:
  "is_ascii_digit (Char b0 b1 b2 b3 b4 b5 b6 b7) \<longleftrightarrow> \<not> b7 \<and> \<not> b6 \<and> b5 \<and> b4 \<and> \<not> (b3 \<and> (b2 \<or> b1))"
  by (cases b0; cases b1; cases b2; cases b3; cases b4; cases b5; cases b6; cases b7) (simp_all add: is_ascii_digit_def)

lemma is_ascii_upper_bits [code]:
  "is_ascii_upper (Char b0 b1 b2 b3 b4 b5 b6 b7) \<longleftrightarrow>
     \<not> b7 \<and> b6 \<and> \<not> b5 \<and> (b0 \<or> b1 \<or> b2 \<or> b3 \<or> b4) \<and> \<not> (b4 \<and> b3 \<and> (b2 \<or> b1 \<and> b0))"
  by (cases b0; cases b1; cases b2; cases b3; cases b4; cases b5; cases b6; cases b7) (simp_all add: is_ascii_upper_def)

lemma is_ascii_lower_bits [code]:
  "is_ascii_lower (Char b0 b1 b2 b3 b4 b5 b6 b7) \<longleftrightarrow>
     \<not> b7 \<and> b6 \<and> b5 \<and> (b0 \<or> b1 \<or> b2 \<or> b3 \<or> b4) \<and> \<not> (b4 \<and> b3 \<and> (b2 \<or> b1 \<and> b0))"
  by (cases b0; cases b1; cases b2; cases b3; cases b4; cases b5; cases b6; cases b7) (simp_all add: is_ascii_lower_def)

lemma lower_char_bits [code]:
  "lower_char (Char b0 b1 b2 b3 b4 b5 b6 b7) =
     (if is_ascii_upper (Char b0 b1 b2 b3 b4 b5 b6 b7) then Char b0 b1 b2 b3 b4 True b6 b7 else Char b0 b1 b2 b3 b4 b5 b6 b7)"
  unfolding lower_char_def is_ascii_upper_bits
  by (cases b0; cases b1; cases b2; cases b3; cases b4; cases b5; cases b6; cases b7) (simp_all add: char_of_def bit_0)

definition lower :: "string \<Rightarrow> string" where
  "lower s = map lower_char s"

fun starts_with :: "string \<Rightarrow> string \<Rightarrow> bool" where
  "starts_with _ [] = True"
| "starts_with [] (_ # _) = False"
| "starts_with (x # xs) (p # ps) = (x = p \<and> starts_with xs ps)"

fun contains :: "string \<Rightarrow> string \<Rightarrow> bool" where
  "contains [] p = (p = [])"
| "contains (x # xs) p = (starts_with (x # xs) p \<or> contains xs p)"

definition ends_with :: "string \<Rightarrow> string \<Rightarrow> bool" where
  "ends_with s p = starts_with (rev s) (rev p)"

definition strip_prefix :: "string \<Rightarrow> string \<Rightarrow> string option" where
  "strip_prefix p s = (if starts_with s p then Some (drop (length p) s) else None)"

text \<open>\<open>str::split(c)\<close> by one character: always at least one piece.\<close>

fun split_on :: "char \<Rightarrow> string \<Rightarrow> string list" where
  "split_on c [] = [[]]"
| "split_on c (x # xs) =
     (if x = c then [] # split_on c xs
      else case split_on c xs of [] \<Rightarrow> [[x]] | w # ws \<Rightarrow> (x # w) # ws)"

text \<open>\<open>str::split_whitespace\<close>: the words between white space.\<close>

definition split_words :: "string \<Rightarrow> string list" where
  "split_words s = filter (\<lambda>w. w \<noteq> []) (split_on CHR '' '' (map (\<lambda>c. if is_whitespace c then CHR '' '' else c) s))"

text \<open>\<open>str::split_once(c)\<close>: at the first occurrence.\<close>

fun split_once :: "char \<Rightarrow> string \<Rightarrow> (string \<times> string) option" where
  "split_once c [] = None"
| "split_once c (x # xs) =
     (if x = c then Some ([], xs)
      else map_option (\<lambda>(a, b). (x # a, b)) (split_once c xs))"

definition digit_value :: "char \<Rightarrow> int" where
  "digit_value c = int (of_char c) - 48"

fun parse_digits :: "int \<Rightarrow> string \<Rightarrow> int option" where
  "parse_digits acc [] = Some acc"
| "parse_digits acc (c # cs) =
     (if is_ascii_digit c then parse_digits (10 * acc + digit_value c) cs else None)"

text \<open>\<open>str::parse::<i64>\<close>: an optional sign, at least one digit, no overflow.\<close>

definition parse_i64 :: "string \<Rightarrow> int option" where
  "parse_i64 s =
     (let (neg, ds) = (case s of
          [] \<Rightarrow> (False, [])
        | c # cs \<Rightarrow> if c = CHR ''-'' then (True, cs) else if c = CHR ''+'' then (False, cs) else (False, s))
      in if ds = [] then None
         else case parse_digits 0 ds of
           None \<Rightarrow> None
         | Some n \<Rightarrow> (let v = (if neg then - n else n) in if i64_range v then Some v else None))"

text \<open>\<open>str::parse::<u64>\<close>: an optional plus sign, at least one digit, no overflow.\<close>

definition parse_u64 :: "string \<Rightarrow> int option" where
  "parse_u64 s =
     (let ds = (case s of [] \<Rightarrow> [] | c # cs \<Rightarrow> if c = CHR ''+'' then cs else s)
      in if ds = [] then None
         else case parse_digits 0 ds of
           None \<Rightarrow> None
         | Some n \<Rightarrow> (if n < 2 ^ 64 then Some n else None))"

text \<open>Decimal printing of integers (\<open>Display\<close>).\<close>

fun show_nat :: "nat \<Rightarrow> string" where
  "show_nat n = (if n < 10 then [] else show_nat (n div 10)) @ [char_of (48 + n mod 10)]"

declare show_nat.simps [simp del]

definition show_int :: "int \<Rightarrow> string" where
  "show_int n = (if n < 0 then CHR ''-'' # show_nat (nat (- n)) else show_nat (nat n))"

lemma parse_digits_ge: "parse_digits acc ds = Some n \<Longrightarrow> 0 \<le> acc \<Longrightarrow> acc \<le> n"
proof (induction acc ds rule: parse_digits.induct)
  case (2 acc c cs)
  then have d: "is_ascii_digit c" and rest: "parse_digits (10 * acc + digit_value c) cs = Some n"
    by (auto split: if_splits)
  from d have "0 \<le> digit_value c" by (auto simp: is_ascii_digit_def digit_value_def)
  with 2 d rest show ?case by auto
qed auto

lemma parse_u64_range: "parse_u64 s = Some n \<Longrightarrow> 0 \<le> n \<and> n < 2 ^ 64"
  by (auto simp: parse_u64_def Let_def dest: parse_digits_ge split: if_splits option.splits)

definition byte_in :: "nat \<Rightarrow> nat \<Rightarrow> char \<Rightarrow> bool" where
  "byte_in lo hi c \<longleftrightarrow> lo \<le> of_char c \<and> of_char c \<le> hi"

text \<open>\<open>String::from_utf8\<close>: the well-formed sequences of Unicode's table 3-7.\<close>

fun utf8_valid :: "string \<Rightarrow> bool" where
  "utf8_valid [] = True"
| "utf8_valid (c # cs) =
     (if byte_in 0 127 c then utf8_valid cs
      else if byte_in 194 223 c then
        (case cs of a # r \<Rightarrow> byte_in 128 191 a \<and> utf8_valid r | _ \<Rightarrow> False)
      else if byte_in 224 239 c then
        (case cs of a # b # r \<Rightarrow>
           byte_in (if byte_in 224 224 c then 160 else 128) (if byte_in 237 237 c then 159 else 191) a \<and>
           byte_in 128 191 b \<and> utf8_valid r | _ \<Rightarrow> False)
      else if byte_in 240 244 c then
        (case cs of a # b # d # r \<Rightarrow>
           byte_in (if byte_in 240 240 c then 144 else 128) (if byte_in 244 244 c then 143 else 191) a \<and>
           byte_in 128 191 b \<and> byte_in 128 191 d \<and> utf8_valid r | _ \<Rightarrow> False)
      else False)"

lemma split_on_single: "c \<notin> set a \<Longrightarrow> split_on c a = [a]"
  by (induction a) auto

lemma split_on_append: "c \<notin> set a \<Longrightarrow> split_on c (a @ c # s) = a # split_on c s"
  by (induction a) auto

lemma parse_digits_append:
  "parse_digits acc (a @ b) = Option.bind (parse_digits acc a) (\<lambda>x. parse_digits x b)"
  by (induction acc a rule: parse_digits.induct) auto

lemma is_ascii_digit_show: "d < 10 \<Longrightarrow> is_ascii_digit (char_of (48 + d)) \<and> digit_value (char_of (48 + d)) = int d"
  by (auto simp: is_ascii_digit_def digit_value_def)

lemma parse_digits_show [simp]: "parse_digits 0 (show_nat n) = Some (int n)"
proof (induction n rule: show_nat.induct)
  case (1 n)
  have "is_ascii_digit (char_of (48 + n mod 10)) \<and> digit_value (char_of (48 + n mod 10)) = int (n mod 10)"
    by (rule is_ascii_digit_show) simp
  moreover have "10 * int (n div 10) + int (n mod 10) = int n" by presburger
  ultimately show ?case
    using 1 by (subst show_nat.simps) (simp add: parse_digits_append del: of_nat_add of_nat_mult of_nat_div of_nat_mod)
qed

lemma show_nat_digits: "c \<in> set (show_nat n) \<Longrightarrow> is_ascii_digit c"
proof (induction n rule: show_nat.induct)
  case (1 n)
  have "is_ascii_digit (char_of (48 + n mod 10))" using is_ascii_digit_show [of "n mod 10"] by simp
  with 1 show ?case by (subst (asm) show_nat.simps) (auto split: if_splits)
qed

lemma show_nat_nonempty [simp]: "show_nat n \<noteq> []"
  by (subst show_nat.simps) simp

lemma show_nat_inj [simp]: "show_nat m = show_nat n \<longleftrightarrow> m = n"
  by (metis of_nat_eq_iff option.inject parse_digits_show)

lemma show_int_inj [simp]: "show_int m = show_int n \<longleftrightarrow> m = n"
proof -
  have "show_nat k \<noteq> CHR ''-'' # s" for k s
    using show_nat_digits [of "CHR ''-''" k] by (auto simp: is_ascii_digit_def)
  then have "show_nat k \<noteq> CHR ''-'' # s" "CHR ''-'' # s \<noteq> show_nat k" for k s by metis+
  then show ?thesis by (simp add: show_int_def nat_eq_iff)
qed

lemma parse_i64_show_int: "i64_range n \<Longrightarrow> parse_i64 (show_int n) = Some n"
proof -
  assume r: "i64_range n"
  have hd: "\<exists>c cs. show_nat k = c # cs \<and> c \<noteq> CHR ''-'' \<and> c \<noteq> CHR ''+''" for k
  proof -
    obtain c cs where c: "show_nat k = c # cs" using show_nat_nonempty [of k] by (meson list.exhaust)
    then have "is_ascii_digit c" using show_nat_digits [of c k] by simp
    then have "c \<noteq> CHR ''-''" "c \<noteq> CHR ''+''" by (auto simp: is_ascii_digit_def)
    with c show ?thesis by blast
  qed
  show ?thesis
  proof (cases "n < 0")
    case True
    have "parse_digits 0 (show_nat (nat (- n))) = Some (- n)" using True by simp
    with True r show ?thesis by (simp add: parse_i64_def show_int_def)
  next
    case False
    obtain c cs where "show_nat (nat n) = c # cs" "c \<noteq> CHR ''-''" "c \<noteq> CHR ''+''" using hd by blast
    moreover have "parse_digits 0 (show_nat (nat n)) = Some n" using False by simp
    ultimately show ?thesis using False r by (simp add: parse_i64_def show_int_def del: parse_digits_show)
  qed
qed

lemma starts_with_iff: "starts_with s p \<longleftrightarrow> (\<exists>r. s = p @ r)"
  by (induction s p rule: starts_with.induct) auto

lemma starts_with_append [simp]: "starts_with (p @ r) p"
  by (auto simp: starts_with_iff)

lemma contains_iff: "contains s p \<longleftrightarrow> (\<exists>a b. s = a @ p @ b)"
proof (induction s)
  case Nil
  then show ?case by auto
next
  case (Cons x xs)
  have "(\<exists>a b. x # xs = a @ p @ b) \<longleftrightarrow> (\<exists>b. x # xs = p @ b) \<or> (\<exists>a b. xs = a @ p @ b)"
    by (metis Cons_eq_append_conv append_Nil)
  then show ?case
    by (simp add: Cons.IH starts_with_iff)
qed

lemma strip_prefix_Some [simp]: "strip_prefix p s = Some r \<longleftrightarrow> s = p @ r"
  by (auto simp: strip_prefix_def starts_with_iff)

lemma strip_prefix_append [simp]: "strip_prefix p (p @ r) = Some r"
  by simp

lemma split_on_nonempty [simp]: "split_on c s \<noteq> []"
  by (induction s) (auto split: list.splits)

lemma lower_char_idem [simp]: "lower_char (lower_char c) = lower_char c"
  by (auto simp: lower_char_def is_ascii_upper_def)

lemma lower_idem [simp]: "lower (lower s) = lower s"
  by (simp add: lower_def)

lemma lower_append [simp]: "lower (a @ b) = lower a @ lower b"
  by (simp add: lower_def)

lemma lower_Nil [simp]: "lower [] = []"
  by (simp add: lower_def)

lemma length_lower [simp]: "length (lower s) = length s"
  by (simp add: lower_def)

lemma starts_with_lower: "starts_with s p \<Longrightarrow> starts_with (lower s) (lower p)"
  by (auto simp: starts_with_iff)

lemma trim_end_Nil [simp]: "trim_end [] = []"
  by (simp add: trim_end_def)

lemma trim_end_start: "trim_end s = [] \<or> (\<exists>c r. s = c # r \<and> (\<exists>r'. trim_end s = c # r'))"
proof -
  obtain w where s: "rev s = w @ dropWhile is_whitespace (rev s)"
    by (metis takeWhile_dropWhile_id)
  then have "s = rev (dropWhile is_whitespace (rev s)) @ rev w"
    by (metis rev_append rev_rev_ident)
  then show ?thesis
    by (metis append_Cons list.exhaust trim_end_def)
qed

lemma trim_start_hd: "trim_start s = c # r \<Longrightarrow> \<not> is_whitespace c"
  by (metis dropWhile_eq_Cons_conv trim_start_def)

lemma trim_idem [simp]: "trim (trim s) = trim s"
proof (cases "trim s")
  case Nil
  then show ?thesis by (simp add: trim_def trim_start_def)
next
  case (Cons c r)
  then have "\<not> is_whitespace c"
    by (metis trim_def trim_end_start trim_start_hd list.inject list.distinct(1))
  then have "trim_start (trim s) = trim s"
    by (simp add: Cons trim_start_def)
  moreover have "trim_end (trim_end t) = trim_end t" for t
    by (simp add: trim_end_def)
  ultimately show ?thesis
    by (metis trim_def)
qed

section \<open>Lists\<close>

text \<open>
  \<open>min_by_key\<close> returns the first of the least elements (\<open>Iterator::min_by_key\<close>).
\<close>

fun min_by_key :: "('a \<Rightarrow> 'k::linorder) \<Rightarrow> 'a list \<Rightarrow> 'a option" where
  "min_by_key k [] = None"
| "min_by_key k (x # xs) =
     (case min_by_key k xs of
        None \<Rightarrow> Some x
      | Some y \<Rightarrow> if k x \<le> k y then Some x else Some y)"

lemma min_by_key_None [simp]: "min_by_key k xs = None \<longleftrightarrow> xs = []"
  by (cases xs) (auto split: option.splits)

lemma min_by_key_Some:
  "min_by_key k xs = Some x \<Longrightarrow> x \<in> set xs \<and> (\<forall>y \<in> set xs. k x \<le> k y)"
proof (induction xs arbitrary: x)
  case (Cons a xs)
  show ?case
  proof (cases "min_by_key k xs")
    case None
    with Cons.prems show ?thesis by simp
  next
    case (Some b)
    with Cons.IH have "b \<in> set xs \<and> (\<forall>y \<in> set xs. k b \<le> k y)" by simp
    with Some Cons.prems show ?thesis
      by (auto split: if_splits intro: order_trans)
  qed
qed simp

lemma filter_mono_length: "(\<And>x. P x \<Longrightarrow> Q x) \<Longrightarrow> length (filter P xs) \<le> length (filter Q xs)"
  by (induction xs) (auto simp: le_SucI)

section \<open>Interface: steps that commute\<close>

text \<open>
  A component whose mutations carry their own version promises that applying two
  compatible mutations in either order gives the same state. Then any order of
  delivery gives the same state, and a mutation that was already applied can be
  delivered again.
\<close>

locale commuting_steps =
  fixes step :: "'e \<Rightarrow> 's \<Rightarrow> 's"
    and compatible :: "'e \<Rightarrow> 'e \<Rightarrow> bool"
  assumes step_commute: "compatible a b \<Longrightarrow> step a (step b s) = step b (step a s)"
begin

lemma fold_step_commute:
  "(\<And>b. b \<in> set es \<Longrightarrow> compatible a b) \<Longrightarrow> fold step es (step a s) = step a (fold step es s)"
proof (induction es arbitrary: s)
  case (Cons b es)
  then have "step b (step a s) = step a (step b s)"
    by (metis list.set_intros(1) step_commute)
  with Cons show ?case by simp
qed simp

lemma fold_permute:
  assumes "\<And>a b. a \<in> set es \<Longrightarrow> b \<in> set es \<Longrightarrow> compatible a b"
    and "mset es = mset es'"
  shows "fold step es s = fold step es' s"
  by (rule fold_permuted_eq [where P = "\<lambda>_. True"]) (use assms step_commute in auto)

end

locale replayable_steps = commuting_steps +
  assumes step_idem: "step a (step a s) = step a s"
begin

lemma fold_replay:
  assumes "a \<in> set es" and "\<And>b. b \<in> set es \<Longrightarrow> compatible a b"
  shows "step a (fold step es s) = fold step es s"
proof -
  obtain xs ys where es: "es = xs @ a # ys"
    using assms(1) by (auto simp: in_set_conv_decomp)
  have "step a (fold step ys (step a t)) = fold step ys (step a t)" for t
    using assms(2) es by (subst fold_step_commute [symmetric]) (auto simp: step_idem)
  then show ?thesis by (simp add: es)
qed

end

section \<open>Interface: steps that keep an invariant\<close>

locale invariant_steps =
  fixes inv :: "'s \<Rightarrow> bool"
    and step :: "'e \<Rightarrow> 's \<Rightarrow> 's"
  assumes inv_step: "inv s \<Longrightarrow> inv (step e s)"
begin

lemma inv_fold: "inv s \<Longrightarrow> inv (fold step es s)"
  by (induction es arbitrary: s) (auto intro: inv_step)

end

lemma lower_eq_Nil [simp]: "lower s = [] \<longleftrightarrow> s = []"
  by (simp add: lower_def)

lemma Nil_eq_lower [simp]: "[] = lower s \<longleftrightarrow> s = []"
  by (cases s) (simp_all add: lower_def)

section \<open>A printable encoding, for concrete instances\<close>

fun nibbles :: "char \<Rightarrow> string" where
  "nibbles (Char b0 b1 b2 b3 b4 b5 b6 b7) = [Char b4 b5 b6 b7 False True True False, Char b0 b1 b2 b3 False True True False]"

fun from_nibbles :: "string \<Rightarrow> string option" where
  "from_nibbles [] = Some []"
| "from_nibbles [_] = None"
| "from_nibbles (Char b4 b5 b6 b7 _ _ _ _ # Char b0 b1 b2 b3 _ _ _ _ # s) =
     map_option ((#) (Char b0 b1 b2 b3 b4 b5 b6 b7)) (from_nibbles s)"

lemma nibbles_back: "from_nibbles (nibbles c @ s) = map_option ((#) c) (from_nibbles s)"
  by (cases c) simp

lemma length_nibbles [simp]: "length (nibbles c) = 2"
  by (cases c) simp

lemma nibbles_not_Nil [simp]: "nibbles c \<noteq> []"
  by (cases c) simp

lemma nibbles_range: "list_all (\<lambda>x. 96 \<le> (of_char x :: nat) \<and> (of_char x :: nat) \<le> 112) (nibbles c)"
  by (cases c) (simp add: of_bool_def)

lemma nibbles_all_back [simp]: "from_nibbles (concat (map nibbles x)) = Some x"
  by (induction x) (simp_all add: nibbles_back)

lemma nibbles_all_range: "list_all (\<lambda>x. 96 \<le> (of_char x :: nat) \<and> (of_char x :: nat) \<le> 112) (concat (map nibbles x))"
  using nibbles_range by (induction x) auto

end
