(* ===== verification/RateLimit.thy ===== *)
theory RateLimit
  imports Prelude
begin

text \<open>
  The two limiters of \<open>src/rate_limit.rs\<close>: the sliding-window \<open>RateLimiter\<close> that
  is the hard request budget, and the per-identity exponential \<open>FailureBackoff\<close>.
  The mutex-protected hash maps are maps from keys; a call takes the clock it reads
  as \<open>now\<close>. The theorems: over any history of calls with a clock that does not run
  backwards, no window of \<open>window_ms\<close> holds more than \<open>max_hits\<close> accepted hits of a
  key, pruning at any point included; a cooldown after n consecutive failures is
  exactly the base delay doubled n - 1 times and capped, and a success clears it.
\<close>

section \<open>Sliding window\<close>

record rate_limiter =
  rl_window_ms :: int
  rl_max_hits :: nat
  rl_hits :: "string \<Rightarrow> int list option"

definition rate_limiter_new :: "nat \<Rightarrow> int \<Rightarrow> rate_limiter" where
  "rate_limiter_new max_hits window_ms =
     \<lparr>rl_window_ms = max window_ms 1, rl_max_hits = max max_hits 1, rl_hits = (\<lambda>_. None)\<rparr>"

definition check_and_record :: "rate_limiter \<Rightarrow> string \<Rightarrow> int \<Rightarrow> bool \<times> rate_limiter" where
  "check_and_record rl key now =
     (let cutoff = now - rl_window_ms rl;
          entry = (case rl_hits rl key of None \<Rightarrow> [] | Some ts \<Rightarrow> ts);
          entry = filter (\<lambda>t. t > cutoff) entry
      in if length entry \<ge> rl_max_hits rl
         then (False, rl\<lparr>rl_hits := (rl_hits rl)(key \<mapsto> entry)\<rparr>)
         else (True, rl\<lparr>rl_hits := (rl_hits rl)(key \<mapsto> entry @ [now])\<rparr>))"

definition rate_limiter_prune :: "rate_limiter \<Rightarrow> int \<Rightarrow> rate_limiter" where
  "rate_limiter_prune rl now =
     (let cutoff = now - rl_window_ms rl
      in rl\<lparr>rl_hits := (\<lambda>k. case rl_hits rl k of
             None \<Rightarrow> None
           | Some ts \<Rightarrow>
               (let kept = filter (\<lambda>t. t > cutoff) ts in if kept = [] then None else Some kept))\<rparr>)"

text \<open>A history of calls, each with the clock it read, and the hits that were accepted.\<close>

datatype rl_call = Check string int | Prune int

fun rl_time :: "rl_call \<Rightarrow> int" where
  "rl_time (Check k t) = t"
| "rl_time (Prune t) = t"

fun rl_run :: "rate_limiter \<Rightarrow> rl_call list \<Rightarrow> rate_limiter \<times> (string \<times> int) list" where
  "rl_run rl [] = (rl, [])"
| "rl_run rl (Check k t # cs) =
     (let r = check_and_record rl k t; rest = rl_run (snd r) cs
      in (fst rest, (if fst r then [(k, t)] else []) @ snd rest))"
| "rl_run rl (Prune t # cs) = rl_run (rate_limiter_prune rl t) cs"

definition accepted_in :: "(string \<times> int) list \<Rightarrow> string \<Rightarrow> int \<Rightarrow> int \<Rightarrow> nat" where
  "accepted_in hits k lo hi = length (filter (\<lambda>(k', t). k' = k \<and> lo < t \<and> t \<le> hi) hits)"

definition stored_hits :: "rate_limiter \<Rightarrow> string \<Rightarrow> int list" where
  "stored_hits rl k = (case rl_hits rl k of None \<Rightarrow> [] | Some ts \<Rightarrow> ts)"

definition hits_of :: "string \<Rightarrow> (string \<times> int) list \<Rightarrow> int list" where
  "hits_of k hits = map snd (filter (\<lambda>(k', t). k' = k) hits)"

lemma hits_of_simps [simp]:
  "hits_of k [] = []"
  "hits_of k (hits @ hits') = hits_of k hits @ hits_of k hits'"
  "hits_of k [(k', t)] = (if k' = k then [t] else [])"
  by (auto simp: hits_of_def)

lemma accepted_in_hits_of:
  "accepted_in hits k lo hi = length (filter (\<lambda>t. lo < t \<and> t \<le> hi) (hits_of k hits))"
  by (induction hits) (auto simp: accepted_in_def hits_of_def)

lemma rate_limiter_config [simp]:
  "rl_window_ms (snd (check_and_record rl k t)) = rl_window_ms rl"
  "rl_max_hits (snd (check_and_record rl k t)) = rl_max_hits rl"
  "rl_window_ms (rate_limiter_prune rl t) = rl_window_ms rl"
  "rl_max_hits (rate_limiter_prune rl t) = rl_max_hits rl"
  by (simp_all add: check_and_record_def rate_limiter_prune_def Let_def)

lemma stored_hits_check:
  "stored_hits (snd (check_and_record rl k t)) k' =
     (if k' = k
      then filter (\<lambda>x. x > t - rl_window_ms rl) (stored_hits rl k) @
           (if fst (check_and_record rl k t) then [t] else [])
      else stored_hits rl k')"
  by (auto simp: check_and_record_def stored_hits_def Let_def)

lemma stored_hits_prune:
  "stored_hits (rate_limiter_prune rl t) k = filter (\<lambda>x. x > t - rl_window_ms rl) (stored_hits rl k)"
  by (auto simp: rate_limiter_prune_def stored_hits_def Let_def split: option.splits)

lemma check_and_record_accepts:
  "fst (check_and_record rl k t) \<longleftrightarrow>
     length (filter (\<lambda>x. x > t - rl_window_ms rl) (stored_hits rl k)) < rl_max_hits rl"
  by (auto simp: check_and_record_def stored_hits_def Let_def)

text \<open>
  What ties the table to the record of accepted hits: within the window that ends at the
  last clock reading both hold the same hits, and no window of the record is over budget.
\<close>

definition window_inv :: "rate_limiter \<Rightarrow> (string \<times> int) list \<Rightarrow> int \<Rightarrow> bool" where
  "window_inv rl hits now \<longleftrightarrow>
     (\<forall>k. filter (\<lambda>x. x > now - rl_window_ms rl) (stored_hits rl k) =
          filter (\<lambda>x. x > now - rl_window_ms rl) (hits_of k hits)) \<and>
     (\<forall>k. \<forall>t \<in> set (hits_of k hits). t \<le> now) \<and>
     (\<forall>k hi. accepted_in hits k (hi - rl_window_ms rl) hi \<le> rl_max_hits rl)"

lemma filter_later_window:
  assumes "filter (\<lambda>x. x > a) xs = filter (\<lambda>x. x > a) ys" and "(a::int) \<le> b"
  shows "filter (\<lambda>x. x > b) xs = filter (\<lambda>x. x > b) ys"
proof -
  have "filter (\<lambda>x. x > b) zs = filter (\<lambda>x. x > b) (filter (\<lambda>x. x > a) zs)" for zs
    using assms(2) by (auto intro: filter_cong)
  then show ?thesis using assms(1) by metis
qed

lemma window_inv_advance:
  "window_inv rl hits now \<Longrightarrow> now \<le> t \<Longrightarrow> window_inv rl hits t"
  unfolding window_inv_def
  by (auto intro: filter_later_window [where a = "now - rl_window_ms rl"] order_trans)

lemma window_inv_prune:
  "window_inv rl hits t \<Longrightarrow> window_inv (rate_limiter_prune rl t) hits t"
  by (simp add: window_inv_def stored_hits_prune)

lemma window_inv_check:
  assumes inv: "window_inv rl hits t" and w: "0 < rl_window_ms rl"
  shows "window_inv (snd (check_and_record rl k t))
           (hits @ (if fst (check_and_record rl k t) then [(k, t)] else [])) t"
proof (cases "fst (check_and_record rl k t)")
  case False
  with inv show ?thesis
    by (auto simp: window_inv_def stored_hits_check)
next
  case True
  let ?w = "rl_window_ms rl"
  have same: "filter (\<lambda>x. x > t - ?w) (stored_hits rl k) = filter (\<lambda>x. x > t - ?w) (hits_of k hits)"
    using inv by (simp add: window_inv_def)
  have room: "length (filter (\<lambda>x. x > t - ?w) (hits_of k hits)) < rl_max_hits rl"
    using True same by (simp add: check_and_record_accepts)
  have "accepted_in (hits @ [(k, t)]) k' (hi - ?w) hi \<le> rl_max_hits rl" for k' hi
  proof (cases "k' = k \<and> t \<le> hi")
    case False
    then have "accepted_in (hits @ [(k, t)]) k' (hi - ?w) hi = accepted_in hits k' (hi - ?w) hi"
      by (auto simp: accepted_in_def)
    with inv show ?thesis by (simp add: window_inv_def)
  next
    case True
    then have "accepted_in hits k' (hi - ?w) hi \<le> length (filter (\<lambda>x. x > t - ?w) (hits_of k hits))"
      by (auto simp: accepted_in_hits_of intro: filter_mono_length)
    with room show ?thesis by (auto simp: accepted_in_def)
  qed
  with True inv w same show ?thesis
    by (auto simp: window_inv_def stored_hits_check)
qed

lemma rl_run_inv:
  assumes "window_inv rl hits now" and "0 < rl_window_ms rl"
    and "sorted (now # map rl_time cs)"
  shows "\<exists>t \<ge> now. window_inv (fst (rl_run rl cs)) (hits @ snd (rl_run rl cs)) t \<and>
           rl_window_ms (fst (rl_run rl cs)) = rl_window_ms rl \<and>
           rl_max_hits (fst (rl_run rl cs)) = rl_max_hits rl"
  using assms
proof (induction cs arbitrary: rl hits now)
  case Nil
  then show ?case by auto
next
  case (Cons c cs)
  show ?case
  proof (cases c)
    case (Prune t)
    have "window_inv (rate_limiter_prune rl t) hits t"
      using Cons.prems Prune by (auto intro: window_inv_prune window_inv_advance)
    with Cons.IH [of "rate_limiter_prune rl t" hits t] Cons.prems Prune show ?thesis
      by (auto intro: order_trans)
  next
    case (Check k t)
    let ?r = "check_and_record rl k t"
    have "window_inv rl hits t"
      using Cons.prems Check by (auto intro: window_inv_advance)
    from window_inv_check [OF this Cons.prems(2), of k]
    have "\<exists>u\<ge>t. window_inv (fst (rl_run (snd ?r) cs))
        ((hits @ (if fst ?r then [(k, t)] else [])) @ snd (rl_run (snd ?r) cs)) u \<and>
        rl_window_ms (fst (rl_run (snd ?r) cs)) = rl_window_ms rl \<and>
        rl_max_hits (fst (rl_run (snd ?r) cs)) = rl_max_hits rl"
      using Cons.IH [of "snd ?r" "hits @ (if fst ?r then [(k, t)] else [])" t] Cons.prems Check
      by simp
    moreover have "now \<le> t" using Cons.prems Check by simp
    ultimately show ?thesis
      using Check by (auto simp: Let_def intro: order_trans)
  qed
qed

lemma window_inv_new: "window_inv (rate_limiter_new m w) [] now"
  by (auto simp: window_inv_def rate_limiter_new_def stored_hits_def accepted_in_def)

lemma rate_limiter_new_config [simp]:
  "rl_window_ms (rate_limiter_new m w) = max w 1" "rl_max_hits (rate_limiter_new m w) = max m 1"
  by (simp_all add: rate_limiter_new_def)

lemma rl_run_budget:
  assumes "sorted (map rl_time cs)"
  shows "accepted_in (snd (rl_run (rate_limiter_new max_hits window_ms) cs)) k
           (hi - max window_ms 1) hi \<le> max max_hits 1"
proof (cases cs)
  case Nil
  then show ?thesis by (simp add: accepted_in_def)
next
  case (Cons c cs')
  let ?rl = "rate_limiter_new max_hits window_ms"
  have pos: "0 < rl_window_ms ?rl" by (simp add: less_max_iff_disj)
  obtain t where "window_inv (fst (rl_run ?rl cs)) (snd (rl_run ?rl cs)) t"
    and "rl_window_ms (fst (rl_run ?rl cs)) = max window_ms 1"
    and "rl_max_hits (fst (rl_run ?rl cs)) = max max_hits 1"
    using rl_run_inv [OF window_inv_new pos, of "rl_time c" cs] assms Cons by auto
  then show ?thesis
    by (auto simp: window_inv_def)
qed

lemma rl_run_append:
  "rl_run rl (cs @ cs') =
     (fst (rl_run (fst (rl_run rl cs)) cs'), snd (rl_run rl cs) @ snd (rl_run (fst (rl_run rl cs)) cs'))"
proof (induction cs arbitrary: rl)
  case (Cons c cs)
  then show ?case by (cases c) (simp_all add: Let_def)
qed simp

lemma accepted_in_append [simp]:
  "accepted_in (hits @ hits') k lo hi = accepted_in hits k lo hi + accepted_in hits' k lo hi"
  by (simp add: accepted_in_def)

text \<open>
  C9: the sliding-window budget. Whatever sequence of \<open>check_and_record\<close> and \<open>prune\<close>
  calls is made on a new limiter with a clock that does not run backwards, every window
  of \<open>window_ms\<close> milliseconds holds at most \<open>max_hits\<close> accepted hits of any key (both
  parameters raised to at least one, as the constructor does).
\<close>

theorem rate_limiter_window_budget:
  assumes "sorted (map rl_time cs)"
  shows "accepted_in (snd (rl_run (rate_limiter_new max_hits window_ms) cs)) k
           (hi - max window_ms 1) hi \<le> max max_hits 1"
  using assms by (rule rl_run_budget)

theorem rate_limiter_window_budget_witness:
  "accepted_in (snd (rl_run (rate_limiter_new 2 100)
     [Check ''a'' 0, Check ''a'' 10, Check ''a'' 20, Prune 50, Check ''a'' 105])) ''a'' 5 105 \<le> 2"
  using rate_limiter_window_budget [of "[Check ''a'' 0, Check ''a'' 10, Check ''a'' 20, Prune 50, Check ''a'' 105]" 2 100 "''a''" 105]
  by simp


section \<open>Failure backoff\<close>

record failure_entry =
  fe_failures :: nat
  fe_retry_at_ms :: int
  fe_last_failure_ms :: int

record failure_backoff =
  fb_base_delay_ms :: int
  fb_max_delay_ms :: int
  fb_retention_ms :: int
  fb_failures :: "string \<Rightarrow> failure_entry option"

definition failure_backoff_new :: "int \<Rightarrow> int \<Rightarrow> int \<Rightarrow> failure_backoff" where
  "failure_backoff_new base_delay_ms max_delay_ms retention_ms =
     \<lparr>fb_base_delay_ms = max base_delay_ms 1,
      fb_max_delay_ms = max max_delay_ms (max base_delay_ms 1),
      fb_retention_ms = max retention_ms 1,
      fb_failures = (\<lambda>_. None)\<rparr>"

definition retry_after_ms_at :: "failure_backoff \<Rightarrow> string \<Rightarrow> int \<Rightarrow> int" where
  "retry_after_ms_at fb key now =
     (case fb_failures fb key of
        Some entry \<Rightarrow> max (saturating_sub (fe_retry_at_ms entry) now) 0
      | None \<Rightarrow> 0)"

text \<open>\<open>u32::saturating_add(1)\<close>, then \<open>min(31)\<close>; \<open>1i64.checked_shl(n)\<close> is \<open>None\<close> from 64 on.\<close>

definition u32_saturating_succ :: "nat \<Rightarrow> nat" where
  "u32_saturating_succ n = min (Suc n) 4294967295"

definition i64_checked_shl_1 :: "nat \<Rightarrow> int option" where
  "i64_checked_shl_1 n =
     (if n < 63 then Some (2 ^ n) else if n = 63 then Some i64_min else None)"

definition next_failure_count :: "failure_backoff \<Rightarrow> string \<Rightarrow> int \<Rightarrow> nat" where
  "next_failure_count fb key now =
     min (case fb_failures fb key of
            Some entry \<Rightarrow> if now - fe_last_failure_ms entry \<le> fb_retention_ms fb
                          then u32_saturating_succ (fe_failures entry) else 1
          | None \<Rightarrow> 1) 31"

definition record_failure_at :: "failure_backoff \<Rightarrow> string \<Rightarrow> int \<Rightarrow> int \<times> failure_backoff" where
  "record_failure_at fb key now =
     (let failures = next_failure_count fb key now;
          multiplier = (case i64_checked_shl_1 (failures - 1) of Some m \<Rightarrow> m | None \<Rightarrow> i64_max);
          delay = min (saturating_mul (fb_base_delay_ms fb) multiplier) (fb_max_delay_ms fb)
      in (delay,
          fb\<lparr>fb_failures := (fb_failures fb)(key \<mapsto>
               \<lparr>fe_failures = failures, fe_retry_at_ms = saturating_add now delay,
                fe_last_failure_ms = now\<rparr>)\<rparr>))"

definition record_success :: "failure_backoff \<Rightarrow> string \<Rightarrow> failure_backoff" where
  "record_success fb key = fb\<lparr>fb_failures := (fb_failures fb)(key := None)\<rparr>"

definition failure_backoff_prune :: "failure_backoff \<Rightarrow> int \<Rightarrow> failure_backoff" where
  "failure_backoff_prune fb now =
     (let cutoff = now - fb_retention_ms fb
      in fb\<lparr>fb_failures := (\<lambda>k. case fb_failures fb k of
             None \<Rightarrow> None
           | Some entry \<Rightarrow> if fe_last_failure_ms entry > cutoff then Some entry else None)\<rparr>)"

definition backoff_wf :: "failure_backoff \<Rightarrow> bool" where
  "backoff_wf fb \<longleftrightarrow>
     1 \<le> fb_base_delay_ms fb \<and> fb_base_delay_ms fb \<le> fb_max_delay_ms fb \<and>
     fb_max_delay_ms fb \<le> i64_max \<and> 1 \<le> fb_retention_ms fb \<and>
     (\<forall>k entry. fb_failures fb k = Some entry \<longrightarrow> 1 \<le> fe_failures entry \<and> fe_failures entry \<le> 31)"

lemma backoff_wf_new:
  "i64_range base \<Longrightarrow> i64_range cap \<Longrightarrow> backoff_wf (failure_backoff_new base cap retention)"
  by (auto simp: backoff_wf_def failure_backoff_new_def i64_range_def i64_max_def)

lemma next_failure_count_bounds:
  "backoff_wf fb \<Longrightarrow> 1 \<le> next_failure_count fb key now \<and> next_failure_count fb key now \<le> 31"
  by (auto simp: next_failure_count_def u32_saturating_succ_def backoff_wf_def split: option.splits)

lemma backoff_wf_record_failure [invariant_intros]:
  "backoff_wf fb \<Longrightarrow> backoff_wf (snd (record_failure_at fb key now))"
  using next_failure_count_bounds [of fb key now]
  by (auto simp: record_failure_at_def Let_def backoff_wf_def)

lemma backoff_wf_record_success [invariant_intros]:
  "backoff_wf fb \<Longrightarrow> backoff_wf (record_success fb key)"
  by (auto simp: record_success_def backoff_wf_def)

lemma backoff_wf_prune [invariant_intros]:
  "backoff_wf fb \<Longrightarrow> backoff_wf (failure_backoff_prune fb now)"
  by (auto simp: failure_backoff_prune_def backoff_wf_def Let_def split: option.splits if_splits)

lemma record_failure_delay:
  assumes "backoff_wf fb"
  shows "fst (record_failure_at fb key now) =
           min (fb_base_delay_ms fb * 2 ^ (next_failure_count fb key now - 1)) (fb_max_delay_ms fb)"
proof -
  let ?n = "next_failure_count fb key now - 1"
  have "?n < 63" using next_failure_count_bounds [OF assms, of key now] by linarith
  moreover have "0 \<le> fb_base_delay_ms fb * 2 ^ ?n" using assms by (simp add: backoff_wf_def)
  moreover have "fb_max_delay_ms fb \<le> i64_max" using assms by (simp add: backoff_wf_def)
  ultimately show ?thesis
    by (auto simp: record_failure_at_def Let_def i64_checked_shl_1_def saturating_mul_def
        sat64_def i64_min_def)
qed

text \<open>A run of failures of one key at given clock readings: the delays handed out.\<close>

fun record_failures :: "failure_backoff \<Rightarrow> string \<Rightarrow> int list \<Rightarrow> int list \<times> failure_backoff" where
  "record_failures fb key [] = ([], fb)"
| "record_failures fb key (now # ts) =
     (let r = record_failure_at fb key now; rest = record_failures (snd r) key ts
      in (fst r # fst rest, snd rest))"

fun within_retention :: "int \<Rightarrow> int list \<Rightarrow> bool" where
  "within_retention ret (a # b # ts) = (b - a \<le> ret \<and> within_retention ret (b # ts))"
| "within_retention ret _ = True"

definition capped_delay :: "failure_backoff \<Rightarrow> nat \<Rightarrow> int" where
  "capped_delay fb n = min (fb_base_delay_ms fb * 2 ^ (min n 31 - 1)) (fb_max_delay_ms fb)"

lemma record_failure_config [simp]:
  "fb_base_delay_ms (snd (record_failure_at fb k t)) = fb_base_delay_ms fb"
  "fb_max_delay_ms (snd (record_failure_at fb k t)) = fb_max_delay_ms fb"
  "fb_retention_ms (snd (record_failure_at fb k t)) = fb_retention_ms fb"
  by (simp_all add: record_failure_at_def Let_def)

lemma record_failure_entry:
  "fb_failures (snd (record_failure_at fb k t)) =
     (fb_failures fb)(k \<mapsto>
        \<lparr>fe_failures = next_failure_count fb k t,
         fe_retry_at_ms = saturating_add t (fst (record_failure_at fb k t)),
         fe_last_failure_ms = t\<rparr>)"
  by (simp add: record_failure_at_def Let_def)

lemma capped_delay_record_failure [simp]:
  "capped_delay (snd (record_failure_at fb k t)) = capped_delay fb"
  by (rule ext) (simp add: capped_delay_def)

lemma next_failure_count_after:
  "backoff_wf fb \<Longrightarrow> t' - t \<le> fb_retention_ms fb \<Longrightarrow>
   next_failure_count (snd (record_failure_at fb k t)) k t' = min (Suc (next_failure_count fb k t)) 31"
  using next_failure_count_bounds [of fb k t]
  by (subst next_failure_count_def) (simp add: record_failure_entry u32_saturating_succ_def)

lemma record_failures_delays:
  assumes "backoff_wf fb" and "within_retention (fb_retention_ms fb) (t # ts)"
    and "next_failure_count fb k t = min n 31" and "1 \<le> n"
  shows "fst (record_failures fb k (t # ts)) = map (capped_delay fb) [n..<n + length (t # ts)]"
  using assms
proof (induction ts arbitrary: fb t n)
  case Nil
  then show ?case by (simp add: record_failure_delay capped_delay_def Let_def)
next
  case (Cons t' ts)
  let ?fb' = "snd (record_failure_at fb k t)"
  have "next_failure_count ?fb' k t' = min (Suc n) 31"
    using Cons.prems by (simp add: next_failure_count_after)
  then have "fst (record_failures ?fb' k (t' # ts)) = map (capped_delay fb) [Suc n..<Suc n + length (t' # ts)]"
    using Cons.IH [of ?fb' t' "Suc n"] Cons.prems by (simp add: backoff_wf_record_failure)
  moreover have "fst (record_failure_at fb k t) = capped_delay fb n"
    using Cons.prems by (simp add: record_failure_delay capped_delay_def)
  ultimately show ?case
    by (simp add: Let_def upt_rec [of n] del: upt_Suc)
qed

text \<open>
  The exponential cooldown. For an identity with no recorded failure, n failures
  each within the retention period of the one before are answered with the delays
  \<open>base, 2 base, 4 base, ...\<close>, each capped at the maximum (the exponent stops
  growing at the 31st failure).
\<close>

theorem failure_backoff_doubles:
  assumes "i64_range base" and "i64_range cap"
    and "within_retention (max retention 1) ts"
  shows "fst (record_failures (failure_backoff_new base cap retention) k ts) =
           map (\<lambda>n. min (max base 1 * 2 ^ (min n 31 - 1)) (max cap (max base 1))) [1..<Suc (length ts)]"
proof (cases ts)
  case Nil
  then show ?thesis by simp
next
  case (Cons t ts')
  let ?fb = "failure_backoff_new base cap retention"
  have "next_failure_count ?fb k t = min 1 31"
    by (simp add: next_failure_count_def failure_backoff_new_def)
  from record_failures_delays [OF backoff_wf_new [OF assms(1,2)], of retention t ts' k 1] this assms(3) Cons
  have "fst (record_failures ?fb k ts) = map (capped_delay ?fb) [1..<Suc (length ts)]"
    by (simp add: failure_backoff_new_def)
  moreover have "capped_delay ?fb n = min (max base 1 * 2 ^ (min n 31 - 1)) (max cap (max base 1))" for n
    by (simp add: capped_delay_def failure_backoff_new_def)
  ultimately show ?thesis by simp
qed

theorem failure_backoff_doubles_witness:
  "fst (record_failures (failure_backoff_new 250 1000 60000) ''viewer'' [10000, 10250, 10750, 11750]) =
     [250, 500, 1000, 1000]"
  using failure_backoff_doubles [of 250 1000 60000 "[10000, 10250, 10750, 11750]" "''viewer''"]
  by (simp add: i64_range_def i64_max_def i64_min_def)

text \<open>
  The cooldown protects one identity at a time and ends. After a failure at \<open>now\<close>
  the identity must wait exactly the delay that was returned, at least the base delay
  and at most the cap; a success clears the identity's own cooldown; no other
  identity's cooldown changes in either case.
\<close>

theorem failure_backoff_isolated:
  assumes "backoff_wf fb" and "0 \<le> now" and "now + fb_max_delay_ms fb \<le> i64_max"
  shows "retry_after_ms_at (snd (record_failure_at fb k now)) k now = fst (record_failure_at fb k now) \<and>
         fb_base_delay_ms fb \<le> fst (record_failure_at fb k now) \<and>
         fst (record_failure_at fb k now) \<le> fb_max_delay_ms fb \<and>
         retry_after_ms_at (record_success fb k) k now = 0 \<and>
         (\<forall>k'. k' \<noteq> k \<longrightarrow>
            retry_after_ms_at (snd (record_failure_at fb k now)) k' t = retry_after_ms_at fb k' t \<and>
            retry_after_ms_at (record_success fb k) k' t = retry_after_ms_at fb k' t)"
proof -
  let ?d = "fst (record_failure_at fb k now)"
  have "fb_base_delay_ms fb * 1 \<le> fb_base_delay_ms fb * 2 ^ (next_failure_count fb k now - 1)"
    using assms(1) by (intro mult_left_mono) (auto simp: backoff_wf_def)
  then have d: "fb_base_delay_ms fb \<le> ?d" "?d \<le> fb_max_delay_ms fb" "1 \<le> fb_base_delay_ms fb"
    using assms(1) by (auto simp: record_failure_delay backoff_wf_def)
  have "i64_range (now + ?d)" "i64_range ?d"
    using d assms by (auto simp: i64_range_def i64_min_def)
  then have "retry_after_ms_at (snd (record_failure_at fb k now)) k now = ?d"
    using d by (simp add: retry_after_ms_at_def record_failure_entry saturating_add_def saturating_sub_def)
  then show ?thesis
    using d by (auto simp: retry_after_ms_at_def record_success_def record_failure_entry)
qed

theorem failure_backoff_isolated_witness:
  "retry_after_ms_at (snd (record_failure_at (failure_backoff_new 250 1000 60000) ''a'' 5)) ''a'' 5 = 250"
proof -
  let ?fb = "failure_backoff_new 250 1000 60000"
  have "backoff_wf ?fb" by (rule backoff_wf_new) (simp_all add: i64_range_def i64_max_def i64_min_def)
  then have "retry_after_ms_at (snd (record_failure_at ?fb ''a'' 5)) ''a'' 5 = fst (record_failure_at ?fb ''a'' 5)"
    using failure_backoff_isolated [of ?fb 5 "''a''" 0] by (simp add: failure_backoff_new_def i64_max_def)
  also have "\<dots> = 250"
    by (simp add: record_failure_at_def next_failure_count_def failure_backoff_new_def Let_def
        i64_checked_shl_1_def saturating_mul_def sat64_def i64_max_def i64_min_def)
  finally show ?thesis .
qed

end
