(* ===== verification/SqlTable.thy ===== *)
theory SqlTable
  imports Prelude
begin

text \<open>
  The SQL statements embedded in \<open>src/persistence.rs\<close> and \<open>src/persistence/\<close>, as list
  operations. A table is the list of its rows in rowid order; \<open>key\<close> is its primary key.
  \<open>SELECT ... WHERE\<close> is \<open>filter\<close>, \<open>DELETE ... WHERE P\<close> is \<open>delete_where\<close>,
  \<open>UPDATE ... SET f WHERE P\<close> is \<open>update_where\<close> with \<open>count_where\<close> for the number of
  rows changed, \<open>INSERT ... ON CONFLICT(key) DO UPDATE\<close> is \<open>upsert\<close> with a merge
  function from the stored and the excluded row. A transaction that commits is the
  composition of its statements; one that is dropped leaves the tables as they were.
  \<open>LIKE\<close> is SQLite's default: \<open>%\<close> and \<open>_\<close> are wildcards and ASCII letters match
  in either case. I/O and busy errors of SQLite itself are not modelled.
\<close>

section \<open>Statements\<close>

definition find_row :: "('r \<Rightarrow> 'k) \<Rightarrow> 'k \<Rightarrow> 'r list \<Rightarrow> 'r option" where
  "find_row key k t = find (\<lambda>r. key r = k) t"

definition delete_where :: "('r \<Rightarrow> bool) \<Rightarrow> 'r list \<Rightarrow> 'r list" where
  "delete_where P t = filter (\<lambda>r. \<not> P r) t"

definition update_where :: "('r \<Rightarrow> bool) \<Rightarrow> ('r \<Rightarrow> 'r) \<Rightarrow> 'r list \<Rightarrow> 'r list" where
  "update_where P f t = map (\<lambda>r. if P r then f r else r) t"

definition count_where :: "('r \<Rightarrow> bool) \<Rightarrow> 'r list \<Rightarrow> nat" where
  "count_where P t = length (filter P t)"

definition upsert :: "('r \<Rightarrow> 'k) \<Rightarrow> ('r \<Rightarrow> 'r \<Rightarrow> 'r) \<Rightarrow> 'r \<Rightarrow> 'r list \<Rightarrow> 'r list" where
  "upsert key merge new t =
     (if key new \<in> set (map key t)
      then map (\<lambda>r. if key r = key new then merge r new else r) t
      else t @ [new])"

text \<open>
  \<open>trim_table\<close>: when the table has more than \<open>max_entries\<close> rows, delete the overflow
  of rows that come first in the order column, by rowid (a row's index here).
\<close>

definition oldest_rowids :: "('r \<Rightarrow> int) \<Rightarrow> nat \<Rightarrow> 'r list \<Rightarrow> nat list" where
  "oldest_rowids ord n t = map fst (take n (sort_key (\<lambda>(_, r). ord r) (enumerate 0 t)))"

definition trim_table :: "('r \<Rightarrow> int) \<Rightarrow> nat \<Rightarrow> 'r list \<Rightarrow> 'r list" where
  "trim_table ord max_entries t =
     (let current = length t
      in if current \<le> max_entries then t
         else let doomed = oldest_rowids ord (current - max_entries) t
              in map snd (filter (\<lambda>(i, _). i \<notin> set doomed) (enumerate 0 t)))"

fun sql_like :: "string \<Rightarrow> string \<Rightarrow> bool" where
  "sql_like [] [] = True"
| "sql_like [] (_ # _) = False"
| "sql_like (p # ps) [] = (p = CHR ''%'' \<and> sql_like ps [])"
| "sql_like (p # ps) (x # xs) =
     (if p = CHR ''%'' then sql_like ps (x # xs) \<or> sql_like (p # ps) xs
      else if p = CHR ''_'' then sql_like ps xs
      else lower_char p = lower_char x \<and> sql_like ps xs)"

section \<open>Laws\<close>

text \<open>\<open>TRIM\<close> with one argument removes spaces only.\<close>

definition sql_trim :: "string \<Rightarrow> string" where
  "sql_trim s = rev (dropWhile (\<lambda>c. c = CHR '' '') (rev (dropWhile (\<lambda>c. c = CHR '' '') s)))"

definition keyed :: "('r \<Rightarrow> 'k) \<Rightarrow> 'r list \<Rightarrow> bool" where
  "keyed key t \<longleftrightarrow> distinct (map key t)"

lemma find_row_Nil [simp]: "find_row key k [] = None"
  by (simp add: find_row_def)

lemma find_row_Cons [simp]:
  "find_row key k (r # t) = (if key r = k then Some r else find_row key k t)"
  by (simp add: find_row_def)

lemma find_row_append:
  "find_row key k (t @ u) = (case find_row key k t of None \<Rightarrow> find_row key k u | Some r \<Rightarrow> Some r)"
  by (induction t) auto

lemma find_row_None_iff: "find_row key k t = None \<longleftrightarrow> k \<notin> set (map key t)"
  by (induction t) auto

lemma find_row_SomeD: "find_row key k t = Some r \<Longrightarrow> r \<in> set t \<and> key r = k"
  by (induction t) (auto split: if_splits)

lemma find_row_Some_iff: "keyed key t \<Longrightarrow> find_row key k t = Some r \<longleftrightarrow> r \<in> set t \<and> key r = k"
  by (induction t) (auto simp: keyed_def split: if_splits)

lemma keyed_filter [simp]: "keyed key t \<Longrightarrow> keyed key (filter P t)"
  by (simp add: keyed_def distinct_map_filter)

lemma keyed_delete_where [simp]: "keyed key t \<Longrightarrow> keyed key (delete_where P t)"
  by (simp add: delete_where_def)

lemma keyed_update_where [simp]:
  "(\<And>r. P r \<Longrightarrow> key (f r) = key r) \<Longrightarrow> keyed key (update_where P f t) = keyed key t"
  by (simp add: keyed_def update_where_def comp_def if_distrib cong: if_cong)

lemma set_delete_where [simp]: "set (delete_where P t) = {r \<in> set t. \<not> P r}"
  by (auto simp: delete_where_def)

lemma keyed_Nil [simp]: "keyed key []"
  by (simp add: keyed_def)

lemma keyed_inj: "keyed key t \<Longrightarrow> r \<in> set t \<Longrightarrow> r' \<in> set t \<Longrightarrow> key r = key r' \<Longrightarrow> r = r'"
  by (auto simp: keyed_def distinct_map inj_on_def)

lemma find_row_delete_at [simp]:
  "find_row key k (delete_where (\<lambda>r. key r = k') t) = (if k = k' then None else find_row key k t)"
  by (induction t) (auto simp: delete_where_def)

lemma find_row_delete_where:
  assumes "keyed key t"
  shows "find_row key k (delete_where P t) =
           (case find_row key k t of None \<Rightarrow> None | Some r \<Rightarrow> if P r then None else Some r)"
  using assms
proof (induction t)
  case (Cons r t)
  have "find_row key (key r) t = None"
    using Cons.prems by (simp add: keyed_def find_row_None_iff)
  moreover have "find_row key (key r) (delete_where P t) = None"
    using Cons.prems by (auto simp: keyed_def find_row_None_iff)
  ultimately show ?case
    using Cons by (auto simp: delete_where_def keyed_def split: option.splits)
qed (simp add: delete_where_def)

lemma find_row_update_where:
  assumes "\<And>r. P r \<Longrightarrow> key (f r) = key r"
  shows "find_row key k (update_where P f t) =
           map_option (\<lambda>r. if P r then f r else r) (find_row key k t)"
  using assms by (induction t) (auto simp: update_where_def)

lemma keyed_upsert [simp]:
  assumes "keyed key t" and "\<And>r. key (merge r new) = key r"
  shows "keyed key (upsert key merge new t)"
proof -
  have "map key (map (\<lambda>r. if key r = key new then merge r new else r) t) = map key t"
    using assms(2) by simp
  then show ?thesis
    using assms(1) by (auto simp: upsert_def keyed_def simp del: map_map)
qed

lemma find_row_upsert:
  assumes "\<And>r. key (merge r new) = key r"
  shows "find_row key k (upsert key merge new t) =
           (if k = key new
            then (case find_row key k t of None \<Rightarrow> Some new | Some r \<Rightarrow> Some (merge r new))
            else find_row key k t)"
proof (cases "key new \<in> set (map key t)")
  case True
  have "find_row key k (map (\<lambda>r. if key r = key new then merge r new else r) t) =
          (if k = key new then map_option (\<lambda>r. merge r new) (find_row key k t) else find_row key k t)"
    using assms by (induction t) auto
  moreover have "find_row key (key new) t \<noteq> None"
    using True by (simp add: find_row_None_iff)
  ultimately show ?thesis
    using True by (auto simp: upsert_def)
next
  case False
  then have "find_row key (key new) t = None"
    by (simp add: find_row_None_iff)
  with False show ?thesis
    by (auto simp: upsert_def find_row_append split: option.splits)
qed

lemma count_where_zero [simp]: "count_where P t = 0 \<longleftrightarrow> (\<forall>r \<in> set t. \<not> P r)"
  by (auto simp: count_where_def filter_empty_conv)

lemma count_where_key:
  assumes "keyed key t"
  shows "count_where (\<lambda>r. key r = k \<and> P r) t =
           (case find_row key k t of None \<Rightarrow> 0 | Some r \<Rightarrow> if P r then 1 else 0)"
  using assms
proof (induction t)
  case (Cons r t)
  show ?case
  proof (cases "key r = k")
    case True
    with Cons.prems have "find_row key k t = None"
      by (auto simp: keyed_def find_row_None_iff)
    with Cons True show ?thesis by (auto simp: keyed_def count_where_def)
  next
    case False
    with Cons show ?thesis by (auto simp: keyed_def count_where_def)
  qed
qed (simp add: count_where_def)

lemma update_where_none:
  "(\<And>r. r \<in> set t \<Longrightarrow> \<not> P r) \<Longrightarrow> update_where P f t = t"
  by (induction t) (auto simp: update_where_def)

subsection \<open>Trimming\<close>

lemma sort_key_take_le:
  assumes "x \<in> set (take n (sort_key f xs))" and "y \<in> set (drop n (sort_key f xs))"
  shows "f x \<le> f y"
proof -
  let ?s = "sort_key f xs"
  have "sorted (map f (take n ?s @ drop n ?s))" by simp
  then have "\<forall>a \<in> set (map f (take n ?s)). \<forall>b \<in> set (map f (drop n ?s)). a \<le> b"
    unfolding map_append sorted_append by blast
  with assms show ?thesis by auto
qed

lemma distinct_enumerate_fst: "distinct (map fst (sort_key f (enumerate 0 t)))"
proof -
  have "mset (map fst (sort_key f (enumerate 0 t))) = mset [0..<length t]"
    by (metis add_0 map_fst_enumerate mset_map mset_sort)
  then show ?thesis
    by (metis distinct_upt mset_eq_imp_distinct_iff)
qed

lemma length_oldest_rowids: "length (oldest_rowids ord n t) = min n (length t)"
  by (simp add: oldest_rowids_def min.commute)

lemma oldest_rowids_distinct: "distinct (oldest_rowids ord n t)"
  by (metis distinct_enumerate_fst distinct_take oldest_rowids_def take_map)

lemma oldest_rowids_bound: "i \<in> set (oldest_rowids ord n t) \<Longrightarrow> i < length t"
  by (auto simp: oldest_rowids_def in_set_enumerate_eq dest!: in_set_takeD)

lemma oldest_rowids_order:
  assumes "i \<in> set (oldest_rowids ord n t)" and "j \<notin> set (oldest_rowids ord n t)" and "j < length t"
  shows "ord (t ! i) \<le> ord (t ! j)"
proof -
  let ?f = "\<lambda>(_::nat, r). ord r"
  let ?s = "sort_key ?f (enumerate 0 t)"
  obtain r where i: "(i, r) \<in> set (take n ?s)"
    using assms(1) by (auto simp: oldest_rowids_def)
  have "(j, t ! j) \<in> set (take n ?s @ drop n ?s)"
    unfolding append_take_drop_id using assms(3) by (simp add: in_set_enumerate_eq)
  moreover have "(j, t ! j) \<notin> set (take n ?s)"
    using assms(2) by (force simp: oldest_rowids_def)
  ultimately have "(j, t ! j) \<in> set (drop n ?s)" unfolding set_append by blast
  with i have "?f (i, r) \<le> ?f (j, t ! j)" by (rule sort_key_take_le)
  moreover have "r = t ! i"
    using i by (auto simp: in_set_enumerate_eq dest!: in_set_takeD)
  ultimately show ?thesis by simp
qed

lemma length_filter_rowids:
  assumes "distinct is" and "\<And>i. i \<in> set is \<Longrightarrow> i < length t"
  shows "length (filter (\<lambda>(i, _). i \<notin> set is) (enumerate 0 t)) = length t - length is"
proof -
  have "length (filter (\<lambda>(i, _). i \<notin> set is) (enumerate 0 t)) =
          card {i. i < length t \<and> i \<notin> set is}"
    by (subst length_filter_conv_card)
      (auto simp: nth_enumerate_eq intro!: arg_cong [where f = card])
  also have "{i. i < length t \<and> i \<notin> set is} = {..<length t} - set is" by auto
  also have "card \<dots> = length t - length is"
    using assms by (subst card_Diff_subset) (auto simp: distinct_card)
  finally show ?thesis .
qed

lemma length_trim_table [simp]: "length (trim_table ord m t) = min m (length t)"
  by (auto simp: trim_table_def Let_def length_filter_rowids oldest_rowids_distinct
      oldest_rowids_bound length_oldest_rowids)

lemma trim_table_subset: "set (trim_table ord m t) \<subseteq> set t"
  by (auto simp: trim_table_def Let_def in_set_enumerate_eq split: if_splits)

lemma subseq_keyed_trim: "keyed key t \<Longrightarrow> keyed key (trim_table ord m t)"
proof -
  assume k: "keyed key t"
  have "distinct (map (key \<circ> snd) (enumerate 0 t))"
    using k by (metis keyed_def map_map map_snd_enumerate)
  then have "distinct (map (key \<circ> snd) (filter Q (enumerate 0 t)))" for Q
    by (rule distinct_map_filter)
  with k show ?thesis
    by (auto simp: trim_table_def Let_def keyed_def)
qed

lemma trim_table_keeps_newest:
  assumes "r \<in> set t" and "r \<notin> set (trim_table ord m t)" and "r' \<in> set (trim_table ord m t)"
  shows "ord r \<le> ord r'"
proof -
  let ?d = "oldest_rowids ord (length t - m) t"
  have big: "\<not> length t \<le> m" using assms by (auto simp: trim_table_def)
  obtain i where i: "i < length t" "t ! i = r" using assms(1) by (auto simp: in_set_conv_nth)
  have mem: "t ! j \<in> set (trim_table ord m t)" if "j < length t" "j \<notin> set ?d" for j
    using big that by (force simp: trim_table_def Let_def in_set_enumerate_eq)
  have "i \<in> set ?d" using mem i assms(2) by blast
  moreover obtain j where "j < length t" "t ! j = r'" "j \<notin> set ?d"
    using assms(3) big by (auto simp: trim_table_def Let_def in_set_enumerate_eq)
  ultimately show ?thesis
    using oldest_rowids_order [of i ord "length t - m" t j] i by simp
qed

subsection \<open>LIKE\<close>

definition plain_pattern :: "string \<Rightarrow> bool" where
  "plain_pattern p \<longleftrightarrow> CHR ''%'' \<notin> set p \<and> CHR ''_'' \<notin> set p"

lemma sql_like_any [simp]: "sql_like ''%'' s"
  by (induction s) auto

lemma sql_like_plain:
  "plain_pattern p \<Longrightarrow> sql_like p s \<longleftrightarrow> lower p = lower s"
  by (induction p s rule: sql_like.induct) (auto simp: plain_pattern_def lower_def)

text \<open>A pattern without wildcards followed by \<open>%\<close> is a prefix test on the lower-cased strings.\<close>

lemma sql_like_prefix:
  "plain_pattern p \<Longrightarrow> sql_like (p @ ''%'') s \<longleftrightarrow> starts_with (lower s) (lower p)"
proof (induction p arbitrary: s)
  case (Cons c p)
  then show ?case
    by (cases s) (auto simp: plain_pattern_def lower_def)
qed (cases s; simp)

end
