(* ===== verification/Json.thy ===== *)
theory Json
  imports Prelude
begin

text \<open>
  \<open>serde_json::Value\<close> as the source uses it: its constructors and its accessors
  (\<open>get\<close>, \<open>as_str\<close>, \<open>as_i64\<close>, \<open>as_u64\<close>, \<open>as_f64\<close>, \<open>is_object\<close>). A number is an
  integer of the \<open>i64\<close>/\<open>u64\<close> range or a finite float, here a rational. An object is the
  list of its entries, with distinct keys. Parsing and printing text are the library's
  and stay parameters \<open>parse\<close> and \<open>print\<close> of the definitions that use them. Also
  \<open>f64\<close>, with the one operation the program applies to stored positions.
\<close>

datatype f64 = Fin rat | PosInf | NegInf | NaN

text \<open>\<open>f64::max(0.0)\<close>: a NaN operand is ignored.\<close>

fun f64_max0 :: "f64 \<Rightarrow> f64" where
  "f64_max0 (Fin x) = Fin (max x 0)"
| "f64_max0 PosInf = PosInf"
| "f64_max0 NegInf = Fin 0"
| "f64_max0 NaN = Fin 0"

fun f64_nonneg :: "f64 \<Rightarrow> bool" where
  "f64_nonneg (Fin x) = (0 \<le> x)"
| "f64_nonneg PosInf = True"
| "f64_nonneg _ = False"

lemma f64_max0_nonneg [simp]: "f64_nonneg (f64_max0 x)"
  by (cases x) auto

lemma f64_max0_id: "f64_nonneg x \<Longrightarrow> f64_max0 x = x"
  by (cases x) auto

datatype json =
    JNull
  | JBool bool
  | JInt int
  | JFloat rat
  | JStr string
  | JArr "json list"
  | JObj "(string \<times> json) list"

type_synonym json_parser = "string \<Rightarrow> json option"

fun json_get :: "string \<Rightarrow> json \<Rightarrow> json option" where
  "json_get k (JObj kvs) = map_of kvs k"
| "json_get _ _ = None"

fun as_str :: "json \<Rightarrow> string option" where
  "as_str (JStr s) = Some s"
| "as_str _ = None"

fun as_i64 :: "json \<Rightarrow> int option" where
  "as_i64 (JInt n) = (if i64_range n then Some n else None)"
| "as_i64 _ = None"

fun as_u64 :: "json \<Rightarrow> int option" where
  "as_u64 (JInt n) = (if 0 \<le> n \<and> n < 2 ^ 64 then Some n else None)"
| "as_u64 _ = None"

text \<open>Integers convert exactly below \<open>2 ^ 53\<close>, which every position in seconds is.\<close>

fun as_f64 :: "json \<Rightarrow> rat option" where
  "as_f64 (JInt n) = Some (of_int n)"
| "as_f64 (JFloat x) = Some x"
| "as_f64 _ = None"

fun is_object :: "json \<Rightarrow> bool" where
  "is_object (JObj _) = True"
| "is_object _ = False"

text \<open>\<open>entry.get(k).and_then(Value::as_str).unwrap_or_default()\<close>\<close>

definition str_field :: "string \<Rightarrow> json \<Rightarrow> string" where
  "str_field k v = (case Option.bind (json_get k v) as_str of None \<Rightarrow> [] | Some s \<Rightarrow> s)"

end
