(* ===== verification/UserState.thy ===== *)
theory UserState
  imports SqlTable Json
begin

text \<open>
  Replay-safe user state: \<open>src/persistence/user_state.rs\<close> and the accessors of
  \<open>src/persistence.rs\<close> that call it. Watch progress and continue-watching rows carry the
  version \<open>updated_at\<close> the client chose; a deletion leaves a tombstone with its own
  version. Clients retry and reorder these mutations, so what the tables show must not
  depend on the order of arrival. The specification is a register per user and item:
  absent, live at a version, or dead at a version; the newest mutation wins and a
  deletion wins a tie. \<open>progress_reg\<close> is the abstraction from the two tables to that
  register, each operation refines the register's, and the register's mutations
  commute and can be replayed (an instance of \<open>replayable_steps\<close>).
\<close>

section \<open>Rows and tables\<close>

record tombstone_row =
  ts_user_id :: int
  ts_state_domain :: string
  ts_item_identity :: string
  ts_deleted_at :: int

record progress_row =
  wp_user_id :: int
  wp_source_identity :: string
  wp_resume_seconds :: f64
  wp_updated_at :: int

record continue_row =
  cw_user_id :: int
  cw_source_identity :: string
  cw_title :: string
  cw_episode :: string
  cw_src :: string
  cw_tmdb_id :: string
  cw_media_type :: string
  cw_series_id :: string
  cw_episode_index :: int
  cw_year :: string
  cw_thumb :: string
  cw_source_hash :: string
  cw_session_key :: string
  cw_resolver_provider :: string
  cw_source_input :: string
  cw_filename :: string
  cw_resume_seconds :: f64
  cw_updated_at :: int

record user_state =
  us_tombstones :: "tombstone_row list"
  us_progress :: "progress_row list"
  us_continue :: "continue_row list"

definition ts_key :: "tombstone_row \<Rightarrow> int \<times> string \<times> string" where
  "ts_key r = (ts_user_id r, ts_state_domain r, ts_item_identity r)"

definition wp_key :: "progress_row \<Rightarrow> int \<times> string" where
  "wp_key r = (wp_user_id r, wp_source_identity r)"

definition cw_key :: "continue_row \<Rightarrow> int \<times> string" where
  "cw_key r = (cw_user_id r, cw_source_identity r)"

definition WATCH_PROGRESS_DOMAIN :: string where
  "WATCH_PROGRESS_DOMAIN = ''watch_progress''"

definition CONTINUE_WATCHING_DOMAIN :: string where
  "CONTINUE_WATCHING_DOMAIN = ''continue_watching''"

lemma domains_differ [simp]:
  "WATCH_PROGRESS_DOMAIN \<noteq> CONTINUE_WATCHING_DOMAIN" "CONTINUE_WATCHING_DOMAIN \<noteq> WATCH_PROGRESS_DOMAIN"
  by (simp_all add: WATCH_PROGRESS_DOMAIN_def CONTINUE_WATCHING_DOMAIN_def)

section \<open>Tombstones\<close>

definition mutation_is_blocked_by_tombstone ::
  "user_state \<Rightarrow> int \<Rightarrow> string \<Rightarrow> string \<Rightarrow> int \<Rightarrow> bool" where
  "mutation_is_blocked_by_tombstone db user_id domain identity updated_at =
     (case find_row ts_key (user_id, domain, identity) (us_tombstones db) of
        None \<Rightarrow> False
      | Some r \<Rightarrow> ts_deleted_at r \<ge> updated_at)"

definition clear_obsolete_tombstone ::
  "user_state \<Rightarrow> int \<Rightarrow> string \<Rightarrow> string \<Rightarrow> int \<Rightarrow> user_state" where
  "clear_obsolete_tombstone db user_id domain identity updated_at =
     db\<lparr>us_tombstones := delete_where
          (\<lambda>r. ts_key r = (user_id, domain, identity) \<and> ts_deleted_at r < updated_at)
          (us_tombstones db)\<rparr>"

definition record_tombstone ::
  "user_state \<Rightarrow> int \<Rightarrow> string \<Rightarrow> string \<Rightarrow> int \<Rightarrow> user_state" where
  "record_tombstone db user_id domain identity deleted_at =
     db\<lparr>us_tombstones := upsert ts_key
          (\<lambda>old new. old\<lparr>ts_deleted_at := max (ts_deleted_at old) (ts_deleted_at new)\<rparr>)
          \<lparr>ts_user_id = user_id, ts_state_domain = domain, ts_item_identity = identity,
           ts_deleted_at = deleted_at\<rparr>
          (us_tombstones db)\<rparr>"

definition tombstone_at :: "user_state \<Rightarrow> int \<Rightarrow> string \<Rightarrow> string \<Rightarrow> int option" where
  "tombstone_at db user_id domain identity =
     map_option ts_deleted_at (find_row ts_key (user_id, domain, identity) (us_tombstones db))"

section \<open>Series identities\<close>

definition series_prefix :: "string \<Rightarrow> string" where
  "series_prefix series_id = ''series:'' @ series_id @ '':episode:''"

definition tmdb_tv_prefix :: "string \<Rightarrow> string" where
  "tmdb_tv_prefix tmdb_id = ''tmdb:tv:'' @ tmdb_id"

definition eq_ignore_ascii_case :: "string \<Rightarrow> string \<Rightarrow> bool" where
  "eq_ignore_ascii_case a b \<longleftrightarrow> lower a = lower b"

text \<open>The tests of \<open>tombstone_watch_progress_series\<close> and of its continue-watching twin.\<close>

definition identity_in_series :: "string \<Rightarrow> string \<Rightarrow> bool" where
  "identity_in_series series_id identity \<longleftrightarrow> starts_with (lower identity) (series_prefix series_id)"

definition identity_in_tmdb :: "string option \<Rightarrow> string \<Rightarrow> bool" where
  "identity_in_tmdb tmdb_id identity =
     (case tmdb_id of
        None \<Rightarrow> False
      | Some v \<Rightarrow> eq_ignore_ascii_case identity (tmdb_tv_prefix v) \<or>
                 starts_with (lower identity) (lower (tmdb_tv_prefix v) @ '':''))"

definition continue_row_in_series :: "string \<Rightarrow> string option \<Rightarrow> continue_row \<Rightarrow> bool" where
  "continue_row_in_series series_id tmdb_id r \<longleftrightarrow>
     (lower (cw_series_id r) = series_id \<or> identity_in_series series_id (cw_source_identity r)) \<or>
     (\<exists>v \<in> set_option tmdb_id. lower (cw_media_type r) = ''tv'' \<and> cw_tmdb_id r = v) \<or>
     identity_in_tmdb tmdb_id (cw_source_identity r)"

definition tombstone_watch_progress_series ::
  "user_state \<Rightarrow> int \<Rightarrow> string \<Rightarrow> string option \<Rightarrow> int \<Rightarrow> user_state" where
  "tombstone_watch_progress_series db user_id series_id tmdb_id deleted_at =
     fold (\<lambda>identity db.
            if identity_in_series series_id identity \<or> identity_in_tmdb tmdb_id identity
            then record_tombstone db user_id WATCH_PROGRESS_DOMAIN identity deleted_at else db)
       (map wp_source_identity
          (filter (\<lambda>r. wp_user_id r = user_id \<and> wp_updated_at r \<le> deleted_at) (us_progress db)))
       db"

definition tombstone_continue_series ::
  "user_state \<Rightarrow> int \<Rightarrow> string \<Rightarrow> string option \<Rightarrow> int \<Rightarrow> string option \<Rightarrow> user_state" where
  "tombstone_continue_series db user_id series_id tmdb_id deleted_at except_identity =
     fold (\<lambda>r db.
            if except_identity = Some (cw_source_identity r) then db
            else if continue_row_in_series series_id tmdb_id r
            then record_tombstone db user_id CONTINUE_WATCHING_DOMAIN (cw_source_identity r) deleted_at
            else db)
       (filter (\<lambda>r. cw_user_id r = user_id \<and> cw_updated_at r \<le> deleted_at) (us_continue db))
       db"

definition latest_continue_series_updated_at ::
  "user_state \<Rightarrow> int \<Rightarrow> string \<Rightarrow> string option \<Rightarrow> int" where
  "latest_continue_series_updated_at db user_id series_id tmdb_id =
     (case map cw_updated_at
             (filter (continue_row_in_series series_id tmdb_id)
               (filter (\<lambda>r. cw_user_id r = user_id) (us_continue db))) of
        [] \<Rightarrow> 0
      | ts \<Rightarrow> Max (set ts))"

section \<open>Mutations\<close>

definition upsert_watch_progress ::
  "user_state \<Rightarrow> int \<Rightarrow> string \<Rightarrow> f64 \<Rightarrow> int \<Rightarrow> bool \<times> user_state" where
  "upsert_watch_progress db user_id identity resume_seconds updated_at =
     (if mutation_is_blocked_by_tombstone db user_id WATCH_PROGRESS_DOMAIN identity updated_at
      then (False, db)
      else
        let db = clear_obsolete_tombstone db user_id WATCH_PROGRESS_DOMAIN identity updated_at;
            changed = (case find_row wp_key (user_id, identity) (us_progress db) of
                None \<Rightarrow> True | Some r \<Rightarrow> updated_at \<ge> wp_updated_at r);
            t = upsert wp_key
                  (\<lambda>old new. if wp_updated_at new \<ge> wp_updated_at old
                     then old\<lparr>wp_resume_seconds := wp_resume_seconds new,
                              wp_updated_at := wp_updated_at new\<rparr>
                     else old)
                  \<lparr>wp_user_id = user_id, wp_source_identity = identity,
                   wp_resume_seconds = resume_seconds, wp_updated_at = updated_at\<rparr>
                  (us_progress db)
        in (changed, db\<lparr>us_progress := t\<rparr>))"

datatype user_state_table = User_watch_progress | User_continue_watching

definition delete_item ::
  "user_state \<Rightarrow> int \<Rightarrow> string \<Rightarrow> user_state_table \<Rightarrow> string \<Rightarrow> int \<Rightarrow> user_state" where
  "delete_item db user_id domain table identity deleted_at =
     (let db = record_tombstone db user_id domain identity deleted_at
      in case table of
           User_watch_progress \<Rightarrow>
             db\<lparr>us_progress := delete_where
                  (\<lambda>r. wp_key r = (user_id, identity) \<and> wp_updated_at r \<le> deleted_at) (us_progress db)\<rparr>
         | User_continue_watching \<Rightarrow>
             db\<lparr>us_continue := delete_where
                  (\<lambda>r. cw_key r = (user_id, identity) \<and> cw_updated_at r \<le> deleted_at) (us_continue db)\<rparr>)"

definition upsert_user_watch_progress ::
  "user_state \<Rightarrow> int \<Rightarrow> string \<Rightarrow> f64 \<Rightarrow> int \<Rightarrow> user_state" where
  "upsert_user_watch_progress db user_id identity resume_seconds updated_at =
     snd (upsert_watch_progress db user_id identity resume_seconds updated_at)"

definition delete_user_watch_progress :: "user_state \<Rightarrow> int \<Rightarrow> string \<Rightarrow> int \<Rightarrow> user_state" where
  "delete_user_watch_progress db user_id identity deleted_at =
     delete_item db user_id WATCH_PROGRESS_DOMAIN User_watch_progress identity deleted_at"

definition delete_user_continue_watching :: "user_state \<Rightarrow> int \<Rightarrow> string \<Rightarrow> int \<Rightarrow> user_state" where
  "delete_user_continue_watching db user_id identity deleted_at =
     delete_item db user_id CONTINUE_WATCHING_DOMAIN User_continue_watching identity deleted_at"

definition get_user_watch_progress :: "user_state \<Rightarrow> int \<Rightarrow> (string \<times> f64 \<times> int) list" where
  "get_user_watch_progress db user_id =
     map (\<lambda>r. (wp_source_identity r, wp_resume_seconds r, wp_updated_at r))
       (filter (\<lambda>r. wp_user_id r = user_id) (us_progress db))"

definition tmdb_tv_id_from_series_id :: "string \<Rightarrow> string option" where
  "tmdb_tv_id_from_series_id series_id =
     (case strip_prefix ''tmdb-tv-'' (lower (trim series_id)) of
        None \<Rightarrow> None
      | Some tmdb_id \<Rightarrow>
          if list_all is_ascii_digit tmdb_id \<and> tmdb_id \<noteq> [] then Some tmdb_id else None)"

text \<open>The \<open>WHERE\<close> clause of the two series deletions, with SQL's \<open>LIKE\<close>.\<close>

definition sql_series_match :: "string \<Rightarrow> string option \<Rightarrow> string \<Rightarrow> bool" where
  "sql_series_match series_id tmdb_id identity \<longleftrightarrow>
     sql_like (series_prefix series_id @ ''%'') identity \<or>
     (case tmdb_id of
        None \<Rightarrow> False
      | Some v \<Rightarrow> identity = tmdb_tv_prefix v \<or> sql_like (tmdb_tv_prefix v @ '':%'') identity)"

definition delete_user_watch_progress_for_series :: "user_state \<Rightarrow> int \<Rightarrow> string \<Rightarrow> int \<Rightarrow> user_state" where
  "delete_user_watch_progress_for_series db user_id series_id deleted_at =
     (let normalized = lower (trim series_id);
          tmdb_id = tmdb_tv_id_from_series_id normalized;
          db = tombstone_watch_progress_series db user_id normalized tmdb_id deleted_at
      in db\<lparr>us_progress := delete_where
             (\<lambda>r. wp_user_id r = user_id \<and> sql_series_match normalized tmdb_id (wp_source_identity r) \<and>
                  wp_updated_at r \<le> deleted_at)
             (us_progress db)\<rparr>)"

definition delete_user_continue_watching_for_series :: "user_state \<Rightarrow> int \<Rightarrow> string \<Rightarrow> int \<Rightarrow> user_state" where
  "delete_user_continue_watching_for_series db user_id series_id deleted_at =
     (let normalized = lower (trim series_id);
          tmdb_id = tmdb_tv_id_from_series_id normalized;
          db = tombstone_continue_series db user_id normalized tmdb_id deleted_at None
      in db\<lparr>us_continue := delete_where
             (\<lambda>r. cw_user_id r = user_id \<and>
                  (lower (cw_series_id r) = normalized \<or>
                   sql_series_match normalized tmdb_id (cw_source_identity r) \<or>
                   (\<exists>v \<in> set_option tmdb_id. cw_tmdb_id r = v \<and> lower (cw_media_type r) = ''tv'')) \<and>
                  cw_updated_at r \<le> deleted_at)
             (us_continue db)\<rparr>)"

section \<open>The specification: a register per user and item\<close>

datatype register = Absent | Live int f64 | Dead int

fun reg_put :: "int \<Rightarrow> f64 \<Rightarrow> register \<Rightarrow> register" where
  "reg_put t v Absent = Live t v"
| "reg_put t v (Live u w) = (if t \<ge> u then Live t v else Live u w)"
| "reg_put t v (Dead d) = (if d \<ge> t then Dead d else Live t v)"

fun reg_delete :: "int \<Rightarrow> register \<Rightarrow> register" where
  "reg_delete t Absent = Dead t"
| "reg_delete t (Live u w) = (if u \<le> t then Dead t else Live u w)"
| "reg_delete t (Dead d) = Dead (max d t)"

datatype mutation = Put int string f64 int | Del int string int

text \<open>Two writes of one item with one version agree on the value: a client never reuses a version.\<close>

fun same_version_same_value :: "mutation \<Rightarrow> mutation \<Rightarrow> bool" where
  "same_version_same_value (Put u i v t) (Put u' i' v' t') =
     (u = u' \<and> i = i' \<and> t = t' \<longrightarrow> v = v')"
| "same_version_same_value _ _ = True"

fun reg_step :: "mutation \<Rightarrow> (int \<times> string \<Rightarrow> register) \<Rightarrow> (int \<times> string \<Rightarrow> register)" where
  "reg_step (Put u i v t) g = g((u, i) := reg_put t v (g (u, i)))"
| "reg_step (Del u i t) g = g((u, i) := reg_delete t (g (u, i)))"

lemma reg_put_put:
  "(t = t' \<longrightarrow> v = v') \<Longrightarrow> reg_put t v (reg_put t' v' r) = reg_put t' v' (reg_put t v r)"
  by (cases r) auto

lemma reg_put_delete: "reg_put t v (reg_delete d r) = reg_delete d (reg_put t v r)"
  by (cases r) auto

lemma reg_delete_delete: "reg_delete d (reg_delete d' r) = reg_delete d' (reg_delete d r)"
  by (cases r) (auto simp: max.commute max.left_commute)

lemma reg_put_idem [simp]: "reg_put t v (reg_put t v r) = reg_put t v r"
  by (cases r) auto

lemma reg_delete_idem [simp]: "reg_delete t (reg_delete t r) = reg_delete t r"
  by (cases r) auto

interpretation reg: replayable_steps reg_step same_version_same_value
proof
  show "reg_step a (reg_step b g) = reg_step b (reg_step a g)"
    if "same_version_same_value a b" for a b g
    using that
    by (cases a; cases b)
      (auto simp: fun_eq_iff reg_put_put reg_put_delete reg_delete_delete)
  show "reg_step a (reg_step a g) = reg_step a g" for a g
    by (cases a) auto
qed

section \<open>The tables implement the registers\<close>

definition progress_reg :: "user_state \<Rightarrow> int \<times> string \<Rightarrow> register" where
  "progress_reg db = (\<lambda>(u, i).
     case find_row wp_key (u, i) (us_progress db) of
       Some r \<Rightarrow> Live (wp_updated_at r) (wp_resume_seconds r)
     | None \<Rightarrow> (case tombstone_at db u WATCH_PROGRESS_DOMAIN i of
         Some d \<Rightarrow> Dead d | None \<Rightarrow> Absent))"

text \<open>
  Tables are keyed, and a tombstone beside a live row is older than the row: the only
  way the two coexist is a deletion that arrived after a newer write.
\<close>

definition progress_inv :: "user_state \<Rightarrow> bool" where
  "progress_inv db \<longleftrightarrow>
     keyed ts_key (us_tombstones db) \<and> keyed wp_key (us_progress db) \<and>
     (\<forall>u i r d. find_row wp_key (u, i) (us_progress db) = Some r \<longrightarrow>
        tombstone_at db u WATCH_PROGRESS_DOMAIN i = Some d \<longrightarrow> d < wp_updated_at r)"

lemma ts_key_update [simp]: "ts_key (r\<lparr>ts_deleted_at := d\<rparr>) = ts_key r"
  by (simp add: ts_key_def)

lemma wp_key_update [simp]: "wp_key (r\<lparr>wp_resume_seconds := v, wp_updated_at := t\<rparr>) = wp_key r"
  by (simp add: wp_key_def)

lemma ts_key_make [simp]:
  "ts_key \<lparr>ts_user_id = u, ts_state_domain = d, ts_item_identity = i, ts_deleted_at = t\<rparr> = (u, d, i)"
  by (simp add: ts_key_def)

lemma wp_key_make [simp]:
  "wp_key \<lparr>wp_user_id = u, wp_source_identity = i, wp_resume_seconds = v, wp_updated_at = t\<rparr> = (u, i)"
  by (simp add: wp_key_def)

lemma blocked_iff:
  "mutation_is_blocked_by_tombstone db u dmn i t \<longleftrightarrow>
     (case tombstone_at db u dmn i of None \<Rightarrow> False | Some d \<Rightarrow> d \<ge> t)"
  by (auto simp: mutation_is_blocked_by_tombstone_def tombstone_at_def split: option.splits)

lemma us_tombstone_ops [simp]:
  "us_progress (record_tombstone db u dmn i t) = us_progress db"
  "us_continue (record_tombstone db u dmn i t) = us_continue db"
  "us_progress (clear_obsolete_tombstone db u dmn i t) = us_progress db"
  "us_continue (clear_obsolete_tombstone db u dmn i t) = us_continue db"
  by (simp_all add: record_tombstone_def clear_obsolete_tombstone_def)

lemma tombstone_at_record:
  "tombstone_at (record_tombstone db u dmn i t) u' dmn' i' =
     (if (u', dmn', i') = (u, dmn, i)
      then Some (case tombstone_at db u dmn i of None \<Rightarrow> t | Some d \<Rightarrow> max d t)
      else tombstone_at db u' dmn' i')"
  by (simp add: tombstone_at_def record_tombstone_def find_row_upsert split: option.splits)

lemma keyed_record_tombstone [simp]:
  "keyed ts_key (us_tombstones db) \<Longrightarrow> keyed ts_key (us_tombstones (record_tombstone db u dmn i t))"
  by (simp add: record_tombstone_def)

lemma tombstone_at_clear:
  assumes "keyed ts_key (us_tombstones db)"
  shows "tombstone_at (clear_obsolete_tombstone db u dmn i t) u' dmn' i' =
     (if (u', dmn', i') = (u, dmn, i)
      then (case tombstone_at db u dmn i of None \<Rightarrow> None | Some d \<Rightarrow> if d < t then None else Some d)
      else tombstone_at db u' dmn' i')"
  using assms
  by (auto simp: tombstone_at_def clear_obsolete_tombstone_def find_row_delete_where
      split: option.splits dest: find_row_SomeD)

lemma keyed_clear_tombstone [simp]:
  "keyed ts_key (us_tombstones db) \<Longrightarrow> keyed ts_key (us_tombstones (clear_obsolete_tombstone db u dmn i t))"
  by (simp add: clear_obsolete_tombstone_def)

lemma tombstone_at_other_table [simp]:
  "tombstone_at (db\<lparr>us_progress := x\<rparr>) = tombstone_at db"
  "tombstone_at (db\<lparr>us_continue := y\<rparr>) = tombstone_at db"
  by (simp_all add: tombstone_at_def fun_eq_iff)

lemma upsert_watch_progress_lookup:
  assumes "\<not> mutation_is_blocked_by_tombstone db u WATCH_PROGRESS_DOMAIN i t"
  shows "find_row wp_key k (us_progress (snd (upsert_watch_progress db u i v t))) =
     (if k = (u, i)
      then Some (case find_row wp_key (u, i) (us_progress db) of
              None \<Rightarrow> \<lparr>wp_user_id = u, wp_source_identity = i, wp_resume_seconds = v, wp_updated_at = t\<rparr>
            | Some r \<Rightarrow> if t \<ge> wp_updated_at r
                       then r\<lparr>wp_resume_seconds := v, wp_updated_at := t\<rparr> else r)
      else find_row wp_key k (us_progress db))"
  using assms
  by (simp add: upsert_watch_progress_def Let_def find_row_upsert split: option.splits)

lemma upsert_watch_progress_tombstones:
  assumes "keyed ts_key (us_tombstones db)"
  shows "tombstone_at (snd (upsert_watch_progress db u i v t)) u' dmn' i' =
     (if (u', dmn', i') = (u, WATCH_PROGRESS_DOMAIN, i) \<and>
         \<not> mutation_is_blocked_by_tombstone db u WATCH_PROGRESS_DOMAIN i t
      then None else tombstone_at db u' dmn' i')"
  using tombstone_at_clear [OF assms, of u WATCH_PROGRESS_DOMAIN i t u' dmn' i']
  by (auto simp: upsert_watch_progress_def Let_def blocked_iff split: option.splits if_splits)

lemma upsert_watch_progress_inv [invariant_intros]:
  assumes "progress_inv db"
  shows "progress_inv (snd (upsert_watch_progress db u i v t))"
proof (cases "mutation_is_blocked_by_tombstone db u WATCH_PROGRESS_DOMAIN i t")
  case True
  with assms show ?thesis by (simp add: upsert_watch_progress_def)
next
  case False
  let ?db = "snd (upsert_watch_progress db u i v t)"
  have ts: "keyed ts_key (us_tombstones db)" using assms by (simp add: progress_inv_def)
  have "keyed ts_key (us_tombstones ?db) \<and> keyed wp_key (us_progress ?db)"
    using assms False
    by (auto simp: progress_inv_def upsert_watch_progress_def Let_def intro!: keyed_upsert)
  moreover have "d < wp_updated_at r"
    if "find_row wp_key (u', i') (us_progress ?db) = Some r"
      and "tombstone_at ?db u' WATCH_PROGRESS_DOMAIN i' = Some d" for u' i' r d
    using that assms False
    unfolding upsert_watch_progress_lookup [OF False] upsert_watch_progress_tombstones [OF ts]
    by (auto simp: progress_inv_def split: if_splits)
  ultimately show ?thesis by (auto simp: progress_inv_def)
qed

lemma upsert_watch_progress_refines:
  assumes "progress_inv db"
  shows "progress_reg (snd (upsert_watch_progress db u i v t)) = reg_step (Put u i v t) (progress_reg db)"
proof (rule ext, clarify)
  fix u' i'
  have ts: "keyed ts_key (us_tombstones db)" using assms by (simp add: progress_inv_def)
  show "progress_reg (snd (upsert_watch_progress db u i v t)) (u', i') =
          reg_step (Put u i v t) (progress_reg db) (u', i')"
  proof (cases "mutation_is_blocked_by_tombstone db u WATCH_PROGRESS_DOMAIN i t")
    case True
    then show ?thesis
      using assms
      by (fastforce simp: upsert_watch_progress_def progress_reg_def blocked_iff progress_inv_def
          split: option.splits)
  next
    case False
    then show ?thesis
      using assms
      by (auto simp: progress_reg_def upsert_watch_progress_lookup [OF False]
          upsert_watch_progress_tombstones [OF ts] blocked_iff split: option.splits)
  qed
qed

lemma delete_watch_progress_lookup:
  assumes "keyed wp_key (us_progress db)"
  shows "find_row wp_key k (us_progress (delete_user_watch_progress db u i t)) =
     (case find_row wp_key k (us_progress db) of
        None \<Rightarrow> None
      | Some r \<Rightarrow> if k = (u, i) \<and> wp_updated_at r \<le> t then None else Some r)"
  using assms
  by (auto simp: delete_user_watch_progress_def delete_item_def Let_def find_row_delete_where
      split: option.splits dest: find_row_SomeD)

lemma delete_watch_progress_tombstones:
  "tombstone_at (delete_user_watch_progress db u i t) = tombstone_at (record_tombstone db u WATCH_PROGRESS_DOMAIN i t)"
  by (simp add: delete_user_watch_progress_def delete_item_def Let_def)

lemma delete_watch_progress_inv [invariant_intros]:
  assumes "progress_inv db"
  shows "progress_inv (delete_user_watch_progress db u i t)"
proof -
  have k: "keyed wp_key (us_progress db)" using assms by (simp add: progress_inv_def)
  have "d < wp_updated_at r"
    if "find_row wp_key (u', i') (us_progress (delete_user_watch_progress db u i t)) = Some r"
      and "tombstone_at (delete_user_watch_progress db u i t) u' WATCH_PROGRESS_DOMAIN i' = Some d"
    for u' i' r d
    using that assms
    unfolding delete_watch_progress_lookup [OF k] delete_watch_progress_tombstones tombstone_at_record
    by (fastforce simp: progress_inv_def split: option.splits if_splits)
  moreover have "keyed ts_key (us_tombstones (delete_user_watch_progress db u i t))"
    "keyed wp_key (us_progress (delete_user_watch_progress db u i t))"
    using assms by (simp_all add: progress_inv_def delete_user_watch_progress_def delete_item_def Let_def)
  ultimately show ?thesis by (auto simp: progress_inv_def)
qed

lemma delete_watch_progress_refines:
  assumes "progress_inv db"
  shows "progress_reg (delete_user_watch_progress db u i t) = reg_step (Del u i t) (progress_reg db)"
proof (rule ext, clarify)
  fix u' i'
  have k: "keyed wp_key (us_progress db)" using assms by (simp add: progress_inv_def)
  show "progress_reg (delete_user_watch_progress db u i t) (u', i') =
          reg_step (Del u i t) (progress_reg db) (u', i')"
    using assms
    by (fastforce simp: progress_reg_def delete_watch_progress_lookup [OF k] progress_inv_def
        delete_watch_progress_tombstones tombstone_at_record split: option.splits)
qed

text \<open>A client's mutations as they reach the server, in whatever order.\<close>

fun apply_mutation :: "mutation \<Rightarrow> user_state \<Rightarrow> user_state" where
  "apply_mutation (Put u i v t) db = upsert_user_watch_progress db u i v t"
| "apply_mutation (Del u i t) db = delete_user_watch_progress db u i t"

interpretation progress: invariant_steps progress_inv apply_mutation
proof
  show "progress_inv (apply_mutation e db)" if "progress_inv db" for e db
    using that
    by (cases e) (auto simp: upsert_user_watch_progress_def intro: invariant_intros)
qed

lemma apply_mutation_refines:
  "progress_inv db \<Longrightarrow> progress_reg (apply_mutation e db) = reg_step e (progress_reg db)"
  by (cases e)
    (simp_all add: upsert_user_watch_progress_def upsert_watch_progress_refines delete_watch_progress_refines)

lemma fold_mutations_refine:
  "progress_inv db \<Longrightarrow> progress_reg (fold apply_mutation es db) = fold reg_step es (progress_reg db)"
  by (induction es arbitrary: db) (simp_all add: apply_mutation_refines progress.inv_step)

lemma progress_reg_Live:
  "progress_reg db (u, i) = Live t v \<longleftrightarrow>
     (\<exists>r. find_row wp_key (u, i) (us_progress db) = Some r \<and> wp_updated_at r = t \<and> wp_resume_seconds r = v)"
  by (auto simp: progress_reg_def split: option.splits)

lemma get_user_watch_progress_reg:
  "progress_inv db \<Longrightarrow>
   set (get_user_watch_progress db u) = {(i, v, t). progress_reg db (u, i) = Live t v}"
  by (auto simp: progress_inv_def progress_reg_Live find_row_Some_iff wp_key_def get_user_watch_progress_def)


definition empty_user_state :: user_state where
  "empty_user_state = \<lparr>us_tombstones = [], us_progress = [], us_continue = []\<rparr>"

lemma progress_inv_empty [simp]: "progress_inv empty_user_state"
  by (simp add: progress_inv_def empty_user_state_def)


text \<open>
  Replays are harmless. Delivering again a mutation that was already delivered
  changes no item, whatever was delivered in between.
\<close>

theorem watch_progress_replay_safe:
  assumes "progress_inv db" and "e \<in> set es"
    and "\<And>b. b \<in> set es \<Longrightarrow> same_version_same_value e b"
  shows "progress_reg (apply_mutation e (fold apply_mutation es db)) = progress_reg (fold apply_mutation es db)"
  using assms
  by (simp add: apply_mutation_refines fold_mutations_refine progress.inv_fold reg.fold_replay)

theorem watch_progress_replay_safe_witness:
  "progress_reg (apply_mutation (Put 1 ''a'' (Fin 5) 10)
     (fold apply_mutation [Put 1 ''a'' (Fin 5) 10, Del 1 ''a'' 20] empty_user_state)) =
   progress_reg (fold apply_mutation [Put 1 ''a'' (Fin 5) 10, Del 1 ''a'' 20] empty_user_state)"
  by (rule watch_progress_replay_safe) auto

section \<open>Deletions stick\<close>

text \<open>What a register shows once a deletion at \<open>d\<close> was applied to it.\<close>

fun newer_than_deletion :: "int \<Rightarrow> register \<Rightarrow> bool" where
  "newer_than_deletion d Absent = False"
| "newer_than_deletion d (Live u w) = (u > d)"
| "newer_than_deletion d (Dead d') = (d' \<ge> d)"

lemma newer_than_deletion_step:
  "newer_than_deletion d (g (u, i)) \<Longrightarrow> newer_than_deletion d (reg_step e g (u, i))"
  by (cases e; cases "g (u, i)") auto

interpretation deletion: invariant_steps "\<lambda>g. newer_than_deletion d (g (u, i))" reg_step
  by unfold_locales (rule newer_than_deletion_step)

text \<open>
  A deleted item does not come back. Once a deletion with version \<open>d\<close> was
  delivered, progress shown for that item always carries a version newer than \<open>d\<close>,
  however many delayed or retried writes follow.
\<close>

theorem watch_progress_deletion_sticks:
  assumes "progress_inv db" and "Del u i d \<in> set es"
    and "(i, v, t) \<in> set (get_user_watch_progress (fold apply_mutation es db) u)"
  shows "t > d"
proof -
  obtain xs ys where es: "es = xs @ Del u i d # ys"
    using assms(2) by (auto simp: in_set_conv_decomp)
  have "newer_than_deletion d (reg_step (Del u i d) g (u, i))" for g
    by (cases "g (u, i)") auto
  then have "newer_than_deletion d (fold reg_step es (progress_reg db) (u, i))"
    by (simp add: es deletion.inv_fold)
  moreover have "progress_reg (fold apply_mutation es db) (u, i) = Live t v"
    using assms(1,3) by (simp add: get_user_watch_progress_reg progress.inv_fold)
  ultimately show ?thesis
    using assms(1) by (simp add: fold_mutations_refine)
qed

theorem watch_progress_deletion_sticks_witness:
  "(30::int) > 20 \<and>
   get_user_watch_progress (fold apply_mutation [Del 1 ''a'' 20, Put 1 ''a'' (Fin 7) 30] empty_user_state) 1 =
     [(''a'', Fin 7, 30)]"
proof -
  let ?db = "fold apply_mutation [Del 1 ''a'' 20, Put 1 ''a'' (Fin 7) 30] empty_user_state"
  have shown: "get_user_watch_progress ?db 1 = [(''a'', Fin 7, 30)]"
    by code_simp
  have "(''a'', Fin 7, 30) \<in> set (get_user_watch_progress ?db 1)"
    unfolding shown by simp
  from watch_progress_deletion_sticks [OF _ _ this] have "(30::int) > 20"
    by simp
  with shown show ?thesis by simp
qed

section \<open>Deleting a series\<close>

lemma tombstone_at_fold_record:
  "tombstone_at (fold (\<lambda>i db. if Q i then record_tombstone db u dmn i t else db) ids db) u' dmn' i' =
     (if u' = u \<and> dmn' = dmn \<and> i' \<in> set ids \<and> Q i'
      then Some (case tombstone_at db u dmn i' of None \<Rightarrow> t | Some d \<Rightarrow> max d t)
      else tombstone_at db u' dmn' i')"
  by (induction ids arbitrary: db) (auto simp: tombstone_at_record max.assoc split: option.splits)

lemma us_fold_record [simp]:
  "us_progress (fold (\<lambda>i db. if Q i then record_tombstone db u dmn i t else db) ids db) = us_progress db"
  "us_continue (fold (\<lambda>i db. if Q i then record_tombstone db u dmn i t else db) ids db) = us_continue db"
  by (induction ids arbitrary: db) auto

lemma keyed_fold_record [simp]:
  "keyed ts_key (us_tombstones db) \<Longrightarrow>
   keyed ts_key (us_tombstones (fold (\<lambda>i db. if Q i then record_tombstone db u dmn i t else db) ids db))"
  by (induction ids arbitrary: db) auto

definition progress_in_series :: "string \<Rightarrow> string \<Rightarrow> bool" where
  "progress_in_series series_id identity \<longleftrightarrow>
     identity_in_series (lower (trim series_id)) identity \<or>
     identity_in_tmdb (tmdb_tv_id_from_series_id (lower (trim series_id))) identity"

text \<open>
  The tombstones are chosen by string tests in Rust, the deleted rows by SQL. The two
  agree when the series id has no \<open>LIKE\<close> wildcard and no stored identity differs
  from the TMDB identity only in case.
\<close>

definition no_case_variant :: "user_state \<Rightarrow> int \<Rightarrow> string \<Rightarrow> bool" where
  "no_case_variant db u series_id \<longleftrightarrow>
     list_all (\<lambda>r. wp_user_id r = u \<longrightarrow>
        list_all (\<lambda>v. lower (wp_source_identity r) = lower (tmdb_tv_prefix v) \<longrightarrow>
                      wp_source_identity r = tmdb_tv_prefix v)
          (case tmdb_tv_id_from_series_id (lower (trim series_id)) of None \<Rightarrow> [] | Some v \<Rightarrow> [v]))
       (us_progress db)"

lemma plain_pattern_digits: "list_all is_ascii_digit v \<Longrightarrow> plain_pattern v"
  by (induction v) (auto simp: plain_pattern_def is_ascii_digit_def)

lemma plain_pattern_append [simp]:
  "plain_pattern (a @ b) \<longleftrightarrow> plain_pattern a \<and> plain_pattern b"
  by (auto simp: plain_pattern_def)

lemma lower_series_prefix:
  "lower (series_prefix (lower s)) = series_prefix (lower s)"
  by (simp add: series_prefix_def) (simp add: lower_def lower_char_def is_ascii_upper_def)

lemma sql_series_prefix:
  assumes "plain_pattern s"
  shows "sql_like (series_prefix s @ ''%'') identity \<longleftrightarrow> starts_with (lower identity) (lower (series_prefix s))"
  using assms by (subst sql_like_prefix) (auto simp: series_prefix_def plain_pattern_def)

lemma sql_series_match_agrees:
  assumes "plain_pattern (lower (trim series_id))" and "no_case_variant db u series_id"
    and "r \<in> set (us_progress db)" and "wp_user_id r = u"
  shows "sql_series_match (lower (trim series_id)) (tmdb_tv_id_from_series_id (lower (trim series_id)))
           (wp_source_identity r) \<longleftrightarrow> progress_in_series series_id (wp_source_identity r)"
proof -
  let ?s = "lower (trim series_id)" let ?v = "tmdb_tv_id_from_series_id ?s"
  let ?i = "wp_source_identity r"
  have colon: "lower '':'' = '':''" by (simp add: lower_def lower_char_def is_ascii_upper_def)
  have "sql_like (series_prefix ?s @ ''%'') ?i \<longleftrightarrow> identity_in_series ?s ?i"
    using assms(1) by (simp add: sql_series_prefix lower_series_prefix identity_in_series_def)
  moreover have "(case ?v of None \<Rightarrow> False
        | Some v \<Rightarrow> ?i = tmdb_tv_prefix v \<or> sql_like (tmdb_tv_prefix v @ '':%'') ?i) \<longleftrightarrow>
      identity_in_tmdb ?v ?i"
  proof (cases ?v)
    case (Some v)
    then have "list_all is_ascii_digit v"
      by (auto simp: tmdb_tv_id_from_series_id_def split: option.splits if_splits)
    then have "plain_pattern (tmdb_tv_prefix v @ '':'')"
      using plain_pattern_digits by (auto simp: tmdb_tv_prefix_def plain_pattern_def)
    from sql_like_prefix [OF this, of ?i]
    have "sql_like (tmdb_tv_prefix v @ '':%'') ?i \<longleftrightarrow> starts_with (lower ?i) (lower (tmdb_tv_prefix v) @ '':'')"
      by (simp add: colon)
    moreover have "lower ?i = lower (tmdb_tv_prefix v) \<longrightarrow> ?i = tmdb_tv_prefix v"
      using assms(2-4) Some by (auto simp: no_case_variant_def list_all_iff)
    ultimately show ?thesis
      using Some by (auto simp: identity_in_tmdb_def eq_ignore_ascii_case_def)
  qed (simp add: identity_in_tmdb_def)
  ultimately show ?thesis
    by (simp add: sql_series_match_def progress_in_series_def)
qed

lemma delete_series_as_fold:
  "delete_user_watch_progress_for_series db u s t =
     (let db' = fold (\<lambda>i db. if progress_in_series s i then record_tombstone db u WATCH_PROGRESS_DOMAIN i t else db)
           (map wp_source_identity (filter (\<lambda>r. wp_user_id r = u \<and> wp_updated_at r \<le> t) (us_progress db))) db
      in db'\<lparr>us_progress := delete_where
             (\<lambda>r. wp_user_id r = u \<and>
                  sql_series_match (lower (trim s)) (tmdb_tv_id_from_series_id (lower (trim s))) (wp_source_identity r) \<and>
                  wp_updated_at r \<le> t) (us_progress db)\<rparr>)"
  by (simp add: delete_user_watch_progress_for_series_def tombstone_watch_progress_series_def
      progress_in_series_def Let_def)


definition sample_progress :: "string \<Rightarrow> user_state" where
  "sample_progress i = empty_user_state\<lparr>us_progress :=
     [\<lparr>wp_user_id = 1, wp_source_identity = i, wp_resume_seconds = Fin 60, wp_updated_at = 100\<rparr>]\<rparr>"


text \<open>
  A wildcard in a series id widens the deletion. SQL's \<open>LIKE\<close> reads the \<open>_\<close> of the
  id \<open>a_b\<close> as any character, so deleting that series removes a row of the series \<open>axb\<close>,
  and without a tombstone: a retried older write brings the row back.
\<close>

theorem series_wildcard_deletes_other_series:
  "\<not> progress_in_series ''a_b'' ''series:axb:episode:1'' \<and>
   get_user_watch_progress
     (delete_user_watch_progress_for_series (sample_progress ''series:axb:episode:1'') 1 ''a_b'' 200) 1 = [] \<and>
   get_user_watch_progress
     (apply_mutation (Put 1 ''series:axb:episode:1'' (Fin 60) 100)
       (delete_user_watch_progress_for_series (sample_progress ''series:axb:episode:1'') 1 ''a_b'' 200)) 1 =
     [(''series:axb:episode:1'', Fin 60, 100)]"
  by code_simp

text \<open>
  A case variant is tombstoned but not deleted. The tombstone test ignores case,
  SQL's \<open>=\<close> does not: the item \<open>TMDB:TV:5\<close> stays visible after its series is deleted,
  and the tombstone then refuses later writes up to the deletion's version.
\<close>

theorem series_case_variant_survives:
  "get_user_watch_progress
     (delete_user_watch_progress_for_series (sample_progress ''TMDB:TV:5'') 1 ''tmdb-tv-5'' 200) 1 =
     [(''TMDB:TV:5'', Fin 60, 100)] \<and>
   tombstone_at (delete_user_watch_progress_for_series (sample_progress ''TMDB:TV:5'') 1 ''tmdb-tv-5'' 200)
     1 WATCH_PROGRESS_DOMAIN ''TMDB:TV:5'' = Some 200"
  by code_simp

end
