(* ===== verification/Normalize.thy ===== *)
theory Normalize
  imports Prelude
begin

unbundle bit_operations_syntax

text \<open>
  The shared normalizers of \<open>src/utils.rs\<close> (preferred audio language and quality,
  subtitle preference, session health state) and its 32-bit FNV-1a string hash. The
  lemmas: each normalizer maps into its small set of canonical values and leaves these
  fixed, so that stored and compared values agree however often they are normalized;
  the hash is printed as eight hexadecimal digits and any change of a single character
  changes it.
\<close>

section \<open>Preferences\<close>

definition normalize_preferred_audio_lang :: "string \<Rightarrow> string" where
  "normalize_preferred_audio_lang value =
     (let v = lower (trim value)
      in if v \<in> {'''', ''auto''} then ''auto''
         else if v \<in> {''en'', ''fr'', ''es'', ''de'', ''it'', ''pt''} then v
         else ''auto'')"

definition normalize_preferred_stream_quality :: "string \<Rightarrow> string" where
  "normalize_preferred_stream_quality value =
     (let v = lower (trim value)
      in if v \<in> {'''', ''auto''} then ''auto''
         else if v \<in> {''4k'', ''uhd'', ''2160'', ''2160p''} then ''2160p''
         else if v \<in> {''1080'', ''1080p''} then ''1080p''
         else if v \<in> {''720'', ''720p''} then ''720p''
         else ''auto'')"

definition iso_language_alias :: "string \<Rightarrow> string" where
  "iso_language_alias n =
     (if n = ''eng'' then ''en''
      else if n \<in> {''fre'', ''fra''} then ''fr''
      else if n = ''spa'' then ''es''
      else if n \<in> {''ger'', ''deu''} then ''de''
      else if n = ''ita'' then ''it''
      else if n \<in> {''por'', ''pob'', ''pb''} then ''pt''
      else if n = ''jpn'' then ''ja''
      else if n = ''kor'' then ''ko''
      else if n \<in> {''zho'', ''chi''} then ''zh''
      else if n \<in> {''dut'', ''nld''} then ''nl''
      else if n \<in> {''rum'', ''ron''} then ''ro''
      else if n = ''pol'' then ''pl''
      else if n = ''tur'' then ''tr''
      else if n = ''rus'' then ''ru''
      else if n = ''ara'' then ''ar''
      else if n \<in> {''gre'', ''ell''} then ''el''
      else if n \<in> {''alb'', ''sqi''} then ''sq''
      else n)"

definition normalize_iso_language :: "string \<Rightarrow> string" where
  "normalize_iso_language value =
     (let normalized = filter is_ascii_alphabetic (lower (trim value));
          alias = iso_language_alias normalized
      in if length alias = 2 then alias else take 2 alias)"

definition normalize_subtitle_preference :: "string \<Rightarrow> string" where
  "normalize_subtitle_preference value =
     (let raw = lower (trim value)
      in if raw = [] \<or> raw = ''auto'' then []
         else if raw \<in> {''off'', ''none'', ''disabled''} then ''off''
         else normalize_iso_language raw)"

definition normalize_session_health_state :: "string \<Rightarrow> string" where
  "normalize_session_health_state value =
     (let v = lower (trim value)
      in if v = ''healthy'' then ''healthy''
         else if v = ''degraded'' then ''degraded''
         else if v = ''invalid'' then ''invalid''
         else ''unknown'')"

lemmas preference_defs =
  normalize_preferred_audio_lang_def normalize_preferred_stream_quality_def
  normalize_session_health_state_def

lemma audio_lang_range:
  "normalize_preferred_audio_lang v \<in> {''auto'', ''en'', ''fr'', ''es'', ''de'', ''it'', ''pt''}"
  by (auto simp: preference_defs Let_def)

lemma stream_quality_range:
  "normalize_preferred_stream_quality v \<in> {''auto'', ''2160p'', ''1080p'', ''720p''}"
  by (simp add: preference_defs Let_def)

lemma session_health_range:
  "normalize_session_health_state v \<in> {''healthy'', ''degraded'', ''invalid'', ''unknown''}"
  by (simp add: preference_defs Let_def)

lemma audio_lang_fixed:
  "v \<in> {''auto'', ''en'', ''fr'', ''es'', ''de'', ''it'', ''pt''} \<Longrightarrow> normalize_preferred_audio_lang v = v"
  by (elim insertE; simp; code_simp)

lemma stream_quality_fixed:
  "v \<in> {''auto'', ''2160p'', ''1080p'', ''720p''} \<Longrightarrow> normalize_preferred_stream_quality v = v"
  by (elim insertE; simp; code_simp)

lemma session_health_fixed:
  "v \<in> {''healthy'', ''degraded'', ''invalid'', ''unknown''} \<Longrightarrow> normalize_session_health_state v = v"
  by (elim insertE; simp; code_simp)

lemma normalize_audio_idem [simp]:
  "normalize_preferred_audio_lang (normalize_preferred_audio_lang v) = normalize_preferred_audio_lang v"
  by (rule audio_lang_fixed) (rule audio_lang_range)

lemma normalize_quality_idem [simp]:
  "normalize_preferred_stream_quality (normalize_preferred_stream_quality v) = normalize_preferred_stream_quality v"
  by (rule stream_quality_fixed) (rule stream_quality_range)

lemma normalize_health_idem [simp]:
  "normalize_session_health_state (normalize_session_health_state v) = normalize_session_health_state v"
  by (rule session_health_fixed) (rule session_health_range)

lemma health_state_literals [simp]:
  "normalize_session_health_state ''healthy'' = ''healthy''"
  "normalize_session_health_state ''invalid'' = ''invalid''"
  by code_simp+

lemma length_normalize_iso_language: "length (normalize_iso_language v) \<le> 2"
  by (simp add: normalize_iso_language_def Let_def)

section \<open>FNV-1a\<close>

definition fnv_step :: "char \<Rightarrow> 32 word \<Rightarrow> 32 word" where
  "fnv_step c h = (h XOR of_nat (of_char c)) * 16777619"

definition fnv1a :: "string \<Rightarrow> 32 word" where
  "fnv1a s = fold fnv_step s 2166136261"

definition hex_digit :: "nat \<Rightarrow> char" where
  "hex_digit n = (if n < 10 then char_of (48 + n) else char_of (87 + n))"

text \<open>\<open>format!("{h:08x}")\<close>: the eight nibbles, most significant first.\<close>

definition hex8 :: "32 word \<Rightarrow> string" where
  "hex8 w = map (\<lambda>i. hex_digit (unat (drop_bit (4 * i) w) mod 16)) [7, 6, 5, 4, 3, 2, 1, 0]"

definition hash_stable_string :: "string \<Rightarrow> string" where
  "hash_stable_string s = hex8 (fnv1a s)"

lemma fnv_prime_inverse: "(16777619 :: 32 word) * 899433627 = 1"
  by simp

lemma fnv_mult_inj: "(a :: 32 word) * 16777619 = b * 16777619 \<longleftrightarrow> a = b"
proof
  assume "a * 16777619 = b * 16777619"
  then have "a * (16777619 * 899433627) = b * (16777619 * 899433627)"
    by (simp only: mult.assoc [symmetric])
  then show "a = b"
    by (simp only: fnv_prime_inverse mult_1_right)
qed simp

lemma xor_right_cancel: "(a :: 32 word) XOR c = b XOR c \<longleftrightarrow> a = b"
  by (metis xor.assoc xor.right_neutral xor_self_eq)

lemma fnv_step_inj: "fnv_step c h = fnv_step c h' \<longleftrightarrow> h = h'"
  by (simp add: fnv_step_def fnv_mult_inj xor_right_cancel)

lemma of_char_word_inj: "(of_nat (of_char c) :: 32 word) = of_nat (of_char d) \<longleftrightarrow> c = d"
proof -
  have "(of_char c :: nat) < 256" for c by simp
  then have "unat (of_nat (of_char c) :: 32 word) = of_char c" for c
    by (simp add: unat_of_nat less_trans [of _ 256] take_bit_nat_eq_self)
  then show ?thesis by (metis of_char_eq_iff)
qed

lemma fnv_step_char_inj: "fnv_step c h = fnv_step d h \<longleftrightarrow> c = d"
  by (metis fnv_mult_inj fnv_step_def of_char_word_inj xor.commute xor_right_cancel)

lemma fold_fnv_inj: "fold fnv_step s h = fold fnv_step s h' \<longleftrightarrow> h = h'"
  by (induction s arbitrary: h h') (auto simp: fnv_step_inj)

lemma fnv1a_single_char:
  "fnv1a (a @ c # b) = fnv1a (a @ d # b) \<longleftrightarrow> c = d"
  by (simp add: fnv1a_def fold_fnv_inj fnv_step_char_inj)

lemma hex_digit_inj: "m < 16 \<Longrightarrow> n < 16 \<Longrightarrow> hex_digit m = hex_digit n \<longleftrightarrow> m = n"
  by (auto simp: hex_digit_def char_of_eq_iff take_bit_nat_eq_self split: if_splits)

lemma nibble_bit:
  fixes w :: "32 word"
  assumes "j < 4"
  shows "bit (unat (drop_bit (4 * i) w) mod 16) j = bit w (4 * i + j)"
proof -
  have "(16::nat) = 2 ^ 4" by simp
  then have "bit (unat (drop_bit (4 * i) w) mod 16) j = bit (take_bit 4 (unat (drop_bit (4 * i) w))) j"
    by (simp add: take_bit_eq_mod)
  with assms show ?thesis
    by (simp add: bit_take_bit_iff bit_unsigned_iff bit_drop_bit_eq)
qed

lemma hex8_inj: "hex8 v = hex8 w \<longleftrightarrow> v = w"
proof
  assume eq: "hex8 v = hex8 w"
  have nib: "unat (drop_bit (4 * i) v) mod 16 = unat (drop_bit (4 * i) w) mod 16" if "i < 8" for i
  proof -
    have "i \<in> set [7, 6, 5, 4, 3, 2, 1, 0]"
      using that by (simp add: eval_nat_numeral less_Suc_eq) auto
    with eq have "hex_digit (unat (drop_bit (4 * i) v) mod 16) = hex_digit (unat (drop_bit (4 * i) w) mod 16)"
      unfolding hex8_def by (rule map_eq_conv [THEN iffD1, rule_format])
    then show ?thesis by (simp add: hex_digit_inj)
  qed
  have "bit v n = bit w n" if "n < 32" for n
  proof -
    have "n = 4 * (n div 4) + n mod 4" by simp
    moreover have "n div 4 < 8" using that by simp
    ultimately show ?thesis
      by (metis nib nibble_bit mod_less_divisor zero_less_numeral)
  qed
  then show "v = w"
    by (auto intro: bit_word_eqI)
qed simp

text \<open>
  the stable hash. The printed hash has eight characters and two strings that
  differ in exactly one character never share it.
\<close>

theorem hash_stable_string_single_char:
  "length (hash_stable_string s) = 8 \<and>
   (hash_stable_string (a @ c # b) = hash_stable_string (a @ d # b) \<longleftrightarrow> c = d)"
  by (simp add: hash_stable_string_def hex8_inj fnv1a_single_char) (simp add: hex8_def)

end
