(* ===== verification/PlaybackSessions.thy ===== *)
theory PlaybackSessions
  imports SqlTable Json Normalize
begin

text \<open>
  The playback sessions of \<open>src/persistence.rs\<close>: what was resolved for a title, where
  the viewer stopped, whether the link is healthy, and the lease under which at most one
  request at a time revalidates it. \<open>next_validation_at\<close> encodes the lease: a positive
  value is a deadline until which the session counts as fresh, a negative value is the
  token of a claim that expires at its magnitude. The theorems: a claim is granted to at
  most one of two requests and keeps others out until it expires, only the holder of
  the current token can complete a validation, and an invalid session can be neither
  claimed nor refreshed.
\<close>

section \<open>Rows\<close>

record session_row =
  sr_user_id :: int
  sr_session_key :: string
  sr_tmdb_id :: string
  sr_audio_lang :: string
  sr_source_hash :: string
  sr_selected_file :: string
  sr_filename :: string
  sr_playable_url :: string
  sr_fallback_urls_json :: string
  sr_metadata_json :: string
  sr_last_position_seconds :: f64
  sr_health_state :: string
  sr_health_fail_count :: int
  sr_last_error :: string
  sr_last_verified_at :: int
  sr_next_validation_at :: int
  sr_updated_at :: int
  sr_last_accessed_at :: int

record playback_session =
  ps_user_id :: int
  ps_session_key :: string
  ps_tmdb_id :: string
  ps_audio_lang :: string
  ps_preferred_quality :: string
  ps_source_hash :: string
  ps_selected_file :: string
  ps_filename :: string
  ps_playable_url :: string
  ps_fallback_urls :: "string list"
  ps_metadata :: json
  ps_last_position_seconds :: f64
  ps_health_state :: string
  ps_health_fail_count :: int
  ps_last_error :: string
  ps_last_verified_at :: int
  ps_next_validation_at :: int

datatype validation_claim = Claimed int | Fresh | Leased | Unavailable

record persist_input =
  pi_user_id :: int
  pi_session_key :: string
  pi_tmdb_id :: string
  pi_audio_lang :: string
  pi_preferred_quality :: string
  pi_source_hash :: string
  pi_selected_file :: string
  pi_filename :: string
  pi_playable_url :: string
  pi_fallback_urls :: "string list"
  pi_metadata :: json

definition sr_key :: "session_row \<Rightarrow> int \<times> string" where
  "sr_key r = (sr_user_id r, sr_session_key r)"

definition PLAYBACK_SESSION_VALIDATE_INTERVAL_MS :: int where
  "PLAYBACK_SESSION_VALIDATE_INTERVAL_MS = 90 * 1000"

definition PLAYBACK_SESSION_VALIDATION_LEASE_MS :: int where
  "PLAYBACK_SESSION_VALIDATION_LEASE_MS = 10 * 1000"

definition PLAYBACK_SESSION_PERSIST_MAX_ENTRIES :: nat where
  "PLAYBACK_SESSION_PERSIST_MAX_ENTRIES = 2500"

definition credential_scope_key :: string where
  "credential_scope_key = ''_realDebridCredentialScope''"

section \<open>Reading\<close>

definition parse_movie_resolve_key_quality :: "string \<Rightarrow> string" where
  "parse_movie_resolve_key_quality cache_key =
     normalize_preferred_stream_quality (last (split_on CHR '':'' cache_key))"

fun json_string_list :: "json \<Rightarrow> string list option" where
  "json_string_list (JArr vs) =
     (if list_all (\<lambda>v. as_str v \<noteq> None) vs then Some (List.map_filter as_str vs) else None)"
| "json_string_list _ = None"

definition session_of_row :: "json_parser \<Rightarrow> session_row \<Rightarrow> playback_session" where
  "session_of_row parse r =
     \<lparr>ps_user_id = sr_user_id r,
      ps_session_key = sr_session_key r,
      ps_tmdb_id = sr_tmdb_id r,
      ps_audio_lang = normalize_preferred_audio_lang (sr_audio_lang r),
      ps_preferred_quality = parse_movie_resolve_key_quality (sr_session_key r),
      ps_source_hash = lower (trim (sr_source_hash r)),
      ps_selected_file = sr_selected_file r,
      ps_filename = sr_filename r,
      ps_playable_url = sr_playable_url r,
      ps_fallback_urls = filter (\<lambda>v. v \<noteq> []) (map trim
        (case Option.bind (parse (sr_fallback_urls_json r)) json_string_list of
           None \<Rightarrow> [] | Some vs \<Rightarrow> vs)),
      ps_metadata = (case parse (sr_metadata_json r) of None \<Rightarrow> JNull | Some v \<Rightarrow> v),
      ps_last_position_seconds = f64_max0 (sr_last_position_seconds r),
      ps_health_state = normalize_session_health_state (sr_health_state r),
      ps_health_fail_count = max (sr_health_fail_count r) 0,
      ps_last_error = sr_last_error r,
      ps_last_verified_at = max (sr_last_verified_at r) 0,
      ps_next_validation_at = sr_next_validation_at r\<rparr>"

definition get_playback_session_inner ::
  "json_parser \<Rightarrow> session_row list \<Rightarrow> int \<Rightarrow> string \<Rightarrow> playback_session option" where
  "get_playback_session_inner parse t user_id session_key =
     map_option (session_of_row parse) (find_row sr_key (user_id, session_key) t)"

text \<open>\<open>ORDER BY updated_at DESC\<close>: the newest first.\<close>

definition newest_first :: "session_row list \<Rightarrow> session_row list" where
  "newest_first rs = sort_key (\<lambda>r. - sr_updated_at r) rs"

definition get_latest_playback_session_for_tmdb ::
  "json_parser \<Rightarrow> session_row list \<Rightarrow> int \<Rightarrow> string \<Rightarrow> playback_session option" where
  "get_latest_playback_session_for_tmdb parse t user_id tmdb_id =
     (case newest_first (filter (\<lambda>r. sr_user_id r = user_id \<and> sr_tmdb_id r = tmdb_id) t) of
        [] \<Rightarrow> None
      | r # _ \<Rightarrow> get_playback_session_inner parse t user_id (sr_session_key r))"

definition get_latest_healthy_playback_sessions_for_tmdb ::
  "json_parser \<Rightarrow> session_row list \<Rightarrow> int \<Rightarrow> string \<Rightarrow> int \<Rightarrow> playback_session list" where
  "get_latest_healthy_playback_sessions_for_tmdb parse t user_id tmdb_id limit =
     (let normalized_limit = max 1 (min limit 100);
          keys = map sr_session_key (take (nat normalized_limit) (newest_first
            (filter (\<lambda>r. sr_user_id r = user_id \<and> sr_tmdb_id r = tmdb_id \<and>
                         sr_health_state r \<noteq> ''invalid'' \<and> sr_playable_url r \<noteq> []) t)))
      in List.map_filter (get_playback_session_inner parse t user_id) keys)"

section \<open>Progress and invalidation\<close>

definition update_playback_session_progress ::
  "json_parser \<Rightarrow> session_row list \<Rightarrow> int \<Rightarrow> string \<Rightarrow> f64 \<Rightarrow> string \<Rightarrow> string \<Rightarrow> int \<Rightarrow>
   bool \<times> session_row list" where
  "update_playback_session_progress parse t user_id session_key position_seconds health_state last_error now =
     (case get_playback_session_inner parse t user_id session_key of
        None \<Rightarrow> (False, t)
      | Some existing \<Rightarrow>
          let next_health = normalize_session_health_state health_state;
              next_fail_count =
                (if next_health = ''invalid'' then ps_health_fail_count existing + 1
                 else if next_health = ''healthy'' then 0
                 else ps_health_fail_count existing);
              next_error =
                (if next_health = ''healthy'' then []
                 else take 500 (if trim last_error = [] then ps_last_error existing else last_error))
          in (True, update_where (\<lambda>r. sr_key r = (user_id, session_key))
                (\<lambda>r. r\<lparr>sr_last_position_seconds := f64_max0 position_seconds,
                      sr_health_state := next_health,
                      sr_health_fail_count := next_fail_count,
                      sr_last_error := next_error,
                      sr_updated_at := now,
                      sr_last_accessed_at := now\<rparr>) t))"

definition invalidate_row :: "string \<Rightarrow> int \<Rightarrow> session_row \<Rightarrow> session_row" where
  "invalidate_row reason now r =
     r\<lparr>sr_health_state := ''invalid'',
       sr_health_fail_count := sr_health_fail_count r + 1,
       sr_last_error := take 500 reason,
       sr_updated_at := now,
       sr_last_accessed_at := now\<rparr>"

definition invalidate_playback_sessions_by_source_hash ::
  "session_row list \<Rightarrow> int \<Rightarrow> string \<Rightarrow> string \<Rightarrow> int \<Rightarrow> nat \<times> session_row list" where
  "invalidate_playback_sessions_by_source_hash t user_id source_hash reason now =
     (let h = lower (trim source_hash);
          P = (\<lambda>r. sr_user_id r = user_id \<and> sr_source_hash r = h \<and> sr_health_state r \<noteq> ''invalid'')
      in if h = [] then (0, t)
         else (count_where P t, update_where P (invalidate_row reason now) t))"

definition delete_playback_sessions_for_tmdb :: "session_row list \<Rightarrow> int \<Rightarrow> string \<Rightarrow> session_row list" where
  "delete_playback_sessions_for_tmdb t user_id tmdb_id =
     delete_where (\<lambda>r. sr_user_id r = user_id \<and> sr_tmdb_id r = tmdb_id) t"

text \<open>
  What other operations delete: a title preference with an explicit audio language drops
  the sessions resolved for automatic audio; the sweep drops what was not used for thirty
  days and what exceeds the table's cap.
\<close>

definition PLAYBACK_SESSION_STALE_MS :: int where
  "PLAYBACK_SESSION_STALE_MS = 30 * 24 * 60 * 60 * 1000"

definition delete_auto_audio_sessions :: "session_row list \<Rightarrow> int \<Rightarrow> string \<Rightarrow> session_row list" where
  "delete_auto_audio_sessions t user_id tmdb_id =
     delete_where (\<lambda>r. sr_user_id r = user_id \<and> sr_tmdb_id r = tmdb_id \<and> sr_audio_lang r = ''auto'') t"

definition sweep_playback_sessions :: "session_row list \<Rightarrow> int \<Rightarrow> session_row list" where
  "sweep_playback_sessions t now =
     trim_table sr_updated_at PLAYBACK_SESSION_PERSIST_MAX_ENTRIES
       (delete_where (\<lambda>r. sr_last_accessed_at r \<le> now - PLAYBACK_SESSION_STALE_MS) t)"

section \<open>The validation lease\<close>

definition playback_session_credential_scope :: "playback_session \<Rightarrow> string" where
  "playback_session_credential_scope session = str_field credential_scope_key (ps_metadata session)"

definition playback_session_validation_identity_matches ::
  "json_parser \<Rightarrow> playback_session \<Rightarrow> string \<Rightarrow> string \<Rightarrow> string \<Rightarrow> string \<Rightarrow> bool" where
  "playback_session_validation_identity_matches parse session playable_url source_hash selected_file metadata_json \<longleftrightarrow>
     (let current_scope = (case parse metadata_json of None \<Rightarrow> [] | Some m \<Rightarrow> str_field credential_scope_key m)
      in ps_playable_url session = playable_url \<and>
         ps_source_hash session = lower (trim source_hash) \<and>
         ps_selected_file session = selected_file \<and>
         playback_session_credential_scope session = current_scope)"

definition try_claim_playback_session_validation ::
  "json_parser \<Rightarrow> session_row list \<Rightarrow> playback_session \<Rightarrow> int \<Rightarrow> validation_claim \<times> session_row list" where
  "try_claim_playback_session_validation parse t session now =
     (case find_row sr_key (ps_user_id session, ps_session_key session) t of
        None \<Rightarrow> (Unavailable, t)
      | Some cur \<Rightarrow>
          if normalize_session_health_state (sr_health_state cur) = ''invalid'' \<or>
             \<not> playback_session_validation_identity_matches parse session (sr_playable_url cur)
                 (sr_source_hash cur) (sr_selected_file cur) (sr_metadata_json cur)
          then (Unavailable, t)
          else
            let next_validation_at = sr_next_validation_at cur
            in if next_validation_at = 0 \<or> next_validation_at > now then (Fresh, t)
               else if next_validation_at < 0 \<and>
                       (case checked_neg next_validation_at of
                          None \<Rightarrow> False | Some lease_until \<Rightarrow> lease_until > now)
               then (Leased, t)
               else
                 let claim_token = - (max (now + PLAYBACK_SESSION_VALIDATION_LEASE_MS) 1);
                     P = (\<lambda>r. sr_key r = (ps_user_id session, ps_session_key session) \<and>
                              sr_next_validation_at r = next_validation_at \<and>
                              sr_health_state r \<noteq> ''invalid'');
                     t' = update_where P
                            (\<lambda>r. r\<lparr>sr_next_validation_at := claim_token, sr_last_accessed_at := now\<rparr>) t
                 in (if count_where P t = 1 then Claimed claim_token else Unavailable, t'))"

text \<open>
  SQL's view of the credential scope: \<open>json_extract\<close> yields the text of a string, the
  JSON text of an array or object, nothing for null or a missing key, and a value that
  equals no text for a number or a boolean; text that is not JSON counts as \<open>{}\<close>.
\<close>

definition sql_credential_scope :: "json_parser \<Rightarrow> (json \<Rightarrow> string) \<Rightarrow> string \<Rightarrow> string option" where
  "sql_credential_scope parse print metadata_json =
     (case Option.bind (parse metadata_json) (json_get credential_scope_key) of
        None \<Rightarrow> Some []
      | Some JNull \<Rightarrow> Some []
      | Some (JStr s) \<Rightarrow> Some s
      | Some (JArr vs) \<Rightarrow> Some (print (JArr vs))
      | Some (JObj kvs) \<Rightarrow> Some (print (JObj kvs))
      | Some _ \<Rightarrow> None)"

definition validation_is_current ::
  "json_parser \<Rightarrow> (json \<Rightarrow> string) \<Rightarrow> playback_session \<Rightarrow> int \<Rightarrow> session_row \<Rightarrow> bool" where
  "validation_is_current parse print session claim_token r \<longleftrightarrow>
     sr_key r = (ps_user_id session, ps_session_key session) \<and>
     sr_playable_url r = ps_playable_url session \<and>
     lower (sql_trim (sr_source_hash r)) = ps_source_hash session \<and>
     sr_selected_file r = ps_selected_file session \<and>
     sql_credential_scope parse print (sr_metadata_json r) = Some (playback_session_credential_scope session) \<and>
     sr_health_state r \<noteq> ''invalid'' \<and>
     sr_next_validation_at r = claim_token"

definition refresh_playback_session_validation_if_current ::
  "json_parser \<Rightarrow> (json \<Rightarrow> string) \<Rightarrow> session_row list \<Rightarrow> playback_session \<Rightarrow> int \<Rightarrow> int \<Rightarrow>
   bool \<times> session_row list" where
  "refresh_playback_session_validation_if_current parse print t session claim_token now =
     (let P = validation_is_current parse print session claim_token
      in (count_where P t > 0,
          update_where P
            (\<lambda>r. r\<lparr>sr_last_verified_at := now,
                  sr_next_validation_at := now + PLAYBACK_SESSION_VALIDATE_INTERVAL_MS,
                  sr_updated_at := now,
                  sr_last_accessed_at := now\<rparr>) t))"

definition invalidate_playback_session_validation_if_current ::
  "json_parser \<Rightarrow> (json \<Rightarrow> string) \<Rightarrow> session_row list \<Rightarrow> playback_session \<Rightarrow> int \<Rightarrow> string \<Rightarrow> int \<Rightarrow>
   bool \<times> session_row list" where
  "invalidate_playback_session_validation_if_current parse print t session claim_token reason now =
     (let P = validation_is_current parse print session claim_token
      in (count_where P t > 0, update_where P (invalidate_row reason now) t))"

section \<open>Persisting\<close>

definition build_playback_session_key :: "string \<Rightarrow> string \<Rightarrow> string \<Rightarrow> string" where
  "build_playback_session_key tmdb_id audio_lang quality =
     trim tmdb_id @ '':'' @ normalize_preferred_audio_lang audio_lang @ '':'' @
     normalize_preferred_stream_quality quality"

definition build_related_playback_session_key_with_audio ::
  "string \<Rightarrow> string \<Rightarrow> string \<Rightarrow> string \<Rightarrow> string" where
  "build_related_playback_session_key_with_audio session_key tmdb_id audio_lang quality =
     (let parts = split_on CHR '':'' session_key
      in if length parts = 6 \<and> parts ! 0 = ''tv'' \<and> parts ! 1 = trim tmdb_id
         then ''tv:'' @ parts ! 1 @ '':'' @ parts ! 2 @ '':'' @ parts ! 3 @ '':'' @
              normalize_preferred_audio_lang audio_lang @ '':'' @ normalize_preferred_stream_quality quality
         else build_playback_session_key tmdb_id audio_lang quality)"

fun normalize_fallback_urls :: "string list \<Rightarrow> string list \<Rightarrow> string list" where
  "normalize_fallback_urls unique [] = unique"
| "normalize_fallback_urls unique (value # values) =
     (let trimmed = trim value
      in if trimmed = [] \<or> trimmed \<in> set unique then normalize_fallback_urls unique values
         else normalize_fallback_urls (unique @ [trimmed]) values)"

definition normalize_playback_session_fallback_urls :: "string list \<Rightarrow> string list" where
  "normalize_playback_session_fallback_urls values = normalize_fallback_urls [] values"

definition persist_merge :: "session_row \<Rightarrow> session_row \<Rightarrow> session_row" where
  "persist_merge old new =
     old\<lparr>sr_tmdb_id := sr_tmdb_id new,
         sr_audio_lang := sr_audio_lang new,
         sr_source_hash := sr_source_hash new,
         sr_selected_file := sr_selected_file new,
         sr_filename := sr_filename new,
         sr_playable_url := sr_playable_url new,
         sr_fallback_urls_json := sr_fallback_urls_json new,
         sr_metadata_json := sr_metadata_json new,
         sr_health_state := sr_health_state new,
         sr_health_fail_count := sr_health_fail_count new,
         sr_last_error := sr_last_error new,
         sr_last_verified_at := sr_last_verified_at new,
         sr_next_validation_at := sr_next_validation_at new,
         sr_updated_at := sr_updated_at new,
         sr_last_accessed_at := sr_last_accessed_at new\<rparr>"

definition persisted_position :: "playback_session option \<Rightarrow> playback_session option \<Rightarrow> f64" where
  "persisted_position existing auto_session =
     f64_max0 (case existing of
        Some s \<Rightarrow> ps_last_position_seconds s
      | None \<Rightarrow> (case auto_session of Some s \<Rightarrow> ps_last_position_seconds s | None \<Rightarrow> Fin 0))"

definition persist_playback_session ::
  "json_parser \<Rightarrow> (json \<Rightarrow> string) \<Rightarrow> session_row list \<Rightarrow> persist_input \<Rightarrow> int \<Rightarrow> session_row list" where
  "persist_playback_session parse print t input now =
     (if pi_user_id input \<le> 0 \<or> trim (pi_session_key input) = [] \<or> trim (pi_tmdb_id input) = [] \<or>
         trim (pi_playable_url input) = []
      then t
      else
        let audio = normalize_preferred_audio_lang (pi_audio_lang input);
            quality = normalize_preferred_stream_quality (pi_preferred_quality input);
            session_key = trim (pi_session_key input);
            existing = get_playback_session_inner parse t (pi_user_id input) session_key;
            auto_key = (if audio \<noteq> ''auto''
              then build_related_playback_session_key_with_audio session_key (pi_tmdb_id input) ''auto'' quality
              else []);
            auto_session = (if auto_key \<noteq> [] \<and> auto_key \<noteq> session_key
              then get_playback_session_inner parse t (pi_user_id input) auto_key else None);
            new = \<lparr>sr_user_id = pi_user_id input,
                   sr_session_key = session_key,
                   sr_tmdb_id = trim (pi_tmdb_id input),
                   sr_audio_lang = audio,
                   sr_source_hash = lower (trim (pi_source_hash input)),
                   sr_selected_file = trim (pi_selected_file input),
                   sr_filename = trim (pi_filename input),
                   sr_playable_url = trim (pi_playable_url input),
                   sr_fallback_urls_json = print (JArr (map JStr
                     (normalize_playback_session_fallback_urls (pi_fallback_urls input)))),
                   sr_metadata_json = print (pi_metadata input),
                   sr_last_position_seconds = persisted_position existing auto_session,
                   sr_health_state = ''healthy'',
                   sr_health_fail_count = 0,
                   sr_last_error = [],
                   sr_last_verified_at = now,
                   sr_next_validation_at = now + PLAYBACK_SESSION_VALIDATE_INTERVAL_MS,
                   sr_updated_at = now,
                   sr_last_accessed_at = now\<rparr>;
            t = upsert sr_key persist_merge new t;
            t = (if auto_key \<noteq> [] \<and> auto_key \<noteq> session_key
              then delete_where (\<lambda>r. sr_key r = (pi_user_id input, auto_key)) t else t)
        in trim_table sr_updated_at PLAYBACK_SESSION_PERSIST_MAX_ENTRIES t)"

section \<open>Lookups after each operation\<close>

lemma sr_key_updates [simp]:
  "sr_key (r\<lparr>sr_next_validation_at := a, sr_last_accessed_at := b\<rparr>) = sr_key r"
  "sr_key (r\<lparr>sr_last_verified_at := c, sr_next_validation_at := a, sr_updated_at := d, sr_last_accessed_at := b\<rparr>) = sr_key r"
  "sr_key (r\<lparr>sr_last_position_seconds := e, sr_health_state := f, sr_health_fail_count := g,
             sr_last_error := h, sr_updated_at := d, sr_last_accessed_at := b\<rparr>) = sr_key r"
  "sr_key (invalidate_row reason now r) = sr_key r"
  "sr_key (persist_merge r r') = sr_key r"
  by (simp_all add: sr_key_def invalidate_row_def persist_merge_def)

lemma sr_next_updates [simp]:
  "sr_next_validation_at (invalidate_row reason now r) = sr_next_validation_at r"
  "sr_next_validation_at (persist_merge r r') = sr_next_validation_at r'"
  by (simp_all add: invalidate_row_def persist_merge_def)

text \<open>
  What an operation other than a claim does to the lease of a session: the row is gone,
  keeps its lease field, or carries a fresh validation deadline.
\<close>

definition keeps_lease :: "int \<times> string \<Rightarrow> int \<Rightarrow> session_row list \<Rightarrow> session_row list \<Rightarrow> bool" where
  "keeps_lease k now t t' \<longleftrightarrow>
     keyed sr_key t' \<and>
     (\<forall>r'. find_row sr_key k t' = Some r' \<longrightarrow>
        (\<exists>r. find_row sr_key k t = Some r \<and> sr_next_validation_at r' = sr_next_validation_at r) \<or>
        sr_next_validation_at r' = now + PLAYBACK_SESSION_VALIDATE_INTERVAL_MS)"

named_theorems lease_intros \<open>operations that keep a session's lease\<close>

lemma keeps_lease_refl: "keyed sr_key t \<Longrightarrow> keeps_lease k now t t"
  by (simp add: keeps_lease_def)

lemma keeps_lease_update:
  assumes "keyed sr_key t" and "\<And>r. sr_key (f r) = sr_key r"
    and "\<And>r. sr_next_validation_at (f r) \<in> {sr_next_validation_at r, now + PLAYBACK_SESSION_VALIDATE_INTERVAL_MS}"
  shows "keeps_lease k now t (update_where P f t)"
  using assms by (fastforce simp: keeps_lease_def find_row_update_where)

lemma keeps_lease_delete: "keyed sr_key t \<Longrightarrow> keeps_lease k now t (delete_where P t)"
  by (auto simp: keeps_lease_def find_row_delete_where split: option.splits if_splits)

lemma keeps_lease_trim:
  assumes "keyed sr_key t"
  shows "keeps_lease k now t (trim_table ord m t)"
proof -
  have "keyed sr_key (trim_table ord m t)" using assms by (rule subseq_keyed_trim)
  then show ?thesis
    using assms trim_table_subset [of ord m t]
    by (auto simp: keeps_lease_def find_row_Some_iff)
qed

lemma keeps_lease_trans:
  "keeps_lease k now t t' \<Longrightarrow> keeps_lease k now t' t'' \<Longrightarrow> keeps_lease k now t t''"
  by (fastforce simp: keeps_lease_def)

lemma keeps_lease_upsert:
  assumes "keyed sr_key t" and "sr_next_validation_at new = now + PLAYBACK_SESSION_VALIDATE_INTERVAL_MS"
  shows "keeps_lease k now t (upsert sr_key persist_merge new t)"
  using assms by (auto simp: keeps_lease_def find_row_upsert split: option.splits if_splits)

lemma progress_keeps_lease [lease_intros]:
  "keyed sr_key t \<Longrightarrow>
   keeps_lease k now t (snd (update_playback_session_progress parse t u sk pos hs err now))"
  by (auto simp: update_playback_session_progress_def Let_def keeps_lease_refl
      split: option.splits intro!: keeps_lease_update)

lemma invalidate_hash_keeps_lease [lease_intros]:
  "keyed sr_key t \<Longrightarrow>
   keeps_lease k now t (snd (invalidate_playback_sessions_by_source_hash t u h reason now))"
  by (auto simp: invalidate_playback_sessions_by_source_hash_def Let_def keeps_lease_refl
      intro!: keeps_lease_update)

lemma delete_tmdb_keeps_lease [lease_intros]:
  "keyed sr_key t \<Longrightarrow> keeps_lease k now t (delete_playback_sessions_for_tmdb t u tmdb)"
  by (simp add: delete_playback_sessions_for_tmdb_def keeps_lease_delete)

lemma delete_auto_keeps_lease [lease_intros]:
  "keyed sr_key t \<Longrightarrow> keeps_lease k now t (delete_auto_audio_sessions t u tmdb)"
  by (simp add: delete_auto_audio_sessions_def keeps_lease_delete)

lemma sweep_keeps_lease [lease_intros]:
  assumes "keyed sr_key t"
  shows "keeps_lease k now t (sweep_playback_sessions t now)"
  unfolding sweep_playback_sessions_def
  by (rule keeps_lease_trans [OF keeps_lease_delete [OF assms] keeps_lease_trim]) (simp add: assms)

lemma refresh_keeps_lease [lease_intros]:
  "keyed sr_key t \<Longrightarrow>
   keeps_lease k now t (snd (refresh_playback_session_validation_if_current parse print t s tok now))"
  by (auto simp: refresh_playback_session_validation_if_current_def Let_def intro!: keeps_lease_update)

lemma invalidate_keeps_lease [lease_intros]:
  "keyed sr_key t \<Longrightarrow>
   keeps_lease k now t (snd (invalidate_playback_session_validation_if_current parse print t s tok reason now))"
  by (auto simp: invalidate_playback_session_validation_if_current_def Let_def intro!: keeps_lease_update)

lemma persist_keeps_lease [lease_intros]:
  assumes "keyed sr_key t"
  shows "keeps_lease k now t (persist_playback_session parse print t input now)"
proof (cases "pi_user_id input \<le> 0 \<or> trim (pi_session_key input) = [] \<or> trim (pi_tmdb_id input) = [] \<or>
         trim (pi_playable_url input) = []")
  case True
  with assms show ?thesis by (simp add: persist_playback_session_def keeps_lease_refl)
next
  case False
  have "keeps_lease k now t (trim_table ord m (if b then delete_where P (upsert sr_key persist_merge new t)
          else upsert sr_key persist_merge new t))"
    if new: "sr_next_validation_at new = now + PLAYBACK_SESSION_VALIDATE_INTERVAL_MS" for ord m b P new
  proof -
    let ?t1 = "upsert sr_key persist_merge new t"
    let ?t2 = "if b then delete_where P ?t1 else ?t1"
    have 1: "keeps_lease k now t ?t1" by (rule keeps_lease_upsert [OF assms new])
    then have k1: "keyed sr_key ?t1" by (simp add: keeps_lease_def)
    then have 2: "keeps_lease k now ?t1 ?t2" by (simp add: keeps_lease_delete keeps_lease_refl)
    from k1 have "keeps_lease k now ?t2 (trim_table ord m ?t2)"
      by (intro keeps_lease_trim) simp
    with 1 2 show ?thesis by (blast intro: keeps_lease_trans)
  qed
  with False show ?thesis
    by (auto simp: persist_playback_session_def Let_def)
qed

section \<open>Claims\<close>

lemma claim_granted:
  assumes "find_row sr_key (ps_user_id s, ps_session_key s) t = Some r"
    and "try_claim_playback_session_validation parse t s now = (Claimed tok, t')"
  shows "sr_next_validation_at r \<noteq> 0" and "sr_next_validation_at r \<le> now"
    and "sr_next_validation_at r < 0 \<longrightarrow> sr_next_validation_at r = i64_min \<or> - sr_next_validation_at r \<le> now"
    and "normalize_session_health_state (sr_health_state r) \<noteq> ''invalid''"
    and "tok = - max (now + PLAYBACK_SESSION_VALIDATION_LEASE_MS) 1"
    and "t' = update_where (\<lambda>r'. sr_key r' = (ps_user_id s, ps_session_key s) \<and>
                sr_next_validation_at r' = sr_next_validation_at r \<and> sr_health_state r' \<noteq> ''invalid'')
                (\<lambda>r'. r'\<lparr>sr_next_validation_at := tok, sr_last_accessed_at := now\<rparr>) t"
proof -
  note claim = assms(2) [unfolded try_claim_playback_session_validation_def assms(1) option.case Let_def]
  show "sr_next_validation_at r \<noteq> 0" "sr_next_validation_at r \<le> now"
    "normalize_session_health_state (sr_health_state r) \<noteq> ''invalid''"
    using claim by (simp_all split: if_split_asm)
  show "sr_next_validation_at r < 0 \<longrightarrow> sr_next_validation_at r = i64_min \<or> - sr_next_validation_at r \<le> now"
    using claim by (auto simp: checked_neg_def not_less split: if_split_asm)
  show tok: "tok = - max (now + PLAYBACK_SESSION_VALIDATION_LEASE_MS) 1"
    using claim by (simp split: if_split_asm)
  show "t' = update_where (\<lambda>r'. sr_key r' = (ps_user_id s, ps_session_key s) \<and>
                sr_next_validation_at r' = sr_next_validation_at r \<and> sr_health_state r' \<noteq> ''invalid'')
                (\<lambda>r'. r'\<lparr>sr_next_validation_at := tok, sr_last_accessed_at := now\<rparr>) t"
    unfolding tok using claim by (simp split: if_split_asm)
qed

lemma claim_needs_row:
  "find_row sr_key (ps_user_id s, ps_session_key s) t = None \<Longrightarrow>
   try_claim_playback_session_validation parse t s now = (Unavailable, t)"
  by (simp add: try_claim_playback_session_validation_def)

lemma claim_not_granted:
  assumes "keyed sr_key t" and "try_claim_playback_session_validation parse t s now = (c, t')"
    and "\<And>tok. c \<noteq> Claimed tok"
  shows "t' = t"
proof (cases "find_row sr_key (ps_user_id s, ps_session_key s) t")
  case None
  with assms(2) show ?thesis by (simp add: claim_needs_row)
next
  case (Some r)
  let ?P = "\<lambda>r'. sr_key r' = (ps_user_id s, ps_session_key s) \<and>
            sr_next_validation_at r' = sr_next_validation_at r \<and> sr_health_state r' \<noteq> ''invalid''"
  note claim = assms(2) [unfolded try_claim_playback_session_validation_def Some option.case Let_def]
  have one: "count_where ?P t = 1" if "sr_health_state r \<noteq> ''invalid''"
    using count_where_key [OF assms(1)] Some that by simp
  show ?thesis
  proof (cases "sr_health_state r = ''invalid''")
    case True
    with claim show ?thesis by simp
  next
    case False
    show ?thesis using claim one [OF False] assms(3) by (auto split: if_split_asm)
  qed
qed

lemma claim_updates_row:
  assumes "keyed sr_key t" and "try_claim_playback_session_validation parse t s now = (Claimed tok, t')"
  shows "keyed sr_key t'"
    and "find_row sr_key k t' =
       (if k = (ps_user_id s, ps_session_key s)
        then map_option (\<lambda>r. r\<lparr>sr_next_validation_at := tok, sr_last_accessed_at := now\<rparr>) (find_row sr_key k t)
        else find_row sr_key k t)"
proof -
  obtain r where r: "find_row sr_key (ps_user_id s, ps_session_key s) t = Some r"
    using assms(2) claim_needs_row by (cases "find_row sr_key (ps_user_id s, ps_session_key s) t") fastforce+
  note granted = claim_granted [OF r assms(2)]
  have ok: "sr_health_state r \<noteq> ''invalid''" using granted(4) by auto
  show "keyed sr_key t'"
    using assms(1) by (simp add: granted(6))
  show "find_row sr_key k t' =
       (if k = (ps_user_id s, ps_session_key s)
        then map_option (\<lambda>r. r\<lparr>sr_next_validation_at := tok, sr_last_accessed_at := now\<rparr>) (find_row sr_key k t)
        else find_row sr_key k t)"
    using r ok
    by (cases "find_row sr_key k t") (auto simp: granted(6) find_row_update_where dest: find_row_SomeD)
qed

section \<open>The lease as a system\<close>

text \<open>
  Every request that touches the session table is a step; \<open>ls_issued\<close> records the tokens
  handed out for the watched session, newest first, \<open>ls_now\<close> the server's clock.
\<close>

record lease_state =
  ls_now :: int
  ls_rows :: "session_row list"
  ls_issued :: "int list"

definition clock_ok :: "int \<Rightarrow> bool" where
  "clock_ok now \<longleftrightarrow> 0 < now \<and> now + PLAYBACK_SESSION_VALIDATION_LEASE_MS \<le> i64_max"

definition claim_issues :: "int \<times> string \<Rightarrow> playback_session \<Rightarrow> validation_claim \<Rightarrow> int list" where
  "claim_issues k s c =
     (case c of Claimed tok \<Rightarrow> if (ps_user_id s, ps_session_key s) = k then [tok] else [] | _ \<Rightarrow> [])"

inductive lease_step ::
  "json_parser \<Rightarrow> (json \<Rightarrow> string) \<Rightarrow> int \<times> string \<Rightarrow> lease_state \<Rightarrow> lease_state \<Rightarrow> bool"
  for parse print k where
  tick: "0 \<le> d \<Longrightarrow> clock_ok (ls_now st + d) \<Longrightarrow> lease_step parse print k st (st\<lparr>ls_now := ls_now st + d\<rparr>)"
| claim: "try_claim_playback_session_validation parse (ls_rows st) s (ls_now st) = (c, t') \<Longrightarrow>
    lease_step parse print k st (st\<lparr>ls_rows := t', ls_issued := claim_issues k s c @ ls_issued st\<rparr>)"
| refresh: "lease_step parse print k st (st\<lparr>ls_rows :=
    snd (refresh_playback_session_validation_if_current parse print (ls_rows st) s tok (ls_now st))\<rparr>)"
| invalidate: "lease_step parse print k st (st\<lparr>ls_rows :=
    snd (invalidate_playback_session_validation_if_current parse print (ls_rows st) s tok reason (ls_now st))\<rparr>)"
| persist: "lease_step parse print k st (st\<lparr>ls_rows :=
    persist_playback_session parse print (ls_rows st) input (ls_now st)\<rparr>)"
| progress: "lease_step parse print k st (st\<lparr>ls_rows :=
    snd (update_playback_session_progress parse (ls_rows st) u sk pos hs err (ls_now st))\<rparr>)"
| invalidate_hash: "lease_step parse print k st (st\<lparr>ls_rows :=
    snd (invalidate_playback_sessions_by_source_hash (ls_rows st) u h reason (ls_now st))\<rparr>)"
| delete_tmdb: "lease_step parse print k st (st\<lparr>ls_rows :=
    delete_playback_sessions_for_tmdb (ls_rows st) u tmdb\<rparr>)"
| delete_auto: "lease_step parse print k st (st\<lparr>ls_rows := delete_auto_audio_sessions (ls_rows st) u tmdb\<rparr>)"
| sweep: "lease_step parse print k st (st\<lparr>ls_rows := sweep_playback_sessions (ls_rows st) (ls_now st)\<rparr>)"

inductive lease_reachable ::
  "json_parser \<Rightarrow> (json \<Rightarrow> string) \<Rightarrow> int \<times> string \<Rightarrow> lease_state \<Rightarrow> bool"
  for parse print k where
  start: "keyed sr_key t \<Longrightarrow> clock_ok now \<Longrightarrow>
    lease_reachable parse print k \<lparr>ls_now = now, ls_rows = t, ls_issued = []\<rparr>"
| step: "lease_reachable parse print k st \<Longrightarrow> lease_step parse print k st st' \<Longrightarrow>
    lease_reachable parse print k st'"

inductive_cases lease_stepE: "lease_step parse print k st st'"

lemma lease_step_claimI:
  assumes "try_claim_playback_session_validation parse (ls_rows st) s (ls_now st) = (c, t')"
    and "st' = st\<lparr>ls_rows := t', ls_issued := claim_issues k s c @ ls_issued st\<rparr>"
  shows "lease_step parse print k st st'"
  unfolding assms(2) using assms(1) by (rule lease_step.claim)

text \<open>
  The invariant: an unexpired token is either the one the row still carries, or the row
  carries a deadline no earlier than the token's expiry (or is gone).
\<close>

definition token_covered :: "int \<Rightarrow> session_row option \<Rightarrow> int \<Rightarrow> bool" where
  "token_covered now row tok \<longleftrightarrow>
     - tok \<le> now \<or>
     (case row of None \<Rightarrow> True
      | Some r \<Rightarrow> sr_next_validation_at r = tok \<or> - tok \<le> sr_next_validation_at r)"

definition lease_inv :: "int \<times> string \<Rightarrow> lease_state \<Rightarrow> bool" where
  "lease_inv k st \<longleftrightarrow>
     keyed sr_key (ls_rows st) \<and> clock_ok (ls_now st) \<and>
     (\<forall>tok \<in> set (ls_issued st).
        i64_min < tok \<and> - tok \<le> ls_now st + PLAYBACK_SESSION_VALIDATION_LEASE_MS \<and>
        token_covered (ls_now st) (find_row sr_key k (ls_rows st)) tok) \<and>
     sorted_wrt (\<lambda>later earlier. - earlier + PLAYBACK_SESSION_VALIDATION_LEASE_MS \<le> - later) (ls_issued st)"

lemma lease_inv_rows:
  assumes "lease_inv k st" and "keeps_lease k (ls_now st) (ls_rows st) t'"
  shows "lease_inv k (st\<lparr>ls_rows := t'\<rparr>)"
proof -
  have "token_covered (ls_now st) (find_row sr_key k t') tok" if tok: "tok \<in> set (ls_issued st)" for tok
  proof (cases "find_row sr_key k t'")
    case None
    then show ?thesis by (simp add: token_covered_def)
  next
    case (Some r')
    from assms(1) tok have cov: "token_covered (ls_now st) (find_row sr_key k (ls_rows st)) tok"
      and bound: "- tok \<le> ls_now st + PLAYBACK_SESSION_VALIDATION_LEASE_MS"
      by (auto simp: lease_inv_def)
    from assms(2) Some
    have "(\<exists>r. find_row sr_key k (ls_rows st) = Some r \<and> sr_next_validation_at r' = sr_next_validation_at r) \<or>
        sr_next_validation_at r' = ls_now st + PLAYBACK_SESSION_VALIDATE_INTERVAL_MS"
      by (simp add: keeps_lease_def)
    with cov bound Some show ?thesis
      by (auto simp: token_covered_def PLAYBACK_SESSION_VALIDATION_LEASE_MS_def
          PLAYBACK_SESSION_VALIDATE_INTERVAL_MS_def)
  qed
  with assms show ?thesis by (auto simp: lease_inv_def keeps_lease_def)
qed

lemma claim_other_key:
  assumes "keyed sr_key t" and "try_claim_playback_session_validation parse t s now = (c, t')"
    and "claim_issues k s c = []"
  shows "keyed sr_key t' \<and> find_row sr_key k t' = find_row sr_key k t"
proof (cases "\<exists>tok. c = Claimed tok")
  case True
  then obtain tok where c: "c = Claimed tok" by blast
  with assms(3) have "k \<noteq> (ps_user_id s, ps_session_key s)"
    by (auto simp: claim_issues_def split: if_splits)
  with claim_updates_row [OF assms(1) assms(2) [unfolded c]] show ?thesis by simp
next
  case False
  with claim_not_granted [OF assms(1,2)] assms(1) show ?thesis by blast
qed

lemma claim_expired_tokens:
  assumes inv: "lease_inv k st" and "k = (ps_user_id s, ps_session_key s)"
    and "try_claim_playback_session_validation parse (ls_rows st) s (ls_now st) = (Claimed tok, t')"
    and "old \<in> set (ls_issued st)"
  shows "- old \<le> ls_now st"
proof -
  from assms(2,3) claim_needs_row obtain r where r: "find_row sr_key k (ls_rows st) = Some r"
    by (cases "find_row sr_key k (ls_rows st)") (fastforce)+
  note granted = claim_granted [OF r [unfolded assms(2)] assms(3)]
  from inv assms(4) have "i64_min < old" "token_covered (ls_now st) (Some r) old"
    by (auto simp: lease_inv_def r)
  with granted(2,3) show ?thesis
    by (auto simp: token_covered_def i64_min_def)
qed

lemma lease_inv_claim:
  assumes inv: "lease_inv k st"
    and claim: "try_claim_playback_session_validation parse (ls_rows st) s (ls_now st) = (c, t')"
  shows "lease_inv k (st\<lparr>ls_rows := t', ls_issued := claim_issues k s c @ ls_issued st\<rparr>)"
proof (cases "claim_issues k s c = []")
  case True
  with claim_other_key [OF _ claim] inv show ?thesis by (auto simp: lease_inv_def)
next
  case False
  then obtain tok where c: "c = Claimed tok" and k: "k = (ps_user_id s, ps_session_key s)"
    by (auto simp: claim_issues_def split: validation_claim.splits if_splits)
  have issues: "claim_issues k s c = [tok]" by (simp add: c k claim_issues_def)
  from inv have kd: "keyed sr_key (ls_rows st)" by (simp add: lease_inv_def)
  note upd = claim_updates_row [OF kd claim [unfolded c]]
  have old: "- old \<le> ls_now st" if "old \<in> set (ls_issued st)" for old
    using claim_expired_tokens [OF inv k claim [unfolded c] that] .
  from claim c k claim_needs_row obtain r where r: "find_row sr_key (ps_user_id s, ps_session_key s) (ls_rows st) = Some r"
    by (cases "find_row sr_key k (ls_rows st)") fastforce+
  have tok: "tok = - (ls_now st + PLAYBACK_SESSION_VALIDATION_LEASE_MS)"
    using claim_granted(5) [OF r claim [unfolded c]] inv
    by (auto simp: lease_inv_def clock_ok_def PLAYBACK_SESSION_VALIDATION_LEASE_MS_def)
  have row: "find_row sr_key k t' = Some (r\<lparr>sr_next_validation_at := tok, sr_last_accessed_at := ls_now st\<rparr>)"
    using upd(2) [of k] r k by simp
  have "- old + PLAYBACK_SESSION_VALIDATION_LEASE_MS \<le> - tok" if "old \<in> set (ls_issued st)" for old
    using old [OF that] tok by simp
  then show ?thesis
    using inv upd(1) old tok row
    by (auto simp: lease_inv_def issues token_covered_def clock_ok_def i64_max_def i64_min_def)
qed

lemma lease_inv_keyed: "lease_inv k st \<Longrightarrow> keyed sr_key (ls_rows st)"
  by (simp add: lease_inv_def)

lemma lease_inv_step: "lease_step parse print k st st' \<Longrightarrow> lease_inv k st \<Longrightarrow> lease_inv k st'"
proof (induction rule: lease_step.cases)
  case (tick d)
  then show ?case by (fastforce simp: lease_inv_def token_covered_def)
next
  case (claim s c t')
  then show ?case using lease_inv_claim by blast
qed (auto intro!: lease_inv_rows intro: lease_intros lease_inv_keyed)

lemma lease_reachable_inv: "lease_reachable parse print k st \<Longrightarrow> lease_inv k st"
  by (induction rule: lease_reachable.induct) (auto simp: lease_inv_step, simp add: lease_inv_def)

text \<open>
  C3: the validation lease is exclusive. Whatever requests persist, progress, delete or
  invalidate sessions in between, the leases handed out for one session are pairwise
  disjoint in time: a token issued later expires at least one whole lease after every
  token issued earlier, so at no time do two requests hold an unexpired lease.
\<close>

theorem validation_leases_disjoint:
  assumes "lease_reachable parse print k st"
  shows "sorted_wrt (\<lambda>later earlier. - earlier + PLAYBACK_SESSION_VALIDATION_LEASE_MS \<le> - later) (ls_issued st)"
  using lease_reachable_inv [OF assms] by (simp add: lease_inv_def)

definition sample_session_row :: session_row where
  "sample_session_row =
     \<lparr>sr_user_id = 1, sr_session_key = ''7:en:1080p'', sr_tmdb_id = ''7'', sr_audio_lang = ''en'',
      sr_source_hash = ''ab'', sr_selected_file = [], sr_filename = ''f'', sr_playable_url = ''u'',
      sr_fallback_urls_json = ''[]'', sr_metadata_json = ''{}'', sr_last_position_seconds = Fin 30,
      sr_health_state = ''healthy'', sr_health_fail_count = 0, sr_last_error = [],
      sr_last_verified_at = 1, sr_next_validation_at = 1000, sr_updated_at = 1, sr_last_accessed_at = 1\<rparr>"

theorem validation_leases_disjoint_witness:
  "sorted_wrt (\<lambda>later earlier. - earlier + PLAYBACK_SESSION_VALIDATION_LEASE_MS \<le> - later) [- 21000, - (11000::int)]"
proof -
  let ?parse = "\<lambda>_::string. None :: json option" and ?print = "\<lambda>_::json. ''[]''"
  let ?k = "(1::int, ''7:en:1080p'')"
  let ?s = "session_of_row ?parse sample_session_row"
  let ?st = "\<lambda>now toks next acc. \<lparr>ls_now = now, ls_rows = [sample_session_row\<lparr>sr_next_validation_at := next,
       sr_last_accessed_at := acc\<rparr>], ls_issued = toks\<rparr>"
  have "lease_reachable ?parse ?print ?k (?st 1000 [] 1000 1)"
    by (rule lease_reachable.start) (simp_all add: keyed_def clock_ok_def i64_max_def PLAYBACK_SESSION_VALIDATION_LEASE_MS_def)
  moreover have "lease_step ?parse ?print ?k (?st 1000 [] 1000 1) (?st 1000 [- 11000] (- 11000) 1000)"
  proof -
    have "try_claim_playback_session_validation ?parse [sample_session_row\<lparr>sr_next_validation_at := 1000,
         sr_last_accessed_at := 1\<rparr>] ?s 1000 = (Claimed (- 11000), [sample_session_row\<lparr>sr_next_validation_at := - 11000,
         sr_last_accessed_at := 1000\<rparr>])" by code_simp
    moreover have "claim_issues ?k ?s (Claimed (- 11000)) = [- 11000]" by code_simp
    ultimately show ?thesis
      by (intro lease_step_claimI [where s = ?s and c = "Claimed (- 11000)"]) simp_all
  qed
  moreover have "lease_step ?parse ?print ?k (?st 1000 [- 11000] (- 11000) 1000) (?st 11000 [- 11000] (- 11000) 1000)"
    using lease_step.tick [of 10000 "?st 1000 [- 11000] (- 11000) 1000" ?parse ?print ?k]
    by (simp add: clock_ok_def i64_max_def PLAYBACK_SESSION_VALIDATION_LEASE_MS_def)
  moreover have "lease_step ?parse ?print ?k (?st 11000 [- 11000] (- 11000) 1000)
      (?st 11000 [- 21000, - 11000] (- 21000) 11000)"
  proof -
    have "try_claim_playback_session_validation ?parse [sample_session_row\<lparr>sr_next_validation_at := - 11000,
         sr_last_accessed_at := 1000\<rparr>] ?s 11000 = (Claimed (- 21000), [sample_session_row\<lparr>sr_next_validation_at := - 21000,
         sr_last_accessed_at := 11000\<rparr>])" by code_simp
    moreover have "claim_issues ?k ?s (Claimed (- 21000)) = [- 21000]" by code_simp
    ultimately show ?thesis
      by (intro lease_step_claimI [where s = ?s and c = "Claimed (- 21000)"]) simp_all
  qed
  ultimately have "lease_reachable ?parse ?print ?k (?st 11000 [- 21000, - 11000] (- 21000) 11000)"
    by (meson lease_reachable.step)
  from validation_leases_disjoint [OF this] show ?thesis by simp
qed

section \<open>Completing a validation, persisting a session\<close>

text \<open>
  When a validation is granted. A request gets the lease exactly when the session
  is stored, not invalid, still the one the request resolved, and due: its deadline has
  passed, or the lease of the previous holder has expired.
\<close>

theorem claim_granted_iff:
  assumes "keyed sr_key t" and "find_row sr_key (ps_user_id s, ps_session_key s) t = Some r"
    and "i64_min < sr_next_validation_at r" and "0 < now"
  shows "(\<exists>tok t'. try_claim_playback_session_validation parse t s now = (Claimed tok, t')) \<longleftrightarrow>
     normalize_session_health_state (sr_health_state r) \<noteq> ''invalid'' \<and>
     playback_session_validation_identity_matches parse s (sr_playable_url r) (sr_source_hash r)
       (sr_selected_file r) (sr_metadata_json r) \<and>
     sr_next_validation_at r \<noteq> 0 \<and> \<bar>sr_next_validation_at r\<bar> \<le> now"
proof -
  have "sr_health_state r \<noteq> ''invalid''" if "normalize_session_health_state (sr_health_state r) \<noteq> ''invalid''"
    using that by auto
  then show ?thesis
    using assms
    by (auto simp: try_claim_playback_session_validation_def count_where_key Let_def checked_neg_def)
qed

theorem claim_granted_iff_witness:
  "\<exists>tok t'. try_claim_playback_session_validation (\<lambda>_. None) [sample_session_row]
     (session_of_row (\<lambda>_. None) sample_session_row) 1000 = (Claimed tok, t')"
proof -
  have f: "find_row sr_key (ps_user_id (session_of_row (\<lambda>_. None) sample_session_row),
      ps_session_key (session_of_row (\<lambda>_. None) sample_session_row)) [sample_session_row] = Some sample_session_row"
    by code_simp
  have h: "normalize_session_health_state (sr_health_state sample_session_row) \<noteq> ''invalid''"
    "playback_session_validation_identity_matches (\<lambda>_. None) (session_of_row (\<lambda>_. None) sample_session_row)
       (sr_playable_url sample_session_row) (sr_source_hash sample_session_row)
       (sr_selected_file sample_session_row) (sr_metadata_json sample_session_row)"
    by code_simp+
  show ?thesis
    using h by (subst claim_granted_iff [OF _ f]) (simp_all add: keyed_def sample_session_row_def i64_min_def)
qed

text \<open>
  Only the holder completes. A validation refreshed under a token changes the
  session only if its row still carries that token, and then makes it fresh until the
  next interval: no claim is granted before.
\<close>

theorem refresh_needs_current_token:
  assumes "keyed sr_key t" and "find_row sr_key (ps_user_id s, ps_session_key s) t = Some r"
    and "refresh_playback_session_validation_if_current parse print t s tok now = (refreshed, t')"
  shows "if refreshed
     then sr_next_validation_at r = tok \<and> sr_health_state r \<noteq> ''invalid'' \<and>
          (\<forall>now' tok' t''. 0 < now' \<and> now' < now + PLAYBACK_SESSION_VALIDATE_INTERVAL_MS \<longrightarrow>
             try_claim_playback_session_validation parse t' s now' \<noteq> (Claimed tok', t''))
     else t' = t"
proof -
  let ?P = "validation_is_current parse print s tok"
  let ?f = "\<lambda>r. r\<lparr>sr_last_verified_at := now, sr_next_validation_at := now + PLAYBACK_SESSION_VALIDATE_INTERVAL_MS,
                 sr_updated_at := now, sr_last_accessed_at := now\<rparr>"
  from assms(3) have ref: "refreshed \<longleftrightarrow> 0 < count_where ?P t" and t': "t' = update_where ?P ?f t"
    by (auto simp: refresh_playback_session_validation_if_current_def Let_def)
  have key: "sr_key x = (ps_user_id s, ps_session_key s)" if "?P x" for x
    using that by (simp add: validation_is_current_def)
  show ?thesis
  proof (cases "?P r")
    case True
    with assms(2) ref have refreshed by (auto dest: find_row_SomeD)
    have row: "find_row sr_key (ps_user_id s, ps_session_key s) t' = Some (?f r)"
      using True assms(2) by (simp add: t' find_row_update_where)
    have "\<not> (0 < now' \<and> now' < now + PLAYBACK_SESSION_VALIDATE_INTERVAL_MS)"
      if "try_claim_playback_session_validation parse t' s now' = (Claimed tok', t'')" for now' tok' t''
      using claim_granted(2) [OF row that] by simp
    with True \<open>refreshed\<close> show ?thesis by (auto simp: validation_is_current_def)
  next
    case False
    have "\<not> ?P x" if "x \<in> set t" for x
      using False key that assms(1,2) find_row_Some_iff [OF assms(1)] by (metis option.inject)
    then have "count_where ?P t = 0" "update_where ?P ?f t = t"
      by (simp_all add: update_where_none)
    with ref t' show ?thesis by simp
  qed
qed

theorem refresh_needs_current_token_witness:
  "try_claim_playback_session_validation (\<lambda>_. None)
     (snd (refresh_playback_session_validation_if_current (\<lambda>_. None) (\<lambda>_. ''{}'')
        [sample_session_row\<lparr>sr_next_validation_at := - 11000\<rparr>]
        (session_of_row (\<lambda>_. None) sample_session_row) (- 11000) 2000)) (session_of_row (\<lambda>_. None) sample_session_row) 3000
   \<noteq> (Claimed (- 13000), [])"
proof -
  let ?t = "[sample_session_row\<lparr>sr_next_validation_at := - 11000\<rparr>]"
  let ?s = "session_of_row (\<lambda>_. None) sample_session_row"
  let ?ref = "refresh_playback_session_validation_if_current (\<lambda>_. None) (\<lambda>_. ''{}'') ?t ?s (- 11000) 2000"
  have k: "keyed sr_key ?t" by (simp add: keyed_def)
  have f: "find_row sr_key (ps_user_id ?s, ps_session_key ?s) ?t = Some (sample_session_row\<lparr>sr_next_validation_at := - 11000\<rparr>)"
    by code_simp
  have "fst ?ref" by code_simp
  moreover have "?ref = (fst ?ref, snd ?ref)" by simp
  ultimately show ?thesis
    using refresh_needs_current_token [OF k f, of "\<lambda>_. None" "\<lambda>_. ''{}''" "- 11000" 2000 True "snd ?ref"]
    by (simp add: PLAYBACK_SESSION_VALIDATE_INTERVAL_MS_def)
qed

definition persist_auto_key :: "persist_input \<Rightarrow> string option" where
  "persist_auto_key input =
     (let key = trim (pi_session_key input);
          auto_key = build_related_playback_session_key_with_audio key (pi_tmdb_id input) ''auto''
            (normalize_preferred_stream_quality (pi_preferred_quality input))
      in if normalize_preferred_audio_lang (pi_audio_lang input) \<noteq> ''auto'' \<and> auto_key \<noteq> [] \<and> auto_key \<noteq> key
         then Some auto_key else None)"

lemma trim_table_newest_kept:
  assumes "r \<in> set t" and "\<And>r'. r' \<in> set t \<Longrightarrow> r' \<noteq> r \<Longrightarrow> ord r' < ord r" and "0 < m"
  shows "r \<in> set (trim_table ord m t)"
proof (rule ccontr)
  assume dropped: "r \<notin> set (trim_table ord m t)"
  have "length (trim_table ord m t) \<noteq> 0" using assms(1,3) by (cases t) auto
  then obtain r' where r': "r' \<in> set (trim_table ord m t)" by (cases "trim_table ord m t") auto
  then have "ord r \<le> ord r'" by (rule trim_table_keeps_newest [OF assms(1) dropped])
  moreover have "r' \<noteq> r" "r' \<in> set t" using r' dropped trim_table_subset by (fastforce dest: subsetD)+
  ultimately show False using assms(2) by fastforce
qed

lemma find_row_trim_newest:
  assumes "keyed key t" and "find_row key k t = Some r"
    and "\<And>r'. r' \<in> set t \<Longrightarrow> r' \<noteq> r \<Longrightarrow> ord r' < ord r" and "0 < m"
  shows "find_row key k (trim_table ord m t) = Some r"
  using assms trim_table_newest_kept [of r t ord m] subseq_keyed_trim [OF assms(1), of ord m]
  by (simp add: find_row_Some_iff)

text \<open>
  Persisting keeps the viewer's place. Saving a freshly resolved session leaves it
  healthy and fresh, with the resume position it had, or, when the viewer first names an
  audio language, the position of the session for automatic audio, which it replaces.
\<close>

theorem persist_keeps_position:
  assumes "keyed sr_key t" and "list_all (\<lambda>r. sr_updated_at r < now) t"
    and "0 < pi_user_id input" and "trim (pi_session_key input) \<noteq> []" and "trim (pi_tmdb_id input) \<noteq> []"
    and "trim (pi_playable_url input) \<noteq> []"
  shows "map_option (\<lambda>s. (ps_last_position_seconds s, ps_health_state s, ps_next_validation_at s, ps_playable_url s))
       (get_playback_session_inner parse (persist_playback_session parse print t input now)
          (pi_user_id input) (trim (pi_session_key input))) =
     Some (persisted_position
             (get_playback_session_inner parse t (pi_user_id input) (trim (pi_session_key input)))
             (Option.bind (persist_auto_key input) (get_playback_session_inner parse t (pi_user_id input))),
           ''healthy'', now + PLAYBACK_SESSION_VALIDATE_INTERVAL_MS, trim (pi_playable_url input))"
proof -
  let ?k = "(pi_user_id input, trim (pi_session_key input))"
  let ?auto = "Option.bind (persist_auto_key input) (get_playback_session_inner parse t (pi_user_id input))"
  let ?own = "get_playback_session_inner parse t (pi_user_id input) (trim (pi_session_key input))"
  obtain new b auto_key where
    eq: "persist_playback_session parse print t input now =
      trim_table sr_updated_at PLAYBACK_SESSION_PERSIST_MAX_ENTRIES
        (if b then delete_where (\<lambda>r. sr_key r = (pi_user_id input, auto_key)) (upsert sr_key persist_merge new t)
         else upsert sr_key persist_merge new t)"
    and b: "b \<Longrightarrow> auto_key \<noteq> trim (pi_session_key input)"
    and new: "sr_key new = ?k" "sr_last_position_seconds new = persisted_position ?own ?auto"
      "sr_health_state new = ''healthy''" "sr_playable_url new = trim (pi_playable_url input)"
      "sr_next_validation_at new = now + PLAYBACK_SESSION_VALIDATE_INTERVAL_MS" "sr_updated_at new = now"
    using assms(3-6)
    by (fastforce simp: persist_playback_session_def persist_auto_key_def Let_def sr_key_def)
  let ?t1 = "upsert sr_key persist_merge new t"
  let ?t2 = "if b then delete_where (\<lambda>r. sr_key r = (pi_user_id input, auto_key)) ?t1 else ?t1"
  let ?row = "case find_row sr_key ?k t of None \<Rightarrow> new | Some r \<Rightarrow> persist_merge r new"
  have k1: "keyed sr_key ?t1" using assms(1) by simp
  then have k2: "keyed sr_key ?t2" by simp
  have row1: "find_row sr_key ?k ?t1 = Some ?row"
    by (simp add: find_row_upsert new(1) split: option.split)
  then have row2: "find_row sr_key ?k ?t2 = Some ?row"
    using b new(1) by (auto simp: find_row_delete_where [OF k1] dest: find_row_SomeD split: option.splits)
  have upd: "sr_updated_at ?row = now"
    by (auto simp: persist_merge_def new(6) split: option.split)
  have "r' \<in> set t" if "r' \<in> set ?t2" "r' \<noteq> ?row" for r'
  proof -
    have "find_row sr_key (sr_key r') ?t1 = Some r'"
      using that(1) k1 by (auto simp: find_row_Some_iff split: if_splits)
    moreover have "sr_key r' \<noteq> ?k" using calculation that(2) row1 by auto
    ultimately show ?thesis
      by (auto simp: find_row_upsert new(1) dest: find_row_SomeD)
  qed
  then have "find_row sr_key ?k (persist_playback_session parse print t input now) = Some ?row"
    unfolding eq using assms(2) upd row2
    by (intro find_row_trim_newest [OF k2]) (auto simp: list_all_iff PLAYBACK_SESSION_PERSIST_MAX_ENTRIES_def)
  then show ?thesis
    by (auto simp: get_playback_session_inner_def session_of_row_def persist_merge_def new persisted_position_def
        f64_max0_id split: option.split)
qed

definition sample_persist_input :: persist_input where
  "sample_persist_input =
     \<lparr>pi_user_id = 1, pi_session_key = '' 7:en:1080p '', pi_tmdb_id = ''7'', pi_audio_lang = ''en'',
      pi_preferred_quality = ''1080p'', pi_source_hash = ''AB'', pi_selected_file = [], pi_filename = ''f'',
      pi_playable_url = ''u2'', pi_fallback_urls = [''x'', '' x''], pi_metadata = JNull\<rparr>"

theorem persist_keeps_position_witness:
  "map_option ps_last_position_seconds
     (get_playback_session_inner (\<lambda>_. None)
        (persist_playback_session (\<lambda>_. None) (\<lambda>_. ''[]'') [sample_session_row\<lparr>sr_session_key := ''7:auto:1080p''\<rparr>]
          sample_persist_input 50) 1 ''7:en:1080p'') = Some (Fin 30)"
proof -
  let ?t = "[sample_session_row\<lparr>sr_session_key := ''7:auto:1080p''\<rparr>]"
  have "0 < pi_user_id sample_persist_input \<and> trim (pi_session_key sample_persist_input) = ''7:en:1080p'' \<and>
      trim (pi_tmdb_id sample_persist_input) = ''7'' \<and> trim (pi_playable_url sample_persist_input) = ''u2'' \<and>
      list_all (\<lambda>r. sr_updated_at r < 50) ?t \<and> pi_user_id sample_persist_input = 1 \<and>
      persisted_position (get_playback_session_inner (\<lambda>_. None) ?t 1 ''7:en:1080p'')
        (Option.bind (persist_auto_key sample_persist_input) (get_playback_session_inner (\<lambda>_. None) ?t 1)) = Fin 30"
    by code_simp
  then show ?thesis
    using persist_keeps_position [of ?t 50 sample_persist_input "\<lambda>_. None" "\<lambda>_. ''[]''"]
    by (auto simp: keyed_def)
qed

end
