(* ===== verification/ApiErrors.thy ===== *)
theory ApiErrors
  imports Json
begin

text \<open>
  \<open>src/error.rs\<close>: the error value every handler returns, a status and a JSON payload
  with the message, and its constructors. \<open>AppResult\<close> is a sum, the error on the left.
\<close>

record api_error =
  ae_status :: nat
  ae_payload :: json

type_synonym 'a app_result = "api_error + 'a"

definition api_error_new :: "nat \<Rightarrow> string \<Rightarrow> api_error" where
  "api_error_new status message = \<lparr>ae_status = status, ae_payload = JObj [(''error'', JStr message)]\<rparr>"

definition bad_request :: "string \<Rightarrow> api_error" where
  "bad_request message = api_error_new 400 message"

definition unauthorized :: "string \<Rightarrow> api_error" where
  "unauthorized message = api_error_new 401 message"

definition forbidden :: "string \<Rightarrow> api_error" where
  "forbidden message = api_error_new 403 message"

definition not_found :: "string \<Rightarrow> api_error" where
  "not_found message = api_error_new 404 message"

definition method_not_allowed :: "string \<Rightarrow> api_error" where
  "method_not_allowed message = api_error_new 405 message"

definition payload_too_large :: "string \<Rightarrow> api_error" where
  "payload_too_large message = api_error_new 413 message"

definition failed_dependency :: "string \<Rightarrow> api_error" where
  "failed_dependency message = api_error_new 424 message"

definition too_many_requests :: "string \<Rightarrow> api_error" where
  "too_many_requests message = api_error_new 429 message"

definition internal :: "string \<Rightarrow> api_error" where
  "internal message = api_error_new 500 message"

definition bad_gateway :: "string \<Rightarrow> api_error" where
  "bad_gateway message = api_error_new 502 message"

definition service_unavailable :: "string \<Rightarrow> api_error" where
  "service_unavailable message = api_error_new 503 message"

definition gateway_timeout :: "string \<Rightarrow> api_error" where
  "gateway_timeout message = api_error_new 504 message"

definition api_error_message :: "api_error \<Rightarrow> string option" where
  "api_error_message e = Option.bind (json_get ''error'' (ae_payload e)) as_str"

lemmas api_error_defs = bad_request_def unauthorized_def forbidden_def not_found_def
  method_not_allowed_def payload_too_large_def failed_dependency_def too_many_requests_def
  internal_def bad_gateway_def service_unavailable_def gateway_timeout_def

lemma status_simps [simp]:
  "ae_status (bad_request m) = 400" "ae_status (unauthorized m) = 401" "ae_status (forbidden m) = 403"
  "ae_status (not_found m) = 404" "ae_status (method_not_allowed m) = 405"
  "ae_status (payload_too_large m) = 413" "ae_status (failed_dependency m) = 424"
  "ae_status (too_many_requests m) = 429" "ae_status (internal m) = 500"
  "ae_status (bad_gateway m) = 502" "ae_status (service_unavailable m) = 503"
  "ae_status (gateway_timeout m) = 504"
  by (simp_all add: api_error_defs api_error_new_def)

lemma api_error_message_new [simp]: "api_error_message (api_error_new status m) = Some m"
  by (simp add: api_error_message_def api_error_new_def)

end
