(* ===== verification/Accounts.thy ===== *)
theory Accounts
  imports SqlTable ApiErrors
begin

text \<open>
  The account tables of \<open>src/persistence.rs\<close>: users, sign-in sessions, and the two
  kinds of single-use mail tokens. Every operation is a function on the four tables; a
  statement that breaks a constraint of the schema (\<open>UNIQUE\<close>, \<open>PRIMARY KEY\<close>,
  \<open>REFERENCES\<close>) fails, which is None here. \<open>accounts_inv\<close> is the schema: each operation
  keeps it. Session tokens and mail tokens are stored as \<open>sha256_hex\<close> of the secret;
  the digest is the parameter \<open>sha\<close> of the operations that take the secret itself.
\<close>

section \<open>Tables\<close>

record user_row =
  u_id :: int
  u_username :: string
  u_password_hash :: string
  u_display_name :: string
  u_email_verified_at :: "int option"
  u_is_admin :: bool
  u_is_disabled :: bool
  u_created_at :: int
  u_updated_at :: int

record auth_session_row =
  as_token_hash :: string
  as_user_id :: int
  as_created_at :: int
  as_expires_at :: int

record account_token_row =
  at_token_hash :: string
  at_user_id :: int
  at_expires_at :: int
  at_created_at :: int

text \<open>\<open>AUTOINCREMENT\<close> never reuses an id: \<open>ad_next_id\<close> only grows.\<close>

record accounts =
  ad_users :: "user_row list"
  ad_next_id :: int
  ad_sessions :: "auth_session_row list"
  ad_verify_tokens :: "account_token_row list"
  ad_reset_tokens :: "account_token_row list"

definition empty_accounts :: accounts where
  "empty_accounts = \<lparr>ad_users = [], ad_next_id = 1, ad_sessions = [], ad_verify_tokens = [], ad_reset_tokens = []\<rparr>"

text \<open>\<open>username\<close> is \<open>COLLATE NOCASE\<close>: it is unique, and compared, ignoring ASCII case.\<close>

definition username_key :: "user_row \<Rightarrow> string" where
  "username_key u = lower (u_username u)"

section \<open>Users\<close>

definition insert_user :: "accounts \<Rightarrow> string \<Rightarrow> string \<Rightarrow> string \<Rightarrow> bool \<Rightarrow> int \<Rightarrow> (int \<times> accounts) option" where
  "insert_user db email password_hash display_name is_admin now =
     (if find_row username_key (lower email) (ad_users db) \<noteq> None then None
      else let id = ad_next_id db
           in Some (id, db\<lparr>ad_next_id := id + 1,
                ad_users := ad_users db @
                  [\<lparr>u_id = id, u_username = email, u_password_hash = password_hash,
                    u_display_name = display_name, u_email_verified_at = None, u_is_admin = is_admin,
                    u_is_disabled = False, u_created_at = now, u_updated_at = now\<rparr>]\<rparr>))"

definition create_user :: "accounts \<Rightarrow> string \<Rightarrow> string \<Rightarrow> string \<Rightarrow> int \<Rightarrow> (int \<times> accounts) option" where
  "create_user db email password_hash display_name now =
     insert_user db email password_hash display_name False now"

text \<open>
  The address is compared once more inside the statement; the inner option is the code's
  \<open>Option\<close> (no row selected), the outer one a broken constraint.
\<close>

definition create_bootstrap_admin ::
  "accounts \<Rightarrow> string \<Rightarrow> string \<Rightarrow> string \<Rightarrow> string \<Rightarrow> int \<Rightarrow> (int option \<times> accounts) option" where
  "create_bootstrap_admin db email password_hash display_name configured_email now =
     (if sql_trim configured_email \<noteq> [] \<and> lower (sql_trim configured_email) = lower (sql_trim email)
      then map_option (\<lambda>(id, db'). (Some id, db')) (insert_user db email password_hash display_name True now)
      else Some (None, db))"

definition get_user_by_email :: "accounts \<Rightarrow> string \<Rightarrow> user_row option" where
  "get_user_by_email db email = find_row username_key (lower email) (ad_users db)"

definition get_auth_user :: "accounts \<Rightarrow> int \<Rightarrow> user_row option" where
  "get_auth_user db user_id = find_row u_id user_id (ad_users db)"

definition mark_email_verified :: "accounts \<Rightarrow> int \<Rightarrow> int \<Rightarrow> int \<Rightarrow> accounts" where
  "mark_email_verified db user_id verified_at now =
     db\<lparr>ad_users := update_where (\<lambda>u. u_id u = user_id \<and> u_email_verified_at u = None)
          (\<lambda>u. u\<lparr>u_email_verified_at := Some verified_at, u_updated_at := now\<rparr>) (ad_users db)\<rparr>"

definition email_verified_at :: "accounts \<Rightarrow> int \<Rightarrow> int option" where
  "email_verified_at db user_id =
     Option.bind (find_row u_id user_id (ad_users db)) u_email_verified_at"

section \<open>Sessions\<close>

definition create_session :: "(string \<Rightarrow> string) \<Rightarrow> accounts \<Rightarrow> string \<Rightarrow> int \<Rightarrow> int \<Rightarrow> int \<Rightarrow> accounts option" where
  "create_session sha db token user_id expires_at now =
     (if find_row as_token_hash (sha token) (ad_sessions db) \<noteq> None \<or>
         find_row u_id user_id (ad_users db) = None
      then None
      else Some (db\<lparr>ad_sessions := ad_sessions db @
             [\<lparr>as_token_hash = sha token, as_user_id = user_id, as_created_at = now,
               as_expires_at = expires_at\<rparr>]\<rparr>))"

definition get_session :: "(string \<Rightarrow> string) \<Rightarrow> accounts \<Rightarrow> string \<Rightarrow> (int \<times> int) option" where
  "get_session sha db token =
     map_option (\<lambda>s. (as_user_id s, as_expires_at s)) (find_row as_token_hash (sha token) (ad_sessions db))"

definition delete_session :: "(string \<Rightarrow> string) \<Rightarrow> accounts \<Rightarrow> string \<Rightarrow> accounts" where
  "delete_session sha db token =
     db\<lparr>ad_sessions := delete_where (\<lambda>s. as_token_hash s = sha token) (ad_sessions db)\<rparr>"

section \<open>Single-use tokens\<close>

definition replace_token ::
  "accounts \<Rightarrow> account_token_row list \<Rightarrow> int \<Rightarrow> string \<Rightarrow> int \<Rightarrow> int \<Rightarrow> account_token_row list option" where
  "replace_token db ts user_id token_hash expires_at now =
     (let rest = delete_where (\<lambda>t. at_user_id t = user_id) ts
      in if find_row at_token_hash token_hash rest \<noteq> None \<or> find_row u_id user_id (ad_users db) = None
         then None
         else Some (rest @ [\<lparr>at_token_hash = token_hash, at_user_id = user_id,
                             at_expires_at = expires_at, at_created_at = now\<rparr>]))"

definition create_email_verification_token ::
  "accounts \<Rightarrow> int \<Rightarrow> string \<Rightarrow> int \<Rightarrow> int \<Rightarrow> accounts option" where
  "create_email_verification_token db user_id token_hash expires_at now =
     map_option (\<lambda>ts. db\<lparr>ad_verify_tokens := ts\<rparr>)
       (replace_token db (ad_verify_tokens db) user_id token_hash expires_at now)"

definition create_password_reset_token ::
  "accounts \<Rightarrow> int \<Rightarrow> string \<Rightarrow> int \<Rightarrow> int \<Rightarrow> accounts option" where
  "create_password_reset_token db user_id token_hash expires_at now =
     map_option (\<lambda>ts. db\<lparr>ad_reset_tokens := ts\<rparr>)
       (replace_token db (ad_reset_tokens db) user_id token_hash expires_at now)"

definition consume_email_verification_token :: "accounts \<Rightarrow> string \<Rightarrow> (int \<times> int) option \<times> accounts" where
  "consume_email_verification_token db token_hash =
     (map_option (\<lambda>t. (at_user_id t, at_expires_at t)) (find_row at_token_hash token_hash (ad_verify_tokens db)),
      db\<lparr>ad_verify_tokens := delete_where (\<lambda>t. at_token_hash t = token_hash) (ad_verify_tokens db)\<rparr>)"

definition consume_password_reset_token :: "accounts \<Rightarrow> string \<Rightarrow> (int \<times> int) option \<times> accounts" where
  "consume_password_reset_token db token_hash =
     (map_option (\<lambda>t. (at_user_id t, at_expires_at t)) (find_row at_token_hash token_hash (ad_reset_tokens db)),
      db\<lparr>ad_reset_tokens := delete_where (\<lambda>t. at_token_hash t = token_hash) (ad_reset_tokens db)\<rparr>)"

section \<open>Credential and privilege changes\<close>

definition delete_sessions_of :: "int \<Rightarrow> accounts \<Rightarrow> accounts" where
  "delete_sessions_of user_id db =
     db\<lparr>ad_sessions := delete_where (\<lambda>s. as_user_id s = user_id) (ad_sessions db)\<rparr>"

definition delete_tokens_of :: "int \<Rightarrow> accounts \<Rightarrow> accounts" where
  "delete_tokens_of user_id db =
     db\<lparr>ad_reset_tokens := delete_where (\<lambda>t. at_user_id t = user_id) (ad_reset_tokens db),
        ad_verify_tokens := delete_where (\<lambda>t. at_user_id t = user_id) (ad_verify_tokens db)\<rparr>"

definition update_user :: "int \<Rightarrow> (user_row \<Rightarrow> user_row) \<Rightarrow> accounts \<Rightarrow> nat \<times> accounts" where
  "update_user user_id f db =
     (count_where (\<lambda>u. u_id u = user_id) (ad_users db),
      db\<lparr>ad_users := update_where (\<lambda>u. u_id u = user_id) f (ad_users db)\<rparr>)"

definition set_password_by_user_id :: "accounts \<Rightarrow> int \<Rightarrow> string \<Rightarrow> int \<Rightarrow> nat \<times> accounts" where
  "set_password_by_user_id db user_id password_hash now =
     (let (changed, db) = update_user user_id (\<lambda>u. u\<lparr>u_password_hash := password_hash, u_updated_at := now\<rparr>) db
      in (changed, if changed > 0 then delete_tokens_of user_id (delete_sessions_of user_id db) else db))"

definition admin_set_password :: "accounts \<Rightarrow> int \<Rightarrow> string \<Rightarrow> int \<Rightarrow> nat \<times> accounts" where
  "admin_set_password db user_id password_hash now =
     (let (changed, db) = update_user user_id (\<lambda>u. u\<lparr>u_password_hash := password_hash, u_updated_at := now\<rparr>) db
      in (changed, if changed > 0 then delete_tokens_of user_id (delete_sessions_of user_id db) else db))"

definition admin_set_disabled :: "accounts \<Rightarrow> int \<Rightarrow> bool \<Rightarrow> int \<Rightarrow> nat \<times> accounts" where
  "admin_set_disabled db user_id disabled now =
     (let (changed, db) = update_user user_id (\<lambda>u. u\<lparr>u_is_disabled := disabled, u_updated_at := now\<rparr>) db
      in (changed, if disabled \<and> changed > 0 then delete_sessions_of user_id db else db))"

definition admin_set_admin :: "accounts \<Rightarrow> int \<Rightarrow> bool \<Rightarrow> int \<Rightarrow> nat \<times> accounts" where
  "admin_set_admin db user_id is_admin now =
     (let (changed, db) = update_user user_id (\<lambda>u. u\<lparr>u_is_admin := is_admin, u_updated_at := now\<rparr>) db
      in (changed, if changed > 0 then delete_sessions_of user_id db else db))"

text \<open>\<open>ON DELETE CASCADE\<close> removes what refers to the user.\<close>

definition admin_delete_user :: "accounts \<Rightarrow> int \<Rightarrow> nat \<times> accounts" where
  "admin_delete_user db user_id =
     (count_where (\<lambda>u. u_id u = user_id) (ad_users db),
      delete_tokens_of user_id (delete_sessions_of user_id
        (db\<lparr>ad_users := delete_where (\<lambda>u. u_id u = user_id) (ad_users db)\<rparr>)))"

text \<open>The account part of the sweep that runs every minute.\<close>

definition sweep_accounts :: "accounts \<Rightarrow> int \<Rightarrow> accounts" where
  "sweep_accounts db now =
     db\<lparr>ad_sessions := delete_where (\<lambda>s. as_expires_at s \<le> now) (ad_sessions db),
        ad_reset_tokens := delete_where (\<lambda>t. at_expires_at t \<le> now) (ad_reset_tokens db),
        ad_verify_tokens := delete_where (\<lambda>t. at_expires_at t \<le> now) (ad_verify_tokens db)\<rparr>"

section \<open>The schema is an invariant\<close>

definition tokens_ok :: "user_row list \<Rightarrow> account_token_row list \<Rightarrow> bool" where
  "tokens_ok us ts \<longleftrightarrow> keyed at_token_hash ts \<and> keyed at_user_id ts \<and> (\<forall>t \<in> set ts. at_user_id t \<in> u_id ` set us)"

definition accounts_inv :: "accounts \<Rightarrow> bool" where
  "accounts_inv db \<longleftrightarrow>
     keyed u_id (ad_users db) \<and> keyed username_key (ad_users db) \<and>
     (\<forall>u \<in> set (ad_users db). u_id u < ad_next_id db) \<and>
     keyed as_token_hash (ad_sessions db) \<and>
     (\<forall>s \<in> set (ad_sessions db). as_user_id s \<in> u_id ` set (ad_users db)) \<and>
     tokens_ok (ad_users db) (ad_verify_tokens db) \<and> tokens_ok (ad_users db) (ad_reset_tokens db)"

named_theorems accounts_intros \<open>operations that keep the schema\<close>

lemma empty_accounts_inv [simp]: "accounts_inv empty_accounts"
  by (simp add: accounts_inv_def empty_accounts_def tokens_ok_def)

lemma keyed_snoc: "keyed key (t @ [r]) \<longleftrightarrow> keyed key t \<and> find_row key (key r) t = None"
  by (auto simp: keyed_def find_row_None_iff)

lemma tokens_ok_delete [simp]: "tokens_ok us ts \<Longrightarrow> tokens_ok us (delete_where P ts)"
  by (auto simp: tokens_ok_def)

lemma u_id_update_where [simp]:
  assumes "\<And>u. u_id (f u) = u_id u"
  shows "u_id ` set (update_where P f us) = u_id ` set us"
proof -
  have "map u_id (update_where P f us) = map u_id us"
    by (simp add: update_where_def assms)
  then show ?thesis by (metis set_map)
qed

lemma insert_user_inv [accounts_intros]:
  assumes "accounts_inv db" and "insert_user db e p d a now = Some (uid, db')"
  shows "accounts_inv db'"
proof -
  from assms(2) have new: "find_row username_key (lower e) (ad_users db) = None"
    and db': "db' = db\<lparr>ad_next_id := uid + 1, ad_users := ad_users db @
        [\<lparr>u_id = uid, u_username = e, u_password_hash = p, u_display_name = d, u_email_verified_at = None,
          u_is_admin = a, u_is_disabled = False, u_created_at = now, u_updated_at = now\<rparr>]\<rparr>"
    and uid: "uid = ad_next_id db"
    by (auto simp: insert_user_def Let_def split: if_splits)
  have "find_row u_id uid (ad_users db) = None"
    using assms(1) uid by (fastforce simp: find_row_None_iff accounts_inv_def)
  moreover have "tokens_ok us ts \<Longrightarrow> tokens_ok (us @ [u]) ts" for us ts u
    by (auto simp: tokens_ok_def)
  ultimately show ?thesis
    using assms(1) new by (auto simp: accounts_inv_def db' keyed_snoc username_key_def uid)
qed

lemma create_user_inv [accounts_intros]:
  "accounts_inv db \<Longrightarrow> create_user db e p d now = Some (uid, db') \<Longrightarrow> accounts_inv db'"
  unfolding create_user_def by (rule insert_user_inv)

lemma create_bootstrap_admin_inv [accounts_intros]:
  "accounts_inv db \<Longrightarrow> create_bootstrap_admin db e p d c now = Some (uid, db') \<Longrightarrow> accounts_inv db'"
  by (auto simp: create_bootstrap_admin_def split: if_splits intro: insert_user_inv)

lemma update_users_inv:
  assumes "accounts_inv db" and "\<And>u. u_id (f u) = u_id u" and "\<And>u. u_username (f u) = u_username u"
  shows "accounts_inv (db\<lparr>ad_users := update_where P f (ad_users db)\<rparr>)"
proof -
  have "keyed u_id (update_where P f us) = keyed u_id us" for us by (simp add: assms(2))
  moreover have "keyed username_key (update_where P f us) = keyed username_key us" for us
    by (simp add: username_key_def assms(3))
  moreover have ids: "u_id ` set (update_where P f us) = u_id ` set us" for us by (simp add: assms(2))
  moreover have "tokens_ok (update_where P f us) ts = tokens_ok us ts" for us ts
    by (simp add: tokens_ok_def ids)
  moreover have "(\<forall>u \<in> set (update_where P f us). u_id u < n) \<longleftrightarrow> (\<forall>u \<in> set us. u_id u < n)" for us n
    using ids [of us] by (metis (no_types, lifting) imageE imageI)
  ultimately show ?thesis using assms(1) by (simp add: accounts_inv_def)
qed

lemma mark_email_verified_inv [accounts_intros]:
  "accounts_inv db \<Longrightarrow> accounts_inv (mark_email_verified db uid t now)"
  by (simp add: mark_email_verified_def update_users_inv)

lemma update_user_inv:
  "accounts_inv db \<Longrightarrow> (\<And>u. u_id (f u) = u_id u) \<Longrightarrow> (\<And>u. u_username (f u) = u_username u) \<Longrightarrow>
   update_user uid f db = (n, db') \<Longrightarrow> accounts_inv db'"
  by (auto simp: update_user_def intro: update_users_inv)

lemma delete_sessions_of_inv [accounts_intros]: "accounts_inv db \<Longrightarrow> accounts_inv (delete_sessions_of uid db)"
  by (auto simp: delete_sessions_of_def accounts_inv_def)

lemma delete_tokens_of_inv [accounts_intros]: "accounts_inv db \<Longrightarrow> accounts_inv (delete_tokens_of uid db)"
  by (auto simp: delete_tokens_of_def accounts_inv_def)

lemma create_session_inv [accounts_intros]:
  "accounts_inv db \<Longrightarrow> create_session sha db tok uid expiry now = Some db' \<Longrightarrow> accounts_inv db'"
  by (auto simp: create_session_def accounts_inv_def keyed_snoc find_row_None_iff split: if_splits)

lemma delete_session_inv [accounts_intros]:
  "accounts_inv db \<Longrightarrow> accounts_inv (delete_session sha db tok)"
  by (auto simp: delete_session_def accounts_inv_def)

lemma find_row_delete_key: "find_row key k (delete_where (\<lambda>r. key r = k) t) = None"
  by (auto simp: find_row_None_iff)

lemma replace_token_ok:
  assumes "tokens_ok (ad_users db) ts" and "replace_token db ts uid h expiry now = Some ts'"
  shows "tokens_ok (ad_users db) ts'"
proof -
  let ?rest = "delete_where (\<lambda>t. at_user_id t = uid) ts"
  let ?new = "\<lparr>at_token_hash = h, at_user_id = uid, at_expires_at = expiry, at_created_at = now\<rparr>"
  from assms(2) have "find_row at_token_hash h ?rest = None" "uid \<in> u_id ` set (ad_users db)" "ts' = ?rest @ [?new]"
    by (auto simp: replace_token_def Let_def find_row_None_iff split: if_splits)
  with tokens_ok_delete [OF assms(1)] show ?thesis
    by (auto simp: tokens_ok_def keyed_snoc find_row_delete_key)
qed

lemma create_email_verification_token_inv [accounts_intros]:
  "accounts_inv db \<Longrightarrow> create_email_verification_token db uid h expiry now = Some db' \<Longrightarrow> accounts_inv db'"
  by (auto simp: create_email_verification_token_def accounts_inv_def intro: replace_token_ok)

lemma create_password_reset_token_inv [accounts_intros]:
  "accounts_inv db \<Longrightarrow> create_password_reset_token db uid h expiry now = Some db' \<Longrightarrow> accounts_inv db'"
  by (auto simp: create_password_reset_token_def accounts_inv_def intro: replace_token_ok)

lemma consume_email_verification_token_inv [accounts_intros]:
  "accounts_inv db \<Longrightarrow> consume_email_verification_token db h = (r, db') \<Longrightarrow> accounts_inv db'"
  by (auto simp: consume_email_verification_token_def accounts_inv_def)

lemma consume_password_reset_token_inv [accounts_intros]:
  "accounts_inv db \<Longrightarrow> consume_password_reset_token db h = (r, db') \<Longrightarrow> accounts_inv db'"
  by (auto simp: consume_password_reset_token_def accounts_inv_def)

lemma set_password_by_user_id_inv [accounts_intros]:
  "accounts_inv db \<Longrightarrow> set_password_by_user_id db uid h now = (n, db') \<Longrightarrow> accounts_inv db'"
  by (auto simp: set_password_by_user_id_def split: prod.splits if_splits
      intro!: delete_tokens_of_inv delete_sessions_of_inv elim: update_user_inv [rotated 3])

lemma admin_set_password_inv [accounts_intros]:
  "accounts_inv db \<Longrightarrow> admin_set_password db uid h now = (n, db') \<Longrightarrow> accounts_inv db'"
  by (auto simp: admin_set_password_def split: prod.splits if_splits
      intro!: delete_tokens_of_inv delete_sessions_of_inv elim: update_user_inv [rotated 3])

lemma admin_set_disabled_inv [accounts_intros]:
  "accounts_inv db \<Longrightarrow> admin_set_disabled db uid b now = (n, db') \<Longrightarrow> accounts_inv db'"
  by (auto simp: admin_set_disabled_def split: prod.splits if_splits
      intro!: delete_sessions_of_inv elim: update_user_inv [rotated 3])

lemma admin_set_admin_inv [accounts_intros]:
  "accounts_inv db \<Longrightarrow> admin_set_admin db uid b now = (n, db') \<Longrightarrow> accounts_inv db'"
  by (auto simp: admin_set_admin_def split: prod.splits if_splits
      intro!: delete_sessions_of_inv elim: update_user_inv [rotated 3])

lemma admin_delete_user_inv [accounts_intros]:
  "accounts_inv db \<Longrightarrow> admin_delete_user db uid = (n, db') \<Longrightarrow> accounts_inv db'"
  by (fastforce simp: admin_delete_user_def accounts_inv_def delete_tokens_of_def delete_sessions_of_def tokens_ok_def)

lemma sweep_accounts_inv [accounts_intros]: "accounts_inv db \<Longrightarrow> accounts_inv (sweep_accounts db now)"
  by (auto simp: sweep_accounts_def accounts_inv_def)

end
