(* ===== verification/AuthHandlers.thy ===== *)
theory AuthHandlers
  imports Accounts RateLimit
begin

text \<open>
  Who may do what: \<open>src/auth.rs\<close>, the sign-in routes of \<open>src/routes.rs\<close> and the user
  administration of \<open>src/routes/admin.rs\<close>, over the account tables and the three
  throttles. A handler takes the request and the clock and returns the reply or the
  error, and the new state. Not under \<open>src\<close>, and so in the environment \<open>env\<close>: the
  SHA-256 digest, Argon2 hashing and verification, and JSON parsing; random secrets are
  arguments. Mail delivery changes no state and is left out. What handlers may do to the
  account tables is the relation \<open>account_step\<close>; every handler refines it, and the
  safety theorems are proved on it.
\<close>

section \<open>Requests, environment, state\<close>

record auth_config =
  cfg_open_signup_enabled :: bool
  cfg_signup_invite_code :: string
  cfg_bootstrap_admin_email :: "string option"
  cfg_session_cookie_secure :: bool
  cfg_app_origin :: string

record auth_env =
  env_sha256_hex :: "string \<Rightarrow> string"
  env_hash_password :: "string \<Rightarrow> string \<Rightarrow> string + string"
  env_verify_password :: "string \<Rightarrow> string \<Rightarrow> bool"
  env_parse :: json_parser
  env_config :: auth_config

record request =
  rq_method :: string
  rq_cf_connecting_ip :: "string option"
  rq_x_forwarded_for :: "string option"
  rq_peer_ip :: "string option"
  rq_cookie :: "string option"
  rq_body :: string

record auth_user =
  au_id :: int
  au_email :: string
  au_display_name :: string
  au_is_admin :: bool

record auth_state =
  st_accounts :: accounts
  st_auth_rate_limiter :: rate_limiter
  st_signup_global_rate_limiter :: rate_limiter
  st_auth_failure_backoff :: failure_backoff

datatype reply = Json_reply json "string option" | Redirect_reply string

text \<open>The limits \<open>main\<close> starts with.\<close>

definition initial_auth_state :: "accounts \<Rightarrow> auth_state" where
  "initial_auth_state db =
     \<lparr>st_accounts = db,
      st_auth_rate_limiter = rate_limiter_new 12 (15 * 60 * 1000),
      st_signup_global_rate_limiter = rate_limiter_new 2000 (15 * 60 * 1000),
      st_auth_failure_backoff = failure_backoff_new 250 30000 (30 * 60 * 1000)\<rparr>"

definition JSON_BODY_LIMIT_BYTES :: int where
  "JSON_BODY_LIMIT_BYTES = 4 * 1024 * 1024"

definition parse_json_body :: "auth_env \<Rightarrow> request \<Rightarrow> json app_result" where
  "parse_json_body env rq =
     (if int (length (rq_body rq)) > JSON_BODY_LIMIT_BYTES
      then Inl (payload_too_large (''JSON body exceeded the '' @
             show_int (JSON_BODY_LIMIT_BYTES div (1024 * 1024)) @ '' MiB limit.''))
      else case env_parse env (rq_body rq) of
             None \<Rightarrow> Inl (bad_request ''Invalid JSON body.'')
           | Some v \<Rightarrow> Inr v)"

definition parse_forwarded_for :: "string \<Rightarrow> string option" where
  "parse_forwarded_for header =
     (let ip = trim (hd (split_on CHR '','' header)) in if ip = [] then None else Some ip)"

definition extract_client_ip :: "request \<Rightarrow> string" where
  "extract_client_ip rq =
     (case Option.bind (rq_cf_connecting_ip rq) (\<lambda>v. if trim v = [] then None else Some (trim v)) of
        Some ip \<Rightarrow> ip
      | None \<Rightarrow>
          case Option.bind (rq_x_forwarded_for rq) parse_forwarded_for of
            Some ip \<Rightarrow> ip
          | None \<Rightarrow> (case rq_peer_ip rq of Some ip \<Rightarrow> ip | None \<Rightarrow> ''unknown''))"

section \<open>Session cookies and who is calling\<close>

fun session_cookie_value :: "string list \<Rightarrow> string option" where
  "session_cookie_value [] = None"
| "session_cookie_value (part # parts) =
     (case strip_prefix ''session='' (trim part) of
        None \<Rightarrow> session_cookie_value parts
      | Some v \<Rightarrow> if trim v \<noteq> [] then Some (trim v) else session_cookie_value parts)"

definition extract_session_token :: "string option \<Rightarrow> string option" where
  "extract_session_token cookie_header =
     Option.bind cookie_header (\<lambda>h. session_cookie_value (split_on CHR '';'' h))"

definition require_auth :: "auth_env \<Rightarrow> accounts \<Rightarrow> string option \<Rightarrow> int \<Rightarrow> auth_user app_result" where
  "require_auth env db cookie now =
     (case extract_session_token cookie of
        None \<Rightarrow> Inl (unauthorized ''Not authenticated.'')
      | Some token \<Rightarrow>
      case get_session (env_sha256_hex env) db token of
        None \<Rightarrow> Inl (unauthorized ''Session not found.'')
      | Some (user_id, expires_at) \<Rightarrow>
      if expires_at \<le> now then Inl (unauthorized ''Session expired.'')
      else case get_auth_user db user_id of
        None \<Rightarrow> Inl (unauthorized ''User not found.'')
      | Some u \<Rightarrow>
      if u_is_disabled u then Inl (unauthorized ''Account disabled.'')
      else Inr \<lparr>au_id = u_id u, au_email = u_username u, au_display_name = u_display_name u,
                au_is_admin = u_is_admin u\<rparr>)"

text \<open>
  \<open>RequestAuth\<close>: the user the middleware already validated for this request, else the
  session is validated now. A failed check is not remembered.
\<close>

definition request_require_auth ::
  "auth_env \<Rightarrow> auth_user option \<Rightarrow> accounts \<Rightarrow> string option \<Rightarrow> int \<Rightarrow> auth_user app_result" where
  "request_require_auth env cached db cookie now =
     (case cached of Some u \<Rightarrow> Inr u | None \<Rightarrow> require_auth env db cookie now)"

definition require_admin ::
  "auth_env \<Rightarrow> auth_user option \<Rightarrow> accounts \<Rightarrow> string option \<Rightarrow> int \<Rightarrow> auth_user app_result" where
  "require_admin env cached db cookie now =
     (case request_require_auth env cached db cookie now of
        Inl e \<Rightarrow> Inl e
      | Inr user \<Rightarrow> if \<not> au_is_admin user then Inl (forbidden ''Admin access required.'') else Inr user)"

text \<open>
  The two middlewares: what runs behind them receives the validated user. A request
  signed by this server (\<open>signed_live_hls\<close>, \<open>internal_stream\<close>) passes without one.
\<close>

definition api_auth_middleware ::
  "auth_env \<Rightarrow> bool \<Rightarrow> bool \<Rightarrow> accounts \<Rightarrow> string option \<Rightarrow> int \<Rightarrow> auth_user option app_result" where
  "api_auth_middleware env signed_live_hls internal_stream db cookie now =
     (if signed_live_hls then Inr None
      else if internal_stream then Inr None
      else case require_auth env db cookie now of Inl e \<Rightarrow> Inl e | Inr user \<Rightarrow> Inr (Some user))"

definition api_admin_middleware ::
  "auth_env \<Rightarrow> accounts \<Rightarrow> string option \<Rightarrow> int \<Rightarrow> auth_user option app_result" where
  "api_admin_middleware env db cookie now =
     (case require_admin env None db cookie now of Inl e \<Rightarrow> Inl e | Inr user \<Rightarrow> Inr (Some user))"

definition set_session_cookie :: "string \<Rightarrow> bool \<Rightarrow> string" where
  "set_session_cookie token secure =
     ''session='' @ token @ ''; HttpOnly'' @ (if secure then ''; Secure'' else []) @
     ''; SameSite=Lax; Path=/; Max-Age=2592000''"

definition clear_session_cookie :: "bool \<Rightarrow> string" where
  "clear_session_cookie secure =
     ''session=; HttpOnly'' @ (if secure then ''; Secure'' else []) @ ''; SameSite=Lax; Path=/; Max-Age=0''"

definition SESSION_MAX_AGE_SECONDS :: int where
  "SESSION_MAX_AGE_SECONDS = 30 * 24 * 60 * 60"

definition VERIFY_TOKEN_TTL_MS :: int where
  "VERIFY_TOKEN_TTL_MS = 24 * 60 * 60 * 1000"

definition RESET_TOKEN_TTL_MS :: int where
  "RESET_TOKEN_TTL_MS = 60 * 60 * 1000"

section \<open>Fields of a payload\<close>

fun first_field :: "string list \<Rightarrow> json \<Rightarrow> json option" where
  "first_field [] payload = None"
| "first_field (k # ks) payload =
     (case json_get k payload of Some v \<Rightarrow> Some v | None \<Rightarrow> first_field ks payload)"

definition text_field :: "string list \<Rightarrow> json \<Rightarrow> string" where
  "text_field ks payload =
     (case Option.bind (first_field ks payload) as_str of None \<Rightarrow> [] | Some s \<Rightarrow> s)"

fun as_bool :: "json \<Rightarrow> bool option" where
  "as_bool (JBool b) = Some b"
| "as_bool _ = None"

definition is_domain_char :: "char \<Rightarrow> bool" where
  "is_domain_char c \<longleftrightarrow> is_ascii_alphabetic c \<or> is_ascii_digit c \<or> c = CHR ''-''"

definition is_valid_email :: "string \<Rightarrow> bool" where
  "is_valid_email value \<longleftrightarrow>
     value \<noteq> [] \<and> length value \<le> 254 \<and> \<not> list_ex is_whitespace value \<and>
     (case split_once CHR ''@'' value of
        None \<Rightarrow> False
      | Some (local_part, domain) \<Rightarrow>
          local_part \<noteq> [] \<and> length local_part \<le> 64 \<and> domain \<noteq> [] \<and> length domain \<le> 253 \<and>
          hd domain \<noteq> CHR ''.'' \<and> last domain \<noteq> CHR ''.'' \<and> CHR ''.'' \<in> set domain \<and>
          list_all (\<lambda>part. part \<noteq> [] \<and> list_all is_domain_char part) (split_on CHR ''.'' domain))"

section \<open>Signing up\<close>

definition SIGNUP_CLOSED_MESSAGE :: string where
  "SIGNUP_CLOSED_MESSAGE = ''Sign-up is closed. Ask the app owner for access.''"

definition use_post :: api_error where
  "use_post = method_not_allowed ''Method not allowed. Use POST.''"

definition constraint_failed :: api_error where
  "constraint_failed = internal ''constraint failed''"

definition signup_admin_status ::
  "bool \<Rightarrow> string \<Rightarrow> string \<Rightarrow> string option \<Rightarrow> string \<Rightarrow> bool option" where
  "signup_admin_status open_signup configured_invite supplied_invite bootstrap_email email =
     (let valid_invite = configured_invite \<noteq> [] \<and> supplied_invite = configured_invite
      in if bootstrap_email = Some email then (if valid_invite then Some True else None)
         else if open_signup \<or> valid_invite then Some False else None)"

text \<open>
  The database part of a sign-up: the user, a session, and a verification token, whose
  failure is only logged.
\<close>

definition signup_account ::
  "auth_env \<Rightarrow> bool \<Rightarrow> string \<Rightarrow> string \<Rightarrow> string \<Rightarrow> string \<Rightarrow> string \<Rightarrow> int \<Rightarrow> accounts \<Rightarrow>
   int app_result \<times> accounts" where
  "signup_account env is_bootstrap_admin email password_hash display_name token raw_token now db =
     (case (if is_bootstrap_admin
            then create_bootstrap_admin db email password_hash display_name
                   (case cfg_bootstrap_admin_email (env_config env) of None \<Rightarrow> [] | Some e \<Rightarrow> e) now
            else map_option (\<lambda>(uid, db). (Some uid, db)) (create_user db email password_hash display_name now)) of
        None \<Rightarrow> (Inl constraint_failed, db)
      | Some (None, db) \<Rightarrow> (Inl (forbidden SIGNUP_CLOSED_MESSAGE), db)
      | Some (Some user_id, db) \<Rightarrow>
      case create_session (env_sha256_hex env) db token user_id (now + SESSION_MAX_AGE_SECONDS * 1000) now of
        None \<Rightarrow> (Inl constraint_failed, db)
      | Some db \<Rightarrow>
          (Inr user_id,
           case create_email_verification_token db user_id (env_sha256_hex env raw_token) (now + VERIFY_TOKEN_TTL_MS) now of
             None \<Rightarrow> db
           | Some db \<Rightarrow> db))"

definition auth_signup_handler ::
  "auth_env \<Rightarrow> request \<Rightarrow> string \<Rightarrow> string \<Rightarrow> string \<Rightarrow> int \<Rightarrow> auth_state \<Rightarrow> reply app_result \<times> auth_state" where
  "auth_signup_handler env rq salt token raw_token now st =
     (let cfg = env_config env in
      if rq_method rq \<noteq> ''POST'' then (Inl use_post, st)
      else if \<not> cfg_open_signup_enabled cfg \<and> cfg_signup_invite_code cfg = []
      then (Inl (forbidden SIGNUP_CLOSED_MESSAGE), st)
      else let client_ip = extract_client_ip rq in
      case parse_json_body env rq of
        Inl e \<Rightarrow> (Inl e, st)
      | Inr payload \<Rightarrow>
      let email = lower (trim (text_field [''email'', ''username''] payload));
          password = text_field [''password''] payload;
          display_name = trim (text_field [''displayName''] payload);
          invite_code = trim (text_field [''inviteCode'', ''signupInviteCode'', ''invite_code'', ''invite''] payload)
      in
      if \<not> is_valid_email email then (Inl (bad_request ''Enter a valid email address.''), st)
      else if length password < 6 \<or> length password > 256
      then (Inl (bad_request ''Password must be 6-256 characters.''), st)
      else if display_name = [] \<or> length display_name > 64
      then (Inl (bad_request ''Display name must be 1-64 characters.''), st)
      else
      let (ip_ok, ip_limiter) = check_and_record (st_auth_rate_limiter st) (''signup:'' @ client_ip) now;
          (global_ok, global_limiter) =
            (if ip_ok then check_and_record (st_signup_global_rate_limiter st) ''signup:global'' now
             else (False, st_signup_global_rate_limiter st));
          st = st\<lparr>st_auth_rate_limiter := ip_limiter, st_signup_global_rate_limiter := global_limiter\<rparr>
      in
      if \<not> ip_ok \<or> \<not> global_ok
      then (Inl (too_many_requests ''Too many sign-up attempts right now. Please wait and try again.''), st)
      else case signup_admin_status (cfg_open_signup_enabled cfg) (cfg_signup_invite_code cfg) invite_code
                  (cfg_bootstrap_admin_email cfg) email of
        None \<Rightarrow> (Inl (forbidden SIGNUP_CLOSED_MESSAGE), st)
      | Some is_bootstrap_admin \<Rightarrow>
      if get_user_by_email (st_accounts st) email \<noteq> None then (Inl (bad_request ''Email already in use.''), st)
      else case env_hash_password env salt password of
        Inl e \<Rightarrow> (Inl (internal e), st)
      | Inr password_hash \<Rightarrow>
      let (result, db) = signup_account env is_bootstrap_admin email password_hash display_name token raw_token now
            (st_accounts st);
          st = st\<lparr>st_accounts := db\<rparr>
      in case result of
        Inl e \<Rightarrow> (Inl e, st)
      | Inr user_id \<Rightarrow>
          (Inr (Json_reply
             (JObj [(''ok'', JBool True),
                    (''user'', JObj [(''id'', JInt user_id), (''email'', JStr email),
                       (''displayName'', JStr display_name), (''emailVerified'', JBool False),
                       (''isAdmin'', JBool is_bootstrap_admin)])])
             (Some (set_session_cookie token (cfg_session_cookie_secure cfg)))), st))"

section \<open>Signing in and out\<close>

definition record_login_failure :: "string \<Rightarrow> int \<Rightarrow> auth_state \<Rightarrow> auth_state" where
  "record_login_failure key now st =
     st\<lparr>st_auth_failure_backoff := snd (record_failure_at (st_auth_failure_backoff st) key now)\<rparr>"

definition auth_login_handler ::
  "auth_env \<Rightarrow> request \<Rightarrow> string \<Rightarrow> int \<Rightarrow> auth_state \<Rightarrow> reply app_result \<times> auth_state" where
  "auth_login_handler env rq token now st =
     (if rq_method rq \<noteq> ''POST'' then (Inl use_post, st)
      else case parse_json_body env rq of
        Inl e \<Rightarrow> (Inl e, st)
      | Inr payload \<Rightarrow>
      let email = lower (trim (text_field [''email'', ''username''] payload));
          password = text_field [''password''] payload
      in
      if email = [] \<or> password = [] then (Inl (bad_request ''Email and password are required.''), st)
      else
      let (allowed, limiter) = check_and_record (st_auth_rate_limiter st) (''login:'' @ email) now;
          st = st\<lparr>st_auth_rate_limiter := limiter\<rparr>
      in
      if \<not> allowed then (Inl (too_many_requests ''Too many login attempts. Please wait and try again.''), st)
      else
      let backoff_key = ''login:'' @ email in
      if retry_after_ms_at (st_auth_failure_backoff st) backoff_key now > 0
      then (Inl (too_many_requests ''Too many failed login attempts. Please wait and try again.''), st)
      else case get_user_by_email (st_accounts st) email of
        None \<Rightarrow> (Inl (unauthorized ''Invalid email or password.''), record_login_failure backoff_key now st)
      | Some u \<Rightarrow>
      if \<not> env_verify_password env password (u_password_hash u)
      then (Inl (unauthorized ''Invalid email or password.''), record_login_failure backoff_key now st)
      else if (case get_auth_user (st_accounts st) (u_id u) of None \<Rightarrow> False | Some u' \<Rightarrow> u_is_disabled u')
      then (Inl (forbidden ''This account has been disabled.''), record_login_failure backoff_key now st)
      else
      let st = st\<lparr>st_auth_failure_backoff := record_success (st_auth_failure_backoff st) backoff_key\<rparr>
      in case create_session (env_sha256_hex env) (st_accounts st) token (u_id u)
                (now + SESSION_MAX_AGE_SECONDS * 1000) now of
        None \<Rightarrow> (Inl constraint_failed, st)
      | Some db \<Rightarrow>
          (Inr (Json_reply
             (JObj [(''ok'', JBool True),
                    (''user'', JObj [(''id'', JInt (u_id u)), (''email'', JStr (u_username u)),
                       (''displayName'', JStr (u_display_name u))])])
             (Some (set_session_cookie token (cfg_session_cookie_secure (env_config env))))),
           st\<lparr>st_accounts := db\<rparr>))"

definition auth_logout_handler ::
  "auth_env \<Rightarrow> request \<Rightarrow> auth_state \<Rightarrow> reply app_result \<times> auth_state" where
  "auth_logout_handler env rq st =
     (if rq_method rq \<noteq> ''POST'' then (Inl use_post, st)
      else
      let st = (case extract_session_token (rq_cookie rq) of
                  None \<Rightarrow> st
                | Some token \<Rightarrow> st\<lparr>st_accounts := delete_session (env_sha256_hex env) (st_accounts st) token\<rparr>)
      in (Inr (Json_reply (JObj [(''ok'', JBool True)])
            (Some (clear_session_cookie (cfg_session_cookie_secure (env_config env))))), st))"

definition auth_me_handler ::
  "auth_env \<Rightarrow> auth_user option \<Rightarrow> request \<Rightarrow> int \<Rightarrow> auth_state \<Rightarrow> reply app_result" where
  "auth_me_handler env cached rq now st =
     (if rq_method rq \<noteq> ''GET'' then Inl (method_not_allowed ''Method not allowed. Use GET.'')
      else case request_require_auth env cached (st_accounts st) (rq_cookie rq) now of
        Inl e \<Rightarrow> Inl e
      | Inr user \<Rightarrow>
          Inr (Json_reply
            (JObj [(''id'', JInt (au_id user)), (''email'', JStr (au_email user)),
                   (''displayName'', JStr (au_display_name user)),
                   (''emailVerified'', JBool (email_verified_at (st_accounts st) (au_id user) \<noteq> None)),
                   (''isAdmin'', JBool (au_is_admin user))]) None))"

section \<open>Mail links\<close>

definition auth_verify_handler ::
  "auth_env \<Rightarrow> string \<Rightarrow> int \<Rightarrow> auth_state \<Rightarrow> reply app_result \<times> auth_state" where
  "auth_verify_handler env raw_token now st =
     (let (found, db) = consume_email_verification_token (st_accounts st) (env_sha256_hex env (trim raw_token));
          (outcome, db) = (case found of
              None \<Rightarrow> (''invalid'', db)
            | Some (user_id, expires_at) \<Rightarrow>
                if expires_at \<le> now then (''expired'', db)
                else (''success'', mark_email_verified db user_id now now))
      in (Inr (Redirect_reply (cfg_app_origin (env_config env) @ ''/?verified='' @ outcome)),
          st\<lparr>st_accounts := db\<rparr>))"

definition auth_resend_verification_handler ::
  "auth_env \<Rightarrow> auth_user option \<Rightarrow> request \<Rightarrow> string \<Rightarrow> int \<Rightarrow> auth_state \<Rightarrow> reply app_result \<times> auth_state" where
  "auth_resend_verification_handler env cached rq raw_token now st =
     (if rq_method rq \<noteq> ''POST'' then (Inl use_post, st)
      else case request_require_auth env cached (st_accounts st) (rq_cookie rq) now of
        Inl e \<Rightarrow> (Inl e, st)
      | Inr user \<Rightarrow>
      let (allowed, limiter) = check_and_record (st_auth_rate_limiter st) (''verify-resend:'' @ show_int (au_id user)) now;
          st = st\<lparr>st_auth_rate_limiter := limiter\<rparr>
      in
      if \<not> allowed
      then (Inl (too_many_requests ''Too many verification emails requested. Please wait and try again.''), st)
      else
      let db = (if email_verified_at (st_accounts st) (au_id user) = None
                then (case create_email_verification_token (st_accounts st) (au_id user)
                             (env_sha256_hex env raw_token) (now + VERIFY_TOKEN_TTL_MS) now of
                        None \<Rightarrow> st_accounts st | Some db \<Rightarrow> db)
                else st_accounts st)
      in (Inr (Json_reply (JObj [(''ok'', JBool True)]) None), st\<lparr>st_accounts := db\<rparr>))"

definition auth_forgot_handler ::
  "auth_env \<Rightarrow> request \<Rightarrow> string \<Rightarrow> int \<Rightarrow> auth_state \<Rightarrow> reply app_result \<times> auth_state" where
  "auth_forgot_handler env rq raw_token now st =
     (if rq_method rq \<noteq> ''POST'' then (Inl use_post, st)
      else case parse_json_body env rq of
        Inl e \<Rightarrow> (Inl e, st)
      | Inr payload \<Rightarrow>
      let email = lower (trim (text_field [''email''] payload)) in
      if email = [] then (Inl (bad_request ''Email is required.''), st)
      else
      let (allowed, limiter) = check_and_record (st_auth_rate_limiter st) (''forgot:'' @ email) now;
          st = st\<lparr>st_auth_rate_limiter := limiter\<rparr>
      in
      if \<not> allowed then (Inl (too_many_requests ''Too many reset requests. Please wait and try again.''), st)
      else
      let db = (case get_user_by_email (st_accounts st) email of
                  None \<Rightarrow> st_accounts st
                | Some u \<Rightarrow>
                    (case create_password_reset_token (st_accounts st) (u_id u)
                            (env_sha256_hex env raw_token) (now + RESET_TOKEN_TTL_MS) now of
                       None \<Rightarrow> st_accounts st | Some db \<Rightarrow> db))
      in (Inr (Json_reply (JObj [(''ok'', JBool True)]) None), st\<lparr>st_accounts := db\<rparr>))"

definition auth_reset_handler ::
  "auth_env \<Rightarrow> request \<Rightarrow> string \<Rightarrow> int \<Rightarrow> auth_state \<Rightarrow> reply app_result \<times> auth_state" where
  "auth_reset_handler env rq salt now st =
     (if rq_method rq \<noteq> ''POST'' then (Inl use_post, st)
      else case parse_json_body env rq of
        Inl e \<Rightarrow> (Inl e, st)
      | Inr payload \<Rightarrow>
      let token = trim (text_field [''token''] payload);
          password = text_field [''password''] payload
      in
      if token = [] then (Inl (bad_request ''Missing reset token.''), st)
      else if length password < 6 then (Inl (bad_request ''Password must be at least 6 characters.''), st)
      else
      let (found, db) = consume_password_reset_token (st_accounts st) (env_sha256_hex env token);
          st = st\<lparr>st_accounts := db\<rparr>
      in case found of
        None \<Rightarrow> (Inl (bad_request ''This reset link is invalid or has already been used.''), st)
      | Some (user_id, expires_at) \<Rightarrow>
      if expires_at \<le> now then (Inl (bad_request ''This reset link has expired.''), st)
      else case env_hash_password env salt password of
        Inl e \<Rightarrow> (Inl (internal e), st)
      | Inr hash \<Rightarrow>
      let (changed, db) = set_password_by_user_id (st_accounts st) user_id hash now;
          st = st\<lparr>st_accounts := db\<rparr>
      in if changed = 0 then (Inl (bad_request ''This reset link is no longer valid.''), st)
         else (Inr (Json_reply (JObj [(''ok'', JBool True)]) None), st))"

section \<open>User administration\<close>

definition admin_reset_password_handler ::
  "auth_env \<Rightarrow> auth_user option \<Rightarrow> request \<Rightarrow> string \<Rightarrow> int \<Rightarrow> auth_state \<Rightarrow> reply app_result \<times> auth_state" where
  "admin_reset_password_handler env cached rq salt now st =
     (if rq_method rq \<noteq> ''POST'' then (Inl use_post, st)
      else case require_admin env cached (st_accounts st) (rq_cookie rq) now of
        Inl e \<Rightarrow> (Inl e, st)
      | Inr admin \<Rightarrow>
      case parse_json_body env rq of
        Inl e \<Rightarrow> (Inl e, st)
      | Inr payload \<Rightarrow>
      case Option.bind (json_get ''userId'' payload) as_i64 of
        None \<Rightarrow> (Inl (bad_request ''userId is required.''), st)
      | Some user_id \<Rightarrow>
      let password = text_field [''password''] payload in
      if length password < 6 then (Inl (bad_request ''Password must be at least 6 characters.''), st)
      else case env_hash_password env salt password of
        Inl e \<Rightarrow> (Inl (internal e), st)
      | Inr hash \<Rightarrow>
      let (changed, db) = admin_set_password (st_accounts st) user_id hash now;
          st = st\<lparr>st_accounts := db\<rparr>
      in if changed = 0 then (Inl (not_found ''User not found.''), st)
         else (Inr (Json_reply (JObj [(''ok'', JBool True)]) None), st))"

definition bool_field :: "bool \<Rightarrow> string \<Rightarrow> json \<Rightarrow> bool" where
  "bool_field d k payload = (case Option.bind (json_get k payload) as_bool of None \<Rightarrow> d | Some b \<Rightarrow> b)"

definition admin_set_disabled_handler ::
  "auth_env \<Rightarrow> auth_user option \<Rightarrow> request \<Rightarrow> int \<Rightarrow> auth_state \<Rightarrow> reply app_result \<times> auth_state" where
  "admin_set_disabled_handler env cached rq now st =
     (if rq_method rq \<noteq> ''POST'' then (Inl use_post, st)
      else case require_admin env cached (st_accounts st) (rq_cookie rq) now of
        Inl e \<Rightarrow> (Inl e, st)
      | Inr admin \<Rightarrow>
      case parse_json_body env rq of
        Inl e \<Rightarrow> (Inl e, st)
      | Inr payload \<Rightarrow>
      case Option.bind (json_get ''userId'' payload) as_i64 of
        None \<Rightarrow> (Inl (bad_request ''userId is required.''), st)
      | Some user_id \<Rightarrow>
      let disabled = bool_field True ''disabled'' payload in
      if disabled \<and> user_id = au_id admin then (Inl (bad_request ''You cannot disable your own account.''), st)
      else
      let (changed, db) = admin_set_disabled (st_accounts st) user_id disabled now;
          st = st\<lparr>st_accounts := db\<rparr>
      in if changed = 0 then (Inl (not_found ''User not found.''), st)
         else (Inr (Json_reply (JObj [(''ok'', JBool True), (''disabled'', JBool disabled)]) None), st))"

definition admin_set_admin_handler ::
  "auth_env \<Rightarrow> auth_user option \<Rightarrow> request \<Rightarrow> int \<Rightarrow> auth_state \<Rightarrow> reply app_result \<times> auth_state" where
  "admin_set_admin_handler env cached rq now st =
     (if rq_method rq \<noteq> ''POST'' then (Inl use_post, st)
      else case require_admin env cached (st_accounts st) (rq_cookie rq) now of
        Inl e \<Rightarrow> (Inl e, st)
      | Inr admin \<Rightarrow>
      case parse_json_body env rq of
        Inl e \<Rightarrow> (Inl e, st)
      | Inr payload \<Rightarrow>
      case Option.bind (json_get ''userId'' payload) as_i64 of
        None \<Rightarrow> (Inl (bad_request ''userId is required.''), st)
      | Some user_id \<Rightarrow>
      let make_admin = bool_field False ''isAdmin'' payload in
      if \<not> make_admin \<and> user_id = au_id admin
      then (Inl (bad_request ''You cannot remove your own admin access.''), st)
      else
      let (changed, db) = admin_set_admin (st_accounts st) user_id make_admin now;
          st = st\<lparr>st_accounts := db\<rparr>
      in if changed = 0 then (Inl (not_found ''User not found.''), st)
         else (Inr (Json_reply (JObj [(''ok'', JBool True), (''isAdmin'', JBool make_admin)]) None), st))"

definition admin_delete_user_handler ::
  "auth_env \<Rightarrow> auth_user option \<Rightarrow> request \<Rightarrow> int \<Rightarrow> auth_state \<Rightarrow> reply app_result \<times> auth_state" where
  "admin_delete_user_handler env cached rq now st =
     (if rq_method rq \<noteq> ''POST'' then (Inl use_post, st)
      else case require_admin env cached (st_accounts st) (rq_cookie rq) now of
        Inl e \<Rightarrow> (Inl e, st)
      | Inr admin \<Rightarrow>
      case parse_json_body env rq of
        Inl e \<Rightarrow> (Inl e, st)
      | Inr payload \<Rightarrow>
      case Option.bind (json_get ''userId'' payload) as_i64 of
        None \<Rightarrow> (Inl (bad_request ''userId is required.''), st)
      | Some user_id \<Rightarrow>
      if user_id = au_id admin then (Inl (bad_request ''You cannot delete your own account.''), st)
      else
      let (changed, db) = admin_delete_user (st_accounts st) user_id;
          st = st\<lparr>st_accounts := db\<rparr>
      in if changed = 0 then (Inl (not_found ''User not found.''), st)
         else (Inr (Json_reply (JObj [(''ok'', JBool True)]) None), st))"

section \<open>The server\<close>

datatype auth_request =
    Signup request string string string
  | Login request string
  | Logout request
  | Me request
  | Verify string
  | Resend_verification request string
  | Forgot request string
  | Reset request string
  | Admin_reset_password request string
  | Admin_set_disabled request
  | Admin_set_admin request
  | Admin_delete_user request
  | Sweep

text \<open>An administration route: its middleware validates, then its handler runs.\<close>

definition behind_admin ::
  "auth_env \<Rightarrow> request \<Rightarrow> int \<Rightarrow> (auth_user option \<Rightarrow> auth_state \<Rightarrow> reply app_result \<times> auth_state) \<Rightarrow>
   auth_state \<Rightarrow> reply app_result \<times> auth_state" where
  "behind_admin env rq now handler st =
     (case api_admin_middleware env (st_accounts st) (rq_cookie rq) now of
        Inl e \<Rightarrow> (Inl e, st)
      | Inr cached \<Rightarrow> handler cached st)"

definition sweep_auth :: "int \<Rightarrow> auth_state \<Rightarrow> auth_state" where
  "sweep_auth now st =
     st\<lparr>st_accounts := sweep_accounts (st_accounts st) now,
        st_auth_rate_limiter := rate_limiter_prune (st_auth_rate_limiter st) now,
        st_auth_failure_backoff := failure_backoff_prune (st_auth_failure_backoff st) now,
        st_signup_global_rate_limiter := rate_limiter_prune (st_signup_global_rate_limiter st) now\<rparr>"

fun serve :: "auth_env \<Rightarrow> int \<Rightarrow> auth_request \<Rightarrow> auth_state \<Rightarrow> reply app_result \<times> auth_state" where
  "serve env now (Signup rq salt token raw) st = auth_signup_handler env rq salt token raw now st"
| "serve env now (Login rq token) st = auth_login_handler env rq token now st"
| "serve env now (Logout rq) st = auth_logout_handler env rq st"
| "serve env now (Me rq) st =
     (case api_auth_middleware env False False (st_accounts st) (rq_cookie rq) now of
        Inl e \<Rightarrow> (Inl e, st)
      | Inr cached \<Rightarrow> (auth_me_handler env cached rq now st, st))"
| "serve env now (Verify raw) st = auth_verify_handler env raw now st"
| "serve env now (Resend_verification rq raw) st = auth_resend_verification_handler env None rq raw now st"
| "serve env now (Forgot rq raw) st = auth_forgot_handler env rq raw now st"
| "serve env now (Reset rq salt) st = auth_reset_handler env rq salt now st"
| "serve env now (Admin_reset_password rq salt) st =
     behind_admin env rq now (\<lambda>cached. admin_reset_password_handler env cached rq salt now) st"
| "serve env now (Admin_set_disabled rq) st =
     behind_admin env rq now (\<lambda>cached. admin_set_disabled_handler env cached rq now) st"
| "serve env now (Admin_set_admin rq) st =
     behind_admin env rq now (\<lambda>cached. admin_set_admin_handler env cached rq now) st"
| "serve env now (Admin_delete_user rq) st =
     behind_admin env rq now (\<lambda>cached. admin_delete_user_handler env cached rq now) st"
| "serve env now Sweep st = (Inr (Json_reply JNull None), sweep_auth now st)"

definition serve_all :: "auth_env \<Rightarrow> (int \<times> auth_request) list \<Rightarrow> auth_state \<Rightarrow> auth_state" where
  "serve_all env rs st = fold (\<lambda>(now, r) st. snd (serve env now r st)) rs st"

section \<open>A small server\<close>

text \<open>
  A concrete environment for the examples: the digest is the identity, a password is
  stored behind its salt, and three bodies parse.
\<close>

definition sample_bodies :: "(string \<times> json) list" where
  "sample_bodies =
     [(''login'', JObj [(''email'', JStr ''A@b.c''), (''password'', JStr ''secret'')]),
      (''reset'', JObj [(''token'', JStr ''rt''), (''password'', JStr ''newpass'')]),
      (''boot'', JObj [(''email'', JStr ''root@b.c''), (''password'', JStr ''secret''), (''displayName'', JStr ''R''),
                     (''inviteCode'', JStr ''inv'')])]"

definition sample_auth_env :: auth_env where
  "sample_auth_env =
     \<lparr>env_sha256_hex = (\<lambda>s. s),
      env_hash_password = (\<lambda>salt p. Inr (salt @ p)),
      env_verify_password = (\<lambda>p h. ends_with h p),
      env_parse = map_of sample_bodies,
      env_config = \<lparr>cfg_open_signup_enabled = False, cfg_signup_invite_code = ''inv'',
        cfg_bootstrap_admin_email = Some ''root@b.c'', cfg_session_cookie_secure = True,
        cfg_app_origin = ''https://x''\<rparr>\<rparr>"

definition sample_request :: "string \<Rightarrow> request" where
  "sample_request body = \<lparr>rq_method = ''POST'', rq_cf_connecting_ip = None, rq_x_forwarded_for = None,
     rq_peer_ip = None, rq_cookie = None, rq_body = body\<rparr>"

definition sample_login :: request where
  "sample_login = sample_request ''login''"

definition sample_user :: user_row where
  "sample_user = \<lparr>u_id = 1, u_username = ''a@b.c'', u_password_hash = ''s-secret'', u_display_name = ''A'',
     u_email_verified_at = None, u_is_admin = False, u_is_disabled = False, u_created_at = 0, u_updated_at = 0\<rparr>"

definition sample_accounts :: accounts where
  "sample_accounts = \<lparr>ad_users = [sample_user], ad_next_id = 2, ad_sessions = [], ad_verify_tokens = [],
     ad_reset_tokens = [\<lparr>at_token_hash = ''rt'', at_user_id = 1, at_expires_at = 5000, at_created_at = 0\<rparr>]\<rparr>"

end
