(* ===== verification/AuthSafety.thy ===== *)
theory AuthSafety
  imports AuthHandlers
begin

text \<open>
  What requests may do to the accounts. \<open>account_step\<close> lists the changes of the account
  tables with the guard each one has; its labels name the changes the theorems are about
  (a session opened for a user, a bootstrap administrator created, a reset token stored).
  \<open>explained\<close> says that a handler's effect is a sequence of such changes whose labels
  agree with its request and its reply; it is proved for every handler. The safety
  theorems follow by induction over the requests served.
\<close>

section \<open>Changes of the account tables\<close>

datatype account_label = Quiet | Opened int | Bootstrapped | Minted_reset string

inductive account_step :: "auth_env \<Rightarrow> int \<Rightarrow> accounts \<Rightarrow> account_label \<Rightarrow> accounts \<Rightarrow> bool"
  for env now where
  new_user: "create_user db e p d now = Some (uid, db') \<Longrightarrow> account_step env now db Quiet db'"
| new_admin: "create_bootstrap_admin db e p d c now = Some (Some uid, db') \<Longrightarrow>
    account_step env now db Bootstrapped db'"
| open_session: "create_session (env_sha256_hex env) db token uid expiry now = Some db' \<Longrightarrow>
    account_step env now db (Opened uid) db'"
| close_session: "account_step env now db Quiet (delete_session (env_sha256_hex env) db token)"
| mint_verify: "create_email_verification_token db uid h expiry now = Some db' \<Longrightarrow>
    account_step env now db Quiet db'"
| mint_reset: "create_password_reset_token db uid h expiry now = Some db' \<Longrightarrow>
    account_step env now db (Minted_reset h) db'"
| use_verify: "consume_email_verification_token db h = (found, db') \<Longrightarrow> account_step env now db Quiet db'"
| use_reset: "consume_password_reset_token db h = (found, db') \<Longrightarrow> account_step env now db Quiet db'"
| verified: "account_step env now db Quiet (mark_email_verified db uid t now)"
| set_password: "set_password_by_user_id db uid h now = (n, db') \<Longrightarrow> account_step env now db Quiet db'"
| by_admin_password: "admin_set_password db uid h now = (n, db') \<Longrightarrow> account_step env now db Quiet db'"
| by_admin_disabled: "require_auth env db cookie now = Inr admin \<Longrightarrow> au_is_admin admin \<Longrightarrow>
    \<not> (disabled \<and> uid = au_id admin) \<Longrightarrow> admin_set_disabled db uid disabled now = (n, db') \<Longrightarrow>
    account_step env now db Quiet db'"
| by_admin_admin: "require_auth env db cookie now = Inr admin \<Longrightarrow> au_is_admin admin \<Longrightarrow>
    \<not> (\<not> make_admin \<and> uid = au_id admin) \<Longrightarrow> admin_set_admin db uid make_admin now = (n, db') \<Longrightarrow>
    account_step env now db Quiet db'"
| by_admin_delete: "require_auth env db cookie now = Inr admin \<Longrightarrow> au_is_admin admin \<Longrightarrow>
    uid \<noteq> au_id admin \<Longrightarrow> admin_delete_user db uid = (n, db') \<Longrightarrow> account_step env now db Quiet db'"
| swept: "account_step env now db Quiet (sweep_accounts db now)"

inductive account_steps :: "auth_env \<Rightarrow> int \<Rightarrow> accounts \<Rightarrow> account_label list \<Rightarrow> accounts \<Rightarrow> bool"
  for env now where
  none [simp, intro]: "account_steps env now db [] db"
| more: "account_step env now db l db' \<Longrightarrow> account_steps env now db' ls db'' \<Longrightarrow>
    account_steps env now db (l # ls) db''"

lemma one_step: "account_step env now db l db' \<Longrightarrow> account_steps env now db [l] db'"
  by (blast intro: account_steps.intros)

section \<open>Every handler is explained\<close>

definition signed_in_user :: "reply app_result \<Rightarrow> int option" where
  "signed_in_user res =
     (case res of
        Inr (Json_reply body (Some cookie)) \<Rightarrow>
          (case Option.bind (json_get ''user'' body) (json_get ''id'') of Some (JInt n) \<Rightarrow> Some n | _ \<Rightarrow> None)
      | _ \<Rightarrow> None)"

text \<open>A sign-up that shows the configured invite code and the bootstrap address.\<close>

definition shows_bootstrap_invite :: "auth_env \<Rightarrow> auth_request \<Rightarrow> bool" where
  "shows_bootstrap_invite env r \<longleftrightarrow>
     (case r of
        Signup rq salt token raw \<Rightarrow>
          (case parse_json_body env rq of
             Inl e \<Rightarrow> False
           | Inr payload \<Rightarrow>
               cfg_signup_invite_code (env_config env) \<noteq> [] \<and>
               trim (text_field [''inviteCode'', ''signupInviteCode'', ''invite_code'', ''invite''] payload) =
                 cfg_signup_invite_code (env_config env) \<and>
               cfg_bootstrap_admin_email (env_config env) =
                 Some (lower (trim (text_field [''email'', ''username''] payload))))
      | _ \<Rightarrow> False)"

definition asks_reset :: "auth_env \<Rightarrow> auth_request \<Rightarrow> string \<Rightarrow> bool" where
  "asks_reset env r h \<longleftrightarrow> (case r of Forgot rq raw \<Rightarrow> env_sha256_hex env raw = h | _ \<Rightarrow> False)"

definition label_ok :: "auth_env \<Rightarrow> auth_request \<Rightarrow> reply app_result \<Rightarrow> account_label \<Rightarrow> bool" where
  "label_ok env r res l =
     (case l of
        Quiet \<Rightarrow> True
      | Opened u \<Rightarrow> signed_in_user res = Some u
      | Bootstrapped \<Rightarrow> shows_bootstrap_invite env r
      | Minted_reset h \<Rightarrow> asks_reset env r h)"

definition explained ::
  "auth_env \<Rightarrow> int \<Rightarrow> auth_request \<Rightarrow> accounts \<Rightarrow> reply app_result \<times> auth_state \<Rightarrow> bool" where
  "explained env now r db out \<longleftrightarrow>
     (\<exists>ls. account_steps env now db ls (st_accounts (snd out)) \<and> list_all (label_ok env r (fst out)) ls)"

lemma explained_none: "st_accounts st' = db \<Longrightarrow> explained env now r db (res, st')"
  by (auto simp: explained_def intro!: exI [where x = "[]"])

lemma explained_one:
  "account_step env now db l db' \<Longrightarrow> st_accounts st' = db' \<Longrightarrow> label_ok env r res l \<Longrightarrow>
   explained env now r db (res, st')"
  by (auto simp: explained_def intro!: exI [where x = "[l]"] one_step)

lemma explained_two:
  "account_step env now db l db' \<Longrightarrow> account_step env now db' l' db'' \<Longrightarrow> st_accounts st' = db'' \<Longrightarrow>
   label_ok env r res l \<Longrightarrow> label_ok env r res l' \<Longrightarrow> explained env now r db (res, st')"
  by (auto simp: explained_def intro!: exI [where x = "[l, l']"] account_steps.intros)

lemma explained_three:
  "account_step env now db l db1 \<Longrightarrow> account_step env now db1 l' db2 \<Longrightarrow> account_step env now db2 l'' db3 \<Longrightarrow>
   st_accounts st' = db3 \<Longrightarrow>
   label_ok env r res l \<Longrightarrow> label_ok env r res l' \<Longrightarrow> label_ok env r res l'' \<Longrightarrow> explained env now r db (res, st')"
  by (auto simp: explained_def intro!: exI [where x = "[l, l', l'']"] account_steps.intros)

lemma quiet_ok [simp]: "label_ok env r res Quiet"
  by (simp add: label_ok_def)

lemmas handler_splits = option.splits sum.splits prod.splits if_splits

lemma explained_if:
  "(P \<Longrightarrow> explained env now r db a) \<Longrightarrow> (\<not> P \<Longrightarrow> explained env now r db b) \<Longrightarrow>
   explained env now r db (if P then a else b)"
  by simp

lemma explained_option:
  "(x = None \<Longrightarrow> explained env now r db a) \<Longrightarrow> (\<And>y. x = Some y \<Longrightarrow> explained env now r db (f y)) \<Longrightarrow>
   explained env now r db (case x of None \<Rightarrow> a | Some y \<Rightarrow> f y)"
  by (cases x) auto

lemma explained_sum:
  "(\<And>e. x = Inl e \<Longrightarrow> explained env now r db (f e)) \<Longrightarrow> (\<And>y. x = Inr y \<Longrightarrow> explained env now r db (g y)) \<Longrightarrow>
   explained env now r db (case x of Inl e \<Rightarrow> f e | Inr y \<Rightarrow> g y)"
  by (cases x) auto

lemma explained_prod:
  "(\<And>a b. x = (a, b) \<Longrightarrow> explained env now r db (f a b)) \<Longrightarrow> explained env now r db (case x of (a, b) \<Rightarrow> f a b)"
  by (cases x) auto

lemmas explained_cases = explained_if explained_option explained_sum explained_prod

lemma logout_explained: "explained env now (Logout rq) (st_accounts st) (auth_logout_handler env rq st)"
  by (auto simp: auth_logout_handler_def Let_def split: option.splits
      intro: explained_none explained_one [OF close_session])

lemma login_explained: "explained env now (Login rq token) (st_accounts st) (auth_login_handler env rq token now st)"
  by (auto simp: auth_login_handler_def record_login_failure_def Let_def label_ok_def signed_in_user_def
      split: handler_splits intro: explained_none explained_one [OF open_session])

lemma verify_explained: "explained env now (Verify raw) (st_accounts st) (auth_verify_handler env raw now st)"
  by (auto simp: auth_verify_handler_def Let_def split: handler_splits
      intro: explained_one [OF use_verify] explained_two [OF use_verify verified])

lemma resend_explained:
  "explained env now (Resend_verification rq raw) (st_accounts st)
     (auth_resend_verification_handler env cached rq raw now st)"
  by (auto simp: auth_resend_verification_handler_def Let_def split: handler_splits
      intro: explained_none explained_one [OF mint_verify])

lemma forgot_explained: "explained env now (Forgot rq raw) (st_accounts st) (auth_forgot_handler env rq raw now st)"
  by (auto simp: auth_forgot_handler_def Let_def label_ok_def asks_reset_def split: handler_splits
      intro: explained_none explained_one [OF mint_reset])

lemma reset_explained: "explained env now (Reset rq salt) (st_accounts st) (auth_reset_handler env rq salt now st)"
  by (auto simp: auth_reset_handler_def Let_def split: handler_splits
      intro: explained_none explained_one [OF use_reset] explained_two [OF use_reset set_password])

text \<open>What the middleware has validated is what the handler is given.\<close>

definition cached_ok :: "auth_env \<Rightarrow> accounts \<Rightarrow> string option \<Rightarrow> int \<Rightarrow> auth_user option \<Rightarrow> bool" where
  "cached_ok env db cookie now cached \<longleftrightarrow>
     (\<forall>u \<in> set_option cached. require_auth env db cookie now = Inr u)"

lemma require_admin_cached:
  "cached_ok env db cookie now cached \<Longrightarrow> require_admin env cached db cookie now = Inr admin \<Longrightarrow>
   require_auth env db cookie now = Inr admin \<and> au_is_admin admin"
  by (auto simp: require_admin_def request_require_auth_def cached_ok_def split: handler_splits)

lemma behind_admin_explained:
  assumes "\<And>cached. cached_ok env (st_accounts st) (rq_cookie rq) now cached \<Longrightarrow>
    explained env now r (st_accounts st) (handler cached st)"
  shows "explained env now r (st_accounts st) (behind_admin env rq now handler st)"
proof (cases "api_admin_middleware env (st_accounts st) (rq_cookie rq) now")
  case (Inl e)
  then show ?thesis by (simp add: behind_admin_def explained_none)
next
  case (Inr cached)
  then have "cached_ok env (st_accounts st) (rq_cookie rq) now cached"
    by (auto simp: api_admin_middleware_def cached_ok_def split: sum.splits
        dest!: require_admin_cached [where cached = None, rotated])
  with Inr assms show ?thesis by (simp add: behind_admin_def)
qed

lemma admin_password_explained:
  "cached_ok env (st_accounts st) (rq_cookie rq) now cached \<Longrightarrow>
   explained env now r (st_accounts st) (admin_reset_password_handler env cached rq salt now st)"
  by (auto simp: admin_reset_password_handler_def Let_def split: handler_splits
      intro: explained_none explained_one [OF by_admin_password])

lemma admin_disabled_explained:
  assumes "cached_ok env (st_accounts st) (rq_cookie rq) now cached"
  shows "explained env now r (st_accounts st) (admin_set_disabled_handler env cached rq now st)"
  unfolding admin_set_disabled_handler_def Let_def
  by (intro explained_cases; (drule require_admin_cached [OF assms])?;
      (rule explained_none, simp; fail)?;
      (rule explained_one [OF by_admin_disabled], erule conjunct1, erule conjunct2, assumption, assumption, simp, simp; fail)?)

lemma admin_admin_explained:
  assumes "cached_ok env (st_accounts st) (rq_cookie rq) now cached"
  shows "explained env now r (st_accounts st) (admin_set_admin_handler env cached rq now st)"
  unfolding admin_set_admin_handler_def Let_def
  by (intro explained_cases; (drule require_admin_cached [OF assms])?;
      (rule explained_none, simp; fail)?;
      (rule explained_one [OF by_admin_admin], erule conjunct1, erule conjunct2, assumption, assumption, simp, simp; fail)?)

lemma admin_delete_explained:
  assumes "cached_ok env (st_accounts st) (rq_cookie rq) now cached"
  shows "explained env now r (st_accounts st) (admin_delete_user_handler env cached rq now st)"
  unfolding admin_delete_user_handler_def Let_def
  by (intro explained_cases; (drule require_admin_cached [OF assms])?;
      (rule explained_none, simp; fail)?;
      (rule explained_one [OF by_admin_delete], erule conjunct1, erule conjunct2, assumption, assumption, simp, simp; fail)?)

text \<open>A sign-up's database part, with the labels its reply explains.\<close>

lemma signup_account_steps:
  assumes "signup_account env admin e p d token raw now db = (res, db')"
  shows "\<exists>ls. account_steps env now db ls db' \<and>
     set ls \<subseteq> {Quiet, Bootstrapped} \<union> (case res of Inl _ \<Rightarrow> {} | Inr uid \<Rightarrow> {Opened uid}) \<and>
     (Bootstrapped \<in> set ls \<longrightarrow> admin)"
proof -
  let ?made = "if admin
      then create_bootstrap_admin db e p d (case cfg_bootstrap_admin_email (env_config env) of None \<Rightarrow> [] | Some e \<Rightarrow> e) now
      else map_option (\<lambda>(uid, db). (Some uid, db)) (create_user db e p d now)"
  show ?thesis
  proof (cases ?made)
    case None
    with assms show ?thesis by (auto simp: signup_account_def intro!: exI [where x = "[]"])
  next
    case (Some made)
    obtain uid_opt db1 where made: "made = (uid_opt, db1)" by (cases made)
    show ?thesis
    proof (cases uid_opt)
      case None
      with Some made have "db1 = db" by (auto simp: create_bootstrap_admin_def split: if_splits)
      with None Some made assms show ?thesis by (auto simp: signup_account_def intro!: exI [where x = "[]"])
    next
      case (Some uid)
      obtain l where new: "account_step env now db l db1" and l: "l \<in> {Quiet, Bootstrapped}" "l = Bootstrapped \<longrightarrow> admin"
        using \<open>?made = Some made\<close> made Some by (cases admin) (auto intro: new_user new_admin)
      show ?thesis
      proof (cases "create_session (env_sha256_hex env) db1 token uid (now + SESSION_MAX_AGE_SECONDS * 1000) now")
        case None
        with \<open>?made = Some made\<close> made \<open>uid_opt = Some uid\<close> assms new l show ?thesis
          by (auto simp: signup_account_def intro!: exI [where x = "[l]"] one_step l)
      next
        case (Some db2)
        then have opened: "account_step env now db1 (Opened uid) db2" by (rule open_session)
        let ?mint = "create_email_verification_token db2 uid (env_sha256_hex env raw) (now + VERIFY_TOKEN_TTL_MS) now"
        from assms \<open>?made = Some made\<close> made \<open>uid_opt = Some uid\<close> Some
        have res: "res = Inr uid" and db': "db' = (case ?mint of None \<Rightarrow> db2 | Some db \<Rightarrow> db)"
          by (auto simp: signup_account_def split: option.splits)
        have "account_steps env now db [l, Opened uid] db' \<or> account_steps env now db [l, Opened uid, Quiet] db'"
        proof (cases ?mint)
          case None
          with new opened db' show ?thesis by (auto intro: account_steps.intros)
        next
          case (Some db3)
          from mint_verify [OF this] have "account_steps env now db2 [Quiet] db3" by (rule one_step)
          with new opened db' Some show ?thesis by (auto intro: account_steps.intros)
        qed
        then show ?thesis by (rule disjE) (rule exI, rule conjI, assumption, use l in \<open>auto simp: res\<close>)+
      qed
    qed
  qed
qed

lemma signup_status_admin:
  "signup_admin_status open_signup invite supplied boot email = Some True \<Longrightarrow>
   invite \<noteq> [] \<and> supplied = invite \<and> boot = Some email"
  by (auto simp: signup_admin_status_def Let_def split: if_splits)

lemma signup_part:
  assumes "signup_account env admin e p d token raw now db = (r, st_accounts st')"
    and "admin \<Longrightarrow> shows_bootstrap_invite env (Signup rq salt token raw)"
    and "\<And>uid. r = Inr uid \<Longrightarrow> signed_in_user res = Some uid"
  shows "explained env now (Signup rq salt token raw) db (res, st')"
proof -
  from signup_account_steps [OF assms(1)] obtain ls
    where ls: "account_steps env now db ls (st_accounts st')"
      "set ls \<subseteq> {Quiet, Bootstrapped} \<union> (case r of Inl _ \<Rightarrow> {} | Inr uid \<Rightarrow> {Opened uid})"
      "Bootstrapped \<in> set ls \<longrightarrow> admin"
    by blast
  have "label_ok env (Signup rq salt token raw) res l" if "l \<in> set ls" for l
    using that ls(2,3) assms(2,3) by (cases r) (auto simp: label_ok_def)
  with ls(1) show ?thesis by (auto simp: explained_def list_all_iff)
qed

lemma signup_explained:
  "explained env now (Signup rq salt token raw) (st_accounts st) (auth_signup_handler env rq salt token raw now st)"
  unfolding auth_signup_handler_def Let_def
  by (intro explained_cases; (rule explained_none, simp; fail)?;
      (rule signup_part, simp; fastforce simp: shows_bootstrap_invite_def signed_in_user_def dest: signup_status_admin)?)

lemma serve_explained: "explained env now r (st_accounts st) (serve env now r st)"
proof (cases r)
  case (Me rq)
  then show ?thesis by (auto intro: explained_none split: sum.split)
next
  case Sweep
  then show ?thesis by (simp add: sweep_auth_def explained_one [OF swept])
qed (simp_all add: signup_explained login_explained logout_explained verify_explained resend_explained
    forgot_explained reset_explained behind_admin_explained admin_password_explained admin_disabled_explained
    admin_admin_explained admin_delete_explained)

section \<open>Induction over the requests served\<close>

lemma account_steps_inv:
  assumes "account_steps env now db ls db'" and "P db"
    and "\<And>db l db'. account_step env now db l db' \<Longrightarrow> l \<in> set ls \<Longrightarrow> P db \<Longrightarrow> P db'"
  shows "P db'"
  using assms by (induction rule: account_steps.induct) auto

lemma serve_inv:
  assumes "P (st_accounts st)"
    and "\<And>db l db'. account_step env now db l db' \<Longrightarrow> label_ok env r (fst (serve env now r st)) l \<Longrightarrow> P db \<Longrightarrow> P db'"
  shows "P (st_accounts (snd (serve env now r st)))"
proof -
  from serve_explained [of env now r st] obtain ls
    where "account_steps env now (st_accounts st) ls (st_accounts (snd (serve env now r st)))"
      "list_all (label_ok env r (fst (serve env now r st))) ls"
    by (auto simp: explained_def)
  then show ?thesis
    using assms by (auto simp: list_all_iff elim!: account_steps_inv [where P = P])
qed

lemma serve_all_simps [simp]:
  "serve_all env [] st = st"
  "serve_all env ((now, r) # rs) st = serve_all env rs (snd (serve env now r st))"
  by (simp_all add: serve_all_def)

text \<open>If a property of the accounts is lost, some request served lost it.\<close>

lemma serve_all_culprit:
  assumes "P (st_accounts st)" and "\<not> P (st_accounts (serve_all env rs st))"
    and "\<And>now r st. P (st_accounts st) \<Longrightarrow> \<not> Q now r st \<Longrightarrow> P (st_accounts (snd (serve env now r st)))"
  shows "\<exists>pre now r post. rs = pre @ (now, r) # post \<and> Q now r (serve_all env pre st)"
  using assms(1,2)
proof (induction rs arbitrary: st)
  case (Cons x rs)
  obtain now r where x: "x = (now, r)" by (cases x)
  show ?case
  proof (cases "Q now r st")
    case True
    with x have "x # rs = [] @ (now, r) # rs \<and> Q now r (serve_all env [] st)" by simp
    then show ?thesis by blast
  next
    case False
    with Cons.prems x assms(3) obtain pre now' r' post
      where "rs = pre @ (now', r') # post" "Q now' r' (serve_all env pre (snd (serve env now r st)))"
      using Cons.IH [of "snd (serve env now r st)"] by auto
    with x have "x # rs = ((now, r) # pre) @ (now', r') # post \<and> Q now' r' (serve_all env ((now, r) # pre) st)"
      by simp
    then show ?thesis by blast
  qed
qed simp

section \<open>The schema holds\<close>

lemma account_step_schema: "account_step env now db l db' \<Longrightarrow> accounts_inv db \<Longrightarrow> accounts_inv db'"
  by (induction rule: account_step.induct) (auto intro: accounts_intros)

interpretation schema: invariant_steps "\<lambda>st. accounts_inv (st_accounts st)" "\<lambda>(now, r) st. snd (serve env now r st)"
  for env
  by unfold_locales (auto intro: serve_inv account_step_schema)

text \<open>
  C8: the schema of the account tables. From an empty database, whatever requests are
  served: ids, addresses up to case, session digests and token digests are unique, each
  user has at most one token of a kind, and every session and token belongs to a user.
\<close>

theorem accounts_schema_invariant:
  "accounts_inv (st_accounts (serve_all env rs (initial_auth_state empty_accounts)))"
  unfolding serve_all_def by (rule schema.inv_fold) (simp add: initial_auth_state_def)

section \<open>Signing out everywhere\<close>

definition no_session_of :: "int \<Rightarrow> accounts \<Rightarrow> bool" where
  "no_session_of u db \<longleftrightarrow> list_all (\<lambda>s. as_user_id s \<noteq> u) (ad_sessions db)"

lemma account_step_no_session:
  "account_step env now db l db' \<Longrightarrow> no_session_of u db \<Longrightarrow> l \<noteq> Opened u \<Longrightarrow> no_session_of u db'"
  by (induction rule: account_step.induct)
     (auto simp: no_session_of_def list_all_iff create_user_def create_bootstrap_admin_def insert_user_def
        create_session_def delete_session_def create_email_verification_token_def
        create_password_reset_token_def consume_email_verification_token_def
        consume_password_reset_token_def mark_email_verified_def set_password_by_user_id_def
        admin_set_password_def admin_set_disabled_def admin_set_admin_def admin_delete_user_def
        update_user_def delete_tokens_of_def delete_sessions_of_def sweep_accounts_def Let_def
        split: if_splits option.splits)

lemma require_auth_session:
  assumes "require_auth env db cookie t = Inr user"
  shows "\<not> no_session_of (au_id user) db"
proof -
  from assms obtain token uid expiry u
    where "get_session (env_sha256_hex env) db token = Some (uid, expiry)"
      and u: "get_auth_user db uid = Some u" "au_id user = u_id u"
    by (auto simp: require_auth_def split: handler_splits)
  then obtain s where "s \<in> set (ad_sessions db)" "as_user_id s = uid"
    by (auto simp: get_session_def dest: find_row_SomeD)
  moreover have "u_id u = uid" using u by (auto simp: get_auth_user_def dest: find_row_SomeD)
  ultimately show ?thesis using u by (auto simp: no_session_of_def list_all_iff)
qed

lemma delete_sessions_of_none: "no_session_of u (delete_sessions_of u db)"
  by (simp add: no_session_of_def delete_sessions_of_def list_all_iff)

lemma delete_tokens_keeps_sessions [simp]: "no_session_of u (delete_tokens_of v db) = no_session_of u db"
  by (simp add: no_session_of_def delete_tokens_of_def)

lemma update_user_changed: "get_auth_user db u \<noteq> None \<Longrightarrow> 0 < fst (update_user u f db)"
proof -
  assume "get_auth_user db u \<noteq> None"
  then obtain r where "r \<in> set (ad_users db)" "u_id r = u"
    by (auto simp: get_auth_user_def dest: find_row_SomeD)
  then have "count_where (\<lambda>r. u_id r = u) (ad_users db) \<noteq> 0" unfolding count_where_zero by blast
  then show ?thesis unfolding update_user_def fst_conv by (rule neq0_conv [THEN iffD1])
qed

lemma sign_out_ops:
  assumes "get_auth_user db u \<noteq> None"
  shows "no_session_of u (snd (set_password_by_user_id db u h now))"
    and "no_session_of u (snd (admin_set_password db u h now))"
    and "no_session_of u (snd (admin_set_disabled db u True now))"
    and "no_session_of u (snd (admin_set_admin db u b now))"
    and "no_session_of u (snd (admin_delete_user db u))"
proof -
  have "update_user u f db \<noteq> (0, x)" for f x
    using update_user_changed [OF assms, of f] by (metis fst_conv less_irrefl)
  then show "no_session_of u (snd (set_password_by_user_id db u h now))"
    and "no_session_of u (snd (admin_set_password db u h now))"
    and "no_session_of u (snd (admin_set_disabled db u True now))"
    and "no_session_of u (snd (admin_set_admin db u b now))"
    and "no_session_of u (snd (admin_delete_user db u))"
  by (auto simp: set_password_by_user_id_def admin_set_password_def admin_set_disabled_def admin_set_admin_def
      admin_delete_user_def delete_sessions_of_none split: prod.split)
qed

text \<open>
  C1: a change of credentials signs the user out everywhere. After a new password (by
  mail link or by an administrator), a disabling, a change of administrator rights or a
  deletion, and whatever requests are served next, nobody is authenticated as that user
  unless one of those requests signed the user in again.
\<close>

theorem credential_change_signs_out:
  assumes "get_auth_user db u \<noteq> None"
    and "st_accounts st \<in> {snd (set_password_by_user_id db u h t0), snd (admin_set_password db u h t0),
           snd (admin_set_disabled db u True t0), snd (admin_set_admin db u b t0), snd (admin_delete_user db u)}"
    and "require_auth env (st_accounts (serve_all env rs st)) cookie t = Inr user" and "au_id user = u"
  shows "\<exists>pre now r post. rs = pre @ (now, r) # post \<and>
           signed_in_user (fst (serve env now r (serve_all env pre st))) = Some u"
proof (rule serve_all_culprit [where P = "no_session_of u"])
  show "no_session_of u (st_accounts st)" using assms(1,2) sign_out_ops by auto
  show "\<not> no_session_of u (st_accounts (serve_all env rs st))"
    using require_auth_session [OF assms(3)] assms(4) by simp
next
  fix now r and st :: auth_state
  assume "no_session_of u (st_accounts st)" "signed_in_user (fst (serve env now r st)) \<noteq> Some u"
  then show "no_session_of u (st_accounts (snd (serve env now r st)))"
    by (auto intro!: serve_inv [where P = "no_session_of u"] elim!: account_step_no_session simp: label_ok_def)
qed

theorem credential_change_signs_out_witness:
  "\<exists>pre now r post. [(2000, Login sample_login ''tok'')] = pre @ (now, r) # post \<and>
     signed_in_user (fst (serve sample_auth_env now r (serve_all sample_auth_env pre
       (initial_auth_state (snd (admin_set_admin sample_accounts 1 False 1000)))))) = Some 1"
proof (rule credential_change_signs_out)
  let ?st = "initial_auth_state (snd (admin_set_admin sample_accounts 1 False 1000))"
  show "get_auth_user sample_accounts 1 \<noteq> None" by code_simp
  show "st_accounts ?st \<in> {snd (set_password_by_user_id sample_accounts 1 [] 1000),
      snd (admin_set_password sample_accounts 1 [] 1000), snd (admin_set_disabled sample_accounts 1 True 1000),
      snd (admin_set_admin sample_accounts 1 False 1000), snd (admin_delete_user sample_accounts 1)}"
    by (simp add: initial_auth_state_def)
  show "require_auth sample_auth_env (st_accounts (serve_all sample_auth_env [(2000, Login sample_login ''tok'')] ?st))
      (Some ''session=tok'') 3000 = Inr \<lparr>au_id = 1, au_email = ''a@b.c'', au_display_name = ''A'', au_is_admin = False\<rparr>"
    by code_simp
qed simp

section \<open>Administrators\<close>

definition no_admin :: "accounts \<Rightarrow> bool" where
  "no_admin db \<longleftrightarrow> list_all (\<lambda>u. \<not> u_is_admin u) (ad_users db)"

definition active_admin :: "accounts \<Rightarrow> bool" where
  "active_admin db \<longleftrightarrow> list_ex (\<lambda>u. u_is_admin u \<and> \<not> u_is_disabled u) (ad_users db)"

lemma require_auth_user:
  assumes "require_auth env db cookie t = Inr user"
  shows "\<exists>u \<in> set (ad_users db). u_id u = au_id user \<and> u_is_admin u = au_is_admin user \<and> \<not> u_is_disabled u"
  using assms by (auto simp: require_auth_def get_auth_user_def split: handler_splits dest!: find_row_SomeD)

lemma admin_is_active: "require_auth env db cookie t = Inr user \<Longrightarrow> au_is_admin user \<Longrightarrow> \<not> no_admin db"
  by (drule require_auth_user) (auto simp: no_admin_def list_all_iff)

lemma account_step_no_admin:
  "account_step env now db l db' \<Longrightarrow> no_admin db \<Longrightarrow> l \<noteq> Bootstrapped \<Longrightarrow> no_admin db'"
proof (induction rule: account_step.induct)
  case (by_admin_admin db cookie admin make_admin uid n db')
  then show ?case by (blast dest: admin_is_active)
qed (auto simp: no_admin_def list_all_iff create_user_def create_bootstrap_admin_def insert_user_def
        create_session_def delete_session_def create_email_verification_token_def
        create_password_reset_token_def consume_email_verification_token_def
        consume_password_reset_token_def mark_email_verified_def set_password_by_user_id_def
        admin_set_password_def admin_set_disabled_def admin_delete_user_def update_where_def
        update_user_def delete_tokens_of_def delete_sessions_of_def sweep_accounts_def Let_def
        split: if_splits option.splits)

text \<open>
  C4: where administrators come from. On a server without administrators, whatever
  requests are served, an account has administrator rights afterwards only if one of the
  requests was a sign-up that showed the configured invite code for the configured
  bootstrap address.
\<close>

theorem admin_needs_bootstrap_invite:
  assumes "no_admin (st_accounts st)" and "\<not> no_admin (st_accounts (serve_all env rs st))"
  shows "\<exists>now r. (now, r) \<in> set rs \<and> shows_bootstrap_invite env r"
proof -
  have "\<exists>pre now r post. rs = pre @ (now, r) # post \<and> shows_bootstrap_invite env r"
  proof (rule serve_all_culprit [where P = no_admin, OF assms])
    fix now r and st :: auth_state
    assume "no_admin (st_accounts st)" "\<not> shows_bootstrap_invite env r"
    then show "no_admin (st_accounts (snd (serve env now r st)))"
      by (auto intro!: serve_inv [where P = no_admin] elim!: account_step_no_admin simp: label_ok_def)
  qed
  then show ?thesis by (metis in_set_conv_decomp)
qed

theorem admin_needs_bootstrap_invite_witness:
  "\<exists>now r. (now, r) \<in> set [(1000 :: int, Signup (sample_request ''boot'') ''s'' ''t'' ''raw'')] \<and>
     shows_bootstrap_invite sample_auth_env r"
proof (rule admin_needs_bootstrap_invite)
  show "no_admin (st_accounts (initial_auth_state sample_accounts))" by code_simp
  show "\<not> no_admin (st_accounts (serve_all sample_auth_env [(1000, Signup (sample_request ''boot'') ''s'' ''t'' ''raw'')]
      (initial_auth_state sample_accounts)))"
    by code_simp
qed

lemma active_admin_update:
  assumes "u \<in> set us" "u_is_admin u" "\<not> u_is_disabled u"
    and "P u \<Longrightarrow> u_is_admin (f u) \<and> \<not> u_is_disabled (f u)"
  shows "\<exists>u \<in> set (update_where P f us). u_is_admin u \<and> \<not> u_is_disabled u"
  using assms by (auto simp: update_where_def)

lemma account_step_active_admin:
  "account_step env now db l db' \<Longrightarrow> active_admin db \<Longrightarrow> active_admin db'"
proof (induction rule: account_step.induct)
  case (by_admin_disabled db cookie admin disabled uid n db')
  from require_auth_user [OF by_admin_disabled(1)] by_admin_disabled(2) obtain u
    where u: "u \<in> set (ad_users db)" "u_id u = au_id admin" "u_is_admin u" "\<not> u_is_disabled u" by auto
  have users: "ad_users db' = update_where (\<lambda>u. u_id u = uid) (\<lambda>u. u\<lparr>u_is_disabled := disabled, u_updated_at := now\<rparr>)
      (ad_users db)"
    using by_admin_disabled(4) by (auto simp: admin_set_disabled_def update_user_def delete_sessions_of_def split: if_splits)
  show ?case
    unfolding active_admin_def list_ex_iff users
    by (rule active_admin_update [OF u(1,3,4)]) (use by_admin_disabled(3) u in auto)
next
  case (by_admin_admin db cookie admin make_admin uid n db')
  from require_auth_user [OF by_admin_admin(1)] by_admin_admin(2) obtain u
    where u: "u \<in> set (ad_users db)" "u_id u = au_id admin" "u_is_admin u" "\<not> u_is_disabled u" by auto
  have users: "ad_users db' = update_where (\<lambda>u. u_id u = uid) (\<lambda>u. u\<lparr>u_is_admin := make_admin, u_updated_at := now\<rparr>)
      (ad_users db)"
    using by_admin_admin(4) by (auto simp: admin_set_admin_def update_user_def delete_sessions_of_def split: if_splits)
  show ?case
    unfolding active_admin_def list_ex_iff users
    by (rule active_admin_update [OF u(1,3,4)]) (use by_admin_admin(3) u in auto)
next
  case (by_admin_delete db cookie admin uid n db')
  from require_auth_user [OF by_admin_delete(1)] by_admin_delete(2) obtain u
    where u: "u \<in> set (ad_users db)" "u_id u = au_id admin" "u_is_admin u" "\<not> u_is_disabled u" by auto
  then show ?case
    using by_admin_delete(3,4)
    by (auto simp: active_admin_def list_ex_iff admin_delete_user_def delete_tokens_of_def delete_sessions_of_def)
qed (auto simp: active_admin_def list_ex_iff create_user_def create_bootstrap_admin_def insert_user_def
        create_session_def delete_session_def create_email_verification_token_def
        create_password_reset_token_def consume_email_verification_token_def
        consume_password_reset_token_def mark_email_verified_def set_password_by_user_id_def
        admin_set_password_def update_user_def delete_tokens_of_def delete_sessions_of_def sweep_accounts_def Let_def
        split: if_splits option.splits intro: active_admin_update)

text \<open>
  C5: the server is never left without an administrator. Whatever requests are served
  one after the other, if an enabled administrator exists before, one exists after: an
  administrator can neither disable, demote nor delete themselves.
\<close>

theorem active_admin_remains:
  assumes "active_admin (st_accounts st)"
  shows "active_admin (st_accounts (serve_all env rs st))"
  using assms
proof (induction rs arbitrary: st)
  case (Cons x rs)
  obtain now r where x: "x = (now, r)" by (cases x)
  have "active_admin (st_accounts (snd (serve env now r st)))"
    using Cons.prems by (auto intro!: serve_inv [where P = active_admin] elim!: account_step_active_admin)
  with Cons.IH x show ?case by simp
qed simp

theorem active_admin_remains_witness:
  "active_admin (st_accounts (serve_all sample_auth_env [(1000, Logout sample_login), (1000, Sweep)]
     (initial_auth_state (sample_accounts\<lparr>ad_users := [sample_user\<lparr>u_is_admin := True\<rparr>]\<rparr>))))"
  by (rule active_admin_remains) code_simp

section \<open>Mail links are for one use\<close>

definition reset_token_of :: "auth_env \<Rightarrow> request \<Rightarrow> string option" where
  "reset_token_of env rq =
     (if rq_method rq \<noteq> ''POST'' then None
      else case parse_json_body env rq of
        Inl e \<Rightarrow> None
      | Inr payload \<Rightarrow>
          let token = trim (text_field [''token''] payload)
          in if token = [] \<or> length (text_field [''password''] payload) < 6 then None else Some token)"

definition no_reset_token :: "string \<Rightarrow> accounts \<Rightarrow> bool" where
  "no_reset_token h db \<longleftrightarrow> list_all (\<lambda>t. at_token_hash t \<noteq> h) (ad_reset_tokens db)"

lemma account_step_no_reset_token:
  "account_step env now db l db' \<Longrightarrow> no_reset_token h db \<Longrightarrow> l \<noteq> Minted_reset h \<Longrightarrow> no_reset_token h db'"
  by (induction rule: account_step.induct)
     (auto simp: no_reset_token_def list_all_iff create_user_def create_bootstrap_admin_def insert_user_def
        create_session_def delete_session_def create_email_verification_token_def replace_token_def
        create_password_reset_token_def consume_email_verification_token_def
        consume_password_reset_token_def mark_email_verified_def set_password_by_user_id_def
        admin_set_password_def admin_set_disabled_def admin_set_admin_def admin_delete_user_def
        update_user_def delete_tokens_of_def delete_sessions_of_def sweep_accounts_def Let_def
        split: if_splits option.splits)

lemma reset_uses_token:
  assumes "reset_token_of env rq = Some token"
  shows "no_reset_token (env_sha256_hex env token) (st_accounts (snd (auth_reset_handler env rq salt now st)))"
proof -
  have "no_reset_token h (db\<lparr>ad_reset_tokens := delete_where (\<lambda>t. at_token_hash t = h) ts\<rparr>)" for h db ts
    by (simp add: no_reset_token_def list_all_iff)
  moreover have "no_reset_token h (snd (set_password_by_user_id db u p now))" if "no_reset_token h db" for h db u p
    using that by (auto simp: set_password_by_user_id_def update_user_def delete_tokens_of_def
        delete_sessions_of_def no_reset_token_def list_all_iff)
  ultimately show ?thesis
    using assms
    by (auto simp: reset_token_of_def auth_reset_handler_def consume_password_reset_token_def Let_def
        split: handler_splits) (metis snd_conv)+
qed

lemma reset_without_token:
  assumes "reset_token_of env rq = Some token" and "no_reset_token (env_sha256_hex env token) (st_accounts st)"
  shows "fst (auth_reset_handler env rq salt now st) =
     Inl (bad_request ''This reset link is invalid or has already been used.'')"
proof -
  have "find_row at_token_hash (env_sha256_hex env token) (ad_reset_tokens (st_accounts st)) = None"
    using assms(2) by (auto simp: no_reset_token_def list_all_iff find_row_None_iff)
  with assms(1) show ?thesis
    by (auto simp: reset_token_of_def auth_reset_handler_def consume_password_reset_token_def Let_def
        split: handler_splits)
qed

text \<open>
  C7: a password-reset link works once. Whatever came of a request that presented a
  reset token, every later request with the same token is refused, unless the server
  issued a token with that digest again in between.
\<close>

theorem reset_link_single_use:
  assumes "reset_token_of env rq = Some token" and "reset_token_of env rq' = Some token"
    and "list_all (\<lambda>(_, r). \<not> asks_reset env r (env_sha256_hex env token)) rs"
  shows "fst (auth_reset_handler env rq' salt' now'
            (serve_all env rs (snd (auth_reset_handler env rq salt now st)))) =
     Inl (bad_request ''This reset link is invalid or has already been used.'')"
proof (rule reset_without_token [OF assms(2)])
  let ?P = "no_reset_token (env_sha256_hex env token)"
  show "?P (st_accounts (serve_all env rs (snd (auth_reset_handler env rq salt now st))))"
  proof (rule ccontr)
    assume lost: "\<not> ?thesis"
    have "\<exists>pre now r post. rs = pre @ (now, r) # post \<and> asks_reset env r (env_sha256_hex env token)"
    proof (rule serve_all_culprit [where P = ?P, OF reset_uses_token [OF assms(1)] lost])
      fix now r and st :: auth_state
      assume "?P (st_accounts st)" "\<not> asks_reset env r (env_sha256_hex env token)"
      then show "?P (st_accounts (snd (serve env now r st)))"
        by (auto intro!: serve_inv [where P = ?P] elim!: account_step_no_reset_token simp: label_ok_def)
    qed
    with assms(3) show False by (auto simp: list_all_iff)
  qed
qed

theorem reset_link_single_use_witness:
  "fst (auth_reset_handler sample_auth_env (sample_request ''reset'') ''s2'' 2000
     (serve_all sample_auth_env [(1500, Login sample_login ''tok'')]
       (snd (auth_reset_handler sample_auth_env (sample_request ''reset'') ''s1'' 1000
         (initial_auth_state sample_accounts))))) =
   Inl (bad_request ''This reset link is invalid or has already been used.'') \<and>
   isl (fst (auth_reset_handler sample_auth_env (sample_request ''reset'') ''s1'' 1000
         (initial_auth_state sample_accounts))) = False"
proof
  show "isl (fst (auth_reset_handler sample_auth_env (sample_request ''reset'') ''s1'' 1000
         (initial_auth_state sample_accounts))) = False" by code_simp
  have token: "reset_token_of sample_auth_env (sample_request ''reset'') = Some ''rt''" by code_simp
  show "fst (auth_reset_handler sample_auth_env (sample_request ''reset'') ''s2'' 2000
     (serve_all sample_auth_env [(1500, Login sample_login ''tok'')]
       (snd (auth_reset_handler sample_auth_env (sample_request ''reset'') ''s1'' 1000
         (initial_auth_state sample_accounts))))) =
     Inl (bad_request ''This reset link is invalid or has already been used.'')"
    by (rule reset_link_single_use [OF token token]) (simp add: asks_reset_def)
qed

section \<open>What an outsider can learn\<close>

text \<open>
  Asking for a reset reveals nothing. On any two servers whose throttle is in the
  same state, the same reset request gets the same reply and leaves the throttle in the
  same state, whatever accounts exist on either.
\<close>

theorem forgot_reveals_nothing:
  assumes "st_auth_rate_limiter st = st_auth_rate_limiter st'"
  shows "fst (auth_forgot_handler env rq raw now st) = fst (auth_forgot_handler env rq raw now st') \<and>
     st_auth_rate_limiter (snd (auth_forgot_handler env rq raw now st)) =
     st_auth_rate_limiter (snd (auth_forgot_handler env rq raw now st'))"
  using assms by (auto simp: auth_forgot_handler_def Let_def split: sum.split prod.split)

theorem forgot_reveals_nothing_witness:
  "fst (auth_forgot_handler sample_auth_env sample_login ''r'' 1000 (initial_auth_state sample_accounts)) =
   fst (auth_forgot_handler sample_auth_env sample_login ''r'' 1000 (initial_auth_state empty_accounts))"
  using forgot_reveals_nothing [of "initial_auth_state sample_accounts" "initial_auth_state empty_accounts"
      sample_auth_env sample_login "''r''" 1000]
  by (simp add: initial_auth_state_def)

end
