(* ===== verification/AuthThrottle.thy ===== *)
theory AuthThrottle
  imports AuthHandlers
begin

text \<open>
  Guessing passwords is bounded. All routes share one rate limiter under keys of their
  own; \<open>password_checks\<close> lists the address and time of every request that reaches the
  password verification of \<open>auth_login_handler\<close>. Each such request took one hit of its
  address's budget, so the sliding-window budget of \<open>RateLimit\<close> bounds them, whatever
  else the server is asked to do.
\<close>

definition login_check :: "auth_env \<Rightarrow> int \<Rightarrow> auth_request \<Rightarrow> auth_state \<Rightarrow> string option" where
  "login_check env now r st =
     (case r of
        Login rq token \<Rightarrow>
          if rq_method rq \<noteq> ''POST'' then None
          else (case parse_json_body env rq of
            Inl e \<Rightarrow> None
          | Inr payload \<Rightarrow>
              let email = lower (trim (text_field [''email'', ''username''] payload)) in
              if email \<noteq> [] \<and> text_field [''password''] payload \<noteq> [] \<and>
                 fst (check_and_record (st_auth_rate_limiter st) (''login:'' @ email) now) \<and>
                 retry_after_ms_at (st_auth_failure_backoff st) (''login:'' @ email) now \<le> 0 \<and>
                 get_user_by_email (st_accounts st) email \<noteq> None
              then Some email else None)
      | _ \<Rightarrow> None)"

fun password_checks :: "auth_env \<Rightarrow> (int \<times> auth_request) list \<Rightarrow> auth_state \<Rightarrow> (string \<times> int) list" where
  "password_checks env [] st = []"
| "password_checks env ((now, r) # rs) st =
     (case login_check env now r st of None \<Rightarrow> [] | Some email \<Rightarrow> [(email, now)]) @
     password_checks env rs (snd (serve env now r st))"

text \<open>A reply that depends on the password is only given where a check was made.\<close>

lemma login_depends_on_check:
  assumes "login_check env now (Login rq token) st = None"
  shows "auth_login_handler (env\<lparr>env_verify_password := v\<rparr>) rq token now st = auth_login_handler env rq token now st"
proof -
  have parse: "parse_json_body (env\<lparr>env_verify_password := v\<rparr>) rq = parse_json_body env rq"
    by (simp add: parse_json_body_def)
  show ?thesis
  proof (cases "rq_method rq = ''POST''")
    case post: True
    show ?thesis
    proof (cases "parse_json_body env rq")
      case (Inl e)
      then show ?thesis by (simp add: auth_login_handler_def parse)
    next
      case (Inr payload)
      let ?email = "lower (trim (text_field [''email'', ''username''] payload))"
      obtain ok l where check: "check_and_record (st_auth_rate_limiter st) (''login:'' @ ?email) now = (ok, l)"
        by fastforce
      let ?wait = "retry_after_ms_at (st_auth_failure_backoff st) (''login:'' @ ?email) now"
      from assms have "\<not> (?email \<noteq> [] \<and> text_field [''password''] payload \<noteq> [] \<and> ok \<and> ?wait \<le> 0 \<and>
          get_user_by_email (st_accounts st) ?email \<noteq> None)"
        by (simp only: login_check_def auth_request.case post Inr sum.case Let_def check fst_conv)
           (metis option.distinct(1))
      then consider "?email = [] \<or> text_field [''password''] payload = []"
        | "?email \<noteq> []" "text_field [''password''] payload \<noteq> []" "\<not> ok"
        | "?email \<noteq> []" "text_field [''password''] payload \<noteq> []" "ok" "0 < ?wait"
        | "?email \<noteq> []" "text_field [''password''] payload \<noteq> []" "ok" "\<not> 0 < ?wait"
          "get_user_by_email (st_accounts st) ?email = None"
        by linarith
      then show ?thesis
      proof cases
        case 1
        then show ?thesis by (simp add: auth_login_handler_def parse Inr Let_def)
      next
        case 2
        then show ?thesis by (simp add: auth_login_handler_def parse Inr Let_def check [simplified])
      next
        case 3
        then show ?thesis by (simp add: auth_login_handler_def parse Inr Let_def check [simplified])
      next
        case 4
        then show ?thesis by (simp add: auth_login_handler_def parse Inr Let_def check [simplified])
      qed
    qed
  qed (simp add: auth_login_handler_def)
qed

text \<open>The calls one request makes to the limiter.\<close>

definition throttled ::
  "int \<Rightarrow> auth_state \<Rightarrow> string option \<Rightarrow> reply app_result \<times> auth_state \<Rightarrow> bool" where
  "throttled now st check out \<longleftrightarrow>
     (\<exists>cs. list_all (\<lambda>c. rl_time c = now) cs \<and>
        st_auth_rate_limiter (snd out) = fst (rl_run (st_auth_rate_limiter st) cs) \<and>
        (\<forall>e \<in> set_option check. (''login:'' @ e, now) \<in> set (snd (rl_run (st_auth_rate_limiter st) cs))))"

lemma throttled_none:
  "st_auth_rate_limiter st' = st_auth_rate_limiter st \<Longrightarrow> throttled now st None (res, st')"
  by (auto simp: throttled_def intro!: exI [where x = "[]"])

lemma throttled_prune:
  "st_auth_rate_limiter st' = rate_limiter_prune (st_auth_rate_limiter st) now \<Longrightarrow> throttled now st None (res, st')"
  by (auto simp: throttled_def intro!: exI [where x = "[Prune now]"])

lemma throttled_call:
  assumes "check_and_record (st_auth_rate_limiter st) k now = (ok, l)" and "st_auth_rate_limiter st' = l"
    and "\<And>e. check = Some e \<Longrightarrow> ok \<and> k = ''login:'' @ e"
  shows "throttled now st check (res, st')"
proof -
  have run: "rl_run (st_auth_rate_limiter st) [Check k now] = (l, if ok then [(k, now)] else [])"
    by (simp add: assms(1))
  have "(''login:'' @ e, now) \<in> set (if ok then [(k, now)] else [])" if "check = Some e" for e
    using assms(3) [OF that] by (simp only: if_True list.set insertI1)
  then show ?thesis
    unfolding throttled_def
    by (intro exI [where x = "[Check k now]"]) (simp only: run, simp add: assms(2))
qed

lemma throttled_other:
  "check_and_record (st_auth_rate_limiter st) k now = (ok, l) \<Longrightarrow> st_auth_rate_limiter st' = l \<Longrightarrow>
   throttled now st None (res, st')"
  by (rule throttled_call) auto

lemma throttled_if:
  "(P \<Longrightarrow> throttled now st c a) \<Longrightarrow> (\<not> P \<Longrightarrow> throttled now st c b) \<Longrightarrow> throttled now st c (if P then a else b)"
  by simp

lemma throttled_option:
  "(x = None \<Longrightarrow> throttled now st c a) \<Longrightarrow> (\<And>y. x = Some y \<Longrightarrow> throttled now st c (f y)) \<Longrightarrow>
   throttled now st c (case x of None \<Rightarrow> a | Some y \<Rightarrow> f y)"
  by (cases x) auto

lemma throttled_sum:
  "(\<And>e. x = Inl e \<Longrightarrow> throttled now st c (f e)) \<Longrightarrow> (\<And>y. x = Inr y \<Longrightarrow> throttled now st c (g y)) \<Longrightarrow>
   throttled now st c (case x of Inl e \<Rightarrow> f e | Inr y \<Rightarrow> g y)"
  by (cases x) auto

lemma throttled_prod:
  "(\<And>a b. x = (a, b) \<Longrightarrow> throttled now st c (f a b)) \<Longrightarrow> throttled now st c (case x of (a, b) \<Rightarrow> f a b)"
  by (cases x) auto

lemmas throttled_cases = throttled_if throttled_option throttled_sum throttled_prod

lemma signup_throttled: "throttled now st None (auth_signup_handler env rq salt token raw now st)"
  unfolding auth_signup_handler_def Let_def
  by (intro throttled_cases; (rule throttled_none, simp (no_asm); fail)?;
      (rule throttled_other, assumption, simp (no_asm); fail)?)

lemma resend_throttled: "throttled now st None (auth_resend_verification_handler env cached rq raw now st)"
  unfolding auth_resend_verification_handler_def Let_def
  by (intro throttled_cases; (rule throttled_none, simp (no_asm); fail)?;
      (rule throttled_other, assumption, simp (no_asm); fail)?)

lemma forgot_throttled: "throttled now st None (auth_forgot_handler env rq raw now st)"
  unfolding auth_forgot_handler_def Let_def
  by (intro throttled_cases; (rule throttled_none, simp (no_asm); fail)?;
      (rule throttled_other, assumption, simp (no_asm); fail)?)

lemma login_throttled:
  "throttled now st (login_check env now (Login rq token) st) (auth_login_handler env rq token now st)"
proof (cases "login_check env now (Login rq token) st")
  case None
  show ?thesis
    unfolding None auth_login_handler_def Let_def record_login_failure_def
    by (intro throttled_cases; (rule throttled_none, simp (no_asm); fail)?;
      (rule throttled_other, assumption, simp (no_asm); fail)?)
next
  case (Some e)
  then obtain payload where ok: "rq_method rq = ''POST''" "parse_json_body env rq = Inr payload"
    "e = lower (trim (text_field [''email'', ''username''] payload))" "e \<noteq> []" "text_field [''password''] payload \<noteq> []"
    "fst (check_and_record (st_auth_rate_limiter st) (''login:'' @ e) now)"
    by (auto simp: login_check_def Let_def split: if_splits sum.splits)
  show ?thesis
    unfolding Some auth_login_handler_def Let_def record_login_failure_def
    by (intro throttled_cases; (insert ok, simp; fail)?;
        (rule throttled_call, assumption, simp, insert ok, simp; fail)?)
qed

lemma admin_throttled:
  "throttled now st None (behind_admin env rq now (\<lambda>cached. admin_reset_password_handler env cached rq salt now) st)"
  "throttled now st None (behind_admin env rq now (\<lambda>cached. admin_set_disabled_handler env cached rq now) st)"
  "throttled now st None (behind_admin env rq now (\<lambda>cached. admin_set_admin_handler env cached rq now) st)"
  "throttled now st None (behind_admin env rq now (\<lambda>cached. admin_delete_user_handler env cached rq now) st)"
  unfolding behind_admin_def admin_reset_password_handler_def admin_set_disabled_handler_def
    admin_set_admin_handler_def admin_delete_user_handler_def Let_def
  by (intro throttled_cases; rule throttled_none, simp (no_asm))+

lemma verify_throttled: "throttled now st None (auth_verify_handler env raw now st)"
  unfolding auth_verify_handler_def Let_def by (intro throttled_cases; rule throttled_none, simp (no_asm))

lemma reset_throttled: "throttled now st None (auth_reset_handler env rq salt now st)"
  unfolding auth_reset_handler_def Let_def by (intro throttled_cases; rule throttled_none, simp (no_asm))

lemma logout_throttled: "throttled now st None (auth_logout_handler env rq st)"
  unfolding auth_logout_handler_def Let_def
  by (intro throttled_cases; rule throttled_none, simp (no_asm) split: option.split)

lemma login_check_other: "(\<And>rq token. r \<noteq> Login rq token) \<Longrightarrow> login_check env now r st = None"
  by (cases r) (auto simp: login_check_def)

lemma serve_throttled: "throttled now st (login_check env now r st) (serve env now r st)"
proof (cases r)
  case (Me rq)
  then show ?thesis by (auto simp: login_check_other intro: throttled_none split: sum.split)
next
  case Sweep
  then show ?thesis by (simp add: login_check_other sweep_auth_def throttled_prune)
qed (simp_all add: login_check_other login_throttled signup_throttled resend_throttled forgot_throttled
    admin_throttled verify_throttled reset_throttled logout_throttled)

lemma checks_within_calls:
  assumes "sorted (map fst rs)"
  shows "\<exists>cs. sorted (map rl_time cs) \<and> set (map rl_time cs) \<subseteq> set (map fst rs) \<and>
     length (filter (\<lambda>(e, t). e = email \<and> lo < t \<and> t \<le> hi) (password_checks env rs st)) \<le>
       accepted_in (snd (rl_run (st_auth_rate_limiter st) cs)) (''login:'' @ email) lo hi"
  using assms
proof (induction rs arbitrary: st)
  case (Cons x rs)
  obtain now r where x: "x = (now, r)" by (cases x)
  let ?st' = "snd (serve env now r st)"
  from serve_throttled [of now st env r] obtain cs
    where cs: "list_all (\<lambda>c. rl_time c = now) cs"
      "st_auth_rate_limiter ?st' = fst (rl_run (st_auth_rate_limiter st) cs)"
      "\<forall>e \<in> set_option (login_check env now r st). (''login:'' @ e, now) \<in> set (snd (rl_run (st_auth_rate_limiter st) cs))"
    by (auto simp: throttled_def)
  have "sorted (map fst rs)" using Cons.prems by simp
  from Cons.IH [OF this, of ?st'] obtain cs' where cs': "sorted (map rl_time cs')" "set (map rl_time cs') \<subseteq> set (map fst rs)"
    "length (filter (\<lambda>(e, t). e = email \<and> lo < t \<and> t \<le> hi) (password_checks env rs ?st')) \<le>
       accepted_in (snd (rl_run (st_auth_rate_limiter ?st') cs')) (''login:'' @ email) lo hi"
    by blast
  have "sorted (map rl_time cs)" using cs(1) by (induction cs) (auto simp: list_all_iff)
  then have sorted: "sorted (map rl_time (cs @ cs'))"
  proof -
    have "rl_time c \<le> rl_time c'" if "c \<in> set cs" "c' \<in> set cs'" for c c'
    proof -
      have "rl_time c' \<in> set (map fst rs)" using that(2) cs'(2) by auto
      then have "now \<le> rl_time c'" using Cons.prems x by auto
      then show ?thesis using that(1) cs(1) by (simp add: list_all_iff)
    qed
    with \<open>sorted (map rl_time cs)\<close> cs'(1) show ?thesis by (auto simp: sorted_append)
  qed
  have times: "set (map rl_time (cs @ cs')) \<subseteq> set (map fst (x # rs))"
    using cs(1) cs'(2) x by (auto simp: list_all_iff)
  have "(if login_check env now r st = Some email \<and> lo < now \<and> now \<le> hi then 1 else 0) \<le>
      accepted_in (snd (rl_run (st_auth_rate_limiter st) cs)) (''login:'' @ email) lo hi"
  proof (cases "login_check env now r st = Some email \<and> lo < now \<and> now \<le> hi")
    case True
    with cs(3) have "(''login:'' @ email, now) \<in>
        set (filter (\<lambda>(k', t). k' = ''login:'' @ email \<and> lo < t \<and> t \<le> hi) (snd (rl_run (st_auth_rate_limiter st) cs)))"
      by auto
    then have "0 < accepted_in (snd (rl_run (st_auth_rate_limiter st) cs)) (''login:'' @ email) lo hi"
      unfolding accepted_in_def by (rule length_pos_if_in_set)
    with True show ?thesis by simp
  qed auto
  with cs'(3) cs(2)
  have "length (filter (\<lambda>(e, t). e = email \<and> lo < t \<and> t \<le> hi) (password_checks env (x # rs) st)) \<le>
      accepted_in (snd (rl_run (st_auth_rate_limiter st) (cs @ cs'))) (''login:'' @ email) lo hi"
    by (auto simp: x rl_run_append split: option.split)
  with sorted times show ?case by blast
qed auto



end
