(* ===== verification/ResolveJobs.thy ===== *)
theory ResolveJobs
  imports "HOL-Library.While_Combinator" SqlTable Json
begin

text \<open>
  \<open>src/resolve_jobs.rs\<close>: the store of background resolve jobs. A job belongs to a user,
  is pending until its first outcome, lives fifteen minutes, and the store holds at most
  256 of them, the oldest making room. Dropping or cancelling a job fires its
  cancellation token, which releases what its task holds; \<open>js_fired\<close> records the tokens
  fired. The concurrent map is a list of rows with distinct ids, one atomic operation a
  step; a poll that waits is given what the watch channel delivered before the timeout.
\<close>

section \<open>The store\<close>

datatype resolve_job_state = Pending | Done json | Failed string | Cancelled

record resolve_job =
  rj_id :: string
  rj_user_id :: int
  rj_created_at_ms :: int
  rj_state :: resolve_job_state

record job_store =
  js_jobs :: "resolve_job list"
  js_fired :: "string list"

definition RESOLVE_JOB_TTL_MS :: int where
  "RESOLVE_JOB_TTL_MS = 15 * 60 * 1000"

definition RESOLVE_JOB_MAX_ENTRIES :: nat where
  "RESOLVE_JOB_MAX_ENTRIES = 256"

definition job_store_new :: job_store where
  "job_store_new = \<lparr>js_jobs = [], js_fired = []\<rparr>"

definition find_job :: "job_store \<Rightarrow> string \<Rightarrow> resolve_job option" where
  "find_job s job_id = find_row rj_id job_id (js_jobs s)"

definition remove_job :: "string \<Rightarrow> job_store \<Rightarrow> job_store" where
  "remove_job job_id s =
     (if find_job s job_id = None then s
      else s\<lparr>js_jobs := delete_where (\<lambda>j. rj_id j = job_id) (js_jobs s), js_fired := job_id # js_fired s\<rparr>)"

definition evict_oldest :: "job_store \<Rightarrow> bool \<times> job_store" where
  "evict_oldest s =
     (case min_by_key rj_created_at_ms (js_jobs s) of
        None \<Rightarrow> (False, s)
      | Some j \<Rightarrow> (True, remove_job (rj_id j) s))"

lemma remove_job_shorter:
  "j \<in> set (js_jobs s) \<Longrightarrow> length (js_jobs (remove_job (rj_id j) s)) < length (js_jobs s)"
proof -
  assume j: "j \<in> set (js_jobs s)"
  then have "find_job s (rj_id j) \<noteq> None" by (auto simp: find_job_def find_row_None_iff)
  with j show ?thesis
    by (auto simp: remove_job_def delete_where_def intro: length_filter_less)
qed

text \<open>\<open>while self.jobs.len() > keep { if !self.evict_oldest() { break } }\<close>\<close>

function evict_while :: "nat \<Rightarrow> job_store \<Rightarrow> job_store" where
  "evict_while keep s =
     (if length (js_jobs s) > keep
      then let (evicted, s') = evict_oldest s in (if evicted then evict_while keep s' else s')
      else s)"
  by pat_completeness auto
termination
  by (relation "measure (\<lambda>(_, s). length (js_jobs s))")
     (auto simp: evict_oldest_def split: option.splits dest!: min_by_key_Some intro: remove_job_shorter)

declare evict_while.simps [simp del]

definition expired_job :: "int \<Rightarrow> resolve_job \<Rightarrow> bool" where
  "expired_job now j \<longleftrightarrow> saturating_sub now (rj_created_at_ms j) > RESOLVE_JOB_TTL_MS"

definition prune_jobs :: "int \<Rightarrow> job_store \<Rightarrow> job_store" where
  "prune_jobs now s =
     evict_while RESOLVE_JOB_MAX_ENTRIES
       (s\<lparr>js_jobs := delete_where (expired_job now) (js_jobs s),
          js_fired := map rj_id (filter (expired_job now) (js_jobs s)) @ js_fired s\<rparr>)"

definition create_job :: "string \<Rightarrow> int \<Rightarrow> int \<Rightarrow> job_store \<Rightarrow> job_store" where
  "create_job job_id user_id now s =
     (let s = evict_while (RESOLVE_JOB_MAX_ENTRIES - 1) (prune_jobs now s)
      in s\<lparr>js_jobs := delete_where (\<lambda>j. rj_id j = job_id) (js_jobs s) @
             [\<lparr>rj_id = job_id, rj_user_id = user_id, rj_created_at_ms = now, rj_state = Pending\<rparr>]\<rparr>)"

section \<open>Outcomes\<close>

text \<open>\<open>send_if_modified\<close> with the guard every outcome has: only a pending job changes.\<close>

definition settle :: "string \<Rightarrow> resolve_job_state \<Rightarrow> job_store \<Rightarrow> job_store" where
  "settle job_id outcome s =
     s\<lparr>js_jobs := update_where (\<lambda>j. rj_id j = job_id \<and> rj_state j = Pending)
          (\<lambda>j. j\<lparr>rj_state := outcome\<rparr>) (js_jobs s)\<rparr>"

definition complete_job :: "string \<Rightarrow> json \<Rightarrow> job_store \<Rightarrow> job_store" where
  "complete_job job_id payload s = settle job_id (Done payload) s"

definition fail_job :: "string \<Rightarrow> string \<Rightarrow> job_store \<Rightarrow> job_store" where
  "fail_job job_id message s = settle job_id (Failed message) s"

definition cancel_job :: "string \<Rightarrow> int \<Rightarrow> job_store \<Rightarrow> bool \<times> job_store" where
  "cancel_job job_id user_id s =
     (case find_job s job_id of
        None \<Rightarrow> (False, s)
      | Some j \<Rightarrow>
          if rj_user_id j \<noteq> user_id then (False, s)
          else (True, (settle job_id Cancelled s)\<lparr>js_fired := job_id # js_fired s\<rparr>))"

text \<open>
  The task of a job: a fired token wins over the future's result (\<open>biased\<close>), else the
  result is recorded.
\<close>

definition finish_task :: "string \<Rightarrow> string + json \<Rightarrow> job_store \<Rightarrow> job_store" where
  "finish_task job_id result s =
     (if job_id \<in> set (js_fired s) then s
      else case result of Inr payload \<Rightarrow> complete_job job_id payload s | Inl message \<Rightarrow> fail_job job_id message s)"

definition snapshot_json :: "string \<Rightarrow> resolve_job_state \<Rightarrow> json" where
  "snapshot_json job_id state =
     (case state of
        Pending \<Rightarrow> JObj [(''jobId'', JStr job_id), (''status'', JStr ''pending'')]
      | Done result \<Rightarrow> JObj [(''jobId'', JStr job_id), (''status'', JStr ''done''), (''result'', result)]
      | Failed message \<Rightarrow> JObj [(''jobId'', JStr job_id), (''status'', JStr ''error''), (''error'', JStr message)]
      | Cancelled \<Rightarrow> JObj [(''jobId'', JStr job_id), (''status'', JStr ''cancelled'')])"

text \<open>
  \<open>changed\<close> is the state the channel delivered while a positive \<open>wait\<close> ran, if any. A
  poll after the job's time is up removes it.
\<close>

definition snapshot_wait ::
  "string \<Rightarrow> int \<Rightarrow> int \<Rightarrow> resolve_job_state option \<Rightarrow> int \<Rightarrow> job_store \<Rightarrow> json option \<times> job_store" where
  "snapshot_wait job_id user_id wait changed now s =
     (case find_job s job_id of
        None \<Rightarrow> (None, s)
      | Some j \<Rightarrow>
          if rj_user_id j \<noteq> user_id then (None, s)
          else if expired_job now j then (None, remove_job job_id s)
          else
            let state = (if rj_state j = Pending \<and> wait \<noteq> 0
                         then (case changed of None \<Rightarrow> Pending | Some state \<Rightarrow> state) else rj_state j)
            in (Some (snapshot_json job_id state), s))"

definition snapshot :: "string \<Rightarrow> int \<Rightarrow> int \<Rightarrow> job_store \<Rightarrow> json option \<times> job_store" where
  "snapshot job_id user_id now s = snapshot_wait job_id user_id 0 None now s"

section \<open>Operations, one after the other\<close>

datatype job_event =
    Create string int
  | Finish string "string + json"
  | Cancel string int
  | Poll string int
  | Prune_jobs

fun job_step :: "int \<times> job_event \<Rightarrow> job_store \<Rightarrow> job_store" where
  "job_step (now, Create job_id u) s = create_job job_id u now s"
| "job_step (now, Finish job_id result) s = finish_task job_id result s"
| "job_step (now, Cancel job_id u) s = snd (cancel_job job_id u s)"
| "job_step (now, Poll job_id u) s = snd (snapshot job_id u now s)"
| "job_step (now, Prune_jobs) s = prune_jobs now s"

definition jobs_inv :: "job_store \<Rightarrow> bool" where
  "jobs_inv s \<longleftrightarrow> keyed rj_id (js_jobs s) \<and> length (js_jobs s) \<le> RESOLVE_JOB_MAX_ENTRIES"

text \<open>What eviction does: it removes rows, fires their tokens, and reaches its bound.\<close>

definition thinned :: "job_store \<Rightarrow> job_store \<Rightarrow> bool" where
  "thinned s s' \<longleftrightarrow>
     (\<exists>P. js_jobs s' = filter P (js_jobs s)) \<and>
     set (js_fired s) \<subseteq> set (js_fired s') \<and>
     (\<forall>j \<in> set (js_jobs s). j \<in> set (js_jobs s') \<or> rj_id j \<in> set (js_fired s'))"

lemma thinned_refl [simp]: "thinned s s"
  by (auto simp: thinned_def intro!: exI [where x = "\<lambda>_. True"])

lemma thinned_trans: "thinned s s' \<Longrightarrow> thinned s' s'' \<Longrightarrow> thinned s s''"
  by (fastforce simp: thinned_def)

lemma thinned_remove: "thinned s (remove_job job_id s)"
proof (cases "find_job s job_id")
  case (Some j)
  then show ?thesis by (auto simp: thinned_def remove_job_def delete_where_def)
qed (simp add: remove_job_def)

lemma thinned_evict: "evict_oldest s = (b, s') \<Longrightarrow> thinned s s'"
  by (auto simp: evict_oldest_def thinned_remove split: option.splits)

lemma thinned_evict_while: "thinned s (evict_while keep s)"
proof (induction keep s rule: evict_while.induct)
  case (1 keep s)
  obtain b s' where e: "evict_oldest s = (b, s')" by (cases "evict_oldest s")
  with 1 thinned_evict [OF e] show ?case
    by (subst evict_while.simps) (auto simp: Let_def intro: thinned_trans)
qed

lemma length_evict_while: "length (js_jobs (evict_while keep s)) \<le> keep"
proof (induction keep s rule: evict_while.induct)
  case (1 keep s)
  obtain b s' where e: "evict_oldest s = (b, s')" by (cases "evict_oldest s")
  show ?case
  proof (cases b)
    case True
    with 1 e show ?thesis by (subst evict_while.simps) (auto simp: Let_def)
  next
    case False
    with e have "js_jobs s = []" "s' = s" by (auto simp: evict_oldest_def split: option.splits)
    then show ?thesis using e False by (subst evict_while.simps) auto
  qed
qed

text \<open>The body of the \<open>while\<close> loop with its \<open>break\<close>: the flag says that the loop was left.\<close>

definition evict_body :: "bool \<times> job_store \<Rightarrow> bool \<times> job_store" where
  "evict_body = (\<lambda>(_, s). let (evicted, s') = evict_oldest s in (\<not> evicted, s'))"

text \<open>
  The eviction loop returns. Run as the loop it is, from any store and for any bound, it ends after
  finitely many passes, in the store the model computes, and that store is within the bound.
\<close>

theorem eviction_loop_returns:
  "\<exists>left. while_option (\<lambda>(left, s). \<not> left \<and> keep < length (js_jobs s)) evict_body (False, s) = Some (left, evict_while keep s) \<and>
     length (js_jobs (evict_while keep s)) \<le> keep"
proof -
  have "\<exists>left. while_option (\<lambda>(left, s). \<not> left \<and> keep < length (js_jobs s)) evict_body (False, s) = Some (left, evict_while keep s)"
  proof (induction keep s rule: evict_while.induct)
    case (1 keep s)
    obtain evicted s' where e: "evict_oldest s = (evicted, s')" by (cases "evict_oldest s") auto
    show ?case
    proof (cases "keep < length (js_jobs s) \<and> evicted")
      case True
      with 1 [OF _ e [symmetric] refl] e show ?thesis
        by (subst while_option_unfold, subst evict_while.simps) (simp add: evict_body_def)
    next
      case False
      with e show ?thesis
        by (subst while_option_unfold, subst evict_while.simps) (auto simp: evict_body_def while_option_unfold)
    qed
  qed
  then show ?thesis using length_evict_while by blast
qed

lemma thinned_prune: "thinned s (prune_jobs now s)"
proof -
  have "thinned s (s\<lparr>js_jobs := delete_where (expired_job now) (js_jobs s),
      js_fired := map rj_id (filter (expired_job now) (js_jobs s)) @ js_fired s\<rparr>)"
    by (auto simp: thinned_def delete_where_def)
  then show ?thesis
    unfolding prune_jobs_def by (rule thinned_trans [OF _ thinned_evict_while])
qed

lemma thinned_room: "thinned s (evict_while n (prune_jobs now s))"
  by (rule thinned_trans [OF thinned_prune thinned_evict_while])

lemma thinned_keyed: "thinned s s' \<Longrightarrow> keyed rj_id (js_jobs s) \<Longrightarrow> keyed rj_id (js_jobs s')"
  by (auto simp: thinned_def)

lemma thinned_find:
  assumes "thinned s s'" and "keyed rj_id (js_jobs s)"
  shows "find_job s' job_id = find_job s job_id \<or> find_job s' job_id = None"
proof (cases "find_job s' job_id")
  case (Some j)
  from assms(1) obtain P where "js_jobs s' = filter P (js_jobs s)" by (auto simp: thinned_def)
  with Some have "j \<in> set (js_jobs s)" "rj_id j = job_id"
    by (auto simp: find_job_def dest: find_row_SomeD)
  then have "find_job s job_id = Some j" using assms(2) by (simp add: find_job_def find_row_Some_iff)
  with Some show ?thesis by simp
qed simp

lemma settle_rj [simp]: "length (js_jobs (settle job_id outcome s)) = length (js_jobs s)"
  "keyed rj_id (js_jobs (settle job_id outcome s)) = keyed rj_id (js_jobs s)"
  "js_fired (settle job_id outcome s) = js_fired s"
  by (simp_all add: settle_def) (simp add: update_where_def)

lemma find_job_settle:
  "find_job (settle job_id outcome s) k =
     (if k = job_id
      then map_option (\<lambda>j. if rj_state j = Pending then j\<lparr>rj_state := outcome\<rparr> else j) (find_job s k)
      else find_job s k)"
proof -
  have "find_job (settle job_id outcome s) k =
      map_option (\<lambda>j. if rj_id j = job_id \<and> rj_state j = Pending then j\<lparr>rj_state := outcome\<rparr> else j) (find_job s k)"
    unfolding find_job_def settle_def by (simp add: find_row_update_where)
  also have "\<dots> = (if k = job_id
      then map_option (\<lambda>j. if rj_state j = Pending then j\<lparr>rj_state := outcome\<rparr> else j) (find_job s k)
      else find_job s k)"
    by (cases "find_job s k") (auto simp: find_job_def dest: find_row_SomeD)
  finally show ?thesis .
qed

lemma find_job_create:
  "find_job (create_job job_id u now s) k =
     (if k = job_id
      then Some \<lparr>rj_id = job_id, rj_user_id = u, rj_created_at_ms = now, rj_state = Pending\<rparr>
      else find_job (evict_while (RESOLVE_JOB_MAX_ENTRIES - 1) (prune_jobs now s)) k)"
  by (auto simp: find_job_def create_job_def Let_def find_row_append split: option.split)

lemma jobs_inv_thinned: "thinned s s' \<Longrightarrow> jobs_inv s \<Longrightarrow> jobs_inv s'"
  by (auto simp: jobs_inv_def thinned_keyed thinned_def intro: order_trans [OF length_filter_le])

lemma jobs_inv_create: "jobs_inv s \<Longrightarrow> jobs_inv (create_job job_id u now s)"
proof -
  assume inv: "jobs_inv s"
  let ?s = "evict_while (RESOLVE_JOB_MAX_ENTRIES - 1) (prune_jobs now s)"
  have "keyed rj_id (js_jobs ?s)" using inv by (auto simp: jobs_inv_def intro: thinned_keyed [OF thinned_room])
  moreover have "length (delete_where (\<lambda>j. rj_id j = job_id) (js_jobs ?s)) \<le> RESOLVE_JOB_MAX_ENTRIES - 1"
    using length_evict_while [of "RESOLVE_JOB_MAX_ENTRIES - 1" "prune_jobs now s"]
    by (auto simp: delete_where_def intro: order_trans [OF length_filter_le])
  ultimately show ?thesis
    by (auto simp: jobs_inv_def create_job_def Let_def RESOLVE_JOB_MAX_ENTRIES_def keyed_def delete_where_def
        distinct_map_filter)
qed

lemma job_step_inv: "jobs_inv s \<Longrightarrow> jobs_inv (job_step e s)"
proof (induction e s rule: job_step.induct)
  case (2 now job_id result s)
  then show ?case by (auto simp: finish_task_def complete_job_def fail_job_def jobs_inv_def split: sum.split)
next
  case (3 now job_id u s)
  then show ?case by (auto simp: cancel_job_def jobs_inv_def split: option.split)
next
  case (4 now job_id u s)
  then show ?case
    by (auto simp: snapshot_def snapshot_wait_def Let_def split: option.split intro: jobs_inv_thinned [OF thinned_remove])
qed (auto intro: jobs_inv_create jobs_inv_thinned [OF thinned_prune])

interpretation job_bound: invariant_steps jobs_inv job_step
  by unfold_locales (rule job_step_inv)

text \<open>
  The store is bounded. Whatever operations run on a new store, job ids are distinct
  and at most 256 jobs are held.
\<close>

theorem resolve_jobs_bounded:
  "jobs_inv (fold job_step es job_store_new)"
  by (rule job_bound.inv_fold) (simp add: jobs_inv_def job_store_new_def)

section \<open>An outcome is final\<close>

definition job_settled :: "string \<Rightarrow> resolve_job \<Rightarrow> job_store \<Rightarrow> bool" where
  "job_settled job_id j s \<longleftrightarrow> keyed rj_id (js_jobs s) \<and> (find_job s job_id = Some j \<or> find_job s job_id = None)"

lemma job_settled_thinned: "thinned s s' \<Longrightarrow> job_settled job_id j s \<Longrightarrow> job_settled job_id j s'"
  using thinned_find [of s s' job_id] thinned_keyed [of s s'] by (auto simp: job_settled_def)

lemma job_settled_settle:
  "job_settled job_id j s \<Longrightarrow> rj_state j \<noteq> Pending \<Longrightarrow> job_settled job_id j (settle k outcome s)"
  by (auto simp: job_settled_def find_job_settle)

lemma job_settled_step:
  assumes "job_settled job_id j s" and "rj_state j \<noteq> Pending" and "\<And>u. snd e \<noteq> Create job_id u"
  shows "job_settled job_id j (job_step e s)"
  using assms
proof (induction e s rule: job_step.induct)
  case (1 now k u s)
  let ?s = "evict_while (RESOLVE_JOB_MAX_ENTRIES - 1) (prune_jobs now s)"
  from 1 have "job_settled job_id j ?s" by (auto intro: job_settled_thinned [OF thinned_room])
  moreover have "keyed rj_id (js_jobs (create_job k u now s))" if "keyed rj_id (js_jobs ?s)"
    using that by (auto simp: create_job_def Let_def keyed_def delete_where_def distinct_map_filter)
  ultimately show ?case using 1 by (auto simp: job_settled_def find_job_create)
next
  case (2 now k result s)
  then show ?case
    by (auto simp: finish_task_def complete_job_def fail_job_def job_settled_settle split: sum.split)
next
  case (3 now k u s)
  then have "job_settled job_id j (settle k Cancelled s)" by (simp add: job_settled_settle)
  with 3 show ?case by (auto simp: cancel_job_def job_settled_def find_job_def split: option.split)
next
  case (4 now k u s)
  then show ?case
    by (auto simp: snapshot_def snapshot_wait_def Let_def split: option.split intro: job_settled_thinned [OF thinned_remove])
qed (auto intro: job_settled_thinned [OF thinned_prune])


definition sample_jobs :: job_store where
  "sample_jobs = fold job_step [(0, Create ''a'' 1), (5, Create ''b'' 2), (6, Cancel ''a'' 1)] job_store_new"


section \<open>Nothing is left running\<close>

definition job_accounted :: "string \<Rightarrow> job_store \<Rightarrow> bool" where
  "job_accounted job_id s \<longleftrightarrow> find_job s job_id \<noteq> None \<or> job_id \<in> set (js_fired s)"

lemma job_accounted_thinned: "thinned s s' \<Longrightarrow> job_accounted job_id s \<Longrightarrow> job_accounted job_id s'"
  by (auto simp: thinned_def job_accounted_def find_job_def find_row_None_iff)

lemma job_accounted_step: "job_accounted job_id s \<Longrightarrow> job_accounted job_id (job_step e s)"
proof (induction e s rule: job_step.induct)
  case (1 now k u s)
  then have "job_accounted job_id (evict_while (RESOLVE_JOB_MAX_ENTRIES - 1) (prune_jobs now s))"
    by (auto intro: job_accounted_thinned [OF thinned_room])
  then show ?case by (auto simp: job_accounted_def find_job_create) (simp_all add: create_job_def Let_def)
next
  case (2 now k result s)
  then show ?case
    by (auto simp: finish_task_def complete_job_def fail_job_def job_accounted_def find_job_settle split: sum.split)
next
  case (3 now k u s)
  have "find_job (s'\<lparr>js_fired := f\<rparr>) job_id = find_job s' job_id" for s' f by (simp add: find_job_def)
  with 3 show ?case by (auto simp: cancel_job_def job_accounted_def find_job_settle split: option.split)
next
  case (4 now k u s)
  then show ?case
    by (auto simp: snapshot_def snapshot_wait_def Let_def split: option.split intro: job_accounted_thinned [OF thinned_remove])
qed (auto intro: job_accounted_thinned [OF thinned_prune])

interpretation job_fate: invariant_steps "job_accounted job_id" job_step
  by unfold_locales (rule job_accounted_step)

text \<open>
  Nothing is left running unseen. Every job ever created is still in the store or
  had its cancellation token fired, however it left: by age, by capacity, by its
  owner's cancellation, or by a late poll.
\<close>

theorem resolve_job_never_orphaned:
  assumes "(now, Create job_id u) \<in> set es"
  shows "find_job (fold job_step es s) job_id \<noteq> None \<or> job_id \<in> set (js_fired (fold job_step es s))"
proof -
  from assms obtain xs ys where es: "es = xs @ (now, Create job_id u) # ys" by (auto simp: in_set_conv_decomp)
  have "job_accounted job_id (job_step (now, Create job_id u) s')" for s'
    by (simp add: job_accounted_def find_job_create)
  then have "job_accounted job_id (fold job_step es s)" unfolding es by (simp add: job_fate.inv_fold del: job_step.simps)
  then show ?thesis by (simp add: job_accounted_def)
qed

theorem resolve_job_never_orphaned_witness:
  "''a'' \<in> set (js_fired (fold job_step [(0, Create ''a'' 1), (900001, Create ''b'' 1)] job_store_new))"
proof -
  have "find_job (fold job_step [(0, Create ''a'' 1), (900001, Create ''b'' 1)] job_store_new) ''a'' = None" by code_simp
  then show ?thesis
    using resolve_job_never_orphaned [of 0 "''a''" 1 "[(0, Create ''a'' 1), (900001, Create ''b'' 1)]" job_store_new] by simp
qed

section \<open>Whose job it is\<close>

text \<open>
  A new job can be polled by its owner, by nobody else. Right after a job is created,
  whatever was in the store, its owner sees it pending, and any other user is told
  nothing and cannot cancel it.
\<close>

theorem new_job_visible_to_owner_only:
  "fst (snapshot job_id u now (create_job job_id user_id now s)) =
     (if u = user_id then Some (snapshot_json job_id Pending) else None) \<and>
   (u = user_id \<or> cancel_job job_id u (create_job job_id user_id now s) = (False, create_job job_id user_id now s))"
  by (simp add: snapshot_def snapshot_wait_def cancel_job_def find_job_create expired_job_def saturating_sub_def
      sat64_id i64_range_def i64_min_def i64_max_def RESOLVE_JOB_TTL_MS_def)

end
