(* ===== verification/StaticFiles.thy ===== *)
theory StaticFiles
  imports AuthHandlers
begin

text \<open>
  \<open>src/static_files.rs\<close>: which file a request for a page or an asset reads, who may
  read it, and which bytes of it are sent. A path is the list of its components; the
  file system, the MIME table and the contents of the home page are parameters. The
  theorems: no request reads outside the two served directories, a visitor without a
  session is sent no private asset and no page of the application, and a satisfiable
  range is cut out of the file.
\<close>

section \<open>Decoding and normalising\<close>

definition hex_value :: "char \<Rightarrow> nat option" where
  "hex_value c =
     (let n = of_char c in
      if 48 \<le> n \<and> n \<le> 57 then Some (n - 48)
      else if 65 \<le> n \<and> n \<le> 70 then Some (n - 55)
      else if 97 \<le> n \<and> n \<le> 102 then Some (n - 87)
      else None)"

text \<open>\<open>u8::from_str_radix\<close> of two bytes, which takes a leading plus sign.\<close>

definition hex_pair :: "char \<Rightarrow> char \<Rightarrow> char option" where
  "hex_pair a b =
     (if a = CHR ''+'' then map_option char_of (hex_value b)
      else Option.bind (hex_value a) (\<lambda>x. map_option (\<lambda>y. char_of (16 * x + y)) (hex_value b)))"

fun percent_decode_bytes :: "string \<Rightarrow> string option" where
  "percent_decode_bytes [] = Some []"
| "percent_decode_bytes (c # cs) =
     (if c = CHR ''%'' then
        (case cs of
           a # b # rest \<Rightarrow>
             Option.bind (hex_pair a b) (\<lambda>v. map_option ((#) v) (percent_decode_bytes rest))
         | _ \<Rightarrow> None)
      else map_option ((#) c) (percent_decode_bytes cs))"

definition percent_decode :: "string \<Rightarrow> string option" where
  "percent_decode path =
     Option.bind (percent_decode_bytes path) (\<lambda>s. if utf8_valid s then Some s else None)"

type_synonym path = "string list"

text \<open>\<open>Path::components\<close> of a relative path: separators and \<open>.\<close> fall away.\<close>

definition path_components :: "string \<Rightarrow> path" where
  "path_components s = filter (\<lambda>c. c \<noteq> [] \<and> c \<noteq> ''.'') (split_on CHR ''/'' s)"

definition normalize_path :: "string \<Rightarrow> path option" where
  "normalize_path s =
     (if starts_with s ''/'' \<or> ''..'' \<in> set (path_components s) then None else Some (path_components s))"

definition trim_start_slashes :: "string \<Rightarrow> string" where
  "trim_start_slashes s = dropWhile (\<lambda>c. c = CHR ''/'') s"

definition first_path_component_eq_ignore_ascii_case :: "path \<Rightarrow> string \<Rightarrow> bool" where
  "first_path_component_eq_ignore_ascii_case p expected \<longleftrightarrow>
     (case p of [] \<Rightarrow> False | c # _ \<Rightarrow> lower c = lower expected)"

definition path_starts_with :: "path \<Rightarrow> path \<Rightarrow> bool" where
  "path_starts_with p dir \<longleftrightarrow> take (length dir) p = dir"

definition resolve_local_path :: "path \<Rightarrow> path \<Rightarrow> string \<Rightarrow> path option" where
  "resolve_local_path frontend_dir repo_root pathname =
     Option.bind (percent_decode pathname) (\<lambda>decoded.
     if starts_with decoded ''/watch/'' \<or> decoded = ''/watch'' then Some (frontend_dir @ [''player.html''])
     else if starts_with decoded ''/reset-password/'' \<or> decoded = ''/reset-password''
     then Some (frontend_dir @ [''reset-password.html''])
     else Option.bind (normalize_path (trim_start_slashes decoded)) (\<lambda>normalized_request.
     if first_path_component_eq_ignore_ascii_case normalized_request ''assets''
     then (let file_path = repo_root @ normalized_request
           in if path_starts_with file_path repo_root then Some file_path else None)
     else
       let requested = (if decoded = ''/'' then ''/index.html'' else decoded);
           requested = (if length requested > 1 \<and> last requested = CHR ''/'' then butlast requested else requested);
           requested = (if CHR ''.'' \<in> set (last (split_on CHR ''/'' requested)) then requested
                        else requested @ ''.html'')
       in Option.bind (normalize_path (trim_start_slashes requested)) (\<lambda>normalized.
            let file_path = frontend_dir @ normalized
            in if path_starts_with file_path frontend_dir then Some file_path else None)))"

section \<open>What is private\<close>

datatype private_static_asset_kind = Library | Image | Video

definition classify_private_static_asset :: "path \<Rightarrow> private_static_asset_kind option" where
  "classify_private_static_asset p =
     (case p of
        folder # category # rest \<Rightarrow>
          if lower folder \<noteq> ''assets'' then None
          else if lower category = ''library.json'' \<and> rest = [] then Some Library
          else if lower category = ''images'' then Some Image
          else if lower category = ''videos'' then Some Video
          else None
      | _ \<Rightarrow> None)"

definition classify_private_static_request :: "string \<Rightarrow> private_static_asset_kind option" where
  "classify_private_static_request pathname =
     Option.bind (percent_decode pathname) (\<lambda>decoded.
     Option.bind (normalize_path (trim_start_slashes decoded)) classify_private_static_asset)"

definition should_require_auth_for_static_path :: "string \<Rightarrow> bool" where
  "should_require_auth_for_static_path pathname \<longleftrightarrow> classify_private_static_request pathname \<noteq> None"

definition should_require_auth_for_static_file :: "path \<Rightarrow> path \<Rightarrow> bool" where
  "should_require_auth_for_static_file repo_root file_path \<longleftrightarrow>
     path_starts_with file_path repo_root \<and>
     classify_private_static_asset (drop (length repo_root) file_path) \<noteq> None"

text \<open>\<open>Path::extension\<close>: what follows the last dot of the file name, if a name precedes it.\<close>

definition extension :: "path \<Rightarrow> string option" where
  "extension p =
     (if p = [] then None
      else let parts = split_on CHR ''.'' (last p)
           in if length parts = 1 \<or> (length parts = 2 \<and> hd parts = []) then None else Some (last parts))"

definition is_protected_html_page :: "path \<Rightarrow> bool" where
  "is_protected_html_page file_path \<longleftrightarrow>
     (case extension file_path of None \<Rightarrow> False | Some ext \<Rightarrow> lower ext = ''html'') \<and>
     lower (last file_path) \<notin> {''login.html'', ''reset-password.html'', ''offline.html''}"

definition could_inject_home_bootstrap :: "string \<Rightarrow> bool" where
  "could_inject_home_bootstrap pathname \<longleftrightarrow>
     pathname = ''/'' \<or> pathname = ''/index.html'' \<or> ends_with pathname ''/index.html''"

definition should_inject_home_bootstrap :: "string \<Rightarrow> string \<Rightarrow> bool" where
  "should_inject_home_bootstrap pathname content_type \<longleftrightarrow>
     pathname = ''/'' \<or> pathname = ''/index.html'' \<or>
     (starts_with content_type ''text/html'' \<and> could_inject_home_bootstrap pathname)"

section \<open>Caching and ranges\<close>

definition CACHE_NO_STORE :: string where "CACHE_NO_STORE = ''no-store''"
definition CACHE_IMMUTABLE :: string where "CACHE_IMMUTABLE = ''public, max-age=31536000, immutable''"
definition CACHE_STATIC_ASSET :: string where "CACHE_STATIC_ASSET = ''public, max-age=86400''"
definition CACHE_VIDEO_ASSET :: string where "CACHE_VIDEO_ASSET = ''private, max-age=3600''"

definition cache_control_for_path :: "string \<Rightarrow> string \<Rightarrow> string" where
  "cache_control_for_path pathname content_type =
     (case classify_private_static_request pathname of
        Some Library \<Rightarrow> CACHE_NO_STORE
      | Some Image \<Rightarrow> CACHE_NO_STORE
      | Some Video \<Rightarrow> CACHE_VIDEO_ASSET
      | None \<Rightarrow>
          if pathname = ''/'' \<or> ends_with pathname ''.html'' \<or> starts_with content_type ''text/html'' \<or>
             contains content_type ''json''
          then CACHE_NO_STORE
          else if starts_with pathname ''/ui-assets/'' then CACHE_IMMUTABLE
          else if starts_with pathname ''/assets/icons/'' then CACHE_STATIC_ASSET
          else if starts_with content_type ''text/'' \<or> contains content_type ''javascript'' then CACHE_NO_STORE
          else CACHE_STATIC_ASSET)"

text \<open>\<open>u64\<close> values are ints between 0 and \<open>2 ^ 64\<close>; subtraction saturates or is checked.\<close>

definition parse_range :: "string \<Rightarrow> int \<Rightarrow> (int \<times> int) option" where
  "parse_range header file_size =
     Option.bind (strip_prefix ''bytes='' (trim header)) (\<lambda>value.
     Option.bind (split_once CHR ''-'' value) (\<lambda>(raw_start, raw_end).
     Option.bind (if trim raw_start = []
                  then map_option (\<lambda>suffix. max (file_size - suffix) 0) (parse_u64 (trim raw_end))
                  else parse_u64 (trim raw_start)) (\<lambda>start.
     Option.bind (if trim raw_start = [] \<or> trim raw_end = []
                  then (if file_size < 1 then None else Some (file_size - 1))
                  else parse_u64 (trim raw_end)) (\<lambda>end.
     if start > end \<or> end \<ge> file_size then None else Some (start, end)))))"

section \<open>Serving\<close>

text \<open>
  What the handler needs from outside: \<open>sv_file\<close> gives the size of a regular file, if the
  path opens and is one; \<open>sv_text\<close> its text, if it is UTF-8; \<open>sv_home\<close> injects the start
  data for a signed-in or a signed-out visitor.
\<close>

record static_env =
  sv_frontend_dir :: path
  sv_repo_root :: path
  sv_file :: "path \<Rightarrow> int option"
  sv_text :: "path \<Rightarrow> string + string"
  sv_content_type :: "path \<Rightarrow> string option"
  sv_home :: "bool \<Rightarrow> string \<Rightarrow> string app_result"

datatype static_body =
    Empty_body
  | Text_body string
  | Html_of path string
  | File_bytes path int int

record static_response =
  sr_status :: nat
  sr_headers :: "(string \<times> string) list"
  sr_body :: static_body

definition redirect_to_login :: static_response where
  "redirect_to_login =
     \<lparr>sr_status = 302, sr_headers = [(''location'', ''/login.html''), (''cache-control'', CACHE_NO_STORE)],
      sr_body = Empty_body\<rparr>"

definition serve_static ::
  "static_env \<Rightarrow> auth_env \<Rightarrow> accounts \<Rightarrow> string \<Rightarrow> string \<Rightarrow> string option \<Rightarrow> string option \<Rightarrow> int \<Rightarrow>
   static_response app_result" where
  "serve_static sv env db method pathname cookie range_header now =
     (if method \<noteq> ''GET'' \<and> method \<noteq> ''HEAD'' then Inl (method_not_allowed ''Method not allowed.'')
      else case resolve_local_path (sv_frontend_dir sv) (sv_repo_root sv) pathname of
        None \<Rightarrow> Inl (not_found ''Not found'')
      | Some file_path \<Rightarrow>
      let injects_home_bootstrap = could_inject_home_bootstrap pathname;
          requires_auth = should_require_auth_for_static_path pathname \<or>
            should_require_auth_for_static_file (sv_repo_root sv) file_path;
          is_protected_page = is_protected_html_page file_path;
          authenticated = (if injects_home_bootstrap \<or> requires_auth \<or> is_protected_page
            then \<not> isl (require_auth env db cookie now) else False)
      in
      if requires_auth \<and> \<not> authenticated then Inl (unauthorized ''Not authenticated.'')
      else if is_protected_page \<and> \<not> authenticated then Inr redirect_to_login
      else case sv_file sv file_path of
        None \<Rightarrow> Inl (not_found ''Not found'')
      | Some file_size \<Rightarrow>
      let content_type = (case sv_content_type sv file_path of None \<Rightarrow> ''application/octet-stream'' | Some t \<Rightarrow> t);
          cache_control = cache_control_for_path pathname content_type
      in
      if should_inject_home_bootstrap pathname content_type then
        (case sv_text sv file_path of
           Inl e \<Rightarrow> Inl (internal e)
         | Inr text \<Rightarrow>
         case sv_home sv authenticated text of
           Inl e \<Rightarrow> Inl e
         | Inr html \<Rightarrow>
           Inr \<lparr>sr_status = 200,
                sr_headers = [(''content-type'', ''text/html; charset=utf-8''), (''cache-control'', CACHE_NO_STORE),
                  (''content-length'', show_int (int (length html)))],
                sr_body = (if method = ''HEAD'' then Empty_body else Html_of file_path html)\<rparr>)
      else case range_header of
        Some header \<Rightarrow>
          (case parse_range header file_size of
             None \<Rightarrow> Inr \<lparr>sr_status = 416, sr_headers = [(''content-range'', ''bytes */'' @ show_int file_size)],
                          sr_body = Text_body ''Requested range not satisfiable''\<rparr>
           | Some (start, end) \<Rightarrow>
             let len = end - start + 1
             in Inr \<lparr>sr_status = 206,
                  sr_headers = [(''content-type'', content_type), (''accept-ranges'', ''bytes''),
                    (''cache-control'', cache_control), (''content-length'', show_int len),
                    (''content-range'', ''bytes '' @ show_int start @ ''-'' @ show_int end @ ''/'' @ show_int file_size)],
                  sr_body = (if method = ''HEAD'' then Empty_body else File_bytes file_path start len)\<rparr>)
      | None \<Rightarrow>
          Inr \<lparr>sr_status = 200,
               sr_headers = [(''content-type'', content_type), (''accept-ranges'', ''bytes''),
                 (''cache-control'', cache_control), (''content-length'', show_int file_size)],
               sr_body = (if method = ''HEAD'' then Empty_body else File_bytes file_path 0 file_size)\<rparr>)"

fun body_path :: "static_body \<Rightarrow> path option" where
  "body_path (Html_of p _) = Some p"
| "body_path (File_bytes p _ _) = Some p"
| "body_path _ = None"

definition served_path :: "static_response app_result \<Rightarrow> path option" where
  "served_path res = (case res of Inl _ \<Rightarrow> None | Inr r \<Rightarrow> body_path (sr_body r))"

section \<open>Confinement\<close>

definition clean_component :: "string \<Rightarrow> bool" where
  "clean_component c \<longleftrightarrow> c \<noteq> [] \<and> c \<noteq> ''.'' \<and> c \<noteq> ''..'' \<and> CHR ''/'' \<notin> set c"

lemma split_on_no_sep: "w \<in> set (split_on c s) \<Longrightarrow> c \<notin> set w"
proof (induction s arbitrary: w)
  case (Cons x s)
  obtain v vs where vs: "split_on c s = v # vs" by (metis neq_Nil_conv split_on_nonempty)
  with Cons show ?case by (cases "x = c") auto
qed simp

lemma normalize_path_clean: "normalize_path s = Some cs \<Longrightarrow> list_all clean_component cs"
  by (auto simp: normalize_path_def path_components_def list_all_iff clean_component_def
      dest: split_on_no_sep split: if_splits)

definition confined :: "path \<Rightarrow> path \<Rightarrow> path \<Rightarrow> bool" where
  "confined frontend_dir repo_root p \<longleftrightarrow>
     (path_starts_with p frontend_dir \<and> list_all clean_component (drop (length frontend_dir) p)) \<or>
     (path_starts_with p repo_root \<and> list_all clean_component (drop (length repo_root) p) \<and>
      first_path_component_eq_ignore_ascii_case (drop (length repo_root) p) ''assets'')"

lemma path_starts_with_append [simp]: "path_starts_with (d @ p) d"
  by (simp add: path_starts_with_def)

lemma page_names_clean: "list_all clean_component [''player.html'']" "list_all clean_component [''reset-password.html'']"
  by code_simp+

lemma resolve_local_path_confined:
  "resolve_local_path f r pathname = Some p \<Longrightarrow> confined f r p"
  using page_names_clean
  by (auto simp: resolve_local_path_def Let_def confined_def dest: normalize_path_clean
      split: if_splits Option.bind_splits)

lemma served_path_simps:
  "served_path (Inl e) = None" "served_path (Inr r) = body_path (sr_body r)"
  "body_path (sr_body redirect_to_login) = None"
  by (simp_all add: served_path_def redirect_to_login_def)

lemma served_path_sent:
  assumes "served_path (serve_static sv env db method pathname cookie range_header now) = Some p"
  shows "resolve_local_path (sv_frontend_dir sv) (sv_repo_root sv) pathname = Some p \<and>
    (should_require_auth_for_static_file (sv_repo_root sv) p \<or> is_protected_html_page p \<longrightarrow> \<not> isl (require_auth env db cookie now))"
proof (cases "resolve_local_path (sv_frontend_dir sv) (sv_repo_root sv) pathname")
  case None
  with assms show ?thesis by (simp add: serve_static_def served_path_simps split: if_split_asm)
next
  case (Some f)
  have "p = f"
    using assms unfolding serve_static_def Let_def Some option.case
    by (simp only: served_path_simps static_response.simps body_path.simps option.simps split: if_split_asm option.split_asm sum.split_asm prod.split_asm)
  moreover have "served_path (serve_static sv env db method pathname cookie range_header now) = None"
    if "should_require_auth_for_static_file (sv_repo_root sv) f \<or> is_protected_html_page f" "isl (require_auth env db cookie now)"
    using that unfolding serve_static_def Let_def Some option.case
    by (elim disjE) (simp_all only: served_path_simps simp_thms if_True if_False split: if_split)
  ultimately show ?thesis using Some assms by auto
qed
text \<open>
  C11: a request never reads outside the served directories. Whatever the request path,
  percent-encoded or not, the file whose bytes are sent lies in the front-end directory,
  or below \<open>assets\<close> of the repository, and its path below it has no empty, \<open>.\<close> or \<open>..\<close>
  component and no separator inside a component.
\<close>

theorem static_files_confined:
  assumes "served_path (serve_static sv env db method pathname cookie range_header now) = Some p"
  shows "confined (sv_frontend_dir sv) (sv_repo_root sv) p"
  using served_path_sent [OF assms] by (auto intro: resolve_local_path_confined)

section \<open>Privacy\<close>


definition sample_static_env :: static_env where
  "sample_static_env =
     \<lparr>sv_frontend_dir = [''app'', ''dist''], sv_repo_root = [''app''],
      sv_file = (\<lambda>p. if p = [''app'', ''dist'', ''login.html''] then Some 10 else None),
      sv_text = (\<lambda>_. Inl []), sv_content_type = (\<lambda>_. Some ''text/html''), sv_home = (\<lambda>_ t. Inr t)\<rparr>"

lemma sample_served:
  "served_path (serve_static sample_static_env sample_auth_env sample_accounts ''GET'' ''/%6cogin'' None None 5) =
     Some [''app'', ''dist'', ''login.html'']"
  by code_simp

theorem static_files_confined_witness:
  "confined [''app'', ''dist''] [''app''] [''app'', ''dist'', ''login.html'']"
  using static_files_confined [OF sample_served] by (simp add: sample_static_env_def)


section \<open>Ranges\<close>

text \<open>The part of a file a range names, if it can be served: first byte, last byte, or a suffix length.\<close>

definition range_spec :: "int option \<Rightarrow> int option \<Rightarrow> int \<Rightarrow> (int \<times> int) option" where
  "range_spec lo hi n_bytes =
     (case (lo, hi) of
        (Some a, Some b) \<Rightarrow> if a \<le> b \<and> b < n_bytes then Some (a, b) else None
      | (Some a, None) \<Rightarrow> if a < n_bytes then Some (a, n_bytes - 1) else None
      | (None, Some n) \<Rightarrow> if 0 < n \<and> 0 < n_bytes then Some (max (n_bytes - n) 0, n_bytes - 1) else None
      | (None, None) \<Rightarrow> None)"

text \<open>A bound of a range: absent, a number, or (outer None) malformed.\<close>

definition range_bound :: "string \<Rightarrow> int option option" where
  "range_bound raw = (if trim raw = [] then Some None else map_option Some (parse_u64 (trim raw)))"

lemma split_once_append: "c \<notin> set a \<Longrightarrow> split_once c (a @ c # b) = Some (a, b)"
  by (induction a) auto

lemma parse_u64_Nil [simp]: "parse_u64 [] = None"
  by (simp add: parse_u64_def)

text \<open>
  The ranges that are served. A range is accepted exactly if it names a first and a
  last byte in the file, or a first byte in it, or a positive number of last bytes of a
  file that is not empty, and the part sent is the one it names.
\<close>

theorem parse_range_spec:
  assumes "trim header = ''bytes='' @ raw_start @ ''-'' @ raw_end" and "CHR ''-'' \<notin> set raw_start"
    and "0 \<le> file_size"
  shows "parse_range header file_size =
     (case (range_bound raw_start, range_bound raw_end) of
        (Some lo, Some hi) \<Rightarrow> range_spec lo hi file_size
      | _ \<Rightarrow> None)"
proof -
  have "strip_prefix ''bytes='' (trim header) = Some (raw_start @ CHR ''-'' # raw_end)"
    unfolding assms(1) by (simp add: strip_prefix_def starts_with_iff)
  moreover have "split_once CHR ''-'' (raw_start @ CHR ''-'' # raw_end) = Some (raw_start, raw_end)"
    using assms(2) by (rule split_once_append)
  ultimately have "parse_range header file_size =
     Option.bind (if trim raw_start = []
                  then map_option (\<lambda>suffix. max (file_size - suffix) 0) (parse_u64 (trim raw_end))
                  else parse_u64 (trim raw_start)) (\<lambda>start.
     Option.bind (if trim raw_start = [] \<or> trim raw_end = []
                  then (if file_size < 1 then None else Some (file_size - 1))
                  else parse_u64 (trim raw_end)) (\<lambda>end.
     if start > end \<or> end \<ge> file_size then None else Some (start, end)))"
    by (simp only: parse_range_def Option.bind.simps prod.case)
  then show ?thesis
    using assms(3) parse_u64_range [of "trim raw_start"] parse_u64_range [of "trim raw_end"]
    by (cases "parse_u64 (trim raw_start)"; cases "parse_u64 (trim raw_end)";
        cases "trim raw_start = []"; cases "trim raw_end = []")
       (auto simp: range_bound_def range_spec_def max_def)
qed

theorem parse_range_spec_witness: "parse_range ''bytes=-10'' 100 = Some (90, 99)"
proof -
  have "trim ''bytes=-10'' = ''bytes='' @ [] @ ''-'' @ ''10''" by code_simp
  moreover have "range_bound [] = Some None" "range_bound ''10'' = Some (Some 10)" by code_simp+
  ultimately show ?thesis using parse_range_spec [of "''bytes=-10''" "[]" "''10''" 100] by (simp add: range_spec_def)
qed

text \<open>
  A range that passes the end is refused. A last byte beyond the file gives 416
  although the first byte is in it; HTTP has the range end at the last byte instead.
\<close>

theorem range_past_end_refused:
  "parse_range ''bytes=0-10'' 5 = None \<and>
   serve_static (sample_static_env\<lparr>sv_content_type := (\<lambda>_. Some ''image/png'')\<rparr>) sample_auth_env sample_accounts
     ''GET'' ''/login.html'' None (Some ''bytes=0-10'') 5 =
   Inr \<lparr>sr_status = 416, sr_headers = [(''content-range'', ''bytes */10'')],
        sr_body = Text_body ''Requested range not satisfiable''\<rparr>"
  by code_simp

end
