(* ===== verification/SourceHealth.thy ===== *)
theory SourceHealth
  imports SqlTable
begin

text \<open>
  The playback statistics of each source in \<open>src/persistence.rs\<close>: one row of counters per
  source, bumped by what players report. The theorem: the counters are the numbers of
  events reported, in whatever order they arrived, and every failure is counted under
  exactly one cause.
\<close>

record source_health_row =
  sh_source_key :: string
  sh_total_success_count :: int
  sh_total_failure_count :: int
  sh_decode_failure_count :: int
  sh_ended_early_count :: int
  sh_playback_error_count :: int
  sh_last_error :: string
  sh_updated_at :: int

record source_health_stats =
  hs_success_count :: int
  hs_failure_count :: int
  hs_decode_failure_count :: int
  hs_ended_early_count :: int
  hs_playback_error_count :: int
  hs_updated_at :: int

definition SOURCE_HEALTH_STALE_MS :: int where
  "SOURCE_HEALTH_STALE_MS = 30 * 24 * 60 * 60 * 1000"

definition event_increments :: "string \<Rightarrow> int \<times> int \<times> int \<times> int \<times> int" where
  "event_increments event_type =
     (if event_type = ''success'' then (1, 0, 0, 0, 0)
      else if event_type = ''decode_failure'' then (0, 1, 1, 0, 0)
      else if event_type = ''ended_early'' then (0, 1, 0, 1, 0)
      else if event_type = ''playback_error'' then (0, 1, 0, 0, 1)
      else (0, 0, 0, 0, 0))"

definition add_health :: "source_health_row \<Rightarrow> source_health_row \<Rightarrow> source_health_row" where
  "add_health old new =
     old\<lparr>sh_total_success_count := sh_total_success_count old + sh_total_success_count new,
         sh_total_failure_count := sh_total_failure_count old + sh_total_failure_count new,
         sh_decode_failure_count := sh_decode_failure_count old + sh_decode_failure_count new,
         sh_ended_early_count := sh_ended_early_count old + sh_ended_early_count new,
         sh_playback_error_count := sh_playback_error_count old + sh_playback_error_count new,
         sh_last_error := sh_last_error new,
         sh_updated_at := sh_updated_at new\<rparr>"

definition record_source_health_event ::
  "string \<Rightarrow> string \<Rightarrow> string \<Rightarrow> int \<Rightarrow> source_health_row list \<Rightarrow> source_health_row list" where
  "record_source_health_event source_key event_type last_error now t =
     (if trim source_key = [] then t
      else case event_increments event_type of
        (success, failure, decode_failure, ended_early, playback_error) \<Rightarrow>
          upsert sh_source_key add_health
            \<lparr>sh_source_key = source_key, sh_total_success_count = success, sh_total_failure_count = failure,
             sh_decode_failure_count = decode_failure, sh_ended_early_count = ended_early,
             sh_playback_error_count = playback_error, sh_last_error = take 500 last_error,
             sh_updated_at = now\<rparr> t)"

definition get_source_health_stats ::
  "string \<Rightarrow> int \<Rightarrow> source_health_row list \<Rightarrow> source_health_stats option \<times> source_health_row list" where
  "get_source_health_stats source_key now t =
     (if trim source_key = [] then (None, t)
      else case find_row sh_source_key source_key t of
        None \<Rightarrow> (None, t)
      | Some r \<Rightarrow>
          if sh_updated_at r = 0 \<or> sh_updated_at r + SOURCE_HEALTH_STALE_MS \<le> now
          then (None, delete_where (\<lambda>r. sh_source_key r = source_key) t)
          else (Some \<lparr>hs_success_count = max (sh_total_success_count r) 0,
                      hs_failure_count = max (sh_total_failure_count r) 0,
                      hs_decode_failure_count = max (sh_decode_failure_count r) 0,
                      hs_ended_early_count = max (sh_ended_early_count r) 0,
                      hs_playback_error_count = max (sh_playback_error_count r) 0,
                      hs_updated_at = sh_updated_at r\<rparr>, t))"

definition source_health_totals :: "source_health_row list \<Rightarrow> int \<times> int" where
  "source_health_totals t = (sum_list (map sh_total_success_count t), sum_list (map sh_total_failure_count t))"

section \<open>Counting\<close>

record health_event =
  he_source_key :: string
  he_event_type :: string
  he_last_error :: string
  he_now :: int

definition apply_health_event :: "health_event \<Rightarrow> source_health_row list \<Rightarrow> source_health_row list" where
  "apply_health_event e t = record_source_health_event (he_source_key e) (he_event_type e) (he_last_error e) (he_now e) t"

definition count_events :: "string \<Rightarrow> string \<Rightarrow> health_event list \<Rightarrow> int" where
  "count_events k ty es = int (length (filter (\<lambda>e. he_source_key e = k \<and> he_event_type e = ty) es))"

definition row_counts :: "source_health_row \<Rightarrow> int list" where
  "row_counts r =
     [sh_total_success_count r, sh_total_failure_count r, sh_decode_failure_count r, sh_ended_early_count r,
      sh_playback_error_count r]"

definition event_counts :: "string \<Rightarrow> health_event list \<Rightarrow> int list" where
  "event_counts k es =
     (let d = count_events k ''decode_failure'' es; e = count_events k ''ended_early'' es;
          p = count_events k ''playback_error'' es
      in [count_events k ''success'' es, d + e + p, d, e, p])"

definition health_counts :: "string \<Rightarrow> source_health_row list \<Rightarrow> int list" where
  "health_counts k t = (case find_row sh_source_key k t of None \<Rightarrow> [0, 0, 0, 0, 0] | Some r \<Rightarrow> row_counts r)"

definition add_counts :: "int list \<Rightarrow> int list \<Rightarrow> int list" where
  "add_counts a b = map2 (+) a b"

lemma sh_key_add [simp]: "sh_source_key (add_health old new) = sh_source_key old"
  by (simp add: add_health_def)

lemma row_counts_add: "row_counts (add_health old new) = add_counts (row_counts old) (row_counts new)"
  by (simp add: row_counts_def add_health_def add_counts_def)

lemma add_counts_zero [simp]: "length a = 5 \<Longrightarrow> add_counts [0, 0, 0, 0, 0] a = a"
  by (auto simp: add_counts_def numeral_eq_Suc length_Suc_conv)

lemma health_counts_step:
  assumes "trim (he_source_key e) \<noteq> []"
  shows "health_counts k (apply_health_event e t) = add_counts (health_counts k t) (event_counts k [e])"
proof -
  have "event_counts k [e] = (if he_source_key e = k
      then (case event_increments (he_event_type e) of (a, b, c, d, f) \<Rightarrow> [a, b, c, d, f]) else [0, 0, 0, 0, 0])"
    by (auto simp: event_counts_def count_events_def event_increments_def Let_def)
  moreover have "add_counts (health_counts k t) [0, 0, 0, 0, 0] = health_counts k t"
    by (auto simp: add_counts_def health_counts_def row_counts_def split: option.split)
  ultimately show ?thesis
    using assms
    by (auto simp: apply_health_event_def record_source_health_event_def health_counts_def find_row_upsert
        row_counts_add split: prod.split option.split) (simp_all add: row_counts_def)
qed

lemma event_counts_snoc: "event_counts k (e # es) = add_counts (event_counts k [e]) (event_counts k es)"
  by (simp add: event_counts_def count_events_def add_counts_def Let_def)

lemma add_counts_assoc: "add_counts (add_counts a b) c = add_counts a (add_counts b c)"
  by (simp add: add_counts_def zip_map1 zip_map2) (auto simp: list_eq_iff_nth_eq add.assoc)

lemma health_counts_fold:
  assumes "list_all (\<lambda>e. trim (he_source_key e) \<noteq> []) es"
  shows "health_counts k (fold apply_health_event es t) = add_counts (health_counts k t) (event_counts k es)"
  using assms
proof (induction es arbitrary: t)
  case Nil
  then show ?case
    by (auto simp: add_counts_def health_counts_def row_counts_def event_counts_def count_events_def Let_def
        split: option.split)
next
  case (Cons e es)
  then show ?case by (simp add: health_counts_step add_counts_assoc event_counts_snoc [of k e es])
qed

text \<open>
  The statistics count what was reported. From an empty table, whatever events are
  recorded in whatever order, the counters of a source are the numbers of successes, of
  failures and of failures of each cause reported for it; no failure is counted twice.
\<close>

theorem source_health_counts_events:
  assumes "list_all (\<lambda>e. trim (he_source_key e) \<noteq> []) es"
  shows "health_counts k (fold apply_health_event es []) = event_counts k es"
  using health_counts_fold [OF assms, of k "[]"]
  by (simp add: health_counts_def) (simp add: event_counts_def Let_def)

theorem source_health_counts_events_witness:
  "health_counts ''s'' (fold apply_health_event
     [\<lparr>he_source_key = ''s'', he_event_type = ''success'', he_last_error = [], he_now = 1\<rparr>,
      \<lparr>he_source_key = ''r'', he_event_type = ''success'', he_last_error = [], he_now = 2\<rparr>,
      \<lparr>he_source_key = ''s'', he_event_type = ''ended_early'', he_last_error = ''x'', he_now = 3\<rparr>] []) =
   [1, 1, 0, 1, 0]"
proof -
  let ?es = "[\<lparr>he_source_key = ''s'', he_event_type = ''success'', he_last_error = [], he_now = 1\<rparr>,
      \<lparr>he_source_key = ''r'', he_event_type = ''success'', he_last_error = [], he_now = 2\<rparr>,
      \<lparr>he_source_key = ''s'', he_event_type = ''ended_early'', he_last_error = ''x'', he_now = 3\<rparr>]"
  have "list_all (\<lambda>e. trim (he_source_key e) \<noteq> []) ?es" by code_simp
  moreover have "event_counts ''s'' ?es = [1, 1, 0, 1, 0]" by code_simp
  ultimately show ?thesis using source_health_counts_events [of ?es "''s''"] by simp
qed

end
