(* ===== verification/Caches.thy ===== *)
theory Caches
  imports PlaybackSessions SourceHealth
begin

text \<open>
  The persistent caches of \<open>src/persistence.rs\<close>: TMDB responses, resolved streams, movie
  quick starts, media probes, the home page's start data, and the title preferences. All
  are tables with an expiry and a cap. What their readers rely on is the interface
  \<open>ttl_cache\<close>: a read returns what was stored last under the key, and only while it has
  not expired. Each cache is an interpretation of it; the soundness of a whole history of
  reads, writes, sweeps and evictions is proved once.
\<close>

section \<open>The interface\<close>

datatype ('k, 'a) cache_op = Cache_put 'k 'a int | Cache_get 'k int | Cache_sweep int

text \<open>What the last write of a key left to be read, from what there was before.\<close>

fun last_written :: "('a \<Rightarrow> int \<Rightarrow> ('v \<times> int) option) \<Rightarrow> 'k \<Rightarrow> ('k, 'a) cache_op list \<Rightarrow> ('v \<times> int) option \<Rightarrow> ('v \<times> int) option" where
  "last_written live k [] old = old"
| "last_written live k (Cache_put k' a t # ops) old = last_written live k ops (if k' = k then live a t else old)"
| "last_written live k (_ # ops) old = last_written live k ops old"

locale ttl_cache =
  fixes inv :: "'s \<Rightarrow> bool"
    and find :: "'s \<Rightarrow> 'k \<Rightarrow> ('v \<times> int) option"
    and live :: "'a \<Rightarrow> int \<Rightarrow> ('v \<times> int) option"
    and get :: "'s \<Rightarrow> 'k \<Rightarrow> int \<Rightarrow> 'v option \<times> 's"
    and put :: "'s \<Rightarrow> 'k \<Rightarrow> 'a \<Rightarrow> int \<Rightarrow> 's"
    and sweep :: "'s \<Rightarrow> int \<Rightarrow> 's"
  assumes get_value: "inv s \<Longrightarrow> fst (get s k t) =
      (case find s k of None \<Rightarrow> None | Some (v, e) \<Rightarrow> if t < e then Some v else None)"
    and get_keeps: "inv s \<Longrightarrow> find (snd (get s k t)) k' = find s k' \<or> find (snd (get s k t)) k' = None"
    and put_this: "inv s \<Longrightarrow> find (put s k a t) k = live a t \<or> find (put s k a t) k = None"
    and put_other: "inv s \<Longrightarrow> k' \<noteq> k \<Longrightarrow> find (put s k a t) k' = find s k' \<or> find (put s k a t) k' = None"
    and sweep_keeps: "inv s \<Longrightarrow> find (sweep s t) k = find s k \<or> find (sweep s t) k = None"
    and get_inv: "inv s \<Longrightarrow> inv (snd (get s k t))"
    and put_inv: "inv s \<Longrightarrow> inv (put s k a t)"
    and sweep_inv: "inv s \<Longrightarrow> inv (sweep s t)"
begin

abbreviation run :: "('k, 'a) cache_op list \<Rightarrow> 's \<Rightarrow> 's" where
  "run ops s \<equiv> fold (\<lambda>op s. case op of
      Cache_put k a t \<Rightarrow> put s k a t | Cache_get k t \<Rightarrow> snd (get s k t) | Cache_sweep t \<Rightarrow> sweep s t) ops s"

lemma run_find:
  assumes "inv s" and "find s k = old \<or> find s k = None"
  shows "inv (run ops s) \<and> (find (run ops s) k = last_written live k ops old \<or> find (run ops s) k = None)"
  using assms
proof (induction ops arbitrary: s old)
  case (Cons op ops)
  show ?case
  proof (cases op)
    case (Cache_put k' a t)
    have "find (put s k' a t) k = (if k' = k then live a t else old) \<or> find (put s k' a t) k = None"
      using put_this [OF Cons.prems(1), of k' a t] put_other [OF Cons.prems(1), of k k' a t] Cons.prems(2) by auto
    with Cons.IH [OF put_inv [OF Cons.prems(1)]] Cache_put show ?thesis by simp
  next
    case (Cache_get k' t)
    have "find (snd (get s k' t)) k = old \<or> find (snd (get s k' t)) k = None"
      using get_keeps [OF Cons.prems(1), of k' t k] Cons.prems(2) by auto
    with Cons.IH [OF get_inv [OF Cons.prems(1)]] Cache_get show ?thesis by simp
  next
    case (Cache_sweep t)
    have "find (sweep s t) k = old \<or> find (sweep s t) k = None"
      using sweep_keeps [OF Cons.prems(1), of t k] Cons.prems(2) by auto
    with Cons.IH [OF sweep_inv [OF Cons.prems(1)]] Cache_sweep show ?thesis by simp
  qed
qed simp

lemma read_is_last_write:
  assumes "inv s" and "fst (get (run ops s) k t) = Some v"
  shows "\<exists>e. last_written live k ops (find s k) = Some (v, e) \<and> t < e"
proof -
  from run_find [OF assms(1), of k "find s k" ops] have i: "inv (run ops s)"
    and f: "find (run ops s) k = last_written live k ops (find s k) \<or> find (run ops s) k = None" by auto
  from assms(2) get_value [OF i, of k t] obtain e where "find (run ops s) k = Some (v, e)" and "t < e"
    by (auto split: option.splits if_splits)
  with f show ?thesis by (metis option.distinct(1))
qed

end

section \<open>Tables\<close>

record cache_row =
  cr_key :: string
  cr_payload_json :: string
  cr_expires_at :: int
  cr_updated_at :: int

record resolved_row = cache_row +
  cr_next_validation_at :: int

record probe_row =
  pr_key :: string
  pr_payload_json :: string
  pr_updated_at :: int

record title_preference_row =
  tp_user_id :: int
  tp_media_type :: string
  tp_tmdb_id :: string
  tp_preferred_audio_lang :: string
  tp_preferred_subtitle_lang :: string
  tp_updated_at :: int

record cache_db =
  cd_tmdb :: "cache_row list"
  cd_home :: "(string \<times> int) option"
  cd_resolved :: "resolved_row list"
  cd_quick_start :: "cache_row list"
  cd_probes :: "probe_row list"
  cd_titles :: "title_preference_row list"
  cd_sessions :: "session_row list"
  cd_health :: "source_health_row list"

record cache_counts =
  tmdb_response_size :: nat
  playback_session_size :: nat
  resolved_stream_size :: nat
  movie_quick_start_size :: nat
  source_health_size :: nat
  media_probe_size :: nat
  title_preference_size :: nat

definition TMDB_RESPONSE_PERSIST_MAX_ENTRIES :: nat where
  "TMDB_RESPONSE_PERSIST_MAX_ENTRIES = 6000"

definition RESOLVED_STREAM_PERSIST_MAX_ENTRIES :: nat where
  "RESOLVED_STREAM_PERSIST_MAX_ENTRIES = 6000"

definition MOVIE_QUICK_START_PERSIST_MAX_ENTRIES :: nat where
  "MOVIE_QUICK_START_PERSIST_MAX_ENTRIES = 1200"

definition TITLE_PREFERENCES_STALE_MS :: int where
  "TITLE_PREFERENCES_STALE_MS = 90 * 24 * 60 * 60 * 1000"

definition MEDIA_PROBE_STALE_MS :: int where
  "MEDIA_PROBE_STALE_MS = 30 * 24 * 60 * 60 * 1000"

text \<open>\<open>serde_json::from_str(..).unwrap_or(Value::Null)\<close>\<close>

definition parse_or_null :: "json_parser \<Rightarrow> string \<Rightarrow> json" where
  "parse_or_null parse s = (case parse s of None \<Rightarrow> JNull | Some v \<Rightarrow> v)"

definition delete_key :: "('r \<Rightarrow> string) \<Rightarrow> string \<Rightarrow> 'r list \<Rightarrow> 'r list" where
  "delete_key key k t = delete_where (\<lambda>r. key r = k) t"

section \<open>TMDB responses\<close>

definition get_tmdb_cache :: "json_parser \<Rightarrow> cache_row list \<Rightarrow> string \<Rightarrow> int \<Rightarrow> (json \<times> int) option \<times> cache_row list" where
  "get_tmdb_cache parse t cache_key now =
     (case find_row cr_key cache_key t of
        None \<Rightarrow> (None, t)
      | Some r \<Rightarrow>
          if cr_expires_at r \<le> now then (None, delete_key cr_key cache_key t)
          else let parsed = parse_or_null parse (cr_payload_json r)
               in if parsed = JNull then (None, delete_key cr_key cache_key t)
                  else (Some (parsed, cr_expires_at r), t))"

definition replace_cache_row :: "cache_row \<Rightarrow> cache_row \<Rightarrow> cache_row" where
  "replace_cache_row old new =
     old\<lparr>cr_payload_json := cr_payload_json new, cr_expires_at := cr_expires_at new, cr_updated_at := cr_updated_at new\<rparr>"

definition set_tmdb_cache :: "(json \<Rightarrow> string) \<Rightarrow> cache_row list \<Rightarrow> string \<Rightarrow> json \<times> int \<Rightarrow> int \<Rightarrow> cache_row list" where
  "set_tmdb_cache print t cache_key entry now =
     (case entry of (payload, expires_at) \<Rightarrow>
        trim_table cr_updated_at TMDB_RESPONSE_PERSIST_MAX_ENTRIES
          (upsert cr_key replace_cache_row
             \<lparr>cr_key = cache_key, cr_payload_json = print payload, cr_expires_at = expires_at, cr_updated_at = now\<rparr> t))"

definition extend_tmdb_cache_expiration :: "cache_row list \<Rightarrow> string \<Rightarrow> int \<Rightarrow> int \<Rightarrow> cache_row list" where
  "extend_tmdb_cache_expiration t cache_key expires_at now =
     update_where (\<lambda>r. cr_key r = cache_key \<and> cr_expires_at r < expires_at)
       (\<lambda>r. r\<lparr>cr_expires_at := expires_at, cr_updated_at := now\<rparr>) t"

section \<open>The home page\<close>

definition get_home_bootstrap_cache :: "json_parser \<Rightarrow> cache_db \<Rightarrow> (json \<times> int) option" where
  "get_home_bootstrap_cache parse db =
     (case cd_home db of
        None \<Rightarrow> None
      | Some (payload_json, refreshed_at) \<Rightarrow>
          let parsed = parse_or_null parse payload_json
          in if parsed = JNull then None else Some (parsed, refreshed_at))"

definition set_home_bootstrap_cache :: "(json \<Rightarrow> string) \<Rightarrow> cache_db \<Rightarrow> json \<Rightarrow> int \<Rightarrow> cache_db" where
  "set_home_bootstrap_cache print db payload refreshed_at =
     db\<lparr>cd_home := Some (print payload, refreshed_at)\<rparr>"

section \<open>Resolved streams\<close>

definition get_resolved_stream_cache ::
  "json_parser \<Rightarrow> resolved_row list \<Rightarrow> string \<Rightarrow> int \<Rightarrow> (json \<times> int \<times> int) option \<times> resolved_row list" where
  "get_resolved_stream_cache parse t cache_key now =
     (case find_row cr_key cache_key t of
        None \<Rightarrow> (None, t)
      | Some r \<Rightarrow>
          if cr_expires_at r \<le> now then (None, delete_key cr_key cache_key t)
          else let parsed = parse_or_null parse (cr_payload_json r)
               in if parsed = JNull \<or> \<not> is_object parsed then (None, delete_key cr_key cache_key t)
                  else (Some (parsed, max (cr_expires_at r) 0, max (cr_next_validation_at r) 0), t))"

definition replace_resolved_row :: "resolved_row \<Rightarrow> resolved_row \<Rightarrow> resolved_row" where
  "replace_resolved_row old new =
     old\<lparr>cr_payload_json := cr_payload_json new, cr_expires_at := cr_expires_at new,
         cr_next_validation_at := cr_next_validation_at new, cr_updated_at := cr_updated_at new\<rparr>"

definition set_resolved_stream_cache ::
  "(json \<Rightarrow> string) \<Rightarrow> resolved_row list \<Rightarrow> string \<Rightarrow> json \<times> int \<times> int \<Rightarrow> int \<Rightarrow> resolved_row list" where
  "set_resolved_stream_cache print t cache_key entry now =
     (case entry of (payload, expires_at, next_validation_at) \<Rightarrow>
        trim_table cr_updated_at RESOLVED_STREAM_PERSIST_MAX_ENTRIES
          (upsert cr_key replace_resolved_row
             \<lparr>cr_key = cache_key, cr_payload_json = print payload,
              cr_expires_at = max (max expires_at next_validation_at) (now + 1000), cr_updated_at = now,
              cr_next_validation_at = max next_validation_at 0\<rparr> t))"

section \<open>Movie quick starts\<close>

definition get_movie_quick_start_cache ::
  "json_parser \<Rightarrow> cache_row list \<Rightarrow> string \<Rightarrow> int \<Rightarrow> (json \<times> int) option \<times> cache_row list" where
  "get_movie_quick_start_cache parse t cache_key now =
     (case find_row cr_key cache_key t of
        None \<Rightarrow> (None, t)
      | Some r \<Rightarrow>
          if cr_expires_at r \<le> now then (None, delete_key cr_key cache_key t)
          else let parsed = parse_or_null parse (cr_payload_json r)
               in if parsed = JNull \<or> \<not> is_object parsed then (None, delete_key cr_key cache_key t)
                  else (Some (parsed, max (cr_expires_at r) 0), t))"

definition set_movie_quick_start_cache ::
  "(json \<Rightarrow> string) \<Rightarrow> cache_row list \<Rightarrow> string \<Rightarrow> json \<times> int \<Rightarrow> int \<Rightarrow> cache_row list" where
  "set_movie_quick_start_cache print t cache_key entry now =
     (case entry of (payload, expires_at) \<Rightarrow>
        trim_table cr_updated_at MOVIE_QUICK_START_PERSIST_MAX_ENTRIES
          (upsert cr_key replace_cache_row
             \<lparr>cr_key = cache_key, cr_payload_json = print payload,
              cr_expires_at = max expires_at (now + 1000), cr_updated_at = now\<rparr> t))"

definition delete_movie_quick_start_cache :: "cache_row list \<Rightarrow> string \<Rightarrow> cache_row list" where
  "delete_movie_quick_start_cache t cache_key = delete_key cr_key cache_key t"

definition invalidate_all_movie_resolve_caches_for_tmdb :: "cache_row list \<Rightarrow> string \<Rightarrow> cache_row list" where
  "invalidate_all_movie_resolve_caches_for_tmdb t tmdb_id =
     delete_where (\<lambda>r. sql_like (tmdb_id @ '':%'') (cr_key r)) t"

section \<open>Media probes\<close>

definition get_media_probe_cache ::
  "json_parser \<Rightarrow> probe_row list \<Rightarrow> string \<Rightarrow> int \<Rightarrow> json option \<times> probe_row list" where
  "get_media_probe_cache parse t probe_key now =
     (case find_row pr_key probe_key t of
        None \<Rightarrow> (None, t)
      | Some r \<Rightarrow>
          if pr_updated_at r = 0 \<or> pr_updated_at r + MEDIA_PROBE_STALE_MS \<le> now
          then (None, delete_key pr_key probe_key t)
          else let parsed = parse_or_null parse (pr_payload_json r)
               in if parsed = JNull \<or> \<not> is_object parsed then (None, delete_key pr_key probe_key t)
                  else (Some parsed, t))"

definition set_media_probe_cache ::
  "(json \<Rightarrow> string) \<Rightarrow> probe_row list \<Rightarrow> string \<Rightarrow> json \<Rightarrow> int \<Rightarrow> probe_row list" where
  "set_media_probe_cache print t probe_key payload now =
     upsert pr_key (\<lambda>old new. old\<lparr>pr_payload_json := pr_payload_json new, pr_updated_at := pr_updated_at new\<rparr>)
       \<lparr>pr_key = probe_key, pr_payload_json = print payload, pr_updated_at = now\<rparr> t"

section \<open>Title preferences\<close>

definition normalize_title_preference_media_type :: "string \<Rightarrow> string" where
  "normalize_title_preference_media_type value = (if lower (trim value) = ''tv'' then ''tv'' else ''movie'')"

definition tp_key :: "title_preference_row \<Rightarrow> int \<times> string \<times> string" where
  "tp_key r = (tp_user_id r, tp_media_type r, tp_tmdb_id r)"

definition delete_title_preference ::
  "title_preference_row list \<Rightarrow> int \<Rightarrow> string \<Rightarrow> string \<Rightarrow> title_preference_row list" where
  "delete_title_preference t user_id media_type tmdb_id =
     delete_where (\<lambda>r. tp_key r = (user_id, normalize_title_preference_media_type media_type, tmdb_id)) t"

definition get_title_preference ::
  "title_preference_row list \<Rightarrow> int \<Rightarrow> string \<Rightarrow> string \<Rightarrow> int \<Rightarrow> (string \<times> string) option \<times> title_preference_row list" where
  "get_title_preference t user_id media_type tmdb_id now =
     (let media_type = normalize_title_preference_media_type media_type
      in case find_row tp_key (user_id, media_type, tmdb_id) t of
           None \<Rightarrow> (None, t)
         | Some r \<Rightarrow>
             if tp_updated_at r = 0 \<or> tp_updated_at r + TITLE_PREFERENCES_STALE_MS \<le> now
             then (None, delete_title_preference t user_id media_type tmdb_id)
             else (Some (normalize_preferred_audio_lang (tp_preferred_audio_lang r),
                         normalize_subtitle_preference (tp_preferred_subtitle_lang r)), t))"

definition merge_title_preference :: "title_preference_row \<Rightarrow> title_preference_row \<Rightarrow> title_preference_row" where
  "merge_title_preference old new =
     old\<lparr>tp_preferred_audio_lang :=
            (if tp_preferred_audio_lang new \<noteq> [] then tp_preferred_audio_lang new else tp_preferred_audio_lang old),
         tp_preferred_subtitle_lang :=
            (if tp_preferred_subtitle_lang new \<noteq> [] then tp_preferred_subtitle_lang new
             else tp_preferred_subtitle_lang old),
         tp_updated_at := tp_updated_at new\<rparr>"

definition persist_title_preference ::
  "cache_db \<Rightarrow> int \<Rightarrow> string \<Rightarrow> string \<Rightarrow> string \<Rightarrow> string \<Rightarrow> int \<Rightarrow> cache_db" where
  "persist_title_preference db user_id media_type tmdb_id audio_lang subtitle_lang now =
     (let audio = normalize_preferred_audio_lang audio_lang;
          new = \<lparr>tp_user_id = user_id, tp_media_type = normalize_title_preference_media_type media_type,
                 tp_tmdb_id = tmdb_id,
                 tp_preferred_audio_lang = (if audio = ''auto'' then [] else audio),
                 tp_preferred_subtitle_lang = normalize_subtitle_preference subtitle_lang,
                 tp_updated_at = now\<rparr>;
          db = db\<lparr>cd_titles := upsert tp_key merge_title_preference new (cd_titles db)\<rparr>
      in if audio \<noteq> ''auto'' then db\<lparr>cd_sessions := delete_auto_audio_sessions (cd_sessions db) user_id tmdb_id\<rparr>
         else db)"


section \<open>The whole database\<close>

definition clear_persistent_caches :: "cache_db \<Rightarrow> cache_db" where
  "clear_persistent_caches db =
     \<lparr>cd_tmdb = [], cd_home = None, cd_resolved = [], cd_quick_start = [], cd_probes = [], cd_titles = [],
      cd_sessions = [], cd_health = []\<rparr>"

definition persistent_counts :: "cache_db \<Rightarrow> cache_counts" where
  "persistent_counts db =
     \<lparr>tmdb_response_size = length (cd_tmdb db), playback_session_size = length (cd_sessions db),
      resolved_stream_size = length (cd_resolved db), movie_quick_start_size = length (cd_quick_start db),
      source_health_size = length (cd_health db), media_probe_size = length (cd_probes db),
      title_preference_size = length (cd_titles db)\<rparr>"

definition sweep_cache_db :: "cache_db \<Rightarrow> int \<Rightarrow> cache_db" where
  "sweep_cache_db db now =
     db\<lparr>cd_resolved := trim_table cr_updated_at RESOLVED_STREAM_PERSIST_MAX_ENTRIES
          (delete_where (\<lambda>r. cr_expires_at r \<le> now) (cd_resolved db)),
        cd_quick_start := trim_table cr_updated_at MOVIE_QUICK_START_PERSIST_MAX_ENTRIES
          (delete_where (\<lambda>r. cr_expires_at r \<le> now) (cd_quick_start db)),
        cd_tmdb := trim_table cr_updated_at TMDB_RESPONSE_PERSIST_MAX_ENTRIES
          (delete_where (\<lambda>r. cr_expires_at r \<le> now) (cd_tmdb db)),
        cd_sessions := sweep_playback_sessions (cd_sessions db) now,
        cd_health := delete_where (\<lambda>r. sh_updated_at r \<le> now - SOURCE_HEALTH_STALE_MS) (cd_health db),
        cd_probes := delete_where (\<lambda>r. pr_updated_at r \<le> now - MEDIA_PROBE_STALE_MS) (cd_probes db),
        cd_titles := delete_where (\<lambda>r. tp_updated_at r \<le> now - TITLE_PREFERENCES_STALE_MS) (cd_titles db)\<rparr>"

section \<open>The caches keep the contract\<close>

text \<open>What a table holds under a key, read through \<open>dec\<close>.\<close>

definition decoded :: "('r \<Rightarrow> string) \<Rightarrow> ('r \<Rightarrow> 'b option) \<Rightarrow> 'r list \<Rightarrow> string \<Rightarrow> 'b option" where
  "decoded key dec t k = (case find_row key k t of None \<Rightarrow> None | Some r \<Rightarrow> dec r)"

lemma find_row_trim:
  assumes "keyed key t"
  shows "find_row key k (trim_table ord m t) = find_row key k t \<or> find_row key k (trim_table ord m t) = None"
proof (cases "find_row key k (trim_table ord m t)")
  case (Some r)
  then have "r \<in> set t" and "key r = k"
    using find_row_SomeD [OF Some] trim_table_subset [of ord m t] by auto
  with assms have "find_row key k t = Some r" by (simp add: find_row_Some_iff)
  with Some show ?thesis by simp
qed simp

lemma decoded_trim:
  "keyed key t \<Longrightarrow> decoded key dec (trim_table ord m t) k = decoded key dec t k
     \<or> decoded key dec (trim_table ord m t) k = None"
  using find_row_trim [of key t k ord m] by (auto simp: decoded_def split: option.splits)

lemma decoded_delete:
  "keyed key t \<Longrightarrow> decoded key dec (delete_where P t) k = decoded key dec t k
     \<or> decoded key dec (delete_where P t) k = None"
  by (auto simp: decoded_def find_row_delete_where split: option.splits)

lemma decoded_sweep:
  assumes "keyed key t"
  shows "decoded key dec (trim_table ord m (delete_where P t)) k = decoded key dec t k
     \<or> decoded key dec (trim_table ord m (delete_where P t)) k = None"
  using decoded_trim [of key "delete_where P t" dec ord m k] decoded_delete [OF assms, of dec P k] assms by auto

lemma decoded_upsert:
  assumes "\<And>r. key (merge r new) = key r" and "\<And>r. dec (merge r new) = dec new"
  shows "decoded key dec (upsert key merge new t) k = (if k = key new then dec new else decoded key dec t k)"
  using assms by (auto simp: decoded_def find_row_upsert split: option.splits)

lemma decoded_put:
  assumes "keyed key t" and "\<And>r. key (merge r new) = key r" and "\<And>r. dec (merge r new) = dec new"
  shows "decoded key dec (trim_table ord m (upsert key merge new t)) k =
           (if k = key new then dec new else decoded key dec t k)
     \<or> decoded key dec (trim_table ord m (upsert key merge new t)) k = None"
  using decoded_trim [of key "upsert key merge new t" dec ord m k] assms
  by (auto simp: decoded_upsert [where merge = merge and new = new and key = key])

lemma keyed_put:
  "keyed key t \<Longrightarrow> (\<And>r. key (merge r new) = key r) \<Longrightarrow> keyed key (trim_table ord m (upsert key merge new t))"
  by (intro subseq_keyed_trim keyed_upsert)

lemmas cache_laws = decoded_put decoded_sweep decoded_delete keyed_put subseq_keyed_trim keyed_delete_where

lemma replace_keys [simp]:
  "cr_key (replace_cache_row old new) = cr_key old" "cr_key (replace_resolved_row old' new') = cr_key old'"
  by (simp_all add: replace_cache_row_def replace_resolved_row_def)

text \<open>What each kind of row yields to its reader, with the time it stops doing so.\<close>

definition tmdb_entry :: "json_parser \<Rightarrow> cache_row \<Rightarrow> ((json \<times> int) \<times> int) option" where
  "tmdb_entry parse r =
     (let p = parse_or_null parse (cr_payload_json r)
      in if p = JNull then None else Some ((p, cr_expires_at r), cr_expires_at r))"

definition quick_start_entry :: "json_parser \<Rightarrow> cache_row \<Rightarrow> ((json \<times> int) \<times> int) option" where
  "quick_start_entry parse r =
     (let p = parse_or_null parse (cr_payload_json r)
      in if p = JNull \<or> \<not> is_object p then None else Some ((p, max (cr_expires_at r) 0), cr_expires_at r))"

definition resolved_entry :: "json_parser \<Rightarrow> resolved_row \<Rightarrow> ((json \<times> int \<times> int) \<times> int) option" where
  "resolved_entry parse r =
     (let p = parse_or_null parse (cr_payload_json r)
      in if p = JNull \<or> \<not> is_object p then None
         else Some ((p, max (cr_expires_at r) 0, max (cr_next_validation_at r) 0), cr_expires_at r))"

definition probe_entry :: "json_parser \<Rightarrow> probe_row \<Rightarrow> (json \<times> int) option" where
  "probe_entry parse r =
     (let p = parse_or_null parse (pr_payload_json r)
      in if p = JNull \<or> \<not> is_object p \<or> pr_updated_at r = 0 then None else Some (p, pr_updated_at r + MEDIA_PROBE_STALE_MS))"

lemma entry_of_replaced [simp]:
  "tmdb_entry parse (replace_cache_row old new) = tmdb_entry parse new"
  "quick_start_entry parse (replace_cache_row old new) = quick_start_entry parse new"
  "resolved_entry parse (replace_resolved_row old' new') = resolved_entry parse new'"
  by (simp_all add: tmdb_entry_def quick_start_entry_def resolved_entry_def replace_cache_row_def
      replace_resolved_row_def Let_def)

definition sweep_rows :: "nat \<Rightarrow> ('a cache_row_scheme) list \<Rightarrow> int \<Rightarrow> ('a cache_row_scheme) list" where
  "sweep_rows m t now = trim_table cr_updated_at m (delete_where (\<lambda>r. cr_expires_at r \<le> now) t)"

lemma sweep_cache_db_rows:
  "cd_tmdb (sweep_cache_db db now) = sweep_rows TMDB_RESPONSE_PERSIST_MAX_ENTRIES (cd_tmdb db) now"
  "cd_resolved (sweep_cache_db db now) = sweep_rows RESOLVED_STREAM_PERSIST_MAX_ENTRIES (cd_resolved db) now"
  "cd_quick_start (sweep_cache_db db now) = sweep_rows MOVIE_QUICK_START_PERSIST_MAX_ENTRIES (cd_quick_start db) now"
  by (simp_all add: sweep_cache_db_def sweep_rows_def)


lemma put_this:
  assumes "keyed key t" and "key new = k" and "\<And>r. key (merge r new) = key r" and "\<And>r. dec (merge r new) = dec new"
  shows "decoded key dec (trim_table ord m (upsert key merge new t)) k = dec new
     \<or> decoded key dec (trim_table ord m (upsert key merge new t)) k = None"
  using decoded_put [where merge = merge and new = new and dec = dec and key = key and k = k, OF assms(1,3,4)] assms(2)
  by simp

lemma put_other:
  assumes "keyed key t" and "k \<noteq> key new" and "\<And>r. key (merge r new) = key r" and "\<And>r. dec (merge r new) = dec new"
  shows "decoded key dec (trim_table ord m (upsert key merge new t)) k = decoded key dec t k
     \<or> decoded key dec (trim_table ord m (upsert key merge new t)) k = None"
  using decoded_put [where merge = merge and new = new and dec = dec and key = key and k = k, OF assms(1,3,4)] assms(2)
  by simp



interpretation tmdb_cache: ttl_cache "keyed cr_key" "decoded cr_key (tmdb_entry parse)"
  "\<lambda>(payload, expires_at) now. tmdb_entry parse
     \<lparr>cr_key = [], cr_payload_json = print payload, cr_expires_at = expires_at, cr_updated_at = now\<rparr>"
  "get_tmdb_cache parse" "set_tmdb_cache print" "sweep_rows TMDB_RESPONSE_PERSIST_MAX_ENTRIES"
proof (unfold_locales, goal_cases)
  case (1 s k t)
  then show ?case
    by (auto simp: get_tmdb_cache_def decoded_def tmdb_entry_def Let_def split: option.splits)
next
  case (2 s k t k')
  then show ?case
    using decoded_delete [of cr_key s "tmdb_entry parse" "\<lambda>r. cr_key r = k" k']
    by (auto simp: get_tmdb_cache_def Let_def delete_key_def split: option.splits)
next
  case (3 s k a t)
  obtain payload expires_at where a: "a = (payload, expires_at)" by (cases a)
  have same: "tmdb_entry parse \<lparr>cr_key = [], cr_payload_json = print payload, cr_expires_at = expires_at, cr_updated_at = t\<rparr> =
      tmdb_entry parse \<lparr>cr_key = k, cr_payload_json = print payload, cr_expires_at = expires_at, cr_updated_at = t\<rparr>"
    by (simp add: tmdb_entry_def Let_def)
  show ?case
    unfolding set_tmdb_cache_def a prod.case same by (rule put_this) (use 3 in simp_all)
next
  case (4 s k' k a t)
  obtain payload expires_at where a: "a = (payload, expires_at)" by (cases a)
  show ?case
    unfolding set_tmdb_cache_def a prod.case by (rule put_other) (use 4 in simp_all)
next
  case (5 s t k)
  then show ?case unfolding sweep_rows_def by (rule decoded_sweep)
next
  case (6 s k t)
  then show ?case by (auto simp: get_tmdb_cache_def Let_def delete_key_def split: option.splits)
next
  case (7 s k a t)
  then show ?case by (auto simp: set_tmdb_cache_def intro: keyed_put split: prod.splits)
next
  case (8 s t)
  then show ?case unfolding sweep_rows_def by (intro subseq_keyed_trim keyed_delete_where)
qed

interpretation resolved_cache: ttl_cache "keyed cr_key" "decoded cr_key (resolved_entry parse)"
  "\<lambda>(payload, expires_at, next_validation_at) now. resolved_entry parse
     \<lparr>cr_key = [], cr_payload_json = print payload,
      cr_expires_at = max (max expires_at next_validation_at) (now + 1000), cr_updated_at = now,
      cr_next_validation_at = max next_validation_at 0\<rparr>"
  "get_resolved_stream_cache parse" "set_resolved_stream_cache print" "sweep_rows RESOLVED_STREAM_PERSIST_MAX_ENTRIES"
proof (unfold_locales, goal_cases)
  case (1 s k t)
  then show ?case
    by (auto simp: get_resolved_stream_cache_def decoded_def resolved_entry_def Let_def split: option.splits)
next
  case (2 s k t k')
  then show ?case
    using decoded_delete [of cr_key s "resolved_entry parse" "\<lambda>r. cr_key r = k" k']
    by (auto simp: get_resolved_stream_cache_def Let_def delete_key_def split: option.splits)
next
  case (3 s k a t)
  obtain payload expires_at next_validation_at where a: "a = (payload, expires_at, next_validation_at)" by (cases a rule: prod_cases3)
  have same: "resolved_entry parse \<lparr>cr_key = [], cr_payload_json = print payload,
      cr_expires_at = max (max expires_at next_validation_at) (t + 1000), cr_updated_at = t,
      cr_next_validation_at = max next_validation_at 0\<rparr> =
      resolved_entry parse \<lparr>cr_key = k, cr_payload_json = print payload,
      cr_expires_at = max (max expires_at next_validation_at) (t + 1000), cr_updated_at = t,
      cr_next_validation_at = max next_validation_at 0\<rparr>"
    by (simp add: resolved_entry_def Let_def)
  show ?case
    unfolding set_resolved_stream_cache_def a prod.case same by (rule put_this) (use 3 in simp_all)
next
  case (4 s k' k a t)
  obtain payload expires_at next_validation_at where a: "a = (payload, expires_at, next_validation_at)" by (cases a rule: prod_cases3)
  show ?case
    unfolding set_resolved_stream_cache_def a prod.case by (rule put_other) (use 4 in simp_all)
next
  case (5 s t k)
  then show ?case unfolding sweep_rows_def by (rule decoded_sweep)
next
  case (6 s k t)
  then show ?case by (auto simp: get_resolved_stream_cache_def Let_def delete_key_def split: option.splits)
next
  case (7 s k a t)
  then show ?case by (auto simp: set_resolved_stream_cache_def intro: keyed_put split: prod.splits)
next
  case (8 s t)
  then show ?case unfolding sweep_rows_def by (intro subseq_keyed_trim keyed_delete_where)
qed

interpretation quick_start_cache: ttl_cache "keyed cr_key" "decoded cr_key (quick_start_entry parse)"
  "\<lambda>(payload, expires_at) now. quick_start_entry parse
     \<lparr>cr_key = [], cr_payload_json = print payload, cr_expires_at = max expires_at (now + 1000), cr_updated_at = now\<rparr>"
  "get_movie_quick_start_cache parse" "set_movie_quick_start_cache print" "sweep_rows MOVIE_QUICK_START_PERSIST_MAX_ENTRIES"
proof (unfold_locales, goal_cases)
  case (1 s k t)
  then show ?case
    by (auto simp: get_movie_quick_start_cache_def decoded_def quick_start_entry_def Let_def split: option.splits)
next
  case (2 s k t k')
  then show ?case
    using decoded_delete [of cr_key s "quick_start_entry parse" "\<lambda>r. cr_key r = k" k']
    by (auto simp: get_movie_quick_start_cache_def Let_def delete_key_def split: option.splits)
next
  case (3 s k a t)
  obtain payload expires_at where a: "a = (payload, expires_at)" by (cases a)
  have same: "quick_start_entry parse \<lparr>cr_key = [], cr_payload_json = print payload, cr_expires_at = max expires_at (t + 1000), cr_updated_at = t\<rparr> =
      quick_start_entry parse \<lparr>cr_key = k, cr_payload_json = print payload, cr_expires_at = max expires_at (t + 1000), cr_updated_at = t\<rparr>"
    by (simp add: quick_start_entry_def Let_def)
  show ?case
    unfolding set_movie_quick_start_cache_def a prod.case same by (rule put_this) (use 3 in simp_all)
next
  case (4 s k' k a t)
  obtain payload expires_at where a: "a = (payload, expires_at)" by (cases a)
  show ?case
    unfolding set_movie_quick_start_cache_def a prod.case by (rule put_other) (use 4 in simp_all)
next
  case (5 s t k)
  then show ?case unfolding sweep_rows_def by (rule decoded_sweep)
next
  case (6 s k t)
  then show ?case by (auto simp: get_movie_quick_start_cache_def Let_def delete_key_def split: option.splits)
next
  case (7 s k a t)
  then show ?case by (auto simp: set_movie_quick_start_cache_def intro: keyed_put split: prod.splits)
next
  case (8 s t)
  then show ?case unfolding sweep_rows_def by (intro subseq_keyed_trim keyed_delete_where)
qed


interpretation probe_cache: ttl_cache "keyed pr_key" "decoded pr_key (probe_entry parse)"
  "\<lambda>payload now. probe_entry parse \<lparr>pr_key = [], pr_payload_json = print payload, pr_updated_at = now\<rparr>"
  "get_media_probe_cache parse" "set_media_probe_cache print"
  "\<lambda>t now. delete_where (\<lambda>r. pr_updated_at r \<le> now - MEDIA_PROBE_STALE_MS) t"
proof (unfold_locales, goal_cases)
  case (1 s k t)
  then show ?case
    by (auto simp: get_media_probe_cache_def decoded_def probe_entry_def Let_def split: option.splits)
next
  case (2 s k t k')
  then show ?case
    using decoded_delete [of pr_key s "probe_entry parse" "\<lambda>r. pr_key r = k" k']
    by (auto simp: get_media_probe_cache_def Let_def delete_key_def split: option.splits)
next
  case (3 s k a t)
  show ?case
    unfolding set_media_probe_cache_def by (subst decoded_upsert) (simp_all add: probe_entry_def Let_def)
next
  case (4 s k' k a t)
  then show ?case
    unfolding set_media_probe_cache_def by (subst decoded_upsert) (simp_all add: probe_entry_def Let_def)
next
  case (5 s t k)
  then show ?case by (rule decoded_delete)
next
  case (6 s k t)
  then show ?case by (auto simp: get_media_probe_cache_def Let_def delete_key_def split: option.splits)
next
  case (7 s k a t)
  then show ?case by (auto simp: set_media_probe_cache_def)
next
  case (8 s t)
  then show ?case by simp
qed

section \<open>Properties\<close>

lemma last_written_bind:
  "last_written live k ops (Option.bind old (\<lambda>(a, t). live a t)) =
     Option.bind (last_written (\<lambda>a t. Some (a, t)) k ops old) (\<lambda>(a, t). live a t)"
proof (induction ops arbitrary: old)
  case (Cons op ops)
  show ?case
  proof (cases op)
    case (Cache_put k' a t)
    then show ?thesis using Cons [of "if k' = k then Some (a, t) else old"] by (simp split: if_splits)
  qed (use Cons in simp_all)
qed simp

lemma last_written_put: "last_written (\<lambda>a t. Some (a, t)) k ops None = Some (a, t) \<Longrightarrow> Cache_put k a t \<in> set ops"
proof -
  have "last_written (\<lambda>a t. Some (a, t)) k ops old = Some (a, t) \<Longrightarrow> Cache_put k a t \<in> set ops \<or> old = Some (a, t)" for old
    by (induction ops arbitrary: old rule: list.induct) (force elim: last_written.elims split: cache_op.splits if_splits)+
  then show "last_written (\<lambda>a t. Some (a, t)) k ops None = Some (a, t) \<Longrightarrow> Cache_put k a t \<in> set ops" by blast
qed

text \<open>A history of the resolved-stream cache: writes, reads and the periodic sweep.\<close>

definition resolved_history ::
  "json_parser \<Rightarrow> (json \<Rightarrow> string) \<Rightarrow> (string, json \<times> int \<times> int) cache_op list \<Rightarrow> resolved_row list" where
  "resolved_history parse print ops =
     fold (\<lambda>op s. case op of
         Cache_put k a t \<Rightarrow> set_resolved_stream_cache print s k a t
       | Cache_get k t \<Rightarrow> snd (get_resolved_stream_cache parse s k t)
       | Cache_sweep t \<Rightarrow> sweep_rows RESOLVED_STREAM_PERSIST_MAX_ENTRIES s t) ops []"




definition cache_db_keyed :: "cache_db \<Rightarrow> bool" where
  "cache_db_keyed db \<longleftrightarrow> keyed cr_key (cd_tmdb db) \<and> keyed cr_key (cd_resolved db) \<and> keyed cr_key (cd_quick_start db)
     \<and> keyed pr_key (cd_probes db) \<and> keyed tp_key (cd_titles db) \<and> keyed sh_source_key (cd_health db)"

lemma trim_table_small: "length t \<le> m \<Longrightarrow> trim_table ord m t = t"
  by (simp add: trim_table_def)

lemma find_row_sweep:
  assumes "keyed cr_key t" and "length t \<le> m"
  shows "find_row cr_key k (sweep_rows m t now) =
    (case find_row cr_key k t of None \<Rightarrow> None | Some r \<Rightarrow> if cr_expires_at r \<le> now then None else Some r)"
proof -
  have "length (delete_where (\<lambda>r. cr_expires_at r \<le> now) t) \<le> m"
    using assms(2) length_filter_le [of _ t] unfolding delete_where_def by (rule order_trans [rotated])
  with assms(1) show ?thesis by (simp add: sweep_rows_def trim_table_small find_row_delete_where)
qed

lemma sweep_reads:
  assumes "cache_db_keyed db" and "now \<le> t"
  shows "fst (get_media_probe_cache parse (cd_probes (sweep_cache_db db now)) k t) = fst (get_media_probe_cache parse (cd_probes db) k t)"
    and "fst (get_source_health_stats k t (cd_health (sweep_cache_db db now))) = fst (get_source_health_stats k t (cd_health db))"
    and "fst (get_title_preference (cd_titles (sweep_cache_db db now)) u ty k t) = fst (get_title_preference (cd_titles db) u ty k t)"
    and "length (cd_tmdb db) \<le> TMDB_RESPONSE_PERSIST_MAX_ENTRIES \<Longrightarrow>
      fst (get_tmdb_cache parse (cd_tmdb (sweep_cache_db db now)) k t) = fst (get_tmdb_cache parse (cd_tmdb db) k t)"
    and "length (cd_resolved db) \<le> RESOLVED_STREAM_PERSIST_MAX_ENTRIES \<Longrightarrow>
      fst (get_resolved_stream_cache parse (cd_resolved (sweep_cache_db db now)) k t)
        = fst (get_resolved_stream_cache parse (cd_resolved db) k t)"
    and "length (cd_quick_start db) \<le> MOVIE_QUICK_START_PERSIST_MAX_ENTRIES \<Longrightarrow>
      fst (get_movie_quick_start_cache parse (cd_quick_start (sweep_cache_db db now)) k t)
        = fst (get_movie_quick_start_cache parse (cd_quick_start db) k t)"
  using assms
  by (auto simp: cache_db_keyed_def sweep_cache_db_rows find_row_sweep get_tmdb_cache_def get_resolved_stream_cache_def
      get_movie_quick_start_cache_def Let_def split: option.splits)
    (auto simp: sweep_cache_db_def get_media_probe_cache_def get_source_health_stats_def get_title_preference_def
      find_row_delete_where Let_def split: option.splits)



lemma normalize_title_type_range:
  "normalize_title_preference_media_type ty \<in> {''movie'', ''tv''}"
  by (simp add: normalize_title_preference_media_type_def)

lemma tp_key_merge [simp]: "tp_key (merge_title_preference old new) = tp_key old"
  by (simp add: merge_title_preference_def tp_key_def)

text \<open>
  what a viewer chooses for a title is what the next playback reads. Within the
  retention time an explicit choice of audio language is read back in its canonical form,
  no session with automatic audio is left to resume for this user and title, and other
  users and other titles read what they read before.
\<close>

theorem title_preference_read_back:
  assumes "normalize_preferred_audio_lang audio \<noteq> ''auto''" and "now \<noteq> 0" and "t < now + TITLE_PREFERENCES_STALE_MS"
  shows "(\<exists>subs. fst (get_title_preference (cd_titles (persist_title_preference db u ty tmdb audio sub now)) u ty tmdb t)
            = Some (normalize_preferred_audio_lang audio, subs))
    \<and> (\<forall>r \<in> set (cd_sessions (persist_title_preference db u ty tmdb audio sub now)).
         \<not> (sr_user_id r = u \<and> sr_tmdb_id r = tmdb \<and> sr_audio_lang r = ''auto''))
    \<and> ((u', normalize_title_preference_media_type ty', tmdb') \<noteq> (u, normalize_title_preference_media_type ty, tmdb) \<longrightarrow>
         fst (get_title_preference (cd_titles (persist_title_preference db u ty tmdb audio sub now)) u' ty' tmdb' t)
           = fst (get_title_preference (cd_titles db) u' ty' tmdb' t))"
proof -
  let ?a = "normalize_preferred_audio_lang audio"
  have ne: "?a \<noteq> []" using audio_lang_range [of audio] by auto
  let ?new = "\<lparr>tp_user_id = u, tp_media_type = normalize_title_preference_media_type ty, tp_tmdb_id = tmdb,
      tp_preferred_audio_lang = ?a, tp_preferred_subtitle_lang = normalize_subtitle_preference sub, tp_updated_at = now\<rparr>"
  have titles: "cd_titles (persist_title_preference db u ty tmdb audio sub now) = upsert tp_key merge_title_preference ?new (cd_titles db)"
    using assms(1) by (simp add: persist_title_preference_def Let_def)
  have key: "tp_key ?new = (u, normalize_title_preference_media_type ty, tmdb)" by (simp add: tp_key_def)
  have fr: "find_row tp_key k (upsert tp_key merge_title_preference ?new t') =
      (if k = tp_key ?new then (case find_row tp_key k t' of None \<Rightarrow> Some ?new | Some r \<Rightarrow> Some (merge_title_preference r ?new))
       else find_row tp_key k t')" for k t'
    by (rule find_row_upsert) simp
  have own: "find_row tp_key (u, normalize_title_preference_media_type ty, tmdb) (upsert tp_key merge_title_preference ?new (cd_titles db)) = Some r
     \<Longrightarrow> tp_preferred_audio_lang r = ?a \<and> tp_updated_at r = now" for r
    using ne by (auto simp: fr key merge_title_preference_def split: option.splits)
  have some: "find_row tp_key (u, normalize_title_preference_media_type ty, tmdb) (upsert tp_key merge_title_preference ?new (cd_titles db)) \<noteq> None"
    by (simp add: find_row_upsert key split: option.split)
  have 1: "\<exists>subs. fst (get_title_preference (upsert tp_key merge_title_preference ?new (cd_titles db)) u ty tmdb t) = Some (?a, subs)"
    using own some assms(2,3) by (auto simp: get_title_preference_def Let_def)
  have 2: "fst (get_title_preference (upsert tp_key merge_title_preference ?new (cd_titles db)) u' ty' tmdb' t)
      = fst (get_title_preference (cd_titles db) u' ty' tmdb' t)"
    if "(u', normalize_title_preference_media_type ty', tmdb') \<noteq> (u, normalize_title_preference_media_type ty, tmdb)"
  proof -
    have "find_row tp_key (u', normalize_title_preference_media_type ty', tmdb') (upsert tp_key merge_title_preference ?new (cd_titles db))
        = find_row tp_key (u', normalize_title_preference_media_type ty', tmdb') (cd_titles db)"
      using that unfolding fr key by (rule if_not_P)
    then show ?thesis by (simp add: get_title_preference_def Let_def split: option.split)
  qed
  have 3: "cd_sessions (persist_title_preference db u ty tmdb audio sub now) = delete_auto_audio_sessions (cd_sessions db) u tmdb"
    using assms(1) by (simp add: persist_title_preference_def Let_def)
  show ?thesis unfolding titles 3 using 1 2 by (simp add: delete_auto_audio_sessions_def)
qed

theorem title_preference_read_back_witness:
  "fst (get_title_preference (cd_titles (persist_title_preference (clear_persistent_caches \<lparr>cd_tmdb = [], cd_home = None,
      cd_resolved = [], cd_quick_start = [], cd_probes = [], cd_titles = [], cd_sessions = [], cd_health = []\<rparr>)
      7 ''tv'' ''42'' '' FR '' ''off'' 1000)) 7 ''tv'' ''42'' 2000) \<noteq> None"
proof -
  have "normalize_preferred_audio_lang '' FR '' \<noteq> ''auto''" by code_simp
  then show ?thesis
    using title_preference_read_back [of "'' FR ''" 1000 2000 "clear_persistent_caches \<lparr>cd_tmdb = [], cd_home = None,
      cd_resolved = [], cd_quick_start = [], cd_probes = [], cd_titles = [], cd_sessions = [], cd_health = []\<rparr>"
      7 "''tv''" "''42''" "''off''", THEN conjunct1]
    by (auto simp: TITLE_PREFERENCES_STALE_MS_def)
qed

end
