(* ===== verification/NetworkGuards.thy ===== *)
theory NetworkGuards
  imports ApiErrors
begin

text \<open>
  The two network boundaries of the server. \<open>src/egress_policy.rs\<close>: which addresses an
  outgoing provider request may connect to, and which hosts may use the operator's
  proxy. \<open>src/request_security.rs\<close>: which browser requests may change state. DNS and URL
  parsing (the \<open>url\<close> crate) are parameters. The theorems: a DNS answer is used only if
  every address of it lies outside the reserved blocks, given as prefixes; a state-changing
  request with a foreign \<open>Origin\<close> never reaches its handler.
\<close>

section \<open>Addresses\<close>

text \<open>The octets of an IPv4 address; the eight 16-bit segments of an IPv6 address.\<close>

datatype ip_addr = V4 nat nat nat nat | V6 "16 word list"

fun ip_wf :: "ip_addr \<Rightarrow> bool" where
  "ip_wf (V4 a b c d) \<longleftrightarrow> a < 256 \<and> b < 256 \<and> c < 256 \<and> d < 256"
| "ip_wf (V6 s) \<longleftrightarrow> length s = 8"

definition is_public_ipv4 :: "nat \<Rightarrow> nat \<Rightarrow> nat \<Rightarrow> bool" where
  "is_public_ipv4 a b c \<longleftrightarrow> \<not>
     (a = 0 \<or> a = 10 \<or> (a = 100 \<and> 64 \<le> b \<and> b \<le> 127) \<or> a = 127 \<or> (a = 169 \<and> b = 254) \<or>
      (a = 172 \<and> 16 \<le> b \<and> b \<le> 31) \<or> (a = 192 \<and> b = 0 \<and> c = 0) \<or> (a = 192 \<and> b = 0 \<and> c = 2) \<or>
      (a = 192 \<and> b = 168) \<or> (a = 198 \<and> 18 \<le> b \<and> b \<le> 19) \<or> (a = 198 \<and> b = 51 \<and> c = 100) \<or>
      (a = 203 \<and> b = 0 \<and> c = 113) \<or> (224 \<le> a \<and> a \<le> 255))"

text \<open>
  \<open>Ipv6Addr::to_ipv4\<close>: an IPv4-compatible or IPv4-mapped address, whose last two segments
  are the four octets.
\<close>

definition octets :: "16 word \<Rightarrow> nat \<times> nat" where
  "octets w = (unat w div 256, unat w mod 256)"

fun to_ipv4 :: "16 word list \<Rightarrow> (nat \<times> nat \<times> nat \<times> nat) option" where
  "to_ipv4 [s0, s1, s2, s3, s4, s5, s6, s7] =
     (if s0 = 0 \<and> s1 = 0 \<and> s2 = 0 \<and> s3 = 0 \<and> s4 = 0 \<and> (s5 = 0 \<or> s5 = 0xffff)
      then Some (fst (octets s6), snd (octets s6), fst (octets s7), snd (octets s7)) else None)"
| "to_ipv4 _ = None"

definition is_unspecified :: "16 word list \<Rightarrow> bool" where
  "is_unspecified s \<longleftrightarrow> s = replicate 8 0"

definition is_loopback :: "16 word list \<Rightarrow> bool" where
  "is_loopback s \<longleftrightarrow> s = replicate 7 0 @ [1]"

definition is_multicast :: "16 word list \<Rightarrow> bool" where
  "is_multicast s \<longleftrightarrow> and (s ! 0) 0xff00 = 0xff00"

definition is_unique_local :: "16 word list \<Rightarrow> bool" where
  "is_unique_local s \<longleftrightarrow> and (s ! 0) 0xfe00 = 0xfc00"

definition is_unicast_link_local :: "16 word list \<Rightarrow> bool" where
  "is_unicast_link_local s \<longleftrightarrow> and (s ! 0) 0xffc0 = 0xfe80"

definition is_public_ipv6 :: "16 word list \<Rightarrow> bool" where
  "is_public_ipv6 s =
     (case to_ipv4 s of
        Some (a, b, c, _) \<Rightarrow> is_public_ipv4 a b c
      | None \<Rightarrow>
          \<not> is_unspecified s \<and> \<not> is_loopback s \<and> \<not> is_multicast s \<and> \<not> is_unique_local s \<and>
          \<not> is_unicast_link_local s \<and> \<not> (s ! 0 = 0x2001 \<and> s ! 1 = 0x0db8) \<and> \<not> (s ! 0 = 0x2001 \<and> s ! 1 = 0x0002))"

fun is_public_ip :: "ip_addr \<Rightarrow> bool" where
  "is_public_ip (V4 a b c d) = is_public_ipv4 a b c"
| "is_public_ip (V6 s) = is_public_ipv6 s"

section \<open>Outgoing provider requests\<close>

definition validate_public_dns_answer :: "string \<Rightarrow> ip_addr list \<Rightarrow> string + unit" where
  "validate_public_dns_answer hostname addresses =
     (if addresses = [] \<or> list_ex (\<lambda>a. \<not> is_public_ip a) addresses
      then Inl (''provider DNS answer for '' @ hostname @ '' contained a non-public address'')
      else Inr ())"

text \<open>\<open>PublicDnsResolver::resolve\<close>: the addresses the client connects to are the ones that were checked.\<close>

definition resolve_public :: "(string \<Rightarrow> string + ip_addr list) \<Rightarrow> string \<Rightarrow> string + ip_addr list" where
  "resolve_public lookup_host hostname =
     (case lookup_host hostname of
        Inl e \<Rightarrow> Inl e
      | Inr resolved \<Rightarrow>
          (case validate_public_dns_answer hostname resolved of
             Inl e \<Rightarrow> Inl e
           | Inr _ \<Rightarrow> Inr resolved))"

definition TRUSTED_HOSTS :: "string list" where
  "TRUSTED_HOSTS =
     [''enc-dec.app'', ''gallic.aether.bar'', ''meridian.aether.bar'', ''streams.icefy.top'',
      ''snowhouse.lordflix.club'', ''addon-osvh.onrender.com'', ''player.videasy.net'', ''player.videasy.to'',
      ''vidlink.pro'', ''vidrock.net'', ''vixsrc.to'']"

definition trim_end_dots :: "string \<Rightarrow> string" where
  "trim_end_dots s = rev (dropWhile (\<lambda>c. c = CHR ''.'') (rev s))"

definition provider_proxy_is_allowed_host :: "string \<Rightarrow> bool" where
  "provider_proxy_is_allowed_host host \<longleftrightarrow> lower (trim_end_dots (trim host)) \<in> set TRUSTED_HOSTS"

subsection \<open>The reserved blocks\<close>

text \<open>
  The reference: prefixes in CIDR notation, over the address read as one number. The IPv4
  list is the special-purpose registry's blocks that are not globally reachable, with
  multicast and the former class E; the IPv6 list names the unspecified and the loopback
  address, multicast, unique-local, link-local, documentation and benchmarking.
\<close>

definition v4_number :: "nat \<Rightarrow> nat \<Rightarrow> nat \<Rightarrow> nat \<Rightarrow> nat" where
  "v4_number a b c d = ((a * 256 + b) * 256 + c) * 256 + d"

definition v4_block :: "nat \<Rightarrow> nat \<Rightarrow> nat \<Rightarrow> nat \<Rightarrow> nat \<Rightarrow> nat \<Rightarrow> bool" where
  "v4_block a b c d len n \<longleftrightarrow> n div 2 ^ (32 - len) = v4_number a b c d div 2 ^ (32 - len)"

definition reserved_v4 :: "nat \<Rightarrow> bool" where
  "reserved_v4 n \<longleftrightarrow>
     v4_block 0 0 0 0 8 n \<or> v4_block 10 0 0 0 8 n \<or> v4_block 100 64 0 0 10 n \<or> v4_block 127 0 0 0 8 n \<or>
     v4_block 169 254 0 0 16 n \<or> v4_block 172 16 0 0 12 n \<or> v4_block 192 0 0 0 24 n \<or> v4_block 192 0 2 0 24 n \<or>
     v4_block 192 168 0 0 16 n \<or> v4_block 198 18 0 0 15 n \<or> v4_block 198 51 100 0 24 n \<or>
     v4_block 203 0 113 0 24 n \<or> v4_block 224 0 0 0 4 n \<or> v4_block 240 0 0 0 4 n"

definition prefix16 :: "nat \<Rightarrow> nat \<Rightarrow> 16 word \<Rightarrow> bool" where
  "prefix16 base len w \<longleftrightarrow> unat w div 2 ^ (16 - len) = base div 2 ^ (16 - len)"

fun reserved :: "ip_addr \<Rightarrow> bool" where
  "reserved (V4 a b c d) = reserved_v4 (v4_number a b c d)"
| "reserved (V6 s) =
     (case to_ipv4 s of
        Some (a, b, c, d) \<Rightarrow> reserved_v4 (v4_number a b c d)
      | None \<Rightarrow> prefix16 0xff00 8 (s ! 0) \<or> prefix16 0xfc00 7 (s ! 0) \<or> prefix16 0xfe80 10 (s ! 0) \<or>
          (s ! 0 = 0x2001 \<and> s ! 1 = 0x0db8) \<or> (s ! 0 = 0x2001 \<and> s ! 1 = 0x0002))"

lemma v4_number_div:
  assumes "b < 256" and "c < 256" and "d < 256"
  shows "v4_number a b c d div 2 ^ 24 = a" and "v4_number a b c d div 2 ^ 16 = a * 256 + b"
    and "v4_number a b c d div 2 ^ 8 = (a * 256 + b) * 256 + c"
    and "v4_number a b c d div 2 ^ 22 = a * 4 + b div 64" and "v4_number a b c d div 2 ^ 20 = a * 16 + b div 16"
    and "v4_number a b c d div 2 ^ 17 = a * 128 + b div 2" and "v4_number a b c d div 2 ^ 28 = a div 16"
  using assms unfolding v4_number_def by simp_all

lemma pair_eq:
  fixes x y x' y' k :: nat
  assumes "y < k" and "y' < k"
  shows "x * k + y = x' * k + y' \<longleftrightarrow> x = x' \<and> y = y'"
proof
  assume e: "x * k + y = x' * k + y'"
  have "(x * k + y) div k = x" "(x' * k + y') div k = x'" "(x * k + y) mod k = y" "(x' * k + y') mod k = y'"
    using assms by simp_all
  with e show "x = x' \<and> y = y'" by metis
qed simp

lemma is_public_ipv4_iff:
  assumes "a < 256" and "b < 256" and "c < 256" and "d < 256"
  shows "is_public_ipv4 a b c \<longleftrightarrow> \<not> reserved_v4 (v4_number a b c d)"
proof -
  note div = v4_number_div [OF assms(2-4), of a]
  have exps: "(32 :: nat) - 8 = 24" "(32 :: nat) - 10 = 22" "(32 :: nat) - 16 = 16" "(32 :: nat) - 12 = 20"
    "(32 :: nat) - 24 = 8" "(32 :: nat) - 15 = 17" "(32 :: nat) - 4 = 28" by simp_all
  have base: "v4_number 0 0 0 0 div 2 ^ 24 = 0" "v4_number 10 0 0 0 div 2 ^ 24 = 10"
    "v4_number 100 64 0 0 div 2 ^ 22 = 401" "v4_number 127 0 0 0 div 2 ^ 24 = 127"
    "v4_number 169 254 0 0 div 2 ^ 16 = 43518" "v4_number 172 16 0 0 div 2 ^ 20 = 2753"
    "v4_number 192 0 0 0 div 2 ^ 8 = 12582912" "v4_number 192 0 2 0 div 2 ^ 8 = 12582914"
    "v4_number 192 168 0 0 div 2 ^ 16 = 49320" "v4_number 198 18 0 0 div 2 ^ 17 = 25353"
    "v4_number 198 51 100 0 div 2 ^ 8 = 12989284" "v4_number 203 0 113 0 div 2 ^ 8 = 13303921"
    "v4_number 224 0 0 0 div 2 ^ 28 = 14" "v4_number 240 0 0 0 div 2 ^ 28 = 15"
    by (simp_all add: v4_number_def)
  have b: "b div 64 < 4" "b div 16 < 16" "b div 2 < 128" using assms(2) by auto
  have "b div 64 = 1 \<longleftrightarrow> 64 \<le> b \<and> b \<le> 127" "b div 16 = 1 \<longleftrightarrow> 16 \<le> b \<and> b \<le> 31" "b div 2 = 9 \<longleftrightarrow> 18 \<le> b \<and> b \<le> 19"
    "a div 16 = 14 \<longleftrightarrow> 224 \<le> a \<and> a \<le> 239" "a div 16 = 15 \<longleftrightarrow> 240 \<le> a \<and> a \<le> 255"
    by linarith+
  note small = this
  have high: "a div 16 = 14 \<or> a div 16 = 15 \<longleftrightarrow> 224 \<le> a \<and> a \<le> 255"
    unfolding small(4,5) by auto
  have "a * 4 + b div 64 = 401 \<longleftrightarrow> a = 100 \<and> 64 \<le> b \<and> b \<le> 127"
    using pair_eq [of "b div 64" 4 1 a 100] b small(1) by simp
  moreover have "a * 16 + b div 16 = 2753 \<longleftrightarrow> a = 172 \<and> 16 \<le> b \<and> b \<le> 31"
    using pair_eq [of "b div 16" 16 1 a 172] b small(2) by simp
  moreover have "a * 128 + b div 2 = 25353 \<longleftrightarrow> a = 198 \<and> 18 \<le> b \<and> b \<le> 19"
    using pair_eq [of "b div 2" 128 9 a 198] b small(3) by simp
  moreover have "a * 256 + b = 43518 \<longleftrightarrow> a = 169 \<and> b = 254"
    using pair_eq [of b 256 254 a 169] assms(2) by simp
  moreover have "a * 256 + b = 49320 \<longleftrightarrow> a = 192 \<and> b = 168"
    using pair_eq [of b 256 168 a 192] assms(2) by simp
  moreover have "(a * 256 + b) * 256 + c = 12582912 \<longleftrightarrow> a = 192 \<and> b = 0 \<and> c = 0"
    using pair_eq [of c 256 0 "a * 256 + b" "192 * 256 + 0"] pair_eq [of b 256 0 a 192] assms(2,3) by simp
  moreover have "(a * 256 + b) * 256 + c = 12582914 \<longleftrightarrow> a = 192 \<and> b = 0 \<and> c = 2"
    using pair_eq [of c 256 2 "a * 256 + b" "192 * 256 + 0"] pair_eq [of b 256 0 a 192] assms(2,3) by simp
  moreover have "(a * 256 + b) * 256 + c = 12989284 \<longleftrightarrow> a = 198 \<and> b = 51 \<and> c = 100"
    using pair_eq [of c 256 100 "a * 256 + b" "198 * 256 + 51"] pair_eq [of b 256 51 a 198] assms(2,3) by simp
  moreover have "(a * 256 + b) * 256 + c = 13303921 \<longleftrightarrow> a = 203 \<and> b = 0 \<and> c = 113"
    using pair_eq [of c 256 113 "a * 256 + b" "203 * 256 + 0"] pair_eq [of b 256 0 a 203] assms(2,3) by simp
  ultimately show ?thesis
    unfolding is_public_ipv4_def reserved_v4_def v4_block_def exps base div by (simp only: high)
qed

lemma high_mask_iff:
  fixes w v :: "16 word"
  assumes "and v (not (mask n)) = v"
  shows "and w (not (mask n)) = v \<longleftrightarrow> unat w div 2 ^ n = unat v div 2 ^ n"
proof -
  have drop: "drop_bit n (and x (not (mask n))) = drop_bit n x" for x :: "16 word"
    by (rule bit_word_eqI) (auto simp: bit_simps dest: bit_imp_le_length)
  have push: "push_bit n (drop_bit n x) = and x (not (mask n))" for x :: "16 word"
    by (rule bit_word_eqI) (auto simp: bit_simps)
  have "and w (not (mask n)) = v \<longleftrightarrow> drop_bit n w = drop_bit n v"
    by (metis assms drop push)
  also have "\<dots> \<longleftrightarrow> unat w div 2 ^ n = unat v div 2 ^ n"
    unfolding word_unat_eq_iff unat_drop_bit_eq unfolding drop_bit_eq_div by (rule refl)
  finally show ?thesis .
qed

lemma v6_masks:
  fixes w :: "16 word"
  shows "and w 0xff00 = 0xff00 \<longleftrightarrow> prefix16 0xff00 8 w"
    and "and w 0xfe00 = 0xfc00 \<longleftrightarrow> prefix16 0xfc00 7 w"
    and "and w 0xffc0 = 0xfe80 \<longleftrightarrow> prefix16 0xfe80 10 w"
proof -
  have m: "not (mask 8) = (0xff00 :: 16 word)" "not (mask 9) = (0xfe00 :: 16 word)" "not (mask 6) = (0xffc0 :: 16 word)"
    by code_simp+
  show "and w 0xff00 = 0xff00 \<longleftrightarrow> prefix16 0xff00 8 w"
    using high_mask_iff [where v = "0xff00" and n = 8 and w = w] by (simp add: m prefix16_def)
  show "and w 0xfe00 = 0xfc00 \<longleftrightarrow> prefix16 0xfc00 7 w"
    using high_mask_iff [where v = "0xfc00" and n = 9 and w = w] by (simp add: m prefix16_def)
  show "and w 0xffc0 = 0xfe80 \<longleftrightarrow> prefix16 0xfe80 10 w"
    using high_mask_iff [where v = "0xfe80" and n = 6 and w = w] by (simp add: m prefix16_def)
qed

lemma to_ipv4_wf: "to_ipv4 s = Some (a, b, c, d) \<Longrightarrow> a < 256 \<and> b < 256 \<and> c < 256 \<and> d < 256"
proof (induction s rule: to_ipv4.induct)
  case (1 s0 s1 s2 s3 s4 s5 s6 s7)
  have "unat w div 256 < 256" for w :: "16 word"
    using unsigned_less [of w, where ?'a = nat] by (simp add: less_mult_imp_div_less)
  with 1 show ?case by (auto simp: octets_def split: if_splits)
qed auto

lemma is_public_ip_iff: "ip_wf a \<Longrightarrow> is_public_ip a \<longleftrightarrow> \<not> reserved a"
proof (cases a)
  case (V6 s)
  assume "ip_wf a"
  then have len: "length s = 8" by (simp add: V6)
  show ?thesis
  proof (cases "to_ipv4 s")
    case None
    then have "\<not> is_unspecified s" "\<not> is_loopback s"
      by (auto simp: is_unspecified_def is_loopback_def numeral_eq_Suc)
    with None show ?thesis
      by (auto simp: V6 is_public_ipv6_def is_multicast_def is_unique_local_def is_unicast_link_local_def v6_masks)
  next
    case (Some q)
    then show ?thesis
      using to_ipv4_wf [of s] by (cases q) (auto simp: V6 is_public_ipv6_def is_public_ipv4_iff)
  qed
qed (auto simp: is_public_ipv4_iff)



text \<open>Blocks that embed IPv4 addresses in another way are not looked into: NAT64 and 6to4 here.\<close>

lemma translated_loopback_is_public:
  "is_public_ip (V6 [0x64, 0xff9b, 0, 0, 0, 0, 0x7f00, 1])" "is_public_ip (V6 [0x2002, 0x7f00, 1, 0, 0, 0, 0, 1])"
  by code_simp+


section \<open>Browser requests\<close>

text \<open>What \<open>url::Url\<close> gives of a parsed address; the port is \<open>port_or_known_default\<close>.\<close>

record url =
  url_scheme :: string
  url_username :: string
  url_password :: "string option"
  url_host :: "string option"
  url_port :: "nat option"

type_synonym url_parser = "string \<Rightarrow> url option"

text \<open>The first value of each header, by lower-case name; only a value of visible ASCII reads as text.\<close>

type_synonym header_map = "(string \<times> string) list"

definition visible_ascii :: "char \<Rightarrow> bool" where
  "visible_ascii c \<longleftrightarrow> c = CHR 0x09 \<or> (32 \<le> (of_char c :: nat) \<and> (of_char c :: nat) \<le> 126)"

definition header_str :: "header_map \<Rightarrow> string \<Rightarrow> string option" where
  "header_str headers name =
     (case map_of headers name of
        None \<Rightarrow> None
      | Some v \<Rightarrow> if list_all visible_ascii v then Some v else None)"

definition is_safe_method :: "string \<Rightarrow> bool" where
  "is_safe_method m \<longleftrightarrow> m \<in> {''GET'', ''HEAD'', ''OPTIONS''}"

definition normalized_authority :: "url_parser \<Rightarrow> string \<Rightarrow> string option" where
  "normalized_authority parse_url value =
     (case parse_url value of
        None \<Rightarrow> None
      | Some url \<Rightarrow>
          if url_scheme url \<notin> {''http'', ''https''} \<or> url_username url \<noteq> [] \<or> url_password url \<noteq> None then None
          else case url_host url of
            None \<Rightarrow> None
          | Some host \<Rightarrow>
              (case url_port url of
                 None \<Rightarrow> None
               | Some port \<Rightarrow> Some (lower (trim_end_dots host) @ '':'' @ show_nat port)))"

definition forwarded_proto :: "header_map \<Rightarrow> string option" where
  "forwarded_proto headers =
     (case header_str headers ''x-forwarded-proto'' of
        None \<Rightarrow> None
      | Some v \<Rightarrow> (let p = trim (hd (split_on CHR '','' v)) in if p \<in> {''http'', ''https''} then Some p else None))"

definition host_header_authorities :: "url_parser \<Rightarrow> header_map \<Rightarrow> string list" where
  "host_header_authorities parse_url headers =
     (case map_option trim (header_str headers ''host'') of
        None \<Rightarrow> []
      | Some host \<Rightarrow>
          if host = [] then []
          else let schemes = (case forwarded_proto headers of None \<Rightarrow> [] | Some p \<Rightarrow> [p]) @ [''https'', ''http'']
               in List.map_filter (\<lambda>scheme. normalized_authority parse_url (scheme @ ''://'' @ host)) schemes)"

definition browser_mutation_is_trusted :: "url_parser \<Rightarrow> string \<Rightarrow> header_map \<Rightarrow> string \<Rightarrow> bool" where
  "browser_mutation_is_trusted parse_url m headers app_origin =
     (if is_safe_method m then True
      else if (case header_str headers ''sec-fetch-site'' of None \<Rightarrow> False | Some v \<Rightarrow> lower v = ''cross-site'') then False
      else case map_option trim (header_str headers ''origin'') of
        None \<Rightarrow> True
      | Some origin \<Rightarrow>
          (case normalized_authority parse_url origin of
             None \<Rightarrow> False
           | Some authority \<Rightarrow>
               normalized_authority parse_url app_origin = Some authority \<or>
               authority \<in> set (host_header_authorities parse_url headers)))"

text \<open>The middleware: a refused request is answered here and the handler is not run.\<close>

definition csrf_guard_middleware ::
  "url_parser \<Rightarrow> string \<Rightarrow> string \<Rightarrow> header_map \<Rightarrow> ('s \<Rightarrow> 'r \<times> 's) \<Rightarrow> 's \<Rightarrow> (api_error + 'r) \<times> 's" where
  "csrf_guard_middleware parse_url app_origin m headers run s =
     (if \<not> browser_mutation_is_trusted parse_url m headers app_origin
      then (Inl (forbidden ''Cross-site mutation rejected.''), s)
      else let (r, s') = run s in (Inr r, s'))"

lemma in_map_filter: "y \<in> set (List.map_filter f xs) \<longleftrightarrow> (\<exists>x \<in> set xs. f x = Some y)"
  by (induction xs) (auto simp: List.map_filter_def)

lemma host_header_authorities_mem:
  assumes "a \<in> set (host_header_authorities parse_url headers)"
  shows "\<exists>scheme host. scheme \<in> {''https'', ''http''} \<and> header_str headers ''host'' = Some host \<and> trim host \<noteq> [] \<and>
    normalized_authority parse_url (scheme @ ''://'' @ trim host) = Some a"
proof -
  obtain host where host: "header_str headers ''host'' = Some host" "trim host \<noteq> []"
    using assms by (cases "header_str headers ''host''") (auto simp: host_header_authorities_def split: if_splits)
  then obtain scheme where "scheme \<in> set ((case forwarded_proto headers of None \<Rightarrow> [] | Some p \<Rightarrow> [p]) @ [''https'', ''http''])"
    and a: "normalized_authority parse_url (scheme @ ''://'' @ trim host) = Some a"
    using assms by (auto simp: host_header_authorities_def Let_def in_map_filter simp del: set_append)
  then have "scheme \<in> {''https'', ''http''}"
    by (auto simp: forwarded_proto_def Let_def split: option.splits if_splits)
  with host a show ?thesis by blast
qed

text \<open>
  A foreign page cannot change state. If a request that is not GET, HEAD or OPTIONS
  changes the state at all, it was not marked cross-site, and if it names an \<open>Origin\<close>, that
  origin's host and port are those of the configured application or of the request's own
  \<open>Host\<close> header.
\<close>

theorem cross_site_mutation_rejected:
  assumes "snd (csrf_guard_middleware parse_url app_origin m headers run s) \<noteq> s"
    and "\<not> is_safe_method m"
  shows "(\<forall>v. header_str headers ''sec-fetch-site'' = Some v \<longrightarrow> lower v \<noteq> ''cross-site'') \<and>
    (\<forall>origin. header_str headers ''origin'' = Some origin \<longrightarrow>
      (\<exists>authority. normalized_authority parse_url (trim origin) = Some authority \<and>
         (normalized_authority parse_url app_origin = Some authority \<or>
          (\<exists>scheme host. scheme \<in> {''https'', ''http''} \<and> header_str headers ''host'' = Some host \<and> trim host \<noteq> [] \<and>
             normalized_authority parse_url (scheme @ ''://'' @ trim host) = Some authority))))"
proof -
  have "browser_mutation_is_trusted parse_url m headers app_origin"
    using assms(1) by (auto simp: csrf_guard_middleware_def split: if_splits)
  then show ?thesis
    using assms(2) by (auto simp: browser_mutation_is_trusted_def split: option.splits if_splits
        dest!: host_header_authorities_mem)
qed

definition sample_parse_url :: url_parser where
  "sample_parse_url s =
     (if s = ''https://app.example'' \<or> s = ''http://app.example''
      then Some \<lparr>url_scheme = takeWhile (\<lambda>c. c \<noteq> CHR '':'') s, url_username = [], url_password = None,
                 url_host = Some ''app.example'', url_port = Some (if starts_with s ''https'' then 443 else 80)\<rparr>
      else None)"

theorem cross_site_mutation_rejected_witness:
  "normalized_authority sample_parse_url ''https://app.example'' = Some ''app.example:443'' \<and>
   snd (csrf_guard_middleware sample_parse_url ''https://app.example'' ''POST'' [(''origin'', ''https://evil.example'')]
     (\<lambda>n. ((), n + 1)) (0 :: nat)) = 0"
proof -
  have u: "\<not> is_safe_method ''POST''" "header_str [(''origin'', ''https://evil.example'')] ''origin'' = Some ''https://evil.example''"
    "normalized_authority sample_parse_url (trim ''https://evil.example'') = None"
    "normalized_authority sample_parse_url ''https://app.example'' = Some ''app.example:443''"
    by code_simp+
  have "\<not> snd (csrf_guard_middleware sample_parse_url ''https://app.example'' ''POST'' [(''origin'', ''https://evil.example'')]
     (\<lambda>n. ((), n + 1)) (0 :: nat)) \<noteq> 0"
    using cross_site_mutation_rejected [of sample_parse_url "''https://app.example''" "''POST''" "[(''origin'', ''https://evil.example'')]"
        "\<lambda>n. ((), n + 1)" 0] u by (auto simp del: One_nat_def)
  with u show ?thesis by simp
qed

end
