(* ===== verification/UserPrefs.thy ===== *)
theory UserPrefs
  imports ApiErrors PlaybackSessions
begin

text \<open>
  \<open>src/persistence/user_preferences.rs\<close> and the provider tables of \<open>src/persistence.rs\<close>:
  the settings of each user, the transaction in which a credential and its switch change
  together, the compare-and-replace of the key rotation, and the provider overrides an
  administrator sets.
\<close>

section \<open>Preferences\<close>

record pref_row =
  up_user_id :: int
  up_pref_key :: string
  up_pref_value :: string
  up_updated_at :: int

definition up_key :: "pref_row \<Rightarrow> int \<times> string" where
  "up_key r = (up_user_id r, up_pref_key r)"

definition set_pref :: "int \<Rightarrow> string \<Rightarrow> string \<Rightarrow> int \<Rightarrow> pref_row list \<Rightarrow> pref_row list" where
  "set_pref user_id key val now t =
     upsert up_key (\<lambda>old new. old\<lparr>up_pref_value := up_pref_value new, up_updated_at := up_updated_at new\<rparr>)
       \<lparr>up_user_id = user_id, up_pref_key = key, up_pref_value = val, up_updated_at = now\<rparr> t"

definition unset_pref :: "int \<Rightarrow> string \<Rightarrow> pref_row list \<Rightarrow> pref_row list" where
  "unset_pref user_id key t = delete_where (\<lambda>r. up_key r = (user_id, key)) t"

definition get_user_preferences :: "pref_row list \<Rightarrow> int \<Rightarrow> (string \<times> string) list" where
  "get_user_preferences t user_id =
     map (\<lambda>r. (up_pref_key r, up_pref_value r)) (filter (\<lambda>r. up_user_id r = user_id) t)"

definition get_user_preference :: "pref_row list \<Rightarrow> int \<Rightarrow> string \<Rightarrow> string option" where
  "get_user_preference t user_id pref_key = map_option up_pref_value (find_row up_key (user_id, pref_key) t)"

definition get_user_preferences_by_key :: "pref_row list \<Rightarrow> string \<Rightarrow> (int \<times> string) list" where
  "get_user_preferences_by_key t pref_key =
     map (\<lambda>r. (up_user_id r, up_pref_value r)) (filter (\<lambda>r. up_pref_key r = pref_key) t)"

definition upsert_user_preferences :: "pref_row list \<Rightarrow> int \<Rightarrow> (string \<times> string) list \<Rightarrow> int \<Rightarrow> pref_row list" where
  "upsert_user_preferences t user_id entries now = fold (\<lambda>(key, val). set_pref user_id key val now) entries t"

fun pref_change :: "int \<Rightarrow> int \<Rightarrow> string \<times> string option \<Rightarrow> pref_row list \<Rightarrow> pref_row list" where
  "pref_change user_id now (key, Some val) t = set_pref user_id key val now t"
| "pref_change user_id now (key, None) t = unset_pref user_id key t"

text \<open>The dropped transaction leaves the table as it was.\<close>

definition apply_preference_changes_with_required_token ::
  "pref_row list \<Rightarrow> int \<Rightarrow> (string \<times> string option) list \<Rightarrow> string \<Rightarrow> string \<Rightarrow> int \<Rightarrow> bool \<times> pref_row list" where
  "apply_preference_changes_with_required_token t user_id changes token_key enabled_key now =
     (let tx = fold (pref_change user_id now) changes t;
          enabled = (case get_user_preference tx user_id enabled_key of
                       None \<Rightarrow> False | Some v \<Rightarrow> trim v \<in> {''1'', ''true'', ''yes'', ''on''});
          token_exists = find_row up_key (user_id, token_key) tx \<noteq> None
      in if enabled \<and> \<not> token_exists then (False, t) else (True, tx))"

definition apply_real_debrid_preference_changes ::
  "pref_row list \<Rightarrow> int \<Rightarrow> (string \<times> string option) list \<Rightarrow> string \<Rightarrow> string \<Rightarrow> int \<Rightarrow> unit app_result \<times> pref_row list" where
  "apply_real_debrid_preference_changes t user_id changes token_key enabled_key now =
     (if changes = [] then (Inr (), t)
      else let (invariant_satisfied, t') =
             apply_preference_changes_with_required_token t user_id changes token_key enabled_key now
           in if \<not> invariant_satisfied
              then (Inl (failed_dependency ''Add a Real-Debrid API token before enabling cached streaming.''), t')
              else (Inr (), t'))"

text \<open>One \<open>UPDATE\<close> per entry; the first that does not change exactly one row ends the loop.\<close>

fun replace_loop :: "string \<Rightarrow> int \<Rightarrow> (int \<times> string \<times> string) list \<Rightarrow> pref_row list \<Rightarrow> bool \<times> pref_row list" where
  "replace_loop pref_key now [] t = (True, t)"
| "replace_loop pref_key now ((user_id, expected, replacement) # entries) t =
     (let P = (\<lambda>r. up_key r = (user_id, pref_key) \<and> up_pref_value r = expected);
          t' = update_where P (\<lambda>r. r\<lparr>up_pref_value := replacement, up_updated_at := now\<rparr>) t
      in if count_where P t \<noteq> 1 then (False, t') else replace_loop pref_key now entries t')"

definition replace_user_preferences_if_unchanged ::
  "pref_row list \<Rightarrow> string \<Rightarrow> (int \<times> string \<times> string) list \<Rightarrow> int \<Rightarrow> unit app_result \<times> pref_row list" where
  "replace_user_preferences_if_unchanged t pref_key entries now =
     (if entries = [] then (Inr (), t)
      else let (all_replaced, tx) = replace_loop pref_key now entries t
           in if \<not> all_replaced
              then (Inl (internal
                ''A stored Real-Debrid token changed during encryption migration; restart to retry safely.''), t)
              else (Inr (), tx))"

definition delete_real_debrid_playback_sessions_for_user :: "session_row list \<Rightarrow> int \<Rightarrow> session_row list" where
  "delete_real_debrid_playback_sessions_for_user t user_id =
     delete_where (\<lambda>r. sr_user_id r = user_id \<and>
       sql_like (''real-debrid:user:'' @ show_int (max user_id 0) @ '':%'') (sr_session_key r)) t"

section \<open>Providers\<close>

record override_row =
  po_provider_key :: string
  po_override_value :: string
  po_updated_at :: int

definition get_provider_overrides :: "override_row list \<Rightarrow> (string \<times> string) list" where
  "get_provider_overrides t = map (\<lambda>r. (po_provider_key r, po_override_value r)) t"

definition set_provider_override :: "override_row list \<Rightarrow> string \<Rightarrow> string \<Rightarrow> int \<Rightarrow> override_row list" where
  "set_provider_override t key val now =
     upsert po_provider_key
       (\<lambda>old new. old\<lparr>po_override_value := po_override_value new, po_updated_at := po_updated_at new\<rparr>)
       \<lparr>po_provider_key = key, po_override_value = val, po_updated_at = now\<rparr> t"

definition delete_provider_override :: "override_row list \<Rightarrow> string \<Rightarrow> override_row list" where
  "delete_provider_override t key = delete_where (\<lambda>r. po_provider_key r = key) t"

section \<open>Lookups\<close>

lemma up_key_update [simp]: "up_key (r\<lparr>up_pref_value := v, up_updated_at := n\<rparr>) = up_key r"
  by (simp add: up_key_def)

lemma up_key_make [simp]:
  "up_key \<lparr>up_user_id = u, up_pref_key = k, up_pref_value = v, up_updated_at = n\<rparr> = (u, k)"
  by (simp add: up_key_def)

lemma keyed_set_pref [simp]: "keyed up_key t \<Longrightarrow> keyed up_key (set_pref u k v now t)"
  by (simp add: set_pref_def)

lemma keyed_unset_pref [simp]: "keyed up_key t \<Longrightarrow> keyed up_key (unset_pref u k t)"
  by (simp add: unset_pref_def)

lemma get_set_pref [simp]:
  "get_user_preference (set_pref u k v now t) u' k' = (if (u', k') = (u, k) then Some v else get_user_preference t u' k')"
  by (simp add: get_user_preference_def set_pref_def find_row_upsert split: option.split)

lemma get_unset_pref [simp]:
  "get_user_preference (unset_pref u k t) u' k' = (if (u', k') = (u, k) then None else get_user_preference t u' k')"
  by (simp add: get_user_preference_def unset_pref_def)

lemma keyed_pref_change [simp]: "keyed up_key t \<Longrightarrow> keyed up_key (pref_change u now c t)"
  by (cases "(u, now, c, t)" rule: pref_change.cases) simp_all

lemma keyed_pref_changes [simp]: "keyed up_key t \<Longrightarrow> keyed up_key (fold (pref_change u now) cs t)"
  by (induction cs arbitrary: t) simp_all

lemma keyed_upsert_prefs [simp]: "keyed up_key t \<Longrightarrow> keyed up_key (upsert_user_preferences t u es now)"
  unfolding upsert_user_preferences_def by (induction es arbitrary: t) auto

lemma get_upsert_prefs_other:
  "u' \<noteq> u \<or> k' \<notin> fst ` set es \<Longrightarrow> get_user_preference (upsert_user_preferences t u es now) u' k' = get_user_preference t u' k'"
  unfolding upsert_user_preferences_def by (induction es arbitrary: t) auto

lemma get_pref_changes:
  "get_user_preference (fold (pref_change u now) cs t) u' k' =
     (if u' = u then (case map_of (rev cs) k' of None \<Rightarrow> get_user_preference t u' k' | Some v \<Rightarrow> v)
      else get_user_preference t u' k')"
proof (induction cs arbitrary: t)
  case (Cons c cs)
  obtain k v where c: "c = (k, v)" by (cases c)
  show ?case
    unfolding c by (cases v) (auto simp: Cons.IH map_add_def split: option.splits)
qed simp

lemma find_row_pref: "find_row up_key (u, k) t = None \<longleftrightarrow> get_user_preference t u k = None"
  by (simp add: get_user_preference_def)

text \<open>
  The transaction commits only what leaves the switch off or the credential in place,
  and touches the calling user's rows only.
\<close>

lemma apply_changes_spec:
  assumes "apply_preference_changes_with_required_token t u cs token_key enabled_key now = (ok, t')"
  shows "ok \<Longrightarrow> t' = fold (pref_change u now) cs t"
    and "ok \<Longrightarrow> get_user_preference t' u enabled_key = Some v \<Longrightarrow> trim v \<in> {''1'', ''true'', ''yes'', ''on''}
      \<Longrightarrow> get_user_preference t' u token_key \<noteq> None"
    and "\<not> ok \<Longrightarrow> t' = t"
  using assms by (auto simp: apply_preference_changes_with_required_token_def Let_def find_row_pref split: if_splits)

lemma count_where_pref:
  assumes "keyed up_key t"
  shows "count_where (\<lambda>r. up_key r = (u, k) \<and> up_pref_value r = e) t = 1 \<longleftrightarrow> get_user_preference t u k = Some e"
  using count_where_key [OF assms, of "(u, k)" "\<lambda>r. up_pref_value r = e"]
  by (auto simp: get_user_preference_def split: option.splits)

lemma get_update_pref:
  assumes "keyed up_key t"
  shows "get_user_preference (update_where (\<lambda>r. up_key r = (u, k) \<and> up_pref_value r = e)
      (\<lambda>r. r\<lparr>up_pref_value := v, up_updated_at := now\<rparr>) t) u' k' =
    (if (u', k') = (u, k) \<and> get_user_preference t u k = Some e then Some v else get_user_preference t u' k')"
proof (cases "find_row up_key (u', k') t")
  case (Some r)
  then have "up_key r = (u', k')" by (auto dest: find_row_SomeD)
  with Some show ?thesis by (auto simp: get_user_preference_def find_row_update_where)
qed (auto simp: get_user_preference_def find_row_update_where)

lemma replace_loop_spec:
  assumes "keyed up_key t" and "distinct (map fst es)" and "\<forall>(u, e, v) \<in> set es. get_user_preference t u k = Some e"
  shows "fst (replace_loop k now es t) \<and> keyed up_key (snd (replace_loop k now es t)) \<and>
    (\<forall>u' k'. get_user_preference (snd (replace_loop k now es t)) u' k' =
      (if k' = k then (case map_of es u' of None \<Rightarrow> get_user_preference t u' k' | Some (_, v) \<Rightarrow> Some v)
       else get_user_preference t u' k'))"
  using assms
proof (induction es arbitrary: t)
  case (Cons x es)
  obtain u e v where x: "x = (u, e, v)" by (cases x)
  let ?t = "update_where (\<lambda>r. up_key r = (u, k) \<and> up_pref_value r = e) (\<lambda>r. r\<lparr>up_pref_value := v, up_updated_at := now\<rparr>) t"
  have e: "get_user_preference t u k = Some e" using Cons.prems(3) x by auto
  have get: "get_user_preference ?t u' k' = (if (u', k') = (u, k) then Some v else get_user_preference t u' k')" for u' k'
    using get_update_pref [OF Cons.prems(1), where u = u and k = k and e = e and v = v and now = now and u' = u' and k' = k'] e by auto
  have "keyed up_key ?t" using Cons.prems(1) by simp
  moreover have "\<forall>(u', e', v') \<in> set es. get_user_preference ?t u' k = Some e'"
    using Cons.prems(2,3) x get by force
  ultimately have IH: "fst (replace_loop k now es ?t) \<and> keyed up_key (snd (replace_loop k now es ?t)) \<and>
    (\<forall>u' k'. get_user_preference (snd (replace_loop k now es ?t)) u' k' =
      (if k' = k then (case map_of es u' of None \<Rightarrow> get_user_preference ?t u' k' | Some (_, v) \<Rightarrow> Some v)
       else get_user_preference ?t u' k'))"
    using Cons.IH Cons.prems(2) by simp
  have "map_of es u = None" using Cons.prems(2) x by (auto simp: map_of_eq_None_iff)
  moreover have "replace_loop k now (x # es) t = replace_loop k now es ?t"
    using count_where_pref [OF Cons.prems(1), of u k e] e by (simp add: x Let_def)
  ultimately show ?case using IH by (auto simp: get x split: option.split)
qed simp

end
