(* ===== verification/SecretStore.thy ===== *)
theory SecretStore
  imports UserPrefs
begin

text \<open>
  \<open>src/secret_store.rs\<close>: the stored Real-Debrid token of each user is an authenticated
  envelope under a ring of operator keys, the first of which writes. AES-GCM and base64url
  are crates and stay parameters; what the code relies on of them is \<open>crypto_ok\<close>. The
  theorems: an envelope decrypts to what was stored, also after the ring was rotated; the
  data authenticated beside it names one user and one key; and the start-up migration
  either changes nothing or leaves every token readable under the active key.
\<close>

section \<open>Keys\<close>

record crypto_env =
  ce_encode :: "string \<Rightarrow> string"
  ce_decode :: "string \<Rightarrow> string option"
  ce_encrypt :: "string \<Rightarrow> string \<Rightarrow> string \<Rightarrow> string \<Rightarrow> string option"
  ce_decrypt :: "string \<Rightarrow> string \<Rightarrow> string \<Rightarrow> string \<Rightarrow> string option"

record token_cipher =
  tc_active_key_id :: "string option"
  tc_keys :: "string \<rightharpoonup> string"

definition REAL_DEBRID_TOKEN_PREF_KEY :: string where
  "REAL_DEBRID_TOKEN_PREF_KEY = ''streamarena-real-debrid-api-key''"

definition KEYS_ENV_NAME :: string where "KEYS_ENV_NAME = ''REAL_DEBRID_TOKEN_ENCRYPTION_KEYS''"
definition ENVELOPE_PREFIX :: string where "ENVELOPE_PREFIX = ''saenc:''"
definition ENVELOPE_VERSION :: string where "ENVELOPE_VERSION = ''v1''"
definition NONCE_BYTES :: nat where "NONCE_BYTES = 12"
definition KEY_BYTES :: nat where "KEY_BYTES = 32"
definition MAX_KEYS :: nat where "MAX_KEYS = 16"

definition configuration_error :: "string \<Rightarrow> api_error" where
  "configuration_error detail = internal (KEYS_ENV_NAME @ '' '' @ detail @ ''.'')"

definition configuration_entry_error :: "nat \<Rightarrow> string \<Rightarrow> api_error" where
  "configuration_entry_error entry_number detail =
     internal (KEYS_ENV_NAME @ '' entry '' @ show_nat entry_number @ '' '' @ detail @ ''.'')"

definition decryption_error :: api_error where
  "decryption_error =
     internal ''Stored Real-Debrid token could not be authenticated; check the encryption key ring.''"

definition is_key_id_char :: "char \<Rightarrow> bool" where
  "is_key_id_char c \<longleftrightarrow> is_ascii_alphabetic c \<or> is_ascii_digit c \<or> c \<in> {CHR ''.'', CHR ''_'', CHR ''-''}"

definition is_valid_key_id :: "string \<Rightarrow> bool" where
  "is_valid_key_id v \<longleftrightarrow> v \<noteq> [] \<and> length v \<le> 48 \<and> list_all is_key_id_char v"

text \<open>The loop of \<open>from_spec\<close> over the entries; \<open>n\<close> is the number of the next one.\<close>

fun load_keys :: "crypto_env \<Rightarrow> nat \<Rightarrow> string list \<Rightarrow> token_cipher \<Rightarrow> token_cipher app_result" where
  "load_keys env n [] c = Inr c"
| "load_keys env n (raw_entry # entries) c =
     (case split_once CHR '':'' (trim raw_entry) of
        None \<Rightarrow> Inl (configuration_entry_error n ''must use key-id:base64url-key'')
      | Some (raw_id, raw_key) \<Rightarrow>
      let key_id = trim raw_id in
      if \<not> is_valid_key_id key_id then Inl (configuration_entry_error n ''has an invalid key id'')
      else if CHR '':'' \<in> set raw_key then Inl (configuration_entry_error n ''has an invalid key encoding'')
      else case ce_decode env (trim raw_key) of
        None \<Rightarrow> Inl (configuration_entry_error n ''is not unpadded base64url'')
      | Some decoded \<Rightarrow>
      if length decoded \<noteq> KEY_BYTES then Inl (configuration_entry_error n ''must decode to exactly 32 bytes'')
      else if tc_keys c key_id \<noteq> None then Inl (configuration_entry_error n ''repeats an earlier key id'')
      else load_keys env (Suc n) entries
             \<lparr>tc_active_key_id = (case tc_active_key_id c of None \<Rightarrow> Some key_id | Some a \<Rightarrow> Some a),
              tc_keys = (tc_keys c)(key_id \<mapsto> decoded)\<rparr>)"

definition no_keys :: token_cipher where
  "no_keys = \<lparr>tc_active_key_id = None, tc_keys = (\<lambda>_. None)\<rparr>"

definition from_spec :: "crypto_env \<Rightarrow> string option \<Rightarrow> token_cipher app_result" where
  "from_spec env spec =
     (case spec of
        None \<Rightarrow> Inr no_keys
      | Some spec \<Rightarrow>
          if trim spec = [] then Inl (configuration_error ''is empty'')
          else let entries = split_on CHR '','' spec
               in if length entries > MAX_KEYS then Inl (configuration_error ''contains too many keys'')
                  else load_keys env 1 entries no_keys)"

definition is_enabled :: "token_cipher \<Rightarrow> bool" where
  "is_enabled c \<longleftrightarrow> tc_active_key_id c \<noteq> None"

section \<open>Envelopes\<close>

definition associated_data :: "int \<Rightarrow> string \<Rightarrow> string" where
  "associated_data user_id key_id =
     ''streamarena|real-debrid-token|'' @ ENVELOPE_VERSION @ ''|preference:'' @ REAL_DEBRID_TOKEN_PREF_KEY @
     ''|user:'' @ show_int user_id @ ''|key:'' @ key_id"

text \<open>The nonce is what the operating system's generator returned, if it did.\<close>

definition encrypt_for_user ::
  "crypto_env \<Rightarrow> token_cipher \<Rightarrow> string option \<Rightarrow> int \<Rightarrow> string \<Rightarrow> string app_result" where
  "encrypt_for_user env c random user_id plaintext =
     (case tc_active_key_id c of
        None \<Rightarrow> Inl (service_unavailable ''Real-Debrid token storage is unavailable; encryption is not configured.'')
      | Some key_id \<Rightarrow>
      case tc_keys c key_id of
        None \<Rightarrow> Inl (internal ''Real-Debrid token encryption key ring is inconsistent.'')
      | Some key \<Rightarrow>
      if length key \<noteq> KEY_BYTES then Inl (internal ''Real-Debrid token encryption could not be initialized.'')
      else case random of
        None \<Rightarrow> Inl (internal ''OS CSPRNG unavailable; refusing to store a Real-Debrid token.'')
      | Some nonce \<Rightarrow>
      case ce_encrypt env key nonce (associated_data user_id key_id) plaintext of
        None \<Rightarrow> Inl (internal ''Real-Debrid token encryption failed.'')
      | Some ciphertext \<Rightarrow>
          Inr (ENVELOPE_PREFIX @ ENVELOPE_VERSION @ '':'' @ key_id @ '':'' @ ce_encode env nonce @ '':'' @
               ce_encode env ciphertext))"

definition decrypt_envelope :: "crypto_env \<Rightarrow> token_cipher \<Rightarrow> int \<Rightarrow> string \<Rightarrow> (string \<times> string) app_result" where
  "decrypt_envelope env c user_id stored_value =
     (case strip_prefix ENVELOPE_PREFIX stored_value of
        None \<Rightarrow> Inl decryption_error
      | Some encoded \<Rightarrow>
      case split_on CHR '':'' encoded of
        [version, key_id, nonce_encoded, ciphertext_encoded] \<Rightarrow>
          if version \<noteq> ENVELOPE_VERSION \<or> \<not> is_valid_key_id key_id \<or> nonce_encoded = [] \<or> ciphertext_encoded = []
          then Inl decryption_error
          else (case tc_keys c key_id of
            None \<Rightarrow> Inl (internal (''Stored Real-Debrid token requires an unavailable encryption key ('' @ key_id @ '').''))
          | Some key \<Rightarrow>
          case ce_decode env nonce_encoded of
            None \<Rightarrow> Inl decryption_error
          | Some nonce \<Rightarrow>
          if length nonce \<noteq> NONCE_BYTES then Inl decryption_error
          else case ce_decode env ciphertext_encoded of
            None \<Rightarrow> Inl decryption_error
          | Some ciphertext \<Rightarrow>
          if length ciphertext < 16 then Inl decryption_error
          else if length key \<noteq> KEY_BYTES then Inl decryption_error
          else case ce_decrypt env key nonce (associated_data user_id key_id) ciphertext of
            None \<Rightarrow> Inl decryption_error
          | Some plaintext \<Rightarrow> if utf8_valid plaintext then Inr (plaintext, key_id) else Inl decryption_error)
      | _ \<Rightarrow> Inl decryption_error)"

definition decrypt_for_user :: "crypto_env \<Rightarrow> token_cipher \<Rightarrow> int \<Rightarrow> string \<Rightarrow> string app_result" where
  "decrypt_for_user env c user_id stored_value =
     (if \<not> starts_with stored_value ENVELOPE_PREFIX
      then Inl (internal ''Stored Real-Debrid token is not encrypted; restart with a configured key ring.'')
      else case decrypt_envelope env c user_id stored_value of Inl e \<Rightarrow> Inl e | Inr (plaintext, _) \<Rightarrow> Inr plaintext)"

section \<open>Migration and rotation\<close>

record token_migration_report =
  plaintext_encrypted :: nat
  keys_rotated :: nat

text \<open>The loop that authenticates every stored value and prepares the replacements.\<close>

fun plan_migration ::
  "crypto_env \<Rightarrow> token_cipher \<Rightarrow> (int \<Rightarrow> string option) \<Rightarrow> (int \<times> string) list \<Rightarrow>
   (int \<times> string \<times> string) list \<Rightarrow> token_migration_report \<Rightarrow>
   ((int \<times> string \<times> string) list \<times> token_migration_report) app_result" where
  "plan_migration env c random [] replacements report = Inr (replacements, report)"
| "plan_migration env c random ((user_id, stored_value) # rows) replacements report =
     (if starts_with stored_value ENVELOPE_PREFIX
      then (case decrypt_envelope env c user_id stored_value of
              Inl e \<Rightarrow> Inl e
            | Inr (plaintext, key_id) \<Rightarrow>
                if tc_active_key_id c \<noteq> Some key_id
                then (case encrypt_for_user env c (random user_id) user_id plaintext of
                        Inl e \<Rightarrow> Inl e
                      | Inr encrypted \<Rightarrow> plan_migration env c random rows
                          (replacements @ [(user_id, stored_value, encrypted)])
                          (report\<lparr>keys_rotated := keys_rotated report + 1\<rparr>))
                else plan_migration env c random rows replacements report)
      else (case encrypt_for_user env c (random user_id) user_id stored_value of
              Inl e \<Rightarrow> Inl e
            | Inr encrypted \<Rightarrow> plan_migration env c random rows
                (replacements @ [(user_id, stored_value, encrypted)])
                (report\<lparr>plaintext_encrypted := plaintext_encrypted report + 1\<rparr>)))"

definition empty_report :: token_migration_report where
  "empty_report = \<lparr>plaintext_encrypted = 0, keys_rotated = 0\<rparr>"

definition migrate_existing_tokens ::
  "crypto_env \<Rightarrow> token_cipher \<Rightarrow> (int \<Rightarrow> string option) \<Rightarrow> int \<Rightarrow> pref_row list \<Rightarrow>
   token_migration_report app_result \<times> pref_row list" where
  "migrate_existing_tokens env c random now t =
     (let rows = get_user_preferences_by_key t REAL_DEBRID_TOKEN_PREF_KEY
      in if rows = [] then (Inr empty_report, t)
         else if \<not> is_enabled c
         then (Inl (internal (KEYS_ENV_NAME @ '' is required because Real-Debrid tokens are already stored'')), t)
         else case plan_migration env c random rows [] empty_report of
           Inl e \<Rightarrow> (Inl e, t)
         | Inr (replacements, report) \<Rightarrow>
             if replacements = [] then (Inr report, t)
             else (case replace_user_preferences_if_unchanged t REAL_DEBRID_TOKEN_PREF_KEY replacements now of
                     (Inl e, t') \<Rightarrow> (Inl e, t')
                   | (Inr _, t') \<Rightarrow> (Inr report, t')))"


section \<open>What is relied on\<close>

text \<open>
  Base64url without padding reads back what it wrote, writes no colon, and writes something
  for something; AES-256-GCM opens what it sealed under the same key, nonce and associated
  data, and appends a tag of sixteen bytes.
\<close>

definition crypto_ok :: "crypto_env \<Rightarrow> bool" where
  "crypto_ok env \<longleftrightarrow>
     (\<forall>x. ce_decode env (ce_encode env x) = Some x \<and> CHR '':'' \<notin> set (ce_encode env x) \<and> (ce_encode env x = [] \<longrightarrow> x = [])) \<and>
     (\<forall>k n a m ct. length k = KEY_BYTES \<longrightarrow> length n = NONCE_BYTES \<longrightarrow> ce_encrypt env k n a m = Some ct \<longrightarrow>
        ce_decrypt env k n a ct = Some m \<and> length ct = length m + 16)"

definition cipher_wf :: "token_cipher \<Rightarrow> bool" where
  "cipher_wf c \<longleftrightarrow>
     (\<forall>k v. tc_keys c k = Some v \<longrightarrow> is_valid_key_id k \<and> length v = KEY_BYTES) \<and>
     (\<forall>a. tc_active_key_id c = Some a \<longrightarrow> tc_keys c a \<noteq> None)"

lemma load_keys_wf: "load_keys env n es c = Inr c' \<Longrightarrow> cipher_wf c \<Longrightarrow> cipher_wf c'"
proof (induction env n es c rule: load_keys.induct)
  case (2 env n raw_entry entries c)
  obtain raw_id raw_key where sp: "split_once CHR '':'' (trim raw_entry) = Some (raw_id, raw_key)"
    using 2(2) by (auto split: option.splits)
  obtain d where d: "is_valid_key_id (trim raw_id)" "CHR '':'' \<notin> set raw_key" "ce_decode env (trim raw_key) = Some d"
    "length d = KEY_BYTES" "tc_keys c (trim raw_id) = None"
    and l: "load_keys env (Suc n) entries
             \<lparr>tc_active_key_id = (case tc_active_key_id c of None \<Rightarrow> Some (trim raw_id) | Some a \<Rightarrow> Some a),
              tc_keys = (tc_keys c)(trim raw_id \<mapsto> d)\<rparr> = Inr c'"
    using 2(2) by (auto simp: sp Let_def split: option.splits if_splits)
  have "cipher_wf \<lparr>tc_active_key_id = (case tc_active_key_id c of None \<Rightarrow> Some (trim raw_id) | Some a \<Rightarrow> Some a),
              tc_keys = (tc_keys c)(trim raw_id \<mapsto> d)\<rparr>"
    using 2(3) d by (auto simp: cipher_wf_def split: option.splits)
  then show ?case using 2(1) [OF sp refl refl] l d by simp
qed simp

lemma from_spec_wf: "from_spec env spec = Inr c \<Longrightarrow> cipher_wf c"
  by (auto simp: from_spec_def Let_def no_keys_def cipher_wf_def split: option.splits if_splits dest!: load_keys_wf)

lemma key_id_no_colon: "is_valid_key_id k \<Longrightarrow> CHR '':'' \<notin> set k"
  by (auto simp: is_valid_key_id_def list_all_iff is_key_id_char_def is_ascii_alphabetic_def is_ascii_upper_def
      is_ascii_lower_def is_ascii_digit_def)

text \<open>What is authenticated beside a token names its user and its key.\<close>

lemma associated_data_inj:
  "associated_data u k = associated_data u' k' \<longleftrightarrow> u = u' \<and> k = k'"
proof
  assume "associated_data u k = associated_data u' k'"
  then have e: "show_int u @ ''|key:'' @ k = show_int u' @ ''|key:'' @ k'"
    by (simp add: associated_data_def)
  have "CHR ''|'' \<notin> set (show_int v)" for v
    using show_nat_digits [of "CHR ''|''"] by (auto simp: show_int_def is_ascii_digit_def)
  then have "split_once CHR ''|'' (show_int v @ ''|key:'' @ w) = Some (show_int v, ''key:'' @ w)" for v w
  proof -
    have "c \<notin> set a \<Longrightarrow> split_once c (a @ c # b) = Some (a, b)" for c :: char and a b by (induction a) auto
    then show ?thesis using \<open>\<And>v. CHR ''|'' \<notin> set (show_int v)\<close> by simp
  qed
  with e have "Some (show_int u, ''key:'' @ k) = Some (show_int u', ''key:'' @ k')" by metis
  then show "u = u' \<and> k = k'" by simp
qed simp

lemma encrypt_decrypt_envelope:
  assumes ok: "crypto_ok env" and wf: "cipher_wf c" and nonce: "length nonce = NONCE_BYTES" and utf8: "utf8_valid pt"
    and enc: "encrypt_for_user env c (Some nonce) u pt = Inr s"
    and ring: "\<And>a. tc_active_key_id c = Some a \<Longrightarrow> tc_keys c' a = tc_keys c a"
  shows "\<exists>a. tc_active_key_id c = Some a \<and> decrypt_envelope env c' u s = Inr (pt, a)"
proof -
  obtain a where a1: "tc_active_key_id c = Some a"
    using enc by (cases "tc_active_key_id c") (simp_all add: encrypt_for_user_def)
  obtain key where a2: "tc_keys c a = Some key" using wf a1 by (auto simp: cipher_wf_def)
  have a3: "length key = KEY_BYTES" using wf a2 by (simp add: cipher_wf_def)
  note a = a1 a2 a3
  obtain ct where ct: "ce_encrypt env key nonce (associated_data u a) pt = Some ct"
    using enc a by (cases "ce_encrypt env key nonce (associated_data u a) pt") (simp_all add: encrypt_for_user_def)
  have s: "s = ENVELOPE_PREFIX @ ENVELOPE_VERSION @ '':'' @ a @ '':'' @ ce_encode env nonce @ '':'' @ ce_encode env ct"
    using enc a ct by (simp add: encrypt_for_user_def)
  have valid: "is_valid_key_id a" using wf a by (auto simp: cipher_wf_def)
  have dec: "ce_decrypt env key nonce (associated_data u a) ct = Some pt" "length ct = length pt + 16"
    using ok nonce a(3) ct unfolding crypto_ok_def by blast+
  have b64: "ce_decode env (ce_encode env x) = Some x" "CHR '':'' \<notin> set (ce_encode env x)" "ce_encode env x = [] \<longrightarrow> x = []" for x
    using ok unfolding crypto_ok_def by blast+
  have "split_on CHR '':'' (ENVELOPE_VERSION @ '':'' @ a @ '':'' @ ce_encode env nonce @ '':'' @ ce_encode env ct)
      = [ENVELOPE_VERSION, a, ce_encode env nonce, ce_encode env ct]"
    using key_id_no_colon [OF valid] b64(2) [of nonce] b64(2) [of ct]
    by (simp add: split_on_append split_on_single ENVELOPE_VERSION_def)
  moreover have "ce_encode env nonce \<noteq> []" "ce_encode env ct \<noteq> []"
    using b64(3) [of nonce] b64(3) [of ct] nonce dec(2) by (auto simp: NONCE_BYTES_def)
  ultimately have "decrypt_envelope env c' u s = Inr (pt, a)"
    using valid b64(1) nonce dec utf8 a ring [OF a(1)] by (simp add: decrypt_envelope_def s)
  with a(1) show ?thesis by blast
qed

lemma envelope_prefix: "decrypt_envelope env c u s = Inr r \<Longrightarrow> starts_with s ENVELOPE_PREFIX"
  by (auto simp: decrypt_envelope_def strip_prefix_def split: if_splits)

lemma decrypt_for_user_envelope:
  "decrypt_envelope env c u s = Inr (pt, a) \<Longrightarrow> decrypt_for_user env c u s = Inr pt"
  by (simp add: decrypt_for_user_def envelope_prefix)

section \<open>A concrete instance\<close>

text \<open>An encoding by nibbles and a seal that appends sixteen bytes satisfy what is relied on.\<close>

definition sample_crypto :: crypto_env where
  "sample_crypto =
     \<lparr>ce_encode = (\<lambda>x. concat (map nibbles x)), ce_decode = from_nibbles,
      ce_encrypt = (\<lambda>_ _ _ m. Some (m @ replicate 16 (CHR ''t''))),
      ce_decrypt = (\<lambda>_ _ _ ct. Some (take (length ct - 16) ct))\<rparr>"

lemma crypto_ok_sample: "crypto_ok sample_crypto"
proof -
  have "from_nibbles (concat (map nibbles x)) = Some x" for x
    by (induction x) (simp_all add: nibbles_back)
  moreover have "CHR '':'' \<notin> set (concat (map nibbles x))" for x
    using nibbles_range by (fastforce simp: list_all_iff)
  ultimately show ?thesis by (auto simp: crypto_ok_def sample_crypto_def)
qed

definition sample_ring :: token_cipher where
  "sample_ring = \<lparr>tc_active_key_id = Some ''k1'', tc_keys = [''k1'' \<mapsto> replicate 32 (char_of (0 :: nat))]\<rparr>"

lemma sample_ring_spec: "from_spec sample_crypto (Some (''k1:'' @ replicate 64 (CHR ''p''))) = Inr sample_ring"
proof -
  let ?spec = "''k1:'' @ replicate 64 (CHR ''p'')"
  have "trim ?spec \<noteq> []" "split_on CHR '','' ?spec = [?spec]"
    "split_once CHR '':'' (trim ?spec) = Some (''k1'', replicate 64 (CHR ''p''))"
    "trim ''k1'' = ''k1''" "is_valid_key_id ''k1''" "CHR '':'' \<notin> set (replicate 64 (CHR ''p''))"
    "from_nibbles (trim (replicate 64 (CHR ''p''))) = Some (replicate 32 (char_of (0 :: nat)))"
    by code_simp+
  note this [simp del]
  then show ?thesis
    by (simp (no_asm_simp) only: from_spec_def option.case Let_def if_False list.size load_keys.simps prod.case
        sample_crypto_def crypto_env.simps MAX_KEYS_def)
       (simp add: no_keys_def sample_ring_def KEY_BYTES_def)
qed

text \<open>
  C25: a stored token reads back. What \<open>encrypt_for_user\<close> stored for a user under a
  configured ring decrypts for that user to the token it was given, with the same ring and
  with any later ring that still holds the key that was active then.
\<close>

theorem token_round_trip:
  assumes "crypto_ok env" and "from_spec env spec = Inr c" and "length nonce = NONCE_BYTES" and "utf8_valid token"
    and "encrypt_for_user env c (Some nonce) user_id token = Inr stored"
    and "\<And>a. tc_active_key_id c = Some a \<Longrightarrow> tc_keys c' a = tc_keys c a"
  shows "decrypt_for_user env c' user_id stored = Inr token"
proof -
  from encrypt_decrypt_envelope [OF assms(1) from_spec_wf [OF assms(2)] assms(3,4,5,6)]
  obtain a where "decrypt_envelope env c' user_id stored = Inr (token, a)" by blast
  then show ?thesis by (rule decrypt_for_user_envelope)
qed


theorem token_round_trip_witness:
  "decrypt_for_user sample_crypto sample_ring 7
     (projr (encrypt_for_user sample_crypto sample_ring (Some (replicate 12 (CHR ''n''))) 7 ''secret'')) = Inr ''secret''"
proof -
  obtain s where s: "encrypt_for_user sample_crypto sample_ring (Some (replicate 12 (CHR ''n''))) 7 ''secret'' = Inr s"
    by (simp add: encrypt_for_user_def sample_crypto_def sample_ring_def KEY_BYTES_def)
  have "utf8_valid ''secret''" by code_simp
  then show ?thesis
    using token_round_trip [OF crypto_ok_sample sample_ring_spec, of "replicate 12 (CHR ''n'')" "''secret''" 7 s sample_ring] s
    by (simp add: NONCE_BYTES_def)
qed

section \<open>What a migration leaves\<close>

text \<open>\<open>s'\<close> is an envelope under the active key for the token that \<open>s\<close> held.\<close>

definition same_token :: "crypto_env \<Rightarrow> token_cipher \<Rightarrow> int \<Rightarrow> string \<Rightarrow> string \<Rightarrow> bool" where
  "same_token env c u s s' \<longleftrightarrow>
     (\<exists>token a. tc_active_key_id c = Some a \<and> decrypt_envelope env c u s' = Inr (token, a) \<and>
        (if starts_with s ENVELOPE_PREFIX then decrypt_for_user env c u s = Inr token else s = token))"

definition random_ok :: "(int \<Rightarrow> string option) \<Rightarrow> bool" where
  "random_ok random \<longleftrightarrow> (\<forall>u r. random u = Some r \<longrightarrow> length r = NONCE_BYTES)"

lemma encrypt_same_token:
  assumes "crypto_ok env" and "cipher_wf c" and "random_ok random" and "utf8_valid pt"
    and "encrypt_for_user env c (random u) u pt = Inr s"
  shows "\<exists>a. tc_active_key_id c = Some a \<and> decrypt_envelope env c u s = Inr (pt, a)"
proof -
  obtain nonce where n: "random u = Some nonce"
    using assms(5) by (cases "random u") (auto simp: encrypt_for_user_def split: option.splits if_splits)
  then have "length nonce = NONCE_BYTES" using assms(3) by (simp add: random_ok_def)
  then show ?thesis
    using encrypt_decrypt_envelope [OF assms(1,2) _ assms(4), of nonce u s c] assms(5) n by simp
qed

lemma decrypt_utf8: "decrypt_envelope env c u s = Inr (pt, k) \<Longrightarrow> utf8_valid pt"
  by (auto simp: decrypt_envelope_def split: option.splits list.splits if_splits)

lemma plan_migration_spec:
  assumes "crypto_ok env" and "cipher_wf c" and "random_ok random"
    and "plan_migration env c random rows repl rep = Inr (repl', rep')"
    and "distinct (map fst rows)" and "\<forall>(u, s) \<in> set rows. utf8_valid s"
  shows "\<exists>new. repl' = repl @ new \<and> distinct (map fst new) \<and> fst ` set new \<subseteq> fst ` set rows \<and>
    (\<forall>(u, e, v) \<in> set new. (u, e) \<in> set rows \<and> same_token env c u e v) \<and>
    (\<forall>(u, s) \<in> set rows. u \<notin> fst ` set new \<longrightarrow> same_token env c u s s)"
  using assms(4-)
proof (induction rows arbitrary: repl rep)
  case (Cons row rows)
  obtain u s where row: "row = (u, s)" by (cases row)
  have tail: "distinct (map fst rows)" "\<forall>(u, s) \<in> set rows. utf8_valid s" "u \<notin> fst ` set rows"
    using Cons.prems by (auto simp: row)
  have replaced: ?case
    if rest: "plan_migration env c random rows (repl @ [(u, s, v)]) rep1 = Inr (repl', rep')" and v: "same_token env c u s v" for v rep1
  proof -
    obtain new where new: "repl' = (repl @ [(u, s, v)]) @ new" "distinct (map fst new)" "fst ` set new \<subseteq> fst ` set rows"
      "\<forall>(u, e, v) \<in> set new. (u, e) \<in> set rows \<and> same_token env c u e v"
      "\<forall>(u, s) \<in> set rows. u \<notin> fst ` set new \<longrightarrow> same_token env c u s s"
      using Cons.IH [OF rest tail(1,2)] by blast
    have "distinct (map fst ((u, s, v) # new))" using new(2,3) tail(3) by auto
    with new v show ?thesis by (intro exI [of _ "(u, s, v) # new"]) (auto simp: row)
  qed
  show ?case
  proof (cases "starts_with s ENVELOPE_PREFIX")
    case True
    obtain pt k where d: "decrypt_envelope env c u s = Inr (pt, k)"
      using Cons.prems(1) True by (auto simp: row split: sum.splits)
    show ?thesis
    proof (cases "tc_active_key_id c = Some k")
      case active: True
      have "plan_migration env c random rows repl rep = Inr (repl', rep')"
        using Cons.prems(1) True d active by (simp add: row)
      then obtain new where new: "repl' = repl @ new" "distinct (map fst new)" "fst ` set new \<subseteq> fst ` set rows"
        "\<forall>(u, e, v) \<in> set new. (u, e) \<in> set rows \<and> same_token env c u e v"
        "\<forall>(u, s) \<in> set rows. u \<notin> fst ` set new \<longrightarrow> same_token env c u s s"
        using Cons.IH tail by blast
      moreover have "same_token env c u s s"
        using d active True by (auto simp: same_token_def decrypt_for_user_envelope)
      ultimately show ?thesis by (intro exI [of _ new]) (auto simp: row)
    next
      case False
      obtain v where v: "encrypt_for_user env c (random u) u pt = Inr v"
        and rest: "plan_migration env c random rows (repl @ [(u, s, v)]) (rep\<lparr>keys_rotated := keys_rotated rep + 1\<rparr>) = Inr (repl', rep')"
        using Cons.prems(1) True d False by (auto simp: row split: sum.splits)
      have "same_token env c u s v"
        using encrypt_same_token [OF assms(1-3) decrypt_utf8 [OF d] v] True d
        by (auto simp: same_token_def decrypt_for_user_envelope)
      with rest show ?thesis by (rule replaced)
    qed
  next
    case False
    obtain v where v: "encrypt_for_user env c (random u) u s = Inr v"
      and rest: "plan_migration env c random rows (repl @ [(u, s, v)]) (rep\<lparr>plaintext_encrypted := plaintext_encrypted rep + 1\<rparr>) = Inr (repl', rep')"
      using Cons.prems(1) False by (auto simp: row split: sum.splits)
    have "same_token env c u s v"
      using encrypt_same_token [OF assms(1-3) _ v] Cons.prems(3) False by (auto simp: same_token_def row)
    with rest show ?thesis by (rule replaced)
  qed
qed simp

lemma plan_migration_idle:
  "\<forall>(u, s) \<in> set rows. \<exists>token a. tc_active_key_id c = Some a \<and> decrypt_envelope env c u s = Inr (token, a) \<Longrightarrow>
   plan_migration env c random rows repl rep = Inr (repl, rep)"
  by (induction rows) (auto simp: envelope_prefix)

lemma preferences_by_key:
  "keyed up_key t \<Longrightarrow> (u, s) \<in> set (get_user_preferences_by_key t k) \<longleftrightarrow> get_user_preference t u k = Some s"
  by (force simp: get_user_preferences_by_key_def get_user_preference_def find_row_Some_iff up_key_def)

lemma distinct_preferences_by_key:
  assumes "keyed up_key t"
  shows "distinct (map fst (get_user_preferences_by_key t k))"
proof -
  have "inj_on up_user_id (set (filter (\<lambda>r. up_pref_key r = k) t))"
    using assms keyed_inj [OF assms] by (auto simp: inj_on_def up_key_def)
  moreover have "distinct (filter (\<lambda>r. up_pref_key r = k) t)"
    using assms by (auto simp: keyed_def distinct_map)
  ultimately show ?thesis by (simp add: get_user_preferences_by_key_def comp_def distinct_map)
qed


lemma migrate_cases:
  assumes "migrate_existing_tokens env c random now t = (Inr rep, t')"
  obtains (idle) "get_user_preferences_by_key t REAL_DEBRID_TOKEN_PREF_KEY = []" "t' = t"
  | (planned) repl where "plan_migration env c random (get_user_preferences_by_key t REAL_DEBRID_TOKEN_PREF_KEY) [] empty_report = Inr (repl, rep)"
      "t' = (if repl = [] then t else snd (replace_loop REAL_DEBRID_TOKEN_PREF_KEY now repl t))"
  using assms
  by (auto simp: migrate_existing_tokens_def replace_user_preferences_if_unchanged_def Let_def
      split: if_splits sum.splits prod.splits)

lemma migrate_error: "migrate_existing_tokens env c random now t = (Inl e, t') \<Longrightarrow> t' = t"
  by (auto simp: migrate_existing_tokens_def replace_user_preferences_if_unchanged_def Let_def
      split: if_splits sum.splits prod.splits)

lemma migrate_lookup:
  assumes ok: "crypto_ok env" "cipher_wf c" "random_ok random" and t: "keyed up_key t"
    and utf8: "\<forall>u s. get_user_preference t u REAL_DEBRID_TOKEN_PREF_KEY = Some s \<longrightarrow> utf8_valid s"
    and run: "migrate_existing_tokens env c random now t = (Inr rep, t')"
  shows "keyed up_key t' \<and> (\<forall>u. case get_user_preference t u REAL_DEBRID_TOKEN_PREF_KEY of
        None \<Rightarrow> get_user_preference t' u REAL_DEBRID_TOKEN_PREF_KEY = None
      | Some s \<Rightarrow> (\<exists>s'. get_user_preference t' u REAL_DEBRID_TOKEN_PREF_KEY = Some s' \<and> same_token env c u s s')) \<and>
    (\<forall>u k. k \<noteq> REAL_DEBRID_TOKEN_PREF_KEY \<longrightarrow> get_user_preference t' u k = get_user_preference t u k)"
  using run
proof (cases rule: migrate_cases)
  case idle
  have "get_user_preference t u REAL_DEBRID_TOKEN_PREF_KEY = None" for u
    using preferences_by_key [OF t, of u _ REAL_DEBRID_TOKEN_PREF_KEY] idle(1) by (cases "get_user_preference t u REAL_DEBRID_TOKEN_PREF_KEY") auto
  with idle(2) t show ?thesis by simp
next
  case (planned repl)
  let ?K = REAL_DEBRID_TOKEN_PREF_KEY and ?rows = "get_user_preferences_by_key t REAL_DEBRID_TOKEN_PREF_KEY"
  note by_key = preferences_by_key [OF t]
  have rows_utf8: "\<forall>(u, s) \<in> set ?rows. utf8_valid s" using utf8 by_key by auto
  have repl: "distinct (map fst repl)" "\<forall>(u, e, v) \<in> set repl. (u, e) \<in> set ?rows \<and> same_token env c u e v"
    "\<forall>(u, s) \<in> set ?rows. u \<notin> fst ` set repl \<longrightarrow> same_token env c u s s"
    using plan_migration_spec [OF ok planned(1) distinct_preferences_by_key [OF t] rows_utf8] by auto
  have loop: "keyed up_key t' \<and> (\<forall>u' k'. get_user_preference t' u' k' =
      (if k' = ?K then (case map_of repl u' of None \<Rightarrow> get_user_preference t u' k' | Some (_, v) \<Rightarrow> Some v)
       else get_user_preference t u' k'))"
  proof (cases "repl = []")
    case False
    have "\<forall>(u, e, v) \<in> set repl. get_user_preference t u ?K = Some e" using repl(2) by_key by auto
    from replace_loop_spec [OF t repl(1) this, of now] False show ?thesis unfolding planned(2) by simp
  qed (use t planned(2) in auto)
  have "case get_user_preference t u ?K of
        None \<Rightarrow> get_user_preference t' u ?K = None
      | Some s \<Rightarrow> (\<exists>s'. get_user_preference t' u ?K = Some s' \<and> same_token env c u s s')" for u
  proof (cases "map_of repl u")
    case None
    then have "u \<notin> fst ` set repl" by (simp add: map_of_eq_None_iff)
    then show ?thesis using None loop repl(3) by_key [of u] by (auto split: option.split)
  next
    case (Some ev)
    obtain e v where ev: "ev = (e, v)" by (cases ev)
    from Some have "(u, e, v) \<in> set repl" unfolding ev by (rule map_of_SomeD)
    then have "get_user_preference t u ?K = Some e" "same_token env c u e v" using repl(2) by_key by auto
    then show ?thesis using Some ev loop by simp
  qed
  then show ?thesis using loop by simp
qed

lemma migrate_again:
  assumes "keyed up_key t" and "\<And>u s. get_user_preference t u REAL_DEBRID_TOKEN_PREF_KEY = Some s \<Longrightarrow>
    \<exists>token a. tc_active_key_id c = Some a \<and> decrypt_envelope env c u s = Inr (token, a)"
  shows "migrate_existing_tokens env c random now t = (Inr empty_report, t)"
proof (cases "get_user_preferences_by_key t REAL_DEBRID_TOKEN_PREF_KEY")
  case (Cons x xs)
  let ?rows = "get_user_preferences_by_key t REAL_DEBRID_TOKEN_PREF_KEY"
  have ready: "\<forall>(u, s) \<in> set ?rows. \<exists>token a. tc_active_key_id c = Some a \<and> decrypt_envelope env c u s = Inr (token, a)"
    using assms preferences_by_key [OF assms(1)] by auto
  then have "is_enabled c" using Cons by (cases x) (auto simp: is_enabled_def)
  then show ?thesis
    using plan_migration_idle [OF ready, of random "[]" empty_report] Cons by (simp add: migrate_existing_tokens_def Let_def)
qed (simp add: migrate_existing_tokens_def)

text \<open>
  C26: the start-up migration. Under a configured ring, either the migration fails and the
  database is as it was, or every stored token, plaintext or under any key of the ring, is
  now an envelope under the active key that decrypts to the same token; no other setting
  changed, and migrating again finds nothing to do.
\<close>

theorem token_migration_sound:
  assumes "crypto_ok env" and "from_spec env spec = Inr c" and "random_ok random" and "keyed up_key t"
    and "\<forall>u s. get_user_preference t u REAL_DEBRID_TOKEN_PREF_KEY = Some s \<longrightarrow> utf8_valid s"
    and "migrate_existing_tokens env c random now t = (r, t')"
  shows "case r of
      Inl _ \<Rightarrow> t' = t
    | Inr _ \<Rightarrow>
        (\<forall>u. case get_user_preference t u REAL_DEBRID_TOKEN_PREF_KEY of
           None \<Rightarrow> get_user_preference t' u REAL_DEBRID_TOKEN_PREF_KEY = None
         | Some s \<Rightarrow> (\<exists>s'. get_user_preference t' u REAL_DEBRID_TOKEN_PREF_KEY = Some s' \<and> same_token env c u s s')) \<and>
        (\<forall>u k. k \<noteq> REAL_DEBRID_TOKEN_PREF_KEY \<longrightarrow> get_user_preference t' u k = get_user_preference t u k) \<and>
        migrate_existing_tokens env c random now' t' = (Inr empty_report, t')"
proof (cases r)
  case (Inl e)
  then show ?thesis using migrate_error assms(6) by auto
next
  case (Inr rep)
  note look = migrate_lookup [OF assms(1) from_spec_wf [OF assms(2)] assms(3-5), of now rep t']
  have "\<exists>token a. tc_active_key_id c = Some a \<and> decrypt_envelope env c u s' = Inr (token, a)"
    if "get_user_preference t' u REAL_DEBRID_TOKEN_PREF_KEY = Some s'" for u s'
    using look assms(6) Inr that by (auto simp: same_token_def split: option.splits) (metis (no_types, lifting) option.distinct(1) option.exhaust option.inject)+
  with look assms(6) Inr migrate_again [of t' c env random now'] show ?thesis by auto
qed

theorem token_migration_sound_witness:
  "snd (migrate_existing_tokens sample_crypto sample_ring (\<lambda>_. Some (replicate 12 (CHR ''n''))) 9
     (snd (migrate_existing_tokens sample_crypto sample_ring (\<lambda>_. Some (replicate 12 (CHR ''n''))) 5
       [\<lparr>up_user_id = 7, up_pref_key = REAL_DEBRID_TOKEN_PREF_KEY, up_pref_value = ''secret'', up_updated_at = 1\<rparr>])))
   = snd (migrate_existing_tokens sample_crypto sample_ring (\<lambda>_. Some (replicate 12 (CHR ''n''))) 5
       [\<lparr>up_user_id = 7, up_pref_key = REAL_DEBRID_TOKEN_PREF_KEY, up_pref_value = ''secret'', up_updated_at = 1\<rparr>])"
proof -
  let ?r = "\<lambda>_ :: int. Some (replicate 12 (CHR ''n''))"
  let ?t = "[\<lparr>up_user_id = 7, up_pref_key = REAL_DEBRID_TOKEN_PREF_KEY, up_pref_value = ''secret'', up_updated_at = 1\<rparr>]"
  obtain r t' where m: "migrate_existing_tokens sample_crypto sample_ring ?r 5 ?t = (r, t')" by fastforce
  have "utf8_valid ''secret''" by code_simp
  then have "case r of Inl _ \<Rightarrow> t' = ?t | Inr _ \<Rightarrow> migrate_existing_tokens sample_crypto sample_ring ?r 9 t' = (Inr empty_report, t')"
    using token_migration_sound [OF crypto_ok_sample sample_ring_spec _ _ _ m, of 9]
    by (auto simp: random_ok_def NONCE_BYTES_def keyed_def get_user_preference_def up_key_def split: sum.splits)
  moreover have "\<exists>s. r = Inr s"
    using m by (auto simp: migrate_existing_tokens_def get_user_preferences_by_key_def is_enabled_def sample_ring_def
        encrypt_for_user_def KEY_BYTES_def sample_crypto_def ENVELOPE_PREFIX_def Let_def
        replace_user_preferences_if_unchanged_def count_where_def up_key_def)
  ultimately show ?thesis using m by auto
qed

end
