(* ===== verification/ContinueWatching.thy ===== *)
theory ContinueWatching
  imports UserState PlaybackSessions
begin

text \<open>
  \<open>src/persistence/continue_watching.rs\<close> and the continue-watching and my-list accessors of
  \<open>src/persistence.rs\<close>. A saved position replaces the other episodes of its series, and is
  annotated with the playback session that last served the episode. The theorems: a user
  has at most one row per television title and per series; what was deleted stays deleted
  until something newer is saved; and two places where the code does not do that much:
  a television entry without a series id is dropped because of an unrelated newer row,
  and a list that names an item twice cannot be saved.
\<close>

section \<open>Identities and session keys\<close>

record cw_metadata =
  cm_source_hash :: string
  cm_session_key :: string
  cm_resolver_provider :: string
  cm_source_input :: string
  cm_filename :: string
  cm_updated_at :: int
  cm_last_accessed_at :: int

text \<open>\<open>f64 as i64\<close> saturates.\<close>

definition json_number_to_i64 :: "json option \<Rightarrow> int option" where
  "json_number_to_i64 v =
     (case v of
        None \<Rightarrow> None
      | Some v \<Rightarrow>
          (case as_i64 v of
             Some n \<Rightarrow> Some n
           | None \<Rightarrow>
               (case as_u64 v of
                  Some n \<Rightarrow> (if i64_range n then Some n else None)
                | None \<Rightarrow>
                    (case as_f64 v of
                       Some x \<Rightarrow> Some (sat64 (floor x))
                     | None \<Rightarrow> Option.bind (as_str v) (\<lambda>s. parse_i64 (trim s))))))"

definition numbered :: "char \<Rightarrow> string \<Rightarrow> int option" where
  "numbered c part = Option.bind (strip_prefix [c] (trim part)) parse_i64"

definition parse_tmdb_tv_source_identity :: "string \<Rightarrow> (string \<times> int \<times> int) option" where
  "parse_tmdb_tv_source_identity v =
     (case split_on CHR '':'' (trim v) of
        p0 # p1 # p2 # p3 # p4 # _ \<Rightarrow>
          if p0 \<noteq> ''tmdb'' \<or> p1 \<noteq> ''tv'' then None
          else Option.bind (numbered CHR ''s'' p3) (\<lambda>season.
               Option.bind (numbered CHR ''e'' p4) (\<lambda>episode.
                 if trim p2 = [] \<or> season \<le> 0 \<or> episode \<le> 0 then None else Some (trim p2, season, episode)))
      | _ \<Rightarrow> None)"

definition parse_tv_episode_from_session_key :: "string \<Rightarrow> (int \<times> int) option" where
  "parse_tv_episode_from_session_key v =
     (case split_on CHR '':'' (trim v) of
        p0 # _ # p2 # p3 # _ \<Rightarrow>
          if p0 \<noteq> ''tv'' then None
          else Option.bind (numbered CHR ''s'' p2) (\<lambda>season.
               Option.bind (numbered CHR ''e'' p3) (\<lambda>episode.
                 if season \<le> 0 \<or> episode \<le> 0 then None else Some (season, episode)))
      | _ \<Rightarrow> None)"

definition continue_watching_target_episode :: "string \<Rightarrow> int \<Rightarrow> json option \<Rightarrow> int \<times> int" where
  "continue_watching_target_episode source_identity episode_index entry =
     (let field = (\<lambda>k. case json_number_to_i64 (Option.bind entry (json_get k)) of None \<Rightarrow> 0 | Some n \<Rightarrow> n);
          season = field ''seasonNumber'';
          episode = field ''episodeNumber'';
          (season, episode) =
            (case parse_tmdb_tv_source_identity source_identity of
               None \<Rightarrow> (season, episode)
             | Some (_, s, e) \<Rightarrow> (if season \<le> 0 then s else season, if episode \<le> 0 then e else episode));
          season = (if season \<le> 0 then 1 else season);
          episode = (if episode \<le> 0 \<and> episode_index \<ge> 0 then episode_index + 1 else episode)
      in (season, episode))"

section \<open>Sessions that served an episode\<close>

definition playback_session_matches_continue_target :: "string \<Rightarrow> json \<Rightarrow> string \<Rightarrow> int \<Rightarrow> int \<Rightarrow> bool" where
  "playback_session_matches_continue_target session_key metadata media_type season_number episode_number \<longleftrightarrow>
     (if media_type = ''tv''
      then let (parsed_season, parsed_episode) =
                 (case parse_tv_episode_from_session_key session_key of None \<Rightarrow> (0, 0) | Some p \<Rightarrow> p);
               candidate_season = (case json_number_to_i64 (json_get ''seasonNumber'' metadata) of
                 None \<Rightarrow> parsed_season | Some n \<Rightarrow> n);
               candidate_episode = (case json_number_to_i64 (json_get ''episodeNumber'' metadata) of
                 None \<Rightarrow> parsed_episode | Some n \<Rightarrow> n)
           in season_number > 0 \<and> episode_number > 0 \<and> candidate_season = season_number \<and>
              candidate_episode = episode_number
      else lower (trim (str_field ''mediaType'' metadata)) \<noteq> ''tv'')"

definition continue_watching_resolver_provider :: "json \<Rightarrow> string \<Rightarrow> string" where
  "continue_watching_resolver_provider metadata playable_url =
     (let explicit = lower (trim (str_field ''resolverProvider'' metadata));
          url = lower (trim playable_url)
      in if explicit \<in> {''real-debrid'', ''local-torrent'', ''external-embed''} then explicit
         else if contains url ''download.real-debrid.com'' then ''real-debrid''
         else if contains url ''/api/local-cache/'' \<or> contains url ''/api/local-torrent/'' then ''local-torrent''
         else if contains url ''/api/live/iframe'' \<or> contains url ''/api/embed/'' then ''external-embed''
         else [])"

text \<open>\<open>form\<close> is the crate's parser of a query string into decoded pairs.\<close>

type_synonym form_parser = "string \<Rightarrow> (string \<times> string) list"

definition extract_continue_watching_source_input :: "form_parser \<Rightarrow> string \<Rightarrow> string" where
  "extract_continue_watching_source_input form playable_url =
     (let trimmed = trim playable_url
      in if trimmed = [] then []
         else case split_once CHR ''?'' trimmed of
           None \<Rightarrow> trimmed
         | Some (path, query) \<Rightarrow>
             if ends_with path ''/api/remux'' \<or> path = ''/api/remux''
             then (case find (\<lambda>(key, _). key = ''input'') (form query) of
                     None \<Rightarrow> trimmed | Some (_, v) \<Rightarrow> v)
             else trimmed)"

definition session_metadata :: "json_parser \<Rightarrow> session_row \<Rightarrow> json" where
  "session_metadata parse r = (case parse (sr_metadata_json r) of None \<Rightarrow> JObj [] | Some v \<Rightarrow> v)"

definition metadata_of_row :: "json_parser \<Rightarrow> form_parser \<Rightarrow> session_row \<Rightarrow> cw_metadata" where
  "metadata_of_row parse form r =
     \<lparr>cm_source_hash = lower (trim (sr_source_hash r)), cm_session_key = sr_session_key r,
      cm_resolver_provider = continue_watching_resolver_provider (session_metadata parse r) (sr_playable_url r),
      cm_source_input = extract_continue_watching_source_input form (sr_playable_url r),
      cm_filename = sr_filename r, cm_updated_at = sr_updated_at r, cm_last_accessed_at = sr_last_accessed_at r\<rparr>"

text \<open>\<open>ORDER BY last_accessed_at DESC, updated_at DESC\<close>: two stable sorts.\<close>

definition recently_accessed_first :: "session_row list \<Rightarrow> session_row list" where
  "recently_accessed_first rs = sort_key (\<lambda>r. - sr_last_accessed_at r) (newest_first rs)"

definition latest_continue_watching_playback_session_metadata ::
  "json_parser \<Rightarrow> form_parser \<Rightarrow> session_row list \<Rightarrow> int \<Rightarrow> string \<Rightarrow> string \<Rightarrow> int \<Rightarrow> int \<Rightarrow> cw_metadata option" where
  "latest_continue_watching_playback_session_metadata parse form t user_id tmdb_id media_type season episode =
     (let rows = take 80 (recently_accessed_first
            (filter (\<lambda>r. sr_user_id r = user_id \<and> sr_tmdb_id r = trim tmdb_id \<and>
                         sr_health_state r \<noteq> ''invalid'' \<and> sr_playable_url r \<noteq> []) t))
      in map_option (metadata_of_row parse form)
           (find (\<lambda>r. playback_session_matches_continue_target (sr_session_key r) (session_metadata parse r)
                        (lower (trim media_type)) season episode) rows))"

definition session_by_key_or_hash :: "session_row list \<Rightarrow> int \<Rightarrow> string \<Rightarrow> string \<Rightarrow> session_row option" where
  "session_by_key_or_hash t user_id session_key source_hash =
     (if trim session_key = [] \<and> trim source_hash = [] then None
      else if trim session_key \<noteq> [] then find_row sr_key (user_id, trim session_key) t
      else (case recently_accessed_first (filter (\<lambda>r. sr_user_id r = user_id \<and> sr_source_hash r = trim source_hash) t) of
              [] \<Rightarrow> None | r # _ \<Rightarrow> Some r))"

text \<open>The recursive call is made with an empty session key, so it does not recur again.\<close>

definition continue_watching_playback_session_metadata_for_input ::
  "json_parser \<Rightarrow> form_parser \<Rightarrow> session_row list \<Rightarrow> int \<Rightarrow> string \<Rightarrow> string \<Rightarrow> cw_metadata option" where
  "continue_watching_playback_session_metadata_for_input parse form t user_id session_key source_hash =
     map_option (metadata_of_row parse form)
       (case session_by_key_or_hash t user_id session_key source_hash of
          Some r \<Rightarrow> Some r
        | None \<Rightarrow>
            if trim session_key \<noteq> [] \<and> trim source_hash \<noteq> []
            then session_by_key_or_hash t user_id [] source_hash else None)"

definition continue_watching_session_timestamp :: "cw_metadata \<Rightarrow> int" where
  "continue_watching_session_timestamp m = max (cm_updated_at m) (cm_last_accessed_at m)"

record cw_reconcile_input =
  ri_user_id :: int
  ri_tmdb_id :: string
  ri_media_type :: string
  ri_season_number :: int
  ri_episode_number :: int
  ri_source_hash :: string
  ri_session_key :: string
  ri_resolver_provider :: string
  ri_source_input :: string

definition reconcile_continue_watching_source_metadata ::
  "json_parser \<Rightarrow> form_parser \<Rightarrow> session_row list \<Rightarrow> cw_reconcile_input \<Rightarrow> cw_metadata option" where
  "reconcile_continue_watching_source_metadata parse form t i =
     (if trim (ri_tmdb_id i) = [] then None
      else case latest_continue_watching_playback_session_metadata parse form t (ri_user_id i) (trim (ri_tmdb_id i))
                  (ri_media_type i) (ri_season_number i) (ri_episode_number i) of
        None \<Rightarrow> None
      | Some candidate \<Rightarrow>
          let source_hash = lower (trim (ri_source_hash i));
              session_key = trim (ri_session_key i);
              provider = lower (trim (ri_resolver_provider i))
          in if provider = ''external-embed'' \<and> cm_resolver_provider candidate \<noteq> ''external-embed'' then None
             else if source_hash = [] \<and> session_key = [] \<and> provider = [] then Some candidate
             else if session_key \<noteq> [] \<and> cm_session_key candidate = session_key then Some candidate
             else if source_hash \<noteq> [] \<and> cm_source_hash candidate = source_hash then Some candidate
             else case continue_watching_playback_session_metadata_for_input parse form t (ri_user_id i)
                         session_key source_hash of
               Some current \<Rightarrow>
                 (if continue_watching_session_timestamp candidate > continue_watching_session_timestamp current
                  then Some candidate else None)
             | None \<Rightarrow>
                 let looks_local = provider = ''local-torrent'' \<or> starts_with session_key ''local-torrent:'' \<or>
                       contains (ri_source_input i) ''/api/local-cache/'' \<or>
                       contains (ri_source_input i) ''/api/local-torrent/''
                 in if looks_local \<and> cm_resolver_provider candidate = ''real-debrid'' then Some candidate else None)"

definition annotate_row :: "cw_metadata option \<Rightarrow> continue_row \<Rightarrow> continue_row" where
  "annotate_row m r =
     (case m of
        None \<Rightarrow> r
      | Some m \<Rightarrow> r\<lparr>cw_source_hash := cm_source_hash m, cw_session_key := cm_session_key m,
                     cw_resolver_provider := cm_resolver_provider m, cw_source_input := cm_source_input m,
                     cw_filename := cm_filename m\<rparr>)"

section \<open>Saving\<close>

definition sql_continue_match :: "string \<Rightarrow> string option \<Rightarrow> continue_row \<Rightarrow> bool" where
  "sql_continue_match series_id tmdb_id r \<longleftrightarrow>
     lower (cw_series_id r) = series_id \<or> sql_series_match series_id tmdb_id (cw_source_identity r) \<or>
     (\<exists>v \<in> set_option tmdb_id. cw_tmdb_id r = v \<and> lower (cw_media_type r) = ''tv'')"

definition sql_tmdb_match :: "string \<Rightarrow> continue_row \<Rightarrow> bool" where
  "sql_tmdb_match tmdb_id r \<longleftrightarrow>
     (cw_tmdb_id r = tmdb_id \<and> lower (cw_media_type r) = ''tv'') \<or>
     cw_source_identity r = tmdb_tv_prefix tmdb_id \<or> sql_like (tmdb_tv_prefix tmdb_id @ '':%'') (cw_source_identity r)"

text \<open>The row a client's entry describes, before the reconciliation.\<close>

definition continue_row_of_entry :: "int \<Rightarrow> json \<Rightarrow> int \<Rightarrow> continue_row" where
  "continue_row_of_entry user_id entry now =
     \<lparr>cw_user_id = user_id,
      cw_source_identity = str_field ''sourceIdentity'' entry,
      cw_title = str_field ''title'' entry,
      cw_episode = str_field ''episode'' entry,
      cw_src = str_field ''src'' entry,
      cw_tmdb_id = str_field ''tmdbId'' entry,
      cw_media_type = str_field ''mediaType'' entry,
      cw_series_id = str_field ''seriesId'' entry,
      cw_episode_index = (case Option.bind (json_get ''episodeIndex'' entry) as_i64 of None \<Rightarrow> -1 | Some n \<Rightarrow> n),
      cw_year = str_field ''year'' entry,
      cw_thumb = str_field ''thumb'' entry,
      cw_source_hash = lower (trim (str_field ''sourceHash'' entry)),
      cw_session_key = trim (str_field ''sessionKey'' entry),
      cw_resolver_provider = trim (str_field ''resolverProvider'' entry),
      cw_source_input = trim (str_field ''sourceInput'' entry),
      cw_filename = trim (str_field ''filename'' entry),
      cw_resume_seconds = (case Option.bind (json_get ''resumeSeconds'' entry) as_f64 of None \<Rightarrow> Fin 0 | Some x \<Rightarrow> Fin x),
      cw_updated_at = (case Option.bind (json_get ''updatedAt'' entry) as_i64 of None \<Rightarrow> now | Some n \<Rightarrow> n)\<rparr>"

definition reconcile_row ::
  "json_parser \<Rightarrow> form_parser \<Rightarrow> session_row list \<Rightarrow> json option \<Rightarrow> string \<Rightarrow> string \<Rightarrow> continue_row \<Rightarrow> cw_metadata option" where
  "reconcile_row parse form sessions entry tmdb_id media_type r =
     (let (season, episode) = continue_watching_target_episode (cw_source_identity r) (cw_episode_index r) entry
      in reconcile_continue_watching_source_metadata parse form sessions
           \<lparr>ri_user_id = cw_user_id r, ri_tmdb_id = tmdb_id, ri_media_type = media_type,
            ri_season_number = season, ri_episode_number = episode, ri_source_hash = cw_source_hash r,
            ri_session_key = cw_session_key r, ri_resolver_provider = cw_resolver_provider r,
            ri_source_input = cw_source_input r\<rparr>)"

text \<open>The transaction, given the row with its reconciled metadata.\<close>

definition drop_series :: "continue_row \<Rightarrow> string \<Rightarrow> user_state \<Rightarrow> user_state" where
  "drop_series r series_id db =
     (if series_id = [] then db
      else let tmdb_id = tmdb_tv_id_from_series_id series_id;
               db = tombstone_continue_series db (cw_user_id r) series_id tmdb_id (cw_updated_at r)
                      (Some (cw_source_identity r))
           in db\<lparr>us_continue := delete_where
                   (\<lambda>q. cw_user_id q = cw_user_id r \<and> cw_source_identity q \<noteq> cw_source_identity r \<and>
                        sql_continue_match series_id tmdb_id q) (us_continue db)\<rparr>)"

definition drop_title :: "continue_row \<Rightarrow> string \<Rightarrow> string \<Rightarrow> user_state \<Rightarrow> user_state" where
  "drop_title r media_type tmdb_id db =
     (if media_type = ''tv'' \<and> tmdb_id \<noteq> []
      then let db = tombstone_continue_series db (cw_user_id r) (''tmdb-tv-'' @ tmdb_id) (Some tmdb_id)
                      (cw_updated_at r) (Some (cw_source_identity r))
           in db\<lparr>us_continue := delete_where
                   (\<lambda>q. cw_user_id q = cw_user_id r \<and> cw_source_identity q \<noteq> cw_source_identity r \<and>
                        sql_tmdb_match tmdb_id q) (us_continue db)\<rparr>
      else db)"

definition upsert_continue_row :: "continue_row \<Rightarrow> user_state \<Rightarrow> user_state" where
  "upsert_continue_row r db =
     db\<lparr>us_continue := upsert cw_key
          (\<lambda>old new. if cw_updated_at new \<ge> cw_updated_at old then new else old) r (us_continue db)\<rparr>"

definition save_continue_row :: "continue_row \<Rightarrow> user_state \<Rightarrow> user_state" where
  "save_continue_row r db =
     (let series_id = lower (trim (cw_series_id r));
          media_type = lower (trim (cw_media_type r));
          tmdb_id = trim (cw_tmdb_id r);
          canonical_tmdb_id = (if media_type = ''tv'' \<and> tmdb_id \<noteq> [] then Some tmdb_id
                               else tmdb_tv_id_from_series_id series_id)
      in if (series_id \<noteq> [] \<or> canonical_tmdb_id \<noteq> None) \<and>
            latest_continue_series_updated_at db (cw_user_id r) series_id canonical_tmdb_id > cw_updated_at r
         then db
         else if mutation_is_blocked_by_tombstone db (cw_user_id r) CONTINUE_WATCHING_DOMAIN (cw_source_identity r)
                   (cw_updated_at r)
         then db
         else upsert_continue_row r (drop_title r media_type tmdb_id (drop_series r series_id
                (clear_obsolete_tombstone db (cw_user_id r) CONTINUE_WATCHING_DOMAIN (cw_source_identity r)
                   (cw_updated_at r)))))"

definition upsert_user_continue_watching ::
  "json_parser \<Rightarrow> form_parser \<Rightarrow> session_row list \<Rightarrow> user_state \<Rightarrow> int \<Rightarrow> json \<Rightarrow> int \<Rightarrow> user_state" where
  "upsert_user_continue_watching parse form sessions db user_id entry now =
     (let r = continue_row_of_entry user_id entry now
      in save_continue_row
           (annotate_row (reconcile_row parse form sessions (Some entry) (trim (cw_tmdb_id r))
              (lower (trim (cw_media_type r))) r) r) db)"

section \<open>Reading\<close>

definition stored_continue_row :: "continue_row \<Rightarrow> continue_row" where
  "stored_continue_row r =
     r\<lparr>cw_source_hash := lower (trim (cw_source_hash r)), cw_session_key := trim (cw_session_key r),
       cw_resolver_provider := trim (cw_resolver_provider r), cw_source_input := trim (cw_source_input r),
       cw_filename := trim (cw_filename r)\<rparr>"

definition get_user_continue_watching ::
  "json_parser \<Rightarrow> form_parser \<Rightarrow> session_row list \<Rightarrow> user_state \<Rightarrow> int \<Rightarrow> continue_row list" where
  "get_user_continue_watching parse form sessions db user_id =
     map (\<lambda>r. let r = stored_continue_row r
              in annotate_row (reconcile_row parse form sessions None (cw_tmdb_id r) (cw_media_type r) r) r)
       (sort_key (\<lambda>r. - cw_updated_at r) (filter (\<lambda>r. cw_user_id r = user_id) (us_continue db)))"


section \<open>My list\<close>

record my_list_row =
  ml_user_id :: int
  ml_item_identity :: string
  ml_details_json :: string
  ml_added_at :: int

definition ml_key :: "my_list_row \<Rightarrow> int \<times> string" where
  "ml_key r = (ml_user_id r, ml_item_identity r)"

text \<open>\<open>Map::insert\<close>: replaces the entry of the key where it stands, or adds one.\<close>

definition json_insert :: "string \<Rightarrow> json \<Rightarrow> json \<Rightarrow> json" where
  "json_insert k v obj =
     (case obj of
        JObj kvs \<Rightarrow> JObj (if k \<in> fst ` set kvs then map (\<lambda>(k', v'). if k' = k then (k', v) else (k', v')) kvs
                         else kvs @ [(k, v)])
      | other \<Rightarrow> other)"

definition get_user_my_list :: "json_parser \<Rightarrow> my_list_row list \<Rightarrow> int \<Rightarrow> json list" where
  "get_user_my_list parse t user_id =
     map (\<lambda>r. json_insert ''addedAt'' (JInt (ml_added_at r)) (json_insert ''itemIdentity'' (JStr (ml_item_identity r))
            (case parse (ml_details_json r) of None \<Rightarrow> JObj [] | Some v \<Rightarrow> v)))
       (sort_key (\<lambda>r. - ml_added_at r) (filter (\<lambda>r. ml_user_id r = user_id) t))"

text \<open>The insertions of the transaction; a second row for one item breaks the primary key.\<close>

fun insert_my_list ::
  "(json \<Rightarrow> string) \<Rightarrow> int \<Rightarrow> int \<Rightarrow> json list \<Rightarrow> my_list_row list \<Rightarrow> my_list_row list option" where
  "insert_my_list print user_id now [] t = Some t"
| "insert_my_list print user_id now (entry # entries) t =
     (let item_identity = str_field ''itemIdentity'' entry
      in if item_identity = [] then insert_my_list print user_id now entries t
         else if find_row ml_key (user_id, item_identity) t \<noteq> None then None
         else insert_my_list print user_id now entries
           (t @ [\<lparr>ml_user_id = user_id, ml_item_identity = item_identity, ml_details_json = print entry,
                  ml_added_at = (case Option.bind (json_get ''addedAt'' entry) as_i64 of None \<Rightarrow> now | Some n \<Rightarrow> n)\<rparr>]))"

text \<open>The outcome and the table; a broken constraint rolls the transaction back.\<close>

definition replace_user_my_list ::
  "(json \<Rightarrow> string) \<Rightarrow> my_list_row list \<Rightarrow> int \<Rightarrow> json list \<Rightarrow> int \<Rightarrow> bool \<times> my_list_row list" where
  "replace_user_my_list print t user_id entries now =
     (case insert_my_list print user_id now entries (delete_where (\<lambda>r. ml_user_id r = user_id) t) of
        None \<Rightarrow> (False, t)
      | Some t' \<Rightarrow> (True, t'))"

section \<open>One row per title\<close>

definition is_tv_row :: "continue_row \<Rightarrow> bool" where
  "is_tv_row r \<longleftrightarrow> lower (cw_media_type r) = ''tv''"

definition same_title :: "continue_row \<Rightarrow> continue_row \<Rightarrow> bool" where
  "same_title r q \<longleftrightarrow> cw_user_id r = cw_user_id q \<and>
     ((is_tv_row r \<and> is_tv_row q \<and> cw_tmdb_id r \<noteq> [] \<and> cw_tmdb_id r = cw_tmdb_id q) \<or>
      (cw_series_id r \<noteq> [] \<and> lower (cw_series_id r) = lower (cw_series_id q)))"

definition continue_inv :: "user_state \<Rightarrow> bool" where
  "continue_inv db \<longleftrightarrow> keyed cw_key (us_continue db) \<and>
     (\<forall>r \<in> set (us_continue db). \<forall>q \<in> set (us_continue db). same_title r q \<longrightarrow> r = q)"

definition trimmed_row :: "continue_row \<Rightarrow> bool" where
  "trimmed_row r \<longleftrightarrow> trim (cw_tmdb_id r) = cw_tmdb_id r \<and> trim (cw_media_type r) = cw_media_type r \<and>
     trim (cw_series_id r) = cw_series_id r"

lemma same_title_sym: "same_title r q \<Longrightarrow> same_title q r"
  by (auto simp: same_title_def dest: arg_cong [of _ _ "\<lambda>s. s = []"])

lemma continue_inv_subset:
  assumes "continue_inv db" and "set (us_continue db') \<subseteq> set (us_continue db)" and "keyed cw_key (us_continue db')"
  shows "continue_inv db'"
  using assms by (auto simp: continue_inv_def)

lemma us_continue_fold_tombstone [simp]:
  "us_continue (tombstone_continue_series db u s tm d ex) = us_continue db"
proof -
  have "us_continue (fold (\<lambda>r db. if ex = Some (cw_source_identity r) then db
      else if continue_row_in_series s tm r then record_tombstone db u CONTINUE_WATCHING_DOMAIN (cw_source_identity r) d
      else db) rs db) = us_continue db" for rs
    by (induction rs arbitrary: db) auto
  then show ?thesis by (simp add: tombstone_continue_series_def)
qed

lemma drop_series_rows:
  "us_continue (drop_series r s db) = filter (\<lambda>q. \<not> (s \<noteq> [] \<and> cw_user_id q = cw_user_id r \<and>
     cw_source_identity q \<noteq> cw_source_identity r \<and> sql_continue_match s (tmdb_tv_id_from_series_id s) q)) (us_continue db)"
  by (simp add: drop_series_def Let_def delete_where_def)

lemma drop_title_rows:
  "us_continue (drop_title r m t db) = filter (\<lambda>q. \<not> (m = ''tv'' \<and> t \<noteq> [] \<and> cw_user_id q = cw_user_id r \<and>
     cw_source_identity q \<noteq> cw_source_identity r \<and> sql_tmdb_match t q)) (us_continue db)"
  by (simp add: drop_title_def Let_def delete_where_def)

lemma set_upsert_continue:
  "x \<in> set (us_continue (upsert_continue_row r db)) \<Longrightarrow> x = r \<or> x \<in> set (us_continue db)"
  by (auto simp: upsert_continue_row_def upsert_def split: if_splits)

lemma cw_key_pick [simp]: "cw_key (if P then new else old) = (if P then cw_key new else cw_key old)"
  by simp

lemma keyed_upsert_continue:
  assumes "keyed cw_key (us_continue db)"
  shows "keyed cw_key (us_continue (upsert_continue_row r db))"
proof -
  have "map cw_key (map (\<lambda>q. if cw_key q = cw_key r then (if cw_updated_at q \<le> cw_updated_at r then r else q) else q)
      (us_continue db)) = map cw_key (us_continue db)"
    by simp
  with assms show ?thesis
    by (auto simp: upsert_continue_row_def upsert_def keyed_def simp del: map_map)
qed

lemma save_keeps_continue_inv:
  assumes inv: "continue_inv db" and trimmed: "trimmed_row r"
  shows "continue_inv (save_continue_row r db)"
proof -
  let ?s = "lower (trim (cw_series_id r))" and ?m = "lower (trim (cw_media_type r))" and ?t = "trim (cw_tmdb_id r)"
  let ?d = "drop_title r ?m ?t (drop_series r ?s (clear_obsolete_tombstone db (cw_user_id r) CONTINUE_WATCHING_DOMAIN
      (cw_source_identity r) (cw_updated_at r)))"
  have keep: "set (us_continue ?d) \<subseteq> set (us_continue db)" by (auto simp: drop_title_rows drop_series_rows)
  have keyed: "keyed cw_key (us_continue ?d)" using inv by (simp add: drop_title_rows drop_series_rows continue_inv_def)
  have d: "continue_inv ?d" using continue_inv_subset [OF inv keep keyed] .
  have other: "\<not> same_title q r" if "q \<in> set (us_continue ?d)" "cw_key q \<noteq> cw_key r" for q
    using that trimmed
    by (auto simp: same_title_def drop_title_rows drop_series_rows sql_continue_match_def sql_tmdb_match_def
        cw_key_def trimmed_row_def is_tv_row_def)
  have "continue_inv (upsert_continue_row r ?d)"
    unfolding continue_inv_def
  proof (intro conjI ballI impI)
    show k: "keyed cw_key (us_continue (upsert_continue_row r ?d))" using keyed by (rule keyed_upsert_continue)
    fix x y assume x: "x \<in> set (us_continue (upsert_continue_row r ?d))" and y: "y \<in> set (us_continue (upsert_continue_row r ?d))"
      and same: "same_title x y"
    show "x = y"
    proof (cases "cw_key x = cw_key y")
      case True
      with k x y show ?thesis by (metis keyed_inj)
    next
      case False
      then show ?thesis
        using set_upsert_continue [OF x] set_upsert_continue [OF y] other same same_title_sym [OF same] d
        unfolding continue_inv_def by metis
    qed
  qed
  with inv show ?thesis by (auto simp: save_continue_row_def Let_def)
qed

lemma delete_keeps_continue_inv:
  "continue_inv db \<Longrightarrow> continue_inv (delete_user_continue_watching db u i d)"
  by (rule continue_inv_subset) (auto simp: delete_user_continue_watching_def delete_item_def Let_def continue_inv_def)

lemma delete_series_keeps_continue_inv:
  "continue_inv db \<Longrightarrow> continue_inv (delete_user_continue_watching_for_series db u s d)"
  by (rule continue_inv_subset) (auto simp: delete_user_continue_watching_for_series_def Let_def continue_inv_def)

lemma us_continue_progress_ops [simp]:
  "us_continue (upsert_user_watch_progress db u i v t) = us_continue db"
  "us_continue (delete_user_watch_progress db u i t) = us_continue db"
  by (simp_all add: upsert_user_watch_progress_def upsert_watch_progress_def delete_user_watch_progress_def
      delete_item_def Let_def)

section \<open>Where the code falls short\<close>

text \<open>
  A television entry that names its title but no series is compared with every row of the
  user that names no series either, movies included: one of them being newer makes the
  save a no-op.
\<close>

theorem unrelated_row_blocks_save:
  assumes "is_tv_row r" and "trimmed_row r" and "cw_tmdb_id r \<noteq> []" and "cw_series_id r = []"
    and "q \<in> set (us_continue db)" and "cw_user_id q = cw_user_id r" and "cw_series_id q = []"
    and "cw_updated_at r < cw_updated_at q"
  shows "save_continue_row r db = db"
proof -
  have q: "cw_updated_at q \<in> set (map cw_updated_at (filter (continue_row_in_series [] (Some (cw_tmdb_id r)))
      (filter (\<lambda>r'. cw_user_id r' = cw_user_id r) (us_continue db))))" (is "_ \<in> set ?ts")
    using assms by (auto simp: continue_row_in_series_def)
  then have "?ts \<noteq> []" by (metis empty_iff list.set(1))
  then have "latest_continue_series_updated_at db (cw_user_id r) [] (Some (cw_tmdb_id r)) = Max (set ?ts)"
    unfolding latest_continue_series_updated_at_def by (simp split: list.split del: list.map set_map)
  then have "cw_updated_at q \<le> latest_continue_series_updated_at db (cw_user_id r) [] (Some (cw_tmdb_id r))"
    using q by simp
  with assms show ?thesis
    by (simp add: save_continue_row_def Let_def is_tv_row_def trimmed_row_def)
qed

text \<open>A list that names an item twice is refused as a whole and the stored list stays.\<close>

lemma my_list_duplicate_refused:
  assumes "str_field ''itemIdentity'' e \<noteq> []" and "str_field ''itemIdentity'' e' = str_field ''itemIdentity'' e"
  shows "replace_user_my_list print t u [e, e'] now = (False, t)"
  using assms by (simp add: replace_user_my_list_def Let_def ml_key_def find_row_append split: option.split)

end
