(* ===== verification/UserSettings.thy ===== *)
theory UserSettings
  imports SecretStore ContinueWatching AuthHandlers
begin

text \<open>
  \<open>src/routes/user_settings.rs\<close> and the user-data handlers of \<open>src/routes.rs\<close>: settings,
  the Real-Debrid credential, watch progress, continue watching, my list, the bulk sync of a
  device, live-watch events and feedback. Each handler authenticates the request, sanitises
  its JSON body and runs the operations of the stores in the order of the source. Base64
  and the verification of a credential by the remote service are fields of the environment.
\<close>

section \<open>State and environment\<close>

record live_watch_row =
  lw_user_id :: int
  lw_title :: string
  lw_category :: string
  lw_source_identity :: string
  lw_created_at :: int

record feedback_row =
  fb_user_id :: int
  fb_email :: string
  fb_display_name :: string
  fb_message :: string
  fb_image_data :: "string option"
  fb_image_mime :: string
  fb_created_at :: int

record user_data =
  ud_state :: user_state
  ud_prefs :: "pref_row list"
  ud_sessions :: "session_row list"
  ud_my_list :: "my_list_row list"
  ud_live_watch :: "live_watch_row list"
  ud_feedback :: "feedback_row list"

record settings_env =
  se_print :: "json \<Rightarrow> string"
  se_form :: form_parser
  se_crypto :: crypto_env
  se_cipher :: token_cipher
  se_random :: "string option"
  se_validate_real_debrid_api_key :: "int \<Rightarrow> string \<Rightarrow> string \<Rightarrow> unit app_result"
  se_decode_base64 :: "string \<Rightarrow> string option"

definition LOCAL_TORRENT_ENABLED_PREF_KEY :: string where
  "LOCAL_TORRENT_ENABLED_PREF_KEY = ''streamarena-local-torrent-enabled''"
definition REAL_DEBRID_ENABLED_PREF_KEY :: string where
  "REAL_DEBRID_ENABLED_PREF_KEY = ''streamarena-real-debrid-enabled''"
definition USER_PREF_MAX_ENTRIES :: nat where "USER_PREF_MAX_ENTRIES = 200"
definition USER_PREF_KEY_MAX_BYTES :: nat where "USER_PREF_KEY_MAX_BYTES = 128"
definition USER_PREF_VALUE_MAX_BYTES :: nat where "USER_PREF_VALUE_MAX_BYTES = 2000000"
definition USER_SYNC_MAX_ENTRIES :: nat where "USER_SYNC_MAX_ENTRIES = 500"
definition USER_IDENTITY_MAX_BYTES :: nat where "USER_IDENTITY_MAX_BYTES = 512"
definition USER_URL_MAX_BYTES :: nat where "USER_URL_MAX_BYTES = 4096"
definition USER_SMALL_TEXT_MAX_BYTES :: nat where "USER_SMALL_TEXT_MAX_BYTES = 256"
definition MAX_RESUME_SECONDS :: rat where "MAX_RESUME_SECONDS = 31536000"
definition FEEDBACK_IMAGE_MAX_BYTES :: nat where "FEEDBACK_IMAGE_MAX_BYTES = 5 * 1024 * 1024"

section \<open>Sanitising\<close>

definition is_secret_user_preference_key :: "string \<Rightarrow> bool" where
  "is_secret_user_preference_key key \<longleftrightarrow> lower (trim key) = lower REAL_DEBRID_TOKEN_PREF_KEY"

definition bounded_trimmed_string :: "string \<Rightarrow> nat \<Rightarrow> string option" where
  "bounded_trimmed_string val max_bytes =
     (if trim val = [] \<or> length (trim val) > max_bytes then None else Some (trim val))"

definition bounded_string_field :: "json \<Rightarrow> string \<Rightarrow> nat \<Rightarrow> string option" where
  "bounded_string_field payload field max_bytes =
     Option.bind (Option.bind (json_get field payload) as_str) (\<lambda>v. bounded_trimmed_string v max_bytes)"

definition require_bounded_string_field :: "json \<Rightarrow> string \<Rightarrow> nat \<Rightarrow> string app_result" where
  "require_bounded_string_field payload field max_bytes =
     (case bounded_string_field payload field max_bytes of
        Some v \<Rightarrow> Inr v
      | None \<Rightarrow> Inl (bad_request (''Missing or invalid '' @ field @ ''; limit is '' @ show_nat max_bytes @ '' bytes.'')))"

text \<open>A JSON number is finite, so the \<open>else\<close> of the source is not reached.\<close>

definition normalize_resume_seconds_value :: "json option \<Rightarrow> rat" where
  "normalize_resume_seconds_value v =
     (let seconds = (case Option.bind v as_f64 of None \<Rightarrow> 0 | Some x \<Rightarrow> x)
      in min (max seconds 0) MAX_RESUME_SECONDS)"

definition MAX_FUTURE_SKEW_MS :: int where "MAX_FUTURE_SKEW_MS = 24 * 60 * 60 * 1000"

definition normalize_user_updated_at :: "int \<Rightarrow> json option \<Rightarrow> int" where
  "normalize_user_updated_at now v =
     (let candidate = (case Option.bind v as_i64 of None \<Rightarrow> now | Some n \<Rightarrow> n)
      in if candidate \<le> 0 then now else min candidate (now + MAX_FUTURE_SKEW_MS))"

definition insert_bounded_string :: "json \<Rightarrow> nat \<Rightarrow> string \<Rightarrow> (string \<times> json) list" where
  "insert_bounded_string entry max_bytes field =
     (case bounded_string_field entry field max_bytes of None \<Rightarrow> [] | Some v \<Rightarrow> [(field, JStr v)])"

definition insert_bounded_i64 :: "json \<Rightarrow> string \<Rightarrow> int \<Rightarrow> int \<Rightarrow> (string \<times> json) list" where
  "insert_bounded_i64 entry field lo hi =
     (case Option.bind (json_get field entry) as_i64 of None \<Rightarrow> [] | Some n \<Rightarrow> [(field, JInt (min (max n lo) hi))])"

text \<open>The loop over the object's entries, with the list built so far.\<close>

fun preference_entries ::
  "(json \<Rightarrow> string) \<Rightarrow> (string \<times> json) list \<Rightarrow> (string \<times> string) list \<Rightarrow> (string \<times> string) list" where
  "preference_entries print [] entries = entries"
| "preference_entries print ((key, v) # prefs) entries =
     (if length entries \<ge> USER_PREF_MAX_ENTRIES \<or> is_secret_user_preference_key key
      then preference_entries print prefs entries
      else case bounded_trimmed_string key USER_PREF_KEY_MAX_BYTES of
        None \<Rightarrow> preference_entries print prefs entries
      | Some k \<Rightarrow>
          let text = (case v of JStr s \<Rightarrow> trim s | other \<Rightarrow> print other)
          in if length text > USER_PREF_VALUE_MAX_BYTES then preference_entries print prefs entries
             else preference_entries print prefs (entries @ [(k, text)]))"

definition user_preference_entries_from_object ::
  "(json \<Rightarrow> string) \<Rightarrow> (string \<times> json) list \<Rightarrow> (string \<times> string) list" where
  "user_preference_entries_from_object print prefs = preference_entries print prefs []"

text \<open>\<open>bounded_string_field(..).or_else(..)\<close>\<close>

definition identity_or_fallback :: "json \<Rightarrow> string option \<Rightarrow> string option" where
  "identity_or_fallback entry fallback =
     (case bounded_string_field entry ''sourceIdentity'' USER_IDENTITY_MAX_BYTES of
        Some v \<Rightarrow> Some v
      | None \<Rightarrow> Option.bind fallback (\<lambda>v. bounded_trimmed_string v USER_IDENTITY_MAX_BYTES))"

definition resume_field :: "json \<Rightarrow> rat" where
  "resume_field entry =
     normalize_resume_seconds_value
       (case json_get ''resumeSeconds'' entry of Some v \<Rightarrow> Some v | None \<Rightarrow> Some entry)"

definition sanitize_watch_progress_entry :: "int \<Rightarrow> json \<Rightarrow> string option \<Rightarrow> json option" where
  "sanitize_watch_progress_entry now entry fallback =
     map_option (\<lambda>source_identity. JObj
        [(''sourceIdentity'', JStr source_identity),
         (''resumeSeconds'', JFloat (resume_field entry)),
         (''updatedAt'', JInt (normalize_user_updated_at now (json_get ''updatedAt'' entry)))])
       (identity_or_fallback entry fallback)"

definition sanitize_continue_watching_entry :: "int \<Rightarrow> json \<Rightarrow> string option \<Rightarrow> json option" where
  "sanitize_continue_watching_entry now entry fallback =
     map_option (\<lambda>source_identity. JObj
        ([(''sourceIdentity'', JStr source_identity)] @
         concat (map (insert_bounded_string entry USER_SMALL_TEXT_MAX_BYTES)
           [''title'', ''episode'', ''tmdbId'', ''mediaType'', ''seriesId'', ''year'', ''sourceHash'',
            ''sessionKey'', ''resolverProvider'', ''filename'']) @
         concat (map (insert_bounded_string entry USER_URL_MAX_BYTES) [''src'', ''thumb'', ''sourceInput'']) @
         insert_bounded_i64 entry ''episodeIndex'' (-1) 1000000 @
         [(''resumeSeconds'', JFloat (resume_field entry)),
          (''updatedAt'', JInt (normalize_user_updated_at now (json_get ''updatedAt'' entry)))]))
       (identity_or_fallback entry fallback)"

definition sanitize_my_list_entry :: "int \<Rightarrow> json \<Rightarrow> json option" where
  "sanitize_my_list_entry now entry =
     map_option (\<lambda>item_identity. JObj
        ([(''itemIdentity'', JStr item_identity)] @
         concat (map (insert_bounded_string entry USER_SMALL_TEXT_MAX_BYTES)
           [''title'', ''episode'', ''tmdbId'', ''mediaType'', ''seriesId'', ''year'', ''libraryType'', ''libraryId'']) @
         concat (map (insert_bounded_string entry USER_URL_MAX_BYTES) [''src'', ''thumb'', ''librarySrc'']) @
         insert_bounded_i64 entry ''episodeIndex'' (-1) 1000000 @
         [(''addedAt'', JInt (normalize_user_updated_at now (json_get ''addedAt'' entry)))]))
       (bounded_string_field entry ''itemIdentity'' USER_IDENTITY_MAX_BYTES)"

definition sanitize_my_list_entries :: "int \<Rightarrow> json list \<Rightarrow> json list" where
  "sanitize_my_list_entries now entries =
     List.map_filter (sanitize_my_list_entry now) (take USER_SYNC_MAX_ENTRIES entries)"

definition normalize_sync_watch_progress_entries :: "int \<Rightarrow> json option \<Rightarrow> json list" where
  "normalize_sync_watch_progress_entries now v =
     (case v of
        Some (JArr entries) \<Rightarrow>
          List.map_filter (\<lambda>e. sanitize_watch_progress_entry now e None) (take USER_SYNC_MAX_ENTRIES entries)
      | Some (JObj entries) \<Rightarrow>
          List.map_filter (\<lambda>(k, e). sanitize_watch_progress_entry now e (Some k)) (take USER_SYNC_MAX_ENTRIES entries)
      | _ \<Rightarrow> [])"

definition normalize_sync_continue_watching_entries :: "int \<Rightarrow> json option \<Rightarrow> json list" where
  "normalize_sync_continue_watching_entries now v =
     (case v of
        Some (JArr entries) \<Rightarrow>
          List.map_filter (\<lambda>e. sanitize_continue_watching_entry now e None) (take USER_SYNC_MAX_ENTRIES entries)
      | Some (JObj entries) \<Rightarrow>
          List.map_filter (\<lambda>(k, e). sanitize_continue_watching_entry now e (Some k)) (take USER_SYNC_MAX_ENTRIES entries)
      | _ \<Rightarrow> [])"

text \<open>\<open>str::split_once\<close> with a string.\<close>

fun split_once_str :: "string \<Rightarrow> string \<Rightarrow> (string \<times> string) option" where
  "split_once_str sep [] = (if sep = [] then Some ([], []) else None)"
| "split_once_str sep (c # s) =
     (if starts_with (c # s) sep then Some ([], drop (length sep) (c # s))
      else map_option (\<lambda>(a, b). (c # a, b)) (split_once_str sep s))"

definition extract_series_id_from_source_identity :: "string \<Rightarrow> string" where
  "extract_series_id_from_source_identity source_identity =
     (case strip_prefix ''series:'' (trim source_identity) of
        None \<Rightarrow> []
      | Some rest \<Rightarrow>
          (case split_once_str '':episode:'' rest of
             None \<Rightarrow> []
           | Some (series_id, _) \<Rightarrow> lower (trim series_id)))"

text \<open>The series a deletion names, or the one its item belongs to.\<close>

definition deletion_series :: "json \<Rightarrow> string \<Rightarrow> string" where
  "deletion_series payload source_identity =
     (let s = trim (str_field ''seriesId'' payload)
      in if s \<noteq> [] then lower s else extract_series_id_from_source_identity source_identity)"

section \<open>The Real-Debrid credential\<close>

definition normalize_bool_preference :: "string \<Rightarrow> bool" where
  "normalize_bool_preference v \<longleftrightarrow> lower (trim v) \<in> {''1'', ''true'', ''yes'', ''on'', ''enabled''}"

fun normalize_bool_json_value :: "json \<Rightarrow> bool" where
  "normalize_bool_json_value (JBool b) = b"
| "normalize_bool_json_value (JStr s) = normalize_bool_preference s"
| "normalize_bool_json_value (JInt n) = (i64_range n \<and> n \<noteq> 0)"
| "normalize_bool_json_value _ = False"

definition normalize_real_debrid_api_key :: "string \<Rightarrow> string" where
  "normalize_real_debrid_api_key v = trim v"

definition is_valid_real_debrid_api_key :: "string \<Rightarrow> bool" where
  "is_valid_real_debrid_api_key v \<longleftrightarrow>
     (let normalized = normalize_real_debrid_api_key v
      in 16 \<le> length normalized \<and> length normalized \<le> 512 \<and> list_all (\<lambda>c. (of_char c :: nat) < 128) normalized \<and>
         \<not> list_ex is_whitespace normalized \<and>
         lower normalized \<notin> {''your_real_debrid_api_token_here'', ''real_debrid_token'', ''test'', ''demo''})"

definition mask_real_debrid_api_key :: "string \<Rightarrow> string" where
  "mask_real_debrid_api_key v =
     (let normalized = normalize_real_debrid_api_key v
      in if normalized = [] then [] else if length normalized \<le> 10 then ''****''
         else take 4 normalized @ ''****'' @ drop (length normalized - 4) normalized)"

definition effective_real_debrid_enabled :: "string option \<Rightarrow> bool \<Rightarrow> bool" where
  "effective_real_debrid_enabled stored configured \<longleftrightarrow>
     configured \<and> (case stored of None \<Rightarrow> True | Some v \<Rightarrow> normalize_bool_preference v)"

definition real_debrid_enabled_for_user :: "pref_row list \<Rightarrow> int \<Rightarrow> bool \<Rightarrow> bool" where
  "real_debrid_enabled_for_user t user_id configured \<longleftrightarrow>
     configured \<and> effective_real_debrid_enabled (get_user_preference t user_id REAL_DEBRID_ENABLED_PREF_KEY) configured"

definition decrypt_real_debrid_api_key :: "settings_env \<Rightarrow> int \<Rightarrow> string option \<Rightarrow> string app_result" where
  "decrypt_real_debrid_api_key env user_id stored_value =
     (case stored_value of
        None \<Rightarrow> Inr []
      | Some stored \<Rightarrow>
          (case decrypt_for_user (se_crypto env) (se_cipher env) user_id stored of
             Inl e \<Rightarrow> Inl e
           | Inr v \<Rightarrow> Inr (let normalized = normalize_real_debrid_api_key v
                          in if is_valid_real_debrid_api_key normalized then normalized else [])))"

definition real_debrid_api_key_for_user :: "settings_env \<Rightarrow> pref_row list \<Rightarrow> int \<Rightarrow> string app_result" where
  "real_debrid_api_key_for_user env t user_id =
     (let stored_value = get_user_preference t user_id REAL_DEBRID_TOKEN_PREF_KEY
      in if \<not> real_debrid_enabled_for_user t user_id (stored_value \<noteq> None) then Inr []
         else decrypt_real_debrid_api_key env user_id stored_value)"

definition configured_real_debrid_api_key_for_user :: "settings_env \<Rightarrow> pref_row list \<Rightarrow> int \<Rightarrow> string app_result" where
  "configured_real_debrid_api_key_for_user env t user_id =
     decrypt_real_debrid_api_key env user_id (get_user_preference t user_id REAL_DEBRID_TOKEN_PREF_KEY)"

definition real_debrid_api_key_required_error :: api_error where
  "real_debrid_api_key_required_error =
     failed_dependency ''Enable Real-Debrid and add an API token in Settings to use cached streaming.''"

definition local_torrent_required_error :: api_error where
  "local_torrent_required_error = failed_dependency ''Enable Torrent streaming in Settings to use magnet sources.''"

definition plan_real_debrid_update :: "bool \<Rightarrow> bool option \<Rightarrow> bool option \<Rightarrow> (bool \<times> bool) app_result" where
  "plan_real_debrid_update configured_before api_key_configured_update requested_enabled =
     (let configured_after = (case api_key_configured_update of None \<Rightarrow> configured_before | Some b \<Rightarrow> b);
          enabled_after = (case requested_enabled of None \<Rightarrow> configured_after | Some b \<Rightarrow> b)
      in if enabled_after \<and> \<not> configured_after then Inl real_debrid_api_key_required_error
         else Inr (configured_after, enabled_after))"

definition local_torrent_enabled_for_user :: "pref_row list \<Rightarrow> int \<Rightarrow> bool" where
  "local_torrent_enabled_for_user t user_id =
     (case get_user_preference t user_id LOCAL_TORRENT_ENABLED_PREF_KEY of
        None \<Rightarrow> False | Some v \<Rightarrow> normalize_bool_preference v)"

section \<open>Handlers\<close>

type_synonym caller = "auth_user app_result"

definition ok_reply :: json where
  "ok_reply = JObj [(''ok'', JBool True)]"

definition user_preferences_handler ::
  "auth_env \<Rightarrow> settings_env \<Rightarrow> int \<Rightarrow> caller \<Rightarrow> request \<Rightarrow> user_data \<Rightarrow> json app_result \<times> user_data" where
  "user_preferences_handler aenv env now caller rq d =
     (case caller of
        Inl e \<Rightarrow> (Inl e, d)
      | Inr user \<Rightarrow>
      if rq_method rq = ''GET'' then
        (Inr (JObj (map (\<lambda>(k, v). (k, JStr v))
           (filter (\<lambda>(k, v). \<not> is_secret_user_preference_key k) (get_user_preferences (ud_prefs d) (au_id user))))), d)
      else if rq_method rq = ''PUT'' then
        (case parse_json_body aenv rq of
           Inl e \<Rightarrow> (Inl e, d)
         | Inr (JObj obj) \<Rightarrow>
             (Inr ok_reply, d\<lparr>ud_prefs := upsert_user_preferences (ud_prefs d) (au_id user)
                (user_preference_entries_from_object (se_print env) obj) now\<rparr>)
         | Inr _ \<Rightarrow> (Inl (bad_request ''Body must be a JSON object.''), d))
      else (Inl (method_not_allowed ''Method not allowed. Use GET or PUT.''), d))"

text \<open>The answer both methods of the credential's handler end with.\<close>

definition real_debrid_status :: "settings_env \<Rightarrow> pref_row list \<Rightarrow> int \<Rightarrow> (string \<times> json) list app_result" where
  "real_debrid_status env t user_id =
     (case configured_real_debrid_api_key_for_user env t user_id of
        Inl e \<Rightarrow> Inl e
      | Inr api_key \<Rightarrow>
          let configured = (api_key \<noteq> []);
              enabled = real_debrid_enabled_for_user t user_id configured
          in Inr [(''configured'', JBool configured), (''enabled'', JBool enabled), (''realDebridEnabled'', JBool enabled),
                  (''maskedApiKey'', JStr (mask_real_debrid_api_key api_key)),
                  (''localTorrentEnabled'', JBool (local_torrent_enabled_for_user t user_id))])"

text \<open>The \<open>apiKey\<close> of a payload: absent, a string, or something else.\<close>

fun api_key_of_field :: "json option \<Rightarrow> string option app_result" where
  "api_key_of_field None = Inr None"
| "api_key_of_field (Some (JStr v)) = Inr (Some (normalize_real_debrid_api_key v))"
| "api_key_of_field (Some _) = Inl (bad_request ''Real-Debrid apiKey must be a string; use an empty string to clear it.'')"

text \<open>What the update does to the stored token: nothing, or clear it, or replace it.\<close>

definition token_change ::
  "settings_env \<Rightarrow> int \<Rightarrow> string \<Rightarrow> string option \<Rightarrow> string option option app_result" where
  "token_change env user_id client_ip api_key =
     (case api_key of
        None \<Rightarrow> Inr None
      | Some key \<Rightarrow>
          if key = [] then Inr (Some None)
          else if \<not> is_valid_real_debrid_api_key key
          then Inl (bad_request ''Enter a valid Real-Debrid API token from Settings > API token.'')
          else (case se_validate_real_debrid_api_key env user_id client_ip key of
                  Inl e \<Rightarrow> Inl e
                | Inr _ \<Rightarrow>
                    (case encrypt_for_user (se_crypto env) (se_cipher env) (se_random env) user_id key of
                       Inl e \<Rightarrow> Inl e
                     | Inr stored \<Rightarrow> Inr (Some (Some stored)))))"

definition flag_text :: "bool \<Rightarrow> string" where
  "flag_text b = (if b then ''1'' else ''0'')"

definition preference_changes ::
  "json \<Rightarrow> string option option \<Rightarrow> bool option \<Rightarrow> bool \<Rightarrow> bool \<Rightarrow> (string \<times> string option) list" where
  "preference_changes payload change requested_enabled has_api_key_field enabled_after =
     (case change of None \<Rightarrow> [] | Some c \<Rightarrow> [(REAL_DEBRID_TOKEN_PREF_KEY, c)]) @
     (if requested_enabled \<noteq> None \<or> has_api_key_field
      then [(REAL_DEBRID_ENABLED_PREF_KEY, Some (flag_text enabled_after))] else []) @
     (case json_get ''localTorrentEnabled'' payload of
        None \<Rightarrow> []
      | Some v \<Rightarrow> [(LOCAL_TORRENT_ENABLED_PREF_KEY, Some (flag_text (normalize_bool_json_value v)))])"

text \<open>The durable transaction and the answer read back from it.\<close>

definition commit_preferences ::
  "settings_env \<Rightarrow> int \<Rightarrow> int \<Rightarrow> (string \<times> string option) list \<Rightarrow> user_data \<Rightarrow> json app_result \<times> user_data" where
  "commit_preferences env now user_id changes d =
     (case apply_real_debrid_preference_changes (ud_prefs d) user_id changes
             REAL_DEBRID_TOKEN_PREF_KEY REAL_DEBRID_ENABLED_PREF_KEY now of
        (Inl e, prefs) \<Rightarrow> (Inl e, d\<lparr>ud_prefs := prefs\<rparr>)
      | (Inr _, prefs) \<Rightarrow>
          (case real_debrid_status env prefs user_id of
             Inl e \<Rightarrow> (Inl e, d\<lparr>ud_prefs := prefs\<rparr>)
           | Inr status \<Rightarrow> (Inr (JObj ((''ok'', JBool True) # status)), d\<lparr>ud_prefs := prefs\<rparr>)))"

definition real_debrid_put ::
  "settings_env \<Rightarrow> int \<Rightarrow> int \<Rightarrow> string \<Rightarrow> json \<Rightarrow> user_data \<Rightarrow> json app_result \<times> user_data" where
  "real_debrid_put env now user_id client_ip payload d =
     (case api_key_of_field (first_field [''apiKey'', ''token'', ''realDebridApiKey''] payload) of
        Inl e \<Rightarrow> (Inl e, d)
      | Inr api_key \<Rightarrow>
      let requested_enabled = map_option normalize_bool_json_value (first_field [''enabled'', ''realDebridEnabled''] payload);
          configured_before = (get_user_preference (ud_prefs d) user_id REAL_DEBRID_TOKEN_PREF_KEY \<noteq> None)
      in case plan_real_debrid_update configured_before (map_option (\<lambda>k. k \<noteq> []) api_key) requested_enabled of
        Inl e \<Rightarrow> (Inl e, d)
      | Inr (_, enabled_after) \<Rightarrow>
      case token_change env user_id client_ip api_key of
        Inl e \<Rightarrow> (Inl e, d)
      | Inr change \<Rightarrow>
      let d = (if api_key \<noteq> None
               then d\<lparr>ud_sessions := delete_real_debrid_playback_sessions_for_user (ud_sessions d) user_id\<rparr> else d)
      in commit_preferences env now user_id
           (preference_changes payload change requested_enabled (api_key \<noteq> None) enabled_after) d)"

definition user_real_debrid_handler ::
  "auth_env \<Rightarrow> settings_env \<Rightarrow> int \<Rightarrow> caller \<Rightarrow> request \<Rightarrow> user_data \<Rightarrow> json app_result \<times> user_data" where
  "user_real_debrid_handler aenv env now caller rq d =
     (case caller of
        Inl e \<Rightarrow> (Inl e, d)
      | Inr user \<Rightarrow>
      if rq_method rq = ''GET'' then
        (case real_debrid_status env (ud_prefs d) (au_id user) of
           Inl e \<Rightarrow> (Inl e, d)
         | Inr status \<Rightarrow> (Inr (JObj status), d))
      else if rq_method rq = ''PUT'' then
        (case parse_json_body aenv rq of
           Inl e \<Rightarrow> (Inl e, d)
         | Inr payload \<Rightarrow> real_debrid_put env now (au_id user) (extract_client_ip rq) payload d)
      else (Inl (method_not_allowed ''Method not allowed. Use GET or PUT.''), d))"

fun f64_json :: "f64 \<Rightarrow> json" where
  "f64_json (Fin x) = JFloat x"
| "f64_json _ = JNull"

definition user_watch_progress_handler ::
  "auth_env \<Rightarrow> int \<Rightarrow> caller \<Rightarrow> request \<Rightarrow> user_data \<Rightarrow> json app_result \<times> user_data" where
  "user_watch_progress_handler aenv now caller rq d =
     (case caller of
        Inl e \<Rightarrow> (Inl e, d)
      | Inr user \<Rightarrow>
      if rq_method rq = ''GET'' then
        (Inr (JObj [(''entries'', JArr (map (\<lambda>(i, v, t). JObj
            [(''sourceIdentity'', JStr i), (''resumeSeconds'', f64_json v), (''updatedAt'', JInt t)])
            (get_user_watch_progress (ud_state d) (au_id user))))]), d)
      else if rq_method rq = ''PUT'' then
        (case parse_json_body aenv rq of
           Inl e \<Rightarrow> (Inl e, d)
         | Inr payload \<Rightarrow>
         case require_bounded_string_field payload ''sourceIdentity'' USER_IDENTITY_MAX_BYTES of
           Inl e \<Rightarrow> (Inl e, d)
         | Inr source_identity \<Rightarrow>
             (Inr ok_reply, d\<lparr>ud_state := upsert_user_watch_progress (ud_state d) (au_id user) source_identity
                (Fin (normalize_resume_seconds_value (json_get ''resumeSeconds'' payload)))
                (normalize_user_updated_at now (json_get ''updatedAt'' payload))\<rparr>))
      else if rq_method rq = ''DELETE'' then
        (case parse_json_body aenv rq of
           Inl e \<Rightarrow> (Inl e, d)
         | Inr payload \<Rightarrow>
         case require_bounded_string_field payload ''sourceIdentity'' USER_IDENTITY_MAX_BYTES of
           Inl e \<Rightarrow> (Inl e, d)
         | Inr source_identity \<Rightarrow>
             let series_id = deletion_series payload source_identity;
                 deleted_at = normalize_user_updated_at now (json_get ''updatedAt'' payload)
             in (Inr ok_reply, d\<lparr>ud_state :=
                   (if series_id \<noteq> [] then delete_user_watch_progress_for_series (ud_state d) (au_id user) series_id deleted_at
                    else delete_user_watch_progress (ud_state d) (au_id user) source_identity deleted_at)\<rparr>))
      else (Inl (method_not_allowed ''Method not allowed. Use GET, PUT, or DELETE.''), d))"

definition continue_entry_json :: "continue_row \<Rightarrow> json" where
  "continue_entry_json r = JObj
     [(''sourceIdentity'', JStr (cw_source_identity r)), (''title'', JStr (cw_title r)), (''episode'', JStr (cw_episode r)),
      (''src'', JStr (cw_src r)), (''tmdbId'', JStr (cw_tmdb_id r)), (''mediaType'', JStr (cw_media_type r)),
      (''seriesId'', JStr (cw_series_id r)), (''episodeIndex'', JInt (cw_episode_index r)), (''year'', JStr (cw_year r)),
      (''thumb'', JStr (cw_thumb r)), (''sourceHash'', JStr (cw_source_hash r)), (''sessionKey'', JStr (cw_session_key r)),
      (''resolverProvider'', JStr (cw_resolver_provider r)), (''sourceInput'', JStr (cw_source_input r)),
      (''filename'', JStr (cw_filename r)), (''resumeSeconds'', f64_json (cw_resume_seconds r)),
      (''updatedAt'', JInt (cw_updated_at r))]"

definition user_continue_watching_handler ::
  "auth_env \<Rightarrow> settings_env \<Rightarrow> int \<Rightarrow> caller \<Rightarrow> request \<Rightarrow> user_data \<Rightarrow> json app_result \<times> user_data" where
  "user_continue_watching_handler aenv env now caller rq d =
     (case caller of
        Inl e \<Rightarrow> (Inl e, d)
      | Inr user \<Rightarrow>
      if rq_method rq = ''GET'' then
        (Inr (JObj [(''entries'', JArr (map continue_entry_json
           (get_user_continue_watching (env_parse aenv) (se_form env) (ud_sessions d) (ud_state d) (au_id user))))]), d)
      else if rq_method rq = ''PUT'' then
        (case parse_json_body aenv rq of
           Inl e \<Rightarrow> (Inl e, d)
         | Inr payload \<Rightarrow>
         case sanitize_continue_watching_entry now payload None of
           None \<Rightarrow> (Inl (bad_request (''Missing or invalid sourceIdentity; limit is '' @
                      show_nat USER_IDENTITY_MAX_BYTES @ '' bytes.'')), d)
         | Some entry \<Rightarrow>
             (Inr ok_reply, d\<lparr>ud_state := upsert_user_continue_watching (env_parse aenv) (se_form env) (ud_sessions d)
                (ud_state d) (au_id user) entry now\<rparr>))
      else if rq_method rq = ''DELETE'' then
        (case parse_json_body aenv rq of
           Inl e \<Rightarrow> (Inl e, d)
         | Inr payload \<Rightarrow>
         case require_bounded_string_field payload ''sourceIdentity'' USER_IDENTITY_MAX_BYTES of
           Inl e \<Rightarrow> (Inl e, d)
         | Inr source_identity \<Rightarrow>
             let series_id = deletion_series payload source_identity;
                 deleted_at = normalize_user_updated_at now (json_get ''updatedAt'' payload);
                 u = au_id user
             in (Inr ok_reply, d\<lparr>ud_state :=
                   (if series_id \<noteq> []
                    then delete_user_watch_progress_for_series
                           (delete_user_continue_watching_for_series (ud_state d) u series_id deleted_at) u series_id deleted_at
                    else delete_user_watch_progress
                           (delete_user_continue_watching (ud_state d) u source_identity deleted_at) u source_identity
                           deleted_at)\<rparr>))
      else (Inl (method_not_allowed ''Method not allowed. Use GET, PUT, or DELETE.''), d))"

text \<open>A statement that fails is an internal error; its text is SQLite's.\<close>

definition replace_my_list :: "settings_env \<Rightarrow> int \<Rightarrow> int \<Rightarrow> json list \<Rightarrow> user_data \<Rightarrow> json app_result \<times> user_data" where
  "replace_my_list env now user_id entries d =
     (let (done, rows) = replace_user_my_list (se_print env) (ud_my_list d) user_id entries now
      in (if done then Inr ok_reply else Inl (internal ''UNIQUE constraint failed''), d\<lparr>ud_my_list := rows\<rparr>))"

definition user_my_list_handler ::
  "auth_env \<Rightarrow> settings_env \<Rightarrow> int \<Rightarrow> caller \<Rightarrow> request \<Rightarrow> user_data \<Rightarrow> json app_result \<times> user_data" where
  "user_my_list_handler aenv env now caller rq d =
     (case caller of
        Inl e \<Rightarrow> (Inl e, d)
      | Inr user \<Rightarrow>
      if rq_method rq = ''GET'' then
        (Inr (JObj [(''entries'', JArr (get_user_my_list (env_parse aenv) (ud_my_list d) (au_id user)))]), d)
      else if rq_method rq = ''PUT'' then
        (case parse_json_body aenv rq of
           Inl e \<Rightarrow> (Inl e, d)
         | Inr payload \<Rightarrow>
         case json_get ''entries'' payload of
           Some (JArr entries) \<Rightarrow>
             (if length entries > USER_SYNC_MAX_ENTRIES
              then (Inl (bad_request (''My List can contain at most '' @ show_nat USER_SYNC_MAX_ENTRIES @ '' entries.'')), d)
              else replace_my_list env now (au_id user) (sanitize_my_list_entries now entries) d)
         | _ \<Rightarrow> (Inl (bad_request ''Body must include an entries array.''), d))
      else (Inl (method_not_allowed ''Method not allowed. Use GET or PUT.''), d))"

section \<open>The bulk sync\<close>

definition sync_progress_entry :: "int \<Rightarrow> int \<Rightarrow> json \<Rightarrow> user_state \<Rightarrow> user_state" where
  "sync_progress_entry now user_id entry db =
     (let source_identity = str_field ''sourceIdentity'' entry
      in if source_identity = [] then db
         else upsert_user_watch_progress db user_id source_identity
           (Fin (case Option.bind (json_get ''resumeSeconds'' entry) as_f64 of None \<Rightarrow> 0 | Some x \<Rightarrow> x))
           (case Option.bind (json_get ''updatedAt'' entry) as_i64 of None \<Rightarrow> now | Some n \<Rightarrow> n))"

definition sync_continue_entry ::
  "auth_env \<Rightarrow> settings_env \<Rightarrow> session_row list \<Rightarrow> int \<Rightarrow> int \<Rightarrow> json \<Rightarrow> user_state \<Rightarrow> user_state" where
  "sync_continue_entry aenv env sessions now user_id entry db =
     (if str_field ''sourceIdentity'' entry = [] then db
      else upsert_user_continue_watching (env_parse aenv) (se_form env) sessions db user_id entry now)"

text \<open>The loop that adds the device's items to the stored ones, with the identities already known.\<close>

fun merge_my_list :: "json list \<Rightarrow> string list \<Rightarrow> json list \<Rightarrow> json list" where
  "merge_my_list [] known merged = merged"
| "merge_my_list (entry # entries) known merged =
     (let item_identity = trim (str_field ''itemIdentity'' entry)
      in if item_identity = [] \<or> item_identity \<in> set known \<or> length merged \<ge> USER_SYNC_MAX_ENTRIES
         then merge_my_list entries known merged
         else merge_my_list entries (item_identity # known) (merged @ [entry]))"

definition merged_my_list :: "auth_env \<Rightarrow> int \<Rightarrow> my_list_row list \<Rightarrow> int \<Rightarrow> json list \<Rightarrow> json list" where
  "merged_my_list aenv now t user_id arr =
     (let stored = take USER_SYNC_MAX_ENTRIES (get_user_my_list (env_parse aenv) t user_id);
          known = filter (\<lambda>i. i \<noteq> []) (map (\<lambda>e. trim (str_field ''itemIdentity'' e)) stored)
      in merge_my_list (sanitize_my_list_entries now arr) known stored)"

definition user_sync_handler ::
  "auth_env \<Rightarrow> settings_env \<Rightarrow> int \<Rightarrow> caller \<Rightarrow> request \<Rightarrow> user_data \<Rightarrow> json app_result \<times> user_data" where
  "user_sync_handler aenv env now caller rq d =
     (if rq_method rq \<noteq> ''POST'' then (Inl (method_not_allowed ''Method not allowed. Use POST.''), d)
      else case caller of
        Inl e \<Rightarrow> (Inl e, d)
      | Inr user \<Rightarrow>
      case parse_json_body aenv rq of
        Inl e \<Rightarrow> (Inl e, d)
      | Inr payload \<Rightarrow>
      let u = au_id user;
          entries = (case json_get ''preferences'' payload of
                       Some (JObj prefs) \<Rightarrow> user_preference_entries_from_object (se_print env) prefs | _ \<Rightarrow> []);
          d = (if entries \<noteq> [] then d\<lparr>ud_prefs := upsert_user_preferences (ud_prefs d) u entries now\<rparr> else d);
          d = d\<lparr>ud_state := fold (sync_progress_entry now u)
                 (normalize_sync_watch_progress_entries now (json_get ''watchProgress'' payload)) (ud_state d)\<rparr>;
          d = d\<lparr>ud_state := fold (sync_continue_entry aenv env (ud_sessions d) now u)
                 (normalize_sync_continue_watching_entries now (json_get ''continueWatching'' payload)) (ud_state d)\<rparr>
      in case json_get ''myList'' payload of
           Some (JArr arr) \<Rightarrow> replace_my_list env now u (merged_my_list aenv now (ud_my_list d) u arr) d
         | _ \<Rightarrow> (Inr ok_reply, d))"

section \<open>Live-watch events and feedback\<close>

definition record_live_watch ::
  "live_watch_row list \<Rightarrow> int \<Rightarrow> string \<Rightarrow> string \<Rightarrow> string \<Rightarrow> int \<Rightarrow> live_watch_row list" where
  "record_live_watch t user_id title category source_identity now =
     delete_where (\<lambda>r. lw_created_at r < now - 60 * 24 * 60 * 60 * 1000)
       (t @ [\<lparr>lw_user_id = user_id, lw_title = title, lw_category = category,
              lw_source_identity = source_identity, lw_created_at = now\<rparr>])"

definition user_live_watch_handler ::
  "auth_env \<Rightarrow> int \<Rightarrow> caller \<Rightarrow> request \<Rightarrow> user_data \<Rightarrow> json app_result \<times> user_data" where
  "user_live_watch_handler aenv now caller rq d =
     (if rq_method rq \<noteq> ''POST'' then (Inl (method_not_allowed ''Method not allowed. Use POST.''), d)
      else case caller of
        Inl e \<Rightarrow> (Inl e, d)
      | Inr user \<Rightarrow>
      case parse_json_body aenv rq of
        Inl e \<Rightarrow> (Inl e, d)
      | Inr payload \<Rightarrow>
      let title = take 200 (trim (str_field ''title'' payload))
      in if title = [] then (Inl (bad_request ''title is required.''), d)
         else (Inr ok_reply, d\<lparr>ud_live_watch := record_live_watch (ud_live_watch d) (au_id user) title
                 (take 40 (str_field ''category'' payload)) (take 300 (str_field ''sourceIdentity'' payload)) now\<rparr>))"

definition insert_feedback ::
  "feedback_row list \<Rightarrow> int \<Rightarrow> string \<Rightarrow> string \<Rightarrow> string \<Rightarrow> string option \<Rightarrow> string \<Rightarrow> int \<Rightarrow> feedback_row list" where
  "insert_feedback t user_id email display_name message image_data image_mime now =
     t @ [\<lparr>fb_user_id = user_id, fb_email = email, fb_display_name = display_name, fb_message = message,
           fb_image_data = image_data, fb_image_mime = image_mime, fb_created_at = now\<rparr>]"

definition decode_data_url_image :: "settings_env \<Rightarrow> string \<Rightarrow> (string \<times> string) app_result" where
  "decode_data_url_image env raw =
     (case strip_prefix ''data:'' raw of
        None \<Rightarrow> Inl (bad_request ''Attachment must be a data URL.'')
      | Some rest \<Rightarrow>
      case split_once_str '';base64,'' rest of
        None \<Rightarrow> Inl (bad_request ''Attachment must be base64-encoded.'')
      | Some (mime, b64) \<Rightarrow>
      let mime = lower (trim (hd (split_on CHR '';'' mime)))
      in if mime \<notin> {''image/png'', ''image/jpeg'', ''image/webp'', ''image/gif''}
         then Inl (bad_request ''Unsupported image type.'')
         else case se_decode_base64 env (trim b64) of
           None \<Rightarrow> Inl (bad_request ''Attachment is not valid base64.'')
         | Some bytes \<Rightarrow>
             if bytes = [] then Inl (bad_request ''Attachment is empty.'')
             else if length bytes > FEEDBACK_IMAGE_MAX_BYTES then Inl (payload_too_large ''Attachment is too large.'')
             else Inr (bytes, mime))"

definition feedback_submit_handler ::
  "auth_env \<Rightarrow> settings_env \<Rightarrow> int \<Rightarrow> caller \<Rightarrow> request \<Rightarrow> user_data \<Rightarrow> json app_result \<times> user_data" where
  "feedback_submit_handler aenv env now caller rq d =
     (if rq_method rq \<noteq> ''POST'' then (Inl (method_not_allowed ''Method not allowed. Use POST.''), d)
      else case caller of
        Inl e \<Rightarrow> (Inl e, d)
      | Inr user \<Rightarrow>
      case parse_json_body aenv rq of
        Inl e \<Rightarrow> (Inl e, d)
      | Inr payload \<Rightarrow>
      let message = trim (str_field ''message'' payload)
      in if message = [] then (Inl (bad_request ''Feedback message is required.''), d)
         else let message = take 4000 message;
                  raw = trim (str_field ''image'' payload)
         in case (if raw \<noteq> [] then map_sum id (\<lambda>(bytes, mime). (Some bytes, mime)) (decode_data_url_image env raw)
                  else Inr (None, [])) of
              Inl e \<Rightarrow> (Inl e, d)
            | Inr (image_data, image_mime) \<Rightarrow>
                (Inr ok_reply, d\<lparr>ud_feedback := insert_feedback (ud_feedback d) (au_id user) (au_email user)
                   (au_display_name user) message image_data image_mime now\<rparr>))"

section \<open>Serving requests one after the other\<close>

datatype user_route =
    User_preferences | User_real_debrid | User_watch_progress | User_continue_watching | User_my_list
  | User_sync | User_live_watch | Feedback_submit

record user_event =
  ev_route :: user_route
  ev_auth :: auth_env
  ev_env :: settings_env
  ev_now :: int
  ev_caller :: caller
  ev_request :: request

fun route_handler ::
  "user_route \<Rightarrow> auth_env \<Rightarrow> settings_env \<Rightarrow> int \<Rightarrow> caller \<Rightarrow> request \<Rightarrow> user_data \<Rightarrow> json app_result \<times> user_data" where
  "route_handler User_preferences = user_preferences_handler"
| "route_handler User_real_debrid = user_real_debrid_handler"
| "route_handler User_watch_progress = (\<lambda>aenv env. user_watch_progress_handler aenv)"
| "route_handler User_continue_watching = user_continue_watching_handler"
| "route_handler User_my_list = user_my_list_handler"
| "route_handler User_sync = user_sync_handler"
| "route_handler User_live_watch = (\<lambda>aenv env. user_live_watch_handler aenv)"
| "route_handler Feedback_submit = feedback_submit_handler"

definition serve_user :: "user_event \<Rightarrow> user_data \<Rightarrow> json app_result \<times> user_data" where
  "serve_user e = route_handler (ev_route e) (ev_auth e) (ev_env e) (ev_now e) (ev_caller e) (ev_request e)"

definition empty_user_data :: user_data where
  "empty_user_data =
     \<lparr>ud_state = \<lparr>us_tombstones = [], us_progress = [], us_continue = []\<rparr>, ud_prefs = [], ud_sessions = [],
      ud_my_list = [], ud_live_watch = [], ud_feedback = []\<rparr>"

lemmas handler_defs = user_preferences_handler_def user_real_debrid_handler_def user_watch_progress_handler_def
  user_continue_watching_handler_def user_my_list_handler_def user_live_watch_handler_def
  feedback_submit_handler_def

section \<open>What sanitising leaves\<close>

lemma bounded_trimmed_SomeD:
  "bounded_trimmed_string v n = Some s \<Longrightarrow> trim s = s \<and> s \<noteq> [] \<and> length s \<le> n"
  by (auto simp: bounded_trimmed_string_def split: if_splits)

lemma bounded_string_field_SomeD:
  "bounded_string_field p f n = Some s \<Longrightarrow> trim s = s \<and> s \<noteq> [] \<and> length s \<le> n"
  by (auto simp: bounded_string_field_def bind_eq_Some_conv dest: bounded_trimmed_SomeD)

definition trimmed_fields :: "json \<Rightarrow> bool" where
  "trimmed_fields v \<longleftrightarrow> (\<forall>k s. json_get k v = Some (JStr s) \<longrightarrow> trim s = s)"

lemma str_field_trimmed: "trimmed_fields v \<Longrightarrow> trim (str_field k v) = str_field k v"
  by (cases "json_get k v"; cases "the (json_get k v)")
     (auto simp: trimmed_fields_def str_field_def trim_def trim_start_def)

lemma trimmed_fields_obj:
  assumes "\<And>k s. (k, JStr s) \<in> set kvs \<Longrightarrow> trim s = s"
  shows "trimmed_fields (JObj kvs)"
  using assms by (auto simp: trimmed_fields_def dest: map_of_SomeD)

lemma insert_bounded_string_trimmed:
  "(k, JStr s) \<in> set (insert_bounded_string e n f) \<Longrightarrow> trim s = s"
  by (cases "bounded_string_field e f n") (auto simp: insert_bounded_string_def dest: bounded_string_field_SomeD)

lemma identity_or_fallback_SomeD:
  "identity_or_fallback e fb = Some s \<Longrightarrow> trim s = s \<and> s \<noteq> [] \<and> length s \<le> USER_IDENTITY_MAX_BYTES"
  by (auto simp: identity_or_fallback_def bind_eq_Some_conv split: option.splits
      dest: bounded_string_field_SomeD bounded_trimmed_SomeD)

lemma sanitized_continue_trimmed:
  "sanitize_continue_watching_entry now e fb = Some v \<Longrightarrow> trimmed_fields v"
  unfolding sanitize_continue_watching_entry_def
  by (auto intro!: trimmed_fields_obj simp: insert_bounded_i64_def split: option.splits
      dest: identity_or_fallback_SomeD insert_bounded_string_trimmed)

lemma continue_row_trimmed:
  "trimmed_fields v \<Longrightarrow> trimmed_row (annotate_row m (continue_row_of_entry u v now))"
  by (cases m) (simp_all add: trimmed_row_def annotate_row_def continue_row_of_entry_def str_field_trimmed)

lemma upsert_keeps_continue_inv:
  "continue_inv db \<Longrightarrow> trimmed_fields v \<Longrightarrow> continue_inv (upsert_user_continue_watching parse form ss db u v now)"
  by (simp add: upsert_user_continue_watching_def Let_def save_keeps_continue_inv continue_row_trimmed)

section \<open>One continue-watching row for each title\<close>

lemma us_continue_series_delete [simp]:
  "us_continue (delete_user_watch_progress_for_series db u s d) = us_continue db"
proof -
  have "us_continue (fold (\<lambda>i db. if Q i then record_tombstone db u WATCH_PROGRESS_DOMAIN i d else db) is db)
      = us_continue db" for Q "is"
    by (induction "is" arbitrary: db) auto
  then show ?thesis
    by (simp add: delete_user_watch_progress_for_series_def tombstone_watch_progress_series_def Let_def)
qed

lemma continue_inv_cong: "us_continue db' = us_continue db \<Longrightarrow> continue_inv db' = continue_inv db"
  by (simp add: continue_inv_def)

lemma us_continue_sync_progress [simp]: "us_continue (sync_progress_entry now u e db) = us_continue db"
  by (simp add: sync_progress_entry_def Let_def)

lemma us_continue_sync_progress_fold [simp]:
  "us_continue (fold (sync_progress_entry now u) es db) = us_continue db"
  by (induction es arbitrary: db) simp_all

lemma sync_continue_keeps:
  assumes "continue_inv db" and "\<forall>v \<in> set vs. trimmed_fields v"
  shows "continue_inv (fold (sync_continue_entry aenv env ss now u) vs db)"
  using assms by (induction vs arbitrary: db) (simp_all add: sync_continue_entry_def upsert_keeps_continue_inv)

lemma map_filter_all: "(\<And>x y. f x = Some y \<Longrightarrow> P y) \<Longrightarrow> \<forall>y \<in> set (List.map_filter f xs). P y"
  by (auto simp: map_filter_def)

lemma normalized_continue_trimmed:
  "\<forall>v \<in> set (normalize_sync_continue_watching_entries now x). trimmed_fields v"
  unfolding normalize_sync_continue_watching_entries_def
  by (split option.split, intro conjI allI impI; (split json.split)?)
     (auto intro!: map_filter_all simp del: Set.ball_simps dest: sanitized_continue_trimmed)

lemma replace_my_list_state [simp]:
  "ud_state (snd (replace_my_list env now u es d)) = ud_state d"
  "ud_prefs (snd (replace_my_list env now u es d)) = ud_prefs d"
  by (simp_all add: replace_my_list_def split: prod.split)

lemma commit_preferences_data:
  "snd (commit_preferences env now u cs d) = d\<lparr>ud_prefs := snd (apply_real_debrid_preference_changes (ud_prefs d) u cs
     REAL_DEBRID_TOKEN_PREF_KEY REAL_DEBRID_ENABLED_PREF_KEY now)\<rparr>"
  by (simp add: commit_preferences_def split: sum.split prod.split)

lemma real_debrid_put_state [simp]: "ud_state (snd (real_debrid_put env now u ip p d)) = ud_state d"
  by (simp add: real_debrid_put_def commit_preferences_data Let_def split: sum.split prod.split)

lemma serve_keeps_continue_inv:
  assumes "continue_inv (ud_state d)"
  shows "continue_inv (ud_state (snd (serve_user e d)))"
proof (cases "ev_route e")
  case User_continue_watching
  with assms show ?thesis
    by (simp add: serve_user_def user_continue_watching_handler_def Let_def upsert_keeps_continue_inv
        sanitized_continue_trimmed delete_keeps_continue_inv delete_series_keeps_continue_inv
        continue_inv_cong [OF us_continue_series_delete] continue_inv_cong [OF us_continue_progress_ops(2)]
        split: sum.split option.split)
next
  case User_sync
  have "continue_inv (fold (sync_continue_entry a en ss n u) (normalize_sync_continue_watching_entries n c)
      (fold (sync_progress_entry n u) ps (ud_state d)))" for a en ss n u c ps
    by (rule sync_continue_keeps [OF _ normalized_continue_trimmed])
       (simp add: continue_inv_cong [OF us_continue_sync_progress_fold] assms)
  with User_sync assms show ?thesis
    by (simp add: serve_user_def user_sync_handler_def Let_def split: sum.split option.split json.split)
next
  case User_watch_progress
  with assms show ?thesis
    by (simp add: serve_user_def user_watch_progress_handler_def Let_def continue_inv_cong [OF us_continue_series_delete]
        continue_inv_cong [OF us_continue_progress_ops(1)] continue_inv_cong [OF us_continue_progress_ops(2)]
        split: sum.split)
qed (use assms in \<open>simp_all add: serve_user_def handler_defs Let_def split: sum.split option.split json.split\<close>)

interpretation continue_titles: invariant_steps "\<lambda>d. continue_inv (ud_state d)" "\<lambda>e d. snd (serve_user e d)"
  by unfold_locales (rule serve_keeps_continue_inv)

text \<open>
  C27: one continue-watching row for each title. Whatever requests the user-data routes
  serve, starting with nothing stored, two rows of one user that are television rows with
  the same TMDB id, or that name the same series in any case, are the same row.
\<close>

theorem continue_one_row_per_title:
  assumes "d = fold (\<lambda>e d. snd (serve_user e d)) events empty_user_data"
    and "r \<in> set (us_continue (ud_state d))" and "q \<in> set (us_continue (ud_state d))"
    and "same_title r q"
  shows "r = q"
proof -
  have "continue_inv (ud_state d)"
    unfolding assms(1) by (rule continue_titles.inv_fold) (simp add: continue_inv_def empty_user_data_def)
  with assms show ?thesis by (simp add: continue_inv_def)
qed

section \<open>The credential changes only with a validated key of its owner\<close>

lemma bounded_secret [dest]:
  "bounded_trimmed_string key n = Some k \<Longrightarrow> is_secret_user_preference_key k = is_secret_user_preference_key key"
  by (auto simp: bounded_trimmed_string_def is_secret_user_preference_key_def split: if_splits)

lemma preference_entry_keys:
  "(\<forall>e \<in> set acc. \<not> is_secret_user_preference_key (fst e)) \<Longrightarrow>
   \<forall>e \<in> set (preference_entries print prefs acc). \<not> is_secret_user_preference_key (fst e)"
  by (induction print prefs acc rule: preference_entries.induct)
     (simp_all add: Let_def bounded_secret split: option.split)

lemma token_key_secret: "is_secret_user_preference_key REAL_DEBRID_TOKEN_PREF_KEY"
  by code_simp

lemma preference_upsert_keeps_token:
  "get_user_preference (upsert_user_preferences t u (user_preference_entries_from_object print prefs) now) v
     REAL_DEBRID_TOKEN_PREF_KEY = get_user_preference t v REAL_DEBRID_TOKEN_PREF_KEY"
  using preference_entry_keys [of "[]" print prefs] token_key_secret
  by (intro get_upsert_prefs_other) (auto simp: user_preference_entries_from_object_def)

lemma pref_keys_distinct:
  "REAL_DEBRID_TOKEN_PREF_KEY \<noteq> REAL_DEBRID_ENABLED_PREF_KEY" "REAL_DEBRID_TOKEN_PREF_KEY \<noteq> LOCAL_TORRENT_ENABLED_PREF_KEY"
  "REAL_DEBRID_ENABLED_PREF_KEY \<noteq> LOCAL_TORRENT_ENABLED_PREF_KEY"
  by (simp_all add: REAL_DEBRID_TOKEN_PREF_KEY_def REAL_DEBRID_ENABLED_PREF_KEY_def LOCAL_TORRENT_ENABLED_PREF_KEY_def)

lemmas pref_key_distinct = pref_keys_distinct pref_keys_distinct [symmetric]

lemma map_of_preference_changes:
  "map_of (rev (preference_changes p c en has ea)) REAL_DEBRID_TOKEN_PREF_KEY = c"
  by (simp add: preference_changes_def pref_key_distinct split: option.split)

lemma apply_changes_token:
  assumes "apply_real_debrid_preference_changes t u (preference_changes p c en has ea) REAL_DEBRID_TOKEN_PREF_KEY k now = (r, t')"
    and "get_user_preference t' v REAL_DEBRID_TOKEN_PREF_KEY \<noteq> get_user_preference t v REAL_DEBRID_TOKEN_PREF_KEY"
  shows "v = u \<and> c = Some (get_user_preference t' v REAL_DEBRID_TOKEN_PREF_KEY)"
proof -
  have "t' = fold (pref_change u now) (preference_changes p c en has ea) t \<or> t' = t"
    using assms(1) by (auto simp: apply_real_debrid_preference_changes_def
        apply_preference_changes_with_required_token_def Let_def split: if_splits)
  with assms(2) show ?thesis
    by (auto simp: get_pref_changes map_of_preference_changes split: if_splits option.splits)
qed

definition allowed_token_change ::
  "settings_env \<Rightarrow> int \<Rightarrow> string \<Rightarrow> string \<Rightarrow> string option \<Rightarrow> bool" where
  "allowed_token_change env user_id client_ip key new \<longleftrightarrow>
     (if trim key = [] then new = None
      else is_valid_real_debrid_api_key key \<and> se_validate_real_debrid_api_key env user_id client_ip (trim key) = Inr () \<and>
           new \<noteq> None \<and>
           encrypt_for_user (se_crypto env) (se_cipher env) (se_random env) user_id (trim key) = Inr (the new))"

lemma is_valid_trim [simp]: "is_valid_real_debrid_api_key (trim k) = is_valid_real_debrid_api_key k"
  by (simp add: is_valid_real_debrid_api_key_def normalize_real_debrid_api_key_def)

lemma token_change_allowed:
  assumes "token_change env u ip api_key = Inr (Some new)" and "api_key_of_field f = Inr api_key"
  obtains key where "f = Some (JStr key)" and "allowed_token_change env u ip key new"
proof -
  obtain k where k: "api_key = Some k" using assms(1) by (cases api_key) (auto simp: token_change_def)
  obtain v where f: "f = Some v" using assms(2) k by (cases f) auto
  obtain key where v: "v = JStr key" and key: "k = trim key"
    using assms(2) k f by (cases v) (auto simp: normalize_real_debrid_api_key_def)
  have "allowed_token_change env u ip key new"
    using assms(1) unfolding k key allowed_token_change_def token_change_def
    by (auto split: if_splits sum.splits)
  with f v that show ?thesis by simp
qed

lemma real_debrid_put_token:
  assumes "get_user_preference (ud_prefs (snd (real_debrid_put env now u ip p d))) v REAL_DEBRID_TOKEN_PREF_KEY
    \<noteq> get_user_preference (ud_prefs d) v REAL_DEBRID_TOKEN_PREF_KEY"
  shows "v = u \<and> (\<exists>key. first_field [''apiKey'', ''token'', ''realDebridApiKey''] p = Some (JStr key) \<and>
    allowed_token_change env u ip key
      (get_user_preference (ud_prefs (snd (real_debrid_put env now u ip p d))) v REAL_DEBRID_TOKEN_PREF_KEY) \<and>
    ud_sessions (snd (real_debrid_put env now u ip p d)) = delete_real_debrid_playback_sessions_for_user (ud_sessions d) u)"
proof -
  let ?en = "map_option normalize_bool_json_value (first_field [''enabled'', ''realDebridEnabled''] p)"
  let ?cb = "get_user_preference (ud_prefs d) u REAL_DEBRID_TOKEN_PREF_KEY \<noteq> None"
  note put = assms and first_field.simps [simp del] and not_None_eq [simp del] and Let_def [simp]
  obtain api_key where k: "api_key_of_field (first_field [''apiKey'', ''token'', ''realDebridApiKey''] p) = Inr api_key"
    using put by (cases "api_key_of_field (first_field [''apiKey'', ''token'', ''realDebridApiKey''] p)")
      (simp_all add: real_debrid_put_def)
  obtain ca ea where plan: "plan_real_debrid_update ?cb (map_option (\<lambda>k. k \<noteq> []) api_key) ?en = Inr (ca, ea)"
    using put by (cases "plan_real_debrid_update ?cb (map_option (\<lambda>k. k \<noteq> []) api_key) ?en")
      (auto simp add: real_debrid_put_def k)
  obtain c where c: "token_change env u ip api_key = Inr c"
    using put by (cases "token_change env u ip api_key") (simp_all add: real_debrid_put_def k plan)
  obtain r t where app: "apply_real_debrid_preference_changes (ud_prefs d) u (preference_changes p c ?en (api_key \<noteq> None) ea)
      REAL_DEBRID_TOKEN_PREF_KEY REAL_DEBRID_ENABLED_PREF_KEY now = (r, t)"
    by fastforce
  have prefs: "ud_prefs (snd (real_debrid_put env now u ip p d)) = t"
    and sess: "ud_sessions (snd (real_debrid_put env now u ip p d)) =
      (if api_key \<noteq> None then delete_real_debrid_playback_sessions_for_user (ud_sessions d) u else ud_sessions d)"
    using app by (auto simp: real_debrid_put_def k plan c commit_preferences_data)
  from apply_changes_token [OF app] put
  have v: "v = u" and new: "c = Some (get_user_preference t u REAL_DEBRID_TOKEN_PREF_KEY)" unfolding prefs by auto
  from token_change_allowed [OF c [unfolded new] k]
  obtain key where key: "first_field [''apiKey'', ''token'', ''realDebridApiKey''] p = Some (JStr key)"
    "allowed_token_change env u ip key (get_user_preference t u REAL_DEBRID_TOKEN_PREF_KEY)" .
  moreover have "api_key \<noteq> None" using k key(1) by auto
  ultimately show ?thesis unfolding prefs sess v by simp
qed

lemma sync_prefs_token:
  "get_user_preference (ud_prefs (snd (user_sync_handler aenv env now c rq d))) v REAL_DEBRID_TOKEN_PREF_KEY =
   get_user_preference (ud_prefs d) v REAL_DEBRID_TOKEN_PREF_KEY"
  by (simp add: user_sync_handler_def Let_def preference_upsert_keeps_token split: sum.split option.split json.split)


text \<open>A request that saves two episodes of one series, one after the other.\<close>

definition sample_settings :: settings_env where
  "sample_settings =
     \<lparr>se_print = (\<lambda>_. []), se_form = (\<lambda>_. []), se_crypto = sample_crypto, se_cipher = sample_ring,
      se_random = Some (replicate 12 (CHR ''n'')), se_validate_real_debrid_api_key = (\<lambda>_ _ _. Inr ()),
      se_decode_base64 = (\<lambda>_. None)\<rparr>"

definition sample_event :: "user_route \<Rightarrow> json \<Rightarrow> int \<Rightarrow> user_event" where
  "sample_event route payload now =
     \<lparr>ev_route = route,
      ev_auth = \<lparr>env_sha256_hex = id, env_hash_password = (\<lambda>_ _. Inl []), env_verify_password = (\<lambda>_ _. False),
        env_parse = (\<lambda>_. Some payload),
        env_config = \<lparr>cfg_open_signup_enabled = False, cfg_signup_invite_code = [], cfg_bootstrap_admin_email = None,
          cfg_session_cookie_secure = True, cfg_app_origin = []\<rparr>\<rparr>,
      ev_env = sample_settings, ev_now = now,
      ev_caller = Inr \<lparr>au_id = 7, au_email = ''a@b.c'', au_display_name = ''A'', au_is_admin = False\<rparr>,
      ev_request = \<lparr>rq_method = ''PUT'', rq_cf_connecting_ip = None, rq_x_forwarded_for = None, rq_peer_ip = None,
        rq_cookie = None, rq_body = []\<rparr>\<rparr>"

definition sample_episode :: "string \<Rightarrow> json" where
  "sample_episode identity = JObj [(''sourceIdentity'', JStr identity), (''tmdbId'', JStr ''12''), (''mediaType'', JStr ''tv''),
     (''seriesId'', JStr ''tmdb-tv-12'')]"

definition sample_episodes :: "user_event list" where
  "sample_episodes =
     [sample_event User_continue_watching (sample_episode ''tmdb:tv:12:s1:e1'') 1000,
      sample_event User_continue_watching (sample_episode ''tmdb:tv:12:s1:e2'') 2000]"

lemma sample_episodes_rows:
  "map cw_source_identity (us_continue (ud_state (fold (\<lambda>e d. snd (serve_user e d)) sample_episodes empty_user_data)))
     = [''tmdb:tv:12:s1:e2'']"
  by code_simp

theorem continue_one_row_per_title_witness:
  "hd (us_continue (ud_state (fold (\<lambda>e d. snd (serve_user e d)) sample_episodes empty_user_data))) =
   last (us_continue (ud_state (fold (\<lambda>e d. snd (serve_user e d)) sample_episodes empty_user_data)))"
proof -
  let ?rows = "us_continue (ud_state (fold (\<lambda>e d. snd (serve_user e d)) sample_episodes empty_user_data))"
  have "?rows \<noteq> []" using sample_episodes_rows by (metis list.simps(8) not_Cons_self2)
  moreover have "same_title (hd ?rows) (last ?rows)" by code_simp
  ultimately show ?thesis by (intro continue_one_row_per_title [where events = sample_episodes, OF refl]) auto
qed

definition sample_key_event :: user_event where
  "sample_key_event = sample_event User_real_debrid (JObj [(''apiKey'', JStr '' ABCDEFGHIJKLMNOPQRST '')]) 3000"

lemma sample_key_stored:
  "get_user_preference (ud_prefs (snd (serve_user sample_key_event empty_user_data))) 7 REAL_DEBRID_TOKEN_PREF_KEY \<noteq> None"
  by code_simp


section \<open>A saved credential is the one requests use\<close>

lemma ascii_utf8: "list_all (\<lambda>c. (of_char c :: nat) < 128) s \<Longrightarrow> utf8_valid s"
  by (induction s) (auto simp: byte_in_def)

lemma map_of_preference_flags:
  "map_of (rev (preference_changes p c None True ea)) REAL_DEBRID_ENABLED_PREF_KEY = Some (Some (flag_text ea))"
  by (simp add: preference_changes_def pref_key_distinct split: option.split)

lemma commit_preferences_ok:
  assumes "commit_preferences env now u cs d = (Inr reply, d')" and "cs \<noteq> []"
  shows "ud_prefs d' = fold (pref_change u now) cs (ud_prefs d) \<and>
    (\<exists>status. real_debrid_status env (ud_prefs d') u = Inr status \<and> reply = JObj ((''ok'', JBool True) # status))"
proof -
  obtain r t where app: "apply_real_debrid_preference_changes (ud_prefs d) u cs REAL_DEBRID_TOKEN_PREF_KEY
      REAL_DEBRID_ENABLED_PREF_KEY now = (r, t)" by fastforce
  then have "r = Inr () \<and> t = fold (pref_change u now) cs (ud_prefs d)"
    using assms by (auto simp: commit_preferences_def apply_real_debrid_preference_changes_def
        apply_preference_changes_with_required_token_def Let_def split: if_splits)
  with app assms(1) show ?thesis by (auto simp: commit_preferences_def split: sum.splits)
qed

lemma flag_text_on: "normalize_bool_preference (flag_text b) = b"
  unfolding flag_text_def by (cases b; simp; code_simp)

text \<open>
  A saved credential is the one requests use. After a successful \<open>PUT\<close> of a key,
  without a switch, the key that resolver requests of the user decrypt is the trimmed key,
  the answer says that it is configured and enabled, and shows it masked only.
\<close>

theorem saved_key_read_back:
  assumes crypto: "crypto_ok (se_crypto env)" and ring: "from_spec (se_crypto env) spec = Inr (se_cipher env)"
    and random: "se_random env = Some nonce" "length nonce = NONCE_BYTES"
    and key: "first_field [''apiKey'', ''token'', ''realDebridApiKey''] payload = Some (JStr key)" "trim key \<noteq> []"
    and switch: "first_field [''enabled'', ''realDebridEnabled''] payload = None"
    and put: "real_debrid_put env now u ip payload d = (Inr reply, d')"
  shows "real_debrid_api_key_for_user env (ud_prefs d') u = Inr (trim key) \<and>
    json_get ''configured'' reply = Some (JBool True) \<and> json_get ''enabled'' reply = Some (JBool True) \<and>
    json_get ''maskedApiKey'' reply = Some (JStr (take 4 (trim key) @ ''****'' @ drop (length (trim key) - 4) (trim key)))"
proof -
  note first_field.simps [simp del] and normalize_real_debrid_api_key_def [simp]
  have api: "api_key_of_field (Some (JStr key)) = Inr (Some (trim key))" by (simp add: normalize_real_debrid_api_key_def)
  obtain c where c: "token_change env u ip (Some (trim key)) = Inr c"
    using put by (cases "token_change env u ip (Some (trim key))")
      (simp_all add: real_debrid_put_def key switch api plan_real_debrid_update_def Let_def)
  from token_change_allowed [where f = "Some (JStr key)", OF _ api] c key(2)
  obtain stored where stored: "c = Some (Some stored)" and valid: "is_valid_real_debrid_api_key key"
    and enc: "encrypt_for_user (se_crypto env) (se_cipher env) (se_random env) u (trim key) = Inr stored"
    by (auto simp: token_change_def split: if_splits sum.splits)
  have long: "10 < length (trim key)" and utf8: "utf8_valid (trim key)"
    using valid ascii_utf8 [of "trim key"]
    by (simp_all add: is_valid_real_debrid_api_key_def Let_def normalize_real_debrid_api_key_def)
  let ?cs = "preference_changes payload c None True True"
  have "real_debrid_put env now u ip payload d = commit_preferences env now u ?cs
      (d\<lparr>ud_sessions := delete_real_debrid_playback_sessions_for_user (ud_sessions d) u\<rparr>)"
    using key(2) by (simp add: real_debrid_put_def key(1) switch api c plan_real_debrid_update_def Let_def)
  then have commit: "commit_preferences env now u ?cs
      (d\<lparr>ud_sessions := delete_real_debrid_playback_sessions_for_user (ud_sessions d) u\<rparr>) = (Inr reply, d')" using put by simp
  have ne: "?cs \<noteq> []" by (simp add: preference_changes_def)
  obtain status where prefs: "ud_prefs d' = fold (pref_change u now) ?cs (ud_prefs d)"
    and status: "real_debrid_status env (ud_prefs d') u = Inr status" "reply = JObj ((''ok'', JBool True) # status)"
    using commit_preferences_ok [OF commit ne] by auto
  have get: "get_user_preference (ud_prefs d') u REAL_DEBRID_TOKEN_PREF_KEY = Some stored"
    "get_user_preference (ud_prefs d') u REAL_DEBRID_ENABLED_PREF_KEY = Some (flag_text True)"
    unfolding prefs by (simp_all add: get_pref_changes map_of_preference_changes map_of_preference_flags stored)
  have "decrypt_for_user (se_crypto env) (se_cipher env) u stored = Inr (trim key)"
    using encrypt_decrypt_envelope [OF crypto from_spec_wf [OF ring] random(2) utf8, of u stored "se_cipher env"]
      enc random(1) decrypt_for_user_envelope by auto
  then have dec: "decrypt_real_debrid_api_key env u (Some stored) = Inr (trim key)"
    using valid by (simp add: decrypt_real_debrid_api_key_def normalize_real_debrid_api_key_def Let_def)
  have en: "real_debrid_enabled_for_user (ud_prefs d') u True"
    by (simp add: real_debrid_enabled_for_user_def effective_real_debrid_enabled_def get flag_text_on)
  show ?thesis
    using status key(2) dec en get long
    by (auto simp: real_debrid_status_def configured_real_debrid_api_key_for_user_def real_debrid_api_key_for_user_def
        mask_real_debrid_api_key_def normalize_real_debrid_api_key_def Let_def)
qed

definition sample_put :: "json app_result \<times> user_data" where
  "sample_put = real_debrid_put sample_settings 3000 7 [] (JObj [(''apiKey'', JStr ''ABCDEFGHIJKLMNOPQRST'')]) empty_user_data"

lemma sample_put_ok: "sample_put = (Inr (projr (fst sample_put)), snd sample_put)"
proof -
  have "\<not> isl (fst sample_put)" by code_simp
  then show ?thesis by (simp add: prod_eq_iff)
qed

theorem saved_key_read_back_witness:
  "real_debrid_api_key_for_user sample_settings (ud_prefs (snd sample_put)) 7 = Inr ''ABCDEFGHIJKLMNOPQRST''"
proof -
  have t: "trim ''ABCDEFGHIJKLMNOPQRST'' = ''ABCDEFGHIJKLMNOPQRST''" by code_simp
  have "from_spec (se_crypto sample_settings) (Some (''k1:'' @ replicate 64 (CHR ''p''))) = Inr (se_cipher sample_settings)"
    using sample_ring_spec by (simp add: sample_settings_def)
  from saved_key_read_back [OF _ this _ _ _ _ _ sample_put_ok [unfolded sample_put_def], where nonce = "replicate 12 (CHR ''n'')"
      and key = "''ABCDEFGHIJKLMNOPQRST''"]
  show ?thesis using crypto_ok_sample by (simp add: sample_settings_def sample_put_def NONCE_BYTES_def t)
qed

end
