(* ===== verification/Library.thy ===== *)
theory Library
  imports Json ApiErrors "HOL-Library.Product_Lexorder"
begin

text \<open>
  The library of local media (\<open>src/library.rs\<close>): a JSON file that is read, normalised and
  replaced as a whole. The text of the file is parsed and printed by the parameters \<open>parse\<close>
  and \<open>pretty\<close>; \<open>show\<close> prints a single JSON value. The lock around each operation makes it one
  step. A failing disk is the argument \<open>fault\<close>: the new text then never takes the file's place.
\<close>

section \<open>Text\<close>

definition is_ascii_alphanumeric :: "char \<Rightarrow> bool" where
  "is_ascii_alphanumeric c \<longleftrightarrow> is_ascii_alphabetic c \<or> is_ascii_digit c"

fun join_words :: "string list \<Rightarrow> string" where
  "join_words [] = []"
| "join_words [w] = w"
| "join_words (w # ws) = w @ CHR '' '' # join_words ws"

definition normalize_whitespace :: "string \<Rightarrow> string" where
  "normalize_whitespace s = trim (join_words (split_words s))"

text \<open>The loop of \<open>slugify\<close>: \<open>last_dash\<close> tells whether a dash was written last.\<close>

fun slug_chars :: "bool \<Rightarrow> string \<Rightarrow> string" where
  "slug_chars last_dash [] = []"
| "slug_chars last_dash (c # cs) =
     (if is_ascii_alphanumeric c then c # slug_chars False cs
      else if \<not> last_dash then CHR ''-'' # slug_chars True cs
      else slug_chars True cs)"

definition trim_dashes :: "string \<Rightarrow> string" where
  "trim_dashes s = rev (dropWhile (\<lambda>c. c = CHR ''-'') (rev (dropWhile (\<lambda>c. c = CHR ''-'') s)))"

definition slugify :: "string \<Rightarrow> string \<Rightarrow> string" where
  "slugify v fallback =
     (let trimmed = trim_dashes (slug_chars False (lower (normalize_whitespace v)))
      in if trimmed = [] then fallback else trimmed)"

definition normalize_year :: "string \<Rightarrow> string" where
  "normalize_year v =
     (let t = trim v
      in if length t \<noteq> 4 \<or> \<not> list_all is_ascii_digit t then []
         else case parse_i64 t of Some n \<Rightarrow> if 1888 \<le> n \<and> n \<le> 2100 then t else [] | None \<Rightarrow> [])"

definition normalize_tmdb_id :: "string \<Rightarrow> string" where
  "normalize_tmdb_id v = (let t = trim v in if t \<noteq> [] \<and> list_all is_ascii_digit t then t else [])"

definition normalize_upload_episode_ordinal :: "int \<Rightarrow> int \<Rightarrow> int" where
  "normalize_upload_episode_ordinal v fallback = (if v \<le> 0 then fallback else max 1 (min 999 v))"

definition normalize_upload_content_type :: "string \<Rightarrow> string" where
  "normalize_upload_content_type v =
     (let t = lower (trim v) in if t = ''episode'' then ''episode'' else if t = ''course'' then ''course'' else ''movie'')"

definition if_empty_then :: "string \<Rightarrow> string \<Rightarrow> string" where
  "if_empty_then s fallback = (if trim s = [] then fallback else s)"

text \<open>\<open>rfind\<close>-like: cuts at the last dot, unless a separator comes after it.\<close>

definition strip_file_extension :: "string \<Rightarrow> string" where
  "strip_file_extension v =
     (case dropWhile (\<lambda>c. c \<notin> {CHR ''.'', CHR ''/'', CHR 0x5C}) (rev v) of
        [] \<Rightarrow> v
      | c # r \<Rightarrow> if c = CHR ''.'' then rev r else v)"

section \<open>Values\<close>

definition trim_quotes :: "string \<Rightarrow> string" where
  "trim_quotes s = rev (dropWhile (\<lambda>c. c = CHR 0x22) (rev (dropWhile (\<lambda>c. c = CHR 0x22) s)))"

definition value_string :: "(json \<Rightarrow> string) \<Rightarrow> json option \<Rightarrow> string" where
  "value_string show v =
     (case v of None \<Rightarrow> [] | Some (JStr t) \<Rightarrow> t | Some other \<Rightarrow> trim_quotes (show other))"

definition value_i64 :: "json option \<Rightarrow> int option" where
  "value_i64 v = (case v of Some (JStr t) \<Rightarrow> parse_i64 t | Some other \<Rightarrow> as_i64 other | None \<Rightarrow> None)"

section \<open>Entries\<close>

record movie_entry =
  me_id :: string
  me_title :: string
  me_tmdb_id :: string
  me_year :: string
  me_src :: string
  me_thumb :: string
  me_description :: string
  me_uploaded_at :: int

record series_episode_entry =
  ee_title :: string
  ee_description :: string
  ee_thumb :: string
  ee_src :: string
  ee_content_kind :: string
  ee_season_number :: int
  ee_episode_number :: int
  ee_uploaded_at :: int

record series_entry =
  sy_id :: string
  sy_title :: string
  sy_content_kind :: string
  sy_tmdb_id :: string
  sy_year :: string
  sy_preferred_container :: string
  sy_requires_local_episode_sources :: bool
  sy_episodes :: "series_episode_entry list"

record library =
  lib_movies :: "movie_entry list"
  lib_series :: "series_entry list"

text \<open>The derived \<open>Serialize\<close>.\<close>

definition movie_json :: "movie_entry \<Rightarrow> json" where
  "movie_json m = JObj [(''id'', JStr (me_id m)), (''title'', JStr (me_title m)), (''tmdbId'', JStr (me_tmdb_id m)),
     (''year'', JStr (me_year m)), (''src'', JStr (me_src m)), (''thumb'', JStr (me_thumb m)),
     (''description'', JStr (me_description m)), (''uploadedAt'', JInt (me_uploaded_at m))]"

definition episode_json :: "series_episode_entry \<Rightarrow> json" where
  "episode_json e = JObj [(''title'', JStr (ee_title e)), (''description'', JStr (ee_description e)), (''thumb'', JStr (ee_thumb e)),
     (''src'', JStr (ee_src e)), (''contentKind'', JStr (ee_content_kind e)), (''seasonNumber'', JInt (ee_season_number e)),
     (''episodeNumber'', JInt (ee_episode_number e)), (''uploadedAt'', JInt (ee_uploaded_at e))]"

definition series_json :: "series_entry \<Rightarrow> json" where
  "series_json s = JObj [(''id'', JStr (sy_id s)), (''title'', JStr (sy_title s)), (''contentKind'', JStr (sy_content_kind s)),
     (''tmdbId'', JStr (sy_tmdb_id s)), (''year'', JStr (sy_year s)), (''preferredContainer'', JStr (sy_preferred_container s)),
     (''requiresLocalEpisodeSources'', JBool (sy_requires_local_episode_sources s)),
     (''episodes'', JArr (map episode_json (sy_episodes s)))]"

definition library_json :: "library \<Rightarrow> json" where
  "library_json l = JObj [(''movies'', JArr (map movie_json (lib_movies l))), (''series'', JArr (map series_json (lib_series l)))]"

section \<open>Normalisation\<close>

definition DEFAULT_THUMB :: string where "DEFAULT_THUMB = ''assets/images/thumbnail.jpg''"

text \<open>A text field, with its white space normalised.\<close>

definition clean_field :: "(json \<Rightarrow> string) \<Rightarrow> string \<Rightarrow> json \<Rightarrow> string" where
  "clean_field show k v = normalize_whitespace (value_string show (json_get k v))"

definition timestamp_field :: "int \<Rightarrow> json \<Rightarrow> int" where
  "timestamp_field now v = (case value_i64 (json_get ''uploadedAt'' v) of Some t \<Rightarrow> t | None \<Rightarrow> now)"

definition normalize_local_movie_entry :: "(json \<Rightarrow> string) \<Rightarrow> int \<Rightarrow> json \<Rightarrow> movie_entry option" where
  "normalize_local_movie_entry show now v =
     (if \<not> is_object v then None
      else let title = clean_field show ''title'' v; src = clean_field show ''src'' v
      in if title = [] \<or> src = [] then None
         else Some \<lparr>me_id = if_empty_then (trim (clean_field show ''id'' v)) (slugify title ''title''), me_title = title,
           me_tmdb_id = normalize_tmdb_id (value_string show (json_get ''tmdbId'' v)),
           me_year = normalize_year (value_string show (json_get ''year'' v)), me_src = src,
           me_thumb = if_empty_then (clean_field show ''thumb'' v) DEFAULT_THUMB,
           me_description = clean_field show ''description'' v, me_uploaded_at = timestamp_field now v\<rparr>)"

definition ordinal_field :: "string \<Rightarrow> int \<Rightarrow> json \<Rightarrow> int" where
  "ordinal_field k fallback v =
     normalize_upload_episode_ordinal (case value_i64 (json_get k v) of Some n \<Rightarrow> n | None \<Rightarrow> fallback) fallback"

definition normalize_local_series_episode_entry ::
  "(json \<Rightarrow> string) \<Rightarrow> int \<Rightarrow> string \<Rightarrow> nat \<times> json \<Rightarrow> series_episode_entry option" where
  "normalize_local_series_episode_entry show now fallback_content_kind iv =
     (let (fallback_index, v) = iv
      in if \<not> is_object v then None
         else let src = clean_field show ''src'' v
         in if src = [] then None
            else let content_kind = (if lower (clean_field show ''contentKind'' v) = ''course'' then ''course'' else fallback_content_kind);
                     episode_number = ordinal_field ''episodeNumber'' (int fallback_index + 1) v;
                     fallback_prefix = (if content_kind = ''course'' then ''Lesson'' else ''Episode'')
                 in Some \<lparr>ee_title = if_empty_then (clean_field show ''title'' v) (fallback_prefix @ '' '' @ show_int episode_number),
                      ee_description = clean_field show ''description'' v,
                      ee_thumb = if_empty_then (clean_field show ''thumb'' v) DEFAULT_THUMB, ee_src = src,
                      ee_content_kind = content_kind, ee_season_number = ordinal_field ''seasonNumber'' 1 v,
                      ee_episode_number = episode_number, ee_uploaded_at = timestamp_field now v\<rparr>)"

definition episode_order :: "series_episode_entry \<Rightarrow> int \<times> int" where
  "episode_order e = (ee_season_number e, ee_episode_number e)"

definition array_field :: "string \<Rightarrow> json \<Rightarrow> json list" where
  "array_field k v = (case json_get k v of Some (JArr items) \<Rightarrow> items | _ \<Rightarrow> [])"

definition series_content_kind :: "(json \<Rightarrow> string) \<Rightarrow> string \<Rightarrow> string \<Rightarrow> json \<Rightarrow> string" where
  "series_content_kind show i title v =
     (if lower (clean_field show ''contentKind'' v) = ''course'' then ''course''
      else if contains (lower (i @ '' '' @ title)) ''course'' then ''course'' else ''series'')"

definition normalize_local_series_entry :: "(json \<Rightarrow> string) \<Rightarrow> int \<Rightarrow> json \<Rightarrow> series_entry option" where
  "normalize_local_series_entry show now v =
     (if \<not> is_object v then None
      else let title = clean_field show ''title'' v;
               i = slugify (normalize_whitespace (if_empty_then (value_string show (json_get ''id'' v)) title)) ''series''
      in if i = [] \<or> title = [] then None
         else let kind = series_content_kind show i title v;
                  episodes = List.map_filter (normalize_local_series_episode_entry show now kind) (enumerate 0 (array_field ''episodes'' v))
              in if episodes = [] then None
                 else Some \<lparr>sy_id = i, sy_title = title, sy_content_kind = kind,
                   sy_tmdb_id = normalize_tmdb_id (value_string show (json_get ''tmdbId'' v)),
                   sy_year = normalize_year (value_string show (json_get ''year'' v)), sy_preferred_container = ''mp4'',
                   sy_requires_local_episode_sources = True, sy_episodes = sort_key episode_order episodes\<rparr>)"

definition normalize_local_library :: "(json \<Rightarrow> string) \<Rightarrow> int \<Rightarrow> json \<Rightarrow> library" where
  "normalize_local_library show now v =
     \<lparr>lib_movies = List.map_filter (normalize_local_movie_entry show now) (array_field ''movies'' v),
      lib_series = List.map_filter (normalize_local_series_entry show now) (array_field ''series'' v)\<rparr>"

section \<open>The file\<close>

text \<open>Printing and parsing of JSON text: \<open>jt_parse\<close> rejects a text with its error message.\<close>

record json_text =
  jt_parse :: "string \<Rightarrow> string + json"
  jt_pretty :: "json \<Rightarrow> string"
  jt_show :: "json \<Rightarrow> string"

text \<open>Reading gives the text of the file, \<open>None\<close> when there is none, or an error of the disk.\<close>

definition read_local_library :: "json_text \<Rightarrow> int \<Rightarrow> string + string option \<Rightarrow> library app_result" where
  "read_local_library jt now rd =
     (case rd of
        Inl e \<Rightarrow> Inl (internal e)
      | Inr None \<Rightarrow> Inr \<lparr>lib_movies = [], lib_series = []\<rparr>
      | Inr (Some raw) \<Rightarrow>
          (case jt_parse jt raw of
             Inl e \<Rightarrow> Inl (internal (''Failed to parse local library JSON: '' @ e))
           | Inr v \<Rightarrow> Inr (normalize_local_library (jt_show jt) now v)))"

text \<open>The temporary file is written, flushed and renamed; a fault in between leaves the file.\<close>

definition write_local_library_file_atomically :: "string option \<Rightarrow> string \<Rightarrow> string option \<Rightarrow> unit app_result \<times> string option" where
  "write_local_library_file_atomically fault contents file =
     (case fault of Some e \<Rightarrow> (Inl (internal e), file) | None \<Rightarrow> (Inr (), Some contents))"

definition write_local_library ::
  "json_text \<Rightarrow> int \<Rightarrow> string option \<Rightarrow> json \<Rightarrow> string option \<Rightarrow> library app_result \<times> string option" where
  "write_local_library jt now fault payload file =
     (let normalized = normalize_local_library (jt_show jt) now payload
      in case write_local_library_file_atomically fault (jt_pretty jt (library_json normalized) @ [CHR 0x0A]) file of
        (Inl e, file) \<Rightarrow> (Inl e, file) | (Inr _, file) \<Rightarrow> (Inr normalized, file))"

definition mutate_local_library ::
  "json_text \<Rightarrow> int \<Rightarrow> string option \<Rightarrow> string option \<Rightarrow> (library \<Rightarrow> ('a \<times> library) app_result) \<Rightarrow> string option \<Rightarrow>
   'a app_result \<times> string option" where
  "mutate_local_library jt now read_fault fault mutate file =
     (case read_local_library jt now (case read_fault of Some e \<Rightarrow> Inl e | None \<Rightarrow> Inr file) of
        Inl e \<Rightarrow> (Inl e, file)
      | Inr l \<Rightarrow>
          (case mutate l of
             Inl e \<Rightarrow> (Inl e, file)
           | Inr (out, l) \<Rightarrow>
               (case write_local_library jt now fault (library_json l) file of
                  (Inl e, file) \<Rightarrow> (Inl e, file) | (Inr _, file) \<Rightarrow> (Inr out, file))))"


section \<open>Normal forms\<close>

definition words_ok :: "string list \<Rightarrow> bool" where
  "words_ok ws \<longleftrightarrow> (\<forall>w \<in> set ws. w \<noteq> [] \<and> list_all (\<lambda>c. \<not> is_whitespace c) w)"

lemma words_ok_simps [simp]:
  "words_ok []" "words_ok (w # ws) \<longleftrightarrow> w \<noteq> [] \<and> list_all (\<lambda>c. \<not> is_whitespace c) w \<and> words_ok ws"
  by (auto simp: words_ok_def)

lemma split_on_piece: "p \<in> set (split_on c s) \<Longrightarrow> c \<notin> set p \<and> set p \<subseteq> set s"
proof (induction s arbitrary: p)
  case (Cons x s)
  obtain w ws where s: "split_on c s = w # ws" by (cases "split_on c s") auto
  show ?case
  proof (cases "x = c")
    case True
    with Cons show ?thesis by auto
  next
    case False
    with Cons.prems s have "p = x # w \<or> p \<in> set ws" by auto
    with Cons.IH [of w] Cons.IH [of p] s False show ?thesis by auto
  qed
qed simp

lemma split_words_ok: "words_ok (split_words s)"
proof -
  let ?m = "map (\<lambda>c. if is_whitespace c then CHR '' '' else c) s"
  have w: "is_whitespace (CHR '' '')" by (simp add: is_whitespace_def)
  have "\<not> is_whitespace c" if "c \<in> set ?m" "c \<noteq> CHR '' ''" for c using that by auto
  then have "list_all (\<lambda>c. \<not> is_whitespace c) p" if "p \<in> set (split_on CHR '' '' ?m)" for p
    using split_on_piece [OF that] by (fastforce simp: list_all_iff)
  then show ?thesis by (simp add: words_ok_def split_words_def)
qed

lemma map_no_white: "list_all (\<lambda>c. \<not> is_whitespace c) w \<Longrightarrow> map (\<lambda>c. if is_whitespace c then CHR '' '' else c) w = w"
  by (induction w) auto

lemma space_not_in: "list_all (\<lambda>c. \<not> is_whitespace c) w \<Longrightarrow> CHR '' '' \<notin> set w"
  by (auto simp: list_all_iff is_whitespace_def)

lemma space_is_white [simp]: "is_whitespace (CHR '' '')"
  by (simp add: is_whitespace_def)

lemma trim_Nil [simp]: "trim [] = []"
  by (simp add: trim_def trim_start_def)

lemma split_words_join: "words_ok ws \<Longrightarrow> split_words (join_words ws) = ws"
proof (induction ws rule: join_words.induct)
  case 1 then show ?case by (simp add: split_words_def)
next
  case (2 w)
  then show ?case by (simp add: split_words_def map_no_white split_on_single space_not_in)
next
  case (3 w v ws)
  then have "split_words (join_words (v # ws)) = v # ws" by simp
  with 3(2) show ?case
    by (simp add: split_words_def map_no_white split_on_append space_not_in)
qed

lemma trim_id: "s = [] \<or> (\<not> is_whitespace (hd s) \<and> \<not> is_whitespace (last s)) \<Longrightarrow> trim s = s"
proof -
  assume h: "s = [] \<or> (\<not> is_whitespace (hd s) \<and> \<not> is_whitespace (last s))"
  then have "dropWhile is_whitespace s = s" by (cases s) auto
  moreover from h have "dropWhile is_whitespace (rev s) = rev s" by (cases s rule: rev_cases) auto
  ultimately show ?thesis by (simp add: trim_def trim_start_def trim_end_def)
qed

lemma join_words_ends: "words_ok ws \<Longrightarrow> ws \<noteq> [] \<Longrightarrow> join_words ws \<noteq> [] \<and> \<not> is_whitespace (hd (join_words ws)) \<and> \<not> is_whitespace (last (join_words ws))"
proof (induction ws rule: join_words.induct)
  case (2 w)
  then show ?case by (auto simp: list_all_iff)
next
  case (3 w v ws)
  then have "join_words (v # ws) \<noteq> []" "\<not> is_whitespace (last (join_words (v # ws)))" by auto
  with 3(2) show ?case by (auto simp: list_all_iff)
qed simp

lemma trim_join: "words_ok ws \<Longrightarrow> trim (join_words ws) = join_words ws"
  using join_words_ends by (cases ws) (auto intro!: trim_id)

lemma normalize_whitespace_join: "normalize_whitespace s = join_words (split_words s)"
  by (simp add: normalize_whitespace_def trim_join split_words_ok)

lemma normalize_whitespace_idem [simp]: "normalize_whitespace (normalize_whitespace s) = normalize_whitespace s"
  by (simp add: normalize_whitespace_join split_words_join split_words_ok)

lemma trim_normalize_whitespace [simp]: "trim (normalize_whitespace s) = normalize_whitespace s"
  by (simp add: normalize_whitespace_join trim_join split_words_ok)

lemma normalize_year_idem [simp]: "normalize_year (normalize_year s) = normalize_year s"
  by (auto simp: normalize_year_def Let_def split: option.splits)

lemma normalize_tmdb_id_idem [simp]: "normalize_tmdb_id (normalize_tmdb_id s) = normalize_tmdb_id s"
  by (simp add: normalize_tmdb_id_def Let_def)

text \<open>What a slug looks like.\<close>

definition slug_char :: "char \<Rightarrow> bool" where
  "slug_char c \<longleftrightarrow> (is_ascii_alphanumeric c \<and> lower_char c = c) \<or> c = CHR ''-''"

definition slug_ok :: "string \<Rightarrow> bool" where
  "slug_ok s \<longleftrightarrow> s \<noteq> [] \<and> list_all slug_char s \<and> hd s \<noteq> CHR ''-'' \<and> last s \<noteq> CHR ''-'' \<and>
     successively (\<lambda>a b. \<not> (a = CHR ''-'' \<and> b = CHR ''-'')) s"

lemma slug_chars_set: "list_all (\<lambda>c. lower_char c = c) s \<Longrightarrow> list_all slug_char (slug_chars d s)"
  by (induction d s rule: slug_chars.induct) (auto simp: slug_char_def)

lemma slug_chars_no_start: "slug_chars True s = [] \<or> hd (slug_chars True s) \<noteq> CHR ''-''"
  by (induction s) (auto simp: is_ascii_alphanumeric_def is_ascii_alphabetic_def is_ascii_upper_def is_ascii_lower_def is_ascii_digit_def)

lemma slug_chars_successively: "successively (\<lambda>a b. \<not> (a = CHR ''-'' \<and> b = CHR ''-'')) (slug_chars d s)"
proof (induction d s rule: slug_chars.induct)
  case (2 d c s)
  have "\<not> (c = CHR ''-'')" if "is_ascii_alphanumeric c"
    using that by (auto simp: is_ascii_alphanumeric_def is_ascii_alphabetic_def is_ascii_upper_def is_ascii_lower_def is_ascii_digit_def)
  with 2 slug_chars_no_start [of s] show ?case by (auto simp: successively_Cons)
qed simp

lemma slug_chars_id:
  "list_all slug_char s \<Longrightarrow> successively (\<lambda>a b. \<not> (a = CHR ''-'' \<and> b = CHR ''-'')) s \<Longrightarrow> (d \<longrightarrow> s = [] \<or> hd s \<noteq> CHR ''-'') \<Longrightarrow>
   slug_chars d s = s"
proof (induction s arbitrary: d)
  case (Cons c s)
  have "\<not> is_ascii_alphanumeric (CHR ''-'')"
    by (simp add: is_ascii_alphanumeric_def is_ascii_alphabetic_def is_ascii_upper_def is_ascii_lower_def is_ascii_digit_def)
  with Cons show ?case by (auto simp: successively_Cons slug_char_def)
qed simp

lemma slug_char_plain: "slug_char c \<Longrightarrow> \<not> is_whitespace c \<and> lower_char c = c"
  by (auto simp: slug_char_def is_whitespace_def is_ascii_alphanumeric_def is_ascii_alphabetic_def is_ascii_upper_def is_ascii_lower_def
      is_ascii_digit_def lower_char_def)

lemma lower_slug: "list_all slug_char s \<Longrightarrow> lower s = s"
  by (induction s) (auto simp: lower_def slug_char_plain)

lemma no_white_normal: "list_all (\<lambda>c. \<not> is_whitespace c) s \<Longrightarrow> normalize_whitespace s = s"
  using split_words_join [of "if s = [] then [] else [s]"] by (cases s) (auto simp: normalize_whitespace_join)

lemma trim_dashes_id: "hd s \<noteq> CHR ''-'' \<Longrightarrow> last s \<noteq> CHR ''-'' \<Longrightarrow> trim_dashes s = s"
proof -
  assume h: "hd s \<noteq> CHR ''-''" "last s \<noteq> CHR ''-''"
  have "dropWhile (\<lambda>c. c = CHR ''-'') s = s" using h(1) by (cases s) auto
  moreover have "dropWhile (\<lambda>c. c = CHR ''-'') (rev s) = rev s" using h(2) by (cases s rule: rev_cases) auto
  ultimately show ?thesis by (simp add: trim_dashes_def)
qed

lemma slugify_slug: "slug_ok s \<Longrightarrow> slugify s fallback = s"
proof -
  assume s: "slug_ok s"
  then have "list_all (\<lambda>c. \<not> is_whitespace c) s" by (auto simp: slug_ok_def list_all_iff dest: slug_char_plain)
  then have "normalize_whitespace s = s" by (rule no_white_normal)
  with s show ?thesis by (simp add: slugify_def slug_ok_def lower_slug slug_chars_id trim_dashes_id Let_def)
qed

lemma trim_dashes_infix: "\<exists>a b. s = a @ trim_dashes s @ b"
proof -
  let ?t = "dropWhile (\<lambda>c. c = CHR ''-'') s"
  have "s = takeWhile (\<lambda>c. c = CHR ''-'') s @ ?t" by simp
  moreover have "?t = trim_dashes s @ rev (takeWhile (\<lambda>c. c = CHR ''-'') (rev ?t))"
    unfolding trim_dashes_def by (metis rev_append rev_rev_ident takeWhile_dropWhile_id)
  ultimately show ?thesis by metis
qed

lemma trim_dashes_ends: "trim_dashes s \<noteq> [] \<Longrightarrow> hd (trim_dashes s) \<noteq> CHR ''-'' \<and> last (trim_dashes s) \<noteq> CHR ''-''"
proof
  let ?t = "dropWhile (\<lambda>c. c = CHR ''-'') s"
  assume n: "trim_dashes s \<noteq> []"
  then show "last (trim_dashes s) \<noteq> CHR ''-''"
    using hd_dropWhile [of "\<lambda>c. c = CHR ''-''" "rev ?t"] unfolding trim_dashes_def by (simp only: last_rev rev_is_Nil_conv) simp
  have e: "?t = trim_dashes s @ rev (takeWhile (\<lambda>c. c = CHR ''-'') (rev ?t))"
    unfolding trim_dashes_def by (metis rev_append rev_rev_ident takeWhile_dropWhile_id)
  with n have "?t \<noteq> []" "hd ?t = hd (trim_dashes s)" by (metis append_is_Nil_conv) (metis e hd_append2 n)
  then show "hd (trim_dashes s) \<noteq> CHR ''-''" using hd_dropWhile [of "\<lambda>c. c = CHR ''-''" s] by simp
qed

lemma slugify_ok:
  assumes "slug_ok fallback"
  shows "slug_ok (slugify v fallback)"
proof -
  let ?s = "slug_chars False (lower (normalize_whitespace v))"
  have a: "list_all slug_char ?s" by (rule slug_chars_set) (simp add: lower_def list_all_iff)
  have b: "successively (\<lambda>a b. \<not> (a = CHR ''-'' \<and> b = CHR ''-'')) ?s" by (rule slug_chars_successively)
  obtain x y where i: "?s = x @ trim_dashes ?s @ y" using trim_dashes_infix by blast
  have "list_all slug_char (trim_dashes ?s)" using a by (subst (asm) i) simp
  moreover have "successively (\<lambda>a b. \<not> (a = CHR ''-'' \<and> b = CHR ''-'')) (trim_dashes ?s)"
    using b by (subst (asm) i) (simp add: successively_append_iff)
  ultimately show ?thesis
    using assms trim_dashes_ends [of ?s] by (auto simp: slugify_def slug_ok_def Let_def)
qed


section \<open>Well-formed libraries\<close>

definition clean :: "string \<Rightarrow> bool" where
  "clean s \<longleftrightarrow> normalize_whitespace s = s"

definition wf_movie :: "movie_entry \<Rightarrow> bool" where
  "wf_movie m \<longleftrightarrow> clean (me_id m) \<and> me_id m \<noteq> [] \<and> clean (me_title m) \<and> me_title m \<noteq> [] \<and>
     normalize_tmdb_id (me_tmdb_id m) = me_tmdb_id m \<and> normalize_year (me_year m) = me_year m \<and>
     clean (me_src m) \<and> me_src m \<noteq> [] \<and> clean (me_thumb m) \<and> me_thumb m \<noteq> [] \<and> clean (me_description m) \<and>
     i64_range (me_uploaded_at m)"

definition wf_episode :: "string \<Rightarrow> series_episode_entry \<Rightarrow> bool" where
  "wf_episode kind e \<longleftrightarrow> clean (ee_title e) \<and> ee_title e \<noteq> [] \<and> clean (ee_description e) \<and> clean (ee_thumb e) \<and> ee_thumb e \<noteq> [] \<and>
     clean (ee_src e) \<and> ee_src e \<noteq> [] \<and> ee_content_kind e \<in> {''course'', kind} \<and>
     1 \<le> ee_season_number e \<and> ee_season_number e \<le> 999 \<and> 1 \<le> ee_episode_number e \<and> i64_range (ee_uploaded_at e)"

definition wf_series :: "series_entry \<Rightarrow> bool" where
  "wf_series s \<longleftrightarrow> slug_ok (sy_id s) \<and> clean (sy_title s) \<and> sy_title s \<noteq> [] \<and>
     (sy_content_kind s = ''course'' \<or> sy_content_kind s = ''series'' \<and> \<not> contains (lower (sy_id s @ '' '' @ sy_title s)) ''course'') \<and>
     normalize_tmdb_id (sy_tmdb_id s) = sy_tmdb_id s \<and> normalize_year (sy_year s) = sy_year s \<and>
     sy_preferred_container s = ''mp4'' \<and> sy_requires_local_episode_sources s \<and> sy_episodes s \<noteq> [] \<and>
     (\<forall>e \<in> set (sy_episodes s). wf_episode (sy_content_kind s) e) \<and> sorted (map episode_order (sy_episodes s))"

definition wf_library :: "library \<Rightarrow> bool" where
  "wf_library l \<longleftrightarrow> (\<forall>m \<in> set (lib_movies l). wf_movie m) \<and> (\<forall>s \<in> set (lib_series l). wf_series s)"

lemma clean_field_clean [simp]: "clean (clean_field show k v)"
  by (simp add: clean_def clean_field_def)

lemma clean_plain: "list_all (\<lambda>c. \<not> is_whitespace c) s \<Longrightarrow> clean s"
  by (simp add: clean_def no_white_normal)

lemma slug_clean: "slug_ok s \<Longrightarrow> clean s \<and> s \<noteq> [] \<and> trim s = s"
proof -
  assume s: "slug_ok s"
  then have "list_all (\<lambda>c. \<not> is_whitespace c) s" by (auto simp: slug_ok_def list_all_iff dest: slug_char_plain)
  then have "clean s" by (rule clean_plain)
  moreover from this have "trim s = s" unfolding clean_def by (metis trim_normalize_whitespace)
  ultimately show ?thesis using s by (simp add: slug_ok_def)
qed

lemma slug_fallbacks [simp]: "slug_ok ''title''" "slug_ok ''series''"
  by code_simp+

lemma clean_trim: "clean s \<Longrightarrow> trim s = s"
  unfolding clean_def by (metis trim_normalize_whitespace)

lemma default_thumb_clean [simp]: "clean DEFAULT_THUMB" "DEFAULT_THUMB \<noteq> []"
  by code_simp+

lemma if_empty_clean: "clean s \<Longrightarrow> clean d \<Longrightarrow> d \<noteq> [] \<Longrightarrow> clean (if_empty_then s d) \<and> if_empty_then s d \<noteq> []"
  by (auto simp: if_empty_then_def clean_trim)

lemma timestamp_range: "i64_range now \<Longrightarrow> i64_range (timestamp_field now v)"
proof -
  assume now: "i64_range now"
  have p: "i64_range n" if "parse_i64 t = Some n" for t n
    using that by (auto simp: parse_i64_def Let_def split: if_splits option.splits prod.splits)
  have "i64_range n" if "value_i64 (json_get ''uploadedAt'' v) = Some n" for n
    using that p by (auto simp: value_i64_def split: option.splits json.splits if_splits)
  with now show ?thesis by (simp add: timestamp_field_def split: option.split)
qed

lemma ordinal_range: "1 \<le> fallback \<Longrightarrow> 1 \<le> ordinal_field k fallback v \<and> ordinal_field k fallback v \<le> max 999 fallback"
  by (auto simp: ordinal_field_def normalize_upload_episode_ordinal_def split: option.split)

lemma movie_wf: "normalize_local_movie_entry show now v = Some m \<Longrightarrow> i64_range now \<Longrightarrow> wf_movie m"
  using slug_clean [OF slugify_ok [OF slug_fallbacks(1)]]
  by (auto simp: normalize_local_movie_entry_def wf_movie_def Let_def timestamp_range if_empty_clean clean_trim split: if_splits)

lemma clean_lesson: "clean (join_words [w, show_int n])" if "w \<noteq> []" "list_all (\<lambda>c. \<not> is_whitespace c) w"
proof -
  have "\<not> is_whitespace c" if "c \<in> set (show_nat k)" for c k
    using show_nat_digits [OF that] by (auto simp: is_ascii_digit_def is_whitespace_def)
  then have "list_all (\<lambda>c. \<not> is_whitespace c) (show_int n)"
    by (auto simp: show_int_def list_all_iff is_whitespace_def)
  moreover have "show_int n \<noteq> []" by (simp add: show_int_def)
  ultimately have "words_ok [w, show_int n]" using that by simp
  then show ?thesis unfolding clean_def normalize_whitespace_join by (simp only: split_words_join)
qed

lemma episode_wf:
  assumes "normalize_local_series_episode_entry show now kind (i, v) = Some e" and "i64_range now"
  shows "wf_episode kind e"
proof -
  let ?kind = "if lower (clean_field show ''contentKind'' v) = ''course'' then ''course'' else kind"
  let ?n = "ordinal_field ''episodeNumber'' (int i + 1) v"
  let ?d = "(if ?kind = ''course'' then ''Lesson'' else ''Episode'') @ '' '' @ show_int ?n"
  from assms(1) have e: "clean_field show ''src'' v \<noteq> []" "ee_title e = if_empty_then (clean_field show ''title'' v) ?d"
    "ee_description e = clean_field show ''description'' v" "ee_thumb e = if_empty_then (clean_field show ''thumb'' v) DEFAULT_THUMB"
    "ee_src e = clean_field show ''src'' v" "ee_content_kind e = ?kind" "ee_season_number e = ordinal_field ''seasonNumber'' 1 v"
    "ee_episode_number e = ?n" "ee_uploaded_at e = timestamp_field now v"
    by (auto simp: normalize_local_series_episode_entry_def Let_def split: if_splits)
  have t: "clean ((if b then ''Lesson'' else ''Episode'') @ '' '' @ show_int n)" for b n
    using clean_lesson [of "if b then ''Lesson'' else ''Episode''" n] by (cases b) (simp_all add: is_whitespace_def)
  have "clean (ee_title e) \<and> ee_title e \<noteq> []" unfolding e(2) by (rule if_empty_clean [OF clean_field_clean t]) simp
  moreover have "clean (ee_thumb e) \<and> ee_thumb e \<noteq> []" unfolding e(4) by (rule if_empty_clean) simp_all
  moreover have "1 \<le> ee_season_number e \<and> ee_season_number e \<le> 999" using ordinal_range [of 1 "''seasonNumber''" v] e(7) by simp
  moreover have "1 \<le> ee_episode_number e" using ordinal_range [of "int i + 1" "''episodeNumber''" v] e(8) by simp
  ultimately show ?thesis using e(1) assms(2) by (simp add: wf_episode_def e(3,5,6,9) timestamp_range)
qed

lemma map_filter_set: "y \<in> set (List.map_filter f xs) \<Longrightarrow> \<exists>x \<in> set xs. f x = Some y"
  by (induction xs) (auto simp: List.map_filter_simps split: option.splits)

lemma series_wf:
  assumes "normalize_local_series_entry show now v = Some s" and "i64_range now"
  shows "wf_series s"
proof -
  let ?title = "clean_field show ''title'' v"
  let ?i = "slugify (normalize_whitespace (if_empty_then (value_string show (json_get ''id'' v)) ?title)) ''series''"
  let ?k = "series_content_kind show ?i ?title v"
  let ?es = "List.map_filter (normalize_local_series_episode_entry show now ?k) (enumerate 0 (array_field ''episodes'' v))"
  from assms(1) have s: "?title \<noteq> []" "?es \<noteq> []" "sy_title s = ?title" "sy_id s = ?i" "sy_content_kind s = ?k"
    "sy_episodes s = sort_key episode_order ?es" "sy_tmdb_id s = normalize_tmdb_id (value_string show (json_get ''tmdbId'' v))"
    "sy_year s = normalize_year (value_string show (json_get ''year'' v))" "sy_preferred_container s = ''mp4''"
    "sy_requires_local_episode_sources s"
    by (auto simp: normalize_local_series_entry_def Let_def split: if_splits)
  have es: "\<forall>e \<in> set ?es. wf_episode ?k e"
    using episode_wf [OF _ assms(2)] by (fastforce dest!: map_filter_set)
  have "slug_ok ?i" by (rule slugify_ok [OF slug_fallbacks(2)])
  moreover have "set (sy_episodes s) = set ?es" by (simp only: s(6) set_sort)
  then have "sy_episodes s \<noteq> []" using s(2) by (metis set_empty)
  moreover have "?k = ''course'' \<or> ?k = ''series'' \<and> \<not> contains (lower (?i @ '' '' @ ?title)) ''course''"
    by (simp add: series_content_kind_def)
  ultimately show ?thesis using s es by (simp add: wf_series_def)
qed

lemma normalized_wf: "i64_range now \<Longrightarrow> wf_library (normalize_local_library show now v)"
  by (auto simp: wf_library_def normalize_local_library_def dest!: map_filter_set intro: movie_wf series_wf)


text \<open>A library read from the file is well formed, whatever the file holds.\<close>

lemma read_wf: "read_local_library jt now rd = Inr l \<Longrightarrow> i64_range now \<Longrightarrow> wf_library l"
  by (auto simp: read_local_library_def wf_library_def [of "\<lparr>lib_movies = [], lib_series = []\<rparr>"] normalized_wf
      split: sum.splits option.splits)

text \<open>C39: The library type invariant: whatever text the library file holds - written by hand, by an
  older version, or damaged - the library the program works with is well formed. Movies have a
  title, a source, an identity and a thumbnail; white space is normalised; years and TMDB numbers
  are digits or empty; a series has a slug for identity and at least one episode; seasons lie
  between 1 and 999; and the episodes are in order.\<close>

theorem library_is_well_formed:
  "i64_range now \<Longrightarrow> read_local_library jt now rd = Inr l \<Longrightarrow> wf_library l"
  by (rule read_wf)

theorem library_is_well_formed_witness:
  "wf_library (normalize_local_library (\<lambda>v. ''null'') 7 (JObj [(''movies'', JArr [JObj [(''title'', JStr '' A  b ''), (''src'', JStr ''x.mp4'')]])]))"
proof -
  have "i64_range 7" by code_simp
  then show ?thesis
    by (rule library_is_well_formed [where rd = "Inr (Some '''')" and
        jt = "\<lparr>jt_parse = \<lambda>_. Inr (JObj [(''movies'', JArr [JObj [(''title'', JStr '' A  b ''), (''src'', JStr ''x.mp4'')]])]),
          jt_pretty = \<lambda>_. '''', jt_show = \<lambda>v. ''null''\<rparr>"]) (simp add: read_local_library_def)
qed

text \<open>What was written is read back as it was.\<close>

lemma value_string_Some [simp]: "value_string show (Some (JStr t)) = t"
  by (simp add: value_string_def)

lemma value_i64_JInt: "i64_range n \<Longrightarrow> value_i64 (Some (JInt n)) = Some n"
  by (simp add: value_i64_def)

lemma normalize_movie_json: "wf_movie m \<Longrightarrow> normalize_local_movie_entry show now (movie_json m) = Some m"
  by (simp add: normalize_local_movie_entry_def movie_json_def wf_movie_def clean_field_def timestamp_field_def value_i64_JInt clean_def
      if_empty_then_def Let_def clean_trim [unfolded clean_def])

lemma normalize_episode_json:
  assumes "wf_episode kind e" "kind = ''course'' \<or> kind = ''series''" "ee_episode_number e \<le> 999"
  shows "normalize_local_series_episode_entry show now kind (i, episode_json e) = Some e"
proof -
  have r: "i64_range n" if "1 \<le> n" "n \<le> 999" for n using that by (simp add: i64_range_def i64_min_def i64_max_def)
  have k: "clean ''course''" "clean ''series''" "lower ''course'' = ''course''" "lower ''series'' = ''series''" by code_simp+
  have n: "ordinal_field ''episodeNumber'' f (episode_json e) = ee_episode_number e"
    "ordinal_field ''seasonNumber'' f (episode_json e) = ee_season_number e"
    "timestamp_field now (episode_json e) = ee_uploaded_at e" for f
    using assms(1,3) by (simp_all add: ordinal_field_def timestamp_field_def episode_json_def wf_episode_def value_i64_JInt r
        normalize_upload_episode_ordinal_def)
  have t: "clean_field show ''src'' (episode_json e) = ee_src e" "clean_field show ''title'' (episode_json e) = ee_title e"
    "clean_field show ''description'' (episode_json e) = ee_description e" "clean_field show ''thumb'' (episode_json e) = ee_thumb e"
    "clean_field show ''contentKind'' (episode_json e) = ee_content_kind e"
    using assms(1,2) k(1,2) by (auto simp: clean_field_def episode_json_def wf_episode_def clean_def)
  have c: "(if lower (ee_content_kind e) = ''course'' then ''course'' else kind) = ee_content_kind e"
    using assms(1,2) k(3,4) by (auto simp: wf_episode_def)
  have "is_object (episode_json e)" by (simp add: episode_json_def)
  then show ?thesis
    using assms(1) unfolding normalize_local_series_episode_entry_def Let_def split_conv t n c
    by (simp add: wf_episode_def if_empty_then_def clean_trim)
qed

definition library_numbered :: "library \<Rightarrow> bool" where
  "library_numbered l \<longleftrightarrow> (\<forall>s \<in> set (lib_series l). \<forall>e \<in> set (sy_episodes s). ee_episode_number e \<le> 999)"

lemma map_filter_inverse: "(\<And>x. x \<in> set xs \<Longrightarrow> f (g x) = Some x) \<Longrightarrow> List.map_filter f (map g xs) = xs"
  by (induction xs) auto

lemma map_filter_enumerate_all:
  "(\<And>i x. x \<in> set xs \<Longrightarrow> f (i, g x) = Some x) \<Longrightarrow> List.map_filter f (enumerate n (map g xs)) = xs"
  by (induction xs arbitrary: n) auto

lemma normalize_series_json:
  assumes "wf_series s" "\<forall>e \<in> set (sy_episodes s). ee_episode_number e \<le> 999"
  shows "normalize_local_series_entry show now (series_json s) = Some s"
proof -
  have w: "slug_ok (sy_id s)" "clean (sy_title s)" "sy_title s \<noteq> []" using assms(1) by (simp_all add: wf_series_def)
  note c = slug_clean [OF w(1)]
  have k: "clean ''course''" "clean ''series''" "lower ''course'' = ''course''" "lower ''series'' = ''series''" by code_simp+
  have t: "clean_field show ''title'' (series_json s) = sy_title s" "clean_field show ''contentKind'' (series_json s) = sy_content_kind s"
    "value_string show (json_get ''tmdbId'' (series_json s)) = sy_tmdb_id s" "value_string show (json_get ''year'' (series_json s)) = sy_year s"
    "array_field ''episodes'' (series_json s) = map episode_json (sy_episodes s)" "is_object (series_json s)"
    using assms(1) k(1,2) by (auto simp: clean_field_def series_json_def wf_series_def clean_def array_field_def)
  have i: "slugify (normalize_whitespace (if_empty_then (value_string show (json_get ''id'' (series_json s))) x)) ''series'' = sy_id s" for x
    using c slugify_slug [OF w(1)] by (simp add: series_json_def if_empty_then_def clean_def)
  have e: "List.map_filter (normalize_local_series_episode_entry show now (sy_content_kind s)) (enumerate 0 (map episode_json (sy_episodes s))) =
      sy_episodes s"
    using assms by (intro map_filter_enumerate_all normalize_episode_json) (auto simp: wf_series_def)
  have "series_content_kind show (sy_id s) (sy_title s) (series_json s) = sy_content_kind s"
    using assms(1) k(3,4) unfolding series_content_kind_def t by (auto simp: wf_series_def)
  then show ?thesis
    using assms(1) c unfolding normalize_local_series_entry_def t i Let_def
    by (simp add: e t(6) wf_series_def sort_key_id_if_sorted)
qed

lemma normalize_library_json: "wf_library l \<Longrightarrow> library_numbered l \<Longrightarrow> normalize_local_library show now (library_json l) = l"
  by (simp add: normalize_local_library_def library_json_def array_field_def wf_library_def library_numbered_def
      map_filter_inverse normalize_movie_json normalize_series_json)

lemma saved_read_back:
  assumes "jt_parse jt (jt_pretty jt (library_json l) @ [CHR 0x0A]) = Inr (library_json l)" and "wf_library l" and "library_numbered l"
  shows "\<exists>file'. write_local_library jt now None (library_json l) file = (Inr l, file') \<and> read_local_library jt later (Inr file') = Inr l"
  by (simp add: write_local_library_def write_local_library_file_atomically_def normalize_library_json [OF assms(2,3)]
      read_local_library_def assms(1))


definition sample_movie :: movie_entry where
  "sample_movie = \<lparr>me_id = ''m1'', me_title = ''A film'', me_tmdb_id = ''603'', me_year = ''1999'', me_src = ''/videos/a.mp4'',
     me_thumb = DEFAULT_THUMB, me_description = '''', me_uploaded_at = 5\<rparr>"

definition sample_text :: json_text where
  "sample_text = \<lparr>jt_parse = \<lambda>t. Inr (library_json \<lparr>lib_movies = [sample_movie], lib_series = []\<rparr>), jt_pretty = \<lambda>_. ''{}'',
     jt_show = \<lambda>_. ''null''\<rparr>"


text \<open>A description that is JSON \<open>null\<close> becomes the text \<open>null\<close>.\<close>

lemma null_field_becomes_text:
  "show JNull = ''null'' \<Longrightarrow> clean_field show ''description'' (JObj [(''description'', JNull)]) = ''null''"
proof -
  assume s: "show JNull = ''null''"
  have "normalize_whitespace (trim_quotes ''null'') = ''null''" by code_simp
  then show ?thesis by (simp add: clean_field_def value_string_def s)
qed

text \<open>Why episode numbers are bounded above: at place 1000, a number that is not positive is replaced by
  1000, which the next reading lowers to 999.\<close>

lemma thousandth_episode_number: "ordinal_field ''episodeNumber'' 1000 (JObj [(''episodeNumber'', JInt 0)]) = 1000"
  by (simp add: ordinal_field_def value_i64_def normalize_upload_episode_ordinal_def i64_range_def i64_min_def i64_max_def)

lemma number_1000_is_lowered: "ordinal_field ''episodeNumber'' n (JObj [(''episodeNumber'', JInt 1000)]) = 999"
  by (simp add: ordinal_field_def value_i64_def normalize_upload_episode_ordinal_def i64_range_def i64_min_def i64_max_def)


end
