(* ===== verification/LiveGrants.thy ===== *)
theory LiveGrants
  imports NetworkGuards AuthHandlers
begin

text \<open>
  Who may make the server fetch which address: the live proxy of \<open>src/live.rs\<close>. A request
  names an upstream address; it is served if its host is one of the compiled hosts, or if the
  address is public and the request carries a signature that this server minted for exactly
  this address, referer and expiry, and for a private grant also for this session. The URL
  parser, query-string coding, HMAC-SHA-256 and base64url are the environment \<open>live_env\<close>.
\<close>

section \<open>Environment\<close>

text \<open>What \<open>url::Url\<close> gives besides; \<open>wu_text\<close> is \<open>as_str\<close>, \<open>wu_port\<close> the explicit port.\<close>

record web_url = url +
  wu_text :: string
  wu_path :: string
  wu_port :: "nat option"
  wu_query :: "(string \<times> string) list"
  wu_fragment :: "string option"

record live_env =
  lv_parse :: "string \<Rightarrow> web_url option"
  lv_join :: "web_url \<Rightarrow> string \<Rightarrow> web_url option"
  lv_query_pairs :: "string \<Rightarrow> (string \<times> string) list"
  lv_encode :: "string \<Rightarrow> string"
  lv_hmac :: "string \<Rightarrow> string \<Rightarrow> string"
  lv_b64 :: "string \<Rightarrow> string"
  lv_unb64 :: "string \<Rightarrow> string option"

type_synonym query_params = "string \<rightharpoonup> string"

text \<open>Collected into a map, the last value of a repeated name stays.\<close>

definition query_pairs :: "live_env \<Rightarrow> string \<Rightarrow> query_params" where
  "query_pairs env query = map_of (rev (lv_query_pairs env query))"

record live_uri =
  lu_path :: string
  lu_query :: string

record live_hls_request =
  lr_source_url :: web_url
  lr_referer :: "string option"
  lr_trusted_external_embed :: bool
  lr_signature_expires_at :: "int option"
  lr_direct_segments :: bool
  lr_private_session_binding :: "string option"

record live_hls_signing_context =
  sc_secret :: string
  sc_expires_at :: int
  sc_private_session_binding :: "string option"

definition LIVE_HLS_EXTERNAL_EMBED_PARAM :: string where "LIVE_HLS_EXTERNAL_EMBED_PARAM = ''externalEmbed''"
definition LIVE_HLS_SIGNATURE_PARAM :: string where "LIVE_HLS_SIGNATURE_PARAM = ''sig''"
definition LIVE_HLS_SIGNATURE_V2_PARAM :: string where "LIVE_HLS_SIGNATURE_V2_PARAM = ''sigV2''"
definition LIVE_HLS_SIGNATURE_EXPIRY_PARAM :: string where "LIVE_HLS_SIGNATURE_EXPIRY_PARAM = ''expires''"
definition LIVE_HLS_PRIVATE_SESSION_PARAM :: string where "LIVE_HLS_PRIVATE_SESSION_PARAM = ''privateSession''"
definition LIVE_HLS_SIGNATURE_CONTEXT_V1 :: string where "LIVE_HLS_SIGNATURE_CONTEXT_V1 = ''streamarena-live-hls-v1''"
definition LIVE_HLS_SIGNATURE_CONTEXT_V2 :: string where "LIVE_HLS_SIGNATURE_CONTEXT_V2 = ''streamarena-live-hls-v2''"
definition LIVE_HLS_SIGNATURE_CONTEXT_PRIVATE_V1 :: string where
  "LIVE_HLS_SIGNATURE_CONTEXT_PRIVATE_V1 = ''streamarena-live-hls-private-v1''"
definition LIVE_HLS_PRIVATE_SESSION_CONTEXT :: string where
  "LIVE_HLS_PRIVATE_SESSION_CONTEXT = ''streamarena-live-hls-session-v1''"
definition LIVE_HLS_SIGNATURE_TTL_SECONDS :: int where "LIVE_HLS_SIGNATURE_TTL_SECONDS = 4 * 60 * 60"
definition LIVE_HLS_SIGNATURE_MAX_TTL_SECONDS :: int where "LIVE_HLS_SIGNATURE_MAX_TTL_SECONDS = 6 * 60 * 60"
definition LIVE_HLS_SIGNATURE_CLOCK_SKEW_SECONDS :: int where "LIVE_HLS_SIGNATURE_CLOCK_SKEW_SECONDS = 60"

definition LIVE_HLS_ALLOWED_HOSTS :: "string list" where
  "LIVE_HLS_ALLOWED_HOSTS =
     [''liveproduseast.akamaized.net'', ''liveproduseast.global.ssl.fastly.net'',
      ''liveprodusphoenixeast.global.ssl.fastly.net'', ''liveprodusphoenixeast.akamaized.net'',
      ''liveprodeuwest.global.ssl.fastly.net'', ''liveprodeuwest.akamaized.net'',
      ''vs-hls-push-ww-live.akamaized.net'', ''jmp2.uk'', ''stitcher-ipv4.pluto.tv'', ''mcdn-01.plutotv.net'',
      ''www.bloomberg.com'', ''28585519.net'', ''antennaplus.gr'', ''broadpeak-aas.com'', ''cdn.skycdp.com'',
      ''msvdn.net'', ''siliconweb.com'', ''strmd.st'', ''lovetier.bz'', ''strmd.top'', ''bluetier.top'',
      ''zohanayaan.com'', ''easy.speedsterwave.app'', ''easy.nightspeedster.app'', ''hello.mousedoor.com'',
      ''yoru.midwesteagle.com'', ''www.cloudflare-terms-of-service-abuse.com'', ''storm.vodvidl.site'',
      ''typhoontigertribe.net'', ''ttvnw.net'', ''cdnlivetv.tv'', ''cdn-live.tv'']"

section \<open>Hosts\<close>

definition strip_suffix :: "string \<Rightarrow> string \<Rightarrow> string option" where
  "strip_suffix suffix s = (if ends_with s suffix then Some (take (length s - length suffix) s) else None)"

definition host_matches_allowed_live_hls_host :: "string \<Rightarrow> string \<Rightarrow> bool" where
  "host_matches_allowed_live_hls_host host allowed \<longleftrightarrow>
     host = allowed \<or> (case strip_suffix allowed host of None \<Rightarrow> False | Some prefix \<Rightarrow> ends_with prefix ''.'')"

definition is_allowed_live_hls_url :: "web_url \<Rightarrow> bool" where
  "is_allowed_live_hls_url url \<longleftrightarrow>
     url_scheme url \<in> {''https'', ''http''} \<and>
     (case url_host url of
        None \<Rightarrow> False
      | Some host \<Rightarrow> list_ex (host_matches_allowed_live_hls_host (lower host)) LIVE_HLS_ALLOWED_HOSTS)"

text \<open>\<open>parse::<Ipv4Addr>\<close>: four decimal octets without leading zeros.\<close>

definition is_ipv4_octet :: "string \<Rightarrow> bool" where
  "is_ipv4_octet s \<longleftrightarrow> s \<noteq> [] \<and> length s \<le> 3 \<and> list_all is_ascii_digit s \<and> (length s = 1 \<or> hd s \<noteq> CHR ''0'') \<and>
     (case parse_digits 0 s of None \<Rightarrow> False | Some n \<Rightarrow> n \<le> 255)"

definition is_ipv4_literal :: "string \<Rightarrow> bool" where
  "is_ipv4_literal s \<longleftrightarrow> length (split_on CHR ''.'' s) = 4 \<and> list_all is_ipv4_octet (split_on CHR ''.'' s)"

definition is_hostname_byte :: "char \<Rightarrow> bool" where
  "is_hostname_byte c \<longleftrightarrow> is_ascii_lower c \<or> is_ascii_digit c \<or> c = CHR ''.'' \<or> c = CHR ''-''"

definition is_public_hls_proxy_hostname :: "string \<Rightarrow> bool" where
  "is_public_hls_proxy_hostname host \<longleftrightarrow>
     (let host = lower (trim_end_dots (trim host))
      in if host = [] \<or> CHR '':'' \<in> set host \<or> host = ''localhost'' \<or> ends_with host ''.localhost'' \<or>
            ends_with host ''.local'' \<or> ends_with host ''.internal'' \<or> is_ipv4_literal host
         then False
         else CHR ''.'' \<in> set host \<and> \<not> starts_with host ''.'' \<and> \<not> ends_with host ''.'' \<and>
              \<not> contains host ''..'' \<and> list_all is_hostname_byte host)"

datatype live_hls_request_kind = Playlist | Resource

definition is_public_external_embed_hls_proxy_url :: "web_url \<Rightarrow> live_hls_request_kind \<Rightarrow> bool" where
  "is_public_external_embed_hls_proxy_url url kind \<longleftrightarrow>
     url_scheme url = ''https'' \<and>
     (case url_host url of None \<Rightarrow> False | Some host \<Rightarrow> is_public_hls_proxy_hostname (lower host))"

definition host_in :: "string \<Rightarrow> string \<Rightarrow> bool" where
  "host_in domain host \<longleftrightarrow> host = domain \<or> ends_with host (CHR ''.'' # domain)"

definition is_browser_bound_live_hls_upstream :: "web_url \<Rightarrow> bool" where
  "is_browser_bound_live_hls_upstream url \<longleftrightarrow>
     (case url_host url of
        None \<Rightarrow> False | Some h \<Rightarrow> let host = lower h in host_in ''strmd.st'' host \<or> host_in ''strmd.top'' host)"

definition is_curl_fetch_live_hls_upstream :: "web_url \<Rightarrow> bool" where
  "is_curl_fetch_live_hls_upstream url \<longleftrightarrow>
     (case url_host url of
        None \<Rightarrow> False
      | Some h \<Rightarrow> let host = lower h
                  in host = ''storm.vodvidl.site'' \<or> ends_with host ''.vodvidl.site'' \<or>
                     host_in ''typhoontigertribe.net'' host \<or> host_in ''vixsrc.to'' host \<or> host_in ''vix-content.net'' host)"

definition is_cors_direct_hls_host :: "string \<Rightarrow> bool" where
  "is_cors_direct_hls_host host \<longleftrightarrow>
     (let host = lower (trim_end_dots (trim host))
      in host = ''tcloud.lordflix.club'' \<or> host_in ''tiktokcdn.com'' host)"

definition is_real_debrid_stream_url :: "web_url \<Rightarrow> bool" where
  "is_real_debrid_stream_url url \<longleftrightarrow>
     (case url_host url of
        None \<Rightarrow> False
      | Some h \<Rightarrow> url_scheme url = ''https'' \<and> host_in ''stream.real-debrid.com'' (lower h))"

section \<open>Signatures\<close>

definition is_ascii_control :: "char \<Rightarrow> bool" where
  "is_ascii_control c \<longleftrightarrow> (of_char c :: nat) < 32 \<or> (of_char c :: nat) = 127"

definition normalize_hls_referer :: "live_env \<Rightarrow> string \<Rightarrow> string option" where
  "normalize_hls_referer env v =
     (let trimmed = trim v
      in if trimmed = [] \<or> length trimmed > 2048 \<or> list_ex is_ascii_control trimmed then None
         else case lv_parse env trimmed of
           None \<Rightarrow> None
         | Some url \<Rightarrow>
             if url_scheme url \<notin> {''https'', ''http''} \<or> url_host url = None then None else Some (wu_text url))"

definition normalize_live_hls_signature_input :: "live_env \<Rightarrow> string \<Rightarrow> string" where
  "normalize_live_hls_signature_input env input =
     (case lv_parse env (trim input) of Some url \<Rightarrow> wu_text url | None \<Rightarrow> trim input)"

text \<open>What the MAC is taken of: the fields, separated by NUL.\<close>

definition NUL :: char where "NUL = CHR 0x00"

definition signed_message :: "string \<Rightarrow> string \<Rightarrow> string option \<Rightarrow> int option \<Rightarrow> string option \<Rightarrow> string" where
  "signed_message context input referer expires_at binding =
     context @ NUL # input @ NUL # (case referer of None \<Rightarrow> [] | Some r \<Rightarrow> r) @
     (case expires_at of None \<Rightarrow> [] | Some e \<Rightarrow> NUL # show_int e) @
     (case binding of None \<Rightarrow> [] | Some b \<Rightarrow> NUL # b)"

definition sign_live_hls_proxy_url_with_context ::
  "live_env \<Rightarrow> string \<Rightarrow> string \<Rightarrow> string option \<Rightarrow> int option \<Rightarrow> string option \<Rightarrow> string \<Rightarrow> string" where
  "sign_live_hls_proxy_url_with_context env context input referer expires_at binding secret =
     lv_b64 env (lv_hmac env secret (signed_message context input referer expires_at binding))"

definition sign_live_hls_proxy_url_v1 :: "live_env \<Rightarrow> string \<Rightarrow> string option \<Rightarrow> string \<Rightarrow> string" where
  "sign_live_hls_proxy_url_v1 env input referer secret =
     sign_live_hls_proxy_url_with_context env LIVE_HLS_SIGNATURE_CONTEXT_V1 input referer None None secret"

definition sign_live_hls_proxy_url :: "live_env \<Rightarrow> string \<Rightarrow> string option \<Rightarrow> int \<Rightarrow> string \<Rightarrow> string" where
  "sign_live_hls_proxy_url env input referer expires_at secret =
     sign_live_hls_proxy_url_with_context env LIVE_HLS_SIGNATURE_CONTEXT_V2 input referer (Some expires_at) None secret"

definition sign_private_live_hls_proxy_url ::
  "live_env \<Rightarrow> string \<Rightarrow> string option \<Rightarrow> int \<Rightarrow> string \<Rightarrow> string \<Rightarrow> string" where
  "sign_private_live_hls_proxy_url env input referer expires_at binding secret =
     sign_live_hls_proxy_url_with_context env LIVE_HLS_SIGNATURE_CONTEXT_PRIVATE_V1 input referer (Some expires_at)
       (Some binding) secret"

definition verify_live_hls_proxy_url_signature_with_context ::
  "live_env \<Rightarrow> string \<Rightarrow> string \<Rightarrow> string option \<Rightarrow> int option \<Rightarrow> string option \<Rightarrow> string \<Rightarrow> string \<Rightarrow> bool" where
  "verify_live_hls_proxy_url_signature_with_context env context input referer expires_at binding signature secret \<longleftrightarrow>
     lv_unb64 env (trim signature) = Some (lv_hmac env secret (signed_message context input referer expires_at binding))"

definition verify_live_hls_proxy_url_signature_v1 ::
  "live_env \<Rightarrow> string \<Rightarrow> string option \<Rightarrow> string \<Rightarrow> string \<Rightarrow> bool" where
  "verify_live_hls_proxy_url_signature_v1 env input referer signature secret =
     verify_live_hls_proxy_url_signature_with_context env LIVE_HLS_SIGNATURE_CONTEXT_V1 input referer None None signature secret"

definition verify_live_hls_proxy_url_signature ::
  "live_env \<Rightarrow> string \<Rightarrow> string option \<Rightarrow> int \<Rightarrow> string \<Rightarrow> string \<Rightarrow> bool" where
  "verify_live_hls_proxy_url_signature env input referer expires_at signature secret =
     verify_live_hls_proxy_url_signature_with_context env LIVE_HLS_SIGNATURE_CONTEXT_V2 input referer (Some expires_at)
       None signature secret"

definition verify_private_live_hls_proxy_url_signature ::
  "live_env \<Rightarrow> string \<Rightarrow> string option \<Rightarrow> int \<Rightarrow> string \<Rightarrow> string \<Rightarrow> string \<Rightarrow> bool" where
  "verify_private_live_hls_proxy_url_signature env input referer expires_at binding signature secret =
     verify_live_hls_proxy_url_signature_with_context env LIVE_HLS_SIGNATURE_CONTEXT_PRIVATE_V1 input referer
       (Some expires_at) (Some binding) signature secret"

definition parse_live_hls_signature_expiry :: "string \<Rightarrow> int \<Rightarrow> int option" where
  "parse_live_hls_signature_expiry v now_seconds =
     (if v = [] \<or> \<not> list_all is_ascii_digit v \<or> (length v > 1 \<and> starts_with v ''0'') then None
      else case parse_i64 v of
        None \<Rightarrow> None
      | Some expires_at \<Rightarrow>
          let earliest = saturating_sub now_seconds LIVE_HLS_SIGNATURE_CLOCK_SKEW_SECONDS;
              latest = saturating_add now_seconds (LIVE_HLS_SIGNATURE_MAX_TTL_SECONDS + LIVE_HLS_SIGNATURE_CLOCK_SKEW_SECONDS)
          in if expires_at \<ge> earliest \<and> expires_at \<le> latest then Some expires_at else None)"

definition live_hls_legacy_signature_is_temporarily_allowed :: "int option \<Rightarrow> int \<Rightarrow> bool" where
  "live_hls_legacy_signature_is_temporarily_allowed legacy_accept_until now_seconds \<longleftrightarrow>
     (case legacy_accept_until of
        None \<Rightarrow> False
      | Some until \<Rightarrow>
          until \<ge> saturating_sub now_seconds LIVE_HLS_SIGNATURE_CLOCK_SKEW_SECONDS \<and>
          until \<le> saturating_add now_seconds (LIVE_HLS_SIGNATURE_MAX_TTL_SECONDS + LIVE_HLS_SIGNATURE_CLOCK_SKEW_SECONDS))"

definition is_binding_text :: "string \<Rightarrow> bool" where
  "is_binding_text b \<longleftrightarrow> length b = 43 \<and>
     list_all (\<lambda>c. is_ascii_alphabetic c \<or> is_ascii_digit c \<or> c = CHR ''-'' \<or> c = CHR ''_'') b"

definition authorize_live_hls_proxy_signature ::
  "live_env \<Rightarrow> string \<Rightarrow> string option \<Rightarrow> query_params \<Rightarrow> string \<Rightarrow> int \<Rightarrow> int option \<Rightarrow> int option option" where
  "authorize_live_hls_proxy_signature env input referer params secret now_seconds legacy_accept_until =
     (let binding = params LIVE_HLS_PRIVATE_SESSION_PARAM
      in if (case binding of None \<Rightarrow> False | Some b \<Rightarrow> \<not> is_binding_text b) then None
         else case params LIVE_HLS_SIGNATURE_EXPIRY_PARAM of
           Some expiry \<Rightarrow>
             (case parse_live_hls_signature_expiry expiry now_seconds of
                None \<Rightarrow> None
              | Some expires_at \<Rightarrow>
                  (case (case params LIVE_HLS_SIGNATURE_V2_PARAM of
                           Some s \<Rightarrow> Some s | None \<Rightarrow> params LIVE_HLS_SIGNATURE_PARAM) of
                     None \<Rightarrow> None
                   | Some signature \<Rightarrow>
                       if (case binding of
                             Some b \<Rightarrow> verify_private_live_hls_proxy_url_signature env input referer expires_at b signature secret
                           | None \<Rightarrow> verify_live_hls_proxy_url_signature env input referer expires_at signature secret)
                       then Some (Some expires_at) else None))
         | None \<Rightarrow>
             if binding \<noteq> None then None
             else if \<not> live_hls_legacy_signature_is_temporarily_allowed legacy_accept_until now_seconds then None
             else case params LIVE_HLS_SIGNATURE_PARAM of
               None \<Rightarrow> None
             | Some signature \<Rightarrow>
                 if verify_live_hls_proxy_url_signature_v1 env input referer signature secret then Some None else None)"

section \<open>Private grants\<close>

definition session_binding_message :: "string \<Rightarrow> string" where
  "session_binding_message session_token = LIVE_HLS_PRIVATE_SESSION_CONTEXT @ NUL # session_token"

definition build_private_live_hls_session_binding :: "live_env \<Rightarrow> string \<Rightarrow> string \<Rightarrow> string option" where
  "build_private_live_hls_session_binding env secret session_token =
     (if trim secret = [] \<or> trim session_token = [] then None
      else Some (lv_b64 env (lv_hmac env secret (session_binding_message session_token))))"

definition verify_private_live_hls_session_binding :: "live_env \<Rightarrow> string \<Rightarrow> string option \<Rightarrow> string \<Rightarrow> bool" where
  "verify_private_live_hls_session_binding env secret cookie binding \<longleftrightarrow>
     (if \<not> is_binding_text binding then False
      else case extract_session_token cookie of
        None \<Rightarrow> False
      | Some session_token \<Rightarrow>
          (case lv_unb64 env binding of
             None \<Rightarrow> False
           | Some binding_bytes \<Rightarrow>
               if length binding_bytes \<noteq> 32 \<or> lv_b64 env binding_bytes \<noteq> binding then False
               else binding_bytes = lv_hmac env secret (session_binding_message session_token)))"

section \<open>Requests\<close>

definition is_signed_live_hls_request :: "live_env \<Rightarrow> string \<Rightarrow> int option \<Rightarrow> int \<Rightarrow> live_uri \<Rightarrow> bool" where
  "is_signed_live_hls_request env secret legacy_accept_until now_seconds uri \<longleftrightarrow>
     (if lu_path uri \<noteq> ''/api/live/hls.m3u8'' \<and> lu_path uri \<noteq> ''/api/live/hls-resource'' then False
      else if trim secret = [] then False
      else let params = query_pairs env (lu_query uri)
      in if params LIVE_HLS_EXTERNAL_EMBED_PARAM \<noteq> Some ''1'' then False
         else if params LIVE_HLS_PRIVATE_SESSION_PARAM \<noteq> None then False
         else case params ''input'' of
           None \<Rightarrow> False
         | Some input \<Rightarrow>
             authorize_live_hls_proxy_signature env input
               (Option.bind (params ''referer'') (normalize_hls_referer env)) params secret now_seconds
               legacy_accept_until \<noteq> None)"

definition trusted_external_embed_hls_expiry ::
  "live_env \<Rightarrow> web_url \<Rightarrow> live_hls_request_kind \<Rightarrow> string option \<Rightarrow> query_params \<Rightarrow> string \<Rightarrow> int \<Rightarrow> int option \<Rightarrow>
   int option option" where
  "trusted_external_embed_hls_expiry env source_url kind referer params secret now_seconds legacy_accept_until =
     (if params LIVE_HLS_EXTERNAL_EMBED_PARAM \<noteq> Some ''1'' then None
      else if trim secret = [] \<or> \<not> is_public_external_embed_hls_proxy_url source_url kind then None
      else authorize_live_hls_proxy_signature env (wu_text source_url) referer params secret now_seconds legacy_accept_until)"

text \<open>\<open>src/process.rs\<close>: an absolute address, or one relative to the request's.\<close>

definition to_absolute_playback_url :: "live_env \<Rightarrow> string \<Rightarrow> web_url \<Rightarrow> string" where
  "to_absolute_playback_url env v request_url =
     (let raw = trim v
      in if raw = [] then []
         else case lv_parse env raw of
           Some url \<Rightarrow> wu_text url
         | None \<Rightarrow> (case lv_join env request_url raw of Some url \<Rightarrow> wu_text url | None \<Rightarrow> []))"

record live_config =
  lc_live_hls_proxy_secret :: string
  lc_legacy_accept_until :: "int option"
  lc_live_hls_resource_worker_base :: string
  lc_live_hls_direct_base :: string
  lc_emit_legacy_signature :: bool

text \<open>The absolute form of the request's own address is an argument.\<close>

definition live_hls_request_input ::
  "live_env \<Rightarrow> live_config \<Rightarrow> int \<Rightarrow> string option \<Rightarrow> web_url app_result \<Rightarrow> live_uri \<Rightarrow> live_hls_request_kind \<Rightarrow>
   live_hls_request app_result" where
  "live_hls_request_input env cfg now_seconds cookie absolute_request_url uri kind =
     (let params = query_pairs env (lu_query uri); secret = lc_live_hls_proxy_secret cfg
      in case absolute_request_url of
        Inl e \<Rightarrow> Inl e
      | Inr request_url \<Rightarrow>
      let input = to_absolute_playback_url env (case params ''input'' of None \<Rightarrow> [] | Some v \<Rightarrow> v) request_url
      in if trim input = [] then Inl (bad_request ''Missing input query parameter.'')
      else case lv_parse env input of
        None \<Rightarrow> Inl (bad_request ''Invalid live HLS URL.'')
      | Some source_url \<Rightarrow>
      let referer = Option.bind (params ''referer'') (normalize_hls_referer env);
          authorization = trusted_external_embed_hls_expiry env source_url kind referer params secret now_seconds
            (lc_legacy_accept_until cfg);
          trusted = (authorization \<noteq> None);
          private = params LIVE_HLS_PRIVATE_SESSION_PARAM
      in if (case private of
               None \<Rightarrow> False
             | Some b \<Rightarrow> \<not> (trusted \<and> verify_private_live_hls_session_binding env secret cookie b))
         then Inl (forbidden ''Invalid private live HLS session binding.'')
         else if \<not> is_allowed_live_hls_url source_url \<and> \<not> trusted
         then Inl (bad_request ''Unsupported live HLS URL.'')
         else Inr \<lparr>lr_source_url = source_url, lr_referer = referer, lr_trusted_external_embed = trusted,
                    lr_signature_expires_at = Option.bind authorization id,
                    lr_direct_segments = (trusted \<and> private = None \<and> params ''directSeg'' = Some ''1''),
                    lr_private_session_binding = private\<rparr>)"

definition ensure_allowed_live_hls_final_url :: "web_url \<Rightarrow> live_hls_request \<Rightarrow> live_hls_request_kind \<Rightarrow> unit app_result" where
  "ensure_allowed_live_hls_final_url final_url r kind =
     (if is_allowed_live_hls_url final_url \<or>
         (lr_trusted_external_embed r \<and> is_public_external_embed_hls_proxy_url final_url kind)
      then Inr () else Inl (bad_gateway ''Live HLS playlist redirected to an unsupported host.''))"

definition should_retry_live_hls_with_browser_fetch :: "live_hls_request \<Rightarrow> api_error \<Rightarrow> bool" where
  "should_retry_live_hls_with_browser_fetch r e \<longleftrightarrow>
     (if \<not> is_browser_bound_live_hls_upstream (lr_source_url r) then False
      else case api_error_message e of None \<Rightarrow> False | Some m \<Rightarrow> contains m ''403'')"

section \<open>Minting\<close>

text \<open>A grant without a configured secret is left unsigned, but its input is normalised.\<close>

definition live_hls_proxy_url_with_legacy_transition ::
  "live_env \<Rightarrow> string \<Rightarrow> string \<Rightarrow> string option \<Rightarrow> live_hls_signing_context option \<Rightarrow> bool \<Rightarrow> string" where
  "live_hls_proxy_url_with_legacy_transition env path input referer context emit_legacy_signature =
     (let input = (case context of None \<Rightarrow> input | Some _ \<Rightarrow> normalize_live_hls_signature_input env input);
          normalized_referer = Option.bind referer (normalize_hls_referer env);
          url = path @ ''?input='' @ lv_encode env input @
                (case normalized_referer of None \<Rightarrow> [] | Some r \<Rightarrow> ''&referer='' @ lv_encode env r)
      in case context of
           None \<Rightarrow> url
         | Some c \<Rightarrow>
             if trim (sc_secret c) = [] then url
             else let signature_v2 = (case sc_private_session_binding c of
                        Some b \<Rightarrow> sign_private_live_hls_proxy_url env input normalized_referer (sc_expires_at c) b (sc_secret c)
                      | None \<Rightarrow> sign_live_hls_proxy_url env input normalized_referer (sc_expires_at c) (sc_secret c))
                  in url @ ''&'' @ LIVE_HLS_EXTERNAL_EMBED_PARAM @ ''=1&'' @ LIVE_HLS_SIGNATURE_EXPIRY_PARAM @ ''='' @
                     show_int (sc_expires_at c) @ ''&'' @ LIVE_HLS_SIGNATURE_PARAM @ ''='' @
                     (if emit_legacy_signature \<and> sc_private_session_binding c = None
                      then lv_encode env (sign_live_hls_proxy_url_v1 env input normalized_referer (sc_secret c)) @ ''&'' @
                           LIVE_HLS_SIGNATURE_V2_PARAM @ ''='' else []) @
                     lv_encode env signature_v2 @
                     (case sc_private_session_binding c of
                        None \<Rightarrow> [] | Some b \<Rightarrow> ''&'' @ LIVE_HLS_PRIVATE_SESSION_PARAM @ ''='' @ lv_encode env b))"

definition live_hls_proxy_playlist_url_with_trust ::
  "live_env \<Rightarrow> bool \<Rightarrow> string \<Rightarrow> string option \<Rightarrow> live_hls_signing_context option \<Rightarrow> string" where
  "live_hls_proxy_playlist_url_with_trust env legacy input referer context =
     live_hls_proxy_url_with_legacy_transition env ''/api/live/hls.m3u8'' input referer context legacy"

definition live_hls_proxy_resource_url_with_trust ::
  "live_env \<Rightarrow> bool \<Rightarrow> string \<Rightarrow> string option \<Rightarrow> live_hls_signing_context option \<Rightarrow> string" where
  "live_hls_proxy_resource_url_with_trust env legacy input referer context =
     live_hls_proxy_url_with_legacy_transition env ''/api/live/hls-resource'' input referer context legacy"

text \<open>\<open>div_euclid\<close> by a positive divisor is \<open>div\<close>.\<close>

definition public_hls_signature_expiry :: "int \<Rightarrow> int" where
  "public_hls_signature_expiry now =
     saturating_add (saturating_mul (now div (15 * 60)) (15 * 60)) LIVE_HLS_SIGNATURE_TTL_SECONDS"

definition build_trusted_external_embed_hls_playback_source ::
  "live_env \<Rightarrow> live_config \<Rightarrow> int \<Rightarrow> string \<Rightarrow> string option \<Rightarrow> string" where
  "build_trusted_external_embed_hls_playback_source env cfg now_seconds input referer =
     live_hls_proxy_playlist_url_with_trust env (lc_emit_legacy_signature cfg) input referer
       (Some \<lparr>sc_secret = lc_live_hls_proxy_secret cfg, sc_expires_at = public_hls_signature_expiry now_seconds,
              sc_private_session_binding = None\<rparr>)"

definition build_private_real_debrid_hls_playback_source ::
  "live_env \<Rightarrow> live_config \<Rightarrow> int \<Rightarrow> string \<Rightarrow> string \<Rightarrow> string option" where
  "build_private_real_debrid_hls_playback_source env cfg now_seconds input session_token =
     map_option (\<lambda>b. live_hls_proxy_playlist_url_with_trust env (lc_emit_legacy_signature cfg) input None
         (Some \<lparr>sc_secret = lc_live_hls_proxy_secret cfg,
                sc_expires_at = saturating_add now_seconds LIVE_HLS_SIGNATURE_TTL_SECONDS,
                sc_private_session_binding = Some b\<rparr>))
       (build_private_live_hls_session_binding env (lc_live_hls_proxy_secret cfg) session_token)"

definition direct_hls_url_if_eligible :: "live_env \<Rightarrow> string \<Rightarrow> bool \<Rightarrow> string option" where
  "direct_hls_url_if_eligible env input direct_segments =
     (if \<not> direct_segments then None
      else case lv_parse env input of
        None \<Rightarrow> None
      | Some url \<Rightarrow>
          (case url_host url of
             None \<Rightarrow> None
           | Some host \<Rightarrow>
               if is_cors_direct_hls_host host \<and> \<not> is_curl_fetch_live_hls_upstream url then Some input else None))"

section \<open>Where a player fetches a playlist\<close>

definition trim_end_slashes :: "string \<Rightarrow> string" where
  "trim_end_slashes s = rev (dropWhile (\<lambda>c. c = CHR ''/'') (rev s))"

definition route_live_playback_source_via_worker :: "string \<Rightarrow> string \<Rightarrow> string" where
  "route_live_playback_source_via_worker worker_base source =
     (let worker_base = trim_end_slashes (trim worker_base)
      in if worker_base = [] \<or> \<not> starts_with source ''/api/live/hls.m3u8?'' then source else worker_base @ source)"

definition public_signed :: "query_params \<Rightarrow> bool" where
  "public_signed params \<longleftrightarrow>
     params ''externalEmbed'' = Some ''1'' \<and> (\<exists>v \<in> set_option (params ''sig''). v \<noteq> []) \<and>
     (\<exists>v \<in> set_option (params ''expires''). v \<noteq> []) \<and> params ''privateSession'' = None"

text \<open>The candidate of one source at one base, and the two loops.\<close>

definition candidate_at :: "live_env \<Rightarrow> string \<Rightarrow> string \<Rightarrow> string option" where
  "candidate_at env base source =
     (case strip_prefix ''/api/live/hls.m3u8?'' source of
        None \<Rightarrow> if base = [] then Some source else None
      | Some query \<Rightarrow>
          if trim base \<noteq> [] \<and> \<not> public_signed (query_pairs env query) then None
          else Some (route_live_playback_source_via_worker base source))"

fun add_candidates :: "live_env \<Rightarrow> string \<Rightarrow> string list \<Rightarrow> string list \<Rightarrow> string list" where
  "add_candidates env base [] candidates = candidates"
| "add_candidates env base (source # sources) candidates =
     (case candidate_at env base source of
        Some c \<Rightarrow> add_candidates env base sources (if c \<in> set candidates then candidates else candidates @ [c])
      | None \<Rightarrow> add_candidates env base sources candidates)"

definition live_hls_playback_candidates :: "live_env \<Rightarrow> string \<Rightarrow> string \<Rightarrow> string list \<Rightarrow> string list" where
  "live_hls_playback_candidates env direct_base worker_base sources =
     fold (\<lambda>base. add_candidates env base sources)
       (filter (\<lambda>base. trim base \<noteq> []) [direct_base, worker_base] @ [[]]) []"

definition direct_live_hls_playback_candidates :: "live_env \<Rightarrow> string \<Rightarrow> string list \<Rightarrow> string list" where
  "direct_live_hls_playback_candidates env direct_base sources =
     (let base = trim_end_slashes (trim direct_base)
      in if base = [] then []
         else filter (\<lambda>c. starts_with c (base @ ''/api/live/hls.m3u8?'')) (live_hls_playback_candidates env base [] sources))"

section \<open>What is relied on\<close>

text \<open>
  Base64url without padding reads back what it wrote and writes no white space; two messages
  with one HMAC under one key would be a collision.
\<close>

definition base64_ok :: "live_env \<Rightarrow> bool" where
  "base64_ok env \<longleftrightarrow> (\<forall>x. lv_unb64 env (lv_b64 env x) = Some x \<and> trim (lv_b64 env x) = lv_b64 env x)"

definition hmac_collision :: "live_env \<Rightarrow> string \<Rightarrow> string \<Rightarrow> string \<Rightarrow> bool" where
  "hmac_collision env secret m m' \<longleftrightarrow> m \<noteq> m' \<and> lv_hmac env secret m = lv_hmac env secret m'"

definition nul_free :: "string \<Rightarrow> bool" where
  "nul_free s \<longleftrightarrow> NUL \<notin> set s"

definition referer_text :: "string option \<Rightarrow> string" where
  "referer_text r = (case r of None \<Rightarrow> [] | Some r \<Rightarrow> r)"

lemma nul_free_digits: "list_all is_ascii_digit s \<Longrightarrow> nul_free s"
  by (auto simp: nul_free_def NUL_def list_all_iff is_ascii_digit_def)

lemma nul_free_show_int: "nul_free (show_int e)"
  using show_nat_digits [of NUL] by (auto simp: nul_free_def show_int_def NUL_def is_ascii_digit_def)

lemma split_signed:
  assumes "nul_free context" and "nul_free input" and "nul_free (referer_text referer)"
    and "\<forall>b \<in> set_option binding. nul_free b"
  shows "split_on NUL (signed_message context input referer expires_at binding) =
    [context, input, referer_text referer] @ map show_int (case expires_at of None \<Rightarrow> [] | Some e \<Rightarrow> [e]) @
    (case binding of None \<Rightarrow> [] | Some b \<Rightarrow> [b])"
  using assms nul_free_show_int
  by (cases expires_at; cases binding)
     (simp_all add: signed_message_def nul_free_def split_on_append split_on_single referer_text_def)

lemma contexts_nul_free:
  "nul_free LIVE_HLS_SIGNATURE_CONTEXT_V1" "nul_free LIVE_HLS_SIGNATURE_CONTEXT_V2"
  "nul_free LIVE_HLS_SIGNATURE_CONTEXT_PRIVATE_V1" "nul_free LIVE_HLS_PRIVATE_SESSION_CONTEXT"
  by code_simp+

lemma contexts_distinct:
  "distinct [LIVE_HLS_SIGNATURE_CONTEXT_V1, LIVE_HLS_SIGNATURE_CONTEXT_V2, LIVE_HLS_SIGNATURE_CONTEXT_PRIVATE_V1,
     LIVE_HLS_PRIVATE_SESSION_CONTEXT]"
  by code_simp

lemma contexts_neq:
  "LIVE_HLS_SIGNATURE_CONTEXT_V2 \<noteq> LIVE_HLS_SIGNATURE_CONTEXT_PRIVATE_V1"
  "LIVE_HLS_SIGNATURE_CONTEXT_V2 \<noteq> LIVE_HLS_SIGNATURE_CONTEXT_V1"
  "LIVE_HLS_SIGNATURE_CONTEXT_PRIVATE_V1 \<noteq> LIVE_HLS_SIGNATURE_CONTEXT_V1"
  by code_simp+

lemma binding_text_nul_free: "is_binding_text b \<Longrightarrow> nul_free b"
  by (auto simp: is_binding_text_def nul_free_def NUL_def list_all_iff is_ascii_alphabetic_def is_ascii_upper_def
      is_ascii_lower_def is_ascii_digit_def)

lemma split_on_inj: "split_on c a = split_on c b \<Longrightarrow> a = b"
proof (induction a arbitrary: b)
  case Nil
  then show ?case by (cases b) (auto split: list.splits if_splits)
next
  case (Cons x a)
  then show ?case by (cases b) (auto split: list.splits if_splits)
qed

section \<open>A signature grants what was signed\<close>

text \<open>What an accepted request's signature was verified over.\<close>

definition granted_message ::
  "string \<Rightarrow> string option \<Rightarrow> int option \<Rightarrow> string option \<Rightarrow> string" where
  "granted_message input referer expires_at binding =
     signed_message (case expires_at of None \<Rightarrow> LIVE_HLS_SIGNATURE_CONTEXT_V1
       | Some _ \<Rightarrow> (case binding of None \<Rightarrow> LIVE_HLS_SIGNATURE_CONTEXT_V2 | Some _ \<Rightarrow> LIVE_HLS_SIGNATURE_CONTEXT_PRIVATE_V1))
       input referer expires_at binding"

definition presented_signature :: "query_params \<Rightarrow> string option" where
  "presented_signature params =
     (if params LIVE_HLS_SIGNATURE_EXPIRY_PARAM = None then params LIVE_HLS_SIGNATURE_PARAM
      else case params LIVE_HLS_SIGNATURE_V2_PARAM of Some s \<Rightarrow> Some s | None \<Rightarrow> params LIVE_HLS_SIGNATURE_PARAM)"

lemmas verify_defs = verify_live_hls_proxy_url_signature_v1_def verify_live_hls_proxy_url_signature_def
  verify_private_live_hls_proxy_url_signature_def verify_live_hls_proxy_url_signature_with_context_def

lemma authorized_signature:
  assumes "authorize_live_hls_proxy_signature env input referer params secret now legacy = Some expires_at"
  shows "\<exists>s. presented_signature params = Some s \<and>
      lv_unb64 env (trim s) = Some (lv_hmac env secret (granted_message input referer expires_at
        (params LIVE_HLS_PRIVATE_SESSION_PARAM))) \<and>
      (\<forall>b. params LIVE_HLS_PRIVATE_SESSION_PARAM = Some b \<longrightarrow> is_binding_text b \<and> expires_at \<noteq> None)"
proof (cases "params LIVE_HLS_SIGNATURE_EXPIRY_PARAM")
  case None
  with assms show ?thesis
    by (auto simp: authorize_live_hls_proxy_signature_def presented_signature_def granted_message_def Let_def verify_defs
        split: option.splits if_splits)
next
  case (Some x)
  obtain e where e: "parse_live_hls_signature_expiry x now = Some e"
    using assms Some by (cases "parse_live_hls_signature_expiry x now")
      (auto simp: authorize_live_hls_proxy_signature_def Let_def split: option.splits if_splits)
  from assms Some show ?thesis
    by (auto simp: e authorize_live_hls_proxy_signature_def presented_signature_def granted_message_def Let_def verify_defs
        split: option.splits if_splits)
qed

lemma granted_message_inj:
  assumes "granted_message i r e b = granted_message i' r' e' b'"
    and "nul_free i" "nul_free i'" "nul_free (referer_text r)" "nul_free (referer_text r')"
    and "\<forall>x \<in> set_option b. nul_free x" "\<forall>x \<in> set_option b'. nul_free x"
    and "b \<noteq> None \<Longrightarrow> e \<noteq> None" "b' \<noteq> None \<Longrightarrow> e' \<noteq> None"
  shows "i = i' \<and> referer_text r = referer_text r' \<and> e = e' \<and> b = b'"
proof -
  have "split_on NUL (granted_message i r e b) = split_on NUL (granted_message i' r' e' b')" using assms(1) by simp
  then show ?thesis
    using assms(2-) contexts_neq contexts_neq [symmetric]
    by (cases e; cases b; cases e'; cases b')
       (auto simp: granted_message_def split_signed contexts_nul_free)
qed

text \<open>
  C30: a signature grants what was signed. If a request is authorised by a signature this
  server minted, its address, its referer, its expiry and the session it is bound to are
  those that were signed, or the two messages themselves collide under the HMAC of the
  server's secret.
\<close>

theorem live_signature_binds_request:
  assumes "base64_ok env"
    and "authorize_live_hls_proxy_signature env input referer params secret now legacy = Some expires_at"
    and "presented_signature params = Some (lv_b64 env (lv_hmac env secret (granted_message input0 referer0 expires_at0 binding0)))"
    and "nul_free input" and "nul_free (referer_text referer)"
    and "nul_free input0" and "nul_free (referer_text referer0)"
    and "\<forall>b. binding0 = Some b \<longrightarrow> is_binding_text b \<and> expires_at0 \<noteq> None"
  shows "(input = input0 \<and> referer_text referer = referer_text referer0 \<and> expires_at = expires_at0 \<and>
      params LIVE_HLS_PRIVATE_SESSION_PARAM = binding0) \<or>
    hmac_collision env secret (granted_message input referer expires_at (params LIVE_HLS_PRIVATE_SESSION_PARAM))
      (granted_message input0 referer0 expires_at0 binding0)"
proof -
  let ?b = "params LIVE_HLS_PRIVATE_SESSION_PARAM"
  from authorized_signature [OF assms(2)] obtain s where s: "presented_signature params = Some s"
    "lv_unb64 env (trim s) = Some (lv_hmac env secret (granted_message input referer expires_at ?b))"
    "\<forall>b. ?b = Some b \<longrightarrow> is_binding_text b \<and> expires_at \<noteq> None" by blast
  have "lv_hmac env secret (granted_message input referer expires_at ?b) =
      lv_hmac env secret (granted_message input0 referer0 expires_at0 binding0)"
    using assms(1,3) s(1,2) by (simp add: base64_ok_def)
  moreover have "granted_message input referer expires_at ?b = granted_message input0 referer0 expires_at0 binding0 \<Longrightarrow>
      input = input0 \<and> referer_text referer = referer_text referer0 \<and> expires_at = expires_at0 \<and> ?b = binding0"
    using s(3) assms(4-) by (intro granted_message_inj) (auto dest: binding_text_nul_free)
  ultimately show ?thesis unfolding hmac_collision_def by blast
qed

section \<open>What the proxy fetches\<close>

lemma request_input_cases:
  assumes "live_hls_request_input env cfg now cookie own_url uri kind = Inr r"
  obtains request_url where "own_url = Inr request_url"
    and "lv_parse env (to_absolute_playback_url env (case query_pairs env (lu_query uri) ''input'' of None \<Rightarrow> [] | Some v \<Rightarrow> v) request_url)
      = Some (lr_source_url r)"
    and "lr_referer r = Option.bind (query_pairs env (lu_query uri) ''referer'') (normalize_hls_referer env)"
    and "lr_trusted_external_embed r \<longleftrightarrow> trusted_external_embed_hls_expiry env (lr_source_url r) kind (lr_referer r)
      (query_pairs env (lu_query uri)) (lc_live_hls_proxy_secret cfg) now (lc_legacy_accept_until cfg) \<noteq> None"
    and "is_allowed_live_hls_url (lr_source_url r) \<or> lr_trusted_external_embed r"
    and "lr_private_session_binding r = query_pairs env (lu_query uri) LIVE_HLS_PRIVATE_SESSION_PARAM"
    and "\<And>b. lr_private_session_binding r = Some b \<Longrightarrow> lr_trusted_external_embed r \<and>
      verify_private_live_hls_session_binding env (lc_live_hls_proxy_secret cfg) cookie b"
    and "lr_direct_segments r \<Longrightarrow> lr_private_session_binding r = None"
proof -
  obtain request_url where own_url: "own_url = Inr request_url"
    using assms by (cases own_url) (auto simp: live_hls_request_input_def Let_def)
  show thesis
    using assms that [OF own_url]
    by (auto simp: live_hls_request_input_def Let_def own_url split: option.splits if_splits)
qed


text \<open>
  C31: a private grant is worth nothing without its session. A request that carries the
  binding made for one session token is accepted only with the cookie of that session (or of
  one whose token collides with it under the HMAC), and never passes for a signed request that needs no session.
\<close>

theorem private_grant_needs_its_session:
  assumes "base64_ok env" and "lc_live_hls_proxy_secret cfg = secret"
    and "build_private_live_hls_session_binding env secret token = Some binding"
    and "query_pairs env (lu_query uri) LIVE_HLS_PRIVATE_SESSION_PARAM = Some binding"
    and "live_hls_request_input env cfg now cookie own_url uri kind = Inr r"
  shows "(\<exists>t. extract_session_token cookie = Some t \<and>
      (t = token \<or> hmac_collision env secret (session_binding_message t) (session_binding_message token))) \<and>
    \<not> is_signed_live_hls_request env secret legacy now uri"
proof
  show "\<not> is_signed_live_hls_request env secret legacy now uri"
    using assms(4) by (simp add: is_signed_live_hls_request_def Let_def)
  have b: "lv_unb64 env binding = Some (lv_hmac env secret (session_binding_message token))"
    using assms(1,3) by (auto simp: build_private_live_hls_session_binding_def base64_ok_def split: if_splits)
  from assms(5) obtain t where t: "extract_session_token cookie = Some t"
    "lv_unb64 env binding = Some (lv_hmac env secret (session_binding_message t))"
    by (rule request_input_cases)
       (use assms(2,4) in \<open>auto simp: verify_private_live_hls_session_binding_def split: if_splits option.splits\<close>)
  have "session_binding_message t = session_binding_message token \<Longrightarrow> t = token" by (simp add: session_binding_message_def)
  with b t show "\<exists>t. extract_session_token cookie = Some t \<and>
      (t = token \<or> hmac_collision env secret (session_binding_message t) (session_binding_message token))"
    unfolding hmac_collision_def by (metis option.inject)
qed

section \<open>A minted address works, and for how long\<close>

definition query_text :: "live_env \<Rightarrow> (string \<times> string) list \<Rightarrow> string" where
  "query_text env kvs = concat (case map (\<lambda>(k, v). k @ ''='' @ lv_encode env v) kvs of [] \<Rightarrow> [] | p # ps \<Rightarrow> p # map ((@) ''&'') ps)"

definition is_alnum :: "char \<Rightarrow> bool" where
  "is_alnum c \<longleftrightarrow> is_ascii_alphabetic c \<or> is_ascii_digit c"

text \<open>
  Form coding: the query of named values reads back as these values, and digits stand for
  themselves.
\<close>

definition form_ok :: "live_env \<Rightarrow> bool" where
  "form_ok env \<longleftrightarrow> (\<forall>kvs. (\<forall>(k, v) \<in> set kvs. k \<noteq> [] \<and> list_all is_alnum k) \<longrightarrow> lv_query_pairs env (query_text env kvs) = kvs) \<and>
     (\<forall>s. list_all is_ascii_digit s \<longrightarrow> lv_encode env s = s)"

definition grant_params ::
  "live_env \<Rightarrow> string \<Rightarrow> string option \<Rightarrow> int \<Rightarrow> string \<Rightarrow> bool \<Rightarrow> (string \<times> string) list" where
  "grant_params env input referer expires_at secret legacy =
     [(''input'', input)] @ (case referer of None \<Rightarrow> [] | Some r \<Rightarrow> [(''referer'', r)]) @
     [(''externalEmbed'', ''1''), (''expires'', show_int expires_at)] @
     (if legacy then [(''sig'', sign_live_hls_proxy_url_v1 env input referer secret),
                      (''sigV2'', sign_live_hls_proxy_url env input referer expires_at secret)]
      else [(''sig'', sign_live_hls_proxy_url env input referer expires_at secret)])"

lemma minted_query:
  assumes "form_ok env" and "trim secret \<noteq> []" and "0 \<le> e"
  shows "live_hls_proxy_url_with_legacy_transition env path input referer
      (Some \<lparr>sc_secret = secret, sc_expires_at = e, sc_private_session_binding = None\<rparr>) legacy =
    path @ ''?'' @ query_text env (grant_params env (normalize_live_hls_signature_input env input)
      (Option.bind referer (normalize_hls_referer env)) e secret legacy)"
proof -
  have "list_all is_ascii_digit (show_int e)"
    using assms(3) by (auto simp: show_int_def list_all_iff dest: show_nat_digits)
  then have "lv_encode env (show_int e) = show_int e" "lv_encode env ''1'' = ''1''"
    using assms(1) by (auto simp: form_ok_def is_ascii_digit_def)
  then show ?thesis
    using assms(2)
    by (cases "Option.bind referer (normalize_hls_referer env)"; cases legacy)
       (simp_all add: live_hls_proxy_url_with_legacy_transition_def grant_params_def query_text_def Let_def
         LIVE_HLS_EXTERNAL_EMBED_PARAM_def LIVE_HLS_SIGNATURE_EXPIRY_PARAM_def LIVE_HLS_SIGNATURE_PARAM_def
         LIVE_HLS_SIGNATURE_V2_PARAM_def)
qed

lemma grant_params_pairs:
  assumes "form_ok env"
  shows "query_pairs env (query_text env (grant_params env input r e secret legacy)) =
    map_of (rev (grant_params env input r e secret legacy))"
proof -
  have "\<forall>(k, v) \<in> set (grant_params env input r e secret legacy). k \<noteq> [] \<and> list_all is_alnum k"
    by (cases r; cases legacy) (simp_all add: grant_params_def is_alnum_def is_ascii_alphabetic_def is_ascii_upper_def
        is_ascii_lower_def is_ascii_digit_def)
  with assms show ?thesis by (simp add: form_ok_def query_pairs_def)
qed

lemma hd_show_nat: "0 < n \<Longrightarrow> hd (show_nat n) \<noteq> CHR ''0''"
proof (induction n rule: show_nat.induct)
  case (1 n)
  show ?case
  proof (cases "n < 10")
    case True
    then have "show_nat n = [char_of (48 + n)]" by (subst show_nat.simps) simp
    moreover have "digit_value (char_of (48 + n)) = int n" using is_ascii_digit_show [OF True] by simp
    moreover have "digit_value (CHR ''0'') = 0" by code_simp
    ultimately show ?thesis using 1(2) by auto
  next
    case False
    then have "hd (show_nat n) = hd (show_nat (n div 10))" by (subst show_nat.simps) simp
    with 1(1) False show ?thesis by simp
  qed
qed

lemma parse_expiry_show:
  assumes "0 \<le> e" "e < 2 ^ 62" "0 \<le> now" "now < 2 ^ 62"
  shows "parse_live_hls_signature_expiry (show_int e) now = (if e - 21660 \<le> now \<and> now \<le> e + 60 then Some e else None)"
proof -
  have d: "list_all is_ascii_digit (show_int e)" and n: "show_int e \<noteq> []"
    using assms(1) by (auto simp: show_int_def list_all_iff dest: show_nat_digits)
  have z: "\<not> (1 < length (show_int e) \<and> starts_with (show_int e) ''0'')"
  proof (cases "e = 0")
    case True
    then show ?thesis by (simp add: show_int_def show_nat.simps)
  next
    case False
    then have "hd (show_int e) \<noteq> CHR ''0''" using assms(1) hd_show_nat [of "nat e"] by (simp add: show_int_def)
    then show ?thesis using n by (cases "show_int e") auto
  qed
  have p: "parse_i64 (show_int e) = Some e" using assms by (intro parse_i64_show_int) (simp add: i64_range_def i64_min_def i64_max_def)
  show ?thesis
    using assms d n z
    by (auto simp: parse_live_hls_signature_expiry_def p Let_def saturating_add_def saturating_sub_def sat64_def i64_min_def
        i64_max_def LIVE_HLS_SIGNATURE_CLOCK_SKEW_SECONDS_def LIVE_HLS_SIGNATURE_MAX_TTL_SECONDS_def)
qed


section \<open>A concrete instance\<close>

text \<open>
  Percent-coding by nibbles, the message as its own MAC, and two addresses that parse: they
  satisfy what is relied on.
\<close>

definition sample_encode :: "string \<Rightarrow> string" where
  "sample_encode s = concat (map (\<lambda>c. if is_alnum c then [c] else CHR ''%'' # nibbles c) s)"

fun sample_decode :: "string \<Rightarrow> string" where
  "sample_decode [] = []"
| "sample_decode (c # s) =
     (if c = CHR ''%'' then (case from_nibbles (take 2 s) of Some d \<Rightarrow> d @ sample_decode (drop 2 s) | None \<Rightarrow> [])
      else c # sample_decode s)"

definition sample_pair :: "string \<Rightarrow> string \<times> string" where
  "sample_pair p = (case split_once CHR ''='' p of Some (k, v) \<Rightarrow> (k, sample_decode v) | None \<Rightarrow> (p, []))"

definition sample_live_env :: live_env where
  "sample_live_env =
     \<lparr>lv_parse = (\<lambda>s. if starts_with s ''https://cdn.example/'' \<or> starts_with s ''https://jmp2.uk/''
        then Some \<lparr>url_scheme = ''https'', url_username = [], url_password = None,
          url_host = Some (if starts_with s ''https://jmp2.uk/'' then ''jmp2.uk'' else ''cdn.example''), url_port = Some 443,
          wu_text = s, wu_path = ''/'', wu_port = None, wu_query = [], wu_fragment = None\<rparr> else None),
      lv_join = (\<lambda>_ _. None),
      lv_query_pairs = (\<lambda>q. if q = [] then [] else map sample_pair (split_on CHR ''&'' q)),
      lv_encode = sample_encode, lv_hmac = (\<lambda>_ m. m), lv_b64 = (\<lambda>x. concat (map nibbles x)), lv_unb64 = from_nibbles\<rparr>"

lemma sample_decode_encode: "sample_decode (sample_encode v) = v"
proof (induction v)
  case (Cons c v)
  have "from_nibbles (nibbles c) = Some [c]" using nibbles_back [of c "[]"] by simp
  then show ?case
    using Cons by (auto simp: sample_encode_def is_alnum_def is_ascii_alphabetic_def is_ascii_upper_def
        is_ascii_lower_def is_ascii_digit_def)
qed (simp add: sample_encode_def)

lemma nibbles_no_amp: "c \<in> set (nibbles x) \<Longrightarrow> c \<noteq> CHR ''&''"
  using nibbles_range [of x] by (fastforce simp: list_all_iff)

lemma sample_encode_chars: "c \<in> set (sample_encode v) \<Longrightarrow> c \<noteq> CHR ''&''"
  using nibbles_no_amp by (auto simp: sample_encode_def is_alnum_def is_ascii_alphabetic_def is_ascii_upper_def
      is_ascii_lower_def is_ascii_digit_def split: if_splits)

lemma split_on_pieces:
  assumes "\<forall>p \<in> set (p # ps). c \<notin> set p"
  shows "split_on c (concat (p # map ((@) [c]) ps)) = p # ps"
  using assms by (induction ps arbitrary: p) (simp_all add: split_on_single split_on_append)

lemma split_once_at: "c \<notin> set k \<Longrightarrow> split_once c (k @ c # v) = Some (k, v)"
  by (induction k) auto

lemma alnum_no_sign: "list_all is_alnum k \<Longrightarrow> CHR ''&'' \<notin> set k \<and> CHR ''='' \<notin> set k"
  by (auto simp: list_all_iff is_alnum_def is_ascii_alphabetic_def is_ascii_upper_def is_ascii_lower_def is_ascii_digit_def)

lemma sample_query_back:
  assumes "\<forall>(k, v) \<in> set kvs. k \<noteq> [] \<and> list_all is_alnum k"
  shows "lv_query_pairs sample_live_env (query_text sample_live_env kvs) = kvs"
proof (cases kvs)
  case (Cons kv rest)
  let ?piece = "\<lambda>(k, v). k @ ''='' @ sample_encode v"
  have "CHR ''&'' \<notin> set (?piece p)" if "p \<in> set kvs" for p
    using assms that alnum_no_sign sample_encode_chars by (cases p) fastforce
  then have "\<forall>p \<in> set (map ?piece kvs). CHR ''&'' \<notin> set p" by auto
  then have s: "split_on CHR ''&'' (query_text sample_live_env kvs) = map ?piece kvs"
    using split_on_pieces [of "?piece kv" "map ?piece rest" "CHR ''&''"]
    by (simp add: query_text_def Cons sample_live_env_def)
  have "sample_pair (?piece p) = p" if "p \<in> set kvs" for p
    using assms that alnum_no_sign by (cases p) (auto simp: sample_pair_def split_once_at sample_decode_encode)
  then have "map sample_pair (map ?piece kvs) = kvs" by (simp add: map_idI)
  moreover have "query_text sample_live_env kvs \<noteq> []" using Cons by (cases kv) (simp add: query_text_def)
  ultimately show ?thesis using s by (simp add: sample_live_env_def)
qed (simp add: query_text_def sample_live_env_def)

lemma sample_form_ok: "form_ok sample_live_env"
proof -
  have "sample_encode s = s" if "list_all is_ascii_digit s" for s
    using that by (induction s) (auto simp: sample_encode_def is_alnum_def)
  then show ?thesis unfolding form_ok_def using sample_query_back by (auto simp: sample_live_env_def)
qed

lemma trim_no_white: "list_all (\<lambda>c. \<not> is_whitespace c) s \<Longrightarrow> trim s = s"
proof -
  have "list_all (\<lambda>c. \<not> is_whitespace c) s \<Longrightarrow> dropWhile is_whitespace s = s" for s by (cases s) auto
  then show "list_all (\<lambda>c. \<not> is_whitespace c) s \<Longrightarrow> trim s = s"
    by (simp add: trim_def trim_start_def trim_end_def list_all_rev)
qed

lemma sample_base64_ok: "base64_ok sample_live_env"
proof -
  have "list_all (\<lambda>c. \<not> is_whitespace c) (concat (map nibbles x))" for x
    using nibbles_all_range [of x] by (rule list.pred_mono_strong) (auto simp: is_whitespace_def)
  then show ?thesis by (simp add: base64_ok_def sample_live_env_def trim_no_white)
qed

definition sample_live_config :: live_config where
  "sample_live_config = \<lparr>lc_live_hls_proxy_secret = ''secret'', lc_legacy_accept_until = None,
     lc_live_hls_resource_worker_base = [], lc_live_hls_direct_base = [], lc_emit_legacy_signature = False\<rparr>"


text \<open>A request for a signed address.\<close>

definition sample_request :: "(string \<times> string) list \<Rightarrow> live_hls_request app_result" where
  "sample_request kvs = live_hls_request_input sample_live_env sample_live_config 1000 None
     (Inr (the (lv_parse sample_live_env ''https://jmp2.uk/''))) \<lparr>lu_path = [], lu_query = query_text sample_live_env kvs\<rparr> Resource"

lemma sample_request_ok:
  "\<not> isl (sample_request (grant_params sample_live_env ''https://cdn.example/x'' None 1200 ''secret'' False))"
  by code_simp


definition sample_grant :: query_params where
  "sample_grant = query_pairs sample_live_env
     (query_text sample_live_env (grant_params sample_live_env ''https://cdn.example/x'' None 1200 ''secret'' False))"

theorem live_signature_binds_request_witness:
  "authorize_live_hls_proxy_signature sample_live_env ''https://cdn.example/x'' None sample_grant ''secret'' 1000 None = Some (Some 1200) \<and>
   sample_grant LIVE_HLS_PRIVATE_SESSION_PARAM = None"
proof -
  have a: "authorize_live_hls_proxy_signature sample_live_env ''https://cdn.example/x'' None sample_grant ''secret'' 1000 None = Some (Some 1200)"
    by code_simp
  have p: "presented_signature sample_grant = Some (lv_b64 sample_live_env (lv_hmac sample_live_env ''secret''
      (granted_message ''https://cdn.example/x'' None (Some 1200) None)))"
    by code_simp
  have n: "nul_free ''https://cdn.example/x''" "nul_free (referer_text None)" by code_simp+
  have "\<not> hmac_collision sample_live_env ''secret'' m m'" for m m' by (simp add: hmac_collision_def sample_live_env_def)
  with live_signature_binds_request [OF sample_base64_ok a p n n] a show ?thesis by simp
qed

text \<open>An instance whose MAC has thirty-two bytes and whose encoding of it forty-three characters.\<close>

definition private_env :: live_env where
  "private_env = sample_live_env
     \<lparr>lv_hmac := (\<lambda>_ m. take 32 (filter is_alnum (rev m) @ replicate 32 (CHR ''x''))),
      lv_b64 := (\<lambda>x. if length x = 32 \<and> list_all is_alnum x then x @ replicate 11 (CHR ''Z'') else CHR ''.'' # concat (map nibbles x)),
      lv_unb64 := (\<lambda>s. if starts_with s ''.'' then from_nibbles (tl s) else Some (take (length s - 11) s))\<rparr>"

lemma private_base64_ok: "base64_ok private_env"
proof -
  have "list_all (\<lambda>c. \<not> is_whitespace c) (CHR ''.'' # concat (map nibbles x))" for x
    using nibbles_all_range [of x] by (auto elim!: list.pred_mono_strong simp: is_whitespace_def)
  then have t: "trim (CHR ''.'' # concat (map nibbles x)) = CHR ''.'' # concat (map nibbles x)" for x by (rule trim_no_white)
  have u: "trim (x @ replicate 11 (CHR ''Z'')) = x @ replicate 11 (CHR ''Z'')" if "list_all is_alnum x" for x
    using that by (intro trim_no_white)
      (auto simp: list_all_iff is_whitespace_def is_alnum_def is_ascii_alphabetic_def is_ascii_upper_def is_ascii_lower_def is_ascii_digit_def)
  have v: "\<not> starts_with (x @ replicate 11 (CHR ''Z'')) ''.''" if "list_all is_alnum x" "length x = 32" for x
    using that by (cases x) (auto simp: is_alnum_def is_ascii_alphabetic_def is_ascii_upper_def is_ascii_lower_def is_ascii_digit_def)
  show ?thesis
    unfolding base64_ok_def by (simp add: private_env_def t u v)
qed

definition private_binding :: string where
  "private_binding = the (build_private_live_hls_session_binding private_env ''secret'' ''tok'')"

definition private_uri :: live_uri where
  "private_uri = \<lparr>lu_path = ''/api/live/hls.m3u8'', lu_query = query_text private_env
     [(''input'', ''https://cdn.example/x''), (''externalEmbed'', ''1''), (''expires'', ''1200''),
      (''sig'', sign_private_live_hls_proxy_url private_env ''https://cdn.example/x'' None 1200 private_binding ''secret''),
      (''privateSession'', private_binding)]\<rparr>"

definition private_request :: "live_hls_request app_result" where
  "private_request = live_hls_request_input private_env sample_live_config 1000 (Some ''session=tok'')
     (Inr (the (lv_parse sample_live_env ''https://jmp2.uk/''))) private_uri Playlist"

theorem private_grant_needs_its_session_witness:
  "\<exists>r. private_request = Inr r \<and> \<not> is_signed_live_hls_request private_env ''secret'' None 1000 private_uri"
proof -
  have "\<not> isl private_request" by code_simp
  then obtain r where r: "private_request = Inr r" using sum.collapse(2) by metis
  have c: "lc_live_hls_proxy_secret sample_live_config = ''secret''" by (simp add: sample_live_config_def)
  have b: "build_private_live_hls_session_binding private_env ''secret'' ''tok'' = Some private_binding" by code_simp
  have q: "query_pairs private_env (lu_query private_uri) LIVE_HLS_PRIVATE_SESSION_PARAM = Some private_binding" by code_simp
  from private_grant_needs_its_session [OF private_base64_ok c b q r [unfolded private_request_def]] r
  show ?thesis by blast
qed

end
