(* ===== verification/LiveCaches.thy ===== *)
theory LiveCaches
  imports Caches "HOL-Library.AList" "HOL-Library.Sublist"
begin

text \<open>
  The in-memory caches of the live proxy in \<open>src/live.rs\<close>: rewritten playlists, processed
  segments and the per-rendition decision whether a stream must be transcoded. A concurrent
  map is the list of its entries, with distinct keys, in the order in which it iterates;
  each call is one step. Entries of equal age are evicted in that order.
\<close>

section \<open>The shared eviction policy\<close>

type_synonym 'v live_entries = "(string \<times> 'v) list"

fun evict_loop ::
  "nat \<Rightarrow> nat \<Rightarrow> nat \<Rightarrow> nat \<Rightarrow> (string \<times> int \<times> nat) list \<Rightarrow> 'v live_entries \<Rightarrow> 'v live_entries" where
  "evict_loop max_entries max_total_bytes remaining total_bytes [] entries = entries"
| "evict_loop max_entries max_total_bytes remaining total_bytes ((key, _, len) # live) entries =
     (if remaining \<le> max_entries \<and> total_bytes \<le> max_total_bytes then entries
      else evict_loop max_entries max_total_bytes (remaining - 1) (total_bytes - len) live (AList.delete key entries))"

definition evict_expired_then_oldest ::
  "'v live_entries \<Rightarrow> nat \<Rightarrow> nat \<Rightarrow> ('v \<Rightarrow> int \<Rightarrow> bool) \<Rightarrow> ('v \<Rightarrow> int) \<Rightarrow> ('v \<Rightarrow> nat) \<Rightarrow> int \<Rightarrow> 'v live_entries" where
  "evict_expired_then_oldest entries max_entries max_total_bytes is_expired stored_at_ms byte_len now =
     (let entries = filter (\<lambda>(k, v). \<not> is_expired v now) entries;
          live = map (\<lambda>(k, v). (k, stored_at_ms v, byte_len v)) entries;
          total_bytes = sum_list (map (\<lambda>(k, t, len). len) live)
      in if length live \<le> max_entries \<and> total_bytes \<le> max_total_bytes then entries
         else evict_loop max_entries max_total_bytes (length live) total_bytes
                (sort_key (\<lambda>(k, t, len). t) live) entries)"

section \<open>Transcode decisions\<close>

record live_transcode_decision =
  ltd_audio_needs_transcode :: bool
  ltd_has_data_streams :: bool
  ltd_video_height :: "nat option"

definition needs_processing :: "live_transcode_decision \<Rightarrow> bool" where
  "needs_processing d \<longleftrightarrow> ltd_audio_needs_transcode d \<or> ltd_has_data_streams d"

record live_audio_decision =
  lad_decision :: live_transcode_decision
  lad_decided_at_ms :: int

definition LIVE_AUDIO_TRANSCODE_DECISION_TTL_MS :: int where "LIVE_AUDIO_TRANSCODE_DECISION_TTL_MS = 10 * 60 * 1000"
definition LIVE_AUDIO_TRANSCODE_MAX_ENTRIES :: nat where "LIVE_AUDIO_TRANSCODE_MAX_ENTRIES = 256"

definition audio_get_fresh :: "live_audio_decision live_entries \<Rightarrow> string \<Rightarrow> int \<Rightarrow> live_transcode_decision option" where
  "audio_get_fresh es key now =
     (case map_of es key of
        None \<Rightarrow> None
      | Some e \<Rightarrow> if now - lad_decided_at_ms e > LIVE_AUDIO_TRANSCODE_DECISION_TTL_MS then None else Some (lad_decision e))"

definition audio_record ::
  "live_audio_decision live_entries \<Rightarrow> string \<Rightarrow> live_transcode_decision \<Rightarrow> int \<Rightarrow> live_audio_decision live_entries" where
  "audio_record es key d now = AList.update key \<lparr>lad_decision = d, lad_decided_at_ms = now\<rparr> es"

definition audio_prune :: "live_audio_decision live_entries \<Rightarrow> int \<Rightarrow> live_audio_decision live_entries" where
  "audio_prune es now =
     (let es = filter (\<lambda>(k, v). now - lad_decided_at_ms v \<le> LIVE_AUDIO_TRANSCODE_DECISION_TTL_MS) es
      in if length es > LIVE_AUDIO_TRANSCODE_MAX_ENTRIES then [] else es)"

section \<open>Rewritten playlists\<close>

definition LIVE_HLS_IMMUTABLE_PLAYLIST_CACHE_TTL_MS :: int where "LIVE_HLS_IMMUTABLE_PLAYLIST_CACHE_TTL_MS = 120000"
definition LIVE_HLS_ROLLING_PLAYLIST_CACHE_TTL_MS :: int where "LIVE_HLS_ROLLING_PLAYLIST_CACHE_TTL_MS = 1500"
definition LIVE_HLS_PLAYLIST_CACHE_MAX_ENTRIES :: nat where "LIVE_HLS_PLAYLIST_CACHE_MAX_ENTRIES = 64"
definition LIVE_HLS_PLAYLIST_CACHE_MAX_TOTAL_BYTES :: nat where
  "LIVE_HLS_PLAYLIST_CACHE_MAX_TOTAL_BYTES = 48 * 1024 * 1024"

record cached_live_playlist =
  clp_body :: string
  clp_stored_at_ms :: int
  clp_ttl_ms :: int
  clp_client_cache_control :: string

definition playlist_get_fresh :: "cached_live_playlist live_entries \<Rightarrow> string \<Rightarrow> int \<Rightarrow> cached_live_playlist option" where
  "playlist_get_fresh es key now =
     (case map_of es key of
        None \<Rightarrow> None
      | Some e \<Rightarrow> if now - clp_stored_at_ms e > clp_ttl_ms e then None else Some e)"

definition playlist_store ::
  "cached_live_playlist live_entries \<Rightarrow> string \<Rightarrow> string \<Rightarrow> int \<Rightarrow> string \<Rightarrow> int \<Rightarrow> cached_live_playlist live_entries" where
  "playlist_store es key body ttl_ms client_cache_control now =
     evict_expired_then_oldest
       (AList.update key \<lparr>clp_body = body, clp_stored_at_ms = now, clp_ttl_ms = ttl_ms,
          clp_client_cache_control = client_cache_control\<rparr> es)
       LIVE_HLS_PLAYLIST_CACHE_MAX_ENTRIES LIVE_HLS_PLAYLIST_CACHE_MAX_TOTAL_BYTES
       (\<lambda>e now. now - clp_stored_at_ms e > clp_ttl_ms e) clp_stored_at_ms (\<lambda>e. length (clp_body e)) now"

definition playlist_prune :: "cached_live_playlist live_entries \<Rightarrow> int \<Rightarrow> cached_live_playlist live_entries" where
  "playlist_prune es now = filter (\<lambda>(k, v). now - clp_stored_at_ms v \<le> clp_ttl_ms v) es"

section \<open>Processed segments\<close>

definition LIVE_SEGMENT_OUTPUT_CACHE_TTL_MS :: int where "LIVE_SEGMENT_OUTPUT_CACHE_TTL_MS = 25000"
definition LIVE_SEGMENT_OUTPUT_CACHE_MAX_ENTRIES :: nat where "LIVE_SEGMENT_OUTPUT_CACHE_MAX_ENTRIES = 64"
definition LIVE_SEGMENT_OUTPUT_CACHE_MAX_TOTAL_BYTES :: nat where
  "LIVE_SEGMENT_OUTPUT_CACHE_MAX_TOTAL_BYTES = 96 * 1024 * 1024"

record cached_live_segment =
  cls_content_type :: string
  cls_bytes :: string
  cls_stored_at_ms :: int

record live_segment_output_cache =
  lsc_entries :: "cached_live_segment live_entries"
  lsc_max_entries :: nat
  lsc_max_total_bytes :: nat

definition live_segment_output_cache_new :: "nat \<Rightarrow> nat \<Rightarrow> live_segment_output_cache" where
  "live_segment_output_cache_new max_entries max_total_bytes =
     \<lparr>lsc_entries = [], lsc_max_entries = max_entries, lsc_max_total_bytes = max_total_bytes\<rparr>"

definition segment_get_fresh :: "live_segment_output_cache \<Rightarrow> string \<Rightarrow> int \<Rightarrow> cached_live_segment option" where
  "segment_get_fresh c key now =
     (case map_of (lsc_entries c) key of
        None \<Rightarrow> None
      | Some e \<Rightarrow> if now - cls_stored_at_ms e > LIVE_SEGMENT_OUTPUT_CACHE_TTL_MS then None else Some e)"

definition segment_store ::
  "live_segment_output_cache \<Rightarrow> string \<Rightarrow> string \<Rightarrow> string \<Rightarrow> int \<Rightarrow> live_segment_output_cache" where
  "segment_store c key content_type bytes now =
     (if bytes = [] \<or> length bytes > lsc_max_total_bytes c then c
      else c\<lparr>lsc_entries := evict_expired_then_oldest
        (AList.update key \<lparr>cls_content_type = content_type, cls_bytes = bytes, cls_stored_at_ms = now\<rparr> (lsc_entries c))
        (lsc_max_entries c) (lsc_max_total_bytes c)
        (\<lambda>e now. now - cls_stored_at_ms e > LIVE_SEGMENT_OUTPUT_CACHE_TTL_MS) cls_stored_at_ms
        (\<lambda>e. length (cls_bytes e)) now\<rparr>)"

definition segment_prune :: "live_segment_output_cache \<Rightarrow> int \<Rightarrow> live_segment_output_cache" where
  "segment_prune c now =
     c\<lparr>lsc_entries := filter (\<lambda>(k, v). now - cls_stored_at_ms v \<le> LIVE_SEGMENT_OUTPUT_CACHE_TTL_MS) (lsc_entries c)\<rparr>"

section \<open>What eviction leaves\<close>

text \<open>Whether entries fit both budgets, and the entries by age, oldest first.\<close>

definition fits :: "nat \<Rightarrow> nat \<Rightarrow> ('v \<Rightarrow> nat) \<Rightarrow> 'v live_entries \<Rightarrow> bool" where
  "fits max_entries max_total_bytes byte_len es \<longleftrightarrow>
     length es \<le> max_entries \<and> sum_list (map (byte_len \<circ> snd) es) \<le> max_total_bytes"

definition by_age :: "('v \<Rightarrow> int \<Rightarrow> bool) \<Rightarrow> ('v \<Rightarrow> int) \<Rightarrow> int \<Rightarrow> 'v live_entries \<Rightarrow> 'v live_entries" where
  "by_age is_expired stored_at_ms now es = sort_key (stored_at_ms \<circ> snd) (filter (\<lambda>(k, v). \<not> is_expired v now) es)"

lemma evict_loop_drop:
  assumes "distinct (map fst es)" and "set aged = set es" and "length aged = length es"
  shows "\<exists>n \<le> length aged. set (evict_loop m b (length aged) (sum_list (map (f \<circ> snd) aged))
        (map (\<lambda>(k, v). (k, g v, f v)) aged) es) = set (drop n aged) \<and>
      subseq (evict_loop m b (length aged) (sum_list (map (f \<circ> snd) aged)) (map (\<lambda>(k, v). (k, g v, f v)) aged) es) es \<and>
      fits m b f (drop n aged) \<and> (\<forall>j < n. \<not> fits m b f (drop j aged))"
  using assms
proof (induction aged arbitrary: es)
  case Nil
  then show ?case by (simp add: fits_def)
next
  case (Cons x aged)
  obtain k v where x: "x = (k, v)" by (cases x)
  show ?case
  proof (cases "fits m b f (x # aged)")
    case True
    then have stop: "Suc (length aged) \<le> m \<and> f v + sum_list (map (f \<circ> snd) aged) \<le> b" by (simp add: fits_def x)
    have e: "evict_loop m b (length (x # aged)) (sum_list (map (f \<circ> snd) (x # aged)))
        (map (\<lambda>(k, v). (k, g v, f v)) (x # aged)) es = es"
      using stop by (simp add: x)
    show ?thesis unfolding e using True Cons.prems(2) by (intro exI [of _ 0] conjI) simp_all
  next
    case False
    then have go: "\<not> (Suc (length aged) \<le> m \<and> f v + sum_list (map (f \<circ> snd) aged) \<le> b)" by (simp add: fits_def x)
    let ?es = "AList.delete k es"
    have d: "distinct (map fst ?es)" using Cons.prems(1) by (rule distinct_delete)
    have "card (set es) = length es" using Cons.prems(1) [unfolded distinct_map, THEN conjunct1] by (rule distinct_card)
    then have da: "distinct (x # aged)" using Cons.prems(2,3) by (metis card_distinct)
    have kv: "(k, v) \<in> set es" using Cons.prems(2) x by (metis list.set_intros(1))
    have inj: "w = v" if "(k, w) \<in> set es" for w
      using eq_key_imp_eq_value [OF Cons.prems(1) that kv] .
    have sd: "set ?es = {p \<in> set es. fst p \<noteq> k}" by (auto simp: AList.delete_eq)
    have s: "set aged = set ?es"
    proof (intro set_eqI iffI)
      fix p assume p: "p \<in> set aged"
      then have "p \<in> set es" using Cons.prems(2) by auto
      moreover have "fst p \<noteq> k" using inj [of "snd p"] p da x \<open>p \<in> set es\<close> by (metis distinct.simps(2) prod.collapse)
      ultimately show "p \<in> set ?es" unfolding sd by simp
    next
      fix p assume "p \<in> set ?es"
      then show "p \<in> set aged" unfolding sd Cons.prems(2) [symmetric] using x by auto
    qed
    have "distinct aged" using da by simp
    then have l: "length aged = length ?es" using d [unfolded distinct_map, THEN conjunct1] s by (metis distinct_card)
    from Cons.IH [OF d s l] obtain n where n: "n \<le> length aged"
      "set (evict_loop m b (length aged) (sum_list (map (f \<circ> snd) aged)) (map (\<lambda>(k, v). (k, g v, f v)) aged) ?es) = set (drop n aged)"
      "subseq (evict_loop m b (length aged) (sum_list (map (f \<circ> snd) aged)) (map (\<lambda>(k, v). (k, g v, f v)) aged) ?es) ?es"
      "fits m b f (drop n aged)" "\<forall>j < n. \<not> fits m b f (drop j aged)" by blast
    have e: "evict_loop m b (length (x # aged)) (sum_list (map (f \<circ> snd) (x # aged)))
        (map (\<lambda>(k, v). (k, g v, f v)) (x # aged)) es =
      evict_loop m b (length aged) (sum_list (map (f \<circ> snd) aged)) (map (\<lambda>(k, v). (k, g v, f v)) aged) ?es"
      using go by (auto simp: x)
    have "subseq ?es es" by (simp add: AList.delete_eq)
    with n(3) have "subseq (evict_loop m b (length aged) (sum_list (map (f \<circ> snd) aged)) (map (\<lambda>(k, v). (k, g v, f v)) aged) ?es) es"
      by (rule subseq_order.trans)
    moreover have "\<forall>j < Suc n. \<not> fits m b f (drop j (x # aged))"
      using n(5) False by (metis Suc_less_eq drop0 drop_Suc_Cons gr0_conv_Suc not_gr_zero)
    ultimately show ?thesis unfolding e using n by (intro exI [of _ "Suc n"]) simp
  qed
qed

lemma insort_key_map: "insort_key f (g x) (map g xs) = map g (insort_key (f \<circ> g) x xs)"
  by (induction xs) auto

lemma sort_key_map: "sort_key f (map g xs) = map g (sort_key (f \<circ> g) xs)"
  by (induction xs) (simp_all add: insort_key_map comp_def)

lemma fits_mset:
  assumes "mset xs = mset ys"
  shows "fits m b f xs = fits m b f ys"
proof -
  have "mset (map (f \<circ> snd) xs) = mset (map (f \<circ> snd) ys)" using assms by simp
  then have "sum_list (map (f \<circ> snd) xs) = sum_list (map (f \<circ> snd) ys)" by (metis sum_mset_sum_list)
  with mset_eq_length [OF assms] show ?thesis by (simp add: fits_def)
qed

lemma evict_spec:
  assumes "distinct (map fst es)"
  shows "\<exists>n. set (evict_expired_then_oldest es m b is_expired g f now) = set (drop n (by_age is_expired g now es)) \<and>
    subseq (evict_expired_then_oldest es m b is_expired g f now) es \<and>
    fits m b f (drop n (by_age is_expired g now es)) \<and> (\<forall>j < n. \<not> fits m b f (drop j (by_age is_expired g now es)))"
proof -
  let ?es = "filter (\<lambda>(k, v). \<not> is_expired v now) es" and ?aged = "by_age is_expired g now es"
  have mset: "mset ?aged = mset ?es" by (simp add: by_age_def)
  have total: "sum_list (map (\<lambda>(k, t, len). len) (map (\<lambda>(k, v). (k, g v, f v)) ?es)) = sum_list (map (f \<circ> snd) ?es)"
    by (simp add: case_prod_unfold comp_def)
  have sub: "subseq ?es es" by simp
  show ?thesis
  proof (cases "fits m b f ?es")
    case True
    then have "evict_expired_then_oldest es m b is_expired g f now = ?es"
      using total by (simp add: evict_expired_then_oldest_def Let_def fits_def)
    with True sub fits_mset [OF mset] mset_eq_setD [OF mset] show ?thesis by (intro exI [of _ 0]) simp
  next
    case False
    have sorted: "sort_key (\<lambda>(k, t, len). t) (map (\<lambda>(k, v). (k, g v, f v)) ?es) = map (\<lambda>(k, v). (k, g v, f v)) ?aged"
      unfolding by_age_def
      by (subst sort_key_map) (simp add: comp_def case_prod_unfold)
    have e: "evict_expired_then_oldest es m b is_expired g f now =
        evict_loop m b (length ?aged) (sum_list (map (f \<circ> snd) ?aged)) (map (\<lambda>(k, v). (k, g v, f v)) ?aged) ?es"
      using False sorted total mset_eq_length [OF mset] fits_mset [OF mset, of m b f]
        sum_mset_sum_list [of "map (f \<circ> snd) ?aged"] sum_mset_sum_list [of "map (f \<circ> snd) ?es"] mset
      by (auto simp: evict_expired_then_oldest_def Let_def fits_def)
    have d: "distinct (map fst ?es)" using assms by (simp add: distinct_map_filter)
    show ?thesis
      unfolding e using evict_loop_drop [OF d mset_eq_setD [OF mset] mset_eq_length [OF mset], of m b f g] sub
      by (meson subseq_order.trans)
  qed
qed

lemma subseq_distinct_keys: "subseq ys xs \<Longrightarrow> distinct (map fst xs) \<Longrightarrow> distinct (map fst ys)"
  by (metis distinct_nthsI nths_map subseq_conv_nths)

lemma subseq_map_of:
  assumes "subseq ys xs" and "distinct (map fst xs)"
  shows "map_of ys k = map_of xs k \<or> map_of ys k = None"
proof (cases "map_of ys k")
  case (Some v)
  then have "(k, v) \<in> set xs" using assms(1) by (metis map_of_SomeD set_nths_subset subseq_conv_nths subsetD)
  with assms(2) Some show ?thesis by simp
qed simp

lemma filter_map_of:
  assumes "distinct (map fst xs)"
  shows "map_of (filter P xs) k = (case map_of xs k of None \<Rightarrow> None | Some v \<Rightarrow> if P (k, v) then Some v else None)"
  using assms by (induction xs) (auto simp: map_of_eq_None_iff split: option.splits)

text \<open>
  The eviction policy. Of the entries that are not expired, ordered by age, the
  survivors are the longest suffix that fits both budgets: no expired entry stays, an older
  entry never outlives a younger one, and nothing is evicted without need.
\<close>

theorem eviction_keeps_youngest_that_fit:
  assumes "distinct (map fst es)"
  shows "\<exists>n. set (evict_expired_then_oldest es m b is_expired g f now) = set (drop n (by_age is_expired g now es)) \<and>
    fits m b f (drop n (by_age is_expired g now es)) \<and> (\<forall>j < n. \<not> fits m b f (drop j (by_age is_expired g now es)))"
  using evict_spec [OF assms, of m b is_expired g f now] by blast

definition sample_entries :: "nat live_entries" where
  "sample_entries = [(''a'', 3), (''b'', 1), (''c'', 2)]"

theorem eviction_keeps_youngest_that_fit_witness:
  "\<exists>n. set (evict_expired_then_oldest sample_entries 2 4 (\<lambda>_ _. False) int id 9) =
      set (drop n (by_age (\<lambda>_ _. False) int 9 sample_entries)) \<and> n \<le> 3"
proof -
  have d: "distinct (map fst sample_entries)" by code_simp
  have len: "length (by_age (\<lambda>_ _. False) int 9 sample_entries) = 3" by code_simp
  obtain n where n: "set (evict_expired_then_oldest sample_entries 2 4 (\<lambda>_ _. False) int id 9) =
      set (drop n (by_age (\<lambda>_ _. False) int 9 sample_entries))"
    using eviction_keeps_youngest_that_fit [OF d, of 2 4 "\<lambda>_ _. False" int id 9] by blast
  have "drop (min n 3) (by_age (\<lambda>_ _. False) int 9 sample_entries) = drop n (by_age (\<lambda>_ _. False) int 9 sample_entries)"
    using len by (cases "n \<le> 3") (simp_all add: min_def)
  with n show ?thesis by (intro exI [of _ "min n 3"]) simp
qed

lemma evict_distinct:
  assumes "distinct (map fst es)"
  shows "distinct (map fst (evict_expired_then_oldest es m b is_expired g f now))"
proof -
  have "subseq (evict_expired_then_oldest es m b is_expired g f now) es"
    using evict_spec [OF assms, of m b is_expired g f now] by blast
  then show ?thesis using assms by (rule subseq_distinct_keys)
qed

lemma evict_map_of:
  assumes "distinct (map fst es)"
  shows "map_of (evict_expired_then_oldest es m b is_expired g f now) k = map_of es k \<or>
    map_of (evict_expired_then_oldest es m b is_expired g f now) k = None"
proof -
  have "subseq (evict_expired_then_oldest es m b is_expired g f now) es"
    using evict_spec [OF assms, of m b is_expired g f now] by blast
  then show ?thesis using assms by (rule subseq_map_of)
qed

lemma evict_fits:
  assumes "distinct (map fst es)"
  shows "fits m b f (evict_expired_then_oldest es m b is_expired g f now)"
proof -
  let ?e = "evict_expired_then_oldest es m b is_expired g f now"
  obtain n where n: "set ?e = set (drop n (by_age is_expired g now es))" "fits m b f (drop n (by_age is_expired g now es))"
    using evict_spec [OF assms] by blast
  have "distinct ?e" using evict_distinct [OF assms] by (simp add: distinct_map)
  moreover have "distinct (map fst (by_age is_expired g now es))"
  proof -
    have "mset (map fst (by_age is_expired g now es)) = mset (map fst (filter (\<lambda>(k, v). \<not> is_expired v now) es))"
      by (simp add: by_age_def)
    moreover have "distinct (map fst (filter (\<lambda>(k, v). \<not> is_expired v now) es))" using assms by (simp add: distinct_map_filter)
    ultimately show ?thesis by (metis mset_eq_imp_distinct_iff)
  qed
  then have "distinct (drop n (by_age is_expired g now es))" by (simp add: distinct_map)
  ultimately have "mset ?e = mset (drop n (by_age is_expired g now es))" using n(1) by (metis set_eq_iff_mset_eq_distinct)
  with n(2) show ?thesis by (metis fits_mset)
qed

section \<open>Reads\<close>

text \<open>A read is of the last write, until it expires; the entry of a write is a pure function of it.\<close>

definition playlist_entry :: "cached_live_playlist live_entries \<Rightarrow> string \<Rightarrow> (cached_live_playlist \<times> int) option" where
  "playlist_entry es k = map_option (\<lambda>e. (e, clp_stored_at_ms e + clp_ttl_ms e + 1)) (map_of es k)"

lemma playlist_store_map_of:
  assumes "distinct (map fst es)"
  shows "map_of (playlist_store es k body ttl cc t) k' = (if k' = k then Some \<lparr>clp_body = body, clp_stored_at_ms = t,
      clp_ttl_ms = ttl, clp_client_cache_control = cc\<rparr> else map_of es k') \<or> map_of (playlist_store es k body ttl cc t) k' = None"
proof -
  let ?es = "AList.update k \<lparr>clp_body = body, clp_stored_at_ms = t, clp_ttl_ms = ttl, clp_client_cache_control = cc\<rparr> es"
  have "map_of (playlist_store es k body ttl cc t) k' = map_of ?es k' \<or> map_of (playlist_store es k body ttl cc t) k' = None"
    unfolding playlist_store_def by (rule evict_map_of [OF distinct_update [OF assms]])
  then show ?thesis by (simp add: update_conv')
qed

interpretation playlist_cache: ttl_cache "\<lambda>es. distinct (map fst es)" playlist_entry
  "\<lambda>(body, ttl, cc) now. Some (\<lparr>clp_body = body, clp_stored_at_ms = now, clp_ttl_ms = ttl, clp_client_cache_control = cc\<rparr>,
     now + ttl + 1)"
  "\<lambda>es k now. (playlist_get_fresh es k now, es)"
  "\<lambda>es k (body, ttl, cc) now. playlist_store es k body ttl cc now" playlist_prune
proof (unfold_locales, goal_cases)
  case (1 s k t)
  then show ?case by (auto simp: playlist_get_fresh_def playlist_entry_def split: option.split)
next
  case (3 s k a t)
  obtain body ttl cc where a: "a = (body, ttl, cc)" by (cases a rule: prod_cases3)
  from playlist_store_map_of [OF 3, of k body ttl cc t k] show ?case by (auto simp: a playlist_entry_def)
next
  case (4 s k' k a t)
  obtain body ttl cc where a: "a = (body, ttl, cc)" by (cases a rule: prod_cases3)
  from playlist_store_map_of [OF 4(1), of k body ttl cc t k'] 4(2) show ?case by (auto simp: a playlist_entry_def)
next
  case (5 s t k)
  then show ?case by (simp add: playlist_prune_def playlist_entry_def filter_map_of split: option.split)
next
  case (7 s k a t)
  obtain body ttl cc where a: "a = (body, ttl, cc)" by (cases a rule: prod_cases3)
  show ?case by (simp add: a playlist_store_def evict_distinct distinct_update 7)
next
  case (8 s t)
  then show ?case by (simp add: playlist_prune_def distinct_map_filter)
qed auto

definition playlist_history :: "(string, string \<times> int \<times> string) cache_op list \<Rightarrow> cached_live_playlist live_entries" where
  "playlist_history ops = fold (\<lambda>op es. case op of
      Cache_put k (body, ttl, cc) t \<Rightarrow> playlist_store es k body ttl cc t
    | Cache_get k t \<Rightarrow> es
    | Cache_sweep t \<Rightarrow> playlist_prune es t) ops []"

lemma playlist_history_run:
  "fold (\<lambda>op es. case op of
      Cache_put k a t \<Rightarrow> (case a of (body, ttl, cc) \<Rightarrow> \<lambda>now. playlist_store es k body ttl cc now) t
    | Cache_get k t \<Rightarrow> snd (playlist_get_fresh es k t, es) | Cache_sweep t \<Rightarrow> playlist_prune es t) ops [] = playlist_history ops"
  unfolding playlist_history_def by (intro fold_cong) (auto split: cache_op.split)

text \<open>
  A playlist served from memory is the one written last under its key, byte for byte,
  and at most as old as the lifetime it was written with: whatever was stored, pruned or
  evicted in between.
\<close>

theorem live_playlist_read_is_last_write:
  assumes "playlist_get_fresh (playlist_history ops) k now = Some e"
  shows "last_written (\<lambda>a t. Some (a, t)) k ops None =
      Some ((clp_body e, clp_ttl_ms e, clp_client_cache_control e), clp_stored_at_ms e) \<and>
    now \<le> clp_stored_at_ms e + clp_ttl_ms e"
proof -
  let ?live = "\<lambda>(body, ttl, cc) now. Some (\<lparr>clp_body = body, clp_stored_at_ms = now, clp_ttl_ms = ttl,
     clp_client_cache_control = cc\<rparr>, now + ttl + 1)"
  obtain x where x: "last_written ?live k ops None = Some (e, x)" "now < x"
    using playlist_cache.read_is_last_write [of "[]" ops k now e] assms
    by (auto simp: playlist_history_run playlist_entry_def)
  have "last_written ?live k ops None = Option.bind (last_written (\<lambda>a t. Some (a, t)) k ops None) (\<lambda>(a, t). ?live a t)"
    using last_written_bind [of ?live k ops None] by simp
  with x obtain body ttl cc t where "last_written (\<lambda>a t. Some (a, t)) k ops None = Some ((body, ttl, cc), t)"
    and "Some (e, x) = Some (\<lparr>clp_body = body, clp_stored_at_ms = t, clp_ttl_ms = ttl, clp_client_cache_control = cc\<rparr>, t + ttl + 1)"
    by (auto simp: bind_eq_Some_conv split: prod.splits)
  with x(2) show ?thesis by simp
qed

theorem live_playlist_read_is_last_write_witness:
  "last_written (\<lambda>a t. Some (a, t)) ''k''
     [Cache_put ''k'' (''#EXTM3U'', 1500, ''no-store'') 1000, Cache_sweep 2000 :: (string, string \<times> int \<times> string) cache_op] None
     = Some ((''#EXTM3U'', 1500, ''no-store''), 1000) \<and> (2400 :: int) \<le> 1000 + 1500"
proof -
  let ?ops = "[Cache_put ''k'' (''#EXTM3U'', 1500, ''no-store'') 1000, Cache_sweep 2000] :: (string, string \<times> int \<times> string) cache_op list"
  let ?e = "\<lparr>clp_body = ''#EXTM3U'', clp_stored_at_ms = 1000, clp_ttl_ms = 1500, clp_client_cache_control = ''no-store''\<rparr>"
  have "playlist_get_fresh (playlist_history ?ops) ''k'' 2400 = Some ?e"
    by (simp add: playlist_history_def playlist_store_def playlist_prune_def playlist_get_fresh_def
        evict_expired_then_oldest_def LIVE_HLS_PLAYLIST_CACHE_MAX_ENTRIES_def LIVE_HLS_PLAYLIST_CACHE_MAX_TOTAL_BYTES_def Let_def)
  from live_playlist_read_is_last_write [OF this] show ?thesis by simp
qed

section \<open>Memory\<close>

datatype segment_op = Segment_store string string string int | Segment_prune int

fun segment_step :: "segment_op \<Rightarrow> live_segment_output_cache \<Rightarrow> live_segment_output_cache" where
  "segment_step (Segment_store key content_type bytes now) c = segment_store c key content_type bytes now"
| "segment_step (Segment_prune now) c = segment_prune c now"

definition segments_within :: "nat \<Rightarrow> nat \<Rightarrow> live_segment_output_cache \<Rightarrow> bool" where
  "segments_within m b c \<longleftrightarrow> distinct (map fst (lsc_entries c)) \<and> lsc_max_entries c = m \<and> lsc_max_total_bytes c = b \<and>
     fits m b (\<lambda>e. length (cls_bytes e)) (lsc_entries c)"

lemma fits_filter: "fits m b f es \<Longrightarrow> fits m b f (filter P es)"
proof -
  assume "fits m b f es"
  moreover have "sum_list (map (f \<circ> snd) (filter P es)) \<le> sum_list (map (f \<circ> snd) es)" by (induction es) auto
  ultimately show ?thesis unfolding fits_def using length_filter_le le_trans by blast
qed

interpretation segment_budget: invariant_steps "segments_within m b" segment_step
proof
  fix c e assume c: "segments_within m b c"
  show "segments_within m b (segment_step e c)"
  proof (cases e)
    case (Segment_store k ty bytes now)
    with c show ?thesis
      by (auto simp: segments_within_def segment_store_def evict_fits evict_distinct distinct_update)
  next
    case (Segment_prune now)
    with c show ?thesis
      by (simp add: segments_within_def segment_prune_def fits_filter distinct_map_filter)
  qed
qed

definition playlists_within :: "cached_live_playlist live_entries \<Rightarrow> bool" where
  "playlists_within es \<longleftrightarrow> distinct (map fst es) \<and>
     fits LIVE_HLS_PLAYLIST_CACHE_MAX_ENTRIES LIVE_HLS_PLAYLIST_CACHE_MAX_TOTAL_BYTES (\<lambda>e. length (clp_body e)) es"

interpretation playlist_budget: invariant_steps playlists_within "\<lambda>op es. case op of
      Cache_put k (body, ttl, cc) t \<Rightarrow> playlist_store es k body ttl cc t
    | Cache_get k t \<Rightarrow> es
    | Cache_sweep t \<Rightarrow> playlist_prune es t"
  by unfold_locales
     (auto simp: playlists_within_def playlist_store_def playlist_prune_def evict_fits evict_distinct distinct_update
       fits_filter distinct_map_filter split: cache_op.split prod.split)

text \<open>
  The live proxy's memory is bounded. Whatever is stored and pruned, the playlist cache
  holds at most 64 playlists of 48 MiB together, and the segment cache at most as many
  segments and bytes as it was created for.
\<close>

theorem live_caches_within_budget:
  "fits 64 (48 * 1024 * 1024) (\<lambda>e. length (clp_body e)) (playlist_history ops) \<and>
   fits m b (\<lambda>e. length (cls_bytes e)) (lsc_entries (fold segment_step sops (live_segment_output_cache_new m b)))"
proof -
  have "playlists_within (playlist_history ops)"
    unfolding playlist_history_def by (rule playlist_budget.inv_fold) (simp add: playlists_within_def fits_def)
  moreover have "segments_within m b (fold segment_step sops (live_segment_output_cache_new m b))"
    by (rule segment_budget.inv_fold) (simp add: segments_within_def live_segment_output_cache_new_def fits_def)
  ultimately show ?thesis
    by (simp add: playlists_within_def segments_within_def LIVE_HLS_PLAYLIST_CACHE_MAX_ENTRIES_def
        LIVE_HLS_PLAYLIST_CACHE_MAX_TOTAL_BYTES_def)
qed

end
