(* ===== verification/LivePlaylists.thy ===== *)
theory LivePlaylists
  imports LiveGrants LiveCaches Json
begin

text \<open>
  The playlists of the live proxy (\<open>src/live.rs\<close>): how an upstream HLS playlist is rewritten so
  that its addresses come back to the proxy, which window of a live playlist is kept, how the
  rewritten text is cached and served (\<open>live_hls_handler\<close>), and how a media segment is answered
  (\<open>live_hls_resource_handler\<close>). Upstream fetches and ffmpeg are arguments. A duration is an
  \<open>f64\<close> of theory \<open>Json\<close>: its finite values are exact, so that the rounding of sums is not seen.
\<close>

section \<open>Text\<close>

text \<open>\<open>str::lines\<close>: a line ends at a line feed, with the carriage return before it.\<close>

definition strip_cr :: "string \<Rightarrow> string" where
  "strip_cr s = (if s \<noteq> [] \<and> last s = CHR 0x0D then butlast s else s)"

definition str_lines :: "string \<Rightarrow> string list" where
  "str_lines s = (let ps = split_on CHR 0x0A s in map strip_cr (butlast ps) @ (if last ps = [] then [] else [last ps]))"

text \<open>\<open>[String]::join("\n")\<close>.\<close>

fun join_lines :: "string list \<Rightarrow> string" where
  "join_lines [] = []"
| "join_lines [l] = l"
| "join_lines (l # ls) = l @ CHR 0x0A # join_lines ls"

text \<open>\<open>[String]::join(",")\<close>.\<close>

fun join_commas :: "string list \<Rightarrow> string" where
  "join_commas [] = []"
| "join_commas [l] = l"
| "join_commas (l # ls) = l @ CHR '','' # join_commas ls"

text \<open>\<open>str::find\<close> of a text.\<close>

fun find_sub :: "string \<Rightarrow> string \<Rightarrow> nat option" where
  "find_sub [] p = (if p = [] then Some 0 else None)"
| "find_sub (c # cs) p = (if starts_with (c # cs) p then Some 0 else map_option Suc (find_sub cs p))"

definition upper_char :: "char \<Rightarrow> char" where
  "upper_char c = (if is_ascii_lower c then char_of ((of_char c :: nat) - 32) else c)"

lemma upper_char_bits [code]:
  "upper_char (Char b0 b1 b2 b3 b4 b5 b6 b7) =
     (if is_ascii_lower (Char b0 b1 b2 b3 b4 b5 b6 b7) then Char b0 b1 b2 b3 b4 False b6 b7 else Char b0 b1 b2 b3 b4 b5 b6 b7)"
  unfolding upper_char_def is_ascii_lower_bits
  by (cases b0; cases b1; cases b2; cases b3; cases b4; cases b5; cases b6; cases b7) (simp_all add: char_of_def bit_0)

definition upper :: "string \<Rightarrow> string" where
  "upper s = map upper_char s"

definition parse_u32 :: "string \<Rightarrow> int option" where
  "parse_u32 s = (case parse_u64 s of Some n \<Rightarrow> if n < 2 ^ 32 then Some n else None | None \<Rightarrow> None)"

text \<open>\<open>parse::<f64>\<close>: sign, digits with an optional point, optional exponent; or a name.\<close>

definition parse_exponent :: "string \<Rightarrow> int option" where
  "parse_exponent s =
     (let (neg, ds) = (case s of
          [] \<Rightarrow> (False, [])
        | c # cs \<Rightarrow> if c = CHR ''-'' then (True, cs) else if c = CHR ''+'' then (False, cs) else (False, s))
      in if ds = [] then None else map_option (\<lambda>n. if neg then - n else n) (parse_digits 0 ds))"

definition scale10 :: "int \<Rightarrow> rat \<Rightarrow> rat" where
  "scale10 e x = (if 0 \<le> e then x * 10 ^ nat e else x / 10 ^ nat (- e))"

definition parse_decimal :: "string \<Rightarrow> rat option" where
  "parse_decimal s =
     (let mantissa = takeWhile (\<lambda>c. c \<notin> {CHR ''e'', CHR ''E''}) s;
          rest = drop (length mantissa) s;
          (ip, fp) = (case split_once CHR ''.'' mantissa of None \<Rightarrow> (mantissa, []) | Some p \<Rightarrow> p)
      in if ip @ fp = [] then None
         else case parse_digits 0 (ip @ fp) of
           None \<Rightarrow> None
         | Some n \<Rightarrow>
             (case (if rest = [] then Some 0 else parse_exponent (tl rest)) of
                None \<Rightarrow> None | Some e \<Rightarrow> Some (scale10 (e - int (length fp)) (of_int n))))"

definition parse_f64 :: "string \<Rightarrow> f64 option" where
  "parse_f64 s =
     (let (neg, body) = (case s of
          [] \<Rightarrow> (False, [])
        | c # cs \<Rightarrow> if c = CHR ''-'' then (True, cs) else if c = CHR ''+'' then (False, cs) else (False, s))
      in if lower body \<in> {''inf'', ''infinity''} then Some (if neg then NegInf else PosInf)
         else if lower body = ''nan'' then Some NaN
         else map_option (\<lambda>x. Fin (if neg then - x else x)) (parse_decimal body))"

fun f64_add :: "f64 \<Rightarrow> f64 \<Rightarrow> f64" where
  "f64_add (Fin a) (Fin b) = Fin (a + b)"
| "f64_add (Fin _) y = y"
| "f64_add x (Fin _) = x"
| "f64_add PosInf PosInf = PosInf"
| "f64_add NegInf NegInf = NegInf"
| "f64_add _ _ = NaN"

fun f64_half :: "f64 \<Rightarrow> f64" where
  "f64_half (Fin a) = Fin (a / 2)"
| "f64_half x = x"

text \<open>\<open>bound.min(x)\<close>, which ignores a NaN.\<close>

fun f64_min :: "rat \<Rightarrow> f64 \<Rightarrow> f64" where
  "f64_min b (Fin a) = Fin (min b a)"
| "f64_min b NegInf = NegInf"
| "f64_min b _ = Fin b"

text \<open>\<open>{:.3}\<close> of a value that is not negative: half to even.\<close>

definition round_half_even :: "rat \<Rightarrow> int" where
  "round_half_even q =
     (let f = floor q; d = q - of_int f in if d < 1 / 2 \<or> (d = 1 / 2 \<and> even f) then f else f + 1)"

definition show_millis :: "rat \<Rightarrow> string" where
  "show_millis q =
     (let n = round_half_even (q * 1000); r = nat (n mod 1000)
      in show_int (n div 1000) @ ''.'' @ replicate (3 - length (show_nat r)) CHR ''0'' @ show_nat r)"

text \<open>\<open>str::replace\<close>: every occurrence, from the left.\<close>

function replace_all :: "string \<Rightarrow> string \<Rightarrow> string \<Rightarrow> string" where
  "replace_all s p r =
     (if p = [] then s
      else case s of [] \<Rightarrow> [] | c # cs \<Rightarrow>
        if starts_with s p then r @ replace_all (drop (length p) s) p r else c # replace_all cs p r)"
  by pat_completeness auto
termination by (relation "measure (\<lambda>(s, p, r). length s)") (auto simp: Suc_le_eq)

declare replace_all.simps [simp del]

section \<open>Attributes of a tag\<close>

definition attribute_at :: "string \<Rightarrow> string \<Rightarrow> nat \<Rightarrow> bool" where
  "attribute_at line attr i \<longleftrightarrow>
     starts_with (drop i (upper line)) (attr @ ''='') \<and> (i = 0 \<or> line ! (i - 1) = CHR '','')"

lemma starts_with_length: "starts_with s p \<Longrightarrow> length p \<le> length s"
  by (metis starts_with_iff length_append le_add1)

lemma find_sub_Some: "find_sub s p = Some i \<Longrightarrow> starts_with (drop i s) p \<and> i + length p \<le> length s \<and> (\<forall>j < i. \<not> starts_with (drop j s) p)"
proof (induction s p arbitrary: i rule: find_sub.induct)
  case (2 c cs p)
  show ?case
  proof (cases "starts_with (c # cs) p")
    case True
    then have "length p \<le> length (c # cs)" by (rule starts_with_length)
    with True 2 show ?thesis by auto
  next
    case False
    with 2(2) obtain j where j: "find_sub cs p = Some j" "i = Suc j" by auto
    from 2(1) [OF False j(1)] have h: "starts_with (drop j cs) p" "j + length p \<le> length cs" "\<forall>k < j. \<not> starts_with (drop k cs) p"
      by auto
    have "\<not> starts_with (drop k (c # cs)) p" if "k < i" for k using that False h(3) j(2) by (cases k) auto
    with h j show ?thesis by auto
  qed
qed (auto split: if_splits)

lemma find_sub_None: "find_sub s p = None \<Longrightarrow> \<not> starts_with (drop j s) p"
proof (induction s p arbitrary: j rule: find_sub.induct)
  case (1 p) then show ?case by (cases p) (auto split: if_splits)
next
  case (2 c cs p) then show ?case by (cases j) (auto split: if_splits)
qed

text \<open>The loop of \<open>find_hls_attribute_start\<close>; the target ends in an equals sign.\<close>

function find_attribute_from :: "string \<Rightarrow> string \<Rightarrow> nat \<Rightarrow> nat option" where
  "find_attribute_from line attr search_start =
     (case find_sub (drop search_start (upper line)) (attr @ ''='') of
        None \<Rightarrow> None
      | Some relative_index \<Rightarrow>
          let index = search_start + relative_index
          in if index = 0 \<or> line ! (index - 1) = CHR '','' then Some index
             else find_attribute_from line attr (index + length (attr @ ''='')))"
  by pat_completeness auto
termination
  by (relation "measure (\<lambda>(line, attr, i). length line - i)") (auto dest!: find_sub_Some simp: upper_def)

declare find_attribute_from.simps [simp del]

definition find_hls_attribute_start :: "string \<Rightarrow> string \<Rightarrow> nat option" where
  "find_hls_attribute_start line attr = find_attribute_from line attr 0"

definition set_hls_boolean_attribute :: "string \<Rightarrow> string \<Rightarrow> bool \<Rightarrow> string" where
  "set_hls_boolean_attribute line attr enabled =
     (case find_hls_attribute_start line attr of
        None \<Rightarrow> line @ '','' @ attr @ ''='' @ (if enabled then ''YES'' else ''NO'')
      | Some start \<Rightarrow>
          let value_start = start + length attr + 1;
              value_end = value_start + length (takeWhile (\<lambda>c. c \<noteq> CHR '','') (drop value_start line))
          in take value_start line @ (if enabled then ''YES'' else ''NO'') @ drop value_end line)"

definition hls_line_is_audio_media :: "string \<Rightarrow> bool" where
  "hls_line_is_audio_media line \<longleftrightarrow> starts_with (lower line) ''#ext-x-media:'' \<and> contains (lower line) ''type=audio''"

definition hls_media_line_looks_english :: "string \<Rightarrow> bool" where
  "hls_media_line_looks_english line \<longleftrightarrow>
     list_ex (contains (lower line))
       [''language=\"eng\"'', ''language=eng'', ''language=\"en\"'', ''language=en'', ''name=\"english\"'', ''name=english'']"

definition prefer_english_hls_audio_defaults :: "string list \<Rightarrow> string list" where
  "prefer_english_hls_audio_defaults ls =
     (if list_ex (\<lambda>l. hls_line_is_audio_media l \<and> hls_media_line_looks_english l) ls
      then map (\<lambda>l. if \<not> hls_line_is_audio_media l then l
                    else let e = hls_media_line_looks_english l
                         in set_hls_boolean_attribute (set_hls_boolean_attribute l ''DEFAULT'' e) ''AUTOSELECT'' e) ls
      else ls)"


section \<open>Addresses of a playlist\<close>

definition resolve_hls_uri :: "live_env \<Rightarrow> web_url \<Rightarrow> string \<Rightarrow> string option" where
  "resolve_hls_uri env base_url v =
     (if trim v = [] then None else map_option wu_text (lv_join env base_url (trim v)))"

definition rewrite_hls_uri_attribute ::
  "live_env \<Rightarrow> web_url \<Rightarrow> string \<Rightarrow> (string \<Rightarrow> string) \<Rightarrow> string" where
  "rewrite_hls_uri_attribute env base_url line proxy_url_builder =
     (case find_sub line ''URI=\"'' of
        None \<Rightarrow> line
      | Some uri_start \<Rightarrow>
          let value_start = uri_start + 5
          in case find_sub (drop value_start line) ''\"'' of
               None \<Rightarrow> line
             | Some relative_end \<Rightarrow>
                 let value_end = value_start + relative_end
                 in case resolve_hls_uri env base_url (take relative_end (drop value_start line)) of
                      None \<Rightarrow> line
                    | Some absolute_uri \<Rightarrow> take value_start line @ proxy_url_builder absolute_uri @ drop value_end line)"

definition should_omit_hls_resource_referer :: "live_env \<Rightarrow> web_url \<Rightarrow> string \<Rightarrow> string option \<Rightarrow> bool" where
  "should_omit_hls_resource_referer env base_url input referer \<longleftrightarrow>
     (case Option.bind (Option.bind referer (lv_parse env)) url_host of
        None \<Rightarrow> False
      | Some h \<Rightarrow>
          lower h = ''vidlink.pro'' \<and>
          (case (Option.bind (lv_parse env input) url_host, url_host base_url) of
             (Some resource_host, Some base_host) \<Rightarrow> lower resource_host \<noteq> lower base_host
           | _ \<Rightarrow> False))"

definition live_hls_resource_referer_for_url :: "live_env \<Rightarrow> web_url \<Rightarrow> string \<Rightarrow> string option \<Rightarrow> string option" where
  "live_hls_resource_referer_for_url env base_url input referer =
     (if should_omit_hls_resource_referer env base_url input referer then None else referer)"

definition tag_vod_resource_url :: "string \<Rightarrow> string" where
  "tag_vod_resource_url url = (if starts_with url ''/api/live/hls-resource'' then url @ ''&vod=1'' else url)"

text \<open>
  What a rewrite is about; the closures of the three rewriters take it and an absolute
  address. \<open>rw_legacy\<close> is the deployment switch \<open>live_hls_emit_legacy_signature\<close>.
\<close>

record rewrite_target =
  rw_base_url :: web_url
  rw_referer :: "string option"
  rw_context :: "live_hls_signing_context option"
  rw_direct_segments :: bool
  rw_legacy :: bool

definition direct_or :: "live_env \<Rightarrow> rewrite_target \<Rightarrow> (string \<Rightarrow> string) \<Rightarrow> string \<Rightarrow> string" where
  "direct_or env rw proxied input =
     (case direct_hls_url_if_eligible env input (rw_direct_segments rw) of Some direct \<Rightarrow> direct | None \<Rightarrow> proxied input)"

definition proxied_playlist :: "live_env \<Rightarrow> rewrite_target \<Rightarrow> string \<Rightarrow> string" where
  "proxied_playlist env rw input =
     live_hls_proxy_playlist_url_with_trust env (rw_legacy rw) input (rw_referer rw) (rw_context rw)"

definition proxied_master_resource :: "live_env \<Rightarrow> rewrite_target \<Rightarrow> string \<Rightarrow> string" where
  "proxied_master_resource env rw input =
     live_hls_proxy_resource_url_with_trust env (rw_legacy rw) input (rw_referer rw) (rw_context rw)"

definition proxied_resource :: "live_env \<Rightarrow> rewrite_target \<Rightarrow> string \<Rightarrow> string" where
  "proxied_resource env rw input =
     live_hls_proxy_resource_url_with_trust env (rw_legacy rw) input
       (live_hls_resource_referer_for_url env (rw_base_url rw) input (rw_referer rw)) (rw_context rw)"

definition proxied_vod_resource :: "live_env \<Rightarrow> rewrite_target \<Rightarrow> string \<Rightarrow> string" where
  "proxied_vod_resource env rw input = tag_vod_resource_url (proxied_resource env rw input)"

text \<open>An address line: the absolute address through the closure, or itself.\<close>

definition rewrite_address :: "live_env \<Rightarrow> rewrite_target \<Rightarrow> (string \<Rightarrow> string) \<Rightarrow> string \<Rightarrow> string" where
  "rewrite_address env rw proxied line =
     (case resolve_hls_uri env (rw_base_url rw) line of Some absolute \<Rightarrow> direct_or env rw proxied absolute | None \<Rightarrow> line)"

definition rewrite_tag :: "live_env \<Rightarrow> rewrite_target \<Rightarrow> (string \<Rightarrow> string) \<Rightarrow> string \<Rightarrow> string" where
  "rewrite_tag env rw proxied line = rewrite_hls_uri_attribute env (rw_base_url rw) line (direct_or env rw proxied)"

section \<open>Master playlists\<close>

definition stream_inf_resolution_height :: "string \<Rightarrow> int option" where
  "stream_inf_resolution_height line =
     (case find_sub (upper line) ''RESOLUTION='' of
        None \<Rightarrow> None
      | Some i \<Rightarrow>
          let v = takeWhile (\<lambda>c. c \<notin> {CHR '','', CHR '' '', CHR 0x09}) (drop (i + 11) (upper line))
          in case split_once CHR ''X'' v of None \<Rightarrow> None | Some (_, height) \<Rightarrow> parse_u32 (trim height))"

definition MAX_HEIGHT :: int where "MAX_HEIGHT = 1080"

definition exceeds_max_height :: "string \<Rightarrow> bool" where
  "exceeds_max_height line \<longleftrightarrow> (case stream_inf_resolution_height line of None \<Rightarrow> False | Some h \<Rightarrow> h > MAX_HEIGHT)"

definition is_stream_inf :: "string \<Rightarrow> bool" where
  "is_stream_inf line \<longleftrightarrow> starts_with (trim_start line) ''#EXT-X-STREAM-INF''"

definition is_i_frame_stream_inf :: "string \<Rightarrow> bool" where
  "is_i_frame_stream_inf line \<longleftrightarrow> starts_with (trim_start line) ''#EXT-X-I-FRAME-STREAM-INF''"

fun cap_lines :: "bool \<Rightarrow> string list \<Rightarrow> string list" where
  "cap_lines drop_next_uri [] = []"
| "cap_lines drop_next_uri (line # ls) =
     (if is_stream_inf line then
        (if exceeds_max_height line then cap_lines True ls else line # cap_lines False ls)
      else if is_i_frame_stream_inf line then
        (if exceeds_max_height line then cap_lines drop_next_uri ls else line # cap_lines drop_next_uri ls)
      else if drop_next_uri \<and> trim_start line \<noteq> [] \<and> \<not> starts_with (trim_start line) ''#''
      then cap_lines False ls
      else line # cap_lines False ls)"

definition cap_external_embed_master_to_1080p :: "string list \<Rightarrow> string list" where
  "cap_external_embed_master_to_1080p ls =
     (if list_ex (\<lambda>l. is_stream_inf l \<and> \<not> exceeds_max_height l) ls then cap_lines False ls else ls)"

text \<open>The attributes between commas outside quotes; \<open>current\<close> is reversed.\<close>

fun split_attributes :: "bool \<Rightarrow> string \<Rightarrow> string \<Rightarrow> string list" where
  "split_attributes in_quotes current [] = (if current = [] then [] else [rev current])"
| "split_attributes in_quotes current (c # cs) =
     (if c = CHR 0x22 then split_attributes (\<not> in_quotes) (c # current) cs
      else if c = CHR '','' \<and> \<not> in_quotes then rev current # split_attributes in_quotes [] cs
      else split_attributes in_quotes (c # current) cs)"

definition remove_stream_inf_codecs_attribute :: "string \<Rightarrow> string" where
  "remove_stream_inf_codecs_attribute line =
     (case split_once CHR '':'' line of
        None \<Rightarrow> line
      | Some (tag, attributes) \<Rightarrow>
          tag @ '':'' @ join_commas (filter (\<lambda>a. \<not> starts_with (upper (trim_start a)) ''CODECS='') (split_attributes False [] attributes)))"

definition strip_video_only_stream_inf_codecs :: "string \<Rightarrow> string" where
  "strip_video_only_stream_inf_codecs line =
     (if \<not> is_stream_inf line then line
      else if \<not> contains (lower line) ''codecs='' then line
      else if list_ex (contains (lower line)) [''mp4a'', ''ac-3'', ''ec-3'', ''opus'', ''flac'', ''alac'', ''dts''] then line
      else remove_stream_inf_codecs_attribute line)"

definition hls_url_looks_like_vixsrc :: "web_url \<Rightarrow> bool" where
  "hls_url_looks_like_vixsrc url \<longleftrightarrow> (case url_host url of None \<Rightarrow> False | Some h \<Rightarrow> host_in ''vixsrc.to'' (lower h))"

definition should_prefer_english_hls_audio :: "live_env \<Rightarrow> web_url \<Rightarrow> string option \<Rightarrow> bool" where
  "should_prefer_english_hls_audio env base_url referer \<longleftrightarrow>
     hls_url_looks_like_vixsrc base_url \<or>
     (case Option.bind referer (lv_parse env) of None \<Rightarrow> False | Some url \<Rightarrow> hls_url_looks_like_vixsrc url)"

definition is_uncapped_referer :: "string option \<Rightarrow> bool" where
  "is_uncapped_referer referer \<longleftrightarrow>
     referer \<in> {Some ''https://cinejoy.pk/'', Some ''https://cinejoy.to/'', Some ''https://www.movy.bz/''}"

definition rewrite_master_line :: "live_env \<Rightarrow> rewrite_target \<Rightarrow> string \<Rightarrow> string" where
  "rewrite_master_line env rw raw_line =
     (let line = trim_end raw_line
      in if trim line = [] then line
         else if starts_with line ''#'' then
           strip_video_only_stream_inf_codecs
             (rewrite_tag env rw
                (if starts_with line ''#EXT-X-MEDIA:'' \<or> starts_with line ''#EXT-X-I-FRAME-STREAM-INF:''
                 then proxied_playlist env rw else proxied_master_resource env rw) line)
         else rewrite_address env rw (proxied_playlist env rw) line)"

definition rewrite_live_hls_master_playlist :: "live_env \<Rightarrow> rewrite_target \<Rightarrow> string list \<Rightarrow> string list" where
  "rewrite_live_hls_master_playlist env rw ls =
     (let capped = (if rw_context rw \<noteq> None \<and> \<not> rw_direct_segments rw \<and> \<not> is_uncapped_referer (rw_referer rw)
                    then cap_external_embed_master_to_1080p ls else ls);
          rewritten = map (rewrite_master_line env rw) capped
      in if should_prefer_english_hls_audio env (rw_base_url rw) (rw_referer rw)
         then prefer_english_hls_audio_defaults rewritten else rewritten)"

section \<open>Media playlists\<close>

definition rewrite_vod_line :: "live_env \<Rightarrow> rewrite_target \<Rightarrow> string \<Rightarrow> string" where
  "rewrite_vod_line env rw raw_line =
     (let line = trim_end raw_line
      in if trim line = [] then line
         else if starts_with line ''#'' then rewrite_tag env rw (proxied_vod_resource env rw) line
         else rewrite_address env rw (proxied_vod_resource env rw) line)"

definition rewrite_vod_hls_media_playlist :: "live_env \<Rightarrow> rewrite_target \<Rightarrow> string list \<Rightarrow> string list" where
  "rewrite_vod_hls_media_playlist env rw ls = map (rewrite_vod_line env rw) ls"

definition LIVE_HLS_EDGE_SEGMENT_COUNT :: nat where "LIVE_HLS_EDGE_SEGMENT_COUNT = 8"
definition LIVE_HLS_START_OFFSET_SECONDS :: rat where "LIVE_HLS_START_OFFSET_SECONDS = 18"
definition LIVE_HLS_START_OFFSET_MIN_SECONDS :: rat where "LIVE_HLS_START_OFFSET_MIN_SECONDS = 2"

text \<open>The variables of the loop; a segment is its block of lines with its duration.\<close>

record media_scan =
  ms_header :: "string list"
  ms_pending_block :: "string list"
  ms_pending_duration :: f64
  ms_segments :: "(string list \<times> f64) list"
  ms_media_sequence :: int
  ms_saw_segment :: bool

definition media_scan_start :: media_scan where
  "media_scan_start = \<lparr>ms_header = [], ms_pending_block = [], ms_pending_duration = Fin 0, ms_segments = [],
     ms_media_sequence = 0, ms_saw_segment = False\<rparr>"

definition extinf_duration :: "string \<Rightarrow> f64" where
  "extinf_duration v = (case parse_f64 (trim (hd (split_on CHR '','' v))) of None \<Rightarrow> Fin 0 | Some d \<Rightarrow> d)"

definition belongs_to_segment :: "string \<Rightarrow> bool" where
  "belongs_to_segment line \<longleftrightarrow>
     list_ex (starts_with line) [''#EXTINF'', ''#EXT-X-KEY'', ''#EXT-X-MAP'', ''#EXT-X-PROGRAM-DATE-TIME'', ''#EXT-X-DISCONTINUITY'']"

definition media_tag :: "live_env \<Rightarrow> rewrite_target \<Rightarrow> string \<Rightarrow> media_scan \<Rightarrow> media_scan" where
  "media_tag env rw line st =
     (let st = (case strip_prefix ''#EXTINF:'' line of
                  None \<Rightarrow> st | Some v \<Rightarrow> st\<lparr>ms_pending_duration := extinf_duration v\<rparr>);
          rewritten = rewrite_tag env rw (proxied_resource env rw) line
      in if \<not> ms_saw_segment st \<and> \<not> belongs_to_segment line
         then st\<lparr>ms_header := ms_header st @ [rewritten]\<rparr>
         else st\<lparr>ms_pending_block := ms_pending_block st @ [rewritten]\<rparr>)"

definition media_address :: "live_env \<Rightarrow> rewrite_target \<Rightarrow> string \<Rightarrow> media_scan \<Rightarrow> media_scan" where
  "media_address env rw line st =
     st\<lparr>ms_saw_segment := True,
        ms_segments := ms_segments st @ [(ms_pending_block st @ [rewrite_address env rw (proxied_resource env rw) line], ms_pending_duration st)],
        ms_pending_block := [], ms_pending_duration := Fin 0\<rparr>"

definition media_line :: "live_env \<Rightarrow> rewrite_target \<Rightarrow> string \<Rightarrow> media_scan \<Rightarrow> media_scan" where
  "media_line env rw raw_line st =
     (let line = trim_end raw_line
      in if trim line = [] then st
         else case strip_prefix ''#EXT-X-MEDIA-SEQUENCE:'' line of
           Some v \<Rightarrow> st\<lparr>ms_media_sequence := (case parse_i64 (trim v) of None \<Rightarrow> 0 | Some n \<Rightarrow> n)\<rparr>
         | None \<Rightarrow>
             if starts_with line ''#EXT-X-ENDLIST'' then st
             else if starts_with line ''#'' then media_tag env rw line st
             else media_address env rw line st)"

text \<open>The start position, when the kept window is long enough for one.\<close>

definition start_tag :: "(string list \<times> f64) list \<Rightarrow> string list" where
  "start_tag kept =
     (case f64_min LIVE_HLS_START_OFFSET_SECONDS (f64_half (fold (\<lambda>b acc. f64_add acc (snd b)) kept (Fin 0))) of
        Fin q \<Rightarrow> if q \<ge> LIVE_HLS_START_OFFSET_MIN_SECONDS
                 then [''#EXT-X-START:TIME-OFFSET=-'' @ show_millis q @ '',PRECISE=NO''] else []
      | _ \<Rightarrow> [])"

definition wrapping_add64 :: "int \<Rightarrow> int \<Rightarrow> int" where
  "wrapping_add64 x y = (x + y + 2 ^ 63) mod 2 ^ 64 - 2 ^ 63"

definition render_window :: "media_scan \<Rightarrow> string list" where
  "render_window st =
     (let header = (if ''#EXTM3U'' \<in> set (ms_header st) then ms_header st else ''#EXTM3U'' # ms_header st);
          dropped = length (ms_segments st) - LIVE_HLS_EDGE_SEGMENT_COUNT;
          kept = drop dropped (ms_segments st)
      in header @ start_tag kept @
         [''#EXT-X-MEDIA-SEQUENCE:'' @ show_int (wrapping_add64 (ms_media_sequence st) (int dropped))] @
         concat (map fst kept))"

definition is_vod_marker :: "string \<Rightarrow> bool" where
  "is_vod_marker line \<longleftrightarrow> lower (trim line) = ''#ext-x-endlist'' \<or> lower (trim line) = ''#ext-x-playlist-type:vod''"

definition rewrite_live_hls_media_playlist :: "live_env \<Rightarrow> rewrite_target \<Rightarrow> string list \<Rightarrow> string list" where
  "rewrite_live_hls_media_playlist env rw ls =
     (if list_ex is_vod_marker ls then rewrite_vod_hls_media_playlist env rw ls
      else let st = fold (media_line env rw) ls media_scan_start
           in if ms_segments st = [] then ls else render_window st)"

text \<open>The lines of the rewritten text, which is kept when it is no playlist.\<close>

definition rewritten_lines :: "live_env \<Rightarrow> rewrite_target \<Rightarrow> string \<Rightarrow> string list option" where
  "rewritten_lines env rw playlist =
     (let ls = str_lines playlist
      in if list_ex is_stream_inf ls then Some (rewrite_live_hls_master_playlist env rw ls)
         else if list_ex (\<lambda>l. starts_with (trim_start l) ''#EXTINF'') ls then Some (rewrite_live_hls_media_playlist env rw ls)
         else None)"

definition rewrite_live_hls_playlist :: "live_env \<Rightarrow> rewrite_target \<Rightarrow> string \<Rightarrow> string" where
  "rewrite_live_hls_playlist env rw playlist =
     (case rewritten_lines env rw playlist of None \<Rightarrow> playlist | Some ls \<Rightarrow> join_lines ls)"


section \<open>The search for an attribute\<close>

lemma attribute_overlap:
  assumes "CHR ''='' \<notin> set attr" and "starts_with (drop i u) (attr @ ''='')" and "starts_with (drop j u) (attr @ ''='')" and "i < j"
  shows "i + length (attr @ ''='') \<le> j"
proof (rule ccontr)
  assume n: "\<not> ?thesis"
  define d where "d = j - i"
  have d: "j = i + d" "0 < d" "d \<le> length attr" using assms(4) n by (auto simp: d_def)
  obtain r s where r: "drop i u = attr @ ''='' @ r" and s: "drop j u = attr @ ''='' @ s"
    using assms(2,3) by (auto simp: starts_with_iff)
  have e: "drop d (attr @ ''='' @ r) = attr @ ''='' @ s" using s unfolding d(1) r [symmetric] by (simp add: add.commute)
  have "drop d (attr @ ''='' @ r) ! (length attr - d) = CHR ''=''" using d by (simp add: nth_append)
  moreover have "length attr - d < length attr" using d by linarith
  then have "(attr @ ''='' @ s) ! (length attr - d) \<in> set attr" by (simp add: nth_append)
  ultimately show False using assms(1) unfolding e by simp
qed

lemma attribute_at_less: "attribute_at line attr i \<Longrightarrow> i < length line"
proof (rule ccontr)
  assume "attribute_at line attr i" "\<not> i < length line"
  then have "starts_with [] (attr @ ''='')" by (simp add: attribute_at_def upper_def)
  then show False by (auto simp: starts_with_iff)
qed

lemma find_attribute_from_spec:
  assumes "CHR ''='' \<notin> set attr"
  shows "(case find_attribute_from line attr s of
            None \<Rightarrow> \<forall>j \<ge> s. \<not> attribute_at line attr j
          | Some i \<Rightarrow> s \<le> i \<and> attribute_at line attr i \<and> (\<forall>j. s \<le> j \<and> j < i \<longrightarrow> \<not> attribute_at line attr j))"
  using assms
proof (induction line attr s rule: find_attribute_from.induct)
  case (1 line attr s)
  let ?t = "attr @ ''=''"
  show ?case
  proof (cases "find_sub (drop s (upper line)) ?t")
    case None
    have "\<not> attribute_at line attr j" if "s \<le> j" for j
      using find_sub_None [OF None, of "j - s"] that by (simp add: attribute_at_def)
    with None show ?thesis by (subst find_attribute_from.simps) simp
  next
    case (Some rel)
    let ?i = "s + rel"
    from find_sub_Some [OF Some] have at: "starts_with (drop ?i (upper line)) ?t"
      and before: "\<And>k. k < rel \<Longrightarrow> \<not> starts_with (drop (s + k) (upper line)) ?t"
      by (auto simp: add.commute)
    have none: "\<not> attribute_at line attr j" if "s \<le> j" "j < ?i" for j
      using before [of "j - s"] that by (auto simp: attribute_at_def)
    show ?thesis
    proof (cases "?i = 0 \<or> line ! (?i - 1) = CHR '',''")
      case True
      with Some at none show ?thesis by (subst find_attribute_from.simps) (auto simp: attribute_at_def)
    next
      case False
      have not_i: "\<not> attribute_at line attr ?i" using False by (simp add: attribute_at_def)
      have gap: "\<not> attribute_at line attr j" if "?i < j" "j < ?i + length ?t" for j
        using attribute_overlap [OF 1(2) at _ that(1)] that(2) by (auto simp: attribute_at_def)
      have skip: "\<not> attribute_at line attr j" if "s \<le> j" "j < ?i + length ?t" for j
        using none [OF that(1)] not_i gap [of j] that(2) by (cases "j < ?i"; cases "j = ?i") auto
      have eq: "find_attribute_from line attr s = find_attribute_from line attr (?i + length ?t)"
        by (subst find_attribute_from.simps) (simp only: Some option.case Let_def False if_False)
      have beyond: "Suc (s + rel + length attr) \<le> j" if "attribute_at line attr j" "s \<le> j" for j
        using skip [OF that(2)] that(1) by (cases "j < ?i + length ?t") auto
      from 1(1) [OF Some refl False 1(2)] show ?thesis
        unfolding eq by (auto split: option.splits dest: beyond)
    qed
  qed
qed

lemma find_upt:
  assumes "case r of None \<Rightarrow> \<forall>j. \<not> P j | Some i \<Rightarrow> P i \<and> (\<forall>j < i. \<not> P j)" and "\<And>i. P i \<Longrightarrow> i < n"
  shows "find P [0..<n] = r"
proof (cases r)
  case None
  with assms show ?thesis by (auto simp: find_None_iff)
next
  case (Some i)
  with assms have p: "P i" "i < n" "\<And>j. j < i \<Longrightarrow> \<not> P j" by auto
  have "\<exists>k < length [0..<n]. P ([0..<n] ! k) \<and> i = [0..<n] ! k \<and> (\<forall>j < k. \<not> P ([0..<n] ! j))"
    using p by (intro exI [of _ i]) simp
  with Some show ?thesis by (simp add: find_Some_iff)
qed

text \<open>
  The search for an attribute of a tag. The loop, which jumps behind each occurrence of
  the name it rejects, finds the same place as trying every position of the line from the
  left: the first one where the name and an equals sign stand, whatever their case, at the
  start of the line or right after a comma.
\<close>

theorem find_hls_attribute_start_is_first:
  assumes "CHR ''='' \<notin> set attr"
  shows "find_hls_attribute_start line attr = find (attribute_at line attr) [0..<length line]"
  using find_attribute_from_spec [OF assms, where line = line and s = 0] attribute_at_less
  by (intro find_upt [symmetric]) (auto simp: find_hls_attribute_start_def split: option.splits)

theorem find_hls_attribute_start_is_first_witness:
  "find_hls_attribute_start ''#EXT-X-MEDIA:TYPE=AUDIO,NAME=XDEFAULT=,default=NO'' ''DEFAULT'' = Some 39"
proof -
  have "find_hls_attribute_start ''#EXT-X-MEDIA:TYPE=AUDIO,NAME=XDEFAULT=,default=NO'' ''DEFAULT'' =
      find (attribute_at ''#EXT-X-MEDIA:TYPE=AUDIO,NAME=XDEFAULT=,default=NO'' ''DEFAULT'')
        [0..<length ''#EXT-X-MEDIA:TYPE=AUDIO,NAME=XDEFAULT=,default=NO'']"
    by (rule find_hls_attribute_start_is_first) simp
  also have "\<dots> = Some 39" by code_simp
  finally show ?thesis .
qed


section \<open>The window of a live playlist\<close>

definition is_address_line :: "string \<Rightarrow> bool" where
  "is_address_line raw \<longleftrightarrow> trim (trim_end raw) \<noteq> [] \<and> \<not> starts_with (trim_end raw) ''#''"

definition playlist_addresses :: "string list \<Rightarrow> string list" where
  "playlist_addresses ls = map trim_end (filter is_address_line ls)"

definition announced_media_sequence :: "string list \<Rightarrow> int \<Rightarrow> int" where
  "announced_media_sequence = fold (\<lambda>raw n. case strip_prefix ''#EXT-X-MEDIA-SEQUENCE:'' (trim_end raw) of
     Some v \<Rightarrow> (case parse_i64 (trim v) of None \<Rightarrow> 0 | Some n \<Rightarrow> n) | None \<Rightarrow> n)"

lemma take_hash: "starts_with l ''#'' \<Longrightarrow> 0 < n \<Longrightarrow> starts_with (take n l @ x) ''#''"
  by (cases l; cases n) auto

lemma trim_blank: "trim l = [] \<longleftrightarrow> list_all is_whitespace l"
proof -
  have "dropWhile is_whitespace (rev (dropWhile is_whitespace l)) = [] \<longleftrightarrow> list_all is_whitespace l"
    by (auto simp: dropWhile_eq_Nil_conv list_all_iff dest: set_dropWhileD)
       (metis set_takeWhileD takeWhile_dropWhile_id Un_iff set_append)
  then show ?thesis by (simp add: trim_def trim_end_def trim_start_def)
qed

lemma blank_no_hash: "trim l = [] \<Longrightarrow> \<not> starts_with l (CHR ''#'' # p)"
  by (cases l) (auto simp: trim_blank is_whitespace_def)

lemma rewrite_attribute_hash:
  assumes "starts_with line ''#''"
  shows "starts_with (rewrite_hls_uri_attribute env base line f) ''#''"
  using assms by (auto simp: rewrite_hls_uri_attribute_def Let_def take_hash split: option.split)

definition tags_only :: "string list \<Rightarrow> bool" where
  "tags_only ls \<longleftrightarrow> (\<forall>l \<in> set ls. starts_with l ''#'')"

lemma tags_only_simps [simp]:
  "tags_only []" "tags_only (l # ls) \<longleftrightarrow> starts_with l ''#'' \<and> tags_only ls" "tags_only (ls @ ms) \<longleftrightarrow> tags_only ls \<and> tags_only ms"
  by (auto simp: tags_only_def)

text \<open>The loop keeps: blocks are tags and then one address; header and pending lines are tags.\<close>

definition scan_ok :: "media_scan \<Rightarrow> bool" where
  "scan_ok st \<longleftrightarrow> tags_only (ms_header st) \<and> tags_only (ms_pending_block st) \<and>
     (\<forall>b \<in> set (map fst (ms_segments st)). b \<noteq> [] \<and> tags_only (butlast b))"

lemma playlist_addresses_Cons: "playlist_addresses (raw # ls) = playlist_addresses [raw] @ playlist_addresses ls"
  by (simp add: playlist_addresses_def)

lemma announced_Cons: "announced_media_sequence (raw # ls) n = announced_media_sequence ls (announced_media_sequence [raw] n)"
  by (simp add: announced_media_sequence_def)

lemma media_line_spec:
  assumes "scan_ok st"
  shows "scan_ok (media_line env rw raw st) \<and>
    map (last \<circ> fst) (ms_segments (media_line env rw raw st)) =
      map (last \<circ> fst) (ms_segments st) @ map (rewrite_address env rw (proxied_resource env rw)) (playlist_addresses [raw]) \<and>
    ms_media_sequence (media_line env rw raw st) = announced_media_sequence [raw] (ms_media_sequence st)"
proof -
  let ?l = "trim_end raw"
  consider (blank) "trim ?l = []" | (seq) v where "trim ?l \<noteq> []" "strip_prefix ''#EXT-X-MEDIA-SEQUENCE:'' ?l = Some v"
    | (endlist) "trim ?l \<noteq> []" "strip_prefix ''#EXT-X-MEDIA-SEQUENCE:'' ?l = None" "starts_with ?l ''#EXT-X-ENDLIST''"
    | (tag) "trim ?l \<noteq> []" "strip_prefix ''#EXT-X-MEDIA-SEQUENCE:'' ?l = None" "\<not> starts_with ?l ''#EXT-X-ENDLIST''" "starts_with ?l ''#''"
    | (address) "trim ?l \<noteq> []" "strip_prefix ''#EXT-X-MEDIA-SEQUENCE:'' ?l = None" "\<not> starts_with ?l ''#EXT-X-ENDLIST''" "\<not> starts_with ?l ''#''"
    by (cases "strip_prefix ''#EXT-X-MEDIA-SEQUENCE:'' ?l") blast+
  then show ?thesis
  proof cases
    case blank
    have "strip_prefix ''#EXT-X-MEDIA-SEQUENCE:'' ?l = None"
      using blank_no_hash [OF blank] by (simp add: strip_prefix_def)
    with blank assms show ?thesis
      by (simp add: media_line_def playlist_addresses_def is_address_line_def announced_media_sequence_def)
  next
    case seq
    then have "starts_with ?l ''#''" by simp
    with seq assms show ?thesis
      by (simp add: media_line_def playlist_addresses_def is_address_line_def announced_media_sequence_def scan_ok_def Let_def del: strip_prefix_Some)
  next
    case endlist
    then have "starts_with ?l ''#''" by (auto simp: starts_with_iff)
    with endlist assms show ?thesis
      by (simp add: media_line_def playlist_addresses_def is_address_line_def announced_media_sequence_def Let_def)
  next
    case tag
    have "starts_with (rewrite_tag env rw (proxied_resource env rw) ?l) ''#''"
      unfolding rewrite_tag_def by (rule rewrite_attribute_hash [OF tag(4)])
    with tag assms show ?thesis
      by (simp add: media_line_def media_tag_def playlist_addresses_def is_address_line_def announced_media_sequence_def
          scan_ok_def Let_def split: option.split)
  next
    case address
    with assms show ?thesis
      by (auto simp: media_line_def media_address_def playlist_addresses_def is_address_line_def announced_media_sequence_def
          scan_ok_def Let_def)
  qed
qed

lemma media_scan_spec:
  assumes "scan_ok st"
  shows "scan_ok (fold (media_line env rw) ls st) \<and>
    map (last \<circ> fst) (ms_segments (fold (media_line env rw) ls st)) =
      map (last \<circ> fst) (ms_segments st) @ map (rewrite_address env rw (proxied_resource env rw)) (playlist_addresses ls) \<and>
    ms_media_sequence (fold (media_line env rw) ls st) = announced_media_sequence ls (ms_media_sequence st)"
  using assms
proof (induction ls arbitrary: st)
  case Nil
  then show ?case by (simp add: playlist_addresses_def announced_media_sequence_def)
next
  case (Cons raw ls)
  note step = media_line_spec [OF Cons.prems, of env rw raw]
  from Cons.IH [OF step [THEN conjunct1]] step show ?case
    unfolding playlist_addresses_Cons [of raw ls] announced_Cons [of raw ls] by (simp only: fold_simps append_assoc map_append)
qed

lemma scan_start_ok [simp]: "scan_ok media_scan_start"
  by (simp add: scan_ok_def media_scan_start_def)


lemma live_window:
  assumes "\<not> list_ex is_vod_marker ls" and "playlist_addresses ls \<noteq> []"
  shows "\<exists>header blocks.
    rewrite_live_hls_media_playlist env rw ls = header @
      [''#EXT-X-MEDIA-SEQUENCE:'' @ show_int (wrapping_add64 (announced_media_sequence ls 0) (int (length (playlist_addresses ls) - 8)))] @
      concat blocks \<and>
    [] \<notin> set blocks \<and> tags_only header \<and> tags_only (concat (map butlast blocks)) \<and>
    map last blocks = map (rewrite_address env rw (proxied_resource env rw))
      (drop (length (playlist_addresses ls) - 8) (playlist_addresses ls))"
proof -
  define st where "st = fold (media_line env rw) ls media_scan_start"
  have spec: "scan_ok st" "map (last \<circ> fst) (ms_segments st) = map (rewrite_address env rw (proxied_resource env rw)) (playlist_addresses ls)"
    "ms_media_sequence st = announced_media_sequence ls 0"
    using media_scan_spec [OF scan_start_ok, of env rw ls] by (simp_all add: st_def media_scan_start_def)
  have n: "length (ms_segments st) = length (playlist_addresses ls)" using arg_cong [OF spec(2), of length] by simp
  let ?d = "length (playlist_addresses ls) - 8"
  define blocks where "blocks = map fst (drop ?d (ms_segments st))"
  define header where "header = (if ''#EXTM3U'' \<in> set (ms_header st) then ms_header st else ''#EXTM3U'' # ms_header st) @ start_tag (drop ?d (ms_segments st))"
  have "rewrite_live_hls_media_playlist env rw ls = render_window st"
    using assms n by (auto simp: rewrite_live_hls_media_playlist_def st_def [symmetric] Let_def)
  then have out: "rewrite_live_hls_media_playlist env rw ls = header @
      [''#EXT-X-MEDIA-SEQUENCE:'' @ show_int (wrapping_add64 (announced_media_sequence ls 0) (int ?d))] @ concat blocks"
    by (simp add: render_window_def header_def blocks_def Let_def n spec(3) LIVE_HLS_EDGE_SEGMENT_COUNT_def)
  have ok: "b \<noteq> [] \<and> tags_only (butlast b)" if "b \<in> set blocks" for b
    using spec(1) that by (auto simp: scan_ok_def blocks_def dest: in_set_dropD)
  have "tags_only header"
    using spec(1) by (auto simp: header_def scan_ok_def start_tag_def split: f64.split)
  moreover have "tags_only (concat (map butlast blocks))"
    using ok by (auto simp: tags_only_def)
  moreover have "map last blocks = map (rewrite_address env rw (proxied_resource env rw)) (drop ?d (playlist_addresses ls))"
    using arg_cong [OF spec(2), of "drop ?d"] by (simp add: blocks_def drop_map comp_def)
  ultimately show ?thesis using out ok by blast
qed

text \<open>
  What is kept of a live playlist. The proxy sends the player the last eight segments, or
  all when there are fewer: their addresses in order, each preceded by its own tags, and
  every other line is a tag. The media sequence number grows by the number of segments left
  out, so that a segment keeps its number from one poll to the next.
\<close>

theorem live_window_is_edge:
  assumes "\<not> list_ex is_vod_marker ls" and "playlist_addresses ls \<noteq> []"
  shows "\<exists>header blocks.
    rewrite_live_hls_media_playlist env rw ls = header @
      [''#EXT-X-MEDIA-SEQUENCE:'' @ show_int (wrapping_add64 (announced_media_sequence ls 0) (int (length (playlist_addresses ls) - 8)))] @
      concat blocks \<and>
    [] \<notin> set blocks \<and> tags_only header \<and> tags_only (concat (map butlast blocks)) \<and>
    map last blocks = map (rewrite_address env rw (proxied_resource env rw))
      (drop (length (playlist_addresses ls) - 8) (playlist_addresses ls))"
  by (rule live_window [OF assms])

section \<open>Where the addresses of a playlist lead\<close>

definition proxied_address :: "live_env \<Rightarrow> rewrite_target \<Rightarrow> string \<Rightarrow> bool" where
  "proxied_address env rw a \<longleftrightarrow> (\<exists>input referer.
     a = live_hls_proxy_playlist_url_with_trust env (rw_legacy rw) input referer (rw_context rw) \<or>
     a = live_hls_proxy_resource_url_with_trust env (rw_legacy rw) input referer (rw_context rw) \<or>
     a = tag_vod_resource_url (live_hls_proxy_resource_url_with_trust env (rw_legacy rw) input referer (rw_context rw)))"

definition direct_address :: "live_env \<Rightarrow> rewrite_target \<Rightarrow> string \<Rightarrow> bool" where
  "direct_address env rw a \<longleftrightarrow> direct_hls_url_if_eligible env a (rw_direct_segments rw) = Some a"

lemma proxied_addressI:
  "proxied_address env rw (proxied_playlist env rw input)" "proxied_address env rw (proxied_master_resource env rw input)"
  "proxied_address env rw (proxied_resource env rw input)" "proxied_address env rw (proxied_vod_resource env rw input)"
  unfolding proxied_address_def proxied_playlist_def proxied_master_resource_def proxied_vod_resource_def proxied_resource_def
  by blast+

definition leads_home :: "live_env \<Rightarrow> rewrite_target \<Rightarrow> (string \<Rightarrow> string) \<Rightarrow> bool" where
  "leads_home env rw f \<longleftrightarrow> (\<forall>input. proxied_address env rw (f input))"

lemma leads_homeI [simp, intro]:
  "leads_home env rw (proxied_playlist env rw)" "leads_home env rw (proxied_master_resource env rw)"
  "leads_home env rw (proxied_resource env rw)" "leads_home env rw (proxied_vod_resource env rw)"
  by (simp_all add: leads_home_def proxied_addressI)

lemma direct_or_cases:
  assumes "leads_home env rw f"
  shows "proxied_address env rw (direct_or env rw f a) \<or> direct_address env rw (direct_or env rw f a)"
proof (cases "direct_hls_url_if_eligible env a (rw_direct_segments rw)")
  case None
  with assms show ?thesis by (simp add: direct_or_def leads_home_def)
next
  case (Some d)
  then have "d = a" by (auto simp: direct_hls_url_if_eligible_def split: if_splits option.splits)
  with Some show ?thesis by (simp add: direct_or_def direct_address_def)
qed

text \<open>A tag that names an address: what stands in the quotes afterwards.\<close>

lemma rewrite_tag_cases:
  assumes "leads_home env rw f"
  shows "rewrite_tag env rw f line = line \<or>
    (\<exists>pre a post. rewrite_tag env rw f line = pre @ ''URI=\"'' @ a @ ''\"'' @ post \<and> (proxied_address env rw a \<or> direct_address env rw a))"
proof (cases "find_sub line ''URI=\"''")
  case None
  then show ?thesis by (simp add: rewrite_tag_def rewrite_hls_uri_attribute_def)
next
  case (Some i)
  then have u: "starts_with (drop i line) ''URI=\"''" by (auto dest: find_sub_Some)
  show ?thesis
  proof (cases "find_sub (drop (i + 5) line) ''\"''")
    case None
    with Some show ?thesis by (simp add: rewrite_tag_def rewrite_hls_uri_attribute_def Let_def)
  next
    case (Some j)
    then have q: "starts_with (drop (i + 5 + j) line) ''\"''" by (auto dest!: find_sub_Some simp: add.commute add.left_commute)
    from u obtain r where r: "drop i line = ''URI=\"'' @ r" by (auto simp: starts_with_iff)
    from q obtain t where t: "drop (i + 5 + j) line = ''\"'' @ t" by (auto simp: starts_with_iff)
    have tk: "take (i + 5) line = take i line @ ''URI=\"''" by (simp only: take_add r) simp
    show ?thesis
    proof (cases "resolve_hls_uri env (rw_base_url rw) (take j (drop (i + 5) line))")
      case None
      with \<open>find_sub line _ = Some i\<close> Some show ?thesis by (simp add: rewrite_tag_def rewrite_hls_uri_attribute_def Let_def)
    next
      case (Some absolute)
      then have "rewrite_tag env rw f line = take i line @ ''URI=\"'' @ direct_or env rw f absolute @ ''\"'' @ t"
        using \<open>find_sub line _ = Some i\<close> \<open>find_sub (drop (i + 5) line) _ = Some j\<close>
        by (simp add: rewrite_tag_def rewrite_hls_uri_attribute_def Let_def tk t)
      then show ?thesis using direct_or_cases [OF assms] by blast
    qed
  qed
qed

definition confined_line :: "live_env \<Rightarrow> rewrite_target \<Rightarrow> string list \<Rightarrow> string \<Rightarrow> bool" where
  "confined_line env rw ls l \<longleftrightarrow> trim l = [] \<or> starts_with l ''#'' \<or> proxied_address env rw l \<or> direct_address env rw l \<or>
     (l \<in> trim_end ` set ls \<and> resolve_hls_uri env (rw_base_url rw) l = None)"

lemma rewrite_address_confined:
  assumes "leads_home env rw f" and "raw \<in> set ls"
  shows "confined_line env rw ls (rewrite_address env rw f (trim_end raw))"
  using direct_or_cases [OF assms(1)] assms(2)
  by (auto simp: rewrite_address_def confined_line_def split: option.split)

lemma trim_end_idem [simp]: "trim_end (trim_end s) = trim_end s"
  unfolding trim_end_def by (simp add: dropWhile_idem)

lemma remove_codecs_hash: "starts_with l ''#'' \<Longrightarrow> starts_with (remove_stream_inf_codecs_attribute l) ''#''"
  by (cases l) (auto simp: remove_stream_inf_codecs_attribute_def split: option.split)

lemma strip_codecs_hash: "starts_with l ''#'' \<Longrightarrow> starts_with (strip_video_only_stream_inf_codecs l) ''#''"
  by (simp add: strip_video_only_stream_inf_codecs_def remove_codecs_hash)

lemma set_attribute_hash: "starts_with l ''#'' \<Longrightarrow> starts_with (set_hls_boolean_attribute l attr e) ''#''"
proof -
  assume h: "starts_with l ''#''"
  then have "starts_with (l @ x) ''#''" for x by (auto simp: starts_with_iff)
  with h show ?thesis by (auto simp: set_hls_boolean_attribute_def Let_def take_hash split: option.split)
qed

lemma lower_char_hash [simp]: "lower_char c = CHR ''#'' \<longleftrightarrow> c = CHR ''#''"
  by (auto simp: lower_char_def is_ascii_upper_def dest: arg_cong [where f = "of_char :: char \<Rightarrow> nat"])

lemma audio_media_hash: "hls_line_is_audio_media l \<Longrightarrow> starts_with l ''#''"
  by (cases l) (auto simp: hls_line_is_audio_media_def lower_def)

lemma prefer_english_confined:
  assumes "\<And>l. l \<in> set ms \<Longrightarrow> confined_line env rw ls l" and "l \<in> set (prefer_english_hls_audio_defaults ms)"
  shows "confined_line env rw ls l"
proof (cases "l \<in> set ms")
  case False
  with assms(2) obtain m where "hls_line_is_audio_media m" "l = set_hls_boolean_attribute (set_hls_boolean_attribute m ''DEFAULT''
      (hls_media_line_looks_english m)) ''AUTOSELECT'' (hls_media_line_looks_english m)"
    by (auto simp: prefer_english_hls_audio_defaults_def Let_def split: if_splits)
  then have "starts_with l ''#''" by (simp add: audio_media_hash set_attribute_hash)
  then show ?thesis by (simp add: confined_line_def)
qed (rule assms(1))

lemma cap_lines_subset: "set (cap_lines b ls) \<subseteq> set ls"
  by (induction ls arbitrary: b) (simp_all add: subset_insertI2 insert_mono)

lemma master_line_confined: "raw \<in> set ls \<Longrightarrow> confined_line env rw ls (rewrite_master_line env rw raw)"
proof -
  assume raw: "raw \<in> set ls"
  consider (blank) "trim (trim_end raw) = []" | (tag) "trim (trim_end raw) \<noteq> []" "starts_with (trim_end raw) ''#''"
    | (address) "trim (trim_end raw) \<noteq> []" "\<not> starts_with (trim_end raw) ''#''" by blast
  then show ?thesis
  proof cases
    case tag
    then have "starts_with (rewrite_master_line env rw raw) ''#''"
      by (simp add: rewrite_master_line_def rewrite_tag_def strip_codecs_hash rewrite_attribute_hash Let_def)
    then show ?thesis by (simp add: confined_line_def)
  next
    case address
    then have "rewrite_master_line env rw raw = rewrite_address env rw (proxied_playlist env rw) (trim_end raw)"
      by (simp add: rewrite_master_line_def Let_def)
    then show ?thesis using rewrite_address_confined [OF leads_homeI(1) raw] by simp
  qed (simp add: rewrite_master_line_def confined_line_def Let_def)
qed

lemma vod_line_confined: "raw \<in> set ls \<Longrightarrow> confined_line env rw ls (rewrite_vod_line env rw raw)"
proof -
  assume raw: "raw \<in> set ls"
  consider (blank) "trim (trim_end raw) = []" | (tag) "trim (trim_end raw) \<noteq> []" "starts_with (trim_end raw) ''#''"
    | (address) "trim (trim_end raw) \<noteq> []" "\<not> starts_with (trim_end raw) ''#''" by blast
  then show ?thesis
  proof cases
    case tag
    then have "starts_with (rewrite_vod_line env rw raw) ''#''"
      by (simp add: rewrite_vod_line_def rewrite_tag_def rewrite_attribute_hash Let_def)
    then show ?thesis by (simp add: confined_line_def)
  next
    case address
    then have "rewrite_vod_line env rw raw = rewrite_address env rw (proxied_vod_resource env rw) (trim_end raw)"
      by (simp add: rewrite_vod_line_def Let_def)
    then show ?thesis using rewrite_address_confined [OF leads_homeI(4) raw] by simp
  qed (simp add: rewrite_vod_line_def confined_line_def Let_def)
qed


lemma trim_trim_end [simp]: "trim (trim_end s) = [] \<longleftrightarrow> trim s = []"
proof -
  have "list_all is_whitespace (trim_end s) \<longleftrightarrow> list_all is_whitespace s"
    by (auto simp: trim_end_def list_all_iff dest: set_dropWhileD)
       (metis Un_iff set_append set_rev set_takeWhileD takeWhile_dropWhile_id)
  then show ?thesis by (simp add: trim_blank)
qed

lemma trim_end_hash: "starts_with (trim_end s) ''#'' \<Longrightarrow> starts_with s ''#''"
proof -
  assume h: "starts_with (trim_end s) ''#''"
  have "s = trim_end s @ rev (takeWhile is_whitespace (rev s))"
    unfolding trim_end_def by (metis rev_append rev_rev_ident takeWhile_dropWhile_id)
  with h show ?thesis by (metis append_assoc starts_with_iff)
qed

text \<open>
  C33: a rewritten playlist leads back to the server. Every line of a master, live or
  recorded playlist that is neither blank nor a tag is an address minted with the signing
  context of the request, or, where the request asked for direct segments, an address of a
  host that serves browsers itself, or a line of the upstream playlist that is no address.
\<close>

theorem rewritten_playlist_leads_home:
  assumes "rewritten_lines env rw playlist = Some out" and "l \<in> set out"
  shows "confined_line env rw (str_lines playlist) l"
proof -
  let ?ls = "str_lines playlist"
  consider (master) "out = rewrite_live_hls_master_playlist env rw ?ls" | (media) "out = rewrite_live_hls_media_playlist env rw ?ls"
    using assms(1) by (auto simp: rewritten_lines_def Let_def split: if_splits)
  then show ?thesis
  proof cases
    case master
    define capped where "capped = (if rw_context rw \<noteq> None \<and> \<not> rw_direct_segments rw \<and> \<not> is_uncapped_referer (rw_referer rw)
      then cap_external_embed_master_to_1080p ?ls else ?ls)"
    have "set capped \<subseteq> set ?ls" using cap_lines_subset by (auto simp: capped_def cap_external_embed_master_to_1080p_def)
    then have lines: "confined_line env rw ?ls m" if "m \<in> set (map (rewrite_master_line env rw) capped)" for m
      using that master_line_confined by auto
    have "out = (if should_prefer_english_hls_audio env (rw_base_url rw) (rw_referer rw)
        then prefer_english_hls_audio_defaults (map (rewrite_master_line env rw) capped) else map (rewrite_master_line env rw) capped)"
      by (simp only: master rewrite_live_hls_master_playlist_def capped_def Let_def)
    with assms(2) consider "l \<in> set (map (rewrite_master_line env rw) capped)"
      | "l \<in> set (prefer_english_hls_audio_defaults (map (rewrite_master_line env rw) capped))" by (simp only: split: if_splits)
    then show ?thesis
      by cases (rule lines, assumption, rule prefer_english_confined [OF lines])
  next
    case media
    show ?thesis
    proof (cases "list_ex is_vod_marker ?ls")
      case True
      with assms(2) show ?thesis
        by (auto simp: media rewrite_live_hls_media_playlist_def rewrite_vod_hls_media_playlist_def vod_line_confined)
    next
      case vod: False
      show ?thesis
      proof (cases "playlist_addresses ?ls = []")
        case True
        then have "length (ms_segments (fold (media_line env rw) ?ls media_scan_start)) = 0"
          using media_scan_spec [OF scan_start_ok, of env rw ?ls] by (simp add: media_scan_start_def)
        then have "out = ?ls" using vod by (simp add: media rewrite_live_hls_media_playlist_def)
        with assms(2) True have "\<not> is_address_line l" by (auto simp: playlist_addresses_def filter_empty_conv)
        then show ?thesis by (auto simp: is_address_line_def confined_line_def dest: trim_end_hash)
      next
        case False
        from live_window [OF vod False, of env rw] obtain header blocks where w:
          "out = header @ [''#EXT-X-MEDIA-SEQUENCE:'' @ show_int (wrapping_add64 (announced_media_sequence ?ls 0)
             (int (length (playlist_addresses ?ls) - 8)))] @ concat blocks"
          "[] \<notin> set blocks" "tags_only header" "tags_only (concat (map butlast blocks))"
          "map last blocks = map (rewrite_address env rw (proxied_resource env rw))
             (drop (length (playlist_addresses ?ls) - 8) (playlist_addresses ?ls))"
          unfolding media by blast
        from assms(2) consider (tag) "starts_with l ''#''" | (block) b where "b \<in> set blocks" "l \<in> set b"
          using w(1,3) by (auto simp: tags_only_def)
        then show ?thesis
        proof cases
          case block
          with w(2) have "set b = insert (last b) (set (butlast b))" by (metis append_butlast_last_id list.simps(15) rotate1.simps(2) set_rotate1)
          with block consider (inner) "l \<in> set (butlast b)" | (address) "l = last b" by auto
          then show ?thesis
          proof cases
            case inner
            with block(1) w(4) have "starts_with l ''#''" by (auto simp: tags_only_def)
            then show ?thesis by (simp add: confined_line_def)
          next
            case address
            with block(1) have "l \<in> set (map last blocks)" by auto
            then have "l \<in> rewrite_address env rw (proxied_resource env rw) ` trim_end ` set ?ls"
              unfolding w(5) by (auto simp: playlist_addresses_def dest!: in_set_dropD)
            then show ?thesis by (auto intro!: rewrite_address_confined)
          qed
        qed (simp add: confined_line_def)
      qed
    qed
  qed
qed


section \<open>Concrete playlists\<close>

definition sample_playlist_env :: live_env where
  "sample_playlist_env = sample_live_env\<lparr>lv_join := (\<lambda>base s. if starts_with s '':'' then None else Some (base\<lparr>wu_text := ''https://cdn.example/'' @ s\<rparr>))\<rparr>"

definition sample_target :: rewrite_target where
  "sample_target = \<lparr>rw_base_url = the (lv_parse sample_live_env ''https://cdn.example/i''), rw_referer = None,
     rw_context = Some \<lparr>sc_secret = ''secret'', sc_expires_at = 1200, sc_private_session_binding = None\<rparr>,
     rw_direct_segments = False, rw_legacy = False\<rparr>"

definition sample_live_lines :: "string list" where
  "sample_live_lines = [''#EXTM3U'', ''#EXT-X-MEDIA-SEQUENCE:7'', ''#EXT-X-MAP:URI=\"i'', ''#EXTINF:4,'', ''a'', ''b'', ''c'', ''d'', ''e'', ''f'', ''g'', ''h'', ''k'']"

theorem live_window_is_edge_witness:
  "\<exists>header blocks. rewrite_live_hls_media_playlist sample_playlist_env sample_target sample_live_lines =
     header @ [''#EXT-X-MEDIA-SEQUENCE:8''] @ concat blocks \<and>
   map last blocks = map (rewrite_address sample_playlist_env sample_target (proxied_resource sample_playlist_env sample_target))
     [''b'', ''c'', ''d'', ''e'', ''f'', ''g'', ''h'', ''k'']"
proof -
  have v: "\<not> list_ex is_vod_marker sample_live_lines" by code_simp
  have a: "playlist_addresses sample_live_lines = [''a'', ''b'', ''c'', ''d'', ''e'', ''f'', ''g'', ''h'', ''k'']" by code_simp
  have s: "''#EXT-X-MEDIA-SEQUENCE:'' @ show_int (wrapping_add64 (announced_media_sequence sample_live_lines 0)
     (int (length [''a'', ''b'', ''c'', ''d'', ''e'', ''f'', ''g'', ''h'', ''k''] - 8))) = ''#EXT-X-MEDIA-SEQUENCE:8''" by code_simp
  have d: "drop (length [''a'', ''b'', ''c'', ''d'', ''e'', ''f'', ''g'', ''h'', ''k''] - 8) [''a'', ''b'', ''c'', ''d'', ''e'', ''f'', ''g'', ''h'', ''k''] =
     [''b'', ''c'', ''d'', ''e'', ''f'', ''g'', ''h'', ''k'']" by simp
  from live_window_is_edge [OF v, of sample_playlist_env sample_target, unfolded a, unfolded s d] show ?thesis by blast
qed

theorem rewritten_playlist_leads_home_witness:
  "\<exists>out. rewritten_lines sample_playlist_env sample_target (''#EXTM3U'' @ CHR 0x0A # ''#EXT-X-STREAM-INF:RESOLUTION=2x720'' @ CHR 0x0A # ''v'') = Some out \<and>
     confined_line sample_playlist_env sample_target
       (str_lines (''#EXTM3U'' @ CHR 0x0A # ''#EXT-X-STREAM-INF:RESOLUTION=2x720'' @ CHR 0x0A # ''v'')) (last out)"
proof -
  let ?p = "''#EXTM3U'' @ CHR 0x0A # ''#EXT-X-STREAM-INF:RESOLUTION=2x720'' @ CHR 0x0A # ''v''"
  have "(case rewritten_lines sample_playlist_env sample_target ?p of None \<Rightarrow> False | Some out \<Rightarrow> out \<noteq> [])" by code_simp
  then obtain out where o: "rewritten_lines sample_playlist_env sample_target ?p = Some out" "out \<noteq> []"
    by (auto split: option.splits)
  from rewritten_playlist_leads_home [OF o(1)] o show ?thesis by auto
qed

text \<open>
  The tags that say how the segments after them are decoded (\<open>EXT-X-MAP\<close>, \<open>EXT-X-KEY\<close>) are
  kept with the segment they precede and leave the window with it.
\<close>

lemma init_section_leaves_with_its_segment:
  "list_ex (\<lambda>l. starts_with l ''#EXT-X-MAP'') sample_live_lines \<and>
   \<not> list_ex (\<lambda>l. starts_with l ''#EXT-X-MAP'') (rewrite_live_hls_media_playlist sample_playlist_env (sample_target\<lparr>rw_context := None\<rparr>) sample_live_lines)"
  by code_simp

text \<open>An attribute that stands first in its tag is not found, and is written a second time.\<close>

lemma leading_attribute_written_twice:
  "set_hls_boolean_attribute ''#EXT-X-MEDIA:DEFAULT=YES,TYPE=AUDIO'' ''DEFAULT'' False = ''#EXT-X-MEDIA:DEFAULT=YES,TYPE=AUDIO,DEFAULT=NO''"
  by code_simp

end
