(* ===== verification/UploadNaming.thy ===== *)
theory UploadNaming
  imports Library StaticFiles LivePlaylists Normalize
begin

text \<open>
  The pure part of \<open>src/upload.rs\<close>: what an upload says of itself, the names and identities made
  from it, whether a browser plays the result, and which addresses may be saved to the gallery.
  The clock, the random suffix, the URL parser and the printing of JSON floats are arguments.
\<close>

section \<open>Fields of a payload\<close>

definition json_i64 :: "json \<Rightarrow> int option" where
  "json_i64 v = (case as_i64 v of Some n \<Rightarrow> Some n | None \<Rightarrow> Option.bind (as_str v) parse_i64)"

text \<open>The cast of a float saturates.\<close>

definition json_u64_value :: "json \<Rightarrow> int option" where
  "json_u64_value v =
     (case as_u64 v of
        Some n \<Rightarrow> Some n
      | None \<Rightarrow>
          (case as_f64 v of
             None \<Rightarrow> None
           | Some x \<Rightarrow> if 0 \<le> x \<and> of_int (floor x) = x then Some (min (2 ^ 64 - 1) (floor x)) else None))"

fun json_string :: "(rat \<Rightarrow> string) \<Rightarrow> json \<Rightarrow> string" where
  "json_string show_float (JStr t) = t"
| "json_string show_float (JInt n) = show_int n"
| "json_string show_float (JFloat x) = show_float x"
| "json_string show_float (JBool b) = (if b then ''true'' else ''false'')"
| "json_string show_float _ = []"

text \<open>\<open>normalize_whitespace(payload.get(k).and_then(as_str).unwrap_or(d))\<close>\<close>

definition upload_text_field :: "string \<Rightarrow> string \<Rightarrow> json \<Rightarrow> string" where
  "upload_text_field k d v = normalize_whitespace (case Option.bind (json_get k v) as_str of Some t \<Rightarrow> t | None \<Rightarrow> d)"

definition ordinal_of :: "string \<Rightarrow> json \<Rightarrow> int" where
  "ordinal_of k v = normalize_upload_episode_ordinal (case Option.bind (json_get k v) json_i64 of Some n \<Rightarrow> n | None \<Rightarrow> 1) 1"

section \<open>Extensions\<close>

text \<open>\<open>Path::new(name).extension()\<close>, in lower case with its dot.\<close>

definition detect_upload_extension :: "string \<Rightarrow> string option" where
  "detect_upload_extension file_name =
     (let p = path_components file_name
      in if p \<noteq> [] \<and> last p = ''..'' then None else map_option (\<lambda>e. CHR ''.'' # lower e) (extension p))"

definition validate_upload_extension :: "string \<Rightarrow> unit app_result" where
  "validate_upload_extension file_name =
     (if detect_upload_extension file_name \<in> {Some ''.mp4'', Some ''.mkv''} then Inr ()
      else Inl (bad_request ''Only .mp4 and .mkv files are supported.''))"

definition strip_known_video_extensions :: "string \<Rightarrow> string" where
  "strip_known_video_extensions v =
     (if detect_upload_extension v \<in> {Some ''.mp4'', Some ''.mkv''} then strip_file_extension v else trim v)"

section \<open>Names\<close>

definition build_asset_video_source :: "string \<Rightarrow> string" where
  "build_asset_video_source file_name = ''assets/videos/'' @ trim file_name"

definition build_upload_movie_id :: "string \<Rightarrow> string" where
  "build_upload_movie_id title = ''local-movie-'' @ slugify title ''movie''"

definition build_upload_series_id :: "string \<Rightarrow> string" where
  "build_upload_series_id v = ''local-series-'' @ slugify v ''series''"

definition build_upload_course_id :: "string \<Rightarrow> string" where
  "build_upload_course_id v = ''local-course-'' @ slugify v ''course''"

definition normalize_upload_target_series_id :: "string \<Rightarrow> string \<Rightarrow> bool \<Rightarrow> string" where
  "normalize_upload_target_series_id raw_series_id fallback_label is_course_content =
     (let explicit_id = lower (normalize_whitespace raw_series_id);
          build = (if is_course_content then build_upload_course_id else build_upload_series_id)
      in if explicit_id \<noteq> []
         then if starts_with explicit_id ''local-course-'' \<or> starts_with explicit_id ''local-series-'' then explicit_id
              else build explicit_id
         else build fallback_label)"

definition stamped :: "string \<Rightarrow> int \<Rightarrow> string \<Rightarrow> string \<Rightarrow> string" where
  "stamped base now rnd ext = base @ ''-'' @ show_int now @ ''-'' @ rnd @ ext"

definition build_unique_mp4_filename :: "string \<Rightarrow> int \<Rightarrow> string \<Rightarrow> string" where
  "build_unique_mp4_filename base_label now rnd =
     stamped (slugify (strip_known_video_extensions base_label) ''upload'') now rnd ''.mp4''"

definition GALLERY_ALLOWED_VIDEO_EXTENSIONS :: "string list" where
  "GALLERY_ALLOWED_VIDEO_EXTENSIONS = [''.mp4'', ''.mkv'', ''.m4v'', ''.webm'', ''.mov'', ''.avi'', ''.ts'']"

definition normalize_gallery_video_extension :: "string \<Rightarrow> string" where
  "normalize_gallery_video_extension v =
     (let normalized = lower (trim v) in if normalized \<in> set GALLERY_ALLOWED_VIDEO_EXTENSIONS then normalized else [])"

definition build_unique_video_filename :: "string \<Rightarrow> string \<Rightarrow> int \<Rightarrow> string \<Rightarrow> string" where
  "build_unique_video_filename base_label ext now rnd =
     stamped (slugify (strip_known_video_extensions base_label) ''gallery'') now rnd
       (if_empty_then (normalize_gallery_video_extension ext) ''.mp4'')"

definition build_upload_temp_filename :: "string \<Rightarrow> int \<Rightarrow> string \<Rightarrow> string" where
  "build_upload_temp_filename original_name now rnd =
     stamped (slugify (strip_known_video_extensions original_name) ''upload'') now rnd
       (if detect_upload_extension original_name = Some ''.mp4'' then ''.mp4''
        else if detect_upload_extension original_name = Some ''.mkv'' then ''.mkv'' else ''.bin'')"

definition generate_upload_session_id :: "int \<Rightarrow> string \<Rightarrow> string" where
  "generate_upload_session_id now rnd = show_int now @ ''-'' @ rnd"

section \<open>What an upload says of itself\<close>

record upload_metadata =
  um_content_type :: string
  um_title :: string
  um_year :: string
  um_description :: string
  um_thumb :: string
  um_tmdb_id :: string
  um_season_number :: int
  um_episode_number :: int
  um_episode_title :: string
  um_series_title :: string
  um_series_id :: string
  um_transcode_audio_to_aac :: bool

definition wants_transcode :: "json option \<Rightarrow> bool" where
  "wants_transcode v \<longleftrightarrow>
     v = Some (JBool True) \<or> Option.bind v as_i64 = Some 1 \<or>
     (case Option.bind v as_str of Some t \<Rightarrow> lower (trim t) \<in> {''true'', ''1'', ''yes'', ''on''} | None \<Rightarrow> False)"

definition upload_content_type :: "json \<Rightarrow> string" where
  "upload_content_type payload =
     (let raw_series_id = upload_text_field ''seriesId'' [] payload;
          raw = normalize_upload_content_type (case Option.bind (json_get ''contentType'' payload) as_str of Some t \<Rightarrow> t | None \<Rightarrow> ''movie'')
      in if raw = ''movie'' \<and> raw_series_id \<noteq> []
         then if starts_with (lower raw_series_id) ''local-course-'' then ''course'' else ''episode''
         else raw)"

definition build_upload_metadata_from_map :: "(rat \<Rightarrow> string) \<Rightarrow> json \<Rightarrow> upload_metadata" where
  "build_upload_metadata_from_map show_float payload =
     \<lparr>um_content_type = upload_content_type payload,
      um_title = upload_text_field ''title'' [] payload,
      um_year = normalize_year (str_field ''year'' payload),
      um_description = upload_text_field ''description'' [] payload,
      um_thumb = upload_text_field ''thumb'' DEFAULT_THUMB payload,
      um_tmdb_id = normalize_tmdb_id (filter is_ascii_digit
        (case json_get ''tmdbId'' payload of Some v \<Rightarrow> json_string show_float v | None \<Rightarrow> [])),
      um_season_number = ordinal_of ''seasonNumber'' payload,
      um_episode_number = ordinal_of ''episodeNumber'' payload,
      um_episode_title = upload_text_field ''episodeTitle'' [] payload,
      um_series_title = upload_text_field ''seriesTitle'' [] payload,
      um_series_id = upload_text_field ''seriesId'' [] payload,
      um_transcode_audio_to_aac = wants_transcode (json_get ''transcodeAudioToAac'' payload)\<rparr>"

section \<open>What a browser plays\<close>

text \<open>The fields of \<open>MediaProbe\<close> and \<open>AudioTrack\<close> (\<open>src/media.rs\<close>) an upload looks at.\<close>

record audio_track =
  at_stream_index :: int
  at_language :: string
  at_codec :: string

record media_probe =
  mp_format_name :: string
  mp_video_codec :: string
  mp_audio_tracks :: "audio_track list"

record chrome_compatibility =
  cc_checked :: bool
  cc_is_likely_compatible :: bool
  cc_container :: string
  cc_video_codec :: string
  cc_audio_codecs :: "string list"
  cc_reasons :: "string list"
  cc_warning :: string

definition CHROME_SUPPORTED_VIDEO_CODECS :: "string list" where
  "CHROME_SUPPORTED_VIDEO_CODECS =
     [''h264'', ''avc1'', ''hevc'', ''h265'', ''hev1'', ''hvc1'', ''vp8'', ''vp9'', ''av1'', ''mpeg4'', ''theora'']"

definition CHROME_SUPPORTED_AUDIO_CODECS :: "string list" where
  "CHROME_SUPPORTED_AUDIO_CODECS = [''aac'', ''mp3'', ''opus'', ''vorbis'', ''flac'', ''pcm_s16le'', ''pcm_s24le'']"

definition normalize_probe_codec_name :: "string \<Rightarrow> string" where
  "normalize_probe_codec_name v = lower (trim v)"

text \<open>The first of each codec, in order.\<close>

definition push_new :: "string list \<Rightarrow> string \<Rightarrow> string list" where
  "push_new acc codec = (if codec \<in> set acc then acc else acc @ [codec])"

fun join_with :: "string \<Rightarrow> string list \<Rightarrow> string" where
  "join_with sep [] = []"
| "join_with sep [w] = w"
| "join_with sep (w # ws) = w @ sep @ join_with sep ws"

definition detect_chrome_compatibility_from_probe :: "media_probe \<Rightarrow> chrome_compatibility" where
  "detect_chrome_compatibility_from_probe probe =
     (let format_name = lower (trim (mp_format_name probe));
          video_codec = normalize_probe_codec_name (mp_video_codec probe);
          audio_codecs = foldl push_new []
            (filter (\<lambda>c. c \<noteq> []) (map (normalize_probe_codec_name \<circ> at_codec) (mp_audio_tracks probe)));
          unsupported = filter (\<lambda>c. c \<notin> set CHROME_SUPPORTED_AUDIO_CODECS) audio_codecs;
          reasons =
            (if \<not> contains format_name ''mp4''
             then [''Container '' @ [CHR 0x27] @ (if format_name = [] then ''unknown'' else format_name) @ [CHR 0x27] @
                   '' may not be broadly supported in Chrome for this app.''] else []) @
            (if video_codec \<noteq> [] \<and> video_codec \<notin> set CHROME_SUPPORTED_VIDEO_CODECS
             then [''Video codec '' @ [CHR 0x27] @ video_codec @ [CHR 0x27] @ '' is likely not Chrome-compatible.''] else []) @
            (if video_codec = [] then [''Could not determine video codec.''] else []) @
            (if unsupported \<noteq> []
             then [''Audio codec(s) '' @ join_with '', '' (map (\<lambda>c. CHR 0x27 # c @ [CHR 0x27]) unsupported) @
                   '' are likely not Chrome-compatible.''] else [])
      in \<lparr>cc_checked = True, cc_is_likely_compatible = (reasons = []), cc_container = format_name, cc_video_codec = video_codec,
          cc_audio_codecs = audio_codecs, cc_reasons = reasons, cc_warning = join_with '' '' reasons\<rparr>)"

definition detect_chrome_compatibility_for_source :: "(string \<Rightarrow> media_probe option) \<Rightarrow> string \<Rightarrow> chrome_compatibility" where
  "detect_chrome_compatibility_for_source probe_media_tracks source =
     (case probe_media_tracks source of
        Some probe \<Rightarrow> detect_chrome_compatibility_from_probe probe
      | None \<Rightarrow> \<lparr>cc_checked = False, cc_is_likely_compatible = True, cc_container = [], cc_video_codec = [], cc_audio_codecs = [],
                 cc_reasons = [], cc_warning = ''Compatibility check failed.''\<rparr>)"

definition should_attempt_audio_only_upload_transcode :: "chrome_compatibility \<Rightarrow> bool" where
  "should_attempt_audio_only_upload_transcode c \<longleftrightarrow>
     cc_checked c \<and> contains (cc_container c) ''mp4'' \<and>
     \<not> (cc_video_codec c = [] \<or> cc_video_codec c \<notin> set CHROME_SUPPORTED_VIDEO_CODECS) \<and>
     list_ex (\<lambda>a. a \<noteq> [] \<and> a \<notin> set CHROME_SUPPORTED_AUDIO_CODECS) (cc_audio_codecs c)"

section \<open>The gallery\<close>

definition GALLERY_ALLOWED_DOWNLOAD_HOSTS :: "string list" where
  "GALLERY_ALLOWED_DOWNLOAD_HOSTS = [''download.real-debrid.com'', ''real-debrid.com'']"

definition normalize_gallery_media_type :: "string \<Rightarrow> string" where
  "normalize_gallery_media_type v = (if lower (trim v) = ''tv'' then ''tv'' else ''movie'')"

definition normalize_gallery_download_url :: "(string \<Rightarrow> web_url option) \<Rightarrow> string \<Rightarrow> string" where
  "normalize_gallery_download_url parse_url v =
     (let raw = trim (replace_all v [CHR 0x5C, CHR ''/''] ''/'')
      in if raw = [] then []
         else case parse_url raw of
           Some u \<Rightarrow> if url_scheme u \<in> {''http'', ''https''} then wu_text u else []
         | None \<Rightarrow> [])"

definition is_allowed_gallery_download_url :: "(string \<Rightarrow> web_url option) \<Rightarrow> string \<Rightarrow> bool" where
  "is_allowed_gallery_download_url parse_url download_url =
     (case parse_url download_url of
        None \<Rightarrow> False
      | Some u \<Rightarrow>
          url_scheme u = ''https'' \<and>
          (case url_host u of
             None \<Rightarrow> False
           | Some h \<Rightarrow> list_ex (\<lambda>allowed. lower h = allowed \<or> ends_with (lower h) (CHR ''.'' # allowed)) GALLERY_ALLOWED_DOWNLOAD_HOSTS))"

definition infer_gallery_video_extension :: "(string \<Rightarrow> web_url option) \<Rightarrow> string \<Rightarrow> string \<Rightarrow> string" where
  "infer_gallery_video_extension parse_url download_url filename_hint =
     (let from_url = (case Option.bind (parse_url download_url) (\<lambda>u. detect_upload_extension (wu_path u)) of
            Some e \<Rightarrow> normalize_gallery_video_extension e | None \<Rightarrow> []);
          ext = (if from_url = []
                 then (case detect_upload_extension filename_hint of Some e \<Rightarrow> normalize_gallery_video_extension e | None \<Rightarrow> [])
                 else from_url)
      in if_empty_then ext ''.mp4'')"

definition build_gallery_download_job_key :: "string \<Rightarrow> string \<Rightarrow> string \<Rightarrow> string \<Rightarrow> string \<Rightarrow> string" where
  "build_gallery_download_job_key tmdb_id media_type title year playable_url =
     (if trim tmdb_id \<noteq> [] then ''gallery:'' @ normalize_gallery_media_type media_type @ '':'' @ trim tmdb_id
      else ''gallery:url:'' @ slugify (normalize_whitespace title @ ''-'' @ normalize_year year) ''title'' @ '':'' @
           hash_stable_string playable_url)"

end
