(* ===== verification/UploadSessions.thy ===== *)
theory UploadSessions
  imports UploadNaming "HOL-Library.AList"
begin

text \<open>
  Uploads in pieces (\<open>UploadService\<close> of \<open>src/upload.rs\<close>): a session names a temporary file,
  each chunk is appended to it or undone as a whole, and finishing hands the file over once. The
  disk is a list of files; what it refuses is an argument of each operation (\<open>io_faults\<close>),
  as is what the client sends. The lifecycle lock of a session makes each operation on it one step.
\<close>

section \<open>State\<close>

record upload_session =
  us_temp_path :: string
  us_file_name :: string
  us_metadata :: json
  us_expected_bytes :: "nat option"
  us_received_bytes :: nat
  us_last_activity_at :: int

type_synonym files = "(string \<times> string) list"

record upload_service =
  up_sessions :: "(string \<times> upload_session) list"
  up_files :: files
  up_library :: "string option"
  up_gallery_jobs :: "string list"

text \<open>Configuration, and whether \<open>ffmpeg\<close> was found. \<open>uc_undeletable\<close>: files the disk will not remove.\<close>

record upload_config =
  uc_max_upload_bytes :: nat
  uc_upload_temp_dir :: string
  uc_assets_dir :: string
  uc_ffmpeg_available :: bool
  uc_show_float :: "rat \<Rightarrow> string"
  uc_undeletable :: "string \<Rightarrow> bool"

text \<open>A piece of a request body; its write may fail when some bytes of the chunk have reached the file.\<close>

datatype body_item = Bytes string "(nat \<times> string) option" | Body_failed string

datatype stat_fault = Not_a_file | Stat_failed string

record io_faults =
  io_dirs :: "string option"
  io_stat :: "stat_fault option"
  io_open :: "string option"
  io_open_meta :: "string option"
  io_flush :: "(nat \<times> string) option"
  io_rollback_fails :: bool

definition no_faults :: io_faults where
  "no_faults = \<lparr>io_dirs = None, io_stat = None, io_open = None, io_open_meta = None, io_flush = None, io_rollback_fails = False\<rparr>"

definition UPLOAD_SESSION_STALE_MS :: int where "UPLOAD_SESSION_STALE_MS = 6 * 60 * 60 * 1000"
definition UPLOAD_SESSION_CHUNK_MAX_BYTES :: nat where "UPLOAD_SESSION_CHUNK_MAX_BYTES = 32 * 1024 * 1024"

definition join_path :: "string \<Rightarrow> string \<Rightarrow> string" where
  "join_path d n = d @ CHR ''/'' # n"

definition remove_file_if_present :: "upload_config \<Rightarrow> string \<Rightarrow> files \<Rightarrow> files" where
  "remove_file_if_present cfg path files = (if uc_undeletable cfg path then files else AList.delete path files)"

section \<open>Errors\<close>

definition chunk_limit_error :: "nat \<Rightarrow> api_error" where
  "chunk_limit_error max_chunk_bytes =
     payload_too_large (''Chunk payload exceeded the '' @ show_nat (max_chunk_bytes div (1024 * 1024)) @ '' MiB upload limit.'')"

definition session_upload_limit_error :: api_error where
  "session_upload_limit_error = payload_too_large ''Upload exceeded its declared or configured size limit.''"

definition inconsistent_upload_session_error :: api_error where
  "inconsistent_upload_session_error = bad_request ''Upload session data is inconsistent. Retry the file upload.''"

definition total_upload_limit_error :: "nat \<Rightarrow> api_error" where
  "total_upload_limit_error max_upload_bytes =
     payload_too_large (''Upload exceeded the configured '' @ show_nat (max_upload_bytes div (1024 * 1024)) @ '' MiB limit.'')"

definition map_chunk_stream_error :: "string \<Rightarrow> nat \<Rightarrow> api_error" where
  "map_chunk_stream_error m max_chunk_bytes =
     (if contains (lower m) ''length limit exceeded'' then chunk_limit_error max_chunk_bytes
      else bad_request ''Invalid chunk payload.'')"

section \<open>Chunks\<close>

text \<open>The loop over the pieces of a body. On the left the error, with the bytes that had reached the
  file past its initial length; on the right the bytes of the whole chunk.\<close>

fun append_items :: "nat \<Rightarrow> nat \<Rightarrow> nat \<Rightarrow> string \<Rightarrow> body_item list \<Rightarrow> (api_error \<times> string) + string" where
  "append_items max_chunk max_file initial_len w [] = Inr w"
| "append_items max_chunk max_file initial_len w (Body_failed m # items) = Inl (map_chunk_stream_error m max_chunk, w)"
| "append_items max_chunk max_file initial_len w (Bytes b fault # items) =
     (if b = [] then append_items max_chunk max_file initial_len w items
      else let next_written = length w + length b
      in if 2 ^ 64 \<le> next_written then Inl (bad_request ''Invalid chunk payload.'', w)
         else if max_chunk < next_written then Inl (chunk_limit_error max_chunk, w)
         else if 2 ^ 64 \<le> initial_len + next_written then Inl (bad_request ''Invalid chunk payload.'', w)
         else if max_file < initial_len + next_written then Inl (session_upload_limit_error, w)
         else case fault of
             Some (k, e) \<Rightarrow> Inl (internal e, take k (w @ b))
           | None \<Rightarrow> append_items max_chunk max_file initial_len (w @ b) items)"

text \<open>Cutting the file back to its initial length can fail as well.\<close>

definition rollback_partial_chunk :: "io_faults \<Rightarrow> string \<Rightarrow> string \<Rightarrow> string \<Rightarrow> files \<Rightarrow> files" where
  "rollback_partial_chunk io path initial written files =
     AList.update path (if io_rollback_fails io then initial @ written else initial) files"

definition contents_of :: "string \<Rightarrow> files \<Rightarrow> string" where
  "contents_of path files = (case map_of files path of Some b \<Rightarrow> b | None \<Rightarrow> [])"

definition append_request_chunk_to_file ::
  "io_faults \<Rightarrow> string \<Rightarrow> body_item list \<Rightarrow> nat \<Rightarrow> nat \<Rightarrow> files \<Rightarrow> nat app_result \<times> files" where
  "append_request_chunk_to_file io path body max_chunk max_file files =
     (case io_open io of
        Some e \<Rightarrow> (Inl (internal e), files)
      | None \<Rightarrow>
          (let initial = contents_of path files; files = AList.update path initial files
           in case io_open_meta io of
               Some e \<Rightarrow> (Inl (internal e), files)
             | None \<Rightarrow>
                 if max_file < length initial then (Inl session_upload_limit_error, files)
                 else case append_items max_chunk max_file (length initial) [] body of
                     Inl (e, w) \<Rightarrow> (Inl e, rollback_partial_chunk io path initial w files)
                   | Inr w \<Rightarrow>
                       (case io_flush io of
                          Some (k, e) \<Rightarrow> (Inl (internal e), rollback_partial_chunk io path initial (take k w) files)
                        | None \<Rightarrow> (Inr (length w), AList.update path (initial @ w) files))))"

definition upload_temp_file_len :: "io_faults \<Rightarrow> string \<Rightarrow> files \<Rightarrow> nat app_result" where
  "upload_temp_file_len io path files =
     (case io_stat io of
        Some Not_a_file \<Rightarrow> Inl inconsistent_upload_session_error
      | Some (Stat_failed e) \<Rightarrow> Inl (internal e)
      | None \<Rightarrow> Inr (length (contents_of path files)))"

definition ensure_upload_directories :: "io_faults \<Rightarrow> unit app_result" where
  "ensure_upload_directories io = (case io_dirs io of Some e \<Rightarrow> Inl (internal e) | None \<Rightarrow> Inr ())"

definition require_ffmpeg :: "upload_config \<Rightarrow> unit app_result" where
  "require_ffmpeg cfg =
     (if uc_ffmpeg_available cfg then Inr ()
      else Inl (internal ''ffmpeg is required for uploads and container conversion but is unavailable on this machine.''))"

section \<open>Sessions\<close>

definition is_stale :: "int \<Rightarrow> upload_session \<Rightarrow> bool" where
  "is_stale now s \<longleftrightarrow> saturating_add (us_last_activity_at s) UPLOAD_SESSION_STALE_MS \<le> now"

text \<open>A session that is removed takes its file with it.\<close>

definition drop_session :: "upload_config \<Rightarrow> string \<Rightarrow> upload_service \<Rightarrow> upload_service" where
  "drop_session cfg session_id st =
     (case map_of (up_sessions st) session_id of
        None \<Rightarrow> st
      | Some s \<Rightarrow> st\<lparr>up_sessions := AList.delete session_id (up_sessions st),
                     up_files := remove_file_if_present cfg (us_temp_path s) (up_files st)\<rparr>)"

definition sweep_sessions :: "upload_config \<Rightarrow> int \<Rightarrow> upload_service \<Rightarrow> upload_service" where
  "sweep_sessions cfg now st =
     foldl (\<lambda>st session_id. drop_session cfg session_id st) st (map fst (filter (\<lambda>(_, s). is_stale now s) (up_sessions st)))"

definition start_session ::
  "upload_config \<Rightarrow> io_faults \<Rightarrow> int \<Rightarrow> (nat \<Rightarrow> string) \<Rightarrow> json \<Rightarrow> upload_service \<Rightarrow> json app_result \<times> upload_service" where
  "start_session cfg io now rnd payload st =
     (let st = sweep_sessions cfg now st
      in case require_ffmpeg cfg of
          Inl e \<Rightarrow> (Inl e, st)
        | Inr _ \<Rightarrow>
            if \<not> is_object payload then (Inl (bad_request ''Invalid JSON body.''), st)
            else let file_name = normalize_whitespace (str_field ''fileName'' payload)
            in if file_name = [] then (Inl (bad_request ''Missing fileName.''), st)
               else case validate_upload_extension file_name of
                   Inl e \<Rightarrow> (Inl e, st)
                 | Inr _ \<Rightarrow>
                     (let expected = map_option nat (Option.bind (json_get ''fileSize'' payload) json_u64_value)
                      in if expected = Some 0 then (Inl (bad_request ''Uploaded file is empty.''), st)
                         else if (case expected of Some n \<Rightarrow> uc_max_upload_bytes cfg < n | None \<Rightarrow> False)
                         then (Inl (total_upload_limit_error (uc_max_upload_bytes cfg)), st)
                         else case ensure_upload_directories io of
                             Inl e \<Rightarrow> (Inl e, st)
                           | Inr _ \<Rightarrow>
                               (let session_id = generate_upload_session_id now (rnd 0);
                                    temp_path = join_path (uc_upload_temp_dir cfg) (build_upload_temp_filename file_name now (rnd 1))
                                in (Inr (JObj [(''ok'', JBool True), (''sessionId'', JStr session_id)]),
                                    st\<lparr>up_sessions := AList.update session_id
                                      \<lparr>us_temp_path = temp_path, us_file_name = file_name, us_metadata = payload,
                                       us_expected_bytes = expected, us_received_bytes = 0, us_last_activity_at = now\<rparr>
                                      (up_sessions st)\<rparr>))))"

definition max_file_bytes :: "upload_config \<Rightarrow> upload_session \<Rightarrow> nat" where
  "max_file_bytes cfg s = min (case us_expected_bytes s of Some n \<Rightarrow> n | None \<Rightarrow> uc_max_upload_bytes cfg) (uc_max_upload_bytes cfg)"

definition append_to_session ::
  "upload_config \<Rightarrow> io_faults \<Rightarrow> int \<Rightarrow> string \<Rightarrow> body_item list \<Rightarrow> upload_session \<Rightarrow> upload_service \<Rightarrow> json app_result \<times> upload_service" where
  "append_to_session cfg io now session_id body s st =
     (case append_request_chunk_to_file io (us_temp_path s) body UPLOAD_SESSION_CHUNK_MAX_BYTES (max_file_bytes cfg s) (up_files st) of
        (Inl e, files) \<Rightarrow> (Inl e, st\<lparr>up_files := files\<rparr>)
      | (Inr written, files) \<Rightarrow>
          (let st = st\<lparr>up_files := files\<rparr>; next_total = us_received_bytes s + written
           in if written = 0 then (Inl (bad_request ''Empty chunk payload.''), st)
              else if 2 ^ 64 \<le> next_total then (Inl (bad_request ''Invalid chunk payload.''), drop_session cfg session_id st)
              else (Inr (JObj [(''ok'', JBool True), (''receivedBytes'', JInt (int next_total))]),
                    st\<lparr>up_sessions := AList.update session_id
                      (s\<lparr>us_received_bytes := next_total, us_last_activity_at := now\<rparr>) (up_sessions st)\<rparr>)))"

definition append_chunk ::
  "upload_config \<Rightarrow> io_faults \<Rightarrow> int \<Rightarrow> string \<Rightarrow> body_item list \<Rightarrow> upload_service \<Rightarrow> json app_result \<times> upload_service" where
  "append_chunk cfg io now session_id body st =
     (let st = sweep_sessions cfg now st
      in if trim session_id = [] then (Inl (bad_request ''Missing sessionId.''), st)
         else case map_of (up_sessions st) session_id of
             None \<Rightarrow> (Inl (not_found ''Upload session not found.''), st)
           | Some s \<Rightarrow>
               (case ensure_upload_directories io of
                  Inl e \<Rightarrow> (Inl e, st)
                | Inr _ \<Rightarrow>
                    (case upload_temp_file_len io (us_temp_path s) (up_files st) of
                       Inl e \<Rightarrow> (Inl e, drop_session cfg session_id st)
                     | Inr on_disk \<Rightarrow>
                         if on_disk \<noteq> us_received_bytes s
                         then (Inl inconsistent_upload_session_error, drop_session cfg session_id st)
                         else append_to_session cfg io now session_id body s st)))"

text \<open>\<open>finish_session\<close> up to the release of the lock: the session is removed from the table, which
  claims it, or the upload is refused and its file removed.\<close>

definition finish_validation_error :: "upload_config \<Rightarrow> nat \<Rightarrow> upload_session \<Rightarrow> api_error option" where
  "finish_validation_error cfg on_disk s =
     (if on_disk = 0 then Some (bad_request ''Uploaded file is empty.'')
      else if uc_max_upload_bytes cfg < on_disk then Some (total_upload_limit_error (uc_max_upload_bytes cfg))
      else if on_disk \<noteq> us_received_bytes s then Some inconsistent_upload_session_error
      else if (case us_expected_bytes s of Some n \<Rightarrow> on_disk \<noteq> n | None \<Rightarrow> False)
      then Some (bad_request ''Upload is incomplete. Retry the file upload.'')
      else None)"

definition claim_session ::
  "upload_config \<Rightarrow> io_faults \<Rightarrow> int \<Rightarrow> json \<Rightarrow> upload_service \<Rightarrow> upload_session app_result \<times> upload_service" where
  "claim_session cfg io now payload st =
     (let st = sweep_sessions cfg now st
      in if \<not> is_object payload then (Inl (bad_request ''Invalid JSON body.''), st)
         else let session_id = trim (str_field ''sessionId'' payload)
         in if session_id = [] then (Inl (bad_request ''Missing sessionId.''), st)
            else case map_of (up_sessions st) session_id of
                None \<Rightarrow> (Inl (not_found ''Upload session not found.''), st)
              | Some s \<Rightarrow>
                  (case upload_temp_file_len io (us_temp_path s) (up_files st) of
                     Inl e \<Rightarrow> (Inl e, drop_session cfg session_id st)
                   | Inr on_disk \<Rightarrow>
                       (case finish_validation_error cfg on_disk s of
                          Some e \<Rightarrow> (Inl e, drop_session cfg session_id st)
                        | None \<Rightarrow> (Inr s, st\<lparr>up_sessions := AList.delete session_id (up_sessions st)\<rparr>))))"


section \<open>Every byte that was acknowledged, and no other\<close>

fun body_bytes :: "body_item list \<Rightarrow> string" where
  "body_bytes [] = []"
| "body_bytes (Bytes b _ # items) = b @ body_bytes items"
| "body_bytes (Body_failed _ # items) = body_bytes items"

text \<open>The service at work, with the bytes acknowledged to each session so far. New names are fresh,
  which 64 random bits make them, and nothing else writes the files of open sessions.\<close>

inductive uploads :: "upload_config \<Rightarrow> upload_service \<Rightarrow> (string \<Rightarrow> string) \<Rightarrow> bool" for cfg where
  initial: "up_sessions st = [] \<Longrightarrow> uploads cfg st (\<lambda>_. [])"
| started: "uploads cfg st acked \<Longrightarrow> start_session cfg io now rnd payload st = (Inr reply, st') \<Longrightarrow>
    map_of (up_sessions st) (generate_upload_session_id now (rnd 0)) = None \<Longrightarrow>
    path = join_path (uc_upload_temp_dir cfg) (build_upload_temp_filename (normalize_whitespace (str_field ''fileName'' payload)) now (rnd 1)) \<Longrightarrow>
    map_of (up_files st) path = None \<Longrightarrow> path \<notin> us_temp_path ` snd ` set (up_sessions st) \<Longrightarrow>
    uploads cfg st' (acked(generate_upload_session_id now (rnd 0) := []))"
| start_refused: "uploads cfg st acked \<Longrightarrow> start_session cfg io now rnd payload st = (Inl e, st') \<Longrightarrow> uploads cfg st' acked"
| appended: "uploads cfg st acked \<Longrightarrow> append_chunk cfg io now session_id body st = (Inr reply, st') \<Longrightarrow>
    uploads cfg st' (acked(session_id := acked session_id @ body_bytes body))"
| append_refused: "uploads cfg st acked \<Longrightarrow> append_chunk cfg io now session_id body st = (Inl e, st') \<Longrightarrow> uploads cfg st' acked"
| finished: "uploads cfg st acked \<Longrightarrow> claim_session cfg io now payload st = (r, st') \<Longrightarrow> uploads cfg st' acked"
| swept: "uploads cfg st acked \<Longrightarrow> uploads cfg (sweep_sessions cfg now st) acked"
| elsewhere: "uploads cfg st acked \<Longrightarrow> up_sessions st' = up_sessions st \<Longrightarrow>
    (\<And>s. s \<in> snd ` set (up_sessions st) \<Longrightarrow> map_of (up_files st') (us_temp_path s) = map_of (up_files st) (us_temp_path s)) \<Longrightarrow>
    uploads cfg st' acked"

definition session_ok :: "upload_config \<Rightarrow> files \<Rightarrow> string \<Rightarrow> upload_session \<Rightarrow> bool" where
  "session_ok cfg files acked s \<longleftrightarrow>
     (\<exists>junk. contents_of (us_temp_path s) files = acked @ junk) \<and> us_received_bytes s = length acked \<and> length acked \<le> max_file_bytes cfg s"

definition upload_inv :: "upload_config \<Rightarrow> upload_service \<Rightarrow> (string \<Rightarrow> string) \<Rightarrow> bool" where
  "upload_inv cfg st acked \<longleftrightarrow>
     distinct (map fst (up_sessions st)) \<and>
     (\<forall>i s. map_of (up_sessions st) i = Some s \<longrightarrow> session_ok cfg (up_files st) (acked i) s) \<and>
     (\<forall>i j s t. map_of (up_sessions st) i = Some s \<longrightarrow> map_of (up_sessions st) j = Some t \<longrightarrow> us_temp_path s = us_temp_path t \<longrightarrow> i = j)"

lemma contents_update: "contents_of p (AList.update q b files) = (if p = q then b else contents_of p files)"
  by (simp add: contents_of_def update_conv')

lemma contents_remove: "p \<noteq> q \<Longrightarrow> contents_of p (remove_file_if_present cfg q files) = contents_of p files"
  by (simp add: contents_of_def remove_file_if_present_def delete_conv')

lemma drop_sessions: "map_of (up_sessions (drop_session cfg i st)) = (map_of (up_sessions st))(i := None)"
  by (auto simp: drop_session_def delete_conv' split: option.split)

lemma drop_session_inv: "upload_inv cfg st acked \<Longrightarrow> upload_inv cfg (drop_session cfg i st) acked"
proof (cases "map_of (up_sessions st) i")
  case (Some s)
  assume inv: "upload_inv cfg st acked"
  have "contents_of (us_temp_path t) (up_files (drop_session cfg i st)) = contents_of (us_temp_path t) (up_files st)"
    if "map_of (up_sessions st) j = Some t" "j \<noteq> i" for j t
  proof -
    have "us_temp_path t \<noteq> us_temp_path s" using inv that Some unfolding upload_inv_def by metis
    then show ?thesis using Some by (simp add: drop_session_def contents_remove)
  qed
  moreover have "distinct (map fst (up_sessions (drop_session cfg i st)))"
    using inv Some by (simp add: drop_session_def upload_inv_def distinct_delete)
  ultimately show ?thesis using inv by (auto simp: upload_inv_def drop_sessions session_ok_def)
qed (simp add: drop_session_def)

lemma sweep_inv: "upload_inv cfg st acked \<Longrightarrow> upload_inv cfg (sweep_sessions cfg now st) acked"
proof -
  have "upload_inv cfg st acked \<Longrightarrow> upload_inv cfg (foldl (\<lambda>st i. drop_session cfg i st) st is) acked" for "is"
    by (induction "is" arbitrary: st) (auto intro: drop_session_inv)
  then show "upload_inv cfg st acked \<Longrightarrow> ?thesis" by (simp add: sweep_sessions_def)
qed

text \<open>Sweeping only takes away.\<close>

lemma foldl_drop_some:
  "map_of (up_sessions (foldl (\<lambda>st i. drop_session cfg i st) st is)) j = Some s \<Longrightarrow> map_of (up_sessions st) j = Some s"
  by (induction "is" arbitrary: st) (fastforce simp: drop_sessions split: if_splits)+

lemma sweep_some: "map_of (up_sessions (sweep_sessions cfg now st)) j = Some s \<Longrightarrow> map_of (up_sessions st) j = Some s"
  unfolding sweep_sessions_def by (rule foldl_drop_some)

lemma drop_files: "map_of (up_files (drop_session cfg i st)) p = Some b \<Longrightarrow> map_of (up_files st) p = Some b"
  by (auto simp: drop_session_def remove_file_if_present_def delete_conv' split: option.splits if_splits)

lemma sweep_files: "map_of (up_files st) p = None \<Longrightarrow> map_of (up_files (sweep_sessions cfg now st)) p = None"
proof -
  have "map_of (up_files st) p = None \<Longrightarrow> map_of (up_files (foldl (\<lambda>st i. drop_session cfg i st) st is)) p = None" for "is"
  proof (induction "is" arbitrary: st)
    case (Cons i "is")
    have "map_of (up_files (drop_session cfg i st)) p = None"
      using Cons.prems drop_files by (metis not_None_eq)
    then show ?case using Cons.IH by simp
  qed simp
  then show "map_of (up_files st) p = None \<Longrightarrow> ?thesis" by (simp add: sweep_sessions_def)
qed

lemma append_items_whole:
  "append_items mc mf n w body = Inr w' \<Longrightarrow> w' = w @ body_bytes body \<and> (n + length w \<le> mf \<longrightarrow> n + length w' \<le> mf)"
  by (induction mc mf n w body rule: append_items.induct) (auto simp: Let_def split: if_splits option.splits prod.splits)

lemma append_request_effect:
  assumes "append_request_chunk_to_file io path body mc mf files = (r, files')"
  shows "p \<noteq> path \<Longrightarrow> contents_of p files' = contents_of p files"
    and "r = Inr k \<Longrightarrow> contents_of path files' = contents_of path files @ body_bytes body \<and> k = length (body_bytes body) \<and>
      length (contents_of path files @ body_bytes body) \<le> mf"
    and "\<exists>junk. contents_of path files' = contents_of path files @ junk"
proof -
  show "p \<noteq> path \<Longrightarrow> contents_of p files' = contents_of p files"
    using assms by (auto simp: append_request_chunk_to_file_def rollback_partial_chunk_def Let_def contents_update
        split: option.splits if_splits sum.splits prod.splits)
  show "r = Inr k \<Longrightarrow> contents_of path files' = contents_of path files @ body_bytes body \<and> k = length (body_bytes body) \<and>
      length (contents_of path files @ body_bytes body) \<le> mf"
    using assms append_items_whole [of mc mf "length (contents_of path files)" "[]" body]
    by (fastforce simp: append_request_chunk_to_file_def Let_def contents_update
        split: option.splits if_splits sum.splits prod.splits)
  show "\<exists>junk. contents_of path files' = contents_of path files @ junk"
    using assms by (auto simp: append_request_chunk_to_file_def rollback_partial_chunk_def Let_def contents_update
        split: option.splits if_splits sum.splits prod.splits)
qed


lemma inv_same_files:
  assumes "upload_inv cfg st acked" "up_sessions st' = up_sessions st"
    and "\<And>s. s \<in> snd ` set (up_sessions st) \<Longrightarrow> contents_of (us_temp_path s) (up_files st') = contents_of (us_temp_path s) (up_files st)"
  shows "upload_inv cfg st' acked"
proof -
  have "contents_of (us_temp_path s) (up_files st') = contents_of (us_temp_path s) (up_files st)"
    if "map_of (up_sessions st) i = Some s" for i s
    using assms(3) map_of_SomeD [OF that] by force
  then show ?thesis using assms(1,2) unfolding upload_inv_def session_ok_def by (metis (no_types, lifting))
qed

text \<open>Changing one session and its file.\<close>

lemma inv_one_session:
  assumes "upload_inv cfg st acked" and "map_of (up_sessions st) i = Some s" and "us_temp_path s' = us_temp_path s"
    and "\<And>p. p \<noteq> us_temp_path s \<Longrightarrow> contents_of p files' = contents_of p (up_files st)"
    and "session_ok cfg files' a s'"
  shows "upload_inv cfg (st\<lparr>up_files := files', up_sessions := AList.update i s' (up_sessions st)\<rparr>) (acked(i := a))"
proof -
  have other: "us_temp_path t \<noteq> us_temp_path s" if "map_of (up_sessions st) j = Some t" "j \<noteq> i" for j t
    using assms(1,2) that unfolding upload_inv_def by metis
  then have "session_ok cfg files' (acked j) t" if "map_of (up_sessions st) j = Some t" "j \<noteq> i" for j t
    using assms(1,4) that unfolding upload_inv_def session_ok_def by metis
  moreover have "distinct (map fst (AList.update i s' (up_sessions st)))"
    using assms(1) by (simp add: upload_inv_def distinct_update)
  ultimately show ?thesis
    using assms(1,3,5) other unfolding upload_inv_def by (simp add: update_conv') metis
qed

lemma append_to_session_inv:
  assumes "upload_inv cfg st acked" and s: "map_of (up_sessions st) i = Some s"
    and d: "length (contents_of (us_temp_path s) (up_files st)) = us_received_bytes s"
    and r: "append_to_session cfg io now i body s st = (r, st')"
  shows "upload_inv cfg st' (if isl r then acked else acked(i := acked i @ body_bytes body))"
proof -
  have ok: "session_ok cfg (up_files st) (acked i) s" using assms(1) s by (simp add: upload_inv_def)
  then have c: "contents_of (us_temp_path s) (up_files st) = acked i" using d by (auto simp: session_ok_def)
  obtain q files' where q: "append_request_chunk_to_file io (us_temp_path s) body UPLOAD_SESSION_CHUNK_MAX_BYTES
      (max_file_bytes cfg s) (up_files st) = (q, files')" by fastforce
  note e = append_request_effect [OF q]
  have kept: "upload_inv cfg (st\<lparr>up_files := files'\<rparr>) acked"
  proof -
    have "session_ok cfg files' (acked i) s" using e(3) ok c by (auto simp: session_ok_def)
    moreover have "us_temp_path t \<noteq> us_temp_path s" if "map_of (up_sessions st) j = Some t" "j \<noteq> i" for j t
      using assms(1) s that unfolding upload_inv_def by metis
    ultimately have "session_ok cfg files' (acked j) t" if "map_of (up_sessions st) j = Some t" for j t
      using assms(1) s e(1) that unfolding upload_inv_def session_ok_def by (cases "j = i") auto
    then show ?thesis using assms(1) by (simp add: upload_inv_def)
  qed
  show ?thesis
  proof (cases q)
    case (Inl a)
    with r q kept show ?thesis by (auto simp: append_to_session_def)
  next
    case (Inr k)
    note b = e(2) [OF Inr]
    consider "k = 0" | "k \<noteq> 0" "2 ^ 64 \<le> us_received_bytes s + k" | "k \<noteq> 0" "\<not> 2 ^ 64 \<le> us_received_bytes s + k" by blast
    then show ?thesis
    proof cases
      case 1
      with r q Inr kept show ?thesis by (auto simp: append_to_session_def)
    next
      case 2
      with r q Inr drop_session_inv [OF kept] show ?thesis by (auto simp: append_to_session_def Let_def)
    next
      case 3
      let ?s = "s\<lparr>us_received_bytes := us_received_bytes s + k, us_last_activity_at := now\<rparr>"
      have "session_ok cfg files' (acked i @ body_bytes body) ?s"
        using b ok c by (auto simp: session_ok_def max_file_bytes_def)
      from inv_one_session [OF assms(1) s _ e(1) this] 3 r q Inr show ?thesis by (auto simp: append_to_session_def Let_def)
    qed
  qed
qed

lemma append_chunk_inv:
  assumes "upload_inv cfg st acked" and "append_chunk cfg io now i body st = (r, st')"
  shows "upload_inv cfg st' (if isl r then acked else acked(i := acked i @ body_bytes body))"
proof -
  let ?st = "sweep_sessions cfg now st"
  note inv = sweep_inv [OF assms(1), of now]
  show ?thesis
  proof (cases "map_of (up_sessions ?st) i")
    case None
    with assms(2) inv show ?thesis by (auto simp: append_chunk_def Let_def split: if_splits)
  next
    case (Some s)
    from assms(2) consider "isl r" "st' = ?st" | "isl r" "st' = drop_session cfg i ?st"
      | "length (contents_of (us_temp_path s) (up_files ?st)) = us_received_bytes s" "append_to_session cfg io now i body s ?st = (r, st')"
      by (auto simp: append_chunk_def upload_temp_file_len_def Some Let_def split: if_splits sum.splits option.splits stat_fault.splits)
    then show ?thesis
    proof cases
      case 3
      then show ?thesis by (rule append_to_session_inv [OF inv Some])
    qed (use inv drop_session_inv [OF inv] in simp_all)
  qed
qed

lemma start_session_inv:
  assumes "upload_inv cfg st acked" and "start_session cfg io now rnd payload st = (Inr r, st')"
    and "path = join_path (uc_upload_temp_dir cfg) (build_upload_temp_filename (normalize_whitespace (str_field ''fileName'' payload)) now (rnd 1))"
    and "map_of (up_files st) path = None" and "path \<notin> us_temp_path ` snd ` set (up_sessions st)"
  shows "upload_inv cfg st' (acked(generate_upload_session_id now (rnd 0) := []))"
proof -
  let ?st = "sweep_sessions cfg now st" let ?i = "generate_upload_session_id now (rnd 0)"
  note inv = sweep_inv [OF assms(1), of now]
  from assms(2,3) obtain s where s: "st' = ?st\<lparr>up_sessions := AList.update ?i s (up_sessions ?st)\<rparr>" "us_temp_path s = path" "us_received_bytes s = 0"
    by (auto simp: start_session_def Let_def split: if_splits sum.splits option.splits)
  have "contents_of path (up_files ?st) = []"
    using sweep_files [OF assms(4)] by (simp add: contents_of_def)
  then have "session_ok cfg (up_files ?st) [] s" using s by (simp add: session_ok_def)
  moreover have "us_temp_path t \<noteq> path" if "map_of (up_sessions ?st) j = Some t" for j t
    using map_of_SomeD [OF sweep_some [OF that]] assms(5) by force
  ultimately show ?thesis
    using inv s unfolding upload_inv_def by (simp add: update_conv' distinct_update) metis
qed

lemma start_refused_state: "start_session cfg io now rnd payload st = (Inl e, st') \<Longrightarrow> st' = sweep_sessions cfg now st"
  by (auto simp: start_session_def Let_def split: if_splits sum.splits option.splits)

lemma claim_state:
  assumes "claim_session cfg io now payload st = (r, st')"
  defines "i \<equiv> trim (str_field ''sessionId'' payload)"
  shows "isl r \<and> st' = sweep_sessions cfg now st \<or> isl r \<and> st' = drop_session cfg i (sweep_sessions cfg now st) \<or>
    (\<exists>s. r = Inr s \<and> map_of (up_sessions (sweep_sessions cfg now st)) i = Some s \<and>
       finish_validation_error cfg (length (contents_of (us_temp_path s) (up_files (sweep_sessions cfg now st)))) s = None \<and>
       st' = sweep_sessions cfg now st\<lparr>up_sessions := AList.delete i (up_sessions (sweep_sessions cfg now st))\<rparr>)"
  using assms(1) unfolding i_def
  by (auto simp: claim_session_def upload_temp_file_len_def Let_def split: if_splits sum.splits option.splits stat_fault.splits)

lemma forget_session_inv: "upload_inv cfg st acked \<Longrightarrow> upload_inv cfg (st\<lparr>up_sessions := AList.delete i (up_sessions st)\<rparr>) acked"
  by (auto simp: upload_inv_def delete_conv' distinct_delete)

lemma claim_inv: "upload_inv cfg st acked \<Longrightarrow> claim_session cfg io now payload st = (r, st') \<Longrightarrow> upload_inv cfg st' acked"
  using claim_state [of cfg io now payload st r st'] sweep_inv [of cfg st acked now] by (auto intro: drop_session_inv forget_session_inv)

lemma uploads_inv: "uploads cfg st acked \<Longrightarrow> upload_inv cfg st acked"
proof (induction rule: uploads.induct)
  case (initial st)
  then show ?case by (simp add: upload_inv_def)
next
  case (started st acked io now rnd payload reply st' path)
  then show ?case by (intro start_session_inv) auto
next
  case (start_refused st acked io now rnd payload e st')
  then show ?case using start_refused_state sweep_inv by metis
next
  case (appended st acked io now session_id body reply st')
  then have "upload_inv cfg st' (acked(session_id := acked session_id @ body_bytes body))"
    using append_chunk_inv [of cfg st acked io now session_id body "Inr reply" st'] by simp
  then show ?case unfolding fun_upd_def .
next
  case (append_refused st acked io now session_id body e st')
  then show ?case using append_chunk_inv [of cfg st acked io now session_id body "Inl e" st'] by simp
next
  case (finished st acked io now payload r st')
  then show ?case using claim_inv by metis
next
  case (swept st acked now)
  then show ?case by (simp add: sweep_inv)
next
  case (elsewhere st acked st')
  then show ?case by (intro inv_same_files [of cfg st acked st']) (auto simp: contents_of_def)
qed

lemma claimed_bytes:
  assumes "uploads cfg st acked" and "claim_session cfg io now payload st = (Inr s, st')"
  defines "i \<equiv> trim (str_field ''sessionId'' payload)"
  shows "contents_of (us_temp_path s) (up_files st') = acked i \<and> acked i \<noteq> [] \<and> length (acked i) \<le> uc_max_upload_bytes cfg \<and>
    us_expected_bytes s \<in> {None, Some (length (acked i))} \<and> map_of (up_sessions st') i = None"
proof -
  let ?st = "sweep_sessions cfg now st"
  have inv: "upload_inv cfg ?st acked" by (rule sweep_inv [OF uploads_inv [OF assms(1)]])
  from claim_state [OF assms(2)] have c: "map_of (up_sessions ?st) i = Some s"
    "finish_validation_error cfg (length (contents_of (us_temp_path s) (up_files ?st))) s = None"
    "st' = ?st\<lparr>up_sessions := AList.delete i (up_sessions ?st)\<rparr>"
    by (auto simp: i_def)
  have "session_ok cfg (up_files ?st) (acked i) s" using inv c(1) by (simp add: upload_inv_def)
  then show ?thesis
    using c(2,3) by (auto simp: session_ok_def finish_validation_error_def delete_conv' split: if_splits option.splits)
qed

text \<open>C36: A finished upload is what the client sent. Whatever starts, chunks, failures of the network and the
  disk, sweeps and finishes came before - a failed chunk whose bytes could not be cut off again
  included - an upload that is handed over consists of exactly the bytes of the chunks that were
  acknowledged to this session, in order; it is not empty, not larger than the limit, of the size
  that was declared, and it is handed over once.\<close>

theorem finished_upload_is_what_was_acknowledged:
  assumes "uploads cfg st acked" and "claim_session cfg io now payload st = (Inr s, st')"
  shows "contents_of (us_temp_path s) (up_files st') = acked (trim (str_field ''sessionId'' payload)) \<and>
    acked (trim (str_field ''sessionId'' payload)) \<noteq> [] \<and>
    length (acked (trim (str_field ''sessionId'' payload))) \<le> uc_max_upload_bytes cfg \<and>
    us_expected_bytes s \<in> {None, Some (length (acked (trim (str_field ''sessionId'' payload))))} \<and>
    map_of (up_sessions st') (trim (str_field ''sessionId'' payload)) = None"
  by (rule claimed_bytes [OF assms])


definition sample_upload_config :: upload_config where
  "sample_upload_config = \<lparr>uc_max_upload_bytes = 100, uc_upload_temp_dir = ''tmp'', uc_assets_dir = ''assets'', uc_ffmpeg_available = True,
     uc_show_float = (\<lambda>_. []), uc_undeletable = (\<lambda>_. False)\<rparr>"

definition empty_uploads :: upload_service where
  "empty_uploads = \<lparr>up_sessions = [], up_files = [], up_library = None, up_gallery_jobs = []\<rparr>"

definition sample_names :: "nat \<Rightarrow> string" where "sample_names n = (if n = 0 then ''aa'' else ''bb'')"

definition sample_start :: "json app_result \<times> upload_service" where
  "sample_start = start_session sample_upload_config no_faults 5 sample_names
     (JObj [(''fileName'', JStr ''a.mp4''), (''fileSize'', JInt 3)]) empty_uploads"

definition sample_chunks :: "body_item list \<Rightarrow> upload_service \<Rightarrow> json app_result \<times> upload_service" where
  "sample_chunks = append_chunk sample_upload_config no_faults 6 ''5-aa''"

theorem finished_upload_is_what_was_acknowledged_witness:
  "contents_of ''tmp/a-5-bb.mp4'' (up_files (snd (claim_session sample_upload_config no_faults 7 (JObj [(''sessionId'', JStr ''5-aa'')])
     (snd (sample_chunks [Bytes ''z'' None] (snd (sample_chunks [Bytes ''x'' None, Bytes ''y'' None] (snd sample_start)))))))) = ''xyz''"
proof -
  let ?p = "JObj [(''fileName'', JStr ''a.mp4''), (''fileSize'', JInt 3)]"
  let ?c = "\<lambda>st. claim_session sample_upload_config no_faults 7 (JObj [(''sessionId'', JStr ''5-aa'')]) st"
  define s0 where "s0 = snd sample_start"
  define s1 where "s1 = snd (sample_chunks [Bytes ''x'' None, Bytes ''y'' None] s0)"
  define s2 where "s2 = snd (sample_chunks [Bytes ''z'' None] s1)"
  let ?u = "\<lambda>n t. \<lparr>us_temp_path = ''tmp/a-5-bb.mp4'', us_file_name = ''a.mp4'', us_metadata = ?p, us_expected_bytes = Some 3,
    us_received_bytes = n, us_last_activity_at = t\<rparr>"
  let ?s = "\<lambda>n t b. \<lparr>up_sessions = [(''5-aa'', ?u n t)], up_files = b, up_library = None, up_gallery_jobs = []\<rparr>"
  have t: "trim ''5-aa'' = ''5-aa''" by code_simp
  have f: "\<not> is_stale now (?u n t)" if "0 \<le> t" "t < 100" "now < 100" for n t now
    using that by (simp add: is_stale_def UPLOAD_SESSION_STALE_MS_def saturating_add_def sat64_def i64_min_def i64_max_def)
  have e0: "s0 = ?s 0 5 []" unfolding s0_def by code_simp
  note eval = sample_chunks_def append_chunk_def claim_session_def sweep_sessions_def f t ensure_upload_directories_def no_faults_def
    upload_temp_file_len_def contents_of_def append_to_session_def append_request_chunk_to_file_def max_file_bytes_def
    sample_upload_config_def UPLOAD_SESSION_CHUNK_MAX_BYTES_def
  have c1: "sample_chunks [Bytes ''x'' None, Bytes ''y'' None] (?s 0 5 []) =
      (Inr (JObj [(''ok'', JBool True), (''receivedBytes'', JInt 2)]), ?s 2 6 [(''tmp/a-5-bb.mp4'', ''xy'')])"
    by (simp add: eval)
  have c2: "sample_chunks [Bytes ''z'' None] (?s 2 6 [(''tmp/a-5-bb.mp4'', ''xy'')]) =
      (Inr (JObj [(''ok'', JBool True), (''receivedBytes'', JInt 3)]), ?s 3 6 [(''tmp/a-5-bb.mp4'', ''xyz'')])"
    by (simp add: eval)
  have c3: "?c (?s 3 6 [(''tmp/a-5-bb.mp4'', ''xyz'')]) =
      (Inr (?u 3 6), \<lparr>up_sessions = [], up_files = [(''tmp/a-5-bb.mp4'', ''xyz'')], up_library = None, up_gallery_jobs = []\<rparr>)"
    by (simp add: eval str_field_def finish_validation_error_def)
  have 0: "uploads sample_upload_config empty_uploads (\<lambda>_. [])"
    by (rule uploads.initial) (simp add: empty_uploads_def)
  have n: "generate_upload_session_id 5 (sample_names 0) = ''5-aa''" by code_simp
  have "\<not> isl (fst sample_start)" by code_simp
  then obtain r where r: "sample_start = (Inr r, s0)" unfolding s0_def by (metis prod.collapse sum.collapse(2))
  have 1: "uploads sample_upload_config s0 ((\<lambda>_. [])(''5-aa'' := []))"
    by (rule uploads.started [OF 0, where rnd = sample_names and now = 5 and payload = ?p and io = no_faults, unfolded n])
      (use r in \<open>simp_all add: sample_start_def empty_uploads_def\<close>)
  have 2: "uploads sample_upload_config s1 (((\<lambda>_. [])(''5-aa'' := []))(''5-aa'' := ''xy''))"
    using uploads.appended [OF 1 [unfolded e0] c1 [unfolded sample_chunks_def]] c1 by (simp add: s1_def e0)
  have 3: "uploads sample_upload_config s2 (((\<lambda>_. [])(''5-aa'' := ''xy''))(''5-aa'' := ''xyz''))"
    using uploads.appended [OF 2 [unfolded s1_def e0 c1 snd_conv] c2 [unfolded sample_chunks_def]] c1 c2 by (simp add: s2_def s1_def e0)
  have s: "?c s2 = (Inr (?u 3 6), snd (?c s2))" using c1 c2 c3 unfolding s2_def s1_def e0 by simp
  have i: "trim (str_field ''sessionId'' (JObj [(''sessionId'', JStr ''5-aa'')])) = ''5-aa''" by code_simp
  show ?thesis
    using finished_upload_is_what_was_acknowledged [OF 3 s, unfolded i] unfolding s2_def s1_def s0_def by simp
qed



definition open_upload :: upload_service where
  "open_upload = \<lparr>up_sessions = [(''a'', \<lparr>us_temp_path = ''t'', us_file_name = ''f.mp4'', us_metadata = JNull, us_expected_bytes = None,
     us_received_bytes = 1, us_last_activity_at = 5\<rparr>)], up_files = [(''t'', ''x'')], up_library = None, up_gallery_jobs = []\<rparr>"


end
