(* ===== verification/UploadLibrary.thy ===== *)
theory UploadLibrary
  imports UploadSessions UserState
begin

text \<open>
  What becomes of an upload (\<open>src/upload.rs\<close>): the file is moved or converted into the assets, its
  audio adapted, and a movie or an episode entered into the library. Also the upload in one
  request and the gallery, which downloads a video. \<open>ffmpeg\<close> is the parameter \<open>ut_run\<close>, which
  acts on the files by a command line; \<open>ut_probe\<close> is what \<open>ffprobe\<close> makes of a file.
\<close>

section \<open>Environment\<close>

record upload_tools =
  ut_run :: "string list \<Rightarrow> files \<Rightarrow> (string + unit) \<times> files"
  ut_probe :: "files \<Rightarrow> string \<Rightarrow> media_probe option"
  ut_text :: json_text

record process_faults =
  pf_dirs :: "string option"
  pf_rename :: "string option"
  pf_library_read :: "string option"
  pf_library_write :: "string option"

definition no_process_faults :: process_faults where
  "no_process_faults = \<lparr>pf_dirs = None, pf_rename = None, pf_library_read = None, pf_library_write = None\<rparr>"

definition rename_file :: "string option \<Rightarrow> string \<Rightarrow> string \<Rightarrow> files \<Rightarrow> unit app_result \<times> files" where
  "rename_file fault a b files =
     (case fault of
        Some e \<Rightarrow> (Inl (internal e), files)
      | None \<Rightarrow>
          (case map_of files a of
             None \<Rightarrow> (Inl (internal ''No such file or directory (os error 2)''), files)
           | Some bytes \<Rightarrow> (Inr (), AList.update b bytes (AList.delete a files))))"

section \<open>Conversion\<close>

definition run_ffmpeg :: "upload_tools \<Rightarrow> string list \<Rightarrow> files \<Rightarrow> unit app_result \<times> files" where
  "run_ffmpeg tools command files =
     (case ut_run tools command files of (Inl e, files) \<Rightarrow> (Inl (bad_gateway e), files) | (Inr _, files) \<Rightarrow> (Inr (), files))"

definition convert_mkv_to_mp4_lossless :: "upload_tools \<Rightarrow> string \<Rightarrow> string \<Rightarrow> files \<Rightarrow> unit app_result \<times> files" where
  "convert_mkv_to_mp4_lossless tools input_path output_path =
     run_ffmpeg tools [''ffmpeg'', ''-hide_banner'', ''-y'', ''-i'', input_path, ''-map'', ''0:v'', ''-map'', ''0:a?'', ''-c:v'', ''copy'',
       ''-c:a'', ''copy'', ''-movflags'', ''+faststart'', output_path]"

definition convert_media_audio_to_aac_keeping_video :: "upload_tools \<Rightarrow> string \<Rightarrow> string \<Rightarrow> files \<Rightarrow> unit app_result \<times> files" where
  "convert_media_audio_to_aac_keeping_video tools input_path output_path =
     run_ffmpeg tools [''ffmpeg'', ''-hide_banner'', ''-y'', ''-i'', input_path, ''-map'', ''0:v'', ''-map'', ''0:a?'', ''-c:v'', ''copy'',
       ''-c:a'', ''aac'', ''-b:a'', ''256k'', ''-movflags'', ''+faststart'', output_path]"

definition keep_preferred_audio_track_with_video_copy ::
  "upload_tools \<Rightarrow> string \<Rightarrow> string \<Rightarrow> int \<Rightarrow> files \<Rightarrow> unit app_result \<times> files" where
  "keep_preferred_audio_track_with_video_copy tools input_path output_path stream_index =
     run_ffmpeg tools [''ffmpeg'', ''-hide_banner'', ''-y'', ''-i'', input_path, ''-map'', ''0:v'', ''-map'',
       ''0:'' @ show_int (max 0 stream_index) @ ''?'', ''-sn'', ''-c:v'', ''copy'', ''-c:a'', ''copy'', ''-movflags'', ''+faststart'', output_path]"

text \<open>The file as it lies in the assets.\<close>

record stored_media =
  sm_file_name :: string
  sm_compatibility :: chrome_compatibility
  sm_converted_from_mkv :: bool
  sm_audio_transcoded_to_aac :: bool
  sm_english_audio_enforced :: bool

definition video_path :: "upload_config \<Rightarrow> string \<Rightarrow> string" where
  "video_path cfg file_name = join_path (join_path (uc_assets_dir cfg) ''videos'') file_name"

definition compatibility_of :: "upload_tools \<Rightarrow> files \<Rightarrow> string \<Rightarrow> chrome_compatibility" where
  "compatibility_of tools files file_name =
     detect_chrome_compatibility_for_source (ut_probe tools files) (build_asset_video_source file_name)"

text \<open>The upload takes its place among the videos.\<close>

definition place_upload ::
  "upload_config \<Rightarrow> upload_tools \<Rightarrow> string option \<Rightarrow> string \<Rightarrow> string \<Rightarrow> string \<Rightarrow> files \<Rightarrow> stored_media app_result \<times> files" where
  "place_upload cfg tools rename_fault input_path original_name output_file_name files =
     (let output_path = video_path cfg output_file_name;
          placed = (\<lambda>from_mkv files. \<lparr>sm_file_name = output_file_name, sm_compatibility = compatibility_of tools files output_file_name,
            sm_converted_from_mkv = from_mkv, sm_audio_transcoded_to_aac = False, sm_english_audio_enforced = False\<rparr>)
      in if detect_upload_extension original_name = Some ''.mp4'' then
           (case rename_file rename_fault input_path output_path files of
              (Inl e, files) \<Rightarrow> (Inl e, files) | (Inr _, files) \<Rightarrow> (Inr (placed False files), files))
         else if detect_upload_extension original_name = Some ''.mkv'' then
           (case convert_mkv_to_mp4_lossless tools input_path output_path files of
              (Inl e, files) \<Rightarrow> (Inl e, remove_file_if_present cfg output_path (remove_file_if_present cfg input_path files))
            | (Inr _, files) \<Rightarrow>
                (let files = remove_file_if_present cfg input_path files in (Inr (placed True files), files)))
         else (Inl (bad_request ''Only .mp4 and .mkv files are supported.''), files))"

definition transcode_audio ::
  "upload_config \<Rightarrow> upload_tools \<Rightarrow> bool \<Rightarrow> string \<Rightarrow> stored_media \<Rightarrow> files \<Rightarrow> stored_media \<times> files" where
  "transcode_audio cfg tools wanted aac_file_name m files =
     (if \<not> (wanted \<and> should_attempt_audio_only_upload_transcode (sm_compatibility m)) then (m, files)
      else let output_path = video_path cfg (sm_file_name m); aac_path = video_path cfg aac_file_name
      in case convert_media_audio_to_aac_keeping_video tools output_path aac_path files of
          (Inr _, files) \<Rightarrow>
            (let files = remove_file_if_present cfg output_path files
             in (m\<lparr>sm_file_name := aac_file_name, sm_compatibility := compatibility_of tools files aac_file_name,
                   sm_audio_transcoded_to_aac := True\<rparr>, files))
        | (Inl _, files) \<Rightarrow> (m, remove_file_if_present cfg aac_path files))"

text \<open>The English track, if there is one that is not the first.\<close>

definition english_track_to_keep :: "media_probe option \<Rightarrow> int option" where
  "english_track_to_keep probe =
     (case probe of
        None \<Rightarrow> None
      | Some p \<Rightarrow>
          (case (List.find (\<lambda>t. at_language t = ''en'') (mp_audio_tracks p), mp_audio_tracks p) of
             (Some en, first_track # _) \<Rightarrow>
               if 0 \<le> at_stream_index en \<and> at_stream_index first_track \<noteq> at_stream_index en then Some (at_stream_index en) else None
           | _ \<Rightarrow> None))"

definition enforce_english_audio ::
  "upload_config \<Rightarrow> upload_tools \<Rightarrow> string \<Rightarrow> stored_media \<Rightarrow> files \<Rightarrow> stored_media \<times> files" where
  "enforce_english_audio cfg tools en_file_name m files =
     (case english_track_to_keep (ut_probe tools files (build_asset_video_source (sm_file_name m))) of
        None \<Rightarrow> (m, files)
      | Some track \<Rightarrow>
          (let output_path = video_path cfg (sm_file_name m); en_path = video_path cfg en_file_name
           in case keep_preferred_audio_track_with_video_copy tools output_path en_path track files of
               (Inr _, files) \<Rightarrow>
                 (let files = remove_file_if_present cfg output_path files
                  in (m\<lparr>sm_file_name := en_file_name, sm_compatibility := compatibility_of tools files en_file_name,
                        sm_english_audio_enforced := True\<rparr>, files))
             | (Inl _, files) \<Rightarrow> (m, remove_file_if_present cfg en_path files)))"

definition store_media ::
  "upload_config \<Rightarrow> upload_tools \<Rightarrow> string option \<Rightarrow> int \<Rightarrow> (nat \<Rightarrow> string) \<Rightarrow> string \<Rightarrow> string \<Rightarrow> string \<Rightarrow> bool \<Rightarrow> files \<Rightarrow>
   stored_media app_result \<times> files" where
  "store_media cfg tools rename_fault now rnd input_path original_name upload_base_name transcode files =
     (let base = (if upload_base_name = [] then original_name else upload_base_name)
      in case place_upload cfg tools rename_fault input_path original_name (build_unique_mp4_filename base now (rnd 0)) files of
          (Inl e, files) \<Rightarrow> (Inl e, files)
        | (Inr m, files) \<Rightarrow>
            (let (m, files) = transcode_audio cfg tools transcode (build_unique_mp4_filename (base @ ''-aac'') now (rnd 1)) m files;
                 (m, files) = enforce_english_audio cfg tools (build_unique_mp4_filename (base @ ''-en'') now (rnd 2)) m files
             in (Inr m, files)))"

section \<open>Entering the library\<close>

text \<open>Whether an earlier movie gives way to the new one.\<close>

definition movie_is_replaced :: "movie_entry \<Rightarrow> movie_entry \<Rightarrow> bool" where
  "movie_is_replaced entry candidate \<longleftrightarrow>
     trim (me_src candidate) = trim (me_src entry) \<or>
     (trim (me_tmdb_id entry) \<noteq> [] \<and> trim (me_tmdb_id candidate) \<noteq> [] \<and> trim (me_tmdb_id candidate) = trim (me_tmdb_id entry)) \<or>
     (lower (trim (me_title candidate)) = lower (trim (me_title entry)) \<and> trim (me_year candidate) = trim (me_year entry))"

definition upsert_movie_entry_in_library :: "library \<Rightarrow> movie_entry \<Rightarrow> movie_entry list" where
  "upsert_movie_entry_in_library l entry = entry # filter (\<lambda>c. \<not> movie_is_replaced entry c) (lib_movies l)"

fun find_index :: "('a \<Rightarrow> bool) \<Rightarrow> 'a list \<Rightarrow> nat option" where
  "find_index p [] = None"
| "find_index p (x # xs) = (if p x then Some 0 else map_option Suc (find_index p xs))"

definition normalized_order :: "series_episode_entry \<Rightarrow> int \<times> int" where
  "normalized_order e =
     (normalize_upload_episode_ordinal (ee_season_number e) 1, normalize_upload_episode_ordinal (ee_episode_number e) 1)"

text \<open>The new episode takes the place of the one with its numbers.\<close>

definition place_episode :: "series_episode_entry \<Rightarrow> int \<Rightarrow> int \<Rightarrow> series_episode_entry list \<Rightarrow> series_episode_entry list" where
  "place_episode episode season number episodes =
     sort_key normalized_order (filter (\<lambda>e. normalized_order e \<noteq> (season, number)) episodes @ [episode])"

definition new_series :: "string \<Rightarrow> string \<Rightarrow> string \<Rightarrow> string \<Rightarrow> string \<Rightarrow> series_entry" where
  "new_series i title kind tmdb_id year = \<lparr>sy_id = i, sy_title = title, sy_content_kind = kind, sy_tmdb_id = tmdb_id, sy_year = year,
     sy_preferred_container = ''mp4'', sy_requires_local_episode_sources = True, sy_episodes = []\<rparr>"

definition put_series :: "nat option \<Rightarrow> series_entry \<Rightarrow> library \<Rightarrow> library" where
  "put_series existing_index s l =
     l\<lparr>lib_series := (case existing_index of Some i \<Rightarrow> (lib_series l)[i := s] | None \<Rightarrow> s # lib_series l)\<rparr>"

text \<open>The closure of an uploaded episode.\<close>

definition upsert_uploaded_episode ::
  "string \<Rightarrow> string \<Rightarrow> string \<Rightarrow> string \<Rightarrow> string \<Rightarrow> series_episode_entry \<Rightarrow> library \<Rightarrow> (series_entry \<times> library) app_result" where
  "upsert_uploaded_episode i title kind tmdb_id year episode l =
     (let existing_index = find_index (\<lambda>s. eq_ignore_ascii_case (sy_id s) i) (lib_series l);
          base = (case existing_index of Some n \<Rightarrow> lib_series l ! n | None \<Rightarrow> new_series i title kind tmdb_id year);
          target = base\<lparr>sy_id := i,
            sy_title := (if normalize_whitespace (sy_title base) = [] then title else normalize_whitespace (sy_title base)),
            sy_tmdb_id := (if trim (sy_tmdb_id base) = [] then tmdb_id else sy_tmdb_id base),
            sy_year := if_empty_then (normalize_year (sy_year base)) year,
            sy_content_kind := (if eq_ignore_ascii_case (trim (sy_content_kind base)) ''course'' then ''course'' else ''series''),
            sy_preferred_container := ''mp4'', sy_requires_local_episode_sources := True,
            sy_episodes := place_episode episode (ee_season_number episode) (ee_episode_number episode) (sy_episodes base)\<rparr>
      in Inr (target, put_series existing_index target l))"

text \<open>The closure of a saved episode.\<close>

definition upsert_saved_episode ::
  "string \<Rightarrow> string \<Rightarrow> string \<Rightarrow> string \<Rightarrow> series_episode_entry \<Rightarrow> library \<Rightarrow> (series_entry \<times> library) app_result" where
  "upsert_saved_episode seed title tmdb_id year episode l =
     (let i = normalize_upload_target_series_id [] seed False;
          existing_index = find_index (\<lambda>s. eq_ignore_ascii_case (sy_id s) i) (lib_series l);
          base = (case existing_index of Some n \<Rightarrow> lib_series l ! n | None \<Rightarrow> new_series i title ''series'' tmdb_id year);
          target = base\<lparr>sy_id := i, sy_title := if_empty_then (normalize_whitespace (sy_title base)) title,
            sy_tmdb_id := (if trim (sy_tmdb_id base) = [] then tmdb_id else sy_tmdb_id base),
            sy_year := if_empty_then (normalize_year (sy_year base)) year,
            sy_content_kind := ''series'', sy_preferred_container := ''mp4'', sy_requires_local_episode_sources := True,
            sy_episodes := place_episode episode (ee_season_number episode) (ee_episode_number episode) (sy_episodes base)\<rparr>
      in Inr (target, put_series existing_index target l))"

definition change_library ::
  "upload_tools \<Rightarrow> process_faults \<Rightarrow> int \<Rightarrow> (library \<Rightarrow> ('a \<times> library) app_result) \<Rightarrow> upload_service \<Rightarrow> 'a app_result \<times> upload_service" where
  "change_library tools pf now f st =
     (case mutate_local_library (ut_text tools) now (pf_library_read pf) (pf_library_write pf) f (up_library st) of
        (r, file) \<Rightarrow> (r, st\<lparr>up_library := file\<rparr>))"

section \<open>An upload\<close>

definition compatibility_json :: "chrome_compatibility \<Rightarrow> json" where
  "compatibility_json c = JObj [(''checked'', JBool (cc_checked c)), (''isLikelyCompatible'', JBool (cc_is_likely_compatible c)),
     (''container'', JStr (cc_container c)), (''videoCodec'', JStr (cc_video_codec c)),
     (''audioCodecs'', JArr (map JStr (cc_audio_codecs c))), (''reasons'', JArr (map JStr (cc_reasons c))), (''warning'', JStr (cc_warning c))]"

definition upload_reply :: "stored_media \<Rightarrow> (string \<times> json) list \<Rightarrow> json" where
  "upload_reply m entries = JObj ((''ok'', JBool True) # entries @
     [(''convertedFromMkv'', JBool (sm_converted_from_mkv m)), (''audioTranscodedToAac'', JBool (sm_audio_transcoded_to_aac m)),
      (''englishAudioEnforced'', JBool (sm_english_audio_enforced m)), (''chromeCompatibility'', compatibility_json (sm_compatibility m))])"

definition upload_movie_title :: "string \<Rightarrow> upload_metadata \<Rightarrow> string" where
  "upload_movie_title original_name d =
     (if um_title d = [] then normalize_whitespace (strip_known_video_extensions original_name) else um_title d)"

definition upload_episode_title :: "bool \<Rightarrow> upload_metadata \<Rightarrow> string" where
  "upload_episode_title is_course d =
     (if um_episode_title d = [] then (if is_course then ''Lesson'' else ''Episode'') @ '' '' @ show_int (um_episode_number d)
      else um_episode_title d)"

definition upload_thumb :: "upload_metadata \<Rightarrow> string" where
  "upload_thumb d = (if um_thumb d = [] then DEFAULT_THUMB else um_thumb d)"

definition uploaded_movie :: "string \<Rightarrow> upload_metadata \<Rightarrow> stored_media \<Rightarrow> int \<Rightarrow> movie_entry" where
  "uploaded_movie original_name d m now =
     (let title = upload_movie_title original_name d
      in \<lparr>me_id = build_upload_movie_id title, me_title = (if title = [] then ''Untitled Movie'' else title),
          me_tmdb_id = normalize_tmdb_id (um_tmdb_id d), me_year = um_year d, me_src = build_asset_video_source (sm_file_name m),
          me_thumb = upload_thumb d, me_description = um_description d, me_uploaded_at = now\<rparr>)"

definition uploaded_episode :: "bool \<Rightarrow> upload_metadata \<Rightarrow> stored_media \<Rightarrow> int \<Rightarrow> series_episode_entry" where
  "uploaded_episode is_course d m now =
     \<lparr>ee_title = upload_episode_title is_course d, ee_description = um_description d, ee_thumb = upload_thumb d,
      ee_src = build_asset_video_source (sm_file_name m), ee_content_kind = (if is_course then ''course'' else ''series''),
      ee_season_number = um_season_number d, ee_episode_number = um_episode_number d, ee_uploaded_at = now\<rparr>"

definition upload_series_title :: "string \<Rightarrow> bool \<Rightarrow> upload_metadata \<Rightarrow> string" where
  "upload_series_title original_name is_course d =
     (if um_series_title d \<noteq> [] then um_series_title d
      else if is_course then (if upload_movie_title original_name d = [] then ''Untitled Course'' else upload_movie_title original_name d)
      else ''Untitled Series'')"

definition upload_series_seed :: "string \<Rightarrow> upload_metadata \<Rightarrow> string" where
  "upload_series_seed original_name d =
     (if um_series_id d = [] then (if um_series_title d = [] then upload_movie_title original_name d else um_series_title d)
      else um_series_id d)"

definition process_uploaded_media_into_library ::
  "upload_config \<Rightarrow> upload_tools \<Rightarrow> process_faults \<Rightarrow> int \<Rightarrow> (nat \<Rightarrow> string) \<Rightarrow> string \<Rightarrow> string \<Rightarrow> upload_metadata \<Rightarrow>
   upload_service \<Rightarrow> json app_result \<times> upload_service" where
  "process_uploaded_media_into_library cfg tools pf now rnd input_path original_name d st =
     (if trim input_path = [] then (Inl (internal ''Missing input path for upload processing.''), st)
      else case validate_upload_extension original_name of
        Inl e \<Rightarrow> (Inl e, st)
      | Inr _ \<Rightarrow>
          (let content_type = normalize_upload_content_type (um_content_type d);
               is_movie = (content_type = ''movie''); is_course = (content_type = ''course'')
           in case pf_dirs pf of
               Some e \<Rightarrow> (Inl (internal e), st)
             | None \<Rightarrow>
                 (case store_media cfg tools (pf_rename pf) now rnd input_path original_name
                     (if is_movie then upload_movie_title original_name d else upload_episode_title is_course d)
                     (um_transcode_audio_to_aac d) (up_files st) of
                    (Inl e, files) \<Rightarrow> (Inl e, st\<lparr>up_files := files\<rparr>)
                  | (Inr m, files) \<Rightarrow>
                      if is_movie then
                        (let entry = uploaded_movie original_name d m now
                         in case change_library tools pf now (\<lambda>l. Inr ((), l\<lparr>lib_movies := upsert_movie_entry_in_library l entry\<rparr>))
                             (st\<lparr>up_files := files\<rparr>) of
                             (Inl e, st) \<Rightarrow> (Inl e, st)
                           | (Inr _, st) \<Rightarrow> (Inr (upload_reply m [(''contentType'', JStr ''movie''), (''movie'', movie_json entry)]), st))
                      else
                        (let episode = uploaded_episode is_course d m now;
                             i = normalize_upload_target_series_id (um_series_id d) (upload_series_seed original_name d) is_course
                         in case change_library tools pf now
                               (upsert_uploaded_episode i (upload_series_title original_name is_course d)
                                 (if is_course then ''course'' else ''series'')
                                 (if is_course then [] else normalize_tmdb_id (um_tmdb_id d)) (um_year d) episode)
                               (st\<lparr>up_files := files\<rparr>) of
                             (Inl e, st) \<Rightarrow> (Inl e, st)
                           | (Inr s, st) \<Rightarrow> (Inr (upload_reply m [(''contentType'', JStr (if is_course then ''course'' else ''episode'')),
                               (''series'', series_json s), (''episode'', episode_json episode)]), st)))))"

text \<open>The entries of the request that finishes replace those of the request that started.\<close>

fun object_entries :: "json \<Rightarrow> (string \<times> json) list" where
  "object_entries (JObj kvs) = kvs"
| "object_entries _ = []"

definition merge_metadata :: "json \<Rightarrow> json \<Rightarrow> json" where
  "merge_metadata metadata payload =
     JObj (object_entries payload @ filter (\<lambda>(k, _). k \<notin> fst ` set (object_entries payload)) (object_entries metadata))"

text \<open>Processing, and removal of the temporary file when it fails.\<close>

definition process_or_discard ::
  "upload_config \<Rightarrow> upload_tools \<Rightarrow> process_faults \<Rightarrow> int \<Rightarrow> (nat \<Rightarrow> string) \<Rightarrow> string \<Rightarrow> string \<Rightarrow> upload_metadata \<Rightarrow>
   upload_service \<Rightarrow> json app_result \<times> upload_service" where
  "process_or_discard cfg tools pf now rnd temp_path original_name d st =
     (case process_uploaded_media_into_library cfg tools pf now rnd temp_path original_name d st of
        (Inr reply, st) \<Rightarrow> (Inr reply, st)
      | (Inl e, st) \<Rightarrow> (Inl e, st\<lparr>up_files := remove_file_if_present cfg temp_path (up_files st)\<rparr>))"

definition finish_session ::
  "upload_config \<Rightarrow> upload_tools \<Rightarrow> io_faults \<Rightarrow> process_faults \<Rightarrow> int \<Rightarrow> (nat \<Rightarrow> string) \<Rightarrow> json \<Rightarrow> upload_service \<Rightarrow>
   json app_result \<times> upload_service" where
  "finish_session cfg tools io pf now rnd payload st =
     (case claim_session cfg io now payload st of
        (Inl e, st) \<Rightarrow> (Inl e, st)
      | (Inr s, st) \<Rightarrow>
          process_or_discard cfg tools pf now rnd (us_temp_path s) (us_file_name s)
            (build_upload_metadata_from_map (uc_show_float cfg) (merge_metadata (us_metadata s) payload)) st)"

section \<open>An upload in one request\<close>

text \<open>A part of a multipart body: its name, its file name, and what comes of its data.\<close>

datatype multipart_field = Field string "string option" "body_item list" | Bad_field

fun field_text :: "body_item list \<Rightarrow> string option" where
  "field_text [] = Some []"
| "field_text (Bytes b _ # items) = map_option ((@) b) (field_text items)"
| "field_text (Body_failed _ # items) = None"

text \<open>The file so far is \<open>w\<close>; the count of bytes runs on from \<open>n\<close>. A broken connection or a failed
  write leaves the file where it is, a file too large is removed.\<close>

fun write_upload :: "upload_config \<Rightarrow> string \<Rightarrow> nat \<Rightarrow> string \<Rightarrow> body_item list \<Rightarrow> files \<Rightarrow> nat app_result \<times> files" where
  "write_upload cfg path n w [] files = (Inr n, AList.update path w files)"
| "write_upload cfg path n w (Body_failed _ # items) files =
     (Inl (bad_request ''Invalid multipart form payload.''), AList.update path w files)"
| "write_upload cfg path n w (Bytes b fault # items) files =
     (if uc_max_upload_bytes cfg < n + length b
      then (Inl (total_upload_limit_error (uc_max_upload_bytes cfg)), remove_file_if_present cfg path (AList.update path w files))
      else case fault of
          Some (k, e) \<Rightarrow> (Inl (internal e), AList.update path (take k (w @ b)) files)
        | None \<Rightarrow> write_upload cfg path (n + length b) (w @ b) items files)"

record multipart_upload =
  mu_metadata :: "(string \<times> json) list"
  mu_temp_path :: "string option"
  mu_original_name :: string
  mu_file_size :: nat

fun parse_multipart_fields ::
  "upload_config \<Rightarrow> string option \<Rightarrow> int \<Rightarrow> (nat \<Rightarrow> string) \<Rightarrow> multipart_field list \<Rightarrow> multipart_upload \<Rightarrow> files \<Rightarrow>
   multipart_upload app_result \<times> files" where
  "parse_multipart_fields cfg create_fault now rnd [] u files = (Inr u, files)"
| "parse_multipart_fields cfg create_fault now rnd (Bad_field # entries) u files =
     (Inl (bad_request ''Invalid multipart form payload.''), files)"
| "parse_multipart_fields cfg create_fault now rnd (Field name file_name body # entries) u files =
     (if name \<noteq> ''file'' then
        (case field_text body of
           None \<Rightarrow> (Inl (bad_request ''Invalid multipart form payload.''), files)
         | Some t \<Rightarrow> parse_multipart_fields cfg create_fault now rnd entries
             (u\<lparr>mu_metadata := AList.update name (JStr t) (mu_metadata u)\<rparr>) files)
      else if mu_temp_path u \<noteq> None then parse_multipart_fields cfg create_fault now rnd entries u files
      else let given = trim (case file_name of Some n \<Rightarrow> n | None \<Rightarrow> ''upload'');
               original_name = (if given = [] then ''upload'' else given)
           in case validate_upload_extension original_name of
               Inl e \<Rightarrow> (Inl e, files)
             | Inr _ \<Rightarrow>
                 (let path = join_path (uc_upload_temp_dir cfg) (build_upload_temp_filename original_name now (rnd 3))
                  in case create_fault of
                      Some e \<Rightarrow> (Inl (internal e), files)
                    | None \<Rightarrow>
                        (case write_upload cfg path (mu_file_size u) [] body files of
                           (Inl e, files) \<Rightarrow> (Inl e, files)
                         | (Inr n, files) \<Rightarrow> parse_multipart_fields cfg create_fault now rnd entries
                             (u\<lparr>mu_temp_path := Some path, mu_original_name := original_name, mu_file_size := n\<rparr>) files)))"

text \<open>\<open>parts\<close> is \<open>None\<close> when the request has no usable boundary.\<close>

definition parse_multipart_upload ::
  "upload_config \<Rightarrow> io_faults \<Rightarrow> int \<Rightarrow> (nat \<Rightarrow> string) \<Rightarrow> multipart_field list option \<Rightarrow> files \<Rightarrow>
   (multipart_upload \<times> string) app_result \<times> files" where
  "parse_multipart_upload cfg io now rnd parts files =
     (case parts of
        None \<Rightarrow> (Inl (bad_request ''Invalid multipart form payload.''), files)
      | Some entries \<Rightarrow>
          (case ensure_upload_directories io of
             Inl e \<Rightarrow> (Inl e, files)
           | Inr _ \<Rightarrow>
               (case parse_multipart_fields cfg (io_open io) now rnd entries
                   \<lparr>mu_metadata = [], mu_temp_path = None, mu_original_name = [], mu_file_size = 0\<rparr> files of
                  (Inl e, files) \<Rightarrow> (Inl e, files)
                | (Inr u, files) \<Rightarrow>
                    (case mu_temp_path u of
                       None \<Rightarrow> (Inl (bad_request ''Missing file upload.''), files)
                     | Some path \<Rightarrow> (Inr (u, path), files)))))"

definition handle_direct_upload ::
  "upload_config \<Rightarrow> upload_tools \<Rightarrow> io_faults \<Rightarrow> process_faults \<Rightarrow> int \<Rightarrow> (nat \<Rightarrow> string) \<Rightarrow> multipart_field list option \<Rightarrow>
   upload_service \<Rightarrow> json app_result \<times> upload_service" where
  "handle_direct_upload cfg tools io pf now rnd parts st =
     (case require_ffmpeg cfg of
        Inl e \<Rightarrow> (Inl e, st)
      | Inr _ \<Rightarrow>
          (case parse_multipart_upload cfg io now rnd parts (up_files st) of
             (Inl e, files) \<Rightarrow> (Inl e, st\<lparr>up_files := files\<rparr>)
           | (Inr (u, path), files) \<Rightarrow>
               if mu_file_size u = 0
               then (Inl (bad_request ''Uploaded file is empty.''), st\<lparr>up_files := remove_file_if_present cfg path files\<rparr>)
               else process_or_discard cfg tools pf now rnd path (mu_original_name u)
                 (build_upload_metadata_from_map (uc_show_float cfg) (JObj (mu_metadata u))) (st\<lparr>up_files := files\<rparr>)))"

section \<open>The gallery\<close>

record gallery_save_request =
  gs_playable_url :: string
  gs_tmdb_id :: string
  gs_media_type :: string
  gs_title :: string
  gs_year :: string
  gs_thumb :: string
  gs_description :: string
  gs_season_number :: int
  gs_episode_number :: int
  gs_episode_title :: string
  gs_filename_hint :: string

definition gallery_request_of :: "(rat \<Rightarrow> string) \<Rightarrow> string \<Rightarrow> json \<Rightarrow> gallery_save_request" where
  "gallery_request_of show_float playable_url payload =
     (let media_type = normalize_gallery_media_type (case Option.bind (json_get ''mediaType'' payload) as_str of Some t \<Rightarrow> t | None \<Rightarrow> ''movie'')
      in \<lparr>gs_playable_url = playable_url,
          gs_tmdb_id = (case json_get ''tmdbId'' payload of Some v \<Rightarrow> normalize_tmdb_id (json_string show_float v) | None \<Rightarrow> []),
          gs_media_type = media_type,
          gs_title = upload_text_field ''title'' (if media_type = ''tv'' then ''Saved Series'' else ''Saved Movie'') payload,
          gs_year = normalize_year (str_field ''year'' payload),
          gs_thumb = upload_text_field ''thumb'' [] payload, gs_description = upload_text_field ''description'' [] payload,
          gs_season_number = ordinal_of ''seasonNumber'' payload, gs_episode_number = ordinal_of ''episodeNumber'' payload,
          gs_episode_title = upload_text_field ''episodeTitle'' [] payload, gs_filename_hint = upload_text_field ''filename'' [] payload\<rparr>)"

definition gallery_job_key :: "gallery_save_request \<Rightarrow> string" where
  "gallery_job_key r = build_gallery_download_job_key (gs_tmdb_id r) (gs_media_type r) (gs_title r) (gs_year r) (gs_playable_url r)"

text \<open>The reply, and the job that was started: its key and its request.\<close>

definition queue_gallery_save ::
  "upload_config \<Rightarrow> (string \<Rightarrow> web_url option) \<Rightarrow> json \<Rightarrow> upload_service \<Rightarrow>
   json app_result \<times> (string \<times> gallery_save_request) option \<times> upload_service" where
  "queue_gallery_save cfg parse_url payload st =
     (if \<not> is_object payload then (Inl (bad_request ''Invalid JSON body.''), None, st)
      else let playable_url = normalize_gallery_download_url parse_url (str_field ''playableUrl'' payload)
      in if playable_url = [] then (Inl (bad_request ''Missing or invalid playableUrl.''), None, st)
         else if \<not> is_allowed_gallery_download_url parse_url playable_url
         then (Inl (bad_request ''Only Real-Debrid HTTPS download URLs are supported for gallery saves.''), None, st)
         else let request = gallery_request_of (uc_show_float cfg) playable_url payload;
                  job_key = gallery_job_key request;
                  reply = (\<lambda>queued. JObj [(''ok'', JBool True), (''queued'', JBool queued), (''alreadyQueued'', JBool (\<not> queued)), (''jobKey'', JStr job_key)])
              in if job_key \<in> set (up_gallery_jobs st) then (Inr (reply False), None, st)
                 else (Inr (reply True), Some (job_key, request), st\<lparr>up_gallery_jobs := job_key # up_gallery_jobs st\<rparr>))"

definition gallery_job_done :: "string \<Rightarrow> upload_service \<Rightarrow> upload_service" where
  "gallery_job_done job_key st = st\<lparr>up_gallery_jobs := removeAll job_key (up_gallery_jobs st)\<rparr>"

text \<open>What the download server answers: status, announced length, body.\<close>

type_synonym download_answer = "string + nat \<times> nat option \<times> body_item list"

definition saturating_add_u64 :: "nat \<Rightarrow> nat \<Rightarrow> nat" where
  "saturating_add_u64 a b = min (a + b) (2 ^ 64 - 1)"

fun download_items :: "upload_config \<Rightarrow> string \<Rightarrow> string \<Rightarrow> nat \<Rightarrow> string \<Rightarrow> body_item list \<Rightarrow> files \<Rightarrow> unit app_result \<times> files" where
  "download_items cfg temp_path output_path n w [] files = (Inr (), AList.update temp_path w files)"
| "download_items cfg temp_path output_path n w (Body_failed m # items) files = (Inl (bad_gateway m), AList.update temp_path w files)"
| "download_items cfg temp_path output_path n w (Bytes b fault # items) files =
     (let n = saturating_add_u64 n (length b)
      in if uc_max_upload_bytes cfg < n
         then (Inl (total_upload_limit_error (uc_max_upload_bytes cfg)),
               remove_file_if_present cfg output_path (remove_file_if_present cfg temp_path (AList.update temp_path w files)))
         else case fault of
             Some (k, e) \<Rightarrow> (Inl (internal e), AList.update temp_path (take k (w @ b)) files)
           | None \<Rightarrow> download_items cfg temp_path output_path n (w @ b) items files)"

definition download_to_gallery ::
  "upload_config \<Rightarrow> io_faults \<Rightarrow> process_faults \<Rightarrow> download_answer \<Rightarrow> string \<Rightarrow> string \<Rightarrow> files \<Rightarrow> unit app_result \<times> files" where
  "download_to_gallery cfg io pf answer temp_path output_path files =
     (let discard = (\<lambda>files. remove_file_if_present cfg output_path (remove_file_if_present cfg temp_path files))
      in case ensure_upload_directories io of
          Inl e \<Rightarrow> (Inl e, files)
        | Inr _ \<Rightarrow>
            (case answer of
               Inl e \<Rightarrow> (Inl (bad_gateway e), files)
             | Inr (status, content_length, body) \<Rightarrow>
                 if \<not> (200 \<le> status \<and> status < 300)
                 then (Inl (bad_gateway (''Download request failed ('' @ show_nat status @ '').'')), discard files)
                 else if (case content_length of Some n \<Rightarrow> uc_max_upload_bytes cfg < n | None \<Rightarrow> False)
                 then (Inl (total_upload_limit_error (uc_max_upload_bytes cfg)), discard files)
                 else case io_open io of
                     Some e \<Rightarrow> (Inl (internal e), files)
                   | None \<Rightarrow>
                       (case download_items cfg temp_path output_path 0 [] body files of
                          (Inl e, files) \<Rightarrow> (Inl e, files)
                        | (Inr _, files) \<Rightarrow>
                            (case io_flush io of
                               Some (k, e) \<Rightarrow> (Inl (internal e), AList.update temp_path (take k (contents_of temp_path files)) files)
                             | None \<Rightarrow> rename_file (pf_rename pf) temp_path output_path files))))"

definition saved_title :: "gallery_save_request \<Rightarrow> string" where
  "saved_title r = normalize_whitespace
     (if gs_title r = [] then (if normalize_gallery_media_type (gs_media_type r) = ''tv'' then ''Saved Series'' else ''Saved Movie'') else gs_title r)"

definition gallery_seed :: "gallery_save_request \<Rightarrow> string" where
  "gallery_seed r =
     (if normalize_tmdb_id (gs_tmdb_id r) \<noteq> [] then saved_title r @ ''-'' @ normalize_tmdb_id (gs_tmdb_id r)
      else saved_title r @ ''-'' @ normalize_year (gs_year r))"

definition gallery_file_name :: "(string \<Rightarrow> web_url option) \<Rightarrow> int \<Rightarrow> string \<Rightarrow> string \<Rightarrow> gallery_save_request \<Rightarrow> string" where
  "gallery_file_name parse_url now rnd playable_url r =
     build_unique_video_filename (saved_title r @ (if normalize_year (gs_year r) = [] then [] else CHR ''-'' # normalize_year (gs_year r)))
       (infer_gallery_video_extension parse_url playable_url (gs_filename_hint r)) now rnd"

definition saved_episode :: "gallery_save_request \<Rightarrow> string \<Rightarrow> int \<Rightarrow> series_episode_entry" where
  "saved_episode r file_name now =
     (let n = normalize_upload_episode_ordinal (gs_episode_number r) 1
      in \<lparr>ee_title = normalize_whitespace (if gs_episode_title r = [] then ''Episode '' @ show_int n else gs_episode_title r),
          ee_description = normalize_whitespace (gs_description r), ee_thumb = if_empty_then (normalize_whitespace (gs_thumb r)) DEFAULT_THUMB,
          ee_src = build_asset_video_source file_name, ee_content_kind = ''series'',
          ee_season_number = normalize_upload_episode_ordinal (gs_season_number r) 1, ee_episode_number = n, ee_uploaded_at = now\<rparr>)"

definition saved_movie :: "gallery_save_request \<Rightarrow> string \<Rightarrow> int \<Rightarrow> movie_entry" where
  "saved_movie r file_name now =
     \<lparr>me_id = build_upload_movie_id (gallery_seed r), me_title = saved_title r, me_tmdb_id = normalize_tmdb_id (gs_tmdb_id r),
      me_year = normalize_year (gs_year r), me_src = build_asset_video_source file_name,
      me_thumb = if_empty_then (normalize_whitespace (gs_thumb r)) DEFAULT_THUMB,
      me_description = normalize_whitespace (gs_description r), me_uploaded_at = now\<rparr>"

definition save_playable_stream_to_gallery ::
  "upload_config \<Rightarrow> (string \<Rightarrow> web_url option) \<Rightarrow> upload_tools \<Rightarrow> io_faults \<Rightarrow> process_faults \<Rightarrow> int \<Rightarrow> string \<Rightarrow>
   (string \<Rightarrow> download_answer) \<Rightarrow> gallery_save_request \<Rightarrow> upload_service \<Rightarrow> json app_result \<times> upload_service" where
  "save_playable_stream_to_gallery cfg parse_url tools io pf now rnd download r st =
     (let playable_url = normalize_gallery_download_url parse_url (gs_playable_url r)
      in if playable_url = [] then (Inl (bad_request ''Missing or invalid playableUrl.''), st)
         else if \<not> is_allowed_gallery_download_url parse_url playable_url
         then (Inl (bad_request ''Only Real-Debrid HTTPS download URLs are supported for gallery saves.''), st)
         else let media_type = normalize_gallery_media_type (gs_media_type r); tmdb_id = normalize_tmdb_id (gs_tmdb_id r);
                  file_name = gallery_file_name parse_url now rnd playable_url r;
                  source_path = build_asset_video_source file_name;
                  tail = [(''src'', JStr source_path), (''mediaType'', JStr media_type), (''tmdbId'', JStr tmdb_id)]
              in case download_to_gallery cfg io pf (download playable_url) (join_path (uc_upload_temp_dir cfg) (file_name @ ''.part''))
                     (video_path cfg file_name) (up_files st) of
                  (Inl e, files) \<Rightarrow> (Inl e, st\<lparr>up_files := files\<rparr>)
                | (Inr _, files) \<Rightarrow>
                    if media_type = ''tv'' then
                      (let episode = saved_episode r file_name now
                       in case change_library tools pf now
                             (upsert_saved_episode (gallery_seed r) (saved_title r) tmdb_id (normalize_year (gs_year r)) episode)
                             (st\<lparr>up_files := files\<rparr>) of
                           (Inl e, st) \<Rightarrow> (Inl e, st)
                         | (Inr s, st) \<Rightarrow> (Inr (JObj ([(''series'', series_json s), (''episode'', episode_json episode)] @ tail)), st))
                    else
                      (let movie = saved_movie r file_name now
                       in case change_library tools pf now (\<lambda>l. Inr ((), l\<lparr>lib_movies := upsert_movie_entry_in_library l movie\<rparr>))
                             (st\<lparr>up_files := files\<rparr>) of
                           (Inl e, st) \<Rightarrow> (Inl e, st)
                         | (Inr _, st) \<Rightarrow> (Inr (JObj ((''movie'', movie_json movie) # tail)), st)))"



section \<open>The file of an upload\<close>

text \<open>What is relied on of \<open>ffmpeg\<close>: it writes its last argument only, and has written it when it succeeds.\<close>

definition writes_its_output :: "upload_tools \<Rightarrow> bool" where
  "writes_its_output tools \<longleftrightarrow>
     (\<forall>command files r files'. ut_run tools command files = (r, files') \<longrightarrow>
        (\<forall>p. p \<noteq> last command \<longrightarrow> map_of files' p = map_of files p) \<and> (isl r \<or> map_of files' (last command) \<noteq> None))"

lemma run_ffmpeg_writes:
  assumes "writes_its_output tools" "run_ffmpeg tools command files = (r, files')"
  shows "p \<noteq> last command \<Longrightarrow> map_of files' p = map_of files p" "r = Inr u \<Longrightarrow> map_of files' (last command) \<noteq> None"
  using assms unfolding run_ffmpeg_def writes_its_output_def by (fastforce split: prod.splits sum.splits)+

lemma conversions_write:
  assumes "writes_its_output tools"
  shows "convert_mkv_to_mp4_lossless tools a b files = (Inr u, files') \<Longrightarrow> map_of files' b \<noteq> None"
    and "convert_media_audio_to_aac_keeping_video tools a b files = (Inr u, files') \<Longrightarrow> map_of files' b \<noteq> None"
    and "keep_preferred_audio_track_with_video_copy tools a b n files = (Inr u, files') \<Longrightarrow> map_of files' b \<noteq> None"
    and "convert_media_audio_to_aac_keeping_video tools a b files = (r, files') \<Longrightarrow> p \<noteq> b \<Longrightarrow> map_of files' p = map_of files p"
    and "keep_preferred_audio_track_with_video_copy tools a b n files = (r, files') \<Longrightarrow> p \<noteq> b \<Longrightarrow> map_of files' p = map_of files p"
  using run_ffmpeg_writes [OF assms]
  unfolding convert_mkv_to_mp4_lossless_def convert_media_audio_to_aac_keeping_video_def keep_preferred_audio_track_with_video_copy_def
  by (fastforce simp del: not_None_eq)+

lemma remove_other: "p \<noteq> q \<Longrightarrow> map_of (remove_file_if_present cfg q files) p = map_of files p"
  by (simp add: remove_file_if_present_def delete_conv')

lemma join_path_eq [simp]: "join_path d a = join_path d b \<longleftrightarrow> a = b"
  by (simp add: join_path_def)

lemma video_path_eq [simp]: "video_path cfg a = video_path cfg b \<longleftrightarrow> a = b"
  by (simp add: video_path_def)

lemma tail_after_last:
  "a @ c # x = b @ c # y \<Longrightarrow> c \<notin> set x \<Longrightarrow> c \<notin> set y \<Longrightarrow> x = y"
proof -
  assume h: "a @ c # x = b @ c # y" "c \<notin> set x" "c \<notin> set y"
  have r: "takeWhile (\<lambda>d. d \<noteq> c) (rev (a @ c # x)) = rev x" if "c \<notin> set x" for a x
    using that by (auto simp: takeWhile_append)
  show ?thesis using r [OF h(2), of a] r [OF h(3), of b] h(1) by simp
qed

lemma stamped_inj:
  assumes "stamped a now r ext = stamped b now s ext" and "CHR ''-'' \<notin> set r" "CHR ''-'' \<notin> set s" "CHR ''-'' \<notin> set ext"
  shows "r = s"
  using tail_after_last [of "a @ CHR ''-'' # show_int now" "CHR ''-''" "r @ ext" "b @ CHR ''-'' # show_int now" "s @ ext"] assms
  by (simp add: stamped_def)

text \<open>Random suffixes: different, without dashes and white space.\<close>

definition suffixes_ok :: "(nat \<Rightarrow> string) \<Rightarrow> bool" where
  "suffixes_ok rnd \<longleftrightarrow> distinct [rnd 0, rnd 1, rnd 2] \<and>
     (\<forall>n \<in> {0, 1, 2}. CHR ''-'' \<notin> set (rnd n) \<and> list_all (\<lambda>c. \<not> is_whitespace c) (rnd n))"

lemma names_differ:
  "suffixes_ok rnd \<Longrightarrow> i \<in> {0, 1, 2} \<Longrightarrow> j \<in> {0, 1, 2} \<Longrightarrow> i \<noteq> j \<Longrightarrow>
   build_unique_mp4_filename a now (rnd i) \<noteq> build_unique_mp4_filename b now (rnd j)"
  using stamped_inj [of _ now "rnd i" "''.mp4''" _ "rnd j"] unfolding build_unique_mp4_filename_def suffixes_ok_def
  by (auto simp: insert_iff)

lemma place_upload_file:
  assumes "writes_its_output tools" "\<And>n. input_path \<noteq> video_path cfg n"
    and "place_upload cfg tools rename_fault input_path original_name name files = (Inr m, files')"
  shows "sm_file_name m = name" "map_of files' (video_path cfg name) \<noteq> None"
  using assms(3) assms(2) [THEN not_sym]
  by (auto simp: place_upload_def rename_file_def Let_def remove_other update_conv'
      split: if_splits prod.splits sum.splits option.splits dest: conversions_write(1) [OF assms(1), unfolded not_None_eq])

lemma transcode_audio_file:
  assumes "writes_its_output tools" "map_of files (video_path cfg (sm_file_name m)) \<noteq> None" "sm_file_name m \<noteq> name"
    and "transcode_audio cfg tools wanted name m files = (m', files')"
  shows "map_of files' (video_path cfg (sm_file_name m')) \<noteq> None" "sm_file_name m' \<in> {sm_file_name m, name}"
  using assms(2,3,4) conversions_write(4) [OF assms(1)]
  by (auto simp: transcode_audio_def Let_def remove_other split: if_splits prod.splits sum.splits
      dest: conversions_write(2) [OF assms(1), unfolded not_None_eq])

lemma enforce_english_audio_file:
  assumes "writes_its_output tools" "map_of files (video_path cfg (sm_file_name m)) \<noteq> None" "sm_file_name m \<noteq> name"
    and "enforce_english_audio cfg tools name m files = (m', files')"
  shows "map_of files' (video_path cfg (sm_file_name m')) \<noteq> None" "sm_file_name m' \<in> {sm_file_name m, name}"
  using assms(2,3,4) conversions_write(5) [OF assms(1)]
  by (auto simp: enforce_english_audio_def Let_def remove_other split: option.splits prod.splits sum.splits
      dest: conversions_write(3) [OF assms(1), unfolded not_None_eq])

lemma store_media_file:
  assumes "writes_its_output tools" "suffixes_ok rnd" "\<And>n. input_path \<noteq> video_path cfg n"
    and "store_media cfg tools fault now rnd input_path original_name base transcode files = (Inr m, files')"
  shows "map_of files' (video_path cfg (sm_file_name m)) \<noteq> None"
    and "\<exists>b i. i \<in> {0, 1, 2} \<and> sm_file_name m = build_unique_mp4_filename b now (rnd i)"
proof -
  let ?base = "if base = [] then original_name else base"
  let ?f = "\<lambda>i e. build_unique_mp4_filename (?base @ e) now (rnd i)"
  from assms(4) obtain m0 files0 m1 files1
    where p: "place_upload cfg tools fault input_path original_name (?f 0 []) files = (Inr m0, files0)"
      and t: "transcode_audio cfg tools transcode (?f 1 ''-aac'') m0 files0 = (m1, files1)"
      and e: "enforce_english_audio cfg tools (?f 2 ''-en'') m1 files1 = (m, files')"
    by (auto simp: store_media_def Let_def split: prod.splits sum.splits)
  note n = names_differ [OF assms(2)]
  note p1 = place_upload_file [OF assms(1,3) p]
  have "sm_file_name m0 \<noteq> ?f 1 ''-aac''" unfolding p1(1) by (rule n) simp_all
  note t1 = transcode_audio_file [OF assms(1) _ this t]
  have "sm_file_name m1 \<noteq> ?f 2 ''-en''"
    using t1(2) p1 n [of 0 2 "?base @ []" now "?base @ ''-en''"] n [of 1 2 "?base @ ''-aac''" now "?base @ ''-en''"] by auto
  note e1 = enforce_english_audio_file [OF assms(1) _ this e]
  show "map_of files' (video_path cfg (sm_file_name m)) \<noteq> None" using e1(1) t1(1) p1 by simp
  have "sm_file_name m \<in> {?f 0 [], ?f 1 ''-aac'', ?f 2 ''-en''}" using e1(2) t1 p1 by auto
  then show "\<exists>b i. i \<in> {0, 1, 2} \<and> sm_file_name m = build_unique_mp4_filename b now (rnd i)" by blast
qed


section \<open>The entry of an upload\<close>

lemma word_clean: "words_ok [w] \<Longrightarrow> clean w"
  using clean_plain by (simp add: words_ok_def)

lemma show_int_no_white: "list_all (\<lambda>c. \<not> is_whitespace c) (show_int n)"
proof -
  have "\<not> is_whitespace c" if "c \<in> set (show_nat k)" for c k
    using show_nat_digits [OF that] by (auto simp: is_ascii_digit_def is_whitespace_def)
  then show ?thesis by (auto simp: show_int_def list_all_iff is_whitespace_def)
qed

lemma slug_no_white: "slug_ok s \<Longrightarrow> list_all (\<lambda>c. \<not> is_whitespace c) s"
  by (auto simp: slug_ok_def list_all_iff dest: slug_char_plain)

lemma slug_upload [simp]: "slug_ok ''upload''" "slug_ok ''movie''"
  by code_simp+

lemma video_source_clean:
  assumes "list_all (\<lambda>c. \<not> is_whitespace c) r"
  shows "clean (build_asset_video_source (build_unique_mp4_filename b now r)) \<and> build_asset_video_source (build_unique_mp4_filename b now r) \<noteq> []"
proof -
  let ?f = "build_unique_mp4_filename b now r"
  have "list_all (\<lambda>c. \<not> is_whitespace c) ?f"
    using assms slug_no_white [OF slugify_ok [OF slug_upload(1)]] show_int_no_white
    by (simp add: build_unique_mp4_filename_def stamped_def is_whitespace_def)
  moreover from this have "trim ?f = ?f" using clean_trim clean_plain by blast
  ultimately have "list_all (\<lambda>c. \<not> is_whitespace c) (build_asset_video_source ?f)"
    by (simp add: build_asset_video_source_def is_whitespace_def)
  then show ?thesis using clean_plain by (simp add: build_asset_video_source_def)
qed

text \<open>Metadata as a request gives it.\<close>

definition metadata_ok :: "upload_metadata \<Rightarrow> bool" where
  "metadata_ok d \<longleftrightarrow> clean (um_title d) \<and> normalize_year (um_year d) = um_year d \<and> clean (um_description d) \<and> clean (um_thumb d)"

lemma metadata_of_request: "metadata_ok (build_upload_metadata_from_map show_float payload)"
  by (simp add: metadata_ok_def build_upload_metadata_from_map_def upload_text_field_def clean_def)

lemma id_clean: "clean (build_upload_movie_id title) \<and> build_upload_movie_id title \<noteq> []"
proof -
  have "list_all (\<lambda>c. \<not> is_whitespace c) (build_upload_movie_id title)"
    using slug_no_white [OF slugify_ok [OF slug_upload(2)]] by (simp add: build_upload_movie_id_def is_whitespace_def)
  then show ?thesis using clean_plain by (simp add: build_upload_movie_id_def)
qed

lemma uploaded_movie_wf:
  assumes "metadata_ok d" "i64_range now" "sm_file_name m = build_unique_mp4_filename b now r" "list_all (\<lambda>c. \<not> is_whitespace c) r"
  shows "wf_movie (uploaded_movie original_name d m now)"
proof -
  have u: "clean ''Untitled Movie''" by code_simp
  have t: "clean (upload_movie_title original_name d)"
    using assms(1) by (simp add: upload_movie_title_def metadata_ok_def clean_def)
  show ?thesis
    using assms(1,2) u t id_clean video_source_clean [OF assms(4), of b now]
    by (simp add: uploaded_movie_def wf_movie_def metadata_ok_def upload_thumb_def assms(3) Let_def)
qed

lemma written_movies:
  "\<forall>m \<in> set (lib_movies l). wf_movie m \<Longrightarrow> lib_movies (normalize_local_library show now (library_json l)) = lib_movies l"
  by (simp add: normalize_local_library_def library_json_def array_field_def map_filter_inverse normalize_movie_json)

lemma read_fault [simp]: "read_local_library jt now (Inl e) = Inl (internal e)"
  by (simp add: read_local_library_def)

lemma change_library_ok:
  assumes "change_library tools pf now f st = (Inr out, st')"
  shows "\<exists>l l'. read_local_library (ut_text tools) now (Inr (up_library st)) = Inr l \<and> f l = Inr (out, l') \<and>
    up_library st' = Some (jt_pretty (ut_text tools) (library_json
      (normalize_local_library (jt_show (ut_text tools)) now (library_json l'))) @ [CHR 0x0A]) \<and> up_files st' = up_files st"
  using assms
  by (auto simp: change_library_def mutate_local_library_def write_local_library_def write_local_library_file_atomically_def Let_def
      split: sum.splits prod.splits option.splits if_splits)

lemma process_movie_ok:
  assumes "process_uploaded_media_into_library cfg tools pf now rnd input_path original_name d st = (Inr reply, st')"
    and "normalize_upload_content_type (um_content_type d) = ''movie''"
  shows "\<exists>m files. store_media cfg tools (pf_rename pf) now rnd input_path original_name (upload_movie_title original_name d)
      (um_transcode_audio_to_aac d) (up_files st) = (Inr m, files) \<and>
    change_library tools pf now (\<lambda>l. Inr ((), l\<lparr>lib_movies := upsert_movie_entry_in_library l (uploaded_movie original_name d m now)\<rparr>))
      (st\<lparr>up_files := files\<rparr>) = (Inr (), st')"
  using assms by (auto simp: process_uploaded_media_into_library_def Let_def split: if_splits sum.splits prod.splits option.splits)

lemma uploaded_movie_entered:
  assumes "writes_its_output tools" "suffixes_ok rnd" "\<And>n. input_path \<noteq> video_path cfg n" "metadata_ok d" "i64_range now"
    and "process_uploaded_media_into_library cfg tools pf now rnd input_path original_name d st = (Inr reply, st')"
    and "normalize_upload_content_type (um_content_type d) = ''movie''"
  shows "\<exists>l w m. read_local_library (ut_text tools) now (Inr (up_library st)) = Inr l \<and>
    up_library st' = Some (jt_pretty (ut_text tools) (library_json w) @ [CHR 0x0A]) \<and>
    lib_movies w = uploaded_movie original_name d m now # filter (\<lambda>c. \<not> movie_is_replaced (uploaded_movie original_name d m now) c) (lib_movies l) \<and>
    map_of (up_files st') (video_path cfg (sm_file_name m)) \<noteq> None"
proof -
  from process_movie_ok [OF assms(6,7)] obtain m files
    where m: "store_media cfg tools (pf_rename pf) now rnd input_path original_name (upload_movie_title original_name d)
        (um_transcode_audio_to_aac d) (up_files st) = (Inr m, files)"
      and c: "change_library tools pf now (\<lambda>l. Inr ((), l\<lparr>lib_movies := upsert_movie_entry_in_library l (uploaded_movie original_name d m now)\<rparr>))
        (st\<lparr>up_files := files\<rparr>) = (Inr (), st')" by blast
  note f = store_media_file [OF assms(1-3) m]
  from f(2) obtain b i where n: "i \<in> {0, 1, 2}" "sm_file_name m = build_unique_mp4_filename b now (rnd i)" by blast
  then have "wf_movie (uploaded_movie original_name d m now)"
    using uploaded_movie_wf [OF assms(4,5) n(2)] assms(2) by (auto simp: suffixes_ok_def)
  moreover from change_library_ok [OF c] obtain l where l: "read_local_library (ut_text tools) now (Inr (up_library st)) = Inr l"
    "up_library st' = Some (jt_pretty (ut_text tools) (library_json (normalize_local_library (jt_show (ut_text tools)) now
      (library_json (l\<lparr>lib_movies := upsert_movie_entry_in_library l (uploaded_movie original_name d m now)\<rparr>)))) @ [CHR 0x0A])"
    "up_files st' = files" by auto
  moreover have "wf_library l" by (rule read_wf [OF l(1) assms(5)])
  ultimately have "lib_movies (normalize_local_library (jt_show (ut_text tools)) now
      (library_json (l\<lparr>lib_movies := upsert_movie_entry_in_library l (uploaded_movie original_name d m now)\<rparr>))) =
      upsert_movie_entry_in_library l (uploaded_movie original_name d m now)"
    by (subst written_movies) (auto simp: upsert_movie_entry_in_library_def wf_library_def)
  with l f(1) show ?thesis unfolding upsert_movie_entry_in_library_def by metis
qed


text \<open>C38: An uploaded movie is in the library, once, with a file behind it. When processing succeeds, the library
  file is rewritten to one whose first movie is the entry of this upload, followed by the movies it
  does not replace, in their order; none of these has its source, its TMDB number, or its title and
  year; and the file the entry names exists, whatever conversions were made or failed.\<close>

theorem uploaded_movie_is_listed:
  assumes "writes_its_output tools" and "suffixes_ok rnd" and "\<And>n. input_path \<noteq> video_path cfg n" and "i64_range now"
    and "process_uploaded_media_into_library cfg tools pf now rnd input_path original_name
      (build_upload_metadata_from_map show_float payload) st = (Inr reply, st')"
    and "upload_content_type payload = ''movie''"
  shows "\<exists>(l :: library) (w :: library) (m :: stored_media). read_local_library (ut_text tools) now (Inr (up_library st)) = Inr l \<and>
    up_library st' = Some (jt_pretty (ut_text tools) (library_json w) @ [CHR 0x0A]) \<and>
    (let entry = uploaded_movie original_name (build_upload_metadata_from_map show_float payload) m now
     in lib_movies w = entry # filter (\<lambda>c. \<not> movie_is_replaced entry c) (lib_movies l) \<and>
        me_src entry = build_asset_video_source (sm_file_name m)) \<and>
    map_of (up_files st') (video_path cfg (sm_file_name m)) \<noteq> None"
proof -
  have "lower (trim ''movie'') = ''movie''" by code_simp
  then have "normalize_upload_content_type (um_content_type (build_upload_metadata_from_map show_float payload)) = ''movie''"
    by (simp add: build_upload_metadata_from_map_def assms(6) normalize_upload_content_type_def Let_def)
  from uploaded_movie_entered [OF assms(1-3) metadata_of_request assms(4,5) this] show ?thesis
    by (simp add: uploaded_movie_def Let_def)
qed

definition sample_tools :: upload_tools where
  "sample_tools = \<lparr>ut_run = (\<lambda>command files. (Inr (), AList.update (last command) ''v'' files)), ut_probe = (\<lambda>_ _. None),
     ut_text = \<lparr>jt_parse = (\<lambda>_. Inl ''''), jt_pretty = (\<lambda>_. ''{}''), jt_show = (\<lambda>_. ''null'')\<rparr>\<rparr>"

definition sample_suffixes :: "nat \<Rightarrow> string" where
  "sample_suffixes n = (if n = 0 then ''a'' else if n = 1 then ''b'' else ''c'')"

theorem uploaded_movie_is_listed_witness:
  "\<exists>(l :: library) (w :: library) (m :: stored_media). read_local_library (ut_text sample_tools) 7 (Inr None) = Inr l \<and>
     (let entry = uploaded_movie ''x.mp4'' (build_upload_metadata_from_map (\<lambda>_. []) (JObj [(''title'', JStr ''A'')])) m 7
      in lib_movies w = entry # filter (\<lambda>c. \<not> movie_is_replaced entry c) (lib_movies l) \<and>
         me_src entry = build_asset_video_source (sm_file_name m))"
proof -
  let ?d = "build_upload_metadata_from_map (\<lambda>_. []) (JObj [(''title'', JStr ''A'')])"
  let ?st = "\<lparr>up_sessions = [], up_files = [(''tmp/u.mp4'', ''v'')], up_library = None, up_gallery_jobs = []\<rparr>"
  let ?r = "process_uploaded_media_into_library sample_upload_config sample_tools no_process_faults 7 sample_suffixes ''tmp/u.mp4'' ''x.mp4'' ?d ?st"
  have w: "writes_its_output sample_tools"
    by (auto simp: writes_its_output_def sample_tools_def update_conv')
  have s: "suffixes_ok sample_suffixes" by (simp add: suffixes_ok_def sample_suffixes_def is_whitespace_def)
  have p: "''tmp/u.mp4'' \<noteq> video_path sample_upload_config n" for n
    by (simp add: video_path_def join_path_def sample_upload_config_def)
  have n: "i64_range 7" by code_simp
  have "\<not> isl (fst ?r)" by code_simp
  then obtain reply where r: "?r = (Inr reply, snd ?r)" by (metis prod.collapse sum.collapse(2))
  have t: "upload_content_type (JObj [(''title'', JStr ''A'')]) = ''movie''" by code_simp
  show ?thesis
    using uploaded_movie_is_listed [OF w s p n r t] unfolding upload_service.select_convs Let_def
    by (elim exE conjE) (intro exI conjI, assumption+)
qed


section \<open>The place of an episode\<close>

lemma find_index_some: "find_index p xs = Some n \<Longrightarrow> n < length xs \<and> p (xs ! n)"
  by (induction xs arbitrary: n) (auto split: if_splits)

lemma filter_update_same: "n < length xs \<Longrightarrow> \<not> p (xs ! n) \<Longrightarrow> \<not> p y \<Longrightarrow> filter p (xs[n := y]) = filter p xs"
proof (induction xs arbitrary: n)
  case (Cons x xs)
  then show ?case by (cases n) auto
qed simp

lemma place_episode_facts:
  assumes "normalized_order e = (s, n)"
  shows "filter (\<lambda>x. normalized_order x = (s, n)) (place_episode e s n es) = [e]"
    and "sorted (map normalized_order (place_episode e s n es))"
    and "mset (filter (\<lambda>x. normalized_order x \<noteq> (s, n)) (place_episode e s n es)) = mset (filter (\<lambda>x. normalized_order x \<noteq> (s, n)) es)"
proof -
  have "filter (\<lambda>x. normalized_order x = (s, n)) (place_episode e s n es) =
      filter (\<lambda>x. normalized_order x = (s, n)) (filter (\<lambda>x. normalized_order x \<noteq> (s, n)) es @ [e])"
    unfolding place_episode_def by (rule sort_key_stable)
  then show "filter (\<lambda>x. normalized_order x = (s, n)) (place_episode e s n es) = [e]"
    using assms by simp
  show "sorted (map normalized_order (place_episode e s n es))" by (simp add: place_episode_def)
  show "mset (filter (\<lambda>x. normalized_order x \<noteq> (s, n)) (place_episode e s n es)) = mset (filter (\<lambda>x. normalized_order x \<noteq> (s, n)) es)"
    using assms by (simp add: place_episode_def filter_sort del: mset_filter)
qed


lemma ordinal_of_range: "1 \<le> ordinal_of k v \<and> ordinal_of k v \<le> 999"
  by (auto simp: ordinal_of_def normalize_upload_episode_ordinal_def split: option.split)

text \<open>What it means that an episode was put into the series \<open>i\<close> of a library.\<close>

definition series_before :: "library \<Rightarrow> string \<Rightarrow> series_episode_entry list" where
  "series_before l i =
     (case find_index (\<lambda>s. eq_ignore_ascii_case (sy_id s) i) (lib_series l) of Some n \<Rightarrow> sy_episodes (lib_series l ! n) | None \<Rightarrow> [])"

definition episode_placed :: "library \<Rightarrow> string \<Rightarrow> series_episode_entry \<Rightarrow> series_entry \<Rightarrow> library \<Rightarrow> bool" where
  "episode_placed l i episode t l' \<longleftrightarrow>
     t \<in> set (lib_series l') \<and> sy_id t = i \<and>
     filter (\<lambda>e. normalized_order e = episode_order episode) (sy_episodes t) = [episode] \<and>
     mset (filter (\<lambda>e. normalized_order e \<noteq> episode_order episode) (sy_episodes t)) =
       mset (filter (\<lambda>e. normalized_order e \<noteq> episode_order episode) (series_before l i)) \<and>
     sorted (map normalized_order (sy_episodes t)) \<and>
     filter (\<lambda>s. \<not> eq_ignore_ascii_case (sy_id s) i) (lib_series l') = filter (\<lambda>s. \<not> eq_ignore_ascii_case (sy_id s) i) (lib_series l)"

lemma put_episode_placed:
  assumes "episode_order episode = normalized_order episode" "sy_id t = i"
    and "sy_episodes t = place_episode episode (ee_season_number episode) (ee_episode_number episode) (series_before l i)"
  shows "episode_placed l i episode t (put_series (find_index (\<lambda>s. eq_ignore_ascii_case (sy_id s) i) (lib_series l)) t l)"
proof -
  let ?x = "find_index (\<lambda>s. eq_ignore_ascii_case (sy_id s) i) (lib_series l)"
  have "t \<in> set (lib_series (put_series ?x t l)) \<and>
    filter (\<lambda>s. \<not> eq_ignore_ascii_case (sy_id s) i) (lib_series (put_series ?x t l)) = filter (\<lambda>s. \<not> eq_ignore_ascii_case (sy_id s) i) (lib_series l)"
  proof (cases ?x)
    case (Some n)
    with find_index_some [OF Some] assms(2) show ?thesis
      by (simp add: put_series_def set_update_memI filter_update_same eq_ignore_ascii_case_def)
  qed (simp add: put_series_def assms(2) eq_ignore_ascii_case_def)
  then show ?thesis
    using place_episode_facts [of episode "ee_season_number episode" "ee_episode_number episode"] assms
    by (simp add: episode_placed_def episode_order_def)
qed

text \<open>A new episode takes its place in its series, whether it was uploaded or saved to the gallery. Of the
  series it goes to, exactly one episode has its season and number, the new one; the other episodes
  of the series are the ones that were there; the episodes are in order; and every other series of
  the library is untouched.\<close>

theorem new_episode_placed:
  fixes m :: stored_media
  shows "(\<exists>t l'. upsert_uploaded_episode i title kind tmdb_id year
        (uploaded_episode is_course (build_upload_metadata_from_map show_float payload) m now) l = Inr (t, l') \<and>
      episode_placed l i (uploaded_episode is_course (build_upload_metadata_from_map show_float payload) m now) t l') \<and>
    (\<exists>t l'. upsert_saved_episode seed title tmdb_id year (saved_episode r file_name now) l = Inr (t, l') \<and>
      episode_placed l (normalize_upload_target_series_id [] seed False) (saved_episode r file_name now) t l')"
proof
  let ?e = "uploaded_episode is_course (build_upload_metadata_from_map show_float payload) m now"
  have o: "episode_order ?e = normalized_order ?e"
    using ordinal_of_range [of "''seasonNumber''" payload] ordinal_of_range [of "''episodeNumber''" payload]
    by (simp add: uploaded_episode_def build_upload_metadata_from_map_def normalized_order_def episode_order_def normalize_upload_episode_ordinal_def)
  show "\<exists>t l'. upsert_uploaded_episode i title kind tmdb_id year ?e l = Inr (t, l') \<and> episode_placed l i ?e t l'"
    unfolding upsert_uploaded_episode_def Let_def
    by (intro exI conjI, rule refl, rule put_episode_placed [OF o]) (simp_all add: series_before_def new_series_def split: option.split)
  let ?s = "saved_episode r file_name now"
  have o: "episode_order ?s = normalized_order ?s"
    by (simp add: saved_episode_def normalized_order_def episode_order_def normalize_upload_episode_ordinal_def Let_def min_def)
  show "\<exists>t l'. upsert_saved_episode seed title tmdb_id year ?s l = Inr (t, l') \<and>
      episode_placed l (normalize_upload_target_series_id [] seed False) ?s t l'"
    unfolding upsert_saved_episode_def Let_def
    by (intro exI conjI, rule refl, rule put_episode_placed [OF o]) (simp_all add: series_before_def new_series_def split: option.split)
qed

section \<open>What the names do not keep apart\<close>

text \<open>While an episode of a series with a TMDB number is downloading, any other episode of that series is
  answered as already queued, and not saved.\<close>

lemma gallery_key_ignores_episode:
  "gallery_job_key (r\<lparr>gs_season_number := s, gs_episode_number := n, gs_episode_title := t, gs_filename_hint := h\<rparr>) = gallery_job_key r"
  "trim (gs_tmdb_id r) \<noteq> [] \<Longrightarrow> gallery_job_key (r\<lparr>gs_playable_url := u\<rparr>) = gallery_job_key r"
  by (simp_all add: gallery_job_key_def build_gallery_download_job_key_def)

text \<open>An explicit series identity with a space is kept for the lookup, but stored as a slug: the next
  upload does not find the series and makes a second one with the same slug.\<close>

lemma explicit_series_id_is_not_stored_as_is:
  "normalize_upload_target_series_id ''local-series-my show'' x False = ''local-series-my show'' \<and>
   slugify (normalize_whitespace ''local-series-my show'') ''series'' = ''local-series-my-show'' \<and>
   \<not> eq_ignore_ascii_case ''local-series-my-show'' ''local-series-my show''"
proof -
  have "lower (normalize_whitespace ''local-series-my show'') = ''local-series-my show''"
    "slugify (normalize_whitespace ''local-series-my show'') ''series'' = ''local-series-my-show''"
    "\<not> eq_ignore_ascii_case ''local-series-my-show'' ''local-series-my show''" by code_simp+
  then show ?thesis by (simp add: normalize_upload_target_series_id_def Let_def)
qed

text \<open>A connection that breaks during an upload in one request leaves the file behind; no session names
  it, so that no sweep removes it.\<close>

lemma broken_direct_upload_leaves_file:
  assumes "uc_ffmpeg_available cfg" "io_dirs io = None" "io_open io = None" "validate_upload_extension name = Inr ()" "trim name = name" "name \<noteq> []"
    and "length b \<le> uc_max_upload_bytes cfg"
  shows "map_of (up_files (snd (handle_direct_upload cfg tools io pf now rnd (Some [Field ''file'' (Some name) [Bytes b None, Body_failed m]]) st)))
    (join_path (uc_upload_temp_dir cfg) (build_upload_temp_filename name now (rnd 3))) = Some b"
  using assms by (simp add: handle_direct_upload_def require_ffmpeg_def parse_multipart_upload_def ensure_upload_directories_def Let_def update_conv')


end
