(* ===== verification/SourceText.thy ===== *)
theory SourceText
  imports Library LivePlaylists Normalize SourceHealth "HOL-Library.List_Lexorder" "HOL-Library.Char_ord"
begin

text \<open>
  What the resolver reads out of the texts of a torrent source (\<open>src/resolver.rs\<close>,
  \<open>src/resolver/scoring.rs\<close>): its hash, container, languages, resolution, season and episode, size,
  seeders and running time, and whether it is the title that was asked for. The \<open>regex\<close> crate is
  the parameter \<open>re\<close>: for one of the program's expressions and a text, the list of its matches, each the
  list of its groups. Texts are byte strings, and lower case is that
  of ASCII.
\<close>

section \<open>Regular expressions\<close>

datatype regex =
    SEED_COUNT_RE | STREAM_SIZE_RE | STREAM_RELEASE_GROUP_RE | H264_RELEASE_RE | EXPENSIVE_LOCAL_VIDEO_CODEC_RE
  | HXH_SEASON_EPISODE_RE | X_SEASON_EPISODE_RE | EPISODE_ONLY_RE | SEASON_PACK_RE
  | HMS_RUNTIME_RE | HOURS_RUNTIME_RE | MINUTES_RUNTIME_RE | COMPACT_RUNTIME_RE
  | LOW_QUALITY_THEATRICAL_RELEASE_RE | LOW_QUALITY_SCREENER_RELEASE_RE
  | RESOLUTION_2160_RE | RESOLUTION_1080_RE | RESOLUTION_720_RE | RESOLUTION_480_RE
  | MULTI_AUDIO_RELEASE_RE | FILENAME_YEAR_RE

type_synonym regex_engine = "regex \<Rightarrow> string \<Rightarrow> string option list list"

definition re_is_match :: "regex_engine \<Rightarrow> regex \<Rightarrow> string \<Rightarrow> bool" where
  "re_is_match re r t \<longleftrightarrow> re r t \<noteq> []"

definition re_group :: "nat \<Rightarrow> string option list \<Rightarrow> string option" where
  "re_group i m = (if i < length m then m ! i else None)"

text \<open>\<open>RE.captures(t).and_then(|c| c.get(i))\<close>\<close>

definition re_first :: "regex_engine \<Rightarrow> regex \<Rightarrow> nat \<Rightarrow> string \<Rightarrow> string option" where
  "re_first re r i t = (case re r t of [] \<Rightarrow> None | m # _ \<Rightarrow> re_group i m)"

text \<open>\<open>.and_then(|value| value.as_str().parse::<i64>().ok()).unwrap_or_default()\<close>\<close>

definition i64_or_0 :: "string option \<Rightarrow> int" where
  "i64_or_0 t = (case Option.bind t parse_i64 of Some n \<Rightarrow> n | None \<Rightarrow> 0)"

text \<open>\<open>f64::round\<close>: halves go away from zero; \<open>as i64\<close> saturates.\<close>

definition round_away :: "rat \<Rightarrow> int" where
  "round_away q = (if 0 \<le> q then \<lfloor>q + 1 / 2\<rfloor> else - \<lfloor>1 / 2 - q\<rfloor>)"

fun f64_to_i64 :: "f64 \<Rightarrow> int" where
  "f64_to_i64 (Fin q) = sat64 (round_away q)"
| "f64_to_i64 PosInf = i64_max"
| "f64_to_i64 NegInf = i64_min"
| "f64_to_i64 NaN = 0"

section \<open>Sources\<close>

record discovery_stream =
  ds_info_hash :: string
  ds_file_idx :: "nat option"
  ds_name :: string
  ds_title :: string
  ds_description :: string
  ds_filename :: string
  ds_sources :: "string list"
  ds_magnet_url :: string
  ds_discovery_provider :: string
  ds_download_url :: string
  ds_real_debrid_cached :: bool

record resolve_metadata =
  rm_tmdb_id :: string
  rm_imdb_id :: string
  rm_display_title :: string
  rm_display_year :: string
  rm_runtime_seconds :: int
  rm_season_number :: int
  rm_episode_number :: int
  rm_episode_title :: string
  rm_media_type :: string

definition is_hexdigit :: "char \<Rightarrow> bool" where
  "is_hexdigit c \<longleftrightarrow> is_ascii_digit c \<or> (CHR ''a'' \<le> c \<and> c \<le> CHR ''f'') \<or> (CHR ''A'' \<le> c \<and> c \<le> CHR ''F'')"

lemma is_hexdigit_bits [code]:
  "is_hexdigit (Char b0 b1 b2 b3 b4 b5 b6 b7) \<longleftrightarrow>
     is_ascii_digit (Char b0 b1 b2 b3 b4 b5 b6 b7) \<or> \<not> b7 \<and> b6 \<and> \<not> b4 \<and> \<not> b3 \<and> (b0 \<or> b1 \<or> b2) \<and> \<not> (b0 \<and> b1 \<and> b2)"
  by (cases b0; cases b1; cases b2; cases b3; cases b4; cases b5; cases b6; cases b7)
     (simp_all add: is_hexdigit_def is_ascii_digit_def less_eq_char_def)

definition normalize_source_hash :: "string \<Rightarrow> string" where
  "normalize_source_hash v =
     (let normalized = lower (trim v) in if length normalized = 40 \<and> list_all is_hexdigit normalized then normalized else [])"

definition get_stream_info_hash :: "discovery_stream \<Rightarrow> string" where
  "get_stream_info_hash s = normalize_source_hash (ds_info_hash s)"

definition stream_list_contains_hash :: "discovery_stream list \<Rightarrow> string \<Rightarrow> bool" where
  "stream_list_contains_hash streams source_hash \<longleftrightarrow>
     normalize_source_hash source_hash \<noteq> [] \<and> list_ex (\<lambda>s. get_stream_info_hash s = normalize_source_hash source_hash) streams"

section \<open>Texts\<close>

definition normalize_spaces :: "string \<Rightarrow> string" where
  "normalize_spaces v = join_words (split_words v)"

definition join_present :: "string list \<Rightarrow> string" where
  "join_present vs = join_words (filter (\<lambda>v. trim v \<noteq> []) vs)"

definition build_stream_text_raw :: "discovery_stream \<Rightarrow> string" where
  "build_stream_text_raw s = join_present [ds_name s, ds_title s, ds_description s, ds_filename s]"

definition build_stream_text :: "discovery_stream \<Rightarrow> string" where
  "build_stream_text s = lower (build_stream_text_raw s)"

text \<open>Every run of characters that are no lower-case letters or digits becomes one space.\<close>

fun spaced_words :: "bool \<Rightarrow> string \<Rightarrow> string" where
  "spaced_words in_gap [] = []"
| "spaced_words in_gap (c # cs) =
     (if is_ascii_lower c \<or> is_ascii_digit c then c # spaced_words False cs
      else if in_gap then spaced_words True cs else CHR '' '' # spaced_words True cs)"

definition normalize_text_for_match :: "string \<Rightarrow> string" where
  "normalize_text_for_match v = trim (spaced_words False (lower v))"

definition build_stream_release_text :: "discovery_stream \<Rightarrow> string" where
  "build_stream_release_text s = normalize_text_for_match (join_present [ds_name s, ds_title s, ds_description s])"

definition title_match_stopwords :: "string list" where
  "title_match_stopwords = [''the'', ''a'', ''an'', ''and'', ''of'', ''in'', ''on'', ''to'', ''for'', ''vs'', ''v'', ''movie'', ''film'']"

definition tokenize_title_for_match :: "string \<Rightarrow> string list" where
  "tokenize_title_for_match title =
     (let normalized = normalize_text_for_match title
      in if normalized = [] then []
         else filter (\<lambda>t. 2 \<le> length t \<and> t \<notin> set title_match_stopwords) (split_words normalized))"

definition count_matching_title_tokens :: "string \<Rightarrow> string list \<Rightarrow> nat" where
  "count_matching_title_tokens normalized_value title_tokens =
     (if normalized_value = [] \<or> title_tokens = [] then 0
      else length (filter (\<lambda>t. t \<in> set (split_words normalized_value)) title_tokens))"

definition extract_stream_title_lines :: "discovery_stream \<Rightarrow> string list" where
  "extract_stream_title_lines s = filter (\<lambda>l. l \<noteq> []) (map normalize_spaces (str_lines (ds_title s)))"

definition stream_candidate_match_name :: "discovery_stream \<Rightarrow> string" where
  "stream_candidate_match_name s =
     (let filename = normalize_spaces (ds_filename s)
      in if filename \<noteq> [] then filename
         else case extract_stream_title_lines s of
             line # _ \<Rightarrow> line
           | [] \<Rightarrow>
               (let title = normalize_spaces (ds_title s); name = normalize_spaces (ds_name s)
                in if title \<noteq> [] then title else if name \<noteq> [] then name else normalize_spaces (ds_description s)))"

section \<open>Features\<close>

definition normalize_preferred_container :: "string \<Rightarrow> string" where
  "normalize_preferred_container v = (let t = lower (trim v) in if t = ''mp4'' then ''mp4'' else if t = ''mkv'' then ''mkv'' else ''auto'')"

definition normalize_tv_preferred_container :: "string \<Rightarrow> string" where
  "normalize_tv_preferred_container v = (if normalize_preferred_container v = ''mkv'' then ''mkv'' else ''mp4'')"

definition normalize_minimum_seeders :: "string \<Rightarrow> int" where
  "normalize_minimum_seeders v = (case parse_i64 (trim v) of Some n \<Rightarrow> max 0 (min 50000 n) | None \<Rightarrow> 0)"

definition normalize_allowed_formats :: "string \<Rightarrow> string list" where
  "normalize_allowed_formats v =
     (let items = map (lower \<circ> trim) (concat (map (split_on CHR '' '') (split_on CHR '','' v)))
      in sort (remdups (filter (\<lambda>t. t \<in> {''mp4'', ''mkv''}) items)))"

definition SOURCE_LANGUAGE_FILTER_DEFAULT :: string where "SOURCE_LANGUAGE_FILTER_DEFAULT = ''en''"
definition SOURCE_AUDIO_PROFILE_DEFAULT :: string where "SOURCE_AUDIO_PROFILE_DEFAULT = ''single''"

definition normalize_source_language_filter :: "string \<Rightarrow> string" where
  "normalize_source_language_filter v =
     (let t = lower (trim v)
      in if t \<in> {[], ''en'', ''eng'', ''english''} then SOURCE_LANGUAGE_FILTER_DEFAULT
         else if t \<in> {''any'', ''all'', ''auto'', ''*''} then ''any''
         else if t \<in> {''fr'', ''es'', ''de'', ''it'', ''pt''} then t
         else SOURCE_LANGUAGE_FILTER_DEFAULT)"

definition normalize_source_audio_profile_filter :: "string \<Rightarrow> string" where
  "normalize_source_audio_profile_filter v =
     (let t = lower (trim v)
      in if t \<in> {[], ''single'', ''single-audio'', ''single_audio'', ''singleaudio'', ''preferred''} then SOURCE_AUDIO_PROFILE_DEFAULT
         else if t \<in> {''any'', ''all'', ''multi'', ''multi-audio'', ''multi_audio'', ''multiaudio''} then ''any''
         else SOURCE_AUDIO_PROFILE_DEFAULT)"

definition stream_quality_target :: "string \<Rightarrow> int" where
  "stream_quality_target v = (if v = ''2160p'' then 2160 else if v = ''1080p'' then 1080 else if v = ''720p'' then 720 else 0)"

definition audio_language_tokens :: "string \<Rightarrow> string list" where
  "audio_language_tokens lang =
     (if lang = ''en'' then [''english'', '' eng '', ''eng-'', ''eng]'', ''eng)'', ''en audio'', ''dubbed english'']
      else if lang = ''fr'' then [''french'', '' fran'', ''fra '', '' fr '', ''vf'', ''vff'']
      else if lang = ''es'' then [''spanish'', ''espanol'', ''castellano'', '' spa '', ''esp '']
      else if lang = ''de'' then [''german'', '' deutsch'', '' ger '', ''deu '']
      else if lang = ''it'' then [''italian'', '' italiano'', '' ita '']
      else if lang = ''pt'' then [''portuguese'', '' portugues'', '' por '', ''pt-br'', ''brazilian'']
      else [])"

definition audio_languages :: "string list" where
  "audio_languages = [''en'', ''fr'', ''es'', ''de'', ''it'', ''pt'']"

definition get_detected_stream_languages :: "discovery_stream \<Rightarrow> string list" where
  "get_detected_stream_languages s =
     (let stream_text = CHR '' '' # trim (normalize_text_for_match (build_stream_text_raw s)) @ '' ''
      in if trim stream_text = [] then []
         else filter (\<lambda>lang. list_ex (\<lambda>token. let n = normalize_text_for_match token in n \<noteq> [] \<and> contains stream_text (CHR '' '' # n @ '' ''))
           (audio_language_tokens lang)) audio_languages)"

definition matches_source_language_filter :: "discovery_stream \<Rightarrow> string \<Rightarrow> bool" where
  "matches_source_language_filter s source_language \<longleftrightarrow>
     (let lang = normalize_source_language_filter source_language; matched = get_detected_stream_languages s
      in lang = ''any'' \<or>
         (if lang \<in> set matched then length matched = 1 else lang = SOURCE_LANGUAGE_FILTER_DEFAULT \<and> matched = []))"

definition has_explicit_multi_audio_marker :: "regex_engine \<Rightarrow> discovery_stream \<Rightarrow> bool" where
  "has_explicit_multi_audio_marker re s \<longleftrightarrow>
     build_stream_release_text s \<noteq> [] \<and> re_is_match re MULTI_AUDIO_RELEASE_RE (build_stream_release_text s)"

definition parse_vertical_resolution_from_text :: "regex_engine \<Rightarrow> string \<Rightarrow> int" where
  "parse_vertical_resolution_from_text re v =
     (let t = lower v
      in if t = [] then 0
         else if re_is_match re RESOLUTION_2160_RE t then 2160
         else if re_is_match re RESOLUTION_1080_RE t then 1080
         else if re_is_match re RESOLUTION_720_RE t then 720
         else if re_is_match re RESOLUTION_480_RE t then 480
         else 0)"

definition parse_stream_vertical_resolution :: "regex_engine \<Rightarrow> discovery_stream \<Rightarrow> int" where
  "parse_stream_vertical_resolution re s = parse_vertical_resolution_from_text re (build_stream_text s)"

definition infer_stream_container_label :: "discovery_stream \<Rightarrow> string" where
  "infer_stream_container_label s =
     (let t = lower (join_present [ds_filename s, ds_title s, ds_name s, ds_description s])
      in if t = [] then []
         else if contains t ''.mp4'' then ''mp4''
         else if contains t ''.mkv'' then ''mkv''
         else if contains t ''.avi'' then ''avi''
         else if contains t ''.wmv'' then ''wmv''
         else if contains t ''.m3u8'' then ''m3u8''
         else if contains t ''.ts'' then ''ts''
         else if ds_discovery_provider s = ''torznab'' then ''mkv''
         else [])"

definition is_stream_likely_container :: "discovery_stream \<Rightarrow> string \<Rightarrow> bool" where
  "is_stream_likely_container s container \<longleftrightarrow>
     infer_stream_container_label s \<noteq> [] \<and> infer_stream_container_label s = container"

definition parse_seed_count :: "regex_engine \<Rightarrow> string \<Rightarrow> int" where
  "parse_seed_count re stream_title =
     (case re_first re SEED_COUNT_RE 1 stream_title of
        Some v \<Rightarrow> (case parse_i64 (filter is_ascii_digit v) of Some n \<Rightarrow> n | None \<Rightarrow> 0)
      | None \<Rightarrow> 0)"

text \<open>\<open>parse_seed_count(if stream.title.is_empty() { name } else { title })\<close>\<close>

definition stream_seeds :: "regex_engine \<Rightarrow> discovery_stream \<Rightarrow> int" where
  "stream_seeds re s = parse_seed_count re (if ds_title s = [] then ds_name s else ds_title s)"

definition extract_stream_size_label :: "regex_engine \<Rightarrow> discovery_stream \<Rightarrow> string" where
  "extract_stream_size_label re s =
     (case re_first re STREAM_SIZE_RE 1 (ds_title s) of Some v \<Rightarrow> normalize_spaces v | None \<Rightarrow> [])"

definition extract_stream_release_group :: "regex_engine \<Rightarrow> discovery_stream \<Rightarrow> string" where
  "extract_stream_release_group re s =
     (case re_first re STREAM_RELEASE_GROUP_RE 1 (ds_title s) of
        Some v \<Rightarrow> dropWhile (\<lambda>c. \<not> is_ascii_alphanumeric c) (normalize_spaces v)
      | None \<Rightarrow> [])"

fun f64_scale :: "f64 \<Rightarrow> rat \<Rightarrow> f64" where
  "f64_scale (Fin q) m = Fin (q * m)"
| "f64_scale x m = x"

fun f64_positive :: "f64 \<Rightarrow> bool" where
  "f64_positive (Fin q) = (0 < q)"
| "f64_positive PosInf = True"
| "f64_positive NegInf = False"
| "f64_positive NaN = False"

definition size_unit :: "string \<Rightarrow> rat" where
  "size_unit u =
     (if starts_with u ''kb'' \<or> starts_with u ''kib'' then 1024
      else if starts_with u ''mb'' \<or> starts_with u ''mib'' then 1024 ^ 2
      else if starts_with u ''gb'' \<or> starts_with u ''gib'' then 1024 ^ 3
      else if starts_with u ''tb'' \<or> starts_with u ''tib'' then 1024 ^ 4 else 1)"

text \<open>A value that is not a number passes the test for a size of at most zero and becomes zero in the end.\<close>

definition parse_size_label_bytes :: "string \<Rightarrow> int" where
  "parse_size_label_bytes label =
     (case split_words label of
        [] \<Rightarrow> 0
      | number_part # rest \<Rightarrow>
          (let v = (case parse_f64 (filter (\<lambda>c. c \<noteq> CHR '','') number_part) of Some x \<Rightarrow> x | None \<Rightarrow> Fin 0);
               unit_text = (case rest of u # _ \<Rightarrow> lower u | [] \<Rightarrow> ''b'')
           in if \<not> f64_positive v \<and> v \<noteq> NaN then 0 else f64_to_i64 (f64_scale v (size_unit unit_text))))"

fun rat_or_0 :: "f64 option \<Rightarrow> rat" where
  "rat_or_0 (Some (Fin q)) = q"
| "rat_or_0 _ = 0"

text \<open>The hours and minutes are strings of digits with at most one point, so finite.\<close>

definition parse_runtime_from_label_seconds :: "regex_engine \<Rightarrow> string \<Rightarrow> int" where
  "parse_runtime_from_label_seconds re v =
     (let t = lower v
      in if t = [] then 0
         else case re HMS_RUNTIME_RE t of
             m # _ \<Rightarrow>
               (let a = i64_or_0 (re_group 1 m); b = i64_or_0 (re_group 2 m)
                in if re_group 3 m \<noteq> None then a * 3600 + b * 60 + i64_or_0 (re_group 3 m) else a * 60 + b)
           | [] \<Rightarrow>
               (let hours = rat_or_0 (Option.bind (re_first re HOURS_RUNTIME_RE 1 t) parse_f64);
                    minutes = rat_or_0 (Option.bind (re_first re MINUTES_RUNTIME_RE 1 t) parse_f64)
                in if 0 < hours \<or> 0 < minutes then f64_to_i64 (Fin (hours * 3600 + minutes * 60))
                   else case re COMPACT_RUNTIME_RE t of
                       m # _ \<Rightarrow> i64_or_0 (re_group 1 m) * 3600 + i64_or_0 (re_group 2 m) * 60
                     | [] \<Rightarrow> 0))"

section \<open>Seasons and episodes\<close>

definition normalize_episode_ordinal :: "string \<Rightarrow> int \<Rightarrow> int" where
  "normalize_episode_ordinal v fallback = max 1 (case parse_i64 (trim v) of Some n \<Rightarrow> n | None \<Rightarrow> fallback)"

definition episode_signature :: "int \<Rightarrow> int \<Rightarrow> string" where
  "episode_signature season episode = show_int season @ CHR ''x'' # show_int episode"

definition build_episode_signature :: "int \<Rightarrow> int \<Rightarrow> string" where
  "build_episode_signature season_number episode_number =
     episode_signature (normalize_episode_ordinal (show_int season_number) 1) (normalize_episode_ordinal (show_int episode_number) 1)"

definition signature_of :: "int \<Rightarrow> int \<Rightarrow> string option" where
  "signature_of season episode =
     (if 1 \<le> season \<and> season \<le> 99 \<and> 1 \<le> episode \<and> episode \<le> 999 then Some (episode_signature season episode) else None)"

definition collect_episode_signatures :: "regex_engine \<Rightarrow> string \<Rightarrow> int option \<Rightarrow> string list" where
  "collect_episode_signatures re text season_hint =
     (let t = lower text; both = (\<lambda>m. signature_of (i64_or_0 (re_group 1 m)) (i64_or_0 (re_group 2 m)))
      in if t = [] then []
         else sort (remdups (List.map_filter both (re HXH_SEASON_EPISODE_RE t) @ List.map_filter both (re X_SEASON_EPISODE_RE t) @
           (case season_hint of
              Some season \<Rightarrow> if 0 < season then List.map_filter (\<lambda>m. signature_of season (i64_or_0 (re_group 1 m))) (re EPISODE_ONLY_RE t) else []
            | None \<Rightarrow> []))))"

section \<open>Is it the title?\<close>

definition title_and_year_match :: "regex_engine \<Rightarrow> string \<Rightarrow> string \<Rightarrow> string \<Rightarrow> bool" where
  "title_and_year_match re normalized_filename title year =
     (let title_tokens = tokenize_title_for_match title;
          expected_year = trim year;
          years = List.map_filter (re_group 0) (re FILENAME_YEAR_RE normalized_filename);
          has_expected_year = (expected_year \<noteq> [] \<and> expected_year \<in> set years);
          has_conflicting_year = (expected_year \<noteq> [] \<and> years \<noteq> [] \<and> \<not> has_expected_year);
          matched = count_matching_title_tokens normalized_filename title_tokens;
          required = (if length title_tokens = 1 then 1 else min (length title_tokens) 2)
      in if title_tokens = [] then True
         else if required \<le> matched then (if expected_year = [] then True else if has_expected_year then True else \<not> has_conflicting_year)
         else 1 \<le> matched \<and> has_expected_year)"

definition does_filename_likely_match_movie :: "regex_engine \<Rightarrow> string \<Rightarrow> string \<Rightarrow> string \<Rightarrow> bool" where
  "does_filename_likely_match_movie re filename title year =
     (let normalized = normalize_text_for_match filename
      in if normalized = [] then True else title_and_year_match re normalized title year)"

definition does_filename_likely_match_tv_episode :: "regex_engine \<Rightarrow> string \<Rightarrow> string \<Rightarrow> string \<Rightarrow> int \<Rightarrow> int \<Rightarrow> bool" where
  "does_filename_likely_match_tv_episode re filename title year season_number episode_number =
     (let normalized = normalize_text_for_match filename
      in if normalized = [] then True
         else let signatures = collect_episode_signatures re normalized (Some season_number)
         in if signatures \<noteq> [] then build_episode_signature season_number episode_number \<in> set signatures
            else title_and_year_match re normalized title year)"

definition prefer_matched :: "('a \<Rightarrow> bool) \<Rightarrow> 'a list \<Rightarrow> 'a list" where
  "prefer_matched p xs = (if filter p xs = [] then xs else filter p xs)"

definition prefer_movie_title_matched_candidates :: "regex_engine \<Rightarrow> resolve_metadata \<Rightarrow> discovery_stream list \<Rightarrow> discovery_stream list" where
  "prefer_movie_title_matched_candidates re md streams =
     prefer_matched (\<lambda>s. does_filename_likely_match_movie re (stream_candidate_match_name s) (rm_display_title md) (rm_display_year md)) streams"

definition prefer_episode_title_matched_candidates :: "regex_engine \<Rightarrow> resolve_metadata \<Rightarrow> discovery_stream list \<Rightarrow> discovery_stream list" where
  "prefer_episode_title_matched_candidates re md streams =
     prefer_matched (\<lambda>s. does_filename_likely_match_tv_episode re (stream_candidate_match_name s) (rm_display_title md) (rm_display_year md)
       (rm_season_number md) (rm_episode_number md)) streams"

definition validate_resolved_movie_source :: "regex_engine \<Rightarrow> string \<Rightarrow> resolve_metadata \<Rightarrow> unit app_result" where
  "validate_resolved_movie_source re filename md =
     (if does_filename_likely_match_movie re filename (rm_display_title md) (rm_display_year md) then Inr ()
      else Inl (internal ''Resolved stream filename did not match requested title.''))"

definition validate_resolved_episode_source :: "regex_engine \<Rightarrow> string \<Rightarrow> string \<Rightarrow> resolve_metadata \<Rightarrow> unit app_result" where
  "validate_resolved_episode_source re selected_file_path filename md =
     (if does_filename_likely_match_tv_episode re (if trim selected_file_path \<noteq> [] then selected_file_path else filename)
           (rm_display_title md) (rm_display_year md) (rm_season_number md) (rm_episode_number md) then Inr ()
      else Inl (internal ''Resolved stream filename did not match requested episode.''))"

end
