(* ===== verification/SourceRanking.thy ===== *)
theory SourceRanking
  imports SourceText
begin

text \<open>
  Which torrent sources are tried, and in which order (\<open>src/resolver/scoring.rs\<close>): filters, the score
  of a source, sorting, the pinned source, and the rule that puts sources cached by Real-Debrid and
  MP4 files first. \<open>log_score n k\<close> is \<open>((n as f64).log10() * k).round() as i64\<close>; other floats
  are exact rationals. \<open>health\<close> is the map of health scores.
\<close>

record ranking_env =
  rk_re :: regex_engine
  rk_log_score :: "int \<Rightarrow> int \<Rightarrow> int"

record source_filters =
  sf_min_seeders :: int
  sf_allowed_formats :: "string list"
  sf_source_language :: string
  sf_source_audio_profile :: string

type_synonym health_scores = "string \<rightharpoonup> int"

definition DEFAULT_ALLOWED_SOURCE_FORMATS :: "string list" where "DEFAULT_ALLOWED_SOURCE_FORMATS = [''mp4'', ''mkv'']"
definition LOCAL_TORRENT_RACE_CANDIDATES :: nat where "LOCAL_TORRENT_RACE_CANDIDATES = 2"
definition SOURCE_HEALTH_AVOID_SCORE :: int where "SOURCE_HEALTH_AVOID_SCORE = - 6000"

section \<open>Health\<close>

definition compute_source_health_score :: "source_health_stats \<Rightarrow> int" where
  "compute_source_health_score s =
     (let attempts = hs_success_count s + hs_failure_count s
      in if attempts \<le> 0 then 0
         else if hs_success_count s = 0 \<and> 0 < hs_playback_error_count s
         then SOURCE_HEALTH_AVOID_SCORE - min (hs_playback_error_count s * 1000) 4000
         else if hs_success_count s = 0 \<and> 0 < hs_failure_count s then SOURCE_HEALTH_AVOID_SCORE - 500
         else let success_rate = of_int (hs_success_count s) / of_int attempts :: rat;
                  confidence_factor = min (of_int attempts / 6) 1
              in round_away ((success_rate - 55 / 100) * 2800 * confidence_factor)
                 - min (hs_decode_failure_count s * 1400) 3200 - min (hs_ended_early_count s * 1000) 2600
                 - min (hs_playback_error_count s * 900) 2400)"

definition compute_source_health_scores ::
  "(string \<Rightarrow> source_health_stats option) \<Rightarrow> discovery_stream list \<Rightarrow> health_scores" where
  "compute_source_health_scores stats_of streams =
     (\<lambda>h. if h \<noteq> [] \<and> h \<in> get_stream_info_hash ` set streams
          then Some (case stats_of h of None \<Rightarrow> 0 | Some s \<Rightarrow> compute_source_health_score s) else None)"

definition health_of :: "health_scores \<Rightarrow> discovery_stream \<Rightarrow> int" where
  "health_of health s = (case health (get_stream_info_hash s) of Some n \<Rightarrow> n | None \<Rightarrow> 0)"

section \<open>Scores\<close>

definition score_stream_release_quality :: "ranking_env \<Rightarrow> discovery_stream \<Rightarrow> int" where
  "score_stream_release_quality env s =
     (let t = build_stream_release_text s
      in if t = [] then 0
         else if re_is_match (rk_re env) LOW_QUALITY_THEATRICAL_RELEASE_RE t then - 4200
         else if re_is_match (rk_re env) LOW_QUALITY_SCREENER_RELEASE_RE t then - 2600
         else 0)"

definition size_score :: "int \<Rightarrow> int" where
  "size_score size_bytes =
     (let gb = of_int size_bytes / 1073741824 :: rat
      in if gb \<le> 3 / 2 then 600 else if gb \<le> 7 / 2 then 1100 else if gb \<le> 6 then 800 else if gb \<le> 10 then 250
         else - round_away ((gb - 10) * 85))"

definition score_fastest_local_candidate :: "ranking_env \<Rightarrow> discovery_stream \<Rightarrow> int" where
  "score_fastest_local_candidate env s =
     (let seeds = stream_seeds (rk_re env) s;
          size_bytes = parse_size_label_bytes (extract_stream_size_label (rk_re env) s);
          t = build_stream_text_raw s
      in (if 0 < seeds then rk_log_score env (seeds + 1) 900 else 0) +
         (if 0 < size_bytes then size_score size_bytes else 0) +
         (if is_stream_likely_container s ''mp4'' then 550 else 0) +
         (if re_is_match (rk_re env) H264_RELEASE_RE t then 1600
          else if re_is_match (rk_re env) EXPENSIVE_LOCAL_VIDEO_CODEC_RE t then - 1200 else 0) +
         score_stream_release_quality env s)"

definition score_container_default_language :: "discovery_stream \<Rightarrow> string \<Rightarrow> int" where
  "score_container_default_language s source_language =
     (let lang = normalize_source_language_filter source_language; detected = get_detected_stream_languages s
      in if lang = ''any'' then 0
         else if lang \<in> set detected then (if length detected = 1 then 4 else 2)
         else if detected = [] \<and> lang = SOURCE_LANGUAGE_FILTER_DEFAULT then 1
         else - 5)"

definition score_stream_source_audio_profile :: "ranking_env \<Rightarrow> discovery_stream \<Rightarrow> string \<Rightarrow> string \<Rightarrow> int" where
  "score_stream_source_audio_profile env s source_language source_audio_profile =
     (if normalize_source_audio_profile_filter source_audio_profile \<noteq> SOURCE_AUDIO_PROFILE_DEFAULT then 0
      else let detected = get_detected_stream_languages s; lang = normalize_source_language_filter source_language
      in if has_explicit_multi_audio_marker (rk_re env) s \<or> 1 < length detected
         then (if lang \<noteq> ''any'' \<and> lang \<in> set detected then - 2200 else - 1800)
         else if lang = ''any'' then (if length detected = 1 then 450 else 0)
         else if length detected = 1 \<and> lang \<in> set detected then 1600
         else 0)"

definition score_stream_seeders :: "ranking_env \<Rightarrow> discovery_stream \<Rightarrow> int" where
  "score_stream_seeders env s =
     (let seeds = stream_seeds (rk_re env) s in if seeds \<le> 0 then 0 else min (rk_log_score env (seeds + 1) 320) 900)"

definition score_stream_language_preference :: "discovery_stream \<Rightarrow> string \<Rightarrow> int" where
  "score_stream_language_preference s preferred_audio_lang =
     (let preferred = normalize_preferred_audio_lang preferred_audio_lang; t = build_stream_text s;
          mentions = (\<lambda>lang. list_ex (contains t) (audio_language_tokens lang))
      in if preferred = ''auto'' then 0
         else if t = [] then 0
         else (if mentions preferred then 2500 else 0) -
              1400 * int (length (filter (\<lambda>lang. lang \<noteq> preferred \<and> mentions lang) audio_languages)))"

definition score_stream_quality_preference :: "ranking_env \<Rightarrow> discovery_stream \<Rightarrow> string \<Rightarrow> int" where
  "score_stream_quality_preference env s preferred_quality =
     (let quality = normalize_preferred_stream_quality preferred_quality;
          target = stream_quality_target quality; height = parse_stream_vertical_resolution (rk_re env) s
      in if quality = ''auto'' then 0
         else if target = 0 \<or> height = 0 then 0
         else if height = target then 1400
         else if target < height then - 700 - min (height - target) 900
         else - 300 - min (target - height) 700)"

definition score_stream_title_year_match :: "discovery_stream \<Rightarrow> resolve_metadata \<Rightarrow> int" where
  "score_stream_title_year_match s md =
     (let t = normalize_text_for_match (build_stream_text_raw s); title_tokens = tokenize_title_for_match (rm_display_title md);
          matched = count_matching_title_tokens t title_tokens;
          has_year = (rm_display_year md \<noteq> [] \<and> contains t (rm_display_year md));
          required = min (length title_tokens) 2
      in if t = [] then 0
         else if title_tokens = [] then 0
         else if required \<le> matched \<and> has_year then 1800
         else if required \<le> matched then 1100
         else if 1 \<le> matched \<and> has_year then 420
         else if matched = 0 \<and> has_year then - 900
         else - 600)"

definition score_stream_runtime_match :: "ranking_env \<Rightarrow> discovery_stream \<Rightarrow> resolve_metadata \<Rightarrow> int" where
  "score_stream_runtime_match env s md =
     (let target = max 0 (rm_runtime_seconds md);
          candidate = parse_runtime_from_label_seconds (rk_re env) (build_stream_text_raw s);
          delta_ratio = of_int \<bar>candidate - target\<bar> / of_int target :: rat
      in if target < 1800 then 0
         else if candidate \<le> 0 then 0
         else if delta_ratio \<le> 6 / 100 then 420
         else if delta_ratio \<le> 12 / 100 then 220
         else if delta_ratio \<le> 2 / 10 then 60
         else - 360)"

definition score_stream_episode_match :: "ranking_env \<Rightarrow> discovery_stream \<Rightarrow> int \<Rightarrow> int \<Rightarrow> int" where
  "score_stream_episode_match env s season_number episode_number =
     (let t = build_stream_text s; signatures = collect_episode_signatures (rk_re env) t (Some season_number)
      in if t = [] then 0
         else if signatures = [] then (if re_is_match (rk_re env) SEASON_PACK_RE t then - 1800 else 0)
         else if build_episode_signature season_number episode_number \<in> set signatures then 2800
         else - 3400)"

record ranking_request =
  rq_metadata :: resolve_metadata
  rq_audio_lang :: string
  rq_quality :: string
  rq_filters :: source_filters
  rq_health :: health_scores

definition score_stream_quality :: "ranking_env \<Rightarrow> ranking_request \<Rightarrow> discovery_stream \<Rightarrow> int" where
  "score_stream_quality env rq s =
     (if ds_real_debrid_cached s then 250000 else 0)
     + score_stream_language_preference s (rq_audio_lang rq)
     + score_stream_source_audio_profile env s (sf_source_language (rq_filters rq)) (sf_source_audio_profile (rq_filters rq))
     + score_stream_quality_preference env s (rq_quality rq)
     + score_stream_title_year_match s (rq_metadata rq)
     + score_stream_runtime_match env s (rq_metadata rq)
     + score_stream_release_quality env s
     + score_stream_seeders env s
     + health_of (rq_health rq) s"

section \<open>Filters and order\<close>

definition passes_source_filters :: "ranking_env \<Rightarrow> source_filters \<Rightarrow> discovery_stream \<Rightarrow> bool" where
  "passes_source_filters env f s \<longleftrightarrow>
     (let allowed = (if sf_allowed_formats f = [] then DEFAULT_ALLOWED_SOURCE_FORMATS else sf_allowed_formats f);
          container = infer_stream_container_label s
      in if 0 < sf_min_seeders f \<and> stream_seeds (rk_re env) s < sf_min_seeders f then False
         else if container = [] \<or> container \<notin> set allowed then False
         else if sf_source_language f \<noteq> ''any'' \<and> \<not> matches_source_language_filter s (sf_source_language f) then False
         else True)"

definition apply_source_stream_filters :: "ranking_env \<Rightarrow> source_filters \<Rightarrow> discovery_stream list \<Rightarrow> discovery_stream list" where
  "apply_source_stream_filters env f streams = filter (passes_source_filters env f) streams"

definition filter_streams_by_quality_preference :: "ranking_env \<Rightarrow> string \<Rightarrow> discovery_stream list \<Rightarrow> discovery_stream list" where
  "filter_streams_by_quality_preference env preferred_quality streams =
     (let quality = normalize_preferred_stream_quality preferred_quality; target = stream_quality_target quality;
          height = parse_stream_vertical_resolution (rk_re env);
          exact = filter (\<lambda>s. height s = target) streams;
          lower_or_equal = filter (\<lambda>s. 0 < height s \<and> height s \<le> target) streams;
          higher = filter (\<lambda>s. target < height s) streams
      in if quality = ''auto'' then streams
         else if target = 0 then streams
         else if exact \<noteq> [] then exact
         else if lower_or_equal \<noteq> [] then lower_or_equal
         else if higher \<noteq> [] then higher
         else streams)"

text \<open>\<open>sort_by\<close> is stable; the comparison is by a key, the greater first.\<close>

definition title_seeds :: "ranking_env \<Rightarrow> discovery_stream \<Rightarrow> int" where
  "title_seeds env s = parse_seed_count (rk_re env) (ds_title s)"

definition sort_movie_candidates :: "ranking_env \<Rightarrow> ranking_request \<Rightarrow> discovery_stream list \<Rightarrow> discovery_stream list" where
  "sort_movie_candidates env rq streams = sort_key (\<lambda>s. (- score_stream_quality env rq s, - title_seeds env s)) streams"

definition episode_score :: "ranking_env \<Rightarrow> ranking_request \<Rightarrow> discovery_stream \<Rightarrow> int" where
  "episode_score env rq s = score_stream_quality env rq s +
     score_stream_episode_match env s (rm_season_number (rq_metadata rq)) (rm_episode_number (rq_metadata rq))"

definition sort_episode_candidates :: "ranking_env \<Rightarrow> ranking_request \<Rightarrow> discovery_stream list \<Rightarrow> discovery_stream list" where
  "sort_episode_candidates env rq streams = sort_key (\<lambda>s. (- episode_score env rq s, - title_seeds env s)) streams"

section \<open>Selection\<close>

text \<open>The first source of each hash.\<close>

fun dedup_by_hash :: "string list \<Rightarrow> discovery_stream list \<Rightarrow> discovery_stream list" where
  "dedup_by_hash seen [] = []"
| "dedup_by_hash seen (s # ss) =
     (let h = get_stream_info_hash s
      in if h = [] \<or> h \<in> set seen then dedup_by_hash seen ss else s # dedup_by_hash (h # seen) ss)"

definition prioritize_candidates_by_source_hash ::
  "discovery_stream list \<Rightarrow> discovery_stream list \<Rightarrow> string \<Rightarrow> nat \<Rightarrow> discovery_stream list" where
  "prioritize_candidates_by_source_hash candidates ranked_pool source_hash limit =
     (let h = normalize_source_hash source_hash; named = (\<lambda>s. get_stream_info_hash s = h)
      in if h = [] then take (max 1 limit) candidates
         else case List.find named (dedup_by_hash [] candidates) of
             Some s \<Rightarrow> [s]
           | None \<Rightarrow> (case List.find named (dedup_by_hash [] ranked_pool) of Some s \<Rightarrow> [s] | None \<Rightarrow> []))"

definition is_candidate_healthy_enough_for_default :: "health_scores \<Rightarrow> discovery_stream \<Rightarrow> bool" where
  "is_candidate_healthy_enough_for_default health s \<longleftrightarrow> health_of health s > SOURCE_HEALTH_AVOID_SCORE"

definition container_default_key :: "ranking_env \<Rightarrow> string \<Rightarrow> discovery_stream \<Rightarrow> int \<times> int \<times> int" where
  "container_default_key env source_language s =
     (- score_container_default_language s source_language, - parse_stream_vertical_resolution (rk_re env) s, - title_seeds env s)"

definition container_candidates ::
  "ranking_env \<Rightarrow> string \<Rightarrow> string \<Rightarrow> health_scores \<Rightarrow> discovery_stream list \<Rightarrow> discovery_stream list" where
  "container_candidates env container source_language health streams =
     sort_key (container_default_key env source_language)
       (filter (\<lambda>s. is_stream_likely_container s container \<and> is_candidate_healthy_enough_for_default health s) streams)"

definition pick_best_container_candidate ::
  "ranking_env \<Rightarrow> string \<Rightarrow> string \<Rightarrow> health_scores \<Rightarrow> discovery_stream list \<Rightarrow> discovery_stream option" where
  "pick_best_container_candidate env container source_language health streams =
     (case container_candidates env container source_language health streams of [] \<Rightarrow> None | s # _ \<Rightarrow> Some s)"

definition ensure_at_least_one_container_candidate ::
  "ranking_env \<Rightarrow> discovery_stream list \<Rightarrow> discovery_stream list \<Rightarrow> string \<Rightarrow> nat \<Rightarrow> string \<Rightarrow> health_scores \<Rightarrow> discovery_stream list" where
  "ensure_at_least_one_container_candidate env candidates ranked_pool container limit source_language health =
     (let current = take (max 1 limit) candidates
      in if current = [] then current
         else if list_ex (\<lambda>s. is_stream_likely_container s container \<and> is_candidate_healthy_enough_for_default health s) current then current
         else case pick_best_container_candidate env container source_language health ranked_pool of
             None \<Rightarrow> current
           | Some fallback \<Rightarrow>
               (let h = get_stream_info_hash fallback
                in if h \<noteq> [] \<and> h \<in> get_stream_info_hash ` set current then current
                   else butlast current @ [fallback]))"

definition move_container_candidates_to_front :: "string \<Rightarrow> discovery_stream list \<Rightarrow> discovery_stream list" where
  "move_container_candidates_to_front container ss =
     filter (\<lambda>s. is_stream_likely_container s container) ss @ filter (\<lambda>s. \<not> is_stream_likely_container s container) ss"

definition move_real_debrid_cached_candidates_to_front :: "discovery_stream list \<Rightarrow> discovery_stream list" where
  "move_real_debrid_cached_candidates_to_front ss = filter ds_real_debrid_cached ss @ filter (\<lambda>s. \<not> ds_real_debrid_cached s) ss"

text \<open>The output and the hashes seen; a source without a hash is always pushed.\<close>

fun push_unique_candidate :: "discovery_stream list \<times> string list \<Rightarrow> discovery_stream \<Rightarrow> discovery_stream list \<times> string list" where
  "push_unique_candidate (output, seen) s =
     (let h = get_stream_info_hash s
      in if h = [] then (output @ [s], seen)
         else if h \<notin> set seen then (output @ [s], h # seen) else (output, seen))"

text \<open>The loop that stops once the output is full.\<close>

fun push_until_full :: "nat \<Rightarrow> discovery_stream list \<times> string list \<Rightarrow> discovery_stream list \<Rightarrow> discovery_stream list \<times> string list" where
  "push_until_full n acc [] = acc"
| "push_until_full n acc (s # ss) =
     (let acc = push_unique_candidate acc s in if n \<le> length (fst acc) then acc else push_until_full n acc ss)"

definition apply_mp4_default_candidate_rule ::
  "ranking_env \<Rightarrow> discovery_stream list \<Rightarrow> discovery_stream list \<Rightarrow> string \<Rightarrow> nat \<Rightarrow> string \<Rightarrow> health_scores \<Rightarrow> discovery_stream list" where
  "apply_mp4_default_candidate_rule env candidates ranked_pool source_hash limit source_language health =
     (if normalize_source_hash source_hash \<noteq> [] then candidates
      else let safe_limit = max 1 limit; cached = take safe_limit (filter ds_real_debrid_cached ranked_pool)
      in if safe_limit \<le> length cached then cached
         else let with_mp4 = ensure_at_least_one_container_candidate env candidates ranked_pool ''mp4'' limit source_language health
         in if with_mp4 = [] then with_mp4
            else let mp4 = container_candidates env ''mp4'' source_language health ranked_pool
            in if mp4 = []
               then move_real_debrid_cached_candidates_to_front (move_container_candidates_to_front ''mp4'' with_mp4)
               else let acc = foldl push_unique_candidate ([], []) cached;
                        acc = push_until_full safe_limit acc mp4;
                        acc = (if length (fst acc) < safe_limit then push_until_full safe_limit acc with_mp4 else acc)
                    in move_real_debrid_cached_candidates_to_front (fst acc))"

definition should_prefer_mp4_episode_candidate :: "string \<Rightarrow> string \<Rightarrow> bool" where
  "should_prefer_mp4_episode_candidate preferred_container source_hash \<longleftrightarrow>
     (let c = normalize_preferred_container preferred_container
      in if c = ''mp4'' then True else if c = ''mkv'' then False else normalize_source_hash source_hash = [])"

definition ranked_pool_of :: "ranking_env \<Rightarrow> source_filters \<Rightarrow> discovery_stream list \<Rightarrow> discovery_stream list" where
  "ranked_pool_of env f streams = apply_source_stream_filters env f (filter (\<lambda>s. get_stream_info_hash s \<noteq> []) streams)"

definition movie_pool :: "ranking_env \<Rightarrow> ranking_request \<Rightarrow> discovery_stream list \<Rightarrow> discovery_stream list" where
  "movie_pool env rq pool = sort_movie_candidates env rq (filter_streams_by_quality_preference env (rq_quality rq)
     (prefer_movie_title_matched_candidates (rk_re env) (rq_metadata rq) pool))"

definition episode_pool :: "ranking_env \<Rightarrow> ranking_request \<Rightarrow> discovery_stream list \<Rightarrow> discovery_stream list" where
  "episode_pool env rq pool = sort_episode_candidates env rq (filter_streams_by_quality_preference env (rq_quality rq)
     (prefer_episode_title_matched_candidates (rk_re env) (rq_metadata rq) pool))"

definition select_top_movie_candidates ::
  "ranking_env \<Rightarrow> ranking_request \<Rightarrow> string \<Rightarrow> nat \<Rightarrow> bool \<Rightarrow> discovery_stream list \<Rightarrow> discovery_stream list" where
  "select_top_movie_candidates env rq source_hash limit prefer_mp4_default streams =
     (let pool = ranked_pool_of env (rq_filters rq) streams
      in if pool = [] then []
         else let sorted_pool = movie_pool env rq pool;
                  selected = prioritize_candidates_by_source_hash (take (max 1 limit) sorted_pool) sorted_pool source_hash limit
              in if prefer_mp4_default
                 then apply_mp4_default_candidate_rule env selected sorted_pool source_hash limit (sf_source_language (rq_filters rq)) (rq_health rq)
                 else selected)"

definition select_top_episode_candidates ::
  "ranking_env \<Rightarrow> ranking_request \<Rightarrow> string \<Rightarrow> string \<Rightarrow> nat \<Rightarrow> bool \<Rightarrow> discovery_stream list \<Rightarrow> discovery_stream list" where
  "select_top_episode_candidates env rq preferred_container source_hash limit prefer_mp4_default streams =
     (let pool = ranked_pool_of env (rq_filters rq) streams
      in if pool = [] then []
         else let sorted_pool = episode_pool env rq pool;
                  selected = prioritize_candidates_by_source_hash (take (max 1 limit) sorted_pool) sorted_pool source_hash limit
              in if prefer_mp4_default \<and> should_prefer_mp4_episode_candidate preferred_container source_hash
                 then apply_mp4_default_candidate_rule env selected sorted_pool source_hash limit (sf_source_language (rq_filters rq)) (rq_health rq)
                 else selected)"

text \<open>\<open>max_by\<close> gives the last of the greatest.\<close>

fun last_max_index :: "('a \<Rightarrow> 'k::linorder) \<Rightarrow> nat \<Rightarrow> nat \<times> 'k \<Rightarrow> 'a list \<Rightarrow> nat" where
  "last_max_index f i (j, best) [] = j"
| "last_max_index f i (j, best) (x # xs) = last_max_index f (Suc i) (if best \<le> f x then (i, f x) else (j, best)) xs"

definition local_key :: "ranking_env \<Rightarrow> discovery_stream \<Rightarrow> int \<times> int" where
  "local_key env s = (score_fastest_local_candidate env s, title_seeds env s)"

definition prioritize_local_torrent_first_wave :: "ranking_env \<Rightarrow> discovery_stream list \<Rightarrow> discovery_stream list" where
  "prioritize_local_torrent_first_wave env candidates =
     (case candidates of
        [] \<Rightarrow> []
      | c # cs \<Rightarrow>
          if length candidates \<le> LOCAL_TORRENT_RACE_CANDIDATES then candidates
          else let n = last_max_index (local_key env) 1 (0, local_key env c) cs
               in if LOCAL_TORRENT_RACE_CANDIDATES \<le> n
                  then let removed = take n candidates @ drop (Suc n) candidates; k = LOCAL_TORRENT_RACE_CANDIDATES - 1
                       in take k removed @ [candidates ! n] @ drop k removed
                  else candidates)"

section \<open>Summaries\<close>

record source_summary =
  ss_source_hash :: string
  ss_info_hash :: string
  ss_provider :: string
  ss_primary :: string
  ss_filename :: string
  ss_quality_label :: string
  ss_container :: string
  ss_is_torrent :: bool
  ss_automatic_fallback_eligible :: "bool option"
  ss_real_debrid_cached :: bool
  ss_seeders :: int
  ss_size :: string
  ss_release_group :: string
  ss_score :: int

definition summarize_stream_candidate_for_client ::
  "ranking_env \<Rightarrow> ranking_request \<Rightarrow> discovery_stream \<Rightarrow> source_summary option" where
  "summarize_stream_candidate_for_client env rq s =
     (let info_hash = get_stream_info_hash s; filename = trim (ds_filename s); resolution = parse_stream_vertical_resolution (rk_re env) s;
          md = rq_metadata rq
      in if info_hash = [] then None
         else Some \<lparr>ss_source_hash = info_hash, ss_info_hash = info_hash, ss_provider = normalize_spaces (ds_name s),
           ss_primary = (if filename \<noteq> [] then filename
             else case extract_stream_title_lines s of
                 line # _ \<Rightarrow> line
               | [] \<Rightarrow> if trim (ds_name s) \<noteq> [] then trim (ds_name s) else ''Source''),
           ss_filename = filename, ss_quality_label = (if 0 < resolution then show_int resolution @ ''p'' else []),
           ss_container = infer_stream_container_label s, ss_is_torrent = True, ss_automatic_fallback_eligible = None,
           ss_real_debrid_cached = ds_real_debrid_cached s, ss_seeders = max 0 (title_seeds env s),
           ss_size = extract_stream_size_label (rk_re env) s, ss_release_group = extract_stream_release_group (rk_re env) s,
           ss_score = score_stream_quality env rq s +
             (if 0 < rm_episode_number md then score_stream_episode_match env s (rm_season_number md) (rm_episode_number md) else 0)\<rparr>)"


section \<open>Pinned sources\<close>

lemma find_dedup:
  "h \<noteq> [] \<Longrightarrow> h \<notin> set seen \<Longrightarrow>
   List.find (\<lambda>s. get_stream_info_hash s = h) (dedup_by_hash seen ss) = List.find (\<lambda>s. get_stream_info_hash s = h) ss"
  by (induction seen ss rule: dedup_by_hash.induct) (auto simp: Let_def)

lemma find_in: "List.find p xs = Some x \<Longrightarrow> x \<in> set xs \<and> p x"
  by (induction xs) (auto split: if_splits)

lemma find_none: "List.find p xs = None \<longleftrightarrow> (\<forall>x \<in> set xs. \<not> p x)"
  by (induction xs) auto

lemma prioritize_pinned:
  assumes "normalize_source_hash source_hash \<noteq> []" "set candidates \<subseteq> set pool"
    and r_def: "r = prioritize_candidates_by_source_hash candidates pool source_hash limit"
  shows "(\<exists>s \<in> set pool. get_stream_info_hash s = normalize_source_hash source_hash \<and> r = [s]) \<or>
    r = [] \<and> (\<forall>s \<in> set pool. get_stream_info_hash s \<noteq> normalize_source_hash source_hash)"
proof -
  let ?h = "normalize_source_hash source_hash"
  have d: "List.find (\<lambda>s. get_stream_info_hash s = ?h) (dedup_by_hash [] xs) = List.find (\<lambda>s. get_stream_info_hash s = ?h) xs" for xs
    using find_dedup [of ?h "[]" xs] assms(1) by simp
  show ?thesis
  proof (cases "List.find (\<lambda>s. get_stream_info_hash s = ?h) candidates")
    case (Some s)
    then have "r = [s]" using assms(1) by (simp add: r_def prioritize_candidates_by_source_hash_def d Let_def)
    with find_in [OF Some] assms(2) show ?thesis by auto
  next
    case None
    note n = this
    show ?thesis
    proof (cases "List.find (\<lambda>s. get_stream_info_hash s = ?h) pool")
      case (Some s)
      then have "r = [s]" using assms(1) n by (simp add: r_def prioritize_candidates_by_source_hash_def d Let_def)
      with find_in [OF Some] show ?thesis by auto
    next
      case None
      then have "r = []" using assms(1) n by (simp add: r_def prioritize_candidates_by_source_hash_def d Let_def)
      with None show ?thesis by (simp add: find_none)
    qed
  qed
qed

lemma prioritize_free:
  "normalize_source_hash source_hash = [] \<Longrightarrow>
   prioritize_candidates_by_source_hash (take (max 1 limit) pool) pool source_hash limit = take (max 1 limit) pool"
  by (simp add: prioritize_candidates_by_source_hash_def)

text \<open>Both selections at once: \<open>pool\<close> is the sorted pool, \<open>mp4\<close> whether the rule for MP4 applies.\<close>

definition selection :: "ranking_env \<Rightarrow> ranking_request \<Rightarrow> string \<Rightarrow> nat \<Rightarrow> bool \<Rightarrow> discovery_stream list \<Rightarrow> discovery_stream list" where
  "selection env rq source_hash limit mp4 pool =
     (let selected = prioritize_candidates_by_source_hash (take (max 1 limit) pool) pool source_hash limit
      in if mp4 then apply_mp4_default_candidate_rule env selected pool source_hash limit (sf_source_language (rq_filters rq)) (rq_health rq)
         else selected)"

lemma movie_selection:
  "ranked_pool_of env (rq_filters rq) streams \<noteq> [] \<Longrightarrow>
   select_top_movie_candidates env rq source_hash limit prefer streams =
     selection env rq source_hash limit prefer (movie_pool env rq (ranked_pool_of env (rq_filters rq) streams))"
  by (simp add: select_top_movie_candidates_def selection_def Let_def)

lemma episode_selection:
  "ranked_pool_of env (rq_filters rq) streams \<noteq> [] \<Longrightarrow>
   select_top_episode_candidates env rq container source_hash limit prefer streams =
     selection env rq source_hash limit (prefer \<and> should_prefer_mp4_episode_candidate container source_hash)
       (episode_pool env rq (ranked_pool_of env (rq_filters rq) streams))"
  by (simp add: select_top_episode_candidates_def selection_def Let_def)

lemma selection_empty:
  "ranked_pool_of env (rq_filters rq) streams = [] \<Longrightarrow> select_top_movie_candidates env rq source_hash limit prefer streams = []"
  "ranked_pool_of env (rq_filters rq) streams = [] \<Longrightarrow> select_top_episode_candidates env rq container source_hash limit prefer streams = []"
  by (simp_all add: select_top_movie_candidates_def select_top_episode_candidates_def)

lemma quality_subset: "set (filter_streams_by_quality_preference env q ss) \<subseteq> set ss"
  by (auto simp: filter_streams_by_quality_preference_def Let_def)

lemma quality_nonempty: "ss \<noteq> [] \<Longrightarrow> filter_streams_by_quality_preference env q ss \<noteq> []"
  by (auto simp: filter_streams_by_quality_preference_def Let_def)

lemma prefer_matched_subset: "set (prefer_matched p ss) \<subseteq> set ss" "ss \<noteq> [] \<Longrightarrow> prefer_matched p ss \<noteq> []"
  by (auto simp: prefer_matched_def)

lemma pools_subset:
  "set (movie_pool env rq pool) \<subseteq> set pool" "set (episode_pool env rq pool) \<subseteq> set pool"
  unfolding movie_pool_def episode_pool_def sort_movie_candidates_def sort_episode_candidates_def
    prefer_movie_title_matched_candidates_def prefer_episode_title_matched_candidates_def set_sort
  using quality_subset prefer_matched_subset(1) by (meson order_trans)+

lemma sort_key_Nil: "sort_key f xs = [] \<longleftrightarrow> xs = []"
  by (metis set_empty set_sort)

lemma pools_nonempty:
  "pool \<noteq> [] \<Longrightarrow> movie_pool env rq pool \<noteq> []" "pool \<noteq> [] \<Longrightarrow> episode_pool env rq pool \<noteq> []"
  unfolding movie_pool_def episode_pool_def sort_movie_candidates_def sort_episode_candidates_def
    prefer_movie_title_matched_candidates_def prefer_episode_title_matched_candidates_def
  by (simp_all add: sort_key_Nil quality_nonempty prefer_matched_subset(2))

lemma selection_pinned:
  assumes "normalize_source_hash source_hash \<noteq> []"
  shows "(\<exists>s \<in> set pool. get_stream_info_hash s = normalize_source_hash source_hash \<and> selection env rq source_hash limit mp4 pool = [s]) \<or>
    selection env rq source_hash limit mp4 pool = [] \<and> (\<forall>s \<in> set pool. get_stream_info_hash s \<noteq> normalize_source_hash source_hash)"
proof -
  have "set (take (max 1 limit) pool) \<subseteq> set pool" by (rule set_take_subset)
  from prioritize_pinned [OF assms this refl, of limit] assms show ?thesis
    by (simp add: selection_def apply_mp4_default_candidate_rule_def Let_def)
qed

text \<open>C20: A pinned source is never substituted. If the request names a source by its hash, the selection for a
  movie and for an episode is that source alone, or nothing when no source of that hash is in the
  pool of the request; no other source is ever tried.\<close>

theorem pinned_source_is_never_substituted:
  assumes "normalize_source_hash source_hash \<noteq> []"
    and "r \<in> {select_top_movie_candidates env rq source_hash limit prefer streams,
      select_top_episode_candidates env rq container source_hash limit prefer streams}"
  shows "r = [] \<or> (\<exists>s \<in> set streams. r = [s] \<and> get_stream_info_hash s = normalize_source_hash source_hash)"
proof (cases "ranked_pool_of env (rq_filters rq) streams = []")
  case True
  with assms(2) selection_empty [OF True] show ?thesis by auto
next
  case False
  have "set (ranked_pool_of env (rq_filters rq) streams) \<subseteq> set streams"
    by (auto simp: ranked_pool_of_def apply_source_stream_filters_def)
  then have "set (movie_pool env rq (ranked_pool_of env (rq_filters rq) streams)) \<subseteq> set streams"
    "set (episode_pool env rq (ranked_pool_of env (rq_filters rq) streams)) \<subseteq> set streams"
    using pools_subset by blast+
  with assms(2) selection_pinned [OF assms(1)] show ?thesis
    unfolding movie_selection [OF False] episode_selection [OF False] by blast
qed

section \<open>What is selected\<close>

definition seen_ok :: "discovery_stream list \<times> string list \<Rightarrow> bool" where
  "seen_ok acc \<longleftrightarrow> set (snd acc) \<subseteq> get_stream_info_hash ` set (fst acc)"

lemma push_unique_facts:
  "set (fst (push_unique_candidate acc s)) \<subseteq> insert s (set (fst acc))"
  "set (fst acc) \<subseteq> set (fst (push_unique_candidate acc s))"
  "length (fst (push_unique_candidate acc s)) \<le> Suc (length (fst acc))"
  "seen_ok acc \<Longrightarrow> seen_ok (push_unique_candidate acc s)"
  "seen_ok acc \<Longrightarrow> get_stream_info_hash s \<in> get_stream_info_hash ` set (fst (push_unique_candidate acc s))"
  by (cases acc; auto simp: Let_def seen_ok_def)+

lemma foldl_push_facts:
  "set (fst (foldl push_unique_candidate acc ss)) \<subseteq> set (fst acc) \<union> set ss"
  "set (fst acc) \<subseteq> set (fst (foldl push_unique_candidate acc ss))"
  "length (fst (foldl push_unique_candidate acc ss)) \<le> length (fst acc) + length ss"
  "seen_ok acc \<Longrightarrow> seen_ok (foldl push_unique_candidate acc ss)"
proof (induction ss arbitrary: acc)
  case (Cons s ss)
  { case 1 note p = push_unique_facts [of acc s] show ?case using Cons.IH(1) [of "push_unique_candidate acc s"] push_unique_facts(1) [of acc s] by (simp, blast) }
  { case 2 note p = push_unique_facts [of acc s] show ?case using subset_trans [OF p(2) Cons.IH(2)] by simp }
  { case 3 note p = push_unique_facts [of acc s] show ?case using Cons.IH(3) [of "push_unique_candidate acc s"] p(3) by simp }
  { case 4 note p = push_unique_facts [of acc s] from 4 show ?case using Cons.IH(4) [of "push_unique_candidate acc s"] p(4) by simp }
qed simp_all

lemma foldl_push_covers:
  "seen_ok acc \<Longrightarrow> s \<in> set ss \<Longrightarrow>
   get_stream_info_hash s \<in> get_stream_info_hash ` set (fst (foldl push_unique_candidate acc ss))"
proof (induction ss arbitrary: acc)
  case (Cons x ss)
  note p = push_unique_facts(4,5) [OF Cons.prems(1), of x]
  show ?case
  proof (cases "s = x")
    case True
    with p(2) foldl_push_facts(2) [of "push_unique_candidate acc x" ss] show ?thesis by auto
  next
    case False
    with Cons.IH [OF p(1)] Cons.prems(2) show ?thesis by simp
  qed
qed simp

lemma push_until_full_facts:
  "set (fst (push_until_full n acc ss)) \<subseteq> set (fst acc) \<union> set ss"
  "set (fst acc) \<subseteq> set (fst (push_until_full n acc ss))"
  "length (fst acc) < n \<Longrightarrow> length (fst (push_until_full n acc ss)) \<le> n"
  "seen_ok acc \<Longrightarrow> ss \<noteq> [] \<Longrightarrow> fst (push_until_full n acc ss) \<noteq> []"
proof (induction ss arbitrary: acc)
  case (Cons s ss)
  { case 1 note p = push_unique_facts [of acc s]
    have "set (fst (push_until_full n (push_unique_candidate acc s) ss)) \<subseteq> insert s (set (fst acc)) \<union> set ss"
      by (rule subset_trans [OF Cons.IH(1) Un_mono [OF push_unique_facts(1) subset_refl]])
    moreover have "set (fst (push_unique_candidate acc s)) \<subseteq> insert s (set (fst acc)) \<union> set ss"
      by (rule subset_trans [OF push_unique_facts(1)]) auto
    ultimately show ?case by (simp add: Let_def) }
  { case 2 note p = push_unique_facts [of acc s] show ?case using subset_trans [OF p(2) Cons.IH(2)] p(2) by (simp add: Let_def) }
  { case 3 note p = push_unique_facts [of acc s] from 3 show ?case using Cons.IH(3) [of "push_unique_candidate acc s"] p(3) by (simp add: Let_def) }
  { case 4 note p = push_unique_facts [of acc s]
    have "fst (push_unique_candidate acc s) \<noteq> []" using p(5) [OF 4(1)] by auto
    moreover have "set (fst (push_unique_candidate acc s)) \<subseteq> set (fst (push_until_full n acc (s # ss)))"
      using Cons.IH(2) [of "push_unique_candidate acc s"] by (simp add: Let_def)
    ultimately show ?case by auto }
qed simp_all

lemma front_cached:
  "set (move_real_debrid_cached_candidates_to_front ss) = set ss"
  "length (move_real_debrid_cached_candidates_to_front ss) = length ss"
  by (auto simp: move_real_debrid_cached_candidates_to_front_def sum_length_filter_compl)

lemma front_container:
  "set (move_container_candidates_to_front c ss) = set ss"
  "length (move_container_candidates_to_front c ss) = length ss"
  by (auto simp: move_container_candidates_to_front_def sum_length_filter_compl)

lemma container_candidates_set: "set (container_candidates env c lang health ss) \<subseteq> set ss"
  by (auto simp: container_candidates_def)

lemma ensure_container_facts:
  assumes "r = ensure_at_least_one_container_candidate env candidates pool c limit lang health"
  shows "set r \<subseteq> set candidates \<union> set pool" "length r \<le> max 1 limit" "candidates \<noteq> [] \<Longrightarrow> r \<noteq> []"
    "container_candidates env c lang health pool = [] \<Longrightarrow> r = take (max 1 limit) candidates"
proof -
  let ?t = "take (max 1 limit) candidates"
  have b: "set (butlast ?t) \<subseteq> set candidates" by (meson in_set_butlastD in_set_takeD subsetI)
  have p: "pick_best_container_candidate env c lang health pool = Some x \<Longrightarrow> x \<in> set pool" for x
    using container_candidates_set [of env c lang health pool]
    by (auto simp: pick_best_container_candidate_def split: list.splits)
  have cases: "r = ?t \<or> (\<exists>x. ?t \<noteq> [] \<and> pick_best_container_candidate env c lang health pool = Some x \<and> r = butlast ?t @ [x])"
    using assms by (auto simp: ensure_at_least_one_container_candidate_def Let_def split: if_splits option.splits)
  then show "set r \<subseteq> set candidates \<union> set pool" using b p by (auto dest: in_set_takeD)
  show "length r \<le> max 1 limit" using cases by (auto simp: max_def split: if_splits)
  show "candidates \<noteq> [] \<Longrightarrow> r \<noteq> []" using cases by (auto simp: max_def split: if_splits)
  show "container_candidates env c lang health pool = [] \<Longrightarrow> r = ?t"
    using assms by (auto simp: ensure_at_least_one_container_candidate_def pick_best_container_candidate_def Let_def split: if_splits)
qed

definition mp4_filled :: "ranking_env \<Rightarrow> discovery_stream list \<Rightarrow> discovery_stream list \<Rightarrow> nat \<Rightarrow> string \<Rightarrow> health_scores \<Rightarrow>
    discovery_stream list" where
  "mp4_filled env w pool limit lang health =
     (let n = max 1 limit; acc = foldl push_unique_candidate ([], []) (take n (filter ds_real_debrid_cached pool));
          acc = push_until_full n acc (container_candidates env ''mp4'' lang health pool);
          acc = (if length (fst acc) < n then push_until_full n acc w else acc)
      in fst acc)"

lemma mp4_rule_cases:
  assumes "normalize_source_hash source_hash = []" "candidates \<noteq> []"
    and r: "r = apply_mp4_default_candidate_rule env candidates pool source_hash limit lang health"
    and w: "w = ensure_at_least_one_container_candidate env candidates pool ''mp4'' limit lang health"
  obtains
    (full) "max 1 limit \<le> length (filter ds_real_debrid_cached pool)" "r = take (max 1 limit) (filter ds_real_debrid_cached pool)"
  | (plain) "length (filter ds_real_debrid_cached pool) < max 1 limit" "container_candidates env ''mp4'' lang health pool = []"
      "r = move_real_debrid_cached_candidates_to_front (move_container_candidates_to_front ''mp4'' (take (max 1 limit) candidates))"
  | (fill) "length (filter ds_real_debrid_cached pool) < max 1 limit" "container_candidates env ''mp4'' lang health pool \<noteq> []"
      "r = move_real_debrid_cached_candidates_to_front (mp4_filled env w pool limit lang health)"
proof -
  have "w \<noteq> []" by (rule ensure_container_facts(3) [OF w assms(2)])
  then have rr: "r = (if max 1 limit \<le> length (take (max 1 limit) (filter ds_real_debrid_cached pool))
      then take (max 1 limit) (filter ds_real_debrid_cached pool)
      else if container_candidates env ''mp4'' lang health pool = []
      then move_real_debrid_cached_candidates_to_front (move_container_candidates_to_front ''mp4'' w)
      else move_real_debrid_cached_candidates_to_front (mp4_filled env w pool limit lang health))"
    using assms(1) unfolding r apply_mp4_default_candidate_rule_def Let_def w [symmetric] mp4_filled_def by (simp only: if_False simp_thms)
  have l: "max 1 limit \<le> length (take (max 1 limit) (filter ds_real_debrid_cached pool)) \<longleftrightarrow> max 1 limit \<le> length (filter ds_real_debrid_cached pool)"
    by simp
  show thesis
    using rr full plain fill ensure_container_facts(4) [OF w] unfolding l by (metis not_le)
qed

lemma mp4_filled_facts:
  assumes "length (filter ds_real_debrid_cached pool) < max 1 limit" "container_candidates env ''mp4'' lang health pool \<noteq> []"
    and "set w \<subseteq> set pool"
  shows "set (mp4_filled env w pool limit lang health) \<subseteq> set pool"
    "length (mp4_filled env w pool limit lang health) \<le> max 1 limit"
    "mp4_filled env w pool limit lang health \<noteq> []"
    "s \<in> set pool \<Longrightarrow> ds_real_debrid_cached s \<Longrightarrow>
       get_stream_info_hash s \<in> get_stream_info_hash ` set (mp4_filled env w pool limit lang health)"
proof -
  let ?n = "max 1 limit" and ?c = "filter ds_real_debrid_cached pool" and ?m = "container_candidates env ''mp4'' lang health pool"
  define a0 where "a0 = foldl push_unique_candidate ([], []) ?c"
  define a1 where "a1 = push_until_full ?n a0 ?m"
  define a2 where "a2 = (if length (fst a1) < ?n then push_until_full ?n a1 w else a1)"
  have t: "take ?n ?c = ?c" using assms(1) by simp
  have f: "mp4_filled env w pool limit lang health = fst a2"
    unfolding mp4_filled_def Let_def t a0_def [symmetric] a1_def [symmetric] a2_def by simp
  have ok: "seen_ok ([], [])" by (simp add: seen_ok_def)
  have z: "set (fst a0) \<subseteq> set pool" "length (fst a0) < ?n" "seen_ok a0"
    using foldl_push_facts [of "([], [])" ?c] ok assms(1) by (auto simp: a0_def)
  have o: "set (fst a1) \<subseteq> set pool" "length (fst a1) \<le> ?n" "fst a1 \<noteq> []" "set (fst a0) \<subseteq> set (fst a1)"
    using push_until_full_facts [where n = ?n and acc = a0 and ss = ?m] z container_candidates_set [of env "''mp4''" lang health pool] assms(2)
    by (auto simp: a1_def)
  have s: "set (fst a2) \<subseteq> set pool" "length (fst a2) \<le> ?n" "set (fst a1) \<subseteq> set (fst a2)"
    using push_until_full_facts(1-3) [where n = ?n and acc = a1 and ss = w] o assms(3) by (auto simp: a2_def)
  show "set (mp4_filled env w pool limit lang health) \<subseteq> set pool" "length (mp4_filled env w pool limit lang health) \<le> ?n"
    using s f by simp_all
  show "mp4_filled env w pool limit lang health \<noteq> []" using o(3) s(3) f by auto
  assume "s \<in> set pool" "ds_real_debrid_cached s"
  then have "get_stream_info_hash s \<in> get_stream_info_hash ` set (fst a0)"
    unfolding a0_def by (intro foldl_push_covers [OF ok]) simp
  with o(4) s(3) show "get_stream_info_hash s \<in> get_stream_info_hash ` set (mp4_filled env w pool limit lang health)"
    unfolding f by blast
qed

definition cached_first :: "discovery_stream list \<Rightarrow> bool" where
  "cached_first ss = sorted_wrt (\<lambda>a b. ds_real_debrid_cached b \<longrightarrow> ds_real_debrid_cached a) ss"

lemma front_cached_first: "cached_first (move_real_debrid_cached_candidates_to_front ss)"
proof -
  have "sorted_wrt (\<lambda>a b. ds_real_debrid_cached b \<longrightarrow> ds_real_debrid_cached a) (filter ds_real_debrid_cached ss)"
    "sorted_wrt (\<lambda>a b. ds_real_debrid_cached b \<longrightarrow> ds_real_debrid_cached a) (filter (\<lambda>s. \<not> ds_real_debrid_cached s) ss)"
    by (induction ss) auto
  then show ?thesis by (auto simp: cached_first_def move_real_debrid_cached_candidates_to_front_def sorted_wrt_append)
qed

lemma cached_first_take: "cached_first ss \<Longrightarrow> cached_first (take n ss)"
  by (simp add: cached_first_def sorted_wrt_take)

lemma cached_first_filter: "cached_first (filter ds_real_debrid_cached ss)"
  by (induction ss) (auto simp: cached_first_def)

lemma cached_first_cut:
  assumes "cached_first ss" "u \<in> set (take n ss)" "\<not> ds_real_debrid_cached u" "s \<in> set ss" "ds_real_debrid_cached s"
  shows "s \<in> set (take n ss)"
proof (rule ccontr)
  assume "s \<notin> set (take n ss)"
  then have "s \<in> set (drop n ss)" using assms(4) by (metis Un_iff append_take_drop_id set_append)
  moreover have "cached_first (take n ss @ drop n ss)" using assms(1) by simp
  ultimately show False using assms(2,3,5) unfolding cached_first_def sorted_wrt_append by blast
qed

text \<open>What one selection without a pinned source gives, for a pool with the cached sources first.\<close>

lemma selection_facts:
  assumes "normalize_source_hash source_hash = []" "pool \<noteq> []"
    and r_def: "r = selection env rq source_hash limit mp4 pool"
  shows "set r \<subseteq> set pool" "length r \<le> max 1 limit" "r \<noteq> []"
    "cached_first pool \<Longrightarrow> cached_first r"
    "cached_first pool \<Longrightarrow> u \<in> set r \<Longrightarrow> \<not> ds_real_debrid_cached u \<Longrightarrow> s \<in> set pool \<Longrightarrow> ds_real_debrid_cached s \<Longrightarrow>
       get_stream_info_hash s \<in> get_stream_info_hash ` set r"
proof -
  let ?n = "max 1 limit" and ?lang = "sf_source_language (rq_filters rq)" and ?health = "rq_health rq"
  let ?t = "take ?n pool"
  have t: "set ?t \<subseteq> set pool" "length ?t \<le> ?n" "?t \<noteq> []" using assms(2) by (auto dest: in_set_takeD)
  have "(set r \<subseteq> set pool \<and> length r \<le> ?n \<and> r \<noteq> []) \<and> (cached_first pool \<longrightarrow> cached_first r \<and>
      (u \<in> set r \<longrightarrow> \<not> ds_real_debrid_cached u \<longrightarrow> s \<in> set pool \<longrightarrow> ds_real_debrid_cached s \<longrightarrow>
       get_stream_info_hash s \<in> get_stream_info_hash ` set r))"
  proof (cases mp4)
    case False
    then have "r = ?t" unfolding r_def selection_def prioritize_free [OF assms(1)] by simp
    then show ?thesis using t cached_first_take [of pool ?n] cached_first_cut [of pool u ?n s] by (metis image_eqI)
  next
    case True
    then have r: "r = apply_mp4_default_candidate_rule env ?t pool source_hash limit ?lang ?health"
      unfolding r_def selection_def prioritize_free [OF assms(1)] by simp
    define w where "w = ensure_at_least_one_container_candidate env ?t pool ''mp4'' limit ?lang ?health"
    have w: "set w \<subseteq> set pool" using ensure_container_facts(1) [OF w_def] t(1) by auto
    show ?thesis
    proof (cases rule: mp4_rule_cases [OF assms(1) t(3) r w_def])
      case 1
      note full = this
      have "set r \<subseteq> set pool" "\<forall>x \<in> set r. ds_real_debrid_cached x" using full(2) by (auto dest: in_set_takeD)
      moreover have "length r = ?n" using full by simp
      moreover have "cached_first r" unfolding full(2) by (rule cached_first_take [OF cached_first_filter])
      ultimately show ?thesis by auto
    next
      case 2
      note plain = this
      have "set r = set ?t" "length r = length ?t" unfolding plain(3) by (simp_all add: front_cached front_container)
      moreover have "cached_first r" unfolding plain(3) by (rule front_cached_first)
      ultimately show ?thesis using t cached_first_cut by (metis image_eqI length_0_conv)
    next
      case 3
      note fill = this
      note f = mp4_filled_facts [OF fill(1,2) w]
      have "set r = set (mp4_filled env w pool limit ?lang ?health)" "length r = length (mp4_filled env w pool limit ?lang ?health)"
        unfolding fill(3) by (simp_all add: front_cached)
      moreover have "cached_first r" unfolding fill(3) by (rule front_cached_first)
      ultimately show ?thesis using f by (metis length_0_conv)
    qed
  qed
  then show "set r \<subseteq> set pool" "length r \<le> max 1 limit" "r \<noteq> []"
    "cached_first pool \<Longrightarrow> cached_first r"
    "cached_first pool \<Longrightarrow> u \<in> set r \<Longrightarrow> \<not> ds_real_debrid_cached u \<Longrightarrow> s \<in> set pool \<Longrightarrow> ds_real_debrid_cached s \<Longrightarrow>
       get_stream_info_hash s \<in> get_stream_info_hash ` set r"
    by blast+
qed

section \<open>The bounds of a score\<close>

lemma round_away_range: "of_int a \<le> q \<Longrightarrow> q \<le> of_int b \<Longrightarrow> a \<le> 0 \<Longrightarrow> 0 \<le> b \<Longrightarrow> a \<le> round_away q \<and> round_away q \<le> b"
proof -
  assume q: "of_int a \<le> q" "q \<le> of_int b" and ab: "a \<le> 0" "0 \<le> b"
  have "\<lfloor>q + 1 / 2\<rfloor> \<le> b" using q(2) by (simp add: floor_le_iff)
  moreover have "\<lfloor>1 / 2 - q\<rfloor> \<le> - a" using q(1) by (simp add: floor_le_iff)
  moreover have "0 \<le> q \<Longrightarrow> 0 \<le> \<lfloor>q + 1 / 2\<rfloor>" "\<not> 0 \<le> q \<Longrightarrow> 0 \<le> \<lfloor>1 / 2 - q\<rfloor>" by (simp_all add: le_floor_iff)
  ultimately show "a \<le> round_away q \<and> round_away q \<le> b" using ab unfolding round_away_def by (cases "0 \<le> q"; simp only: if_True if_False; linarith)
qed

definition counts_ok :: "source_health_stats \<Rightarrow> bool" where
  "counts_ok s \<longleftrightarrow> 0 \<le> hs_success_count s \<and> 0 \<le> hs_failure_count s \<and> 0 \<le> hs_decode_failure_count s \<and>
     0 \<le> hs_ended_early_count s \<and> 0 \<le> hs_playback_error_count s"

lemma compute_source_health_score_range:
  assumes "counts_ok s"
  shows "- 10000 \<le> compute_source_health_score s \<and> compute_source_health_score s \<le> 1260"
proof -
  let ?a = "hs_success_count s + hs_failure_count s"
  have c: "0 \<le> hs_success_count s" "0 \<le> hs_failure_count s" "0 \<le> hs_decode_failure_count s" "0 \<le> hs_ended_early_count s"
    "0 \<le> hs_playback_error_count s" using assms by (simp_all add: counts_ok_def)
  have "- 1540 \<le> round_away ((of_int (hs_success_count s) / of_int ?a - 55 / 100) * 2800 * min (of_int ?a / 6) 1) \<and>
      round_away ((of_int (hs_success_count s) / of_int ?a - 55 / 100) * 2800 * min (of_int ?a / 6) 1) \<le> 1260" if "0 < ?a"
  proof (rule round_away_range)
    let ?r = "of_int (hs_success_count s) / of_int ?a :: rat" and ?f = "min (of_int ?a / 6) 1 :: rat"
    have r: "0 \<le> ?r" "?r \<le> 1" using c that by (simp_all add: divide_le_eq_1)
    have f: "0 \<le> ?f" "?f \<le> 1" using that by auto
    have x: "- 1540 \<le> x * f \<and> x * f \<le> 1260" if "- 1540 \<le> x" "x \<le> 1260" "0 \<le> f" "f \<le> 1" for x f :: rat
      using mult_right_mono [of "- 1540" x f] mult_right_mono [of x 1260 f] that by linarith
    have y: "- 1540 \<le> (x - 55 / 100) * 2800 \<and> (x - 55 / 100) * 2800 \<le> 1260" if "0 \<le> x" "x \<le> 1" for x :: rat
      using that by simp
    have "- 1540 \<le> (?r - 55 / 100) * 2800 * ?f \<and> (?r - 55 / 100) * 2800 * ?f \<le> 1260"
      using y [OF r] f by (intro x) blast+
    then show "of_int (- 1540) \<le> (?r - 55 / 100) * 2800 * ?f" "(?r - 55 / 100) * 2800 * ?f \<le> of_int 1260" by simp_all
  qed simp_all
  then show ?thesis
    using c by (auto simp: compute_source_health_score_def Let_def SOURCE_HEALTH_AVOID_SCORE_def min_def)
qed

definition log_ok :: "ranking_env \<Rightarrow> bool" where
  "log_ok env \<longleftrightarrow> (\<forall>n k. 1 \<le> n \<longrightarrow> 0 \<le> k \<longrightarrow> 0 \<le> rk_log_score env n k)"

lemma language_preference_range:
  "- 8400 \<le> score_stream_language_preference s lang" "score_stream_language_preference s lang \<le> 2500"
proof -
  have n: "length (filter p audio_languages) \<le> 6" for p
    using length_filter_le [of p audio_languages] by (simp add: audio_languages_def)
  have "0 \<le> (if b then 2500 else 0 :: int) \<and> (if b then 2500 else 0 :: int) \<le> 2500" for b by simp
  then show "- 8400 \<le> score_stream_language_preference s lang" "score_stream_language_preference s lang \<le> 2500"
    using n [of "\<lambda>l. l \<noteq> normalize_preferred_audio_lang lang \<and> list_ex (contains (build_stream_text s)) (audio_language_tokens l)"]
    unfolding score_stream_language_preference_def Let_def by (auto split: if_split)
qed

lemma part_ranges:
  "- 2200 \<le> score_stream_source_audio_profile env s l p" "score_stream_source_audio_profile env s l p \<le> 1600"
  "- 1600 \<le> score_stream_quality_preference env s q" "score_stream_quality_preference env s q \<le> 1400"
  "- 900 \<le> score_stream_title_year_match s md" "score_stream_title_year_match s md \<le> 1800"
  "- 360 \<le> score_stream_runtime_match env s md" "score_stream_runtime_match env s md \<le> 420"
  "- 4200 \<le> score_stream_release_quality env s" "score_stream_release_quality env s \<le> 0"
  "- 3400 \<le> score_stream_episode_match env s x y" "score_stream_episode_match env s x y \<le> 2800"
  unfolding score_stream_source_audio_profile_def score_stream_quality_preference_def score_stream_title_year_match_def
    score_stream_runtime_match_def score_stream_release_quality_def score_stream_episode_match_def Let_def
  by (simp_all add: min_def split: if_split)

lemma seeders_range:
  "log_ok env \<Longrightarrow> 0 \<le> score_stream_seeders env s \<and> score_stream_seeders env s \<le> 900"
  by (auto simp: score_stream_seeders_def Let_def log_ok_def)

lemma health_range:
  assumes "\<forall>h s. stats_of h = Some s \<longrightarrow> counts_ok s"
  shows "- 10000 \<le> health_of (compute_source_health_scores stats_of streams) s" "health_of (compute_source_health_scores stats_of streams) s \<le> 1260"
proof -
  have "- 10000 \<le> compute_source_health_score t \<and> compute_source_health_score t \<le> 1260" if "stats_of h = Some t" for h t
    using assms that compute_source_health_score_range by blast
  then show "- 10000 \<le> health_of (compute_source_health_scores stats_of streams) s" "health_of (compute_source_health_scores stats_of streams) s \<le> 1260"
    by (auto simp: health_of_def compute_source_health_scores_def split: option.split)
qed

lemma score_range:
  assumes "log_ok env" and "\<forall>h s. stats_of h = Some s \<longrightarrow> counts_ok s" and "rq_health rq = compute_source_health_scores stats_of streams"
  shows "(if ds_real_debrid_cached s then 250000 else 0) - 27660 \<le> score_stream_quality env rq s"
    "score_stream_quality env rq s \<le> (if ds_real_debrid_cached s then 250000 else 0) + 9880"
  unfolding score_stream_quality_def
  using language_preference_range [of s "rq_audio_lang rq"] part_ranges(1,2) [of env s "sf_source_language (rq_filters rq)" "sf_source_audio_profile (rq_filters rq)"]
    part_ranges(3,4) [of env s "rq_quality rq"] part_ranges(5,6) [of s "rq_metadata rq"] part_ranges(7,8) [of env s "rq_metadata rq"]
    part_ranges(9,10) [of env s] seeders_range [OF assms(1), of s] health_range [OF assms(2), of streams s] assms(3)
  by simp_all

lemma sort_key_cached_first:
  fixes f :: "discovery_stream \<Rightarrow> int \<times> int"
  assumes "\<And>a b. ds_real_debrid_cached b \<Longrightarrow> \<not> ds_real_debrid_cached a \<Longrightarrow> fst (f b) < fst (f a)"
  shows "cached_first (sort_key f ss)"
proof -
  have "sorted_wrt (\<lambda>x y. f x \<le> f y) (sort_key f ss)" using sorted_sort_key [of f ss] by (simp add: sorted_map)
  then show ?thesis unfolding cached_first_def
    by (rule sorted_wrt_mono_rel [rotated]) (use assms in \<open>force simp: less_eq_prod_def\<close>)
qed

lemma pools_cached_first:
  assumes "log_ok env" and "\<forall>h s. stats_of h = Some s \<longrightarrow> counts_ok s" and "rq_health rq = compute_source_health_scores stats_of streams"
  shows "cached_first (movie_pool env rq pool)" "cached_first (episode_pool env rq pool)"
proof -
  have "score_stream_quality env rq a + 10000 < score_stream_quality env rq b"
    if "ds_real_debrid_cached b" "\<not> ds_real_debrid_cached a" for a b
    using score_range [OF assms, of a] score_range [OF assms, of b] that by simp
  moreover have "episode_score env rq a < episode_score env rq b"
    if "score_stream_quality env rq a + 10000 < score_stream_quality env rq b" for a b
    using that part_ranges(11,12) [of env a "rm_season_number (rq_metadata rq)" "rm_episode_number (rq_metadata rq)"]
      part_ranges(11,12) [of env b "rm_season_number (rq_metadata rq)" "rm_episode_number (rq_metadata rq)"]
    unfolding episode_score_def by linarith
  ultimately show "cached_first (movie_pool env rq pool)" "cached_first (episode_pool env rq pool)"
    unfolding movie_pool_def episode_pool_def sort_movie_candidates_def sort_episode_candidates_def
    by (intro sort_key_cached_first; force)+
qed

section \<open>Theorems of the selection\<close>

lemma top_candidates_facts:
  assumes "normalize_source_hash source_hash = []" and "ranked_pool_of env (rq_filters rq) streams \<noteq> []"
    and "r \<in> {select_top_movie_candidates env rq source_hash limit prefer streams,
      select_top_episode_candidates env rq container source_hash limit prefer streams}"
  obtains mp4 pool where "r = selection env rq source_hash limit mp4 pool" "pool \<noteq> []"
    "set pool \<subseteq> set (ranked_pool_of env (rq_filters rq) streams)"
    "pool \<in> {movie_pool env rq (ranked_pool_of env (rq_filters rq) streams), episode_pool env rq (ranked_pool_of env (rq_filters rq) streams)}"
  using assms(3) movie_selection [OF assms(2)] episode_selection [OF assms(2)] pools_nonempty [OF assms(2)] pools_subset
  by (metis (no_types, lifting) insert_iff singletonD)

text \<open>What is tried without a pinned source. For a movie and for an episode every selected source
  is one of the streams, has a hash and passes the request's filters; at most \<open>max 1 limit\<close> are
  selected; and at least one is, unless no stream with a hash passes the filters.\<close>

theorem selection_sound:
  assumes "normalize_source_hash source_hash = []"
    and "r \<in> {select_top_movie_candidates env rq source_hash limit prefer streams,
      select_top_episode_candidates env rq container source_hash limit prefer streams}"
  shows "(\<forall>s \<in> set r. s \<in> set streams \<and> get_stream_info_hash s \<noteq> [] \<and> passes_source_filters env (rq_filters rq) s) \<and>
    length r \<le> max 1 limit \<and>
    (r = [] \<longleftrightarrow> (\<forall>s \<in> set streams. get_stream_info_hash s = [] \<or> \<not> passes_source_filters env (rq_filters rq) s))"
proof -
  let ?p = "ranked_pool_of env (rq_filters rq) streams"
  have p: "s \<in> set ?p \<longleftrightarrow> s \<in> set streams \<and> get_stream_info_hash s \<noteq> [] \<and> passes_source_filters env (rq_filters rq) s" for s
    by (auto simp: ranked_pool_of_def apply_source_stream_filters_def)
  show ?thesis
  proof (cases "?p = []")
    case True
    then have "r = []" using assms(2) selection_empty [OF True] by auto
    moreover have "s \<notin> set ?p" for s using True by simp
    ultimately show ?thesis using p by auto
  next
    case False
    from top_candidates_facts [OF assms(1) False assms(2)] obtain mp4 pool where
      r: "r = selection env rq source_hash limit mp4 pool" "pool \<noteq> []" "set pool \<subseteq> set ?p" by metis
    note f = selection_facts(1-3) [OF assms(1) r(2,1)]
    have "\<exists>s. s \<in> set ?p" using False by (cases ?p) auto
    then show ?thesis using f r(3) p by blast
  qed
qed


section \<open>The first wave of local torrents\<close>

lemma last_max_index_spec:
  assumes "j < i" "best = f (ys ! j)" "i = length ys" "\<forall>k < i. f (ys ! k) \<le> best"
  shows "last_max_index f i (j, best) xs < length (ys @ xs) \<and>
    (\<forall>x \<in> set (ys @ xs). f x \<le> f ((ys @ xs) ! last_max_index f i (j, best) xs))"
  using assms
proof (induction xs arbitrary: ys i j best)
  case Nil
  then show ?case by (auto simp: in_set_conv_nth)
next
  case (Cons x xs)
  show ?case
  proof (cases "best \<le> f x")
    case True
    have "\<forall>k < Suc i. f ((ys @ [x]) ! k) \<le> f x"
      using Cons.prems(3,4) True by (auto simp: nth_append less_Suc_eq intro: order_trans)
    with Cons.IH [of i "Suc i" "f x" "ys @ [x]"] Cons.prems(3) True show ?thesis by simp
  next
    case False
    have "\<forall>k < Suc i. f ((ys @ [x]) ! k) \<le> best"
      using Cons.prems(3,4) False by (auto simp: nth_append less_Suc_eq)
    moreover have "best = f ((ys @ [x]) ! j)" using Cons.prems(1-3) by (simp add: nth_append)
    ultimately show ?thesis using Cons.IH [of j "Suc i" best "ys @ [x]"] Cons.prems(1,3) False by simp
  qed
qed

lemma mset_insert_at: "mset (take k ys @ [x] @ drop k ys) = add_mset x (mset ys)"
proof -
  have "mset (take k ys) + mset (drop k ys) = mset ys" by (metis append_take_drop_id mset_append)
  then show ?thesis by simp
qed

lemma mset_moved:
  assumes "n < length xs"
  shows "mset (take k (take n xs @ drop (Suc n) xs) @ [xs ! n] @ drop k (take n xs @ drop (Suc n) xs)) = mset xs"
proof -
  have "mset (take n xs @ xs ! n # drop (Suc n) xs) = mset xs" using id_take_nth_drop [OF assms] by simp
  then show ?thesis unfolding mset_insert_at by simp
qed

text \<open>The first wave of local torrents. No source is lost or duplicated, the first one stays first, and
  one of the first two has the highest local score of all (with the number of seeders to break ties).\<close>

theorem first_wave_has_the_best_local_source:
  "mset (prioritize_local_torrent_first_wave env candidates) = mset candidates \<and>
   take 1 (prioritize_local_torrent_first_wave env candidates) = take 1 candidates \<and>
   (candidates = [] \<or> (\<exists>s \<in> set (take 2 (prioritize_local_torrent_first_wave env candidates)). \<forall>c \<in> set candidates. local_key env c \<le> local_key env s))"
proof (cases candidates)
  case Nil
  then show ?thesis by (simp add: prioritize_local_torrent_first_wave_def)
next
  case (Cons c cs)
  let ?f = "local_key env"
  define n where "n = last_max_index ?f 1 (0, ?f c) cs"
  have n: "n < length candidates" "\<forall>x \<in> set candidates. ?f x \<le> ?f (candidates ! n)"
    using last_max_index_spec [of 0 1 "?f c" ?f "[c]" cs] by (simp_all add: n_def Cons)
  show ?thesis
  proof (cases "length candidates \<le> 2 \<or> n < 2")
    case True
    have w: "prioritize_local_torrent_first_wave env candidates = candidates"
      using True by (auto simp: prioritize_local_torrent_first_wave_def Cons LOCAL_TORRENT_RACE_CANDIDATES_def n_def Let_def)
    have "candidates ! n \<in> set (take 2 candidates)" using True n(1) by (auto simp: in_set_conv_nth intro!: exI [of _ n])
    with n(2) w show ?thesis by auto
  next
    case False
    let ?removed = "take n candidates @ drop (Suc n) candidates"
    have w: "prioritize_local_torrent_first_wave env candidates = take 1 ?removed @ [candidates ! n] @ drop 1 ?removed"
      using False unfolding prioritize_local_torrent_first_wave_def LOCAL_TORRENT_RACE_CANDIDATES_def Let_def
      by (simp add: Cons n_def)
    have "take 1 ?removed = [c]" using False n(1) by (cases n) (simp_all add: Cons)
    moreover have "mset (take 1 ?removed @ [candidates ! n] @ drop 1 ?removed) = mset candidates"
      by (rule mset_moved [OF n(1)])
    ultimately show ?thesis using n(2) unfolding w by (simp add: Cons)
  qed
qed

section \<open>A concrete instance\<close>

definition sample_source :: "char \<Rightarrow> bool \<Rightarrow> discovery_stream" where
  "sample_source c cached =
     \<lparr>ds_info_hash = replicate 40 c, ds_file_idx = None, ds_name = ''n'', ds_title = [], ds_description = [], ds_filename = ''f.mp4'',
      ds_sources = [], ds_magnet_url = [], ds_discovery_provider = [], ds_download_url = [], ds_real_debrid_cached = cached\<rparr>"

definition sample_ranking :: ranking_env where
  "sample_ranking = \<lparr>rk_re = (\<lambda>_ _. []), rk_log_score = (\<lambda>_ _. 0)\<rparr>"

definition sample_streams :: "discovery_stream list" where
  "sample_streams = [sample_source CHR ''a'' False, sample_source CHR ''b'' True]"

definition sample_rank_request :: ranking_request where
  "sample_rank_request =
     \<lparr>rq_metadata = \<lparr>rm_tmdb_id = [], rm_imdb_id = [], rm_display_title = ''Heat'', rm_display_year = [], rm_runtime_seconds = 0,
        rm_season_number = 0, rm_episode_number = 0, rm_episode_title = [], rm_media_type = ''movie''\<rparr>,
      rq_audio_lang = ''auto'', rq_quality = ''auto'',
      rq_filters = \<lparr>sf_min_seeders = 0, sf_allowed_formats = [], sf_source_language = ''any'', sf_source_audio_profile = ''any''\<rparr>,
      rq_health = compute_source_health_scores (\<lambda>_. None) sample_streams\<rparr>"

lemma sample_selected:
  "select_top_movie_candidates sample_ranking sample_rank_request [] 2 True sample_streams = rev sample_streams"
  by code_simp

lemma sample_pool:
  "sample_source CHR ''b'' True \<in> set (movie_pool sample_ranking sample_rank_request
     (ranked_pool_of sample_ranking (rq_filters sample_rank_request) sample_streams))"
  by code_simp

theorem pinned_source_is_never_substituted_witness:
  "select_top_movie_candidates sample_ranking sample_rank_request (replicate 40 CHR ''a'') 2 True sample_streams = [sample_source CHR ''a'' False]"
proof -
  let ?r = "select_top_movie_candidates sample_ranking sample_rank_request (replicate 40 CHR ''a'') 2 True sample_streams"
  have h: "normalize_source_hash (replicate 40 CHR ''a'') \<noteq> []" by code_simp
  have n: "?r \<noteq> []" by code_simp
  have o: "get_stream_info_hash (sample_source CHR ''b'' True) \<noteq> normalize_source_hash (replicate 40 CHR ''a'')" by code_simp
  from pinned_source_is_never_substituted [OF h insertI1, of sample_ranking sample_rank_request 2 True sample_streams] n
  obtain s where "s \<in> set sample_streams" "?r = [s]" "get_stream_info_hash s = normalize_source_hash (replicate 40 CHR ''a'')" by blast
  with o show ?thesis by (auto simp: sample_streams_def)
qed

theorem selection_sound_witness:
  "\<exists>s \<in> set (select_top_movie_candidates sample_ranking sample_rank_request [] 2 True sample_streams).
     passes_source_filters sample_ranking (rq_filters sample_rank_request) s"
proof -
  have "normalize_source_hash [] = []" by code_simp
  from selection_sound [OF this insertI1, of sample_ranking sample_rank_request 2 True sample_streams]
  show ?thesis unfolding sample_selected by (auto simp: sample_streams_def)
qed


theorem first_wave_has_the_best_local_source_witness:
  "\<exists>s \<in> set (take 2 (prioritize_local_torrent_first_wave sample_ranking (sample_streams @ [sample_source CHR ''c'' False]))).
     local_key sample_ranking (sample_source CHR ''c'' False) \<le> local_key sample_ranking s"
  using first_wave_has_the_best_local_source [of sample_ranking "sample_streams @ [sample_source CHR ''c'' False]"] by auto

text \<open>
  The expression for hours needs a word boundary after the \<open>h\<close>, that for minutes matches anywhere: a label such as
  \<open>1h45m\<close>, for which the program has an expression of its own that is tried last, is read as 45 minutes.
\<close>

lemma compact_runtime_is_read_as_minutes:
  assumes "re HMS_RUNTIME_RE ''1h45m'' = []" "re HOURS_RUNTIME_RE ''1h45m'' = []"
    "re MINUTES_RUNTIME_RE ''1h45m'' = [[Some ''45m'', Some ''45'']]"
  shows "parse_runtime_from_label_seconds re ''1h45m'' = 45 * 60"
proof -
  have "lower ''1h45m'' = ''1h45m''" "parse_f64 ''45'' = Some (Fin 45)" by code_simp+
  moreover have "\<lfloor>2701 / 2 :: rat\<rfloor> = 1350" "\<lfloor>5401 / 2 :: rat\<rfloor> = 2700" by (simp_all add: floor_eq_iff)
  ultimately show ?thesis using assms
    by (simp add: parse_runtime_from_label_seconds_def Let_def re_first_def re_group_def round_away_def sat64_def i64_max_def i64_min_def)
qed

end
