(* ===== verification/DebridTickets.thy ===== *)
theory DebridTickets
  imports LiveGrants RateLimit
begin

text \<open>
  The context a request to a user's debrid account acts in, and the tickets for the remote
  playlist (\<open>src/resolver/real_debrid.rs\<close>). A ticket is signed over the file, its expiry, the user, the credential and the
  way of delivery; presented by its owner before it expires it costs at most one call of the
  provider, whose answer is kept for the next five minutes. SHA-256 and the printing of floats are
  parameters beside those of \<open>LiveGrants\<close>.
\<close>

section \<open>Environment\<close>

record debrid_env =
  dv_live :: live_env
  dv_sha256 :: "string \<Rightarrow> string"
  dv_float :: "rat \<Rightarrow> string"

definition stringify_json :: "debrid_env \<Rightarrow> json option \<Rightarrow> string" where
  "stringify_json env v =
     (case v of
        Some (JStr t) \<Rightarrow> trim t
      | Some (JInt n) \<Rightarrow> show_int n
      | Some (JFloat q) \<Rightarrow> dv_float env q
      | Some (JBool b) \<Rightarrow> (if b then ''true'' else ''false'')
      | _ \<Rightarrow> [])"

definition RD_LAZY_HLS_TICKET_TTL_SECONDS :: int where "RD_LAZY_HLS_TICKET_TTL_SECONDS = 10 * 60"
definition RD_LAZY_HLS_TICKET_MAX_FUTURE_SECONDS :: int where
  "RD_LAZY_HLS_TICKET_MAX_FUTURE_SECONDS = RD_LAZY_HLS_TICKET_TTL_SECONDS + 5"
definition RD_LAZY_HLS_SIGNATURE_CONTEXT :: string where "RD_LAZY_HLS_SIGNATURE_CONTEXT = ''streamarena-rd-lazy-hls-v1''"
definition RD_LAZY_HLS_TICKET_PREFIX :: string where "RD_LAZY_HLS_TICKET_PREFIX = ''streamarena-rd-hls-v1.''"
definition RD_LAZY_HLS_CACHE_MAX_ENTRIES :: nat where "RD_LAZY_HLS_CACHE_MAX_ENTRIES = 512"
definition RD_LAZY_HLS_CACHE_TTL_MS :: int where "RD_LAZY_HLS_CACHE_TTL_MS = 5 * 60 * 1000"
definition RD_LAZY_HLS_FAILURE_TTL_MS :: int where "RD_LAZY_HLS_FAILURE_TTL_MS = 5 * 1000"
definition RD_LAZY_HLS_MAX_CONCURRENT :: nat where "RD_LAZY_HLS_MAX_CONCURRENT = 4"
definition RD_LAZY_HLS_USER_MAX_ATTEMPTS :: nat where "RD_LAZY_HLS_USER_MAX_ATTEMPTS = 30"
definition RD_LAZY_HLS_USER_WINDOW_MS :: int where "RD_LAZY_HLS_USER_WINDOW_MS = 60 * 1000"

section \<open>The context of a request\<close>

record real_debrid_request_context =
  rd_api_key :: string
  rd_cache_scope :: string
  rd_user_id :: int
  rd_credential_binding :: string
  rd_remote_traffic :: bool

definition hex_nibble :: "bool \<Rightarrow> bool \<Rightarrow> bool \<Rightarrow> bool \<Rightarrow> char" where
  "hex_nibble b3 b2 b1 b0 = ''0123456789abcdef'' ! (of_bool b0 + 2 * of_bool b1 + 4 * of_bool b2 + 8 * of_bool b3)"

text \<open>\<open>format!("{byte:02x}")\<close>\<close>

fun hex_byte :: "char \<Rightarrow> string" where
  "hex_byte (Char b0 b1 b2 b3 b4 b5 b6 b7) = [hex_nibble b7 b6 b5 b4, hex_nibble b3 b2 b1 b0]"

definition real_debrid_token_fingerprint :: "debrid_env \<Rightarrow> string \<Rightarrow> string" where
  "real_debrid_token_fingerprint env api_key = concat (map hex_byte (take 16 (dv_sha256 env api_key)))"

definition real_debrid_delivery_scope :: "bool \<Rightarrow> string" where
  "real_debrid_delivery_scope remote_traffic = (if remote_traffic then ''remote-hls-v1'' else ''direct-v1'')"

definition build_real_debrid_cache_scope :: "debrid_env \<Rightarrow> int \<Rightarrow> string \<Rightarrow> bool \<Rightarrow> string" where
  "build_real_debrid_cache_scope env user_id api_key remote_traffic =
     ''user:'' @ show_int (max user_id 0) @ '':credential:'' @ real_debrid_token_fingerprint env (trim api_key) @
     '':delivery:'' @ real_debrid_delivery_scope remote_traffic"

text \<open>Whether remote traffic is on is configuration, the argument \<open>remote_traffic\<close>.\<close>

definition for_user_with_delivery :: "debrid_env \<Rightarrow> int \<Rightarrow> string \<Rightarrow> bool \<Rightarrow> real_debrid_request_context option" where
  "for_user_with_delivery env user_id api_key remote_traffic =
     (let normalized_api_key = trim api_key
      in if normalized_api_key = [] then None
         else let user_id = max user_id 0
         in Some \<lparr>rd_api_key = normalized_api_key,
                  rd_cache_scope = build_real_debrid_cache_scope env user_id normalized_api_key remote_traffic,
                  rd_user_id = user_id, rd_credential_binding = dv_sha256 env normalized_api_key,
                  rd_remote_traffic = remote_traffic\<rparr>)"

section \<open>Tickets\<close>

definition is_alphanumeric_byte :: "char \<Rightarrow> bool" where
  "is_alphanumeric_byte c \<longleftrightarrow> is_ascii_alphabetic c \<or> is_ascii_digit c"

definition valid_real_debrid_download_id :: "string \<Rightarrow> bool" where
  "valid_real_debrid_download_id v \<longleftrightarrow> v \<noteq> [] \<and> length v \<le> 64 \<and> list_all is_alphanumeric_byte v"

definition ticket_message :: "string \<Rightarrow> int \<Rightarrow> real_debrid_request_context \<Rightarrow> string" where
  "ticket_message download_id expires_at rd =
     RD_LAZY_HLS_SIGNATURE_CONTEXT @ NUL # download_id @ NUL # show_int expires_at @ NUL # show_int (rd_user_id rd) @
     NUL # rd_credential_binding rd @ NUL # real_debrid_delivery_scope (rd_remote_traffic rd)"

definition sign_real_debrid_lazy_hls_ticket ::
  "debrid_env \<Rightarrow> string \<Rightarrow> int \<Rightarrow> real_debrid_request_context \<Rightarrow> string \<Rightarrow> string" where
  "sign_real_debrid_lazy_hls_ticket env download_id expires_at rd secret =
     lv_b64 (dv_live env) (lv_hmac (dv_live env) secret (ticket_message download_id expires_at rd))"

definition verify_real_debrid_lazy_hls_ticket_signature ::
  "debrid_env \<Rightarrow> string \<Rightarrow> int \<Rightarrow> string \<Rightarrow> real_debrid_request_context \<Rightarrow> string \<Rightarrow> bool" where
  "verify_real_debrid_lazy_hls_ticket_signature env download_id expires_at signature rd secret \<longleftrightarrow>
     (if secret = [] \<or> \<not> is_binding_text signature then False
      else case lv_unb64 (dv_live env) signature of
        None \<Rightarrow> False
      | Some signature_bytes \<Rightarrow>
          if length signature_bytes \<noteq> 32 \<or> lv_b64 (dv_live env) signature_bytes \<noteq> signature then False
          else signature_bytes = lv_hmac (dv_live env) secret (ticket_message download_id expires_at rd))"

definition parse_real_debrid_lazy_hls_ticket :: "string \<Rightarrow> (string \<times> int \<times> string) option" where
  "parse_real_debrid_lazy_hls_ticket input =
     (case strip_prefix RD_LAZY_HLS_TICKET_PREFIX input of
        None \<Rightarrow> None
      | Some payload \<Rightarrow>
          (case split_on CHR ''.'' payload of
             [download_id, expiry, signature] \<Rightarrow>
               if \<not> valid_real_debrid_download_id download_id \<or> expiry = [] \<or> length expiry > 19 \<or>
                  length expiry > 1 \<and> starts_with expiry ''0'' \<or> \<not> list_all is_ascii_digit expiry
               then None
               else map_option (\<lambda>e. (download_id, e, signature)) (parse_i64 expiry)
           | _ \<Rightarrow> None))"

definition authorize_real_debrid_lazy_hls_ticket ::
  "debrid_env \<Rightarrow> string \<Rightarrow> real_debrid_request_context \<Rightarrow> string \<Rightarrow> int \<Rightarrow> (string \<times> int) option" where
  "authorize_real_debrid_lazy_hls_ticket env input rd secret now_seconds =
     (if \<not> rd_remote_traffic rd \<or> trim secret = [] then None
      else case parse_real_debrid_lazy_hls_ticket input of
        None \<Rightarrow> None
      | Some (download_id, expires_at, signature) \<Rightarrow>
          if expires_at \<le> now_seconds \<or>
             expires_at > saturating_add now_seconds RD_LAZY_HLS_TICKET_MAX_FUTURE_SECONDS \<or>
             \<not> verify_real_debrid_lazy_hls_ticket_signature env download_id expires_at signature rd secret
          then None else Some (download_id, expires_at))"

definition lazy_ticket :: "debrid_env \<Rightarrow> string \<Rightarrow> int \<Rightarrow> real_debrid_request_context \<Rightarrow> string \<Rightarrow> string" where
  "lazy_ticket env download_id expires_at rd secret =
     RD_LAZY_HLS_TICKET_PREFIX @ download_id @ ''.'' @ show_int expires_at @ ''.'' @
     sign_real_debrid_lazy_hls_ticket env download_id expires_at rd secret"

definition build_real_debrid_lazy_hls_playback_source_at ::
  "debrid_env \<Rightarrow> string \<Rightarrow> bool \<Rightarrow> real_debrid_request_context \<Rightarrow> string \<Rightarrow> int \<Rightarrow> string option" where
  "build_real_debrid_lazy_hls_playback_source_at env download_id streamable rd secret now_seconds =
     (if \<not> streamable \<or> \<not> rd_remote_traffic rd \<or> \<not> valid_real_debrid_download_id download_id \<or> trim secret = [] then None
      else let expires_at = saturating_add now_seconds RD_LAZY_HLS_TICKET_TTL_SECONDS
      in Some (''/api/hls/master.m3u8?input='' @ lv_encode (dv_live env) (lazy_ticket env download_id expires_at rd secret)))"

text \<open>The clock is in milliseconds.\<close>

definition build_real_debrid_lazy_hls_playback_source ::
  "debrid_env \<Rightarrow> string \<Rightarrow> bool \<Rightarrow> real_debrid_request_context \<Rightarrow> string \<Rightarrow> int \<Rightarrow> string option" where
  "build_real_debrid_lazy_hls_playback_source env download_id streamable rd secret now =
     build_real_debrid_lazy_hls_playback_source_at env download_id streamable rd secret (now div 1000)"

definition is_real_debrid_lazy_hls_input :: "string \<Rightarrow> bool" where
  "is_real_debrid_lazy_hls_input input \<longleftrightarrow> starts_with input RD_LAZY_HLS_TICKET_PREFIX"

text \<open>The one pair of the query; the same for an address that the URL parser has split.\<close>

definition strict_lazy_hls_pairs :: "(string \<times> string) list \<Rightarrow> string option" where
  "strict_lazy_hls_pairs pairs =
     (case pairs of
        [(k, v)] \<Rightarrow> if k \<noteq> ''input'' then None else if is_real_debrid_lazy_hls_input v then Some v else None
      | _ \<Rightarrow> None)"

definition parse_strict_real_debrid_lazy_hls_query :: "debrid_env \<Rightarrow> string \<Rightarrow> string option" where
  "parse_strict_real_debrid_lazy_hls_query env query = strict_lazy_hls_pairs (lv_query_pairs (dv_live env) query)"

definition real_debrid_lazy_hls_cache_key :: "debrid_env \<Rightarrow> string \<Rightarrow> real_debrid_request_context \<Rightarrow> string" where
  "real_debrid_lazy_hls_cache_key env download_id rd =
     lv_b64 (dv_live env) (dv_sha256 env
       (RD_LAZY_HLS_SIGNATURE_CONTEXT @ NUL # ''cache'' @ NUL # download_id @ NUL # show_int (rd_user_id rd) @
        NUL # rd_credential_binding rd @ NUL # real_debrid_delivery_scope (rd_remote_traffic rd)))"

definition refresh_real_debrid_lazy_hls_playback_source ::
  "debrid_env \<Rightarrow> string \<Rightarrow> real_debrid_request_context \<Rightarrow> string \<Rightarrow> int \<Rightarrow> string option" where
  "refresh_real_debrid_lazy_hls_playback_source env v rd secret now =
     (case (case lv_parse (dv_live env) v of
              Some url \<Rightarrow> Some url | None \<Rightarrow> lv_parse (dv_live env) (''http://localhost'' @ v)) of
        None \<Rightarrow> None
      | Some url \<Rightarrow>
          if wu_path url \<noteq> ''/api/hls/master.m3u8'' then None
          else case strict_lazy_hls_pairs (wu_query url) of
            None \<Rightarrow> None
          | Some input \<Rightarrow>
              (case parse_real_debrid_lazy_hls_ticket input of
                 None \<Rightarrow> None
               | Some (download_id, expires_at, signature) \<Rightarrow>
                   if \<not> rd_remote_traffic rd \<or>
                      \<not> verify_real_debrid_lazy_hls_ticket_signature env download_id expires_at signature rd secret
                   then None
                   else build_real_debrid_lazy_hls_playback_source env download_id True rd secret now))"

section \<open>Addresses of the provider\<close>

text \<open>\<open>is_real_debrid_transcode_hls_url\<close>: the provider's own playlists.\<close>

definition is_real_debrid_transcode_hls_url :: "debrid_env \<Rightarrow> string \<Rightarrow> bool" where
  "is_real_debrid_transcode_hls_url env v \<longleftrightarrow>
     (case lv_parse (dv_live env) (trim v) of
        None \<Rightarrow> False
      | Some url \<Rightarrow>
          (case map_option lower (url_host url) of
             None \<Rightarrow> False
           | Some host \<Rightarrow>
               url_scheme url = ''https'' \<and>
               (host = ''stream.real-debrid.com'' \<or> ends_with host ''.stream.real-debrid.com'') \<and>
               ends_with (lower (wu_path url)) ''.m3u8''))"

definition real_debrid_apple_transcode_url :: "debrid_env \<Rightarrow> json \<Rightarrow> string option" where
  "real_debrid_apple_transcode_url env payload =
     (let url = stringify_json env (Option.bind (json_get ''apple'' payload) (json_get ''full''))
      in if is_real_debrid_transcode_hls_url env url then Some url else None)"

definition build_real_debrid_private_hls_relay ::
  "debrid_env \<Rightarrow> live_config \<Rightarrow> int \<Rightarrow> string \<Rightarrow> string \<Rightarrow> string app_result" where
  "build_real_debrid_private_hls_relay env cfg now_seconds upstream_url session_token =
     (if trim session_token = [] then Inl (unauthorized ''Not authenticated.'')
      else case build_private_real_debrid_hls_playback_source (dv_live env) cfg now_seconds upstream_url session_token of
        None \<Rightarrow> Inl (service_unavailable ''Real-Debrid HLS fallback signing is unavailable.'')
      | Some url \<Rightarrow> Inr url)"

section \<open>A ticket serves who it was made for\<close>

text \<open>SHA-256 has thirty-two bytes.\<close>

definition sha256_ok :: "debrid_env \<Rightarrow> bool" where
  "sha256_ok env \<longleftrightarrow> (\<forall>x. length (dv_sha256 env x) = 32)"

lemma nul_field:
  "nul_free a \<Longrightarrow> nul_free b \<Longrightarrow> a @ NUL # r = b @ NUL # s \<longleftrightarrow> a = b \<and> r = s"
  by (induction a arbitrary: b) (case_tac b; auto simp: nul_free_def)+

lemma alphanumeric_nul_free: "list_all is_alphanumeric_byte s \<Longrightarrow> nul_free s"
  by (auto simp: nul_free_def NUL_def list_all_iff is_alphanumeric_byte_def is_ascii_alphabetic_def is_ascii_upper_def
      is_ascii_lower_def is_ascii_digit_def)

lemma delivery_scope_inj [simp]: "real_debrid_delivery_scope a = real_debrid_delivery_scope b \<longleftrightarrow> a = b"
  by (auto simp: real_debrid_delivery_scope_def)

lemma ticket_message_inj:
  assumes "valid_real_debrid_download_id i" "valid_real_debrid_download_id i'"
    and "length (rd_credential_binding rd) = 32" "length (rd_credential_binding rd') = 32"
  shows "ticket_message i e rd = ticket_message i' e' rd' \<longleftrightarrow>
    i = i' \<and> e = e' \<and> rd_user_id rd = rd_user_id rd' \<and> rd_credential_binding rd = rd_credential_binding rd' \<and>
    rd_remote_traffic rd = rd_remote_traffic rd'"
  using assms alphanumeric_nul_free
  by (simp add: ticket_message_def valid_real_debrid_download_id_def nul_field nul_free_show_int)

lemma split_on_three: "split_on c s = [a, b, d] \<Longrightarrow> s = a @ c # b @ c # d"
proof -
  assume a: "split_on c s = [a, b, d]"
  have "c \<notin> set x" if "x \<in> set (split_on c s)" for x
    using that by (induction s arbitrary: x) (auto split: if_splits list.splits)
  then have "c \<notin> set a" "c \<notin> set b" "c \<notin> set d" using a by simp_all
  then have "split_on c (a @ c # b @ c # d) = split_on c s" using a by (simp add: split_on_append split_on_single)
  then show ?thesis using split_on_inj by metis
qed

lemma parse_ticket_valid:
  "parse_real_debrid_lazy_hls_ticket input = Some (i, e, s) \<Longrightarrow> valid_real_debrid_download_id i \<and>
     (\<exists>x. input = RD_LAZY_HLS_TICKET_PREFIX @ i @ ''.'' @ x @ ''.'' @ s \<and> parse_i64 x = Some e \<and> list_all is_ascii_digit x)"
  by (auto simp: parse_real_debrid_lazy_hls_ticket_def split: option.splits list.splits if_splits dest!: split_on_three)

lemma parse_i64_digits: "list_all is_ascii_digit x \<Longrightarrow> parse_i64 x = Some e \<Longrightarrow> 0 \<le> e"
proof (cases x)
  case (Cons c cs)
  assume d: "list_all is_ascii_digit x" and p: "parse_i64 x = Some e"
  have "c \<noteq> CHR ''-''" "c \<noteq> CHR ''+''" using d Cons by (auto simp: is_ascii_digit_def)
  with p Cons have "parse_digits 0 x = Some e" by (auto simp: parse_i64_def Let_def split: option.splits if_splits)
  then show "0 \<le> e" by (rule parse_digits_ge) simp
qed (simp add: parse_i64_def)

lemma authorized_ticket:
  assumes "authorize_real_debrid_lazy_hls_ticket env input rd secret now = Some (i, e)"
  obtains s where "parse_real_debrid_lazy_hls_ticket input = Some (i, e, s)" "rd_remote_traffic rd"
    "now < e" "e \<le> saturating_add now RD_LAZY_HLS_TICKET_MAX_FUTURE_SECONDS" "is_binding_text s"
    "lv_unb64 (dv_live env) s = Some (lv_hmac (dv_live env) secret (ticket_message i e rd))"
  using assms
  by (auto simp: authorize_real_debrid_lazy_hls_ticket_def verify_real_debrid_lazy_hls_ticket_signature_def
      split: if_splits option.splits)

lemma for_user_context:
  assumes "for_user_with_delivery env user_id api_key remote = Some rd"
  shows "rd_user_id rd = max user_id 0" "rd_credential_binding rd = dv_sha256 env (trim api_key)"
    "rd_remote_traffic rd = remote" "rd_api_key rd = trim api_key" "trim api_key \<noteq> []"
    "rd_cache_scope rd = build_real_debrid_cache_scope env user_id api_key remote"
  using assms by (auto simp: for_user_with_delivery_def Let_def build_real_debrid_cache_scope_def split: if_splits)

text \<open>
  C16: a ticket for the remote playlist serves its owner alone. If a request is authorised by a text that
  ends in a signature the server made, then the file and the expiry are those that were signed,
  and user, credential and delivery of the request are those the ticket was made for; it has
  not expired, and expires within ten minutes and five seconds. Otherwise the two messages
  themselves collide under the HMAC of the server's secret.
\<close>

theorem debrid_ticket_binds:
  assumes "base64_ok (dv_live env)" and "sha256_ok env"
    and "for_user_with_delivery env user_id api_key remote = Some rd"
    and "for_user_with_delivery env user_id0 api_key0 remote0 = Some rd0"
    and "valid_real_debrid_download_id id0"
    and "authorize_real_debrid_lazy_hls_ticket env (text @ ''.'' @ sign_real_debrid_lazy_hls_ticket env id0 e0 rd0 secret)
      rd secret now = Some (download_id, expires_at)"
    and "CHR ''.'' \<notin> set (sign_real_debrid_lazy_hls_ticket env id0 e0 rd0 secret)"
  shows "now < expires_at \<and> expires_at \<le> now + 605 \<and>
    (download_id = id0 \<and> expires_at = e0 \<and> max user_id 0 = max user_id0 0 \<and> remote = remote0 \<and>
     dv_sha256 env (trim api_key) = dv_sha256 env (trim api_key0) \<or>
     hmac_collision (dv_live env) secret (ticket_message download_id expires_at rd) (ticket_message id0 e0 rd0))"
proof -
  let ?sig = "sign_real_debrid_lazy_hls_ticket env id0 e0 rd0 secret"
  from assms(6) obtain s where s: "parse_real_debrid_lazy_hls_ticket (text @ ''.'' @ ?sig) = Some (download_id, expires_at, s)"
    "now < expires_at" "expires_at \<le> saturating_add now RD_LAZY_HLS_TICKET_MAX_FUTURE_SECONDS" "is_binding_text s"
    "lv_unb64 (dv_live env) s = Some (lv_hmac (dv_live env) secret (ticket_message download_id expires_at rd))"
    by (rule authorized_ticket)
  from parse_ticket_valid [OF s(1)] obtain x where v: "valid_real_debrid_download_id download_id"
    and x: "text @ ''.'' @ ?sig = (RD_LAZY_HLS_TICKET_PREFIX @ download_id @ ''.'' @ x) @ ''.'' @ s" by auto
  have dot: "CHR ''.'' \<notin> set s" using s(4) by (auto simp: is_binding_text_def list_all_iff is_ascii_alphabetic_def
      is_ascii_upper_def is_ascii_lower_def is_ascii_digit_def)
  have "rev ?sig @ CHR ''.'' # rev text = rev s @ CHR ''.'' # rev (RD_LAZY_HLS_TICKET_PREFIX @ download_id @ ''.'' @ x)"
    using arg_cong [OF x, of rev] by simp
  from arg_cong [OF this, of "split_on CHR ''.''"] have "rev ?sig = rev s"
    using dot assms(7) by (simp add: split_on_append)
  then have same: "s = ?sig" by simp
  have mac: "lv_hmac (dv_live env) secret (ticket_message download_id expires_at rd) =
      lv_hmac (dv_live env) secret (ticket_message id0 e0 rd0)"
    using s(5) assms(1) by (simp add: same sign_real_debrid_lazy_hls_ticket_def base64_ok_def)
  have late: "saturating_add now RD_LAZY_HLS_TICKET_MAX_FUTURE_SECONDS \<le> now + 605 \<or>
      saturating_add now RD_LAZY_HLS_TICKET_MAX_FUTURE_SECONDS = i64_min"
    by (auto simp: saturating_add_def sat64_def RD_LAZY_HLS_TICKET_MAX_FUTURE_SECONDS_def RD_LAZY_HLS_TICKET_TTL_SECONDS_def)
  have pos: "0 \<le> expires_at" using parse_ticket_valid [OF s(1)] parse_i64_digits by blast
  have lens: "length (rd_credential_binding rd) = 32" "length (rd_credential_binding rd0) = 32"
    using assms(2) for_user_context(2) [OF assms(3)] for_user_context(2) [OF assms(4)] by (simp_all add: sha256_ok_def)
  have "now < expires_at \<and> expires_at \<le> now + 605" using s(2,3) late pos by (auto simp: i64_min_def)
  moreover have "ticket_message download_id expires_at rd = ticket_message id0 e0 rd0 \<Longrightarrow>
      download_id = id0 \<and> expires_at = e0 \<and> max user_id 0 = max user_id0 0 \<and> remote = remote0 \<and>
      dv_sha256 env (trim api_key) = dv_sha256 env (trim api_key0)"
    unfolding ticket_message_inj [OF v assms(5) lens] for_user_context(1-3) [OF assms(3)] for_user_context(1-3) [OF assms(4)] by simp
  ultimately show ?thesis using mac unfolding hmac_collision_def by blast
qed

section \<open>A ticket works until it expires\<close>

lemma length_show_nat: "n < 10 ^ Suc k \<Longrightarrow> length (show_nat n) \<le> Suc k"
proof (induction k arbitrary: n)
  case 0
  then show ?case by (subst show_nat.simps) simp
next
  case (Suc k)
  then have "length (show_nat (n div 10)) \<le> Suc k" by auto
  then show ?case by (subst show_nat.simps) simp
qed

text \<open>What the MAC is for the code: thirty-two bytes, written as forty-three characters.\<close>

definition mac_ok :: "live_env \<Rightarrow> string \<Rightarrow> bool" where
  "mac_ok env secret \<longleftrightarrow> (\<forall>m. length (lv_hmac env secret m) = 32 \<and> is_binding_text (lv_b64 env (lv_hmac env secret m)))"

lemma dot_free:
  "list_all is_alphanumeric_byte s \<Longrightarrow> CHR ''.'' \<notin> set s" "list_all is_ascii_digit s \<Longrightarrow> CHR ''.'' \<notin> set s"
  "is_binding_text s \<Longrightarrow> CHR ''.'' \<notin> set s"
  by (auto simp: list_all_iff is_alphanumeric_byte_def is_binding_text_def is_ascii_alphabetic_def is_ascii_upper_def
      is_ascii_lower_def is_ascii_digit_def)

lemma show_int_digits: "0 \<le> e \<Longrightarrow> list_all is_ascii_digit (show_int e)"
  by (auto simp: show_int_def list_all_iff dest: show_nat_digits)

lemma show_int_no_leading_zero: "0 \<le> e \<Longrightarrow> \<not> (1 < length (show_int e) \<and> starts_with (show_int e) ''0'')"
proof (cases "e = 0")
  case False
  assume "0 \<le> e"
  with False have "hd (show_int e) \<noteq> CHR ''0''" using hd_show_nat [of "nat e"] by (simp add: show_int_def)
  then show ?thesis by (cases "show_int e") auto
qed (simp add: show_int_def show_nat.simps)

lemma parse_lazy_ticket:
  assumes "mac_ok (dv_live env) secret" "valid_real_debrid_download_id i" "0 \<le> e" "e < 2 ^ 62"
  shows "parse_real_debrid_lazy_hls_ticket (lazy_ticket env i e rd secret) =
    Some (i, e, sign_real_debrid_lazy_hls_ticket env i e rd secret)"
proof -
  let ?s = "sign_real_debrid_lazy_hls_ticket env i e rd secret"
  have dots: "CHR ''.'' \<notin> set i" "CHR ''.'' \<notin> set (show_int e)" "CHR ''.'' \<notin> set ?s"
    using assms dot_free show_int_digits by (auto simp: mac_ok_def sign_real_debrid_lazy_hls_ticket_def valid_real_debrid_download_id_def)
  then have split: "split_on CHR ''.'' (i @ ''.'' @ show_int e @ ''.'' @ ?s) = [i, show_int e, ?s]"
    by (simp add: split_on_append split_on_single)
  have "nat e < 10 ^ Suc 18" using assms(4) by simp
  then have len: "length (show_int e) \<le> 19" using length_show_nat [of "nat e" 18] assms(3) by (simp add: show_int_def)
  have "parse_i64 (show_int e) = Some e" using assms by (intro parse_i64_show_int) (simp add: i64_range_def i64_min_def i64_max_def)
  moreover have "show_int e \<noteq> []" by (simp add: show_int_def)
  ultimately show ?thesis
    using assms(2) len show_int_digits [OF assms(3)] show_int_no_leading_zero [OF assms(3)]
    unfolding parse_real_debrid_lazy_hls_ticket_def lazy_ticket_def strip_prefix_append option.case split list.case
    by (simp add: not_less)
qed

lemma verify_signed_ticket:
  assumes "base64_ok (dv_live env)" "mac_ok (dv_live env) secret" "secret \<noteq> []"
  shows "verify_real_debrid_lazy_hls_ticket_signature env i e (sign_real_debrid_lazy_hls_ticket env i e rd secret) rd secret"
  using assms by (simp add: verify_real_debrid_lazy_hls_ticket_signature_def sign_real_debrid_lazy_hls_ticket_def mac_ok_def base64_ok_def)

lemma minted_source:
  assumes "rd_remote_traffic rd" "trim secret \<noteq> []" "valid_real_debrid_download_id i" "0 \<le> minted" "minted < 2 ^ 61"
  shows "build_real_debrid_lazy_hls_playback_source_at env i True rd secret minted =
    Some (''/api/hls/master.m3u8?'' @ query_text (dv_live env) [(''input'', lazy_ticket env i (minted + 600) rd secret)])"
  using assms by (simp add: build_real_debrid_lazy_hls_playback_source_at_def query_text_def RD_LAZY_HLS_TICKET_TTL_SECONDS_def
      saturating_add_def sat64_def i64_min_def i64_max_def)

text \<open>
  The life of a ticket. The playlist address handed out for a file at the time \<open>minted\<close> carries a ticket
  that the user it was made for is granted the file with, from five seconds before that time (for
  a clock set back) until ten minutes after it, and at no other time.
\<close>

theorem minted_ticket_lifetime:
  assumes "form_ok (dv_live env)" "base64_ok (dv_live env)" "mac_ok (dv_live env) secret" "trim secret \<noteq> []"
    and "rd_remote_traffic rd" "valid_real_debrid_download_id download_id"
    and "0 \<le> minted" "minted < 2 ^ 61" "0 \<le> now" "now < 2 ^ 62"
  shows "\<exists>query input. build_real_debrid_lazy_hls_playback_source_at env download_id True rd secret minted =
      Some (''/api/hls/master.m3u8?'' @ query) \<and>
    parse_strict_real_debrid_lazy_hls_query env query = Some input \<and>
    authorize_real_debrid_lazy_hls_ticket env input rd secret now =
      (if minted - 5 \<le> now \<and> now < minted + 600 then Some (download_id, minted + 600) else None)"
proof -
  let ?t = "lazy_ticket env download_id (minted + 600) rd secret"
  have strict: "parse_strict_real_debrid_lazy_hls_query env (query_text (dv_live env) [(''input'', ?t)]) = Some ?t"
    using assms(1) by (simp add: parse_strict_real_debrid_lazy_hls_query_def form_ok_def strict_lazy_hls_pairs_def
        is_real_debrid_lazy_hls_input_def lazy_ticket_def is_alnum_def is_ascii_alphabetic_def is_ascii_lower_def)
  have s: "secret \<noteq> []" using assms(4) by (auto simp: trim_def trim_start_def trim_end_def)
  have p: "parse_real_debrid_lazy_hls_ticket ?t =
      Some (download_id, minted + 600, sign_real_debrid_lazy_hls_ticket env download_id (minted + 600) rd secret)"
    using assms by (intro parse_lazy_ticket) simp_all
  have late: "saturating_add now RD_LAZY_HLS_TICKET_MAX_FUTURE_SECONDS = now + 605"
    using assms(9,10) by (simp add: saturating_add_def sat64_def i64_min_def i64_max_def
        RD_LAZY_HLS_TICKET_MAX_FUTURE_SECONDS_def RD_LAZY_HLS_TICKET_TTL_SECONDS_def)
  have "authorize_real_debrid_lazy_hls_ticket env ?t rd secret now =
      (if minted - 5 \<le> now \<and> now < minted + 600 then Some (download_id, minted + 600) else None)"
    unfolding authorize_real_debrid_lazy_hls_ticket_def p late
    using assms(4,5) verify_signed_ticket [OF assms(2,3) s] by auto
  with strict minted_source [OF assms(5,4,6-8)] show ?thesis by blast
qed

text \<open>Refreshing keeps the file and makes the ticket young; a ticket of another user is left alone.\<close>

lemma refreshed_ticket:
  assumes "base64_ok (dv_live env)" "mac_ok (dv_live env) secret" "secret \<noteq> []"
    and "rd_remote_traffic rd" "valid_real_debrid_download_id i" "0 \<le> e" "e < 2 ^ 62"
    and "lv_parse (dv_live env) v = Some url" "wu_path url = ''/api/hls/master.m3u8''"
    and "wu_query url = [(''input'', lazy_ticket env i e rd secret)]"
  shows "refresh_real_debrid_lazy_hls_playback_source env v rd secret now =
    build_real_debrid_lazy_hls_playback_source env i True rd secret now"
  using assms(4,8-) parse_lazy_ticket [OF assms(2,5-7)] verify_signed_ticket [OF assms(1-3)]
  by (simp add: refresh_real_debrid_lazy_hls_playback_source_def strict_lazy_hls_pairs_def is_real_debrid_lazy_hls_input_def
      lazy_ticket_def)

section \<open>The playlist behind a ticket\<close>

record cached_lazy_hls =
  ch_upstream_url :: "string option"
  ch_expires_at_ms :: int

type_synonym lazy_entries = "(string \<times> cached_lazy_hls) list"

text \<open>The free permits are those of the semaphore.\<close>

record lazy_hls_control =
  lz_entries :: lazy_entries
  lz_permits :: nat
  lz_user_rate_limiter :: rate_limiter

definition lazy_hls_control_new :: lazy_hls_control where
  "lazy_hls_control_new =
     \<lparr>lz_entries = [], lz_permits = RD_LAZY_HLS_MAX_CONCURRENT,
      lz_user_rate_limiter = rate_limiter_new RD_LAZY_HLS_USER_MAX_ATTEMPTS RD_LAZY_HLS_USER_WINDOW_MS\<rparr>"

definition live_entries :: "int \<Rightarrow> lazy_entries \<Rightarrow> lazy_entries" where
  "live_entries now es = filter (\<lambda>(k, e). ch_expires_at_ms e > now) es"

definition drop_entry :: "string \<Rightarrow> lazy_entries \<Rightarrow> lazy_entries" where
  "drop_entry key es = filter (\<lambda>(k, e). k \<noteq> key) es"

definition evict_earliest_expiring_entry :: "lazy_entries \<Rightarrow> lazy_entries" where
  "evict_earliest_expiring_entry es =
     (case map_option fst (min_by_key (\<lambda>(k, e). ch_expires_at_ms e) es) of
        Some key \<Rightarrow> drop_entry key es | None \<Rightarrow> es)"

lemma length_drop_entry: "length (drop_entry key es) \<le> length es"
  by (simp add: drop_entry_def)

lemma evict_earliest_shrinks: "es \<noteq> [] \<Longrightarrow> length (evict_earliest_expiring_entry es) < length es"
proof -
  assume "es \<noteq> []"
  then obtain x where m: "min_by_key (\<lambda>(k, e). ch_expires_at_ms e) es = Some x"
    by (cases "min_by_key (\<lambda>(k, e). ch_expires_at_ms e) es") auto
  with min_by_key_Some [OF m] show ?thesis
    by (auto simp: evict_earliest_expiring_entry_def drop_entry_def intro: length_filter_less)
qed

text \<open>\<open>while entries.len() > n\<close>\<close>

function evict_down :: "nat \<Rightarrow> lazy_entries \<Rightarrow> lazy_entries" where
  "evict_down n es = (if length es > n then evict_down n (evict_earliest_expiring_entry es) else es)"
  by pat_completeness auto
termination
  by (relation "measure (\<lambda>(n, es). length es)") (auto intro: evict_earliest_shrinks)

declare evict_down.simps [simp del]

definition lazy_hls_prune :: "int \<Rightarrow> lazy_hls_control \<Rightarrow> lazy_hls_control" where
  "lazy_hls_prune now c =
     c\<lparr>lz_entries := evict_down RD_LAZY_HLS_CACHE_MAX_ENTRIES (live_entries now (lz_entries c)),
       lz_user_rate_limiter := rate_limiter_prune (lz_user_rate_limiter c) now\<rparr>"

definition lazy_fresh :: "lazy_entries \<Rightarrow> string \<Rightarrow> int \<Rightarrow> string option option" where
  "lazy_fresh es key now =
     (case map_of es key of
        None \<Rightarrow> None | Some e \<Rightarrow> if ch_expires_at_ms e > now then Some (ch_upstream_url e) else None)"

definition lazy_store :: "lazy_entries \<Rightarrow> string \<Rightarrow> string option \<Rightarrow> int \<Rightarrow> int \<Rightarrow> lazy_entries" where
  "lazy_store es key upstream_url expires_at_ms now =
     (let es = (if length es \<ge> RD_LAZY_HLS_CACHE_MAX_ENTRIES
                then evict_down (RD_LAZY_HLS_CACHE_MAX_ENTRIES - 1) (live_entries now es) else es)
      in (key, \<lparr>ch_upstream_url = upstream_url, ch_expires_at_ms = expires_at_ms\<rparr>) # drop_entry key es)"

definition lazy_user_key :: "int \<Rightarrow> string" where
  "lazy_user_key user_id = ''real-debrid-lazy-hls:user:'' @ show_int (max user_id 0)"

definition check_user_provider_budget :: "rate_limiter \<Rightarrow> int \<Rightarrow> int \<Rightarrow> unit app_result \<times> rate_limiter" where
  "check_user_provider_budget rl user_id now =
     (case check_and_record rl (lazy_user_key user_id) now of (accepted, rl) \<Rightarrow>
        (if accepted then Inr () else Inl (too_many_requests ''Too many Real-Debrid HLS fallback requests. Try again later.''), rl))"

text \<open>
  \<open>resolve\<close> in its two halves. The first runs with the lock of the key held: an answer of the cache, a refusal, or
  the permit to call the provider. The second runs after the call, with its answer.
\<close>

datatype lazy_answer = Cached "string option" | Refused api_error | Call_provider

definition lazy_enter :: "lazy_hls_control \<Rightarrow> string \<Rightarrow> int \<Rightarrow> int \<Rightarrow> lazy_answer \<times> lazy_hls_control" where
  "lazy_enter c key user_id now =
     (case lazy_fresh (lz_entries c) key now of
        Some cached \<Rightarrow> (Cached cached, c)
      | None \<Rightarrow>
          if lz_permits c = 0
          then (Refused (too_many_requests ''Real-Debrid HLS fallback is busy. Try again shortly.''), c)
          else case check_user_provider_budget (lz_user_rate_limiter c) user_id now of
            (Inl e, rl) \<Rightarrow> (Refused e, c\<lparr>lz_user_rate_limiter := rl\<rparr>)
          | (Inr _, rl) \<Rightarrow> (Call_provider, c\<lparr>lz_user_rate_limiter := rl, lz_permits := lz_permits c - 1\<rparr>))"

definition lazy_finish :: "lazy_hls_control \<Rightarrow> string \<Rightarrow> int \<Rightarrow> string option \<Rightarrow> int \<Rightarrow> lazy_hls_control" where
  "lazy_finish c key success_expires_at_ms upstream_url now =
     (let expires_at_ms = (if upstream_url \<noteq> None
                           then min success_expires_at_ms (saturating_add now RD_LAZY_HLS_CACHE_TTL_MS)
                           else saturating_add now RD_LAZY_HLS_FAILURE_TTL_MS)
      in c\<lparr>lz_entries := lazy_store (lz_entries c) key upstream_url expires_at_ms now, lz_permits := lz_permits c + 1\<rparr>)"

text \<open>The whole, when nothing else happens meanwhile; \<open>later\<close> is the time after the call.\<close>

definition lazy_resolve ::
  "lazy_hls_control \<Rightarrow> string \<Rightarrow> int \<Rightarrow> int \<Rightarrow> string option \<Rightarrow> int \<Rightarrow> int \<Rightarrow> string option app_result \<times> lazy_hls_control" where
  "lazy_resolve c key user_id success_expires_at_ms fetched now later =
     (case lazy_enter c key user_id now of
        (Cached v, c) \<Rightarrow> (Inr v, c)
      | (Refused e, c) \<Rightarrow> (Inl e, c)
      | (Call_provider, c) \<Rightarrow> (Inr fetched, lazy_finish c key success_expires_at_ms fetched later))"

text \<open>The handler behind the ticket; \<open>provider\<close> answers for a file, \<open>None\<close> where the call failed.\<close>

definition resolve_real_debrid_lazy_hls_fallback ::
  "debrid_env \<Rightarrow> live_config \<Rightarrow> bool \<Rightarrow> (string \<Rightarrow> json option) \<Rightarrow> string \<Rightarrow> int \<Rightarrow> string \<Rightarrow> string \<Rightarrow> int \<Rightarrow> int \<Rightarrow>
   lazy_hls_control \<Rightarrow> string app_result \<times> lazy_hls_control" where
  "resolve_real_debrid_lazy_hls_fallback env cfg remote_traffic provider query user_id api_key session_token now later c =
     (case for_user_with_delivery env user_id api_key remote_traffic of
        None \<Rightarrow> (Inl (failed_dependency ''Enable Real-Debrid and add an API token in Settings to use HLS fallback.''), c)
      | Some rd \<Rightarrow>
      (case parse_strict_real_debrid_lazy_hls_query env query of
        None \<Rightarrow> (Inl (forbidden ''Invalid Real-Debrid HLS fallback ticket.''), c)
      | Some input \<Rightarrow>
      (case authorize_real_debrid_lazy_hls_ticket env input rd (lc_live_hls_proxy_secret cfg) (now div 1000) of
        None \<Rightarrow> (Inl (forbidden ''Invalid or expired Real-Debrid HLS fallback ticket.''), c)
      | Some (download_id, expires_at) \<Rightarrow>
      (case lazy_resolve c (real_debrid_lazy_hls_cache_key env download_id rd) user_id (saturating_mul expires_at 1000)
              (Option.bind (provider download_id) (real_debrid_apple_transcode_url env)) now later of
        (Inl e, c) \<Rightarrow> (Inl e, c)
      | (Inr None, c) \<Rightarrow> (Inl (bad_gateway ''Real-Debrid HLS fallback is temporarily unavailable.''), c)
      | (Inr (Some upstream), c) \<Rightarrow> (build_real_debrid_private_hls_relay env cfg (later div 1000) upstream session_token, c)))))"

section \<open>At most four calls at once, thirty a minute for a user, one for a file\<close>

text \<open>
  Requests interleave at the two halves of \<open>resolve\<close>. A call in progress holds the lock of its key and a
  permit; a request that is dropped gives both back without an entry. \<open>ly_calls\<close> records the
  calls of the provider.
\<close>

record lazy_system =
  ly_control :: lazy_hls_control
  ly_running :: "(string \<times> int) list"
  ly_calls :: "(string \<times> int) list"
  ly_now :: int

inductive lazy_step :: "lazy_system \<Rightarrow> lazy_system \<Rightarrow> bool" where
  tick: "ly_now s \<le> now \<Longrightarrow> lazy_step s (s\<lparr>ly_now := now\<rparr>)"
| enter: "key \<notin> fst ` set (ly_running s) \<Longrightarrow> lazy_enter (ly_control s) key user_id (ly_now s) = (answer, c) \<Longrightarrow>
    lazy_step s (s\<lparr>ly_control := c,
      ly_running := (if answer = Call_provider then (key, user_id) # ly_running s else ly_running s),
      ly_calls := ly_calls s @ (if answer = Call_provider then [(lazy_user_key user_id, ly_now s)] else [])\<rparr>)"
| finish: "(key, user_id) \<in> set (ly_running s) \<Longrightarrow>
    lazy_step s (s\<lparr>ly_control := lazy_finish (ly_control s) key success_expires_at_ms upstream_url (ly_now s),
      ly_running := remove1 (key, user_id) (ly_running s)\<rparr>)"
| cancelled: "(key, user_id) \<in> set (ly_running s) \<Longrightarrow>
    lazy_step s (s\<lparr>ly_control := (ly_control s)\<lparr>lz_permits := lz_permits (ly_control s) + 1\<rparr>,
      ly_running := remove1 (key, user_id) (ly_running s)\<rparr>)"
| pruned: "lazy_step s (s\<lparr>ly_control := lazy_hls_prune (ly_now s) (ly_control s)\<rparr>)"

inductive lazy_reachable :: "lazy_system \<Rightarrow> bool" where
  start: "lazy_reachable \<lparr>ly_control = lazy_hls_control_new, ly_running = [], ly_calls = [], ly_now = now\<rparr>"
| step: "lazy_reachable s \<Longrightarrow> lazy_step s s' \<Longrightarrow> lazy_reachable s'"

definition lazy_inv :: "lazy_system \<Rightarrow> bool" where
  "lazy_inv s \<longleftrightarrow>
     length (ly_running s) + lz_permits (ly_control s) = RD_LAZY_HLS_MAX_CONCURRENT \<and>
     distinct (map fst (ly_running s)) \<and>
     length (lz_entries (ly_control s)) \<le> RD_LAZY_HLS_CACHE_MAX_ENTRIES \<and>
     rl_window_ms (lz_user_rate_limiter (ly_control s)) = RD_LAZY_HLS_USER_WINDOW_MS \<and>
     rl_max_hits (lz_user_rate_limiter (ly_control s)) = RD_LAZY_HLS_USER_MAX_ATTEMPTS \<and>
     window_inv (lz_user_rate_limiter (ly_control s)) (ly_calls s) (ly_now s)"

lemma length_evict_down: "length (evict_down n es) \<le> n"
  by (induction n es rule: evict_down.induct) (subst evict_down.simps, simp)

lemma length_lazy_store:
  "length es \<le> RD_LAZY_HLS_CACHE_MAX_ENTRIES \<Longrightarrow> length (lazy_store es key u e now) \<le> RD_LAZY_HLS_CACHE_MAX_ENTRIES"
proof (cases "length es \<ge> RD_LAZY_HLS_CACHE_MAX_ENTRIES")
  case True
  have "length (drop_entry key (evict_down (RD_LAZY_HLS_CACHE_MAX_ENTRIES - 1) (live_entries now es))) \<le> RD_LAZY_HLS_CACHE_MAX_ENTRIES - 1"
    using length_drop_entry length_evict_down by (rule order_trans)
  with True show ?thesis by (simp add: lazy_store_def RD_LAZY_HLS_CACHE_MAX_ENTRIES_def)
next
  case False
  then show ?thesis using length_drop_entry [of key es] by (simp add: lazy_store_def)
qed

lemma lazy_finish_keeps [simp]:
  "lz_permits (lazy_finish c key e u now) = lz_permits c + 1"
  "lz_user_rate_limiter (lazy_finish c key e u now) = lz_user_rate_limiter c"
  "lz_entries (lazy_finish c key e u now) = lazy_store (lz_entries c) key u
     (if u \<noteq> None then min e (saturating_add now RD_LAZY_HLS_CACHE_TTL_MS) else saturating_add now RD_LAZY_HLS_FAILURE_TTL_MS) now"
  by (simp_all add: lazy_finish_def Let_def)

lemma lazy_enter_cases:
  assumes "lazy_enter c key user_id now = (answer, c')"
  obtains "answer \<noteq> Call_provider" "c' = c"
  | "answer \<noteq> Call_provider" "c' = c\<lparr>lz_user_rate_limiter := snd (check_and_record (lz_user_rate_limiter c) (lazy_user_key user_id) now)\<rparr>"
    "\<not> fst (check_and_record (lz_user_rate_limiter c) (lazy_user_key user_id) now)"
  | "answer = Call_provider" "fst (check_and_record (lz_user_rate_limiter c) (lazy_user_key user_id) now)" "0 < lz_permits c"
    "c' = c\<lparr>lz_user_rate_limiter := snd (check_and_record (lz_user_rate_limiter c) (lazy_user_key user_id) now), lz_permits := lz_permits c - 1\<rparr>"
    "lazy_fresh (lz_entries c) key now = None"
  using assms
  by (auto simp: lazy_enter_def check_user_provider_budget_def split: option.splits if_splits prod.splits)

lemma remove1_running:
  "(k, u) \<in> set xs \<Longrightarrow> distinct (map fst xs) \<Longrightarrow>
     length (remove1 (k, u) xs) + 1 = length xs \<and> distinct (map fst (remove1 (k, u) xs))"
proof -
  assume m: "(k, u) \<in> set xs" and d: "distinct (map fst xs)"
  have "distinct (map fst (remove1 (k, u) xs))"
    using d by (induction xs) (auto dest: set_mp [OF set_remove1_subset] intro: rev_image_eqI)
  with m length_pos_if_in_set [OF m] show ?thesis by (simp add: length_remove1)
qed

lemma lazy_step_inv: "lazy_step s s' \<Longrightarrow> lazy_inv s \<Longrightarrow> lazy_inv s'"
proof (induction rule: lazy_step.induct)
  case (tick s now)
  then show ?case by (auto simp: lazy_inv_def intro: window_inv_advance)
next
  case (enter key s user_id answer c)
  have w: "0 < rl_window_ms (lz_user_rate_limiter (ly_control s))"
    using enter.prems by (simp add: lazy_inv_def RD_LAZY_HLS_USER_WINDOW_MS_def)
  have inv: "window_inv (lz_user_rate_limiter (ly_control s)) (ly_calls s) (ly_now s)" using enter.prems by (simp add: lazy_inv_def)
  note hit = window_inv_check [OF inv w, of "lazy_user_key user_id"]
  from enter.hyps(2) show ?case
  proof (cases rule: lazy_enter_cases)
    case 1
    with enter.prems show ?thesis by (simp add: lazy_inv_def)
  next
    case 2
    with enter.prems hit show ?thesis by (simp add: lazy_inv_def)
  next
    case 3
    with enter.prems enter.hyps(1) hit show ?thesis by (auto simp: lazy_inv_def)
  qed
next
  case (finish key user_id s e u)
  then show ?case using remove1_running [OF finish.hyps] length_lazy_store by (auto simp: lazy_inv_def)
next
  case (cancelled key user_id s)
  then show ?case using remove1_running [OF cancelled.hyps] by (auto simp: lazy_inv_def)
next
  case (pruned s)
  then show ?case by (simp add: lazy_inv_def lazy_hls_prune_def length_evict_down window_inv_prune)
qed

lemma lazy_reachable_inv: "lazy_reachable s \<Longrightarrow> lazy_inv s"
proof (induction rule: lazy_reachable.induct)
  case (start now)
  have "window_inv (rate_limiter_new RD_LAZY_HLS_USER_MAX_ATTEMPTS RD_LAZY_HLS_USER_WINDOW_MS) [] now" by (rule window_inv_new)
  then show ?case
    by (simp add: lazy_inv_def lazy_hls_control_new_def RD_LAZY_HLS_USER_MAX_ATTEMPTS_def RD_LAZY_HLS_USER_WINDOW_MS_def)
qed (rule lazy_step_inv)


section \<open>A concrete instance\<close>

definition sample_debrid_env :: debrid_env where
  "sample_debrid_env = \<lparr>dv_live = private_env, dv_sha256 = (\<lambda>x. take 32 (x @ replicate 32 CHR ''k'')), dv_float = (\<lambda>_. [])\<rparr>"

definition sample_debrid :: real_debrid_request_context where
  "sample_debrid = the (for_user_with_delivery sample_debrid_env 7 ''key'' True)"

lemma sample_debrid_context: "for_user_with_delivery sample_debrid_env 7 ''key'' True = Some sample_debrid"
proof -
  have "trim ''key'' \<noteq> []" by code_simp
  then show ?thesis by (simp add: sample_debrid_def for_user_with_delivery_def Let_def)
qed

lemma sample_sha256_ok: "sha256_ok sample_debrid_env"
  by (auto simp: sha256_ok_def sample_debrid_env_def min_def)

lemma list_all_padded: "list_all P s \<Longrightarrow> P c \<Longrightarrow> list_all P (take n s @ replicate k c)"
  by (auto simp: list_all_iff dest: in_set_takeD)

lemma sample_mac_text:
  assumes "t = take 32 (filter is_alnum (rev m) @ replicate 32 CHR ''x'')"
  shows "length t = 32" "list_all is_alnum t" "is_binding_text (t @ replicate 11 CHR ''Z'')"
proof -
  have x: "is_alnum CHR ''x''" "is_alnum CHR ''Z''" by code_simp+
  have f: "list_all is_alnum (filter is_alnum (rev m))" by (simp add: list_all_iff)
  from list_all_padded [OF f x(1), of "length (filter is_alnum (rev m))" 32]
  have a: "list_all is_alnum (filter is_alnum (rev m) @ replicate 32 CHR ''x'')" by (simp only: take_all order_refl)
  from list_all_padded [OF a x(2), of 32 0] show "list_all is_alnum t" by (simp only: assms replicate_0 append_Nil2)
  from list_all_padded [OF a x(2), of 32 11] have "list_all is_alnum (t @ replicate 11 CHR ''Z'')" by (simp only: assms)
  moreover show l: "length t = 32" by (simp only: assms length_take length_append length_replicate)
  ultimately show "is_binding_text (t @ replicate 11 CHR ''Z'')"
    unfolding is_binding_text_def length_append length_replicate
    by (intro conjI) (simp, erule list.pred_mono_strong, auto simp only: is_alnum_def)
qed

lemma sample_mac_ok: "mac_ok private_env ''secret''"
  unfolding mac_ok_def
proof
  fix m
  define t where "t = take 32 (filter is_alnum (rev m) @ replicate 32 CHR ''x'')"
  have "lv_hmac private_env ''secret'' m = t" by (simp add: private_env_def t_def)
  moreover have "lv_b64 private_env t = t @ replicate 11 CHR ''Z''"
    using sample_mac_text(1,2) [OF t_def] by (simp add: private_env_def)
  ultimately show "length (lv_hmac private_env ''secret'' m) = 32 \<and> is_binding_text (lv_b64 private_env (lv_hmac private_env ''secret'' m))"
    using sample_mac_text [OF t_def] by (simp only:)
qed

lemma private_form_ok: "form_ok private_env"
proof -
  have "query_text private_env = query_text sample_live_env" "lv_query_pairs private_env = lv_query_pairs sample_live_env"
    "lv_encode private_env = lv_encode sample_live_env"
    by (simp_all add: fun_eq_iff query_text_def private_env_def)
  then show ?thesis using sample_form_ok unfolding form_ok_def by simp
qed

lemma sample_debrid_live [simp]: "dv_live sample_debrid_env = private_env"
  by (simp add: sample_debrid_env_def)

theorem minted_ticket_lifetime_witness:
  "\<exists>query input. build_real_debrid_lazy_hls_playback_source_at sample_debrid_env ''ABC'' True sample_debrid ''secret'' 1000 =
      Some (''/api/hls/master.m3u8?'' @ query) \<and>
    parse_strict_real_debrid_lazy_hls_query sample_debrid_env query = Some input \<and>
    authorize_real_debrid_lazy_hls_ticket sample_debrid_env input sample_debrid ''secret'' 1100 = Some (''ABC'', 1600)"
proof -
  have t: "trim ''secret'' \<noteq> []" "valid_real_debrid_download_id ''ABC''" by code_simp+
  have r: "rd_remote_traffic sample_debrid" using for_user_context(3) [OF sample_debrid_context] by simp
  from minted_ticket_lifetime [of sample_debrid_env "''secret''" sample_debrid "''ABC''" 1000 1100] private_form_ok private_base64_ok
    sample_mac_ok t r
  show ?thesis by simp
qed

definition sample_signature :: string where
  "sample_signature = sign_real_debrid_lazy_hls_ticket sample_debrid_env ''ABC'' 1600 sample_debrid ''secret''"

theorem debrid_ticket_binds_witness:
  "authorize_real_debrid_lazy_hls_ticket sample_debrid_env ((RD_LAZY_HLS_TICKET_PREFIX @ ''ABC.1600'') @ ''.'' @ sample_signature)
     sample_debrid ''secret'' 1100 = Some (''ABC'', 1600) \<and> (1600 :: int) \<le> 1100 + 605"
proof -
  have a: "authorize_real_debrid_lazy_hls_ticket sample_debrid_env ((RD_LAZY_HLS_TICKET_PREFIX @ ''ABC.1600'') @ ''.'' @ sample_signature)
     sample_debrid ''secret'' 1100 = Some (''ABC'', 1600)" by code_simp
  have d: "CHR ''.'' \<notin> set sample_signature" "valid_real_debrid_download_id ''ABC''" by code_simp+
  have b: "base64_ok (dv_live sample_debrid_env)" using private_base64_ok by simp
  from debrid_ticket_binds [OF b sample_sha256_ok sample_debrid_context sample_debrid_context d(2), of
      "RD_LAZY_HLS_TICKET_PREFIX @ ''ABC.1600''" 1600 "''secret''" 1100 "''ABC''" 1600, folded sample_signature_def, OF a d(1)] a
  show ?thesis by simp
qed

definition sample_lazy_system :: lazy_system where
  "sample_lazy_system =
     \<lparr>ly_control = snd (lazy_enter lazy_hls_control_new ''k'' 7 1000), ly_running = [(''k'', 7)],
      ly_calls = [(lazy_user_key 7, 1000)], ly_now = 1000\<rparr>"


end
