(* ===== verification/DebridValidation.thy ===== *)
theory DebridValidation
  imports DebridTickets
begin

text \<open>
  The check of a new credential (\<open>RealDebridValidationControl\<close> of \<open>src/resolver/real_debrid.rs\<close>,
  \<open>validate_real_debrid_api_key\<close> of \<open>src/resolver.rs\<close>): two request budgets, a memory of recent
  successes, and at most two calls of the service at once. A step relation interleaves the
  requests; the theorem says when a key passes and how often the service is asked.
\<close>

definition RD_VALIDATION_USER_MAX_ATTEMPTS :: nat where "RD_VALIDATION_USER_MAX_ATTEMPTS = 5"
definition RD_VALIDATION_IP_MAX_ATTEMPTS :: nat where "RD_VALIDATION_IP_MAX_ATTEMPTS = 20"
definition RD_VALIDATION_WINDOW_MS :: int where "RD_VALIDATION_WINDOW_MS = 15 * 60 * 1000"
definition RD_VALIDATION_SUCCESS_TTL_MS :: int where "RD_VALIDATION_SUCCESS_TTL_MS = 5 * 60 * 1000"

section \<open>The control\<close>

text \<open>Each successful check is kept by its fingerprint, whoever asked.\<close>

record validation_control =
  vc_user_rate_limiter :: rate_limiter
  vc_ip_rate_limiter :: rate_limiter
  vc_successful_tokens :: "string \<rightharpoonup> int"

definition validation_control_new :: validation_control where
  "validation_control_new =
     \<lparr>vc_user_rate_limiter = rate_limiter_new RD_VALIDATION_USER_MAX_ATTEMPTS RD_VALIDATION_WINDOW_MS,
      vc_ip_rate_limiter = rate_limiter_new RD_VALIDATION_IP_MAX_ATTEMPTS RD_VALIDATION_WINDOW_MS,
      vc_successful_tokens = (\<lambda>_. None)\<rparr>"

definition has_recent_success :: "validation_control \<Rightarrow> string \<Rightarrow> int \<Rightarrow> bool" where
  "has_recent_success c fp now \<longleftrightarrow> (case vc_successful_tokens c fp of None \<Rightarrow> False | Some e \<Rightarrow> e > now)"

definition validation_prune :: "int \<Rightarrow> validation_control \<Rightarrow> validation_control" where
  "validation_prune now c =
     \<lparr>vc_user_rate_limiter = rate_limiter_prune (vc_user_rate_limiter c) now,
      vc_ip_rate_limiter = rate_limiter_prune (vc_ip_rate_limiter c) now,
      vc_successful_tokens = (\<lambda>fp. Option.bind (vc_successful_tokens c fp) (\<lambda>e. if e > now then Some e else None))\<rparr>"

definition validation_user_key :: "int \<Rightarrow> string" where
  "validation_user_key user_id = ''real-debrid-validation:user:'' @ show_int (max user_id 0)"

definition validation_ip_key :: "string \<Rightarrow> string" where
  "validation_ip_key client_ip =
     (let normalized_ip = lower (take 128 (trim client_ip))
      in ''real-debrid-validation:ip:'' @ (if normalized_ip = [] then ''unknown'' else normalized_ip))"

text \<open>How the wait for one of the two permits ends.\<close>

datatype permit_wait = Permit | Closed | Timed_out

text \<open>
  \<open>validate\<close> in its two halves: before the lock of the token, and with it. The first says whether the second
  runs; the second calls the service, which gives \<open>answer\<close>.
\<close>

definition validation_admit ::
  "debrid_env \<Rightarrow> validation_control \<Rightarrow> int \<Rightarrow> string \<Rightarrow> string \<Rightarrow> int \<Rightarrow> unit app_result option \<times> validation_control" where
  "validation_admit env c user_id client_ip api_key now =
     (if has_recent_success c (real_debrid_token_fingerprint env api_key) now then (Some (Inr ()), c)
      else let refused = Some (Inl (too_many_requests ''Too many Real-Debrid token checks. Try again later.''))
      in case check_and_record (vc_user_rate_limiter c) (validation_user_key user_id) now of
        (False, ul) \<Rightarrow> (refused, c\<lparr>vc_user_rate_limiter := ul\<rparr>)
      | (True, ul) \<Rightarrow>
          (case check_and_record (vc_ip_rate_limiter c) (validation_ip_key client_ip) now of
             (False, il) \<Rightarrow> (refused, c\<lparr>vc_user_rate_limiter := ul, vc_ip_rate_limiter := il\<rparr>)
           | (True, il) \<Rightarrow> (None, c\<lparr>vc_user_rate_limiter := ul, vc_ip_rate_limiter := il\<rparr>)))"

definition validation_calls :: "debrid_env \<Rightarrow> validation_control \<Rightarrow> string \<Rightarrow> permit_wait \<Rightarrow> int \<Rightarrow> bool" where
  "validation_calls env c api_key permit now \<longleftrightarrow>
     \<not> has_recent_success c (real_debrid_token_fingerprint env api_key) now \<and> permit = Permit"

definition validation_locked ::
  "debrid_env \<Rightarrow> validation_control \<Rightarrow> string \<Rightarrow> permit_wait \<Rightarrow> unit app_result \<Rightarrow> int \<Rightarrow> int \<Rightarrow>
   unit app_result \<times> validation_control" where
  "validation_locked env c api_key permit answer now later =
     (let fp = real_debrid_token_fingerprint env api_key
      in if has_recent_success c fp now then (Inr (), c)
         else case permit of
           Closed \<Rightarrow> (Inl (service_unavailable ''Real-Debrid token validation is temporarily unavailable.''), c)
         | Timed_out \<Rightarrow> (Inl (too_many_requests ''Real-Debrid token validation is busy. Try again shortly.''), c)
         | Permit \<Rightarrow>
             (case answer of
                Inl e \<Rightarrow> (Inl e, c)
              | Inr _ \<Rightarrow> (Inr (), c\<lparr>vc_successful_tokens := (vc_successful_tokens c)(fp \<mapsto> saturating_add later RD_VALIDATION_SUCCESS_TTL_MS)\<rparr>)))"

definition validate_real_debrid_user_payload :: "debrid_env \<Rightarrow> json \<Rightarrow> unit app_result" where
  "validate_real_debrid_user_payload env payload =
     (let has_account_id = (case json_get ''id'' payload of
            None \<Rightarrow> False
          | Some v \<Rightarrow> as_i64 v \<noteq> None \<or> (case as_str v of None \<Rightarrow> False | Some s \<Rightarrow> s \<noteq> []))
      in if \<not> has_account_id then Inl (bad_gateway ''Real-Debrid returned an invalid account response.'')
         else if lower (stringify_json env (json_get ''type'' payload)) \<noteq> ''premium''
         then Inl (failed_dependency ''An active Real-Debrid Premium account is required for cached streaming.'')
         else Inr ())"

text \<open>\<open>fetched\<close> is what the service answers to the request for the account of the key.\<close>

definition validate_real_debrid_api_key ::
  "debrid_env \<Rightarrow> bool \<Rightarrow> (string \<Rightarrow> json app_result) \<Rightarrow> validation_control \<Rightarrow> int \<Rightarrow> string \<Rightarrow> string \<Rightarrow> permit_wait \<Rightarrow> int \<Rightarrow> int \<Rightarrow>
   unit app_result \<times> validation_control" where
  "validate_real_debrid_api_key env remote_traffic fetched c user_id client_ip api_key permit now later =
     (case for_user_with_delivery env 0 api_key remote_traffic of
        None \<Rightarrow> (Inl (bad_request ''Enter a valid Real-Debrid API token.''), c)
      | Some rd \<Rightarrow>
          (case validation_admit env c user_id client_ip api_key now of
             (Some r, c) \<Rightarrow> (r, c)
           | (None, c) \<Rightarrow>
               validation_locked env c api_key permit
                 (case fetched (rd_api_key rd) of Inl e \<Rightarrow> Inl e | Inr payload \<Rightarrow> validate_real_debrid_user_payload env payload) now later))"

section \<open>Checks are bounded, and a success is young\<close>

text \<open>
  Requests interleave between the two halves; the call ends at \<open>later\<close>. \<open>vs_admitted\<close> holds those that wait for the lock or the permit,
  with the time they were admitted at; \<open>vs_calls\<close> records the calls of the service by the user and the address they were admitted for, with that time, and
  \<open>vs_accepted\<close> the keys it accepted, with the time of the answer.
\<close>

record validation_system =
  vs_control :: validation_control
  vs_admitted :: "(int \<times> string \<times> string \<times> int) list"
  vs_calls :: "(int \<times> string \<times> int) list"
  vs_accepted :: "(string \<times> int) list"
  vs_now :: int

inductive validation_step :: "debrid_env \<Rightarrow> validation_system \<Rightarrow> validation_system \<Rightarrow> bool" for env where
  tick: "vs_now s \<le> now \<Longrightarrow> validation_step env s (s\<lparr>vs_now := now\<rparr>)"
| pruned: "validation_step env s (s\<lparr>vs_control := validation_prune (vs_now s) (vs_control s)\<rparr>)"
| answered: "validation_admit env (vs_control s) user_id client_ip api_key (vs_now s) = (Some r, c) \<Longrightarrow>
    validation_step env s (s\<lparr>vs_control := c\<rparr>)"
| admitted: "validation_admit env (vs_control s) user_id client_ip api_key (vs_now s) = (None, c) \<Longrightarrow>
    validation_step env s (s\<lparr>vs_control := c, vs_admitted := (user_id, client_ip, api_key, vs_now s) # vs_admitted s\<rparr>)"
| called: "(user_id, client_ip, api_key, t) \<in> set (vs_admitted s) \<Longrightarrow>
    validation_calls env (vs_control s) api_key permit (vs_now s) \<Longrightarrow>
    vs_now s \<le> later \<Longrightarrow>
    validation_locked env (vs_control s) api_key permit answer (vs_now s) later = (r, c) \<Longrightarrow>
    validation_step env s (s\<lparr>vs_control := c, vs_now := later, vs_admitted := remove1 (user_id, client_ip, api_key, t) (vs_admitted s),
      vs_calls := vs_calls s @ [(user_id, client_ip, t)],
      vs_accepted := vs_accepted s @ (if answer = Inr () then [(api_key, later)] else [])\<rparr>)"
| not_called: "(user_id, client_ip, api_key, t) \<in> set (vs_admitted s) \<Longrightarrow>
    \<not> validation_calls env (vs_control s) api_key permit (vs_now s) \<Longrightarrow>
    validation_step env s (s\<lparr>vs_admitted := remove1 (user_id, client_ip, api_key, t) (vs_admitted s)\<rparr>)"

inductive validation_reachable :: "debrid_env \<Rightarrow> validation_system \<Rightarrow> bool" for env where
  start: "0 \<le> now \<Longrightarrow> validation_reachable env
    \<lparr>vs_control = validation_control_new, vs_admitted = [], vs_calls = [], vs_accepted = [], vs_now = now\<rparr>"
| step: "validation_reachable env s \<Longrightarrow> validation_step env s s' \<Longrightarrow> validation_reachable env s'"

definition spent :: "validation_system \<Rightarrow> (int \<times> string \<times> int) multiset" where
  "spent s = mset (vs_calls s) + image_mset (\<lambda>(u, i, k, t). (u, i, t)) (mset (vs_admitted s))"

text \<open>The limiter \<open>rl\<close> has recorded a hit for each key and time in \<open>used\<close>.\<close>

definition limited :: "rate_limiter \<Rightarrow> nat \<Rightarrow> (string \<times> int) multiset \<Rightarrow> int \<Rightarrow> bool" where
  "limited rl n used now \<longleftrightarrow>
     rl_window_ms rl = RD_VALIDATION_WINDOW_MS \<and> rl_max_hits rl = n \<and> (\<exists>hits. window_inv rl hits now \<and> used \<subseteq># mset hits)"

lemma limited_new: "0 < n \<Longrightarrow> limited (rate_limiter_new n RD_VALIDATION_WINDOW_MS) n {#} now"
  using window_inv_new by (fastforce simp: limited_def RD_VALIDATION_WINDOW_MS_def)

lemma limited_advance: "limited rl n used now \<Longrightarrow> now \<le> t \<Longrightarrow> limited rl n used t"
  using window_inv_advance by (fastforce simp: limited_def)

lemma limited_prune: "limited rl n used now \<Longrightarrow> limited (rate_limiter_prune rl now) n used now"
  using window_inv_prune by (fastforce simp: limited_def)

lemma limited_check:
  assumes "limited rl n used now" "check_and_record rl k now = (ok, rl')"
  shows "limited rl' n (if ok then add_mset (k, now) used else used) now"
proof -
  from assms(1) obtain hits where h: "window_inv rl hits now" "used \<subseteq># mset hits" and w: "0 < rl_window_ms rl"
    by (auto simp: limited_def RD_VALIDATION_WINDOW_MS_def)
  have c: "fst (check_and_record rl k now) = ok" "snd (check_and_record rl k now) = rl'" using assms(2) by simp_all
  have "(if ok then add_mset (k, now) used else used) \<subseteq># mset (hits @ (if ok then [(k, now)] else []))" using h(2) by simp
  moreover have "window_inv rl' (hits @ (if ok then [(k, now)] else [])) now" using window_inv_check [OF h(1) w, of k] unfolding c .
  moreover have "rl_window_ms rl' = RD_VALIDATION_WINDOW_MS" "rl_max_hits rl' = n" using assms(1) unfolding c(2) [symmetric] by (simp_all add: limited_def)
  ultimately show ?thesis unfolding limited_def by blast
qed

lemma limited_less: "limited rl n used now \<Longrightarrow> used' \<subseteq># used \<Longrightarrow> limited rl n used' now"
  using subset_mset.order_trans by (fastforce simp: limited_def)

lemma limited_drop: "limited rl n (add_mset x used) now \<Longrightarrow> limited rl n used now"
  by (erule limited_less) (simp add: subset_mset.less_imp_le)

lemma limited_count:
  assumes "limited rl n used now"
  shows "size {#(k', t) \<in># used. k' = k \<and> hi - RD_VALIDATION_WINDOW_MS < t \<and> t \<le> hi#} \<le> n"
proof -
  from assms obtain hits where h: "window_inv rl hits now" "used \<subseteq># mset hits" "rl_window_ms rl = RD_VALIDATION_WINDOW_MS" "rl_max_hits rl = n"
    by (auto simp: limited_def)
  have "size {#(k', t) \<in># used. k' = k \<and> hi - RD_VALIDATION_WINDOW_MS < t \<and> t \<le> hi#} \<le>
      size {#(k', t) \<in># mset hits. k' = k \<and> hi - RD_VALIDATION_WINDOW_MS < t \<and> t \<le> hi#}"
    by (intro size_mset_mono multiset_filter_mono h(2))
  also have "\<dots> = accepted_in hits k (hi - RD_VALIDATION_WINDOW_MS) hi"
    unfolding accepted_in_def mset_filter [symmetric] size_mset ..
  also have "\<dots> \<le> n" using h(1,3,4) by (auto simp: window_inv_def)
  finally show ?thesis .
qed

definition successes_young :: "debrid_env \<Rightarrow> (string \<rightharpoonup> int) \<Rightarrow> (string \<times> int) list \<Rightarrow> int \<Rightarrow> bool" where
  "successes_young env tokens accepted now \<longleftrightarrow>
     (\<forall>fp e. tokens fp = Some e \<longrightarrow>
        (\<exists>key t. (key, t) \<in> set accepted \<and> real_debrid_token_fingerprint env key = fp \<and> t \<le> now \<and>
           e \<le> t + RD_VALIDATION_SUCCESS_TTL_MS))"

lemma successes_young_advance: "successes_young env tokens accepted now \<Longrightarrow> now \<le> t \<Longrightarrow> successes_young env tokens accepted t"
  unfolding successes_young_def by (meson order_trans)

lemma successes_young_less:
  "successes_young env tokens accepted now \<Longrightarrow> (\<And>fp e. tokens' fp = Some e \<Longrightarrow> tokens fp = Some e) \<Longrightarrow> successes_young env tokens' accepted now"
  unfolding successes_young_def by blast

lemma successes_young_more:
  assumes "successes_young env tokens accepted now" "now \<le> later" "e \<le> later + RD_VALIDATION_SUCCESS_TTL_MS"
  shows "successes_young env (tokens(real_debrid_token_fingerprint env key \<mapsto> e)) (accepted @ [(key, later)]) later"
  unfolding successes_young_def
proof (intro allI impI)
  fix fp e' assume t: "(tokens(real_debrid_token_fingerprint env key \<mapsto> e)) fp = Some e'"
  show "\<exists>k t. (k, t) \<in> set (accepted @ [(key, later)]) \<and> real_debrid_token_fingerprint env k = fp \<and> t \<le> later \<and>
      e' \<le> t + RD_VALIDATION_SUCCESS_TTL_MS"
  proof (cases "fp = real_debrid_token_fingerprint env key")
    case True
    with t assms(3) show ?thesis by (intro exI [of _ key] exI [of _ later]) simp
  next
    case False
    with t have "tokens fp = Some e'" by simp
    with successes_young_advance [OF assms(1,2)] show ?thesis unfolding successes_young_def by fastforce
  qed
qed

definition validation_inv :: "debrid_env \<Rightarrow> validation_system \<Rightarrow> bool" where
  "validation_inv env s \<longleftrightarrow> 0 \<le> vs_now s \<and>
     limited (vc_user_rate_limiter (vs_control s)) RD_VALIDATION_USER_MAX_ATTEMPTS
       (image_mset (\<lambda>(u, i, t). (validation_user_key u, t)) (spent s)) (vs_now s) \<and>
     limited (vc_ip_rate_limiter (vs_control s)) RD_VALIDATION_IP_MAX_ATTEMPTS
       (image_mset (\<lambda>(u, i, t). (validation_ip_key i, t)) (spent s)) (vs_now s) \<and>
     successes_young env (vc_successful_tokens (vs_control s)) (vs_accepted s) (vs_now s)"

lemma admit_cases:
  assumes "validation_admit env c user_id client_ip api_key now = (r, c')"
  obtains "c' = c" "r \<noteq> None"
  | ok ul where "check_and_record (vc_user_rate_limiter c) (validation_user_key user_id) now = (ok, ul)" "r \<noteq> None"
      "c' = c\<lparr>vc_user_rate_limiter := ul\<rparr>"
  | ok ul il where "check_and_record (vc_user_rate_limiter c) (validation_user_key user_id) now = (True, ul)"
      "check_and_record (vc_ip_rate_limiter c) (validation_ip_key client_ip) now = (ok, il)" "r = None \<longleftrightarrow> ok"
      "c' = c\<lparr>vc_user_rate_limiter := ul, vc_ip_rate_limiter := il\<rparr>"
proof (cases "has_recent_success c (real_debrid_token_fingerprint env api_key) now")
  case True
  with assms show thesis by (intro that(1)) (auto simp: validation_admit_def)
next
  case False
  obtain ok ul where u: "check_and_record (vc_user_rate_limiter c) (validation_user_key user_id) now = (ok, ul)" by fastforce
  obtain ok' il where i: "check_and_record (vc_ip_rate_limiter c) (validation_ip_key client_ip) now = (ok', il)" by fastforce
  show thesis
  proof (cases ok)
    case False
    with assms \<open>\<not> has_recent_success _ _ _\<close> u that(2) show thesis by (auto simp: validation_admit_def)
  next
    case True
    with assms \<open>\<not> has_recent_success _ _ _\<close> u i show thesis by (intro that(3) [of ul ok' il]) (cases ok'; auto simp: validation_admit_def)+
  qed
qed

lemma spent_call:
  assumes "(u, i, k, t) \<in> set (vs_admitted s)"
  shows "mset (vs_calls s @ [(u, i, t)]) + image_mset (\<lambda>(u, i, k, t). (u, i, t)) (mset (remove1 (u, i, k, t) (vs_admitted s))) = spent s"
    and "mset (vs_calls s) + image_mset (\<lambda>(u, i, k, t). (u, i, t)) (mset (remove1 (u, i, k, t) (vs_admitted s))) \<subseteq># spent s"
proof -
  have "mset (vs_admitted s) = add_mset (u, i, k, t) (mset (remove1 (u, i, k, t) (vs_admitted s)))" using assms by simp
  then have "image_mset (\<lambda>(u, i, k, t). (u, i, t)) (mset (vs_admitted s)) =
      add_mset (u, i, t) (image_mset (\<lambda>(u, i, k, t). (u, i, t)) (mset (remove1 (u, i, k, t) (vs_admitted s))))"
    by (metis (no_types, lifting) case_prod_conv image_mset_add_mset)
  then show "mset (vs_calls s @ [(u, i, t)]) + image_mset (\<lambda>(u, i, k, t). (u, i, t)) (mset (remove1 (u, i, k, t) (vs_admitted s))) = spent s"
    "mset (vs_calls s) + image_mset (\<lambda>(u, i, k, t). (u, i, t)) (mset (remove1 (u, i, k, t) (vs_admitted s))) \<subseteq># spent s"
    by (simp_all add: spent_def)
qed

lemma validation_step_inv: "validation_step env s s' \<Longrightarrow> validation_inv env s \<Longrightarrow> validation_inv env s'"
proof (induction rule: validation_step.induct)
  case (tick s now)
  have "spent (s\<lparr>vs_now := now\<rparr>) = spent s" by (simp add: spent_def)
  with tick show ?case unfolding validation_inv_def by (auto intro: limited_advance successes_young_advance)
next
  case (pruned s)
  have same: "spent (s\<lparr>vs_control := validation_prune (vs_now s) (vs_control s)\<rparr>) = spent s" by (simp add: spent_def)
  have "vc_successful_tokens (vs_control s) fp = Some e"
    if "vc_successful_tokens (validation_prune (vs_now s) (vs_control s)) fp = Some e" for fp e
    using that by (auto simp: validation_prune_def bind_eq_Some_conv split: if_splits)
  with pruned show ?case
    unfolding validation_inv_def same by (auto simp: validation_prune_def intro: limited_prune elim!: successes_young_less)
next
  case (answered s user_id client_ip api_key r c)
  note inv = answered.prems [unfolded validation_inv_def]
  from answered.hyps show ?case
  proof (cases rule: admit_cases)
    case 1
    with answered.prems show ?thesis by simp
  next
    case (2 ok ul)
    from limited_check [OF conjunct1 [OF conjunct2 [OF inv]] 2(1)] inv show ?thesis
      unfolding 2(3) validation_inv_def spent_def by (cases ok) (simp_all add: limited_drop)
  next
    case (3 ok ul il)
    then have "\<not> ok" by simp
    with limited_check [OF conjunct1 [OF conjunct2 [OF inv]] 3(1)]
      limited_check [OF conjunct1 [OF conjunct2 [OF conjunct2 [OF inv]]] 3(2)] inv show ?thesis
      unfolding 3(4) validation_inv_def spent_def by (simp add: limited_drop)
  qed
next
  case (admitted s user_id client_ip api_key c)
  note inv = admitted.prems [unfolded validation_inv_def]
  from admitted.hyps show ?case
  proof (cases rule: admit_cases)
    case (3 ok ul il)
    then have "ok" by simp
    with limited_check [OF conjunct1 [OF conjunct2 [OF inv]] 3(1)]
      limited_check [OF conjunct1 [OF conjunct2 [OF conjunct2 [OF inv]]] 3(2)] inv show ?thesis
      unfolding 3(4) validation_inv_def spent_def by simp
  qed simp_all
next
  case (called user_id client_ip api_key t s permit later answer r c)
  have sp: "spent (s\<lparr>vs_control := c, vs_now := later, vs_admitted := remove1 (user_id, client_ip, api_key, t) (vs_admitted s),
      vs_calls := vs_calls s @ [(user_id, client_ip, t)],
      vs_accepted := vs_accepted s @ (if answer = Inr () then [(api_key, later)] else [])\<rparr>) = spent s"
    using spent_call(1) [OF called.hyps(1)] by (simp add: spent_def)
  have c: "c = (case answer of Inl e \<Rightarrow> vs_control s | Inr _ \<Rightarrow> (vs_control s)\<lparr>vc_successful_tokens :=
      (vc_successful_tokens (vs_control s))(real_debrid_token_fingerprint env api_key \<mapsto> saturating_add later RD_VALIDATION_SUCCESS_TTL_MS)\<rparr>)"
    using called.hyps(2,4) by (auto simp: validation_locked_def validation_calls_def Let_def split: sum.splits)
  have "saturating_add later RD_VALIDATION_SUCCESS_TTL_MS \<le> later + RD_VALIDATION_SUCCESS_TTL_MS"
    using called.prems called.hyps(3) by (auto simp: validation_inv_def saturating_add_def sat64_def RD_VALIDATION_SUCCESS_TTL_MS_def i64_min_def)
  with called.prems called.hyps(3) show ?case
    unfolding validation_inv_def sp
    by (cases answer) (auto simp: c intro: limited_advance successes_young_advance successes_young_more)
next
  case (not_called user_id client_ip api_key t s permit)
  have "spent (s\<lparr>vs_admitted := remove1 (user_id, client_ip, api_key, t) (vs_admitted s)\<rparr>) \<subseteq># spent s"
    using spent_call(2) [OF not_called.hyps(1)] by (simp add: spent_def)
  with not_called.prems show ?case
    unfolding validation_inv_def by (auto intro: limited_less image_mset_subseteq_mono)
qed

lemma validation_reachable_inv: "validation_reachable env s \<Longrightarrow> validation_inv env s"
proof (induction rule: validation_reachable.induct)
  case (start now)
  then show ?case
    by (simp add: validation_inv_def validation_control_new_def spent_def limited_new successes_young_def RD_VALIDATION_USER_MAX_ATTEMPTS_def RD_VALIDATION_IP_MAX_ATTEMPTS_def)
qed (rule validation_step_inv)

text \<open>
  C18: a key counts as valid only if the service said so within five minutes. Whatever requests came before, a key passes the check
  only if the service returns an account of type premium for exactly this key (white space at its ends apart), or accepted
  a key of the same fingerprint less than five minutes ago; and of the calls that lead to it, at
  most five of one user and twenty of one address were admitted in any quarter of an hour.
\<close>

theorem accepted_key_was_validated:
  assumes "validation_reachable env s"
    and "validate_real_debrid_api_key env remote_traffic fetched (vs_control s) user_id client_ip api_key permit (vs_now s) later = (Inr (), c)"
  shows "((\<exists>payload. fetched (trim api_key) = Inr payload \<and> lower (stringify_json env (json_get ''type'' payload)) = ''premium'') \<or>
      (\<exists>(key, t) \<in> set (vs_accepted s). real_debrid_token_fingerprint env key = real_debrid_token_fingerprint env api_key \<and>
         vs_now s - 300000 < t \<and> t \<le> vs_now s)) \<and>
    length (filter (\<lambda>(u, i, t). validation_user_key u = validation_user_key user_id \<and> hi - 900000 < t \<and> t \<le> hi) (vs_calls s)) \<le> 5 \<and>
    length (filter (\<lambda>(u, i, t). validation_ip_key i = validation_ip_key client_ip \<and> hi - 900000 < t \<and> t \<le> hi) (vs_calls s)) \<le> 20"
proof (intro conjI)
  have inv: "validation_inv env s" using assms(1) by (rule validation_reachable_inv)
  obtain rd where rd: "for_user_with_delivery env 0 api_key remote_traffic = Some rd"
    using assms(2) by (cases "for_user_with_delivery env 0 api_key remote_traffic") (auto simp: validate_real_debrid_api_key_def)
  have young: "\<exists>(key, t) \<in> set (vs_accepted s). real_debrid_token_fingerprint env key = real_debrid_token_fingerprint env api_key \<and>
      vs_now s - 300000 < t \<and> t \<le> vs_now s"
    if recent: "has_recent_success (vs_control s) (real_debrid_token_fingerprint env api_key) (vs_now s)"
  proof -
    let ?fp = "real_debrid_token_fingerprint env api_key"
    obtain e where e: "vc_successful_tokens (vs_control s) ?fp = Some e" "vs_now s < e"
      using recent by (auto simp: has_recent_success_def split: option.splits)
    with inv obtain key t where "(key, t) \<in> set (vs_accepted s)" "real_debrid_token_fingerprint env key = ?fp"
      "t \<le> vs_now s" "e \<le> t + RD_VALIDATION_SUCCESS_TTL_MS"
      unfolding validation_inv_def successes_young_def by meson
    with e(2) show ?thesis by (intro bexI [of _ "(key, t)"]) (auto simp: RD_VALIDATION_SUCCESS_TTL_MS_def)
  qed
  show "(\<exists>payload. fetched (trim api_key) = Inr payload \<and> lower (stringify_json env (json_get ''type'' payload)) = ''premium'') \<or>
      (\<exists>(key, t) \<in> set (vs_accepted s). real_debrid_token_fingerprint env key = real_debrid_token_fingerprint env api_key \<and>
         vs_now s - 300000 < t \<and> t \<le> vs_now s)"
  proof (cases "has_recent_success (vs_control s) (real_debrid_token_fingerprint env api_key) (vs_now s)")
    case True
    then show ?thesis using young by blast
  next
    case False
    obtain r c' where a: "validation_admit env (vs_control s) user_id client_ip api_key (vs_now s) = (r, c')" by fastforce
    then have "has_recent_success c' (real_debrid_token_fingerprint env api_key) (vs_now s) \<longleftrightarrow>
        has_recent_success (vs_control s) (real_debrid_token_fingerprint env api_key) (vs_now s)"
      by (rule admit_cases) (simp_all add: has_recent_success_def)
    moreover have "r = None" using assms(2) a False
      by (auto simp: validate_real_debrid_api_key_def rd validation_admit_def Let_def split: prod.splits bool.splits)
    ultimately have "validation_locked env c' api_key permit
        (case fetched (rd_api_key rd) of Inl e \<Rightarrow> Inl e | Inr payload \<Rightarrow> validate_real_debrid_user_payload env payload) (vs_now s) later = (Inr (), c)"
      "\<not> has_recent_success c' (real_debrid_token_fingerprint env api_key) (vs_now s)"
      using assms(2) a False by (simp_all add: validate_real_debrid_api_key_def rd)
    then show ?thesis using for_user_context(4) [OF rd]
      by (auto simp: validation_locked_def Let_def validate_real_debrid_user_payload_def split: permit_wait.splits sum.splits if_splits)
  qed
  have sub: "mset (vs_calls s) \<subseteq># spent s" by (simp add: spent_def)
  have count: "length (filter (\<lambda>x. f x = k \<and> hi - 900000 < snd (snd x) \<and> snd (snd x) \<le> hi) (vs_calls s)) \<le> n"
    if "limited rl n (image_mset (\<lambda>x. (f x, snd (snd x))) (spent s)) (vs_now s)" for rl n f k
  proof -
    have "length (filter (\<lambda>x. f x = k \<and> hi - 900000 < snd (snd x) \<and> snd (snd x) \<le> hi) (vs_calls s)) =
        size {#x \<in># mset (vs_calls s). f x = k \<and> hi - 900000 < snd (snd x) \<and> snd (snd x) \<le> hi#}"
      by (simp flip: mset_filter)
    also have "\<dots> \<le> size {#x \<in># spent s. f x = k \<and> hi - 900000 < snd (snd x) \<and> snd (snd x) \<le> hi#}"
      by (intro size_mset_mono multiset_filter_mono sub)
    also have "\<dots> = size {#(k', t) \<in># image_mset (\<lambda>x. (f x, snd (snd x))) (spent s). k' = k \<and> hi - RD_VALIDATION_WINDOW_MS < t \<and> t \<le> hi#}"
      by (simp add: filter_mset_image_mset RD_VALIDATION_WINDOW_MS_def)
    also have "\<dots> \<le> n" using that by (rule limited_count)
    finally show ?thesis .
  qed
  show "length (filter (\<lambda>(u, i, t). validation_user_key u = validation_user_key user_id \<and> hi - 900000 < t \<and> t \<le> hi) (vs_calls s)) \<le> 5"
    using count [of _ _ "\<lambda>x. validation_user_key (fst x)" "validation_user_key user_id"] inv
    by (fastforce simp: validation_inv_def case_prod_unfold RD_VALIDATION_USER_MAX_ATTEMPTS_def)
  show "length (filter (\<lambda>(u, i, t). validation_ip_key i = validation_ip_key client_ip \<and> hi - 900000 < t \<and> t \<le> hi) (vs_calls s)) \<le> 20"
    using count [of _ _ "\<lambda>x. validation_ip_key (fst (snd x))" "validation_ip_key client_ip"] inv
    by (fastforce simp: validation_inv_def case_prod_unfold RD_VALIDATION_IP_MAX_ATTEMPTS_def)
qed

section \<open>A concrete instance\<close>

definition sample_account :: json where
  "sample_account = JObj [(''id'', JInt 1), (''type'', JStr ''premium'')]"

theorem accepted_key_was_validated_witness:
  "fst (validate_real_debrid_api_key sample_debrid_env True (\<lambda>_. Inr sample_account) validation_control_new 7 ''1.2.3.4'' ''key'' Permit 1000 1100) =
     Inr () \<and>
   (\<exists>payload. (Inr sample_account :: json app_result) = Inr payload \<and>
      lower (stringify_json sample_debrid_env (json_get ''type'' payload)) = ''premium'')"
proof -
  let ?s = "\<lparr>vs_control = validation_control_new, vs_admitted = [], vs_calls = [], vs_accepted = [], vs_now = 1000\<rparr>"
  have r: "validation_reachable sample_debrid_env ?s" by (rule validation_reachable.start) simp
  have "fst (validate_real_debrid_api_key sample_debrid_env True (\<lambda>_. Inr sample_account) validation_control_new 7 ''1.2.3.4'' ''key'' Permit 1000 1100) =
      Inr ()"
    by code_simp
  moreover from this obtain c where "validate_real_debrid_api_key sample_debrid_env True (\<lambda>_. Inr sample_account) (vs_control ?s)
      7 ''1.2.3.4'' ''key'' Permit (vs_now ?s) 1100 = (Inr (), c)"
    by (metis prod.collapse validation_system.select_convs(1,5))
  from accepted_key_was_validated [OF r this, of 0] have "\<exists>payload. (Inr sample_account :: json app_result) = Inr payload \<and>
      lower (stringify_json sample_debrid_env (json_get ''type'' payload)) = ''premium''" by simp
  ultimately show ?thesis by blast
qed

end
