(* ===== verification/DebridClient.thy ===== *)
theory DebridClient
  imports DebridTickets SourceText Caches
begin

text \<open>
  The client of the debrid service (\<open>src/resolver/real_debrid.rs\<close>): its requests and what their answers
  mean, the memory of torrents that are ready, and the choice of the file to play. The
  service answers by \<open>cl_remote\<close>, any function of the conversation so far; a call takes \<open>cl_elapsed\<close>
  milliseconds, so the clock does not run backwards within a request. Hash maps are lists of entries
  with distinct keys.
\<close>

section \<open>Requests\<close>

datatype rd_call =
    Rd_user
  | Rd_transcode string
  | Rd_torrent_info string
  | Rd_add_magnet string
  | Rd_select_files string "int list"
  | Rd_delete string
  | Rd_unrestrict string bool
  | Rd_torrents

definition RD_TORRENT_LIST_LIMIT :: nat where "RD_TORRENT_LIST_LIMIT = 500"

definition joined :: "string \<Rightarrow> string list \<Rightarrow> string" where
  "joined sep ps = (case ps of [] \<Rightarrow> [] | p # ps \<Rightarrow> p @ concat (map ((@) sep) ps))"

definition build_real_debrid_unrestrict_form :: "string \<Rightarrow> bool \<Rightarrow> (string \<times> string) list" where
  "build_real_debrid_unrestrict_form rd_link remote_traffic =
     [(''link'', rd_link)] @ (if remote_traffic then [(''remote'', ''1'')] else [])"

text \<open>Method, path and form of each.\<close>

fun rd_request :: "rd_call \<Rightarrow> string \<times> string \<times> (string \<times> string) list option" where
  "rd_request Rd_user = (''GET'', ''/user'', None)"
| "rd_request (Rd_transcode i) = (''GET'', ''/streaming/transcode/'' @ i, None)"
| "rd_request (Rd_torrent_info i) = (''GET'', ''/torrents/info/'' @ i, None)"
| "rd_request (Rd_add_magnet m) = (''POST'', ''/torrents/addMagnet'', Some [(''magnet'', m)])"
| "rd_request (Rd_select_files i fs) = (''POST'', ''/torrents/selectFiles/'' @ i, Some [(''files'', joined '','' (map show_int fs))])"
| "rd_request (Rd_delete i) = (''DELETE'', ''/torrents/delete/'' @ i, None)"
| "rd_request (Rd_unrestrict l r) = (''POST'', ''/unrestrict/link'', Some (build_real_debrid_unrestrict_form l r))"
| "rd_request Rd_torrents = (''GET'', ''/torrents?limit='' @ show_nat RD_TORRENT_LIST_LIMIT, None)"

text \<open>No answer, with the error made of it; an unreadable answer; a status and a body.\<close>

datatype rd_http = Not_sent api_error | Unreadable | Answer nat string

type_synonym rd_log = "(rd_call \<times> json app_result) list"

record rd_client =
  cl_debrid :: debrid_env
  cl_parse :: json_parser
  cl_print :: "json \<Rightarrow> string"
  cl_regex :: regex_engine
  cl_secret :: string
  cl_remote :: "rd_log \<Rightarrow> rd_call \<Rightarrow> rd_http"
  cl_elapsed :: "rd_log \<Rightarrow> rd_call \<Rightarrow> nat"
  cl_oversleep :: "rd_log \<Rightarrow> nat"

record rd_world =
  rw_log :: rd_log
  rw_now :: int
  rw_cache :: "cache_row list"

definition user_facing_real_debrid_error :: "string \<Rightarrow> string" where
  "user_facing_real_debrid_error message =
     (let m = lower (trim message)
      in if m = ''infringing_file'' then ''Real-Debrid blocked this source.''
         else if m = ''too_many_requests'' then ''Real-Debrid is rate limiting requests. Try again shortly.''
         else if m = ''bad_token'' \<or> m = ''bad token'' then ''Real-Debrid rejected this API token.''
         else if m = ''permission_denied'' \<or> m = ''permission denied''
         then ''Real-Debrid denied access. Check that the account is active and premium.''
         else ''Real-Debrid request failed.'')"

definition is_real_debrid_blocked_source_message :: "string \<Rightarrow> bool" where
  "is_real_debrid_blocked_source_message message \<longleftrightarrow> trim message = ''Real-Debrid blocked this source.''"

definition rd_reply :: "rd_client \<Rightarrow> rd_http \<Rightarrow> json app_result" where
  "rd_reply env http =
     (case http of
        Not_sent e \<Rightarrow> Inl e
      | Unreadable \<Rightarrow> Inl (bad_gateway ''Real-Debrid response could not be read.'')
      | Answer status body \<Rightarrow>
          (let payload = (case cl_parse env body of Some v \<Rightarrow> v | None \<Rightarrow> JObj [(''message'', JStr body)])
           in if 200 \<le> status \<and> status < 300 then Inr payload
              else let message = (case Option.bind (json_get ''error'' payload) as_str of
                         Some m \<Rightarrow> m
                       | None \<Rightarrow> (case Option.bind (json_get ''message'' payload) as_str of
                           Some m \<Rightarrow> m | None \<Rightarrow> ''Real-Debrid request failed.''));
                       user_message = user_facing_real_debrid_error message
              in Inl (if status = 401 then bad_request ''Real-Debrid rejected this API token.''
                 else if status = 403
                 then failed_dependency ''Real-Debrid denied access. Check that the account is active and premium.''
                 else if is_real_debrid_blocked_source_message user_message then failed_dependency user_message
                 else bad_gateway user_message)))"

definition rd_fetch ::
  "rd_client \<Rightarrow> real_debrid_request_context \<Rightarrow> rd_call \<Rightarrow> rd_world \<Rightarrow> json app_result \<times> rd_world" where
  "rd_fetch env rd c w =
     (if trim (rd_api_key rd) = [] then (Inl (internal ''Real-Debrid API key is not configured.''), w)
      else let r = rd_reply env (cl_remote env (rw_log w) c)
      in (r, w\<lparr>rw_log := rw_log w @ [(c, r)], rw_now := rw_now w + int (cl_elapsed env (rw_log w) c)\<rparr>))"

text \<open>The \<open>?\<close> operator, and a match on a result that handles the error.\<close>

definition rd_return :: "'a \<Rightarrow> rd_world \<Rightarrow> 'a app_result \<times> rd_world" where
  "rd_return x w = (Inr x, w)"

definition rd_fail :: "api_error \<Rightarrow> rd_world \<Rightarrow> 'a app_result \<times> rd_world" where
  "rd_fail e w = (Inl e, w)"

definition rd_bind ::
  "(rd_world \<Rightarrow> 'a app_result \<times> rd_world) \<Rightarrow> ('a \<Rightarrow> rd_world \<Rightarrow> 'b app_result \<times> rd_world) \<Rightarrow> rd_world \<Rightarrow> 'b app_result \<times> rd_world" where
  "rd_bind m f w = (case m w of (Inl e, w') \<Rightarrow> (Inl e, w') | (Inr x, w') \<Rightarrow> f x w')"

definition rd_match ::
  "(rd_world \<Rightarrow> 'a app_result \<times> rd_world) \<Rightarrow> ('a \<Rightarrow> rd_world \<Rightarrow> 'b app_result \<times> rd_world) \<Rightarrow>
   (api_error \<Rightarrow> rd_world \<Rightarrow> 'b app_result \<times> rd_world) \<Rightarrow> rd_world \<Rightarrow> 'b app_result \<times> rd_world" where
  "rd_match m f g w = (case m w of (Inl e, w') \<Rightarrow> g e w' | (Inr x, w') \<Rightarrow> f x w')"

section \<open>Torrents that are ready\<close>

definition rd_text :: "rd_client \<Rightarrow> string \<Rightarrow> json \<Rightarrow> string" where
  "rd_text env k v = stringify_json (cl_debrid env) (json_get k v)"

definition i64_field0 :: "string \<Rightarrow> json \<Rightarrow> int" where
  "i64_field0 k v = (case Option.bind (json_get k v) as_i64 of Some n \<Rightarrow> n | None \<Rightarrow> 0)"

text \<open>Collected into a hash map the last entry of a key stays.\<close>

definition collect_map :: "(string \<times> 'a) list \<Rightarrow> (string \<times> 'a) list" where
  "collect_map kvs = fold (\<lambda>(k, v) m. (k, v) # filter (\<lambda>p. fst p \<noteq> k) m) kvs []"

definition parse_ready_real_debrid_torrents :: "rd_client \<Rightarrow> json \<Rightarrow> (string \<times> string) list" where
  "parse_ready_real_debrid_torrents env payload =
     (let present = (\<lambda>(h, i). if h \<noteq> [] \<and> i \<noteq> [] then Some (h, i) else None)
      in case json_get ''torrents'' payload of
        Some (JObj torrents) \<Rightarrow>
          collect_map (List.map_filter
            (\<lambda>(h, i). present (normalize_source_hash h, trim (case as_str i of Some s \<Rightarrow> s | None \<Rightarrow> []))) torrents)
      | _ \<Rightarrow>
          (case payload of
             JArr items \<Rightarrow>
               collect_map (List.map_filter
                 (\<lambda>item. if lower (rd_text env ''status'' item) = ''downloaded''
                   then present (normalize_source_hash (rd_text env ''hash'' item), rd_text env ''id'' item) else None) items)
           | _ \<Rightarrow> []))"

definition parse_ready_real_debrid_hashes :: "rd_client \<Rightarrow> json \<Rightarrow> string list" where
  "parse_ready_real_debrid_hashes env payload =
     (case json_get ''hashes'' payload of
        Some (JArr hashes) \<Rightarrow>
          remdups (filter (\<lambda>h. h \<noteq> []) (map normalize_source_hash (List.map_filter as_str hashes)))
      | _ \<Rightarrow> map fst (parse_ready_real_debrid_torrents env payload))"

definition build_rd_torrent_cache_key :: "string \<Rightarrow> string" where
  "build_rd_torrent_cache_key info_hash = ''rd-torrent:'' @ normalize_source_hash info_hash"

definition build_scoped_rd_torrent_cache_key :: "string \<Rightarrow> string \<Rightarrow> string" where
  "build_scoped_rd_torrent_cache_key cache_scope info_hash =
     (let normalized_hash = normalize_source_hash info_hash; normalized_scope = trim cache_scope
      in if normalized_scope = [] then build_rd_torrent_cache_key normalized_hash
         else ''rd-torrent:'' @ normalized_scope @ '':'' @ normalized_hash)"

definition RD_TORRENT_CACHE_TTL_MS :: int where "RD_TORRENT_CACHE_TTL_MS = 24 * 60 * 60 * 1000"
definition RD_READY_HASH_CACHE_TTL_MS :: int where "RD_READY_HASH_CACHE_TTL_MS = 30 * 1000"

definition cache_read :: "rd_client \<Rightarrow> string \<Rightarrow> rd_world \<Rightarrow> json option \<times> rd_world" where
  "cache_read env key w =
     (case get_movie_quick_start_cache (cl_parse env) (rw_cache w) key (rw_now w) of
        (found, t) \<Rightarrow> (map_option fst found, w\<lparr>rw_cache := t\<rparr>))"

definition cache_write :: "rd_client \<Rightarrow> string \<Rightarrow> json \<Rightarrow> int \<Rightarrow> rd_world \<Rightarrow> rd_world" where
  "cache_write env key payload ttl w =
     w\<lparr>rw_cache := set_movie_quick_start_cache (cl_print env) (rw_cache w) key (payload, rw_now w + ttl) (rw_now w)\<rparr>"

definition get_cached_rd_torrent_id ::
  "rd_client \<Rightarrow> real_debrid_request_context \<Rightarrow> string \<Rightarrow> rd_world \<Rightarrow> string option \<times> rd_world" where
  "get_cached_rd_torrent_id env rd info_hash w =
     (case cache_read env (build_scoped_rd_torrent_cache_key (rd_cache_scope rd) info_hash) w of
        (None, w) \<Rightarrow> (None, w)
      | (Some payload, w) \<Rightarrow>
          (let torrent_id = rd_text env ''torrentId'' payload in (if torrent_id = [] then None else Some torrent_id, w)))"

definition set_cached_rd_torrent_id ::
  "rd_client \<Rightarrow> real_debrid_request_context \<Rightarrow> string \<Rightarrow> string \<Rightarrow> rd_world \<Rightarrow> rd_world" where
  "set_cached_rd_torrent_id env rd info_hash torrent_id w =
     (let normalized_hash = normalize_source_hash info_hash; normalized_torrent_id = trim torrent_id
      in if normalized_hash = [] \<or> normalized_torrent_id = [] then w
         else cache_write env (build_scoped_rd_torrent_cache_key (rd_cache_scope rd) normalized_hash)
           (JObj [(''infoHash'', JStr normalized_hash), (''torrentId'', JStr normalized_torrent_id)]) RD_TORRENT_CACHE_TTL_MS w)"

definition delete_cached_rd_torrent_id :: "real_debrid_request_context \<Rightarrow> string \<Rightarrow> rd_world \<Rightarrow> rd_world" where
  "delete_cached_rd_torrent_id rd info_hash w =
     (let normalized_hash = normalize_source_hash info_hash
      in if normalized_hash = [] then w
         else w\<lparr>rw_cache := delete_movie_quick_start_cache (rw_cache w)
                (build_scoped_rd_torrent_cache_key (rd_cache_scope rd) normalized_hash)\<rparr>)"

definition ready_cache_key :: "string \<Rightarrow> string" where
  "ready_cache_key scope = ''rd-ready-hashes:'' @ scope"

definition find_reusable_rd_torrent_by_hash ::
  "rd_client \<Rightarrow> real_debrid_request_context \<Rightarrow> string \<Rightarrow> rd_world \<Rightarrow> string option \<times> rd_world" where
  "find_reusable_rd_torrent_by_hash env rd info_hash w =
     (let normalized_hash = normalize_source_hash info_hash
      in if normalized_hash = [] then (None, w)
         else case get_cached_rd_torrent_id env rd normalized_hash w of
           (Some cached_torrent_id, w) \<Rightarrow> (Some cached_torrent_id, w)
         | (None, w) \<Rightarrow>
             (case cache_read env (ready_cache_key (rd_cache_scope rd)) w of
                (None, w) \<Rightarrow> (None, w)
              | (Some payload, w) \<Rightarrow>
                  (case map_of (parse_ready_real_debrid_torrents env payload) normalized_hash of
                     None \<Rightarrow> (None, w)
                   | Some torrent_id \<Rightarrow> (Some torrent_id, set_cached_rd_torrent_id env rd normalized_hash torrent_id w))))"

definition cached_ready_real_debrid_hashes ::
  "rd_client \<Rightarrow> real_debrid_request_context \<Rightarrow> rd_world \<Rightarrow> string list option \<times> rd_world" where
  "cached_ready_real_debrid_hashes env rd w =
     (case cache_read env (ready_cache_key (rd_cache_scope rd)) w of
        (found, w) \<Rightarrow> (map_option (parse_ready_real_debrid_hashes env) found, w))"

definition refresh_ready_real_debrid_hashes ::
  "rd_client \<Rightarrow> real_debrid_request_context \<Rightarrow> string list \<Rightarrow> rd_world \<Rightarrow> unit app_result \<times> rd_world" where
  "refresh_ready_real_debrid_hashes env rd candidate_hashes =
     rd_bind (rd_fetch env rd Rd_torrents) (\<lambda>payload w.
       let ready_torrents = parse_ready_real_debrid_torrents env payload;
           w = fold (\<lambda>(h, i). if h \<in> set candidate_hashes then set_cached_rd_torrent_id env rd h i else (\<lambda>w. w)) ready_torrents w
       in (Inr (), cache_write env (ready_cache_key (rd_cache_scope rd))
             (JObj [(''hashes'', JArr (map (JStr \<circ> fst) ready_torrents)),
                    (''torrents'', JObj (map (map_prod id JStr) ready_torrents))]) RD_READY_HASH_CACHE_TTL_MS w))"

text \<open>
  The badges of a source menu: from the cache, or else by a refresh in the background, one for a scope at a time;
  the scopes being refreshed are \<open>refreshing\<close>.
\<close>

definition spawn_ready_refresh :: "real_debrid_request_context \<Rightarrow> string list \<Rightarrow> bool \<times> string list" where
  "spawn_ready_refresh rd refreshing =
     (if rd_cache_scope rd \<in> set refreshing then (False, refreshing) else (True, rd_cache_scope rd # refreshing))"

definition ready_refresh_task ::
  "rd_client \<Rightarrow> real_debrid_request_context \<Rightarrow> string list \<Rightarrow> string list \<Rightarrow> rd_world \<Rightarrow> string list \<times> rd_world" where
  "ready_refresh_task env rd candidate_hashes refreshing w =
     (removeAll (rd_cache_scope rd) refreshing,
      case refresh_ready_real_debrid_hashes env rd candidate_hashes w of
        (Inr _, w) \<Rightarrow> w
      | (Inl _, w) \<Rightarrow> cache_write env (ready_cache_key (rd_cache_scope rd)) (JObj [(''hashes'', JArr [])]) 5000 w)"

definition mark_ready_real_debrid_sources ::
  "rd_client \<Rightarrow> real_debrid_request_context option \<Rightarrow> discovery_stream list \<Rightarrow> string list \<Rightarrow> rd_world \<Rightarrow>
   (discovery_stream list \<times> bool) \<times> string list \<times> rd_world" where
  "mark_ready_real_debrid_sources env real_debrid streams refreshing w =
     (case real_debrid of
        None \<Rightarrow> ((streams, False), refreshing, w)
      | Some rd \<Rightarrow>
          (case cached_ready_real_debrid_hashes env rd w of
             (None, w) \<Rightarrow> (case spawn_ready_refresh rd refreshing of (spawned, refreshing) \<Rightarrow> ((streams, spawned), refreshing, w))
           | (Some ready_hashes, w) \<Rightarrow>
               ((map (\<lambda>s. s\<lparr>ds_real_debrid_cached := get_stream_info_hash s \<in> set ready_hashes\<rparr>) streams, False), refreshing, w)))"

section \<open>The file to play\<close>

fun has_extension :: "string \<Rightarrow> string \<Rightarrow> bool" where
  "has_extension e [] = False"
| "has_extension e (c # s) =
     ((case strip_prefix e (c # s) of
         None \<Rightarrow> False | Some [] \<Rightarrow> True | Some (d # _) \<Rightarrow> d \<in> {CHR ''?'', CHR ''#'', CHR ''&'', CHR ''/''}) \<or>
      has_extension e s)"

definition has_url_like_container_extension :: "string \<Rightarrow> string \<Rightarrow> bool" where
  "has_url_like_container_extension v container \<longleftrightarrow>
     (let normalized = lower (trim v)
      in if normalized = [] then False
         else if container = ''mp4'' then has_extension ''.mp4'' normalized
         else if container = ''mkv'' then has_extension ''.mkv'' normalized else False)"

definition is_supported_resolved_container_path :: "string \<Rightarrow> bool" where
  "is_supported_resolved_container_path v \<longleftrightarrow> list_ex (has_url_like_container_extension v) [''mp4'', ''mkv'']"

definition container_preference_rank :: "string \<Rightarrow> int" where
  "container_preference_rank path = (if has_url_like_container_extension path ''mp4'' then 1 else 0)"

text \<open>\<open>Iterator::max_by_key\<close>: the last of the greatest.\<close>

fun max_by_key :: "('a \<Rightarrow> 'k::linorder) \<Rightarrow> 'a list \<Rightarrow> 'a option" where
  "max_by_key k [] = None"
| "max_by_key k (x # xs) = (case max_by_key k xs of None \<Rightarrow> Some x | Some y \<Rightarrow> if k x \<le> k y then Some y else Some x)"

definition torrent_files :: "rd_client \<Rightarrow> json list \<Rightarrow> (int \<times> string \<times> int) list" where
  "torrent_files env files =
     List.map_filter (\<lambda>file. map_option (\<lambda>i. (i, rd_text env ''path'' file, i64_field0 ''bytes'' file))
       (Option.bind (json_get ''id'' file) as_i64)) files"

definition pick_video_file_ids :: "rd_client \<Rightarrow> json list \<Rightarrow> string \<Rightarrow> string \<Rightarrow> int list" where
  "pick_video_file_ids env files preferred_filename fallback_name =
     (let video_files = filter (\<lambda>(_, path, _). is_supported_resolved_container_path path) (torrent_files env files);
          preferred_needle = lower (trim preferred_filename);
          preferred = (if preferred_needle = [] then None
                       else List.find (\<lambda>(_, path, _). contains (lower path) preferred_needle) video_files);
          signatures = collect_episode_signatures (cl_regex env) fallback_name None;
          season_hint = (case signatures of [] \<Rightarrow> 0 | s # _ \<Rightarrow> i64_or_0 (Some (hd (split_on CHR ''x'' s))));
          episode = (if signatures = [] then None
                     else List.find (\<lambda>(_, path, _).
                       list_ex (\<lambda>s. s \<in> set signatures)
                         (collect_episode_signatures (cl_regex env) path (if season_hint > 0 then Some season_hint else None)))
                       video_files)
      in case preferred of Some (i, _) \<Rightarrow> [i]
       | None \<Rightarrow> (case episode of Some (i, _) \<Rightarrow> [i]
       | None \<Rightarrow> (case max_by_key (\<lambda>(_, path, bytes). (container_preference_rank path, bytes)) video_files of
                    Some (i, _) \<Rightarrow> [i] | None \<Rightarrow> [])))"

definition json_array :: "string \<Rightarrow> json \<Rightarrow> json list option" where
  "json_array k v = (case json_get k v of Some (JArr items) \<Rightarrow> Some items | _ \<Rightarrow> None)"

definition file_selected :: "json \<Rightarrow> bool" where
  "file_selected file \<longleftrightarrow> i64_field0 ''selected'' file \<noteq> 0"

definition ready_info_has_selected_file_id :: "json \<Rightarrow> int \<Rightarrow> bool" where
  "ready_info_has_selected_file_id info selected_file_id \<longleftrightarrow>
     (if selected_file_id \<le> 0 then True
      else case json_array ''files'' info of
        None \<Rightarrow> True
      | Some files \<Rightarrow>
          if files = [] then True
          else list_ex (\<lambda>file. Option.bind (json_get ''id'' file) as_i64 = Some selected_file_id \<and> file_selected file) files)"

definition reusable_rd_torrent_ready_for_selected_file :: "rd_client \<Rightarrow> json \<Rightarrow> int \<Rightarrow> bool" where
  "reusable_rd_torrent_ready_for_selected_file env info selected_file_id \<longleftrightarrow>
     (if selected_file_id \<le> 0 \<or> rd_text env ''status'' info \<noteq> ''downloaded'' \<or>
         (case json_array ''links'' info of None \<Rightarrow> True | Some links \<Rightarrow> length links \<noteq> 1)
      then False
      else case json_array ''files'' info of
        None \<Rightarrow> False
      | Some files \<Rightarrow>
          (case filter file_selected files of
             [file] \<Rightarrow> Option.bind (json_get ''id'' file) as_i64 = Some selected_file_id
           | _ \<Rightarrow> False))"

definition RD_SELECTED_FILE_MISMATCH_ERROR :: string where
  "RD_SELECTED_FILE_MISMATCH_ERROR = ''Real-Debrid returned a cached torrent with a different selected file.''"

definition is_rd_selected_file_mismatch_error :: "api_error \<Rightarrow> bool" where
  "is_rd_selected_file_mismatch_error e \<longleftrightarrow> api_error_message e = Some RD_SELECTED_FILE_MISMATCH_ERROR"

definition is_persistent_source_resolve_error :: "api_error \<Rightarrow> bool" where
  "is_persistent_source_resolve_error e \<longleftrightarrow>
     (case api_error_message e of
        None \<Rightarrow> False
      | Some m \<Rightarrow>
          m \<in> {''Real-Debrid blocked this source.'', RD_SELECTED_FILE_MISMATCH_ERROR,
               ''No supported video file was found in this torrent.'', ''No playable Real-Debrid stream URL was available.'',
               ''Real-Debrid returned no downloadable link.'', ''Resolved stream filename did not match requested title.'',
               ''Resolved stream filename did not match requested episode.''} \<or>
          starts_with m ''Resolved stream is unavailable'')"

definition record_source_resolve_failure ::
  "discovery_stream \<Rightarrow> api_error \<Rightarrow> int \<Rightarrow> source_health_row list \<Rightarrow> source_health_row list" where
  "record_source_resolve_failure s e now t =
     (if \<not> is_persistent_source_resolve_error e \<or> get_stream_info_hash s = [] then t
      else record_source_health_event (get_stream_info_hash s) ''playback_error''
        (case api_error_message e of Some m \<Rightarrow> m | None \<Rightarrow> ''Source failed during resolve.'') now t)"

section \<open>The magnet\<close>

definition DEFAULT_TRACKERS :: "string list" where
  "DEFAULT_TRACKERS =
     [''udp://tracker.opentrackr.org:1337/announce'', ''udp://open.stealth.si:80/announce'',
      ''udp://tracker.torrent.eu.org:451/announce'', ''udp://explodie.org:6969/announce'',
      ''udp://open.demonii.com:1337/announce'', ''udp://exodus.desync.com:6969/announce'',
      ''udp://tracker.dler.org:6969/announce'', ''udp://opentracker.i2p.rocks:6969/announce'',
      ''udp://tracker.tiny-vps.com:6969/announce'', ''udp://tracker.moeking.me:6969/announce'',
      ''udp://tracker.cyberia.is:6969/announce'', ''udp://tracker.dump.cl:6969/announce'']"

definition extract_info_hash_from_magnet :: "live_env \<Rightarrow> string \<Rightarrow> string" where
  "extract_info_hash_from_magnet env v =
     (case lv_parse env (trim v) of
        None \<Rightarrow> []
      | Some url \<Rightarrow>
          if url_scheme url \<noteq> ''magnet'' then []
          else case List.map_filter (\<lambda>(k, x). if k \<noteq> ''xt'' then None
                 else case strip_prefix ''urn:btih:'' x of
                   None \<Rightarrow> None | Some h \<Rightarrow> if normalize_source_hash h = [] then None else Some (normalize_source_hash h)) (wu_query url) of
            h # _ \<Rightarrow> h | [] \<Rightarrow> [])"

definition normalize_magnet_url :: "live_env \<Rightarrow> string \<Rightarrow> string option" where
  "normalize_magnet_url env v =
     (if starts_with (lower (trim v)) ''magnet:?'' \<and> extract_info_hash_from_magnet env (trim v) \<noteq> [] then Some (trim v) else None)"

definition push_unique_tracker :: "string list \<Rightarrow> string \<Rightarrow> string list" where
  "push_unique_tracker trackers tracker =
     (let t = trim tracker in if t = [] \<or> list_ex (\<lambda>x. lower x = lower t) trackers then trackers else trackers @ [t])"

definition build_magnet_uri :: "live_env \<Rightarrow> discovery_stream \<Rightarrow> string \<Rightarrow> string app_result" where
  "build_magnet_uri env s fallback_name =
     (let normalized_magnet = normalize_magnet_url env (ds_magnet_url s);
          info_hash = (if get_stream_info_hash s \<noteq> [] then get_stream_info_hash s
                       else case normalized_magnet of Some m \<Rightarrow> extract_info_hash_from_magnet env m | None \<Rightarrow> [])
      in if info_hash = [] then Inl (internal ''Missing torrent info hash.'')
         else let pairs = (case Option.bind normalized_magnet (lv_parse env) of Some url \<Rightarrow> wu_query url | None \<Rightarrow> []);
              trackers = fold (\<lambda>t ts. push_unique_tracker ts t)
                (map snd (filter (\<lambda>(k, _). k = ''tr'') pairs) @ List.map_filter (strip_prefix ''tracker:'') (ds_sources s) @
                 DEFAULT_TRACKERS) [];
              display_name = (if trim fallback_name \<noteq> [] then trim fallback_name
                              else case List.find (\<lambda>(k, _). k = ''dn'') pairs of Some (_, x) \<Rightarrow> x | None \<Rightarrow> [])
         in Inr (''magnet:?'' @ joined ''&''
              ([''xt=urn:btih:'' @ info_hash] @ (if display_name = [] then [] else [''dn='' @ lv_encode env display_name]) @
               map (\<lambda>t. ''tr='' @ lv_encode env t) trackers)))"

end
