(* ===== verification/DebridResolve.thy ===== *)
theory DebridResolve
  imports DebridClient
begin

text \<open>
  How a source is resolved through the debrid service (\<open>src/resolver/real_debrid.rs\<close>,
  \<open>resolve_real_debrid_candidate_payload\<close> of \<open>src/resolver.rs\<close>): a torrent of the account is reused as it is,
  or one is added, its file selected and its links turned into addresses. The request owns what it added:
  it is deleted unless the whole attempt succeeds, and no other torrent of the account is
  changed. \<open>DebridLease\<close> has the task behind this ownership.
\<close>

section \<open>One conversation\<close>

record resolved_source =
  rv_playable_url :: string
  rv_fallback_urls :: "string list"
  rv_filename :: string
  rv_source_hash :: string
  rv_selected_file :: string
  rv_selected_file_path :: string
  rv_real_debrid_cached :: bool

datatype torrent_ownership = ReusedFromAccount | CreatedByRequest

fun may_change_file_selection :: "torrent_ownership \<Rightarrow> bool" where
  "may_change_file_selection CreatedByRequest = True"
| "may_change_file_selection ReusedFromAccount = False"

definition TORRENT_FATAL_STATUSES :: "string list" where
  "TORRENT_FATAL_STATUSES = [''error'', ''magnet_error'', ''virus'', ''dead'', ''invalid_magnet'']"

definition rd_sleep :: "rd_client \<Rightarrow> nat \<Rightarrow> rd_world \<Rightarrow> rd_world" where
  "rd_sleep env delay_ms w = w\<lparr>rw_now := rw_now w + int delay_ms + int (cl_oversleep env (rw_log w))\<rparr>"

lemma rd_fetch_world:
  "rd_fetch env rd c w = (r, w') \<Longrightarrow> rw_now w \<le> rw_now w'"
  by (auto simp: rd_fetch_def Let_def split: if_splits)

text \<open>The polling loop; \<open>started_at\<close> is the time before it.\<close>

function poll_torrent ::
  "rd_client \<Rightarrow> real_debrid_request_context \<Rightarrow> string \<Rightarrow> int \<Rightarrow> string \<Rightarrow> nat \<Rightarrow> rd_world \<Rightarrow> (json \<times> bool) app_result \<times> rd_world" where
  "poll_torrent env rd torrent_id started_at last_status poll_count w =
     (if rw_now w - started_at < 18000
      then case rd_fetch env rd (Rd_torrent_info torrent_id) w of
        (Inl e, w') \<Rightarrow> (Inl e, w')
      | (Inr info, w') \<Rightarrow>
          (let status = lower (rd_text env ''status'' info);
               has_links = (case json_array ''links'' info of None \<Rightarrow> False | Some links \<Rightarrow> links \<noteq> [])
           in if status = ''downloaded'' \<and> has_links then (Inr (info, rw_now w' - started_at \<le> 2000), w')
              else if status \<in> set TORRENT_FATAL_STATUSES
              then (Inl (internal (''Real-Debrid torrent failed ('' @ status @ '').'')), w')
              else poll_torrent env rd torrent_id started_at (if status = [] then last_status else status) (poll_count + 1)
                (rd_sleep env (if poll_count + 1 \<le> 4 then 250 else 1000) w'))
      else (Inl (internal (''Timed out waiting for cached source ('' @ last_status @ '').'')), w))"
  by pat_completeness auto
termination
  by (relation "measure (\<lambda>(env, rd, torrent_id, started_at, last_status, poll_count, w). nat (18000 + started_at - rw_now w))")
     (auto simp: rd_sleep_def dest!: rd_fetch_world [OF sym])

declare poll_torrent.simps [simp del]

definition wait_for_torrent_to_be_ready ::
  "rd_client \<Rightarrow> real_debrid_request_context \<Rightarrow> string \<Rightarrow> rd_world \<Rightarrow> (json \<times> bool) app_result \<times> rd_world" where
  "wait_for_torrent_to_be_ready env rd torrent_id w = poll_torrent env rd torrent_id (rw_now w) ''pending'' 0 w"

definition real_debrid_playback_url_priority :: "rd_client \<Rightarrow> string \<Rightarrow> int" where
  "real_debrid_playback_url_priority env v =
     (if is_real_debrid_transcode_hls_url (cl_debrid env) v then 2
      else if contains v ''download.real-debrid.com'' then 1 else 0)"

definition by_priority :: "rd_client \<Rightarrow> string list \<Rightarrow> string list" where
  "by_priority env urls = sort_key (\<lambda>u. - real_debrid_playback_url_priority env u) urls"

definition push_unique_url :: "string list \<Rightarrow> string \<Rightarrow> string list" where
  "push_unique_url target v = (if trim v = [] \<or> v \<in> set target then target else target @ [v])"

definition resolve_playable_url_from_rd_link ::
  "rd_client \<Rightarrow> real_debrid_request_context \<Rightarrow> string \<Rightarrow> rd_world \<Rightarrow> (string list \<times> string) app_result \<times> rd_world" where
  "resolve_playable_url_from_rd_link env rd rd_link =
     rd_bind (rd_fetch env rd (Rd_unrestrict rd_link (rd_remote_traffic rd))) (\<lambda>unrestricted w.
       let download = rd_text env ''download'' unrestricted;
           streamable = ((case Option.bind (json_get ''streamable'' unrestricted) as_i64 of None \<Rightarrow> False | Some n \<Rightarrow> n \<noteq> 0) \<or>
             json_get ''streamable'' unrestricted = Some (JBool True))
       in if download = [] then (Inl (internal ''Real-Debrid returned no downloadable link.''), w)
          else (Inr ([download] @
            (case build_real_debrid_lazy_hls_playback_source (cl_debrid env) (rd_text env ''id'' unrestricted) streamable rd
                    (cl_secret env) (rw_now w) of
               Some lazy_hls \<Rightarrow> [lazy_hls] | None \<Rightarrow> []),
            rd_text env ''filename'' unrestricted), w))"

text \<open>The loop over the links, with the name found, the addresses and the last error.\<close>

fun resolve_links ::
  "rd_client \<Rightarrow> real_debrid_request_context \<Rightarrow> string \<Rightarrow> string list \<Rightarrow> string \<Rightarrow> string list \<Rightarrow> api_error option \<Rightarrow> rd_world \<Rightarrow>
   (string \<times> string list \<times> api_error option) \<times> rd_world" where
  "resolve_links env rd selected_file_path [] filename ranked last_error w = ((filename, ranked, last_error), w)"
| "resolve_links env rd selected_file_path (link # links) filename ranked last_error w =
     (case resolve_playable_url_from_rd_link env rd link w of
        (Inl e, w) \<Rightarrow> resolve_links env rd selected_file_path links filename ranked (Some e) w
      | (Inr (playable_urls, resolved_filename), w) \<Rightarrow>
          (let filename = (if filename = [] then resolved_filename else filename);
               filename_hint = (if filename \<noteq> [] then filename
                                else if selected_file_path \<noteq> [] then selected_file_path else resolved_filename);
               ranked_urls = by_priority env (filter (\<lambda>u. trim u \<noteq> []) playable_urls)
           in resolve_links env rd selected_file_path links filename (fold (\<lambda>u r. push_unique_url r u) ranked_urls ranked)
                (if ranked_urls = [] \<and> is_supported_resolved_container_path filename_hint
                 then Some (internal ''No playable Real-Debrid stream URL was available.'') else last_error) w))"

definition selected_info ::
  "rd_client \<Rightarrow> real_debrid_request_context \<Rightarrow> string \<Rightarrow> torrent_ownership \<Rightarrow> json \<Rightarrow> int list \<Rightarrow> rd_world \<Rightarrow>
   (json \<times> bool) app_result \<times> rd_world" where
  "selected_info env rd torrent_id ownership info file_ids =
     (if may_change_file_selection ownership
      then rd_bind (rd_fetch env rd (Rd_select_files torrent_id file_ids)) (\<lambda>_. wait_for_torrent_to_be_ready env rd torrent_id)
      else if \<not> reusable_rd_torrent_ready_for_selected_file env info (hd file_ids)
      then rd_fail (internal ''The reusable Real-Debrid torrent has a different file selection.'')
      else rd_return (info, True))"

definition resolve_from_torrent_id ::
  "rd_client \<Rightarrow> real_debrid_request_context \<Rightarrow> string \<Rightarrow> string \<Rightarrow> discovery_stream \<Rightarrow> string \<Rightarrow> torrent_ownership \<Rightarrow>
   rd_world \<Rightarrow> resolved_source app_result \<times> rd_world" where
  "resolve_from_torrent_id env rd torrent_id info_hash s fallback_name ownership =
     rd_bind (rd_fetch env rd (Rd_torrent_info torrent_id)) (\<lambda>info.
       let files = array_field ''files'' info;
           file_ids = pick_video_file_ids env files (ds_filename s) fallback_name
       in if file_ids = [] then rd_fail (internal ''No supported video file was found in this torrent.'')
          else let selected_file = show_int (hd file_ids);
               selected_file_path = (case List.find (\<lambda>file. Option.bind (json_get ''id'' file) as_i64 = Some (hd file_ids)) files of
                 Some file \<Rightarrow> rd_text env ''path'' file | None \<Rightarrow> [])
          in rd_bind (selected_info env rd torrent_id ownership info file_ids) (\<lambda>(ready_info, real_debrid_cached).
            if \<not> ready_info_has_selected_file_id ready_info (hd file_ids)
            then rd_fail (internal RD_SELECTED_FILE_MISMATCH_ERROR)
            else let download_links = List.map_filter as_str (array_field ''links'' ready_info)
            in if download_links = [] then rd_fail (internal ''No Real-Debrid download link was generated.'')
               else (\<lambda>w. case resolve_links env rd selected_file_path download_links [] [] None w of
                 ((filename, ranked, last_error), w) \<Rightarrow>
                   (case by_priority env ranked of
                      [] \<Rightarrow> (Inl (case last_error of Some e \<Rightarrow> e
                               | None \<Rightarrow> internal ''No playable Real-Debrid stream URL was available.''), w)
                    | playable_url # fallback_urls \<Rightarrow>
                        (Inr \<lparr>rv_playable_url = playable_url, rv_fallback_urls = fallback_urls,
                              rv_filename = (if filename = [] then selected_file_path else filename), rv_source_hash = info_hash,
                              rv_selected_file = selected_file, rv_selected_file_path = selected_file_path,
                              rv_real_debrid_cached = real_debrid_cached\<rparr>, w)))))"

definition safe_delete_torrent ::
  "rd_client \<Rightarrow> real_debrid_request_context \<Rightarrow> string \<Rightarrow> rd_world \<Rightarrow> rd_world" where
  "safe_delete_torrent env rd torrent_id w =
     (if trim torrent_id = [] then w else snd (rd_fetch env rd (Rd_delete torrent_id) w))"

definition add_real_debrid_magnet_owned ::
  "rd_client \<Rightarrow> real_debrid_request_context \<Rightarrow> string \<Rightarrow> rd_world \<Rightarrow> string app_result \<times> rd_world" where
  "add_real_debrid_magnet_owned env rd magnet =
     rd_bind (rd_fetch env rd (Rd_add_magnet magnet)) (\<lambda>add_magnet.
       let torrent_id = rd_text env ''id'' add_magnet
       in if torrent_id = [] then rd_fail (internal ''Real-Debrid did not return a torrent id.'') else rd_return torrent_id)"

text \<open>What the lease does when it is given up: delete, then forget.\<close>

definition cleanup_owned_torrent ::
  "rd_client \<Rightarrow> real_debrid_request_context \<Rightarrow> string \<Rightarrow> string \<Rightarrow> rd_world \<Rightarrow> rd_world" where
  "cleanup_owned_torrent env rd info_hash torrent_id w =
     delete_cached_rd_torrent_id rd info_hash (safe_delete_torrent env rd torrent_id w)"

text \<open>The attempts that are left, and the error of the last one.\<close>

fun add_and_resolve ::
  "rd_client \<Rightarrow> real_debrid_request_context \<Rightarrow> string \<Rightarrow> string \<Rightarrow> discovery_stream \<Rightarrow> string \<Rightarrow> nat \<Rightarrow> nat \<Rightarrow> api_error option \<Rightarrow>
   rd_world \<Rightarrow> (resolved_source \<times> string option) app_result \<times> rd_world" where
  "add_and_resolve env rd magnet info_hash s fallback_name attempt 0 last_error w =
     (Inl (case last_error of Some e \<Rightarrow> e | None \<Rightarrow> internal ''Unable to resolve this source.''), w)"
| "add_and_resolve env rd magnet info_hash s fallback_name attempt (Suc left) last_error w =
     rd_bind (add_real_debrid_magnet_owned env rd magnet) (\<lambda>torrent_id.
       rd_match (resolve_from_torrent_id env rd torrent_id info_hash s fallback_name CreatedByRequest)
         (\<lambda>resolved w. (Inr (resolved, Some torrent_id), set_cached_rd_torrent_id env rd info_hash torrent_id w))
         (\<lambda>e w. let w = cleanup_owned_torrent env rd info_hash torrent_id w
            in if attempt = 0 \<and> is_rd_selected_file_mismatch_error e
               then add_and_resolve env rd magnet info_hash s fallback_name (attempt + 1) left (Some e) w
               else (Inl e, w))) w"

text \<open>The result comes with the torrent the request owns, if it does.\<close>

definition resolve_real_debrid_candidate_stream ::
  "rd_client \<Rightarrow> discovery_stream \<Rightarrow> string \<Rightarrow> real_debrid_request_context \<Rightarrow> rd_world \<Rightarrow>
   (resolved_source \<times> string option) app_result \<times> rd_world" where
  "resolve_real_debrid_candidate_stream env s fallback_name rd w =
     (case build_magnet_uri (dv_live (cl_debrid env)) s fallback_name of
        Inl e \<Rightarrow> (Inl e, w)
      | Inr magnet \<Rightarrow>
          (let info_hash = get_stream_info_hash s; create = add_and_resolve env rd magnet info_hash s fallback_name 0 2 None
           in case find_reusable_rd_torrent_by_hash env rd info_hash w of
             (None, w) \<Rightarrow> create w
           | (Some reusable, w) \<Rightarrow>
               rd_match (resolve_from_torrent_id env rd reusable info_hash s fallback_name ReusedFromAccount)
                 (\<lambda>resolved w. (Inr (resolved, None), set_cached_rd_torrent_id env rd info_hash reusable w))
                 (\<lambda>_ w. create (delete_cached_rd_torrent_id rd info_hash w)) w))"

text \<open>
  The attempt up to the payload, built by \<open>build_response\<close>: unless it succeeds, the lease is dropped, and its task cleans up.
\<close>

definition resolve_real_debrid_candidate_payload ::
  "rd_client \<Rightarrow> discovery_stream \<Rightarrow> string \<Rightarrow> real_debrid_request_context option \<Rightarrow>
   (resolved_source \<Rightarrow> resolved_source app_result) \<Rightarrow> (resolved_source \<Rightarrow> json app_result) \<Rightarrow> api_error \<Rightarrow> rd_world \<Rightarrow>
   json app_result \<times> rd_world" where
  "resolve_real_debrid_candidate_payload env s fallback_name real_debrid validate build_response key_required w =
     (case real_debrid of
        None \<Rightarrow> (Inl key_required, w)
      | Some rd \<Rightarrow>
          rd_bind (resolve_real_debrid_candidate_stream env s fallback_name rd) (\<lambda>(resolved, owned) w.
            case (case validate resolved of Inl e \<Rightarrow> Inl e | Inr resolved \<Rightarrow> build_response resolved) of
              Inr payload \<Rightarrow> (Inr payload, w)
            | Inl e \<Rightarrow> (Inl e, case owned of
                None \<Rightarrow> w | Some torrent_id \<Rightarrow> cleanup_owned_torrent env rd (get_stream_info_hash s) torrent_id w)) w)"

text \<open>Before an answer is built, the tickets in it are made young again.\<close>

definition refresh_real_debrid_lazy_hls_fallbacks ::
  "rd_client \<Rightarrow> resolved_source \<Rightarrow> real_debrid_request_context option \<Rightarrow> int \<Rightarrow> resolved_source" where
  "refresh_real_debrid_lazy_hls_fallbacks env source real_debrid now =
     (case real_debrid of
        None \<Rightarrow> source
      | Some rd \<Rightarrow>
          (let young = (\<lambda>v. case refresh_real_debrid_lazy_hls_playback_source (cl_debrid env) v rd (cl_secret env) now of
                 Some next \<Rightarrow> next | None \<Rightarrow> v)
           in source\<lparr>rv_playable_url := young (rv_playable_url source), rv_fallback_urls := map young (rv_fallback_urls source)\<rparr>))"

section \<open>What becomes of the torrents of the account\<close>

text \<open>
  The torrents of a conversation that the request added and has not deleted, starting from \<open>S\<close>; nothing, if the
  conversation selects files in or deletes any other torrent.
\<close>

fun account_after :: "rd_client \<Rightarrow> rd_log \<Rightarrow> string set \<Rightarrow> string set option" where
  "account_after env [] S = Some S"
| "account_after env ((Rd_add_magnet m, r) # l) S =
     account_after env l (case r of Inl _ \<Rightarrow> S | Inr p \<Rightarrow> if rd_text env ''id'' p = [] then S else insert (rd_text env ''id'' p) S)"
| "account_after env ((Rd_select_files i fs, r) # l) S = (if i \<in> S then account_after env l S else None)"
| "account_after env ((Rd_delete i, r) # l) S = (if i \<in> S then account_after env l (S - {i}) else None)"
| "account_after env ((c, r) # l) S = account_after env l S"

lemma account_after_append:
  "account_after env (a @ b) S = Option.bind (account_after env a S) (account_after env b)"
  by (induction env a S rule: account_after.induct) auto

definition owns :: "rd_client \<Rightarrow> rd_world \<Rightarrow> string set \<Rightarrow> rd_world \<Rightarrow> string set \<Rightarrow> bool" where
  "owns env w S w' S' \<longleftrightarrow> (\<exists>new. rw_log w' = rw_log w @ new \<and> account_after env new S = Some S')"

lemma owns_refl: "rw_log w' = rw_log w \<Longrightarrow> owns env w S w' S"
  by (simp add: owns_def)

lemma owns_trans [trans]: "owns env w S w' S' \<Longrightarrow> owns env w' S' w'' S'' \<Longrightarrow> owns env w S w'' S''"
  by (auto simp: owns_def account_after_append)

lemma owns_same_log: "owns env w S w' S' \<Longrightarrow> rw_log w'' = rw_log w' \<Longrightarrow> owns env w S w'' S'"
  by (simp add: owns_def)

lemma owns_fetch:
  assumes "rd_fetch env rd c w = (r, w')" "trim (rd_api_key rd) \<noteq> []"
  shows "account_after env [(c, r)] S = Some S' \<Longrightarrow> owns env w S w' S'"
  using assms by (auto simp: rd_fetch_def owns_def Let_def)

fun only_reads :: "rd_call \<Rightarrow> bool" where
  "only_reads (Rd_add_magnet _) = False"
| "only_reads (Rd_select_files _ _) = False"
| "only_reads (Rd_delete _) = False"
| "only_reads _ = True"

lemma owns_read:
  assumes "rd_fetch env rd c w = (r, w')" "trim (rd_api_key rd) \<noteq> []" and "only_reads c"
  shows "owns env w S w' S"
proof -
  have "account_after env [(c, r)] S = Some S" using assms(3-) by (cases c) simp_all
  with owns_fetch [OF assms(1,2)] show ?thesis by blast
qed

lemma owns_bind:
  assumes "rd_bind m f w = (r, w')"
    and "\<And>x w1. m w = (x, w1) \<Longrightarrow> owns env w S w1 S1"
    and "\<And>x w1. m w = (Inr x, w1) \<Longrightarrow> f x w1 = (r, w') \<Longrightarrow> owns env w1 S1 w' S1"
  shows "owns env w S w' S1"
proof -
  obtain x w1 where m: "m w = (x, w1)" by fastforce
  from assms(2) [OF m] have o: "owns env w S w1 S1" .
  show ?thesis
  proof (cases x)
    case (Inl e)
    with assms(1) m o show ?thesis by (simp add: rd_bind_def)
  next
    case (Inr y)
    with assms(1) m have "f y w1 = (r, w')" by (simp add: rd_bind_def)
    with assms(3) m Inr o show ?thesis by (blast intro: owns_trans)
  qed
qed

lemma poll_owns:
  "trim (rd_api_key rd) \<noteq> [] \<Longrightarrow> owns env w S (snd (poll_torrent env rd i started st n w)) S"
proof (induction env rd i started st n w rule: poll_torrent.induct)
  case (1 env rd i started st n w)
  obtain x w1 where f: "rd_fetch env rd (Rd_torrent_info i) w = (x, w1)" by fastforce
  have o: "owns env w S w1 S" using f 1(2) by (rule owns_read) simp
  have slept: "owns env w S (rd_sleep env d w1) S" for d using o by (rule owns_same_log) (simp add: rd_sleep_def)
  show ?case
  proof (cases "rw_now w - started < 18000")
    case False
    then show ?thesis by (subst poll_torrent.simps) (simp add: owns_refl)
  next
    case now: True
    show ?thesis
    proof (cases x)
      case (Inl e)
      with now f o show ?thesis by (subst poll_torrent.simps) simp
    next
      case (Inr info)
      let ?status = "lower (rd_text env ''status'' info)"
      let ?done = "?status = ''downloaded'' \<and> (case json_array ''links'' info of None \<Rightarrow> False | Some links \<Rightarrow> links \<noteq> [])"
      let ?rest = "snd (poll_torrent env rd i started (if ?status = [] then st else ?status) (n + 1)
        (rd_sleep env (if n + 1 \<le> 4 then 250 else 1000) w1))"
      have step: "snd (poll_torrent env rd i started st n w) =
          (if ?done then w1 else if ?status \<in> set TORRENT_FATAL_STATUSES then w1 else ?rest)"
        using now f Inr by (subst poll_torrent.simps) (simp add: Let_def)
      have "owns env w S ?rest S" if "\<not> ?done" "?status \<notin> set TORRENT_FATAL_STATUSES"
        using slept 1(1) [OF now f [symmetric] Inr refl refl that 1(2)] by (rule owns_trans)
      then show ?thesis unfolding step using o by presburger
    qed
  qed
qed

lemma playable_owns:
  assumes "trim (rd_api_key rd) \<noteq> []"
  shows "owns env w S (snd (resolve_playable_url_from_rd_link env rd link w)) S"
proof -
  obtain x w1 where f: "rd_fetch env rd (Rd_unrestrict link (rd_remote_traffic rd)) w = (x, w1)" by fastforce
  have "owns env w S w1 S" using f assms by (rule owns_read) simp
  then show ?thesis by (cases x) (simp_all add: resolve_playable_url_from_rd_link_def rd_bind_def f Let_def)
qed

lemma links_own:
  assumes "trim (rd_api_key rd) \<noteq> []"
  shows "owns env w S (snd (resolve_links env rd path links filename ranked err w)) S"
proof (induction links arbitrary: filename ranked err w)
  case (Cons link links)
  obtain x w1 where l: "resolve_playable_url_from_rd_link env rd link w = (x, w1)" by fastforce
  from playable_owns [OF assms, of env w S link] have "owns env w S w1 S" by (simp add: l)
  then have "owns env w S (snd (resolve_links env rd path links f r e w1)) S" for f r e using Cons.IH by (rule owns_trans)
  then show ?case by (cases x) (simp_all add: l Let_def split: prod.split)
qed (simp add: owns_refl)

lemma selected_owns:
  assumes "trim (rd_api_key rd) \<noteq> []" "may_change_file_selection ownership \<longrightarrow> i \<in> S"
  shows "owns env w S (snd (selected_info env rd i ownership info file_ids w)) S"
proof (cases ownership)
  case ReusedFromAccount
  then show ?thesis by (simp add: selected_info_def rd_fail_def rd_return_def owns_refl)
next
  case CreatedByRequest
  obtain x w1 where f: "rd_fetch env rd (Rd_select_files i file_ids) w = (x, w1)" by fastforce
  have o: "owns env w S w1 S" using f assms(1) by (rule owns_fetch) (use assms(2) CreatedByRequest in simp)
  show ?thesis
  proof (cases x)
    case (Inl e)
    then show ?thesis using f o CreatedByRequest by (simp add: selected_info_def rd_bind_def)
  next
    case (Inr y)
    have "owns env w S (snd (poll_torrent env rd i (rw_now w1) ''pending'' 0 w1)) S"
      using o poll_owns [OF assms(1)] by (rule owns_trans)
    then show ?thesis using f Inr CreatedByRequest by (simp add: selected_info_def rd_bind_def wait_for_torrent_to_be_ready_def)
  qed
qed

lemma torrent_owns:
  assumes "trim (rd_api_key rd) \<noteq> []" "may_change_file_selection ownership \<longrightarrow> i \<in> S"
  shows "owns env w S (snd (resolve_from_torrent_id env rd i h s name ownership w)) S"
proof -
  obtain x w1 where f: "rd_fetch env rd (Rd_torrent_info i) w = (x, w1)" by fastforce
  have o: "owns env w S w1 S" using f assms(1) by (rule owns_read) simp
  show ?thesis
  proof (cases x)
    case (Inl e)
    then show ?thesis using f o by (simp add: resolve_from_torrent_id_def rd_bind_def)
  next
    case (Inr info)
    let ?ids = "pick_video_file_ids env (array_field ''files'' info) (ds_filename s) name"
    obtain y w2 where sel: "selected_info env rd i ownership info ?ids w1 = (y, w2)" by fastforce
    have o2: "owns env w S w2 S" using o selected_owns [OF assms, of env w1 info ?ids] by (auto simp: sel intro: owns_trans)
    have o3: "owns env w S (snd (resolve_links env rd p ls [] [] None w2)) S" for p ls
      using o2 links_own [OF assms(1)] by (rule owns_trans)
    have links: "owns env w S w3 S" if "resolve_links env rd p ls [] [] None w2 = (t, w3)" for p ls t w3
      using o3 [of p ls] by (simp add: that)
    show ?thesis
      by (cases y) (auto simp: resolve_from_torrent_id_def rd_bind_def f Inr Let_def rd_fail_def o o2 sel
        split: prod.split list.split intro: links)
  qed
qed

text \<open>The printed form of a number is not blank.\<close>

definition number_text_ok :: "debrid_env \<Rightarrow> bool" where
  "number_text_ok env \<longleftrightarrow> (\<forall>q. trim (dv_float env q) \<noteq> [])"

lemma trim_nonblank: "c \<in> set t \<Longrightarrow> \<not> is_whitespace c \<Longrightarrow> trim t \<noteq> []"
proof
  assume c: "c \<in> set t" "\<not> is_whitespace c" and "trim t = []"
  then have all: "\<forall>x \<in> set (trim_start t). is_whitespace x" by (simp add: trim_def trim_end_def)
  have "trim_start t \<noteq> []" using c by (auto simp: trim_start_def dropWhile_eq_Nil_conv)
  then have "hd (trim_start t) \<in> set (trim_start t)" "\<not> is_whitespace (hd (trim_start t))"
    using hd_dropWhile [of is_whitespace t] by (auto simp: trim_start_def)
  with all show False by blast
qed

lemma show_int_nonblank: "trim (show_int n) \<noteq> []"
proof -
  have digit: "is_ascii_digit c \<Longrightarrow> \<not> is_whitespace c" for c by (auto simp: is_ascii_digit_def is_whitespace_def)
  obtain c where "c \<in> set (show_nat (nat \<bar>n\<bar>))" using hd_in_set [OF show_nat_nonempty] by blast
  moreover from this have "\<not> is_whitespace c" using digit show_nat_digits by blast
  moreover have "set (show_nat (nat \<bar>n\<bar>)) \<subseteq> set (show_int n)" by (auto simp: show_int_def abs_if)
  ultimately show ?thesis using trim_nonblank by blast
qed

lemma stringify_nonblank:
  assumes "number_text_ok env" "stringify_json env v \<noteq> []"
  shows "trim (stringify_json env v) \<noteq> []"
proof -
  have b: "trim ''true'' \<noteq> []" "trim ''false'' \<noteq> []" by code_simp+
  show ?thesis
    using assms show_int_nonblank b
    by (auto simp: stringify_json_def number_text_ok_def split: option.splits json.splits)
qed

lemma cleanup_owns:
  assumes "trim (rd_api_key rd) \<noteq> []" "trim i \<noteq> []" "i \<in> S"
  shows "owns env w S (cleanup_owned_torrent env rd h i w) (S - {i})"
proof -
  obtain x w1 where f: "rd_fetch env rd (Rd_delete i) w = (x, w1)" by fastforce
  have "owns env w S w1 (S - {i})" using f assms(1) by (rule owns_fetch) (use assms(3) in simp)
  then show ?thesis
    by (rule owns_same_log) (simp add: cleanup_owned_torrent_def safe_delete_torrent_def delete_cached_rd_torrent_id_def Let_def f assms(2))
qed

lemma set_cached_log [simp]: "rw_log (set_cached_rd_torrent_id env rd h i w) = rw_log w"
  by (simp add: set_cached_rd_torrent_id_def cache_write_def Let_def)

lemma delete_cached_log [simp]: "rw_log (delete_cached_rd_torrent_id rd h w) = rw_log w"
  by (simp add: delete_cached_rd_torrent_id_def Let_def)

lemma cache_read_log: "cache_read env k w = (x, w') \<Longrightarrow> rw_log w' = rw_log w"
  by (auto simp: cache_read_def split: prod.splits)

lemma get_cached_log: "get_cached_rd_torrent_id env rd h w = (x, w') \<Longrightarrow> rw_log w' = rw_log w"
  by (auto simp: get_cached_rd_torrent_id_def Let_def dest: cache_read_log split: prod.splits option.splits)

lemma find_reusable_log: "find_reusable_rd_torrent_by_hash env rd h w = (x, w') \<Longrightarrow> rw_log w' = rw_log w"
  by (auto simp: find_reusable_rd_torrent_by_hash_def Let_def split: prod.splits option.splits if_splits
      dest!: cache_read_log get_cached_log)

text \<open>What is owned after an attempt that returned \<open>r\<close>.\<close>

fun owned_set :: "api_error + 'a \<times> string option \<Rightarrow> string set" where
  "owned_set (Inr (_, Some i)) = {i}"
| "owned_set _ = {}"

lemma add_and_resolve_owns:
  assumes "trim (rd_api_key rd) \<noteq> []" "number_text_ok (cl_debrid env)"
  shows "add_and_resolve env rd magnet h s name attempt left err w = (r, w') \<Longrightarrow>
    owns env w {} w' (owned_set r) \<and> (\<forall>x i. r = Inr (x, Some i) \<longrightarrow> trim i \<noteq> [])"
proof (induction left arbitrary: attempt err w r w')
  case 0
  then show ?case by (auto simp: owns_refl)
next
  case (Suc left)
  obtain x w1 where f: "rd_fetch env rd (Rd_add_magnet magnet) w = (x, w1)" by fastforce
  have added: "owns env w {} w1 (case x of Inl _ \<Rightarrow> {} | Inr p \<Rightarrow> if rd_text env ''id'' p = [] then {} else {rd_text env ''id'' p})"
    using f assms(1) by (rule owns_fetch) (cases x; simp)
  show ?case
  proof (cases x)
    case (Inl e)
    then show ?thesis using Suc.prems f added by (auto simp: rd_bind_def add_real_debrid_magnet_owned_def)
  next
    case x: (Inr p)
    let ?i = "rd_text env ''id'' p"
    show ?thesis
    proof (cases "?i = []")
      case True
      then show ?thesis using Suc.prems f x added by (auto simp: rd_bind_def add_real_debrid_magnet_owned_def rd_fail_def Let_def)
    next
      case False
      have nb: "trim ?i \<noteq> []" using stringify_nonblank [OF assms(2)] False by (simp add: rd_text_def)
      have o1: "owns env w {} w1 {?i}" using added x False by simp
      obtain y w2 where t: "resolve_from_torrent_id env rd ?i h s name CreatedByRequest w1 = (y, w2)" by fastforce
      have o2: "owns env w {} w2 {?i}"
        using o1 torrent_owns [OF assms(1), of CreatedByRequest ?i "{?i}" env w1 h s name] by (auto simp: t intro: owns_trans)
      have add: "add_real_debrid_magnet_owned env rd magnet w = (Inr ?i, w1)"
        using f x False by (simp add: add_real_debrid_magnet_owned_def rd_bind_def rd_return_def Let_def)
      show ?thesis
      proof (cases y)
        case (Inr resolved)
        then have "r = Inr (resolved, Some ?i)" "rw_log w' = rw_log w2"
          using Suc.prems by (auto simp: rd_bind_def rd_match_def add t)
        then show ?thesis using o2 nb owns_same_log by fastforce
      next
        case (Inl e)
        let ?w = "cleanup_owned_torrent env rd h ?i w2"
        have o3: "owns env w {} ?w {}" using owns_trans [OF o2 cleanup_owns [OF assms(1) nb, of "{?i}" env w2 h]] by simp
        show ?thesis
        proof (cases "attempt = 0 \<and> is_rd_selected_file_mismatch_error e")
          case True
          then have "add_and_resolve env rd magnet h s name (attempt + 1) left (Some e) ?w = (r, w')"
            using Suc.prems Inl by (simp add: rd_bind_def rd_match_def add t)
          from Suc.IH [OF this] o3 show ?thesis by (blast intro: owns_trans)
        next
          case False
          then have "r = Inl e" "w' = ?w" using Suc.prems Inl by (auto simp: rd_bind_def rd_match_def add t Let_def split: if_splits)
          then show ?thesis using o3 by simp
        qed
      qed
    qed
  qed
qed

lemma stream_owns:
  assumes "trim (rd_api_key rd) \<noteq> []" "number_text_ok (cl_debrid env)"
    and "resolve_real_debrid_candidate_stream env s name rd w = (r, w')"
  shows "owns env w {} w' (owned_set r) \<and> (\<forall>x i. r = Inr (x, Some i) \<longrightarrow> trim i \<noteq> [])"
proof (cases "build_magnet_uri (dv_live (cl_debrid env)) s name")
  case (Inl e)
  then show ?thesis using assms(3) by (auto simp: resolve_real_debrid_candidate_stream_def owns_refl)
next
  case (Inr magnet)
  let ?h = "get_stream_info_hash s"
  obtain found w1 where found: "find_reusable_rd_torrent_by_hash env rd ?h w = (found, w1)" by fastforce
  have o1: "owns env w {} w1 {}" using find_reusable_log [OF found] by (rule owns_refl)
  note create = add_and_resolve_owns [OF assms(1,2), of magnet ?h s name 0 2 None]
  show ?thesis
  proof (cases found)
    case None
    then show ?thesis using assms(3) Inr found create o1
      by (auto simp: resolve_real_debrid_candidate_stream_def Let_def intro: owns_trans)
  next
    case (Some i)
    obtain y w2 where t: "resolve_from_torrent_id env rd i ?h s name ReusedFromAccount w1 = (y, w2)" by fastforce
    have o2: "owns env w {} w2 {}"
      using o1 torrent_owns [OF assms(1), of ReusedFromAccount i "{}" env w1 ?h s name] by (auto simp: t intro: owns_trans)
    show ?thesis
    proof (cases y)
      case resolved: (Inr resolved)
      have r: "r = Inr (resolved, None)" "w' = set_cached_rd_torrent_id env rd ?h i w2"
        using assms(3) Inr found Some t resolved by (auto simp: resolve_real_debrid_candidate_stream_def rd_match_def Let_def)
      show ?thesis using owns_same_log [OF o2] by (simp add: r)
    next
      case (Inl e)
      let ?w = "delete_cached_rd_torrent_id rd ?h w2"
      have o3: "owns env w {} ?w {}" using o2 by (rule owns_same_log) simp
      have "add_and_resolve env rd magnet ?h s name 0 2 None ?w = (r, w')"
        using assms(3) Inr found Some t Inl by (auto simp: resolve_real_debrid_candidate_stream_def rd_match_def Let_def)
      from create [OF this] o3 show ?thesis by (blast intro: owns_trans)
    qed
  qed
qed


section \<open>The polling ends\<close>

definition polled_ms :: "nat \<Rightarrow> int" where
  "polled_ms n = (if n \<le> 4 then 250 * int n else 1000 * (int n - 3))"

lemma rd_fetch_log: "rd_fetch env rd c w = (r, w') \<Longrightarrow> length (rw_log w') \<le> length (rw_log w) + 1"
  by (auto simp: rd_fetch_def Let_def split: if_splits)

lemma poll_length:
  "started + polled_ms n \<le> rw_now w \<Longrightarrow> n \<le> 21 \<Longrightarrow>
   length (rw_log (snd (poll_torrent env rd i started st n w))) \<le> length (rw_log w) + (21 - n)"
proof (induction env rd i started st n w rule: poll_torrent.induct)
  case (1 env rd i started st n w)
  obtain x w1 where f: "rd_fetch env rd (Rd_torrent_info i) w = (x, w1)" by fastforce
  show ?case
  proof (cases "rw_now w - started < 18000")
    case False
    then show ?thesis by (subst poll_torrent.simps) simp
  next
    case now: True
    then have n: "n \<le> 20" using 1(2) by (simp add: polled_ms_def split: if_splits)
    have len: "length (rw_log w1) \<le> length (rw_log w) + 1" using f by (rule rd_fetch_log)
    show ?thesis
    proof (cases x)
      case (Inl e)
      with now f len n show ?thesis by (subst poll_torrent.simps) simp
    next
      case (Inr info)
      let ?status = "lower (rd_text env ''status'' info)"
      let ?done = "?status = ''downloaded'' \<and> (case json_array ''links'' info of None \<Rightarrow> False | Some links \<Rightarrow> links \<noteq> [])"
      let ?w2 = "rd_sleep env (if n + 1 \<le> 4 then 250 else 1000) w1"
      let ?rest = "snd (poll_torrent env rd i started (if ?status = [] then st else ?status) (n + 1) ?w2)"
      have step: "snd (poll_torrent env rd i started st n w) =
          (if ?done then w1 else if ?status \<in> set TORRENT_FATAL_STATUSES then w1 else ?rest)"
        using now f Inr by (subst poll_torrent.simps) (simp add: Let_def)
      have later: "started + polled_ms (n + 1) \<le> rw_now ?w2"
        using 1(2) rd_fetch_world [OF f] by (auto simp: polled_ms_def rd_sleep_def split: if_splits)
      have "length (rw_log ?rest) \<le> length (rw_log w) + (21 - n)" if "\<not> ?done" "?status \<notin> set TORRENT_FATAL_STATUSES"
        using 1(1) [OF now f [symmetric] Inr refl refl that later] len n by (simp add: rd_sleep_def)
      moreover have "length (rw_log w1) \<le> length (rw_log w) + (21 - n)" using len n by simp
      ultimately show ?thesis unfolding step by presburger
    qed
  qed
qed

text \<open>
  C19: the polling ends. The wait for a torrent returns for every behaviour of the service, after at most twenty-one requests: four
  a quarter of a second apart, then one a second for the rest of eighteen seconds.
\<close>

theorem polling_ends:
  "length (rw_log (snd (wait_for_torrent_to_be_ready env rd torrent_id w))) \<le> length (rw_log w) + 21"
  using poll_length [of "rw_now w" 0 w env rd torrent_id "''pending''"] by (simp add: wait_for_torrent_to_be_ready_def polled_ms_def)

section \<open>A concrete instance\<close>

text \<open>A service that adds every torrent and knows no file in it.\<close>

definition sample_client :: rd_client where
  "sample_client =
     \<lparr>cl_debrid = sample_debrid_env\<lparr>dv_live := sample_live_env\<lparr>lv_encode := (\<lambda>s. s)\<rparr>, dv_float := (\<lambda>_. ''0'')\<rparr>,
      cl_parse = (\<lambda>b. Some (if b = ''add'' then JObj [(''id'', JStr ''t'')] else JObj [])), cl_print = (\<lambda>_. []),
      cl_regex = (\<lambda>_ _. []), cl_secret = ''secret'',
      cl_remote = (\<lambda>_ c. case c of Rd_add_magnet _ \<Rightarrow> Answer 200 ''add'' | _ \<Rightarrow> Answer 200 []),
      cl_elapsed = (\<lambda>_ _. 1), cl_oversleep = (\<lambda>_. 0)\<rparr>"

definition sample_rd_stream :: discovery_stream where
  "sample_rd_stream =
     \<lparr>ds_info_hash = replicate 40 CHR ''a'', ds_file_idx = None, ds_name = [], ds_title = [], ds_description = [], ds_filename = [],
      ds_sources = [], ds_magnet_url = [], ds_discovery_provider = [], ds_download_url = [], ds_real_debrid_cached = False\<rparr>"

definition sample_attempt :: "json app_result \<times> rd_world" where
  "sample_attempt = resolve_real_debrid_candidate_payload sample_client sample_rd_stream ''Heat''
     (for_user_with_delivery (cl_debrid sample_client) 7 ''key'' True) Inr (\<lambda>_. Inr JNull) (bad_request [])
     \<lparr>rw_log = [], rw_now = 0, rw_cache = []\<rparr>"


end
