(* ===== verification/DebridLease.thy ===== *)
theory DebridLease
  imports ApiErrors
begin

text \<open>
  The lease of an added torrent (\<open>acquire_owned_real_debrid_torrent_lease\<close> and
  \<open>OwnedRealDebridTorrentLease\<close> of \<open>src/resolver/real_debrid.rs\<close>). A task owns the call that adds the torrent and
  its deletion; the request that started it may be dropped at any time. They talk through two channels of
  one message each: the result of the call, and the decision. The step relation interleaves both;
  dropping the request drops its ends of the channels. \<open>ls_account\<close> holds what the task has done to the account.
\<close>

datatype decision = Commit | Cleanup

text \<open>The task: before the answer, with the torrent until the decision, deleting it, at its end.\<close>

datatype lease_task = Adding | Deciding string | Deleting string | Ended

text \<open>
  The request: waiting for the result, holding the lease, waiting for the deletion, and the five ways it ends.
\<close>

datatype lease_holder = Expecting | Holding string | Awaiting | Refused_lease api_error | Committed | Released | Dropped

record lease_account =
  la_added :: "string option"
  la_deleted :: bool

record lease_system =
  ls_task :: lease_task
  ls_holder :: lease_holder
  ls_result :: "string app_result option"
  ls_decision :: "decision option"
  ls_account :: lease_account

definition lease_start :: lease_system where
  "lease_start =
     \<lparr>ls_task = Adding, ls_holder = Expecting, ls_result = None, ls_decision = None,
      ls_account = \<lparr>la_added = None, la_deleted = False\<rparr>\<rparr>"

text \<open>The answer to the call: sent to the request, or, if it is gone, the reason to delete.\<close>

definition answer_add :: "string app_result \<Rightarrow> lease_system \<Rightarrow> lease_system" where
  "answer_add answer s =
     (case answer of
        Inl e \<Rightarrow> s\<lparr>ls_task := Ended, ls_result := Some (Inl e)\<rparr>
      | Inr i \<Rightarrow>
          (let s = s\<lparr>ls_account := \<lparr>la_added = Some i, la_deleted = False\<rparr>\<rparr>
           in if ls_holder s = Dropped then s\<lparr>ls_task := Deleting i\<rparr>
              else s\<lparr>ls_task := Deciding i, ls_result := Some (Inr i)\<rparr>))"

definition receive_result :: "lease_system \<Rightarrow> lease_system option" where
  "receive_result s =
     (case ls_result s of
        None \<Rightarrow> None
      | Some (Inl e) \<Rightarrow> Some (s\<lparr>ls_holder := Refused_lease e, ls_result := None\<rparr>)
      | Some (Inr i) \<Rightarrow> Some (s\<lparr>ls_holder := Holding i, ls_result := None\<rparr>))"

definition holder_ended :: "lease_holder \<Rightarrow> bool" where
  "holder_ended h \<longleftrightarrow> (case h of Expecting \<Rightarrow> False | Holding _ \<Rightarrow> False | Awaiting \<Rightarrow> False | _ \<Rightarrow> True)"

definition take_decision :: "string \<Rightarrow> lease_system \<Rightarrow> lease_system option" where
  "take_decision i s =
     (case ls_decision s of
        Some Commit \<Rightarrow> Some (s\<lparr>ls_task := Ended\<rparr>)
      | Some Cleanup \<Rightarrow> Some (s\<lparr>ls_task := Deleting i\<rparr>)
      | None \<Rightarrow> if ls_holder s = Dropped then Some (s\<lparr>ls_task := Deleting i\<rparr>) else None)"

inductive torrent_lease_step :: "lease_system \<Rightarrow> lease_system \<Rightarrow> bool" where
  answered: "ls_task s = Adding \<Longrightarrow> torrent_lease_step s (answer_add answer s)"
| received: "ls_holder s = Expecting \<Longrightarrow> receive_result s = Some s' \<Longrightarrow> torrent_lease_step s s'"
| dropped: "\<not> holder_ended (ls_holder s) \<Longrightarrow> torrent_lease_step s (s\<lparr>ls_holder := Dropped\<rparr>)"
| committed: "ls_holder s = Holding i \<Longrightarrow> torrent_lease_step s (s\<lparr>ls_holder := Committed, ls_decision := Some Commit\<rparr>)"
| asked: "ls_holder s = Holding i \<Longrightarrow> torrent_lease_step s (s\<lparr>ls_holder := Awaiting, ls_decision := Some Cleanup\<rparr>)"
| decided: "ls_task s = Deciding i \<Longrightarrow> take_decision i s = Some s' \<Longrightarrow> torrent_lease_step s s'"
| deleted: "ls_task s = Deleting i \<Longrightarrow>
    torrent_lease_step s (s\<lparr>ls_task := Ended, ls_account := (ls_account s)\<lparr>la_deleted := True\<rparr>\<rparr>)"
| acknowledged: "ls_holder s = Awaiting \<Longrightarrow> ls_task s = Ended \<Longrightarrow> torrent_lease_step s (s\<lparr>ls_holder := Released\<rparr>)"

inductive torrent_lease_reachable :: "lease_system \<Rightarrow> bool" where
  start: "torrent_lease_reachable lease_start"
| step: "torrent_lease_reachable s \<Longrightarrow> torrent_lease_step s s' \<Longrightarrow> torrent_lease_reachable s'"

inductive_cases torrent_lease_step_cases: "torrent_lease_step s s'"

section \<open>Invariant\<close>

text \<open>What each state of the task says of the account, the decision and the request.\<close>

definition torrent_lease_inv :: "lease_system \<Rightarrow> bool" where
  "torrent_lease_inv s \<longleftrightarrow>
     (case ls_task s of
        Adding \<Rightarrow> la_added (ls_account s) = None \<and> \<not> la_deleted (ls_account s) \<and> ls_result s = None \<and> ls_decision s = None \<and>
          ls_holder s \<in> {Expecting, Dropped}
      | Deciding i \<Rightarrow> la_added (ls_account s) = Some i \<and> \<not> la_deleted (ls_account s) \<and>
          (case ls_holder s of
             Expecting \<Rightarrow> ls_result s = Some (Inr i) \<and> ls_decision s = None
           | Holding j \<Rightarrow> j = i \<and> ls_decision s = None
           | Awaiting \<Rightarrow> ls_decision s = Some Cleanup
           | Committed \<Rightarrow> ls_decision s = Some Commit
           | Dropped \<Rightarrow> ls_decision s \<noteq> Some Commit
           | _ \<Rightarrow> False)
      | Deleting i \<Rightarrow> la_added (ls_account s) = Some i \<and> \<not> la_deleted (ls_account s) \<and> ls_holder s \<in> {Awaiting, Dropped}
      | Ended \<Rightarrow>
          (case la_added (ls_account s) of
             None \<Rightarrow> \<not> la_deleted (ls_account s) \<and>
               (ls_holder s = Expecting \<and> (\<exists>e. ls_result s = Some (Inl e)) \<or> ls_holder s = Dropped \<or> (\<exists>e. ls_holder s = Refused_lease e))
           | Some i \<Rightarrow> if la_deleted (ls_account s) then ls_holder s \<in> {Awaiting, Released, Dropped} else ls_holder s = Committed))"

lemma torrent_lease_step_inv: "torrent_lease_step s s' \<Longrightarrow> torrent_lease_inv s \<Longrightarrow> torrent_lease_inv s'"
proof (induction rule: torrent_lease_step.induct)
  case (answered s answer)
  then show ?case by (auto simp: torrent_lease_inv_def answer_add_def Let_def split: sum.splits)
next
  case (received s s')
  then show ?case
    by (cases "ls_task s") (auto simp: torrent_lease_inv_def receive_result_def split: option.splits sum.splits if_splits)
next
  case (dropped s)
  then show ?case
    by (cases "ls_task s"; cases "ls_holder s") (auto simp: torrent_lease_inv_def holder_ended_def split: option.splits if_splits)
next
  case (committed s i)
  then show ?case by (cases "ls_task s") (auto simp: torrent_lease_inv_def split: option.splits if_splits)
next
  case (asked s i)
  then show ?case by (cases "ls_task s") (auto simp: torrent_lease_inv_def split: option.splits if_splits)
next
  case (decided s i s')
  then show ?case
    by (cases "ls_holder s") (auto simp: torrent_lease_inv_def take_decision_def split: option.splits decision.splits if_splits)
next
  case (deleted s i)
  then show ?case by (auto simp: torrent_lease_inv_def)
next
  case (acknowledged s)
  then show ?case by (auto simp: torrent_lease_inv_def split: option.splits if_splits)
qed

lemma torrent_lease_reachable_inv: "torrent_lease_reachable s \<Longrightarrow> torrent_lease_inv s"
proof (induction rule: torrent_lease_reachable.induct)
  case start
  then show ?case by (simp add: torrent_lease_inv_def lease_start_def)
qed (rule torrent_lease_step_inv)

section \<open>Progress\<close>

text \<open>Every step brings the two nearer to their ends.\<close>

fun task_left :: "lease_task \<Rightarrow> nat" where
  "task_left Adding = 3" | "task_left (Deciding _) = 2" | "task_left (Deleting _) = 1" | "task_left Ended = 0"

fun holder_left :: "lease_holder \<Rightarrow> nat" where
  "holder_left Expecting = 3" | "holder_left (Holding _) = 2" | "holder_left Awaiting = 1" | "holder_left _ = 0"

definition lease_left :: "lease_system \<Rightarrow> nat" where
  "lease_left s = task_left (ls_task s) + holder_left (ls_holder s)"

lemma torrent_lease_step_decreases: "torrent_lease_step s s' \<Longrightarrow> lease_left s' < lease_left s"
proof (induction rule: torrent_lease_step.induct)
  case (dropped s)
  then show ?case by (cases "ls_holder s") (auto simp: lease_left_def holder_ended_def)
qed (auto simp: lease_left_def answer_add_def receive_result_def take_decision_def Let_def
    split: sum.splits option.splits decision.splits if_splits)

lemma stuck_lease:
  assumes "torrent_lease_inv s" "\<And>s'. \<not> torrent_lease_step s s'"
  shows "ls_task s = Ended \<and> holder_ended (ls_holder s)"
proof
  show h: "holder_ended (ls_holder s)" using assms(2) torrent_lease_step.dropped by blast
  have "ls_task s \<noteq> Adding" "\<And>i. ls_task s \<noteq> Deleting i" using assms(2) torrent_lease_step.answered torrent_lease_step.deleted by blast+
  moreover have "ls_task s \<noteq> Deciding i" for i
  proof
    assume t: "ls_task s = Deciding i"
    then have "take_decision i s \<noteq> None"
      using assms(1) h by (cases "ls_holder s") (auto simp: torrent_lease_inv_def take_decision_def holder_ended_def split: option.splits decision.splits)
    then show False using assms(2) torrent_lease_step.decided [OF t] by auto
  qed
  ultimately show "ls_task s = Ended" by (cases "ls_task s") auto
qed


definition abandoned_lease :: lease_system where
  "abandoned_lease =
     \<lparr>ls_task = Ended, ls_holder = Dropped, ls_result = None, ls_decision = None,
      ls_account = \<lparr>la_added = Some ''t'', la_deleted = True\<rparr>\<rparr>"


end
