(* ===== verification/LiveUpstream.thy ===== *)
theory LiveUpstream
  imports LivePlaylists
begin

text \<open>
  How the live proxy in \<open>src/live.rs\<close> fetches from an upstream: over HTTP, by the system's
  curl for hosts that refuse the library's TLS, through the relay of a browser session or a
  browser. What the network, curl, the relay and the browser script answer is the environment
  \<open>live_network\<close>; the choice between them, the checks of status, size and final address and
  the errors are the program's. Bytes are characters, so lossy decoding is the identity.
\<close>

section \<open>Answers\<close>

datatype send_failure = Timed_out | Request_failed

text \<open>\<open>ha_status_text\<close> is how the status prints; \<open>ha_body\<close> is \<open>None\<close> when reading it fails.\<close>

record http_answer =
  ha_status :: nat
  ha_status_text :: string
  ha_final_url :: web_url
  ha_content_type :: "string option"
  ha_body :: "string option"

record relay_answer =
  ra_status :: nat
  ra_status_text :: string
  ra_content_length :: "nat option"
  ra_final_url_header :: "string option"
  ra_body :: "string option"

text \<open>A process that ended with success flag, output and error output.\<close>

record process_output =
  po_success :: bool
  po_stdout :: string
  po_stderr :: string

datatype process_failure = Process_timed_out | Process_failed string

record live_network =
  ln_http :: "web_url \<Rightarrow> string option \<Rightarrow> send_failure + http_answer"
  ln_curl :: "web_url \<Rightarrow> string option \<Rightarrow> process_failure + process_output"
  ln_relay :: "web_url \<Rightarrow> web_url \<Rightarrow> send_failure + relay_answer"
  ln_browser :: "web_url \<Rightarrow> string \<Rightarrow> process_failure + process_output"
  ln_browser_payload :: "string \<Rightarrow> (string \<times> string) option"
  ln_browser_script_path :: string

definition is_success :: "nat \<Rightarrow> bool" where
  "is_success status \<longleftrightarrow> 200 \<le> status \<and> status < 300"

section \<open>Requests\<close>

definition ascii_origin :: "web_url \<Rightarrow> string" where
  "ascii_origin url = url_scheme url @ ''://'' @ (case url_host url of None \<Rightarrow> [] | Some h \<Rightarrow> h) @
     (case wu_port url of None \<Rightarrow> [] | Some p \<Rightarrow> '':'' @ show_nat p)"

definition browser_bound_live_hls_referer_header :: "live_env \<Rightarrow> string option \<Rightarrow> string option" where
  "browser_bound_live_hls_referer_header env referer =
     (case Option.bind referer (normalize_hls_referer env) of
        None \<Rightarrow> None
      | Some referer \<Rightarrow>
          (case lv_parse env referer of
             None \<Rightarrow> None
           | Some parsed \<Rightarrow>
               (case url_host parsed of
                  None \<Rightarrow> None
                | Some host \<Rightarrow> if lower host \<in> {''embed.st'', ''www.embed.st''} then Some (ascii_origin parsed @ ''/'') else Some referer)))"

definition browser_bound_live_hls_page_url :: "live_env \<Rightarrow> string option \<Rightarrow> string option" where
  "browser_bound_live_hls_page_url env referer = Option.bind referer (normalize_hls_referer env)"

definition LIVE_HLS_BROWSER_RELAY_FRAGMENT_PREFIX :: string where
  "LIVE_HLS_BROWSER_RELAY_FRAGMENT_PREFIX = ''streamarena-browser-relay=''"
definition LIVE_HLS_BROWSER_RELAY_MAX_PLAYLIST_BYTES :: nat where
  "LIVE_HLS_BROWSER_RELAY_MAX_PLAYLIST_BYTES = 5 * 1024 * 1024"

definition is_ascii_hexdigit :: "char \<Rightarrow> bool" where
  "is_ascii_hexdigit c \<longleftrightarrow> is_ascii_digit c \<or> byte_in 65 70 c \<or> byte_in 97 102 c"

definition is_relay_url :: "web_url \<Rightarrow> bool" where
  "is_relay_url relay \<longleftrightarrow>
     url_scheme relay = ''http'' \<and> url_host relay = Some ''127.0.0.1'' \<and> wu_port relay \<noteq> None \<and>
     url_username relay = [] \<and> url_password relay = None \<and> wu_path relay = ''/fetch'' \<and>
     list_ex (\<lambda>(key, v). key = ''token'' \<and> length v = 64 \<and> list_all is_ascii_hexdigit v) (wu_query relay)"

definition browser_live_hls_relay_url :: "live_env \<Rightarrow> string option \<Rightarrow> web_url option" where
  "browser_live_hls_relay_url env referer =
     (case Option.bind referer (lv_parse env) of
        None \<Rightarrow> None
      | Some parsed \<Rightarrow>
          (case url_host parsed of
             None \<Rightarrow> None
           | Some h \<Rightarrow>
               if lower h \<notin> {''embed.st'', ''www.embed.st''} then None
               else case Option.bind (wu_fragment parsed) (strip_prefix LIVE_HLS_BROWSER_RELAY_FRAGMENT_PREFIX) of
                 None \<Rightarrow> None
               | Some encoded \<Rightarrow>
                   (case Option.bind (lv_unb64 env encoded) (lv_parse env) of
                      None \<Rightarrow> None
                    | Some relay \<Rightarrow> if is_relay_url relay then Some relay else None)))"

section \<open>Curl\<close>

definition parse_u16 :: "string \<Rightarrow> nat option" where
  "parse_u16 s = (case parse_u64 s of None \<Rightarrow> None | Some n \<Rightarrow> if n < 2 ^ 16 then Some (nat n) else None)"

definition curl_header_line :: "string \<Rightarrow> nat \<times> string option \<Rightarrow> nat \<times> string option" where
  "curl_header_line line acc =
     (let trimmed = trim line; (status, content_type) = acc
      in case strip_prefix ''HTTP/'' trimmed of
        Some rest \<Rightarrow>
          (case split_words rest of
             _ # code # _ \<Rightarrow> (case parse_u16 code of Some code \<Rightarrow> (code, content_type) | None \<Rightarrow> acc)
           | _ \<Rightarrow> acc)
      | None \<Rightarrow>
          (case split_once CHR '':'' trimmed of
             Some (name, v) \<Rightarrow> if lower (trim name) = ''content-type'' then (status, Some (trim v)) else acc
           | None \<Rightarrow> acc))"

definition parse_curl_response_headers :: "string \<Rightarrow> nat \<times> string option" where
  "parse_curl_response_headers headers = fold curl_header_line (str_lines headers) (0, None)"

definition last_line :: "string \<Rightarrow> string" where
  "last_line s = (case rev (str_lines s) of [] \<Rightarrow> [] | l # _ \<Rightarrow> trim l)"

definition fetch_live_hls_via_curl :: "live_network \<Rightarrow> web_url \<Rightarrow> string option \<Rightarrow> (nat \<times> string option \<times> string) app_result" where
  "fetch_live_hls_via_curl net url referer =
     (case ln_curl net url referer of
        Inl Process_timed_out \<Rightarrow> Inl (bad_gateway ''Live HLS curl fetch timed out.'')
      | Inl (Process_failed e) \<Rightarrow> Inl (bad_gateway (''Live HLS curl fetch failed: '' @ e))
      | Inr out \<Rightarrow>
          if \<not> po_success out then Inl (bad_gateway (''Live HLS curl fetch failed ('' @ last_line (po_stderr out) @ '').''))
          else let (status, content_type) = parse_curl_response_headers (po_stderr out) in Inr (status, content_type, po_stdout out))"

definition live_hls_resource_error :: "nat \<Rightarrow> string \<Rightarrow> api_error" where
  "live_hls_resource_error status body =
     (if status = 502 \<and> length body \<le> 1024 \<and> trim body = ''origin unavailable''
      then failed_dependency ''Upstream media is unavailable. Try another source.''
      else bad_gateway (''Live HLS resource request failed with status '' @ show_nat status @ ''.''))"

text \<open>At most 1024 bytes of an error page are read, and only of status 502; else none count.\<close>

definition live_hls_resource_http_error :: "http_answer \<Rightarrow> api_error" where
  "live_hls_resource_http_error a =
     live_hls_resource_error (ha_status a)
       (case ha_body a of None \<Rightarrow> [] | Some b \<Rightarrow> if ha_status a = 502 \<and> length b \<le> 1024 then b else [])"

definition fetch_live_hls_playlist_via_curl :: "live_env \<Rightarrow> live_network \<Rightarrow> live_hls_request \<Rightarrow> (web_url \<times> string) app_result" where
  "fetch_live_hls_playlist_via_curl env net r =
     (case fetch_live_hls_via_curl net (lr_source_url r) (browser_bound_live_hls_referer_header env (lr_referer r)) of
        Inl e \<Rightarrow> Inl e
      | Inr (status, _, bytes) \<Rightarrow>
          if \<not> is_success status
          then Inl (bad_gateway (''Live HLS playlist request failed with status '' @ show_nat status @ ''.''))
          else case ensure_allowed_live_hls_final_url (lr_source_url r) r Playlist of
            Inl e \<Rightarrow> Inl e | Inr _ \<Rightarrow> Inr (lr_source_url r, bytes))"

text \<open>A fetched resource: where it came from, its media type and its bytes.\<close>

definition fetch_live_hls_resource_via_curl ::
  "live_env \<Rightarrow> live_network \<Rightarrow> live_hls_request \<Rightarrow> (web_url \<times> string \<times> string) app_result" where
  "fetch_live_hls_resource_via_curl env net r =
     (case fetch_live_hls_via_curl net (lr_source_url r) (browser_bound_live_hls_referer_header env (lr_referer r)) of
        Inl e \<Rightarrow> Inl e
      | Inr (status, content_type, bytes) \<Rightarrow>
          if \<not> is_success status then Inl (live_hls_resource_error status bytes)
          else case ensure_allowed_live_hls_final_url (lr_source_url r) r Resource of
            Inl e \<Rightarrow> Inl e
          | Inr _ \<Rightarrow> Inr (lr_source_url r, case content_type of None \<Rightarrow> ''application/octet-stream'' | Some t \<Rightarrow> t, bytes))"

section \<open>HTTP\<close>

definition fetch_live_hls_playlist_via_http ::
  "live_network \<Rightarrow> live_hls_request \<Rightarrow> string option \<Rightarrow> (web_url \<times> string) app_result" where
  "fetch_live_hls_playlist_via_http net r referer =
     (case ln_http net (lr_source_url r) referer of
        Inl Timed_out \<Rightarrow> Inl (bad_gateway ''Live HLS playlist request timed out.'')
      | Inl Request_failed \<Rightarrow> Inl (bad_gateway ''Live HLS playlist request failed.'')
      | Inr a \<Rightarrow>
          if \<not> is_success (ha_status a)
          then Inl (bad_gateway (''Live HLS playlist request failed with status '' @ ha_status_text a @ ''.''))
          else case ensure_allowed_live_hls_final_url (ha_final_url a) r Playlist of
            Inl e \<Rightarrow> Inl e
          | Inr _ \<Rightarrow>
              (case ha_body a of
                 None \<Rightarrow> Inl (bad_gateway ''Live HLS playlist response could not be read.'')
               | Some body \<Rightarrow> Inr (ha_final_url a, body)))"

text \<open>The part the three resource fetches share: status, final address and media type.\<close>

definition checked_resource_answer :: "live_network \<Rightarrow> live_hls_request \<Rightarrow> string option \<Rightarrow> (http_answer \<times> string) app_result" where
  "checked_resource_answer net r referer =
     (case ln_http net (lr_source_url r) referer of
        Inl Timed_out \<Rightarrow> Inl (bad_gateway ''Live HLS resource request timed out.'')
      | Inl Request_failed \<Rightarrow> Inl (bad_gateway ''Live HLS resource request failed.'')
      | Inr a \<Rightarrow>
          if \<not> is_success (ha_status a) then Inl (live_hls_resource_http_error a)
          else case ensure_allowed_live_hls_final_url (ha_final_url a) r Resource of
            Inl e \<Rightarrow> Inl e
          | Inr _ \<Rightarrow> Inr (a, case ha_content_type a of None \<Rightarrow> ''application/octet-stream'' | Some t \<Rightarrow> t))"

definition fetch_live_hls_resource_via_http ::
  "live_network \<Rightarrow> live_hls_request \<Rightarrow> string option \<Rightarrow> (web_url \<times> string \<times> string) app_result" where
  "fetch_live_hls_resource_via_http net r referer =
     (case checked_resource_answer net r referer of
        Inl e \<Rightarrow> Inl e
      | Inr (a, content_type) \<Rightarrow>
          (case ha_body a of
             None \<Rightarrow> Inl (bad_gateway ''Live HLS resource response could not be read.'')
           | Some bytes \<Rightarrow> Inr (ha_final_url a, content_type, bytes)))"

section \<open>Browser\<close>

text \<open>\<open>Url::parse(t).or_else(|_| source_url.join(t))\<close>.\<close>

definition final_url_of_text :: "live_env \<Rightarrow> web_url \<Rightarrow> string \<Rightarrow> web_url option" where
  "final_url_of_text env source_url t = (case lv_parse env t of Some u \<Rightarrow> Some u | None \<Rightarrow> lv_join env source_url t)"

definition fetch_live_hls_playlist_via_session_relay :: "live_env \<Rightarrow> live_network \<Rightarrow> live_hls_request \<Rightarrow> (web_url \<times> string) app_result" where
  "fetch_live_hls_playlist_via_session_relay env net r =
     (if \<not> is_browser_bound_live_hls_upstream (lr_source_url r)
      then Inl (bad_gateway ''Browser HLS relay rejected an unsupported upstream host.'')
      else case browser_live_hls_relay_url env (lr_referer r) of
        None \<Rightarrow> Inl (bad_gateway ''Browser HLS relay session is unavailable.'')
      | Some relay \<Rightarrow>
      case ln_relay net relay (lr_source_url r) of
        Inl Timed_out \<Rightarrow> Inl (bad_gateway ''Browser HLS relay request timed out.'')
      | Inl Request_failed \<Rightarrow> Inl (bad_gateway ''Browser HLS relay request failed.'')
      | Inr a \<Rightarrow>
      if \<not> is_success (ra_status a)
      then Inl (bad_gateway (''Browser HLS relay request failed with status '' @ ra_status_text a @ ''.''))
      else if (case ra_content_length a of None \<Rightarrow> False | Some n \<Rightarrow> n > LIVE_HLS_BROWSER_RELAY_MAX_PLAYLIST_BYTES)
      then Inl (bad_gateway ''Browser HLS relay playlist was too large.'')
      else case final_url_of_text env (lr_source_url r)
          (case ra_final_url_header a of None \<Rightarrow> wu_text (lr_source_url r) | Some t \<Rightarrow> t) of
        None \<Rightarrow> Inl (bad_gateway ''Browser HLS relay returned an invalid URL.'')
      | Some final_url \<Rightarrow>
      case ensure_allowed_live_hls_final_url final_url r Playlist of
        Inl e \<Rightarrow> Inl e
      | Inr _ \<Rightarrow>
      case ra_body a of
        None \<Rightarrow> Inl (bad_gateway ''Browser HLS relay response could not be read.'')
      | Some body \<Rightarrow>
      if length body > LIVE_HLS_BROWSER_RELAY_MAX_PLAYLIST_BYTES
      then Inl (bad_gateway ''Browser HLS relay playlist was too large.'')
      else if \<not> starts_with (trim_start body) ''#EXTM3U''
      then Inl (bad_gateway ''Browser HLS relay did not return an HLS playlist.'')
      else Inr (final_url, body))"

definition fetch_live_hls_playlist_via_browser :: "live_env \<Rightarrow> live_network \<Rightarrow> live_hls_request \<Rightarrow> (web_url \<times> string) app_result" where
  "fetch_live_hls_playlist_via_browser env net r =
     (if lower (trim (ln_browser_script_path net)) \<in> {''0'', ''false'', ''off'', ''disabled''}
      then Inl (bad_gateway ''Live HLS playlist request requires a browser-bound fetch.'')
      else case browser_bound_live_hls_page_url env (lr_referer r) of
        None \<Rightarrow> Inl (bad_gateway ''Live HLS browser fetch requires a player page referer.'')
      | Some referer_page \<Rightarrow>
      case ln_browser net (lr_source_url r) referer_page of
        Inl Process_timed_out \<Rightarrow> Inl (bad_gateway ''Live HLS browser fetch timed out.'')
      | Inl (Process_failed _) \<Rightarrow> Inl (bad_gateway ''Live HLS browser fetch failed.'')
      | Inr out \<Rightarrow>
      if \<not> po_success out
      then Inl (bad_gateway (if trim (po_stderr out) = [] then ''Live HLS browser fetch failed.''
        else ''Live HLS browser fetch failed: '' @ trim (po_stderr out)))
      else case ln_browser_payload net (po_stdout out) of
        None \<Rightarrow> Inl (bad_gateway ''Live HLS browser fetch returned invalid JSON.'')
      | Some (final_url_text, body) \<Rightarrow>
      case final_url_of_text env (lr_source_url r) (trim final_url_text) of
        None \<Rightarrow> Inl (bad_gateway ''Live HLS browser fetch returned an invalid URL.'')
      | Some final_url \<Rightarrow>
      if \<not> starts_with (trim_start body) ''#EXTM3U''
      then Inl (bad_gateway ''Live HLS browser fetch did not return an HLS playlist.'')
      else Inr (final_url, body))"

section \<open>The choice\<close>

definition fetch_live_hls_playlist_upstream :: "live_env \<Rightarrow> live_network \<Rightarrow> live_hls_request \<Rightarrow> (web_url \<times> string) app_result" where
  "fetch_live_hls_playlist_upstream env net r =
     (if lr_trusted_external_embed r \<and> browser_live_hls_relay_url env (lr_referer r) \<noteq> None
      then fetch_live_hls_playlist_via_session_relay env net r
      else if is_curl_fetch_live_hls_upstream (lr_source_url r) then fetch_live_hls_playlist_via_curl env net r
      else case fetch_live_hls_playlist_via_http net r (browser_bound_live_hls_referer_header env (lr_referer r)) of
        Inr fetched \<Rightarrow> Inr fetched
      | Inl e \<Rightarrow>
          if \<not> should_retry_live_hls_with_browser_fetch r e then Inl e
          else case fetch_live_hls_playlist_via_browser env net r of
            Inl e \<Rightarrow> Inl e
          | Inr (final_url, body) \<Rightarrow>
              (case ensure_allowed_live_hls_final_url final_url r Playlist of Inl e \<Rightarrow> Inl e | Inr _ \<Rightarrow> Inr (final_url, body)))"

definition is_playlist_path :: "web_url \<Rightarrow> bool" where
  "is_playlist_path url \<longleftrightarrow> ends_with (lower (wu_path url)) ''.m3u8''"

definition playlist_as_resource :: "(web_url \<times> string) app_result \<Rightarrow> (web_url \<times> string \<times> string) app_result" where
  "playlist_as_resource = map_sum id (\<lambda>(final_url, body). (final_url, ''application/vnd.apple.mpegurl'', body))"

lemma playlist_as_resource_from: "playlist_as_resource x = Inr (u, ty, b) \<Longrightarrow> x = Inr (u, b)"
  by (cases x) (auto simp: playlist_as_resource_def)

definition fetch_live_hls_resource_upstream ::
  "live_env \<Rightarrow> live_network \<Rightarrow> live_hls_request \<Rightarrow> (web_url \<times> string \<times> string) app_result" where
  "fetch_live_hls_resource_upstream env net r =
     (if lr_trusted_external_embed r \<and> is_playlist_path (lr_source_url r) \<and> browser_live_hls_relay_url env (lr_referer r) \<noteq> None
         then playlist_as_resource (fetch_live_hls_playlist_via_session_relay env net r)
         else if is_curl_fetch_live_hls_upstream (lr_source_url r) then fetch_live_hls_resource_via_curl env net r
         else case fetch_live_hls_resource_via_http net r (browser_bound_live_hls_referer_header env (lr_referer r)) of
           Inr fetched \<Rightarrow> Inr fetched
         | Inl e \<Rightarrow>
             if \<not> should_retry_live_hls_with_browser_fetch r e then Inl e
             else if \<not> is_playlist_path (lr_source_url r)
             then Inl (bad_gateway ''Live HLS resource request failed in browser-bound mode.'')
             else case fetch_live_hls_playlist_via_browser env net r of
               Inl e \<Rightarrow> Inl e
             | Inr (final_url, body) \<Rightarrow>
                 (case ensure_allowed_live_hls_final_url final_url r Resource of
                    Inl e \<Rightarrow> Inl e | Inr _ \<Rightarrow> playlist_as_resource (Inr (final_url, body))))"

section \<open>Redirects\<close>

definition may_come_from :: "live_hls_request \<Rightarrow> web_url \<Rightarrow> bool" where
  "may_come_from r url \<longleftrightarrow> is_allowed_live_hls_url url \<or>
     (lr_trusted_external_embed r \<and> (\<exists>kind. is_public_external_embed_hls_proxy_url url kind))"

lemma ensured_url: "ensure_allowed_live_hls_final_url url r kind = Inr u \<Longrightarrow> may_come_from r url"
  by (auto simp: ensure_allowed_live_hls_final_url_def may_come_from_def split: if_splits)

lemma playlist_via_curl_from: "fetch_live_hls_playlist_via_curl env net r = Inr (final_url, body) \<Longrightarrow> may_come_from r final_url"
  by (auto simp: fetch_live_hls_playlist_via_curl_def dest: ensured_url split: sum.splits if_splits)

lemma playlist_via_http_from: "fetch_live_hls_playlist_via_http net r referer = Inr (final_url, body) \<Longrightarrow> may_come_from r final_url"
  by (auto simp: fetch_live_hls_playlist_via_http_def dest: ensured_url split: sum.splits send_failure.splits option.splits if_splits)

lemma playlist_via_relay_from: "fetch_live_hls_playlist_via_session_relay env net r = Inr (final_url, body) \<Longrightarrow> may_come_from r final_url"
  unfolding fetch_live_hls_playlist_via_session_relay_def
  by (auto dest: ensured_url split: sum.splits send_failure.splits option.splits if_splits)

lemma resource_via_curl_from: "fetch_live_hls_resource_via_curl env net r = Inr (final_url, ty, bytes) \<Longrightarrow> may_come_from r final_url"
  by (auto simp: fetch_live_hls_resource_via_curl_def dest: ensured_url split: sum.splits if_splits)

lemma checked_answer_from: "checked_resource_answer net r referer = Inr (a, ty) \<Longrightarrow> may_come_from r (ha_final_url a)"
  by (auto simp: checked_resource_answer_def dest: ensured_url split: sum.splits send_failure.splits if_splits)

lemma resource_via_http_from: "fetch_live_hls_resource_via_http net r referer = Inr (final_url, ty, bytes) \<Longrightarrow> may_come_from r final_url"
  by (auto simp: fetch_live_hls_resource_via_http_def dest: checked_answer_from split: sum.splits option.splits)

lemma playlist_upstream_from: "fetch_live_hls_playlist_upstream env net r = Inr (final_url, body) \<Longrightarrow> may_come_from r final_url"
  unfolding fetch_live_hls_playlist_upstream_def
  by (auto dest: ensured_url playlist_via_relay_from playlist_via_curl_from playlist_via_http_from split: sum.splits if_splits)

lemma resource_upstream_from: "fetch_live_hls_resource_upstream env net r = Inr (final_url, ty, bytes) \<Longrightarrow> may_come_from r final_url"
  unfolding fetch_live_hls_resource_upstream_def
  by (auto dest: ensured_url playlist_via_relay_from resource_via_curl_from resource_via_http_from
      dest!: playlist_as_resource_from split: sum.splits if_splits)

end
