(* ===== verification/LiveHandlers.thy ===== *)
theory LiveHandlers
  imports LiveUpstream
begin

text \<open>
  The two handlers of the live proxy in \<open>src/live.rs\<close>: \<open>live_hls_handler\<close> serves a rewritten
  playlist, from memory where it can, and \<open>live_hls_resource_handler\<close> a segment. What the
  network answers and what ffmpeg makes of a segment are fields of the call. A handler is one
  step, so that the second look into the cache, under the single-flight lock, sees what the
  first saw.
\<close>

section \<open>Policies\<close>

definition live_hls_playlist_cache_key :: "live_hls_request \<Rightarrow> string" where
  "live_hls_playlist_cache_key r =
     wu_text (lr_source_url r) @ ''|'' @ (case lr_referer r of None \<Rightarrow> [] | Some v \<Rightarrow> v) @ ''|'' @
     (if lr_trusted_external_embed r then ''1'' else ''0'') @ ''|'' @
     show_int (case lr_signature_expires_at r of None \<Rightarrow> 0 | Some e \<Rightarrow> e) @ ''|'' @
     (if lr_direct_segments r then ''1'' else ''0'') @ ''|'' @
     (case lr_private_session_binding r of None \<Rightarrow> [] | Some b \<Rightarrow> b)"

definition live_hls_playlist_cache_policy :: "bool \<Rightarrow> bool \<Rightarrow> int \<times> string" where
  "live_hls_playlist_cache_policy immutable private_session_bound =
     (if private_session_bound then
        (if immutable then LIVE_HLS_IMMUTABLE_PLAYLIST_CACHE_TTL_MS else LIVE_HLS_ROLLING_PLAYLIST_CACHE_TTL_MS,
         ''private, no-store, max-age=0'')
      else if immutable then (LIVE_HLS_IMMUTABLE_PLAYLIST_CACHE_TTL_MS, ''public, max-age=300'')
      else (LIVE_HLS_ROLLING_PLAYLIST_CACHE_TTL_MS, ''no-store''))"

definition live_hls_resource_cache_control :: "bool \<Rightarrow> bool \<Rightarrow> string" where
  "live_hls_resource_cache_control is_vod_segment private_session_bound =
     (if private_session_bound then ''private, no-store, max-age=0''
      else if is_vod_segment then ''public, max-age=3600'' else ''no-store'')"

definition live_hls_playlist_is_immutable :: "string \<Rightarrow> bool" where
  "live_hls_playlist_is_immutable playlist \<longleftrightarrow>
     (let ls = map trim (str_lines playlist);
          stream_inf = (\<lambda>l. starts_with l ''#EXT-X-STREAM-INF''); extinf = (\<lambda>l. starts_with l ''#EXTINF'')
      in list_ex stream_inf ls \<or>
         list_ex (\<lambda>l. \<not> stream_inf l \<and> extinf l) ls \<and>
         list_ex (\<lambda>l. \<not> stream_inf l \<and> \<not> extinf l \<and>
            (lower l = ''#ext-x-endlist'' \<or> lower l = ''#ext-x-playlist-type:vod'')) ls)"

text \<open>\<open>rsplit_once('/')\<close>: what stands before the last slash.\<close>

definition before_last_slash :: "string \<Rightarrow> string" where
  "before_last_slash s =
     (if CHR ''/'' \<in> set s then rev (tl (dropWhile (\<lambda>c. c \<noteq> CHR ''/'') (rev s))) else [])"

definition live_audio_stream_key :: "web_url \<Rightarrow> string" where
  "live_audio_stream_key url = (case url_host url of None \<Rightarrow> [] | Some h \<Rightarrow> h) @ before_last_slash (wu_path url)"

definition first_live_resource_input :: "live_env \<Rightarrow> string \<Rightarrow> string option" where
  "first_live_resource_input env playlist =
     (case List.find (\<lambda>(k, v). k = ''input'')
        (concat (map (\<lambda>l. case strip_prefix ''/api/live/hls-resource?'' (trim l) of
            None \<Rightarrow> [] | Some query \<Rightarrow> lv_query_pairs env query) (str_lines playlist))) of
        None \<Rightarrow> None | Some (k, v) \<Rightarrow> Some v)"

definition maybe_route_live_resources_to_worker ::
  "live_env \<Rightarrow> string \<Rightarrow> string \<Rightarrow> live_audio_decision live_entries \<Rightarrow> int \<Rightarrow> string \<Rightarrow> bool \<Rightarrow> bool \<Rightarrow> string" where
  "maybe_route_live_resources_to_worker env worker_base direct_base audio_cache now_ms rewritten trusted private_session_bound =
     (let worker_base = trim worker_base
      in if trim direct_base \<noteq> [] \<or> worker_base = [] \<or> \<not> trusted \<or> private_session_bound then rewritten
         else case Option.bind (first_live_resource_input env rewritten) (lv_parse env) of
           None \<Rightarrow> rewritten
         | Some first_input \<Rightarrow>
             if is_curl_fetch_live_hls_upstream first_input then rewritten
             else case audio_get_fresh audio_cache (live_audio_stream_key first_input) now_ms of
               None \<Rightarrow> rewritten
             | Some decision \<Rightarrow>
                 if needs_processing decision then rewritten
                 else replace_all rewritten ''/api/live/hls-resource'' (worker_base @ ''/api/live/hls-resource''))"

definition LIVE_HLS_GZIP_MIN_BYTES :: nat where "LIVE_HLS_GZIP_MIN_BYTES = 4 * 1024"

definition client_accepts_gzip :: "string option \<Rightarrow> bool" where
  "client_accepts_gzip accept_encoding = (case accept_encoding of None \<Rightarrow> False | Some v \<Rightarrow> contains (lower v) ''gzip'')"

record playlist_response =
  pr_content_type :: string
  pr_cache_control :: string
  pr_gzip :: bool
  pr_body :: string

text \<open>The body is shown before compression, which is the library's and does not fail in memory.\<close>

definition live_hls_playlist_response :: "string option \<Rightarrow> string \<Rightarrow> string \<Rightarrow> playlist_response" where
  "live_hls_playlist_response accept_encoding body cache_control =
     \<lparr>pr_content_type = ''application/vnd.apple.mpegurl; charset=utf-8'', pr_cache_control = cache_control,
      pr_gzip = (client_accepts_gzip accept_encoding \<and> length body \<ge> LIVE_HLS_GZIP_MIN_BYTES), pr_body = body\<rparr>"

section \<open>Playlists\<close>

text \<open>
  A call: the request, the clock, the decisions known about streams, the address that
  \<open>refresh_expiring_ntvs_wideiptv_request\<close> gives the request (its own, unless it carries an
  expiring token of that provider), and the network.
\<close>

record live_call =
  lc_method :: string
  lc_cookie :: "string option"
  lc_accept_encoding :: "string option"
  lc_uri :: live_uri
  lc_own_url :: "web_url app_result"
  lc_now_seconds :: int
  lc_now_ms :: int
  lc_audio :: "live_audio_decision live_entries"
  lc_refreshed :: "live_hls_request \<Rightarrow> web_url"
  lc_network :: live_network

definition trusted_signing_context :: "live_config \<Rightarrow> int \<Rightarrow> live_hls_request \<Rightarrow> live_hls_signing_context option" where
  "trusted_signing_context cfg now_seconds r =
     (if lr_trusted_external_embed r
      then Some \<lparr>sc_secret = lc_live_hls_proxy_secret cfg,
                 sc_expires_at = (case lr_signature_expires_at r of Some e \<Rightarrow> e
                                  | None \<Rightarrow> saturating_add now_seconds LIVE_HLS_SIGNATURE_TTL_SECONDS),
                 sc_private_session_binding = lr_private_session_binding r\<rparr>
      else None)"

definition request_target :: "live_config \<Rightarrow> int \<Rightarrow> live_hls_request \<Rightarrow> web_url \<Rightarrow> rewrite_target" where
  "request_target cfg now_seconds r final_url =
     \<lparr>rw_base_url = final_url, rw_referer = lr_referer r, rw_context = trusted_signing_context cfg now_seconds r,
      rw_direct_segments = lr_direct_segments r, rw_legacy = lc_emit_legacy_signature cfg\<rparr>"

definition fetched_playlist :: "live_env \<Rightarrow> live_config \<Rightarrow> live_call \<Rightarrow> live_hls_request \<Rightarrow> web_url \<Rightarrow> string \<Rightarrow> string" where
  "fetched_playlist env cfg call r final_url body =
     maybe_route_live_resources_to_worker env (lc_live_hls_resource_worker_base cfg) (lc_live_hls_direct_base cfg)
       (lc_audio call) (lc_now_ms call)
       (rewrite_live_hls_playlist env (request_target cfg (lc_now_seconds call) r final_url) body)
       (lr_trusted_external_embed r) (lr_private_session_binding r \<noteq> None)"

definition live_hls_handler ::
  "live_env \<Rightarrow> live_config \<Rightarrow> live_call \<Rightarrow> cached_live_playlist live_entries \<Rightarrow>
   playlist_response app_result \<times> cached_live_playlist live_entries" where
  "live_hls_handler env cfg call cache =
     (if lc_method call \<noteq> ''GET'' then (Inl (method_not_allowed ''Method not allowed.''), cache)
      else case live_hls_request_input env cfg (lc_now_seconds call) (lc_cookie call) (lc_own_url call) (lc_uri call) Playlist of
        Inl e \<Rightarrow> (Inl e, cache)
      | Inr r0 \<Rightarrow>
      let r = r0\<lparr>lr_source_url := lc_refreshed call r0\<rparr>; cache_key = live_hls_playlist_cache_key r
      in case playlist_get_fresh cache cache_key (lc_now_ms call) of
        Some cached \<Rightarrow> (Inr (live_hls_playlist_response (lc_accept_encoding call) (clp_body cached) (clp_client_cache_control cached)), cache)
      | None \<Rightarrow>
      case fetch_live_hls_playlist_upstream env (lc_network call) r of
        Inl e \<Rightarrow> (Inl e, cache)
      | Inr (final_url, body) \<Rightarrow>
      let immutable = (lr_trusted_external_embed r \<and> live_hls_playlist_is_immutable body);
          rewritten = fetched_playlist env cfg call r final_url body;
          (ttl_ms, cache_control) = live_hls_playlist_cache_policy immutable (lr_private_session_binding r \<noteq> None)
      in (Inr (live_hls_playlist_response (lc_accept_encoding call) rewritten cache_control),
          playlist_store cache cache_key rewritten ttl_ms cache_control (lc_now_ms call)))"

datatype live_event = Live_call live_call | Live_prune int

fun live_step :: "live_env \<Rightarrow> live_config \<Rightarrow> live_event \<Rightarrow> cached_live_playlist live_entries \<Rightarrow> cached_live_playlist live_entries" where
  "live_step env cfg (Live_call call) cache = snd (live_hls_handler env cfg call cache)"
| "live_step env cfg (Live_prune now) cache = playlist_prune cache now"

definition live_history :: "live_env \<Rightarrow> live_config \<Rightarrow> live_event list \<Rightarrow> cached_live_playlist live_entries" where
  "live_history env cfg events = fold (live_step env cfg) events []"


section \<open>What is kept under a key\<close>

text \<open>A binding has no bar in it; only a trusted request has one, and then no direct segments.\<close>

definition request_ok :: "live_hls_request \<Rightarrow> bool" where
  "request_ok r \<longleftrightarrow> (case lr_private_session_binding r of None \<Rightarrow> True
     | Some b \<Rightarrow> b \<noteq> [] \<and> CHR ''|'' \<notin> set b \<and> lr_trusted_external_embed r \<and> \<not> lr_direct_segments r)"

lemma verified_binding_text:
  "verify_private_live_hls_session_binding env secret cookie b \<Longrightarrow> b \<noteq> [] \<and> CHR ''|'' \<notin> set b"
  by (auto simp: verify_private_live_hls_session_binding_def is_binding_text_def list_all_iff is_ascii_alphabetic_def
      is_ascii_upper_def is_ascii_lower_def is_ascii_digit_def split: if_splits)

lemma request_input_ok:
  assumes "live_hls_request_input env cfg now cookie own_url uri kind = Inr r"
  shows "request_ok (r\<lparr>lr_source_url := u\<rparr>)"
  using assms by (rule request_input_cases) (auto simp: request_ok_def dest: verified_binding_text split: option.splits)

lemma last_separator:
  assumes "x @ c # a = y @ c # b" and "c \<notin> set a" and "c \<notin> set b"
  shows "x = y \<and> a = b"
proof -
  have e: "rev a @ c # rev x = rev b @ c # rev y" using arg_cong [OF assms(1), of rev] by simp
  have t: "takeWhile (\<lambda>y. y \<noteq> c) (rev p @ c # q) = rev p" if "c \<notin> set p" for p q
    using that by (intro trans [OF takeWhile_append2]) auto
  have "rev a = rev b" using arg_cong [OF e, of "takeWhile (\<lambda>y. y \<noteq> c)"] by (simp only: t [OF assms(2)] t [OF assms(3)])
  with e show ?thesis by simp
qed

lemma cache_key_binding:
  assumes "live_hls_playlist_cache_key r = live_hls_playlist_cache_key q" and "request_ok r" and "request_ok q"
  shows "lr_private_session_binding r = lr_private_session_binding q \<and> lr_direct_segments r = lr_direct_segments q \<and>
    lr_trusted_external_embed r = lr_trusted_external_embed q \<and>
    (case lr_signature_expires_at r of None \<Rightarrow> 0 | Some e \<Rightarrow> e) = (case lr_signature_expires_at q of None \<Rightarrow> 0 | Some e \<Rightarrow> e)"
proof -
  let ?src = "\<lambda>r. wu_text (lr_source_url r) @ ''|'' @ (case lr_referer r of None \<Rightarrow> [] | Some v \<Rightarrow> v)"
  let ?t = "\<lambda>b. if b then ''1'' else ''0''"
  let ?e = "\<lambda>r. case lr_signature_expires_at r of None \<Rightarrow> 0 | Some e \<Rightarrow> e"
  let ?b = "\<lambda>r. case lr_private_session_binding r of None \<Rightarrow> [] | Some b \<Rightarrow> b"
  have key: "live_hls_playlist_cache_key r =
      (((?src r @ CHR ''|'' # ?t (lr_trusted_external_embed r)) @ CHR ''|'' # show_int (?e r)) @ CHR ''|'' # ?t (lr_direct_segments r)) @ CHR ''|'' # ?b r" for r
    by (simp add: live_hls_playlist_cache_key_def)
  have bars: "CHR ''|'' \<notin> set (?b r)" if "request_ok r" for r
    using that by (auto simp: request_ok_def split: option.splits)
  have digits: "CHR ''|'' \<notin> set (show_int n)" for n
    using show_nat_digits [of "CHR ''|''"] by (auto simp: show_int_def is_ascii_digit_def)
  have flag: "CHR ''|'' \<notin> set (?t b)" for b by simp
  note 1 = last_separator [OF assms(1) [unfolded key] bars [OF assms(2)] bars [OF assms(3)]]
  note 2 = last_separator [OF conjunct1 [OF 1] flag flag]
  note 3 = last_separator [OF conjunct1 [OF 2] digits digits]
  note 4 = last_separator [OF conjunct1 [OF 3] flag flag]
  have "lr_private_session_binding r = lr_private_session_binding q"
    using 1 assms(2,3) by (auto simp: request_ok_def split: option.splits)
  with 2 3 4 show ?thesis by (auto split: if_splits)
qed

text \<open>What was rewritten for a request, with the cache directive that goes with it.\<close>

definition rewritten_for :: "live_env \<Rightarrow> live_config \<Rightarrow> live_hls_request \<Rightarrow> string \<Rightarrow> string \<Rightarrow> bool" where
  "rewritten_for env cfg r body cache_control \<longleftrightarrow> (\<exists>call final_url upstream immutable.
     may_come_from r final_url \<and> body = fetched_playlist env cfg call r final_url upstream \<and>
     cache_control = snd (live_hls_playlist_cache_policy immutable (lr_private_session_binding r \<noteq> None)))"

definition cache_ok :: "live_env \<Rightarrow> live_config \<Rightarrow> cached_live_playlist live_entries \<Rightarrow> bool" where
  "cache_ok env cfg cache \<longleftrightarrow> distinct (map fst cache) \<and> (\<forall>key e. map_of cache key = Some e \<longrightarrow>
     (\<exists>r. key = live_hls_playlist_cache_key r \<and> request_ok r \<and> rewritten_for env cfg r (clp_body e) (clp_client_cache_control e)))"

lemma cache_ok_store:
  assumes "cache_ok env cfg cache" and "request_ok r" and "rewritten_for env cfg r body cache_control"
  shows "cache_ok env cfg (playlist_store cache (live_hls_playlist_cache_key r) body ttl cache_control now)"
proof -
  have d: "distinct (map fst cache)" using assms(1) by (simp add: cache_ok_def)
  let ?key = "live_hls_playlist_cache_key r"
  let ?new = "playlist_store cache ?key body ttl cache_control now"
  have "distinct (map fst ?new)" by (simp add: playlist_store_def evict_distinct distinct_update d)
  moreover have "\<exists>q. key = live_hls_playlist_cache_key q \<and> request_ok q \<and> rewritten_for env cfg q (clp_body e) (clp_client_cache_control e)"
    if e: "map_of ?new key = Some e" for key e
  proof (cases "key = ?key")
    case True
    with e playlist_store_map_of [OF d, of ?key body ttl cache_control now key]
    have "clp_body e = body" "clp_client_cache_control e = cache_control" by auto
    with True assms(2,3) show ?thesis by blast
  next
    case False
    with e playlist_store_map_of [OF d, of ?key body ttl cache_control now key] have "map_of cache key = Some e" by simp
    with assms(1) show ?thesis unfolding cache_ok_def by blast
  qed
  ultimately show ?thesis unfolding cache_ok_def by blast
qed

lemma cache_ok_prune: "cache_ok env cfg cache \<Longrightarrow> cache_ok env cfg (playlist_prune cache now)"
  by (auto simp: cache_ok_def playlist_prune_def distinct_map_filter filter_map_of split: option.splits if_splits)


text \<open>A call that is answered: from memory or by a fetch.\<close>

lemma handler_cases:
  assumes "live_hls_handler env cfg call cache = (res, cache')"
  obtains (refused) e where "res = Inl e" "cache' = cache"
  | (hit) r0 r cached where "live_hls_request_input env cfg (lc_now_seconds call) (lc_cookie call) (lc_own_url call) (lc_uri call) Playlist = Inr r0"
      "r = r0\<lparr>lr_source_url := lc_refreshed call r0\<rparr>"
      "playlist_get_fresh cache (live_hls_playlist_cache_key r) (lc_now_ms call) = Some cached"
      "res = Inr (live_hls_playlist_response (lc_accept_encoding call) (clp_body cached) (clp_client_cache_control cached))" "cache' = cache"
  | (fetched) r0 r final_url body cache_control ttl immutable where
      "live_hls_request_input env cfg (lc_now_seconds call) (lc_cookie call) (lc_own_url call) (lc_uri call) Playlist = Inr r0"
      "r = r0\<lparr>lr_source_url := lc_refreshed call r0\<rparr>" "may_come_from r final_url"
      "live_hls_playlist_cache_policy immutable (lr_private_session_binding r \<noteq> None) = (ttl, cache_control)"
      "res = Inr (live_hls_playlist_response (lc_accept_encoding call) (fetched_playlist env cfg call r final_url body) cache_control)"
      "cache' = playlist_store cache (live_hls_playlist_cache_key r) (fetched_playlist env cfg call r final_url body) ttl cache_control (lc_now_ms call)"
proof (cases "live_hls_request_input env cfg (lc_now_seconds call) (lc_cookie call) (lc_own_url call) (lc_uri call) Playlist")
  case (Inl e)
  with assms refused show thesis by (auto simp: live_hls_handler_def split: if_splits)
next
  case (Inr r0)
  define r where "r = r0\<lparr>lr_source_url := lc_refreshed call r0\<rparr>"
  show thesis
  proof (cases "lc_method call = ''GET''")
    case False
    with assms refused show thesis by (auto simp: live_hls_handler_def)
  next
    case get: True
    show thesis
    proof (cases "playlist_get_fresh cache (live_hls_playlist_cache_key r) (lc_now_ms call)")
      case (Some cached)
      with assms get Inr have "res = Inr (live_hls_playlist_response (lc_accept_encoding call) (clp_body cached) (clp_client_cache_control cached))"
        "cache' = cache" by (auto simp: live_hls_handler_def r_def Let_def)
      with hit [OF Inr r_def Some] show thesis by blast
    next
      case None
      show thesis
      proof (cases "fetch_live_hls_playlist_upstream env (lc_network call) r")
        case (Inl e)
        with assms get Inr None refused show thesis by (auto simp: live_hls_handler_def r_def Let_def)
      next
        case f: (Inr p)
        obtain final_url body where p: "p = (final_url, body)" by (cases p)
        note from_host = playlist_upstream_from [OF f [unfolded p]]
        obtain ttl cc where pol: "live_hls_playlist_cache_policy (lr_trusted_external_embed r \<and> live_hls_playlist_is_immutable body)
            (lr_private_session_binding r \<noteq> None) = (ttl, cc)" by fastforce
        have "live_hls_handler env cfg call cache =
            (Inr (live_hls_playlist_response (lc_accept_encoding call) (fetched_playlist env cfg call r final_url body) cc),
             playlist_store cache (live_hls_playlist_cache_key r) (fetched_playlist env cfg call r final_url body) ttl cc (lc_now_ms call))"
          unfolding live_hls_handler_def Let_def
          by (simp add: get Inr None f p pol r_def [symmetric] del: not_None_eq)
        with assms have "res = Inr (live_hls_playlist_response (lc_accept_encoding call) (fetched_playlist env cfg call r final_url body) cc)"
          "cache' = playlist_store cache (live_hls_playlist_cache_key r) (fetched_playlist env cfg call r final_url body) ttl cc (lc_now_ms call)"
          by simp_all
        then show thesis by (rule fetched [OF Inr r_def from_host pol])
      qed
    qed
  qed
qed

lemma cache_ok_handler:
  assumes "cache_ok env cfg cache"
  shows "cache_ok env cfg (snd (live_hls_handler env cfg call cache))"
proof -
  obtain res cache' where h: "live_hls_handler env cfg call cache = (res, cache')" by fastforce
  then show ?thesis
  proof (cases rule: handler_cases)
    case (fetched r0 r final_url body cache_control ttl immutable)
    have "rewritten_for env cfg r (fetched_playlist env cfg call r final_url body) cache_control"
      unfolding rewritten_for_def using fetched(3,4) by (metis snd_conv)
    moreover have "request_ok r" using request_input_ok [OF fetched(1)] fetched(2) by simp
    ultimately show ?thesis using cache_ok_store [OF assms] h fetched(6) by simp
  qed (use assms h in auto)
qed

interpretation live_cache: invariant_steps "cache_ok env cfg" "live_step env cfg"
proof
  fix cache e assume "cache_ok env cfg cache"
  then show "cache_ok env cfg (live_step env cfg e cache)"
    by (cases e) (simp_all add: cache_ok_handler cache_ok_prune)
qed

lemma live_history_ok: "cache_ok env cfg (live_history env cfg events)"
  unfolding live_history_def by (rule live_cache.inv_fold) (simp add: cache_ok_def)

lemma answer_rewritten_for:
  assumes "cache_ok env cfg cache" and "fst (live_hls_handler env cfg call cache) = Inr resp"
  shows "\<exists>r0 r. live_hls_request_input env cfg (lc_now_seconds call) (lc_cookie call) (lc_own_url call) (lc_uri call) Playlist = Inr r0 \<and>
    request_ok r \<and> lr_private_session_binding r = lr_private_session_binding r0 \<and>
    lr_direct_segments r = lr_direct_segments r0 \<and> lr_trusted_external_embed r = lr_trusted_external_embed r0 \<and>
    (case lr_signature_expires_at r of None \<Rightarrow> 0 | Some e \<Rightarrow> e) = (case lr_signature_expires_at r0 of None \<Rightarrow> 0 | Some e \<Rightarrow> e) \<and>
    rewritten_for env cfg r (pr_body resp) (pr_cache_control resp)"
proof -
  obtain cache' where "live_hls_handler env cfg call cache = (Inr resp, cache')" using assms(2) by (metis prod.collapse)
  then show ?thesis
  proof (cases rule: handler_cases)
    case (hit r0 r cached)
    then have "map_of cache (live_hls_playlist_cache_key r) = Some cached"
      by (auto simp: playlist_get_fresh_def split: option.splits if_splits)
    with assms(1) obtain q where q: "live_hls_playlist_cache_key r = live_hls_playlist_cache_key q" "request_ok q"
      "rewritten_for env cfg q (clp_body cached) (clp_client_cache_control cached)"
      unfolding cache_ok_def by blast
    have "request_ok r" using request_input_ok [OF hit(1)] hit(2) by simp
    from cache_key_binding [OF q(1) this q(2)] q hit show ?thesis
      by (intro exI [of _ r0] exI [of _ q]) (simp add: live_hls_playlist_response_def)
  next
    case (fetched r0 r final_url body cache_control ttl immutable)
    have "rewritten_for env cfg r (fetched_playlist env cfg call r final_url body) cache_control"
      unfolding rewritten_for_def using fetched(3,4) by (metis snd_conv)
    with fetched request_input_ok [OF fetched(1), of "lc_refreshed call r0"] show ?thesis
      by (intro exI [of _ r0] exI [of _ r]) (simp add: live_hls_playlist_response_def)
  qed simp
qed


text \<open>
  C34: the playlist of a private stream stays with its session. Whatever was asked before and
  is still in memory, a request with a session binding is answered only to the cookie of that
  session, with a playlist whose addresses were minted with that same binding, none of them
  direct, and with a directive that no cache may store it.
\<close>

theorem private_playlist_stays_with_session:
  assumes "query_pairs env (lu_query (lc_uri call)) LIVE_HLS_PRIVATE_SESSION_PARAM = Some b"
    and "fst (live_hls_handler env cfg call (live_history env cfg events)) = Inr resp"
  shows "verify_private_live_hls_session_binding env (lc_live_hls_proxy_secret cfg) (lc_cookie call) b \<and>
    pr_cache_control resp = ''private, no-store, max-age=0'' \<and>
    (\<exists>rw upstream expires_at. pr_body resp = rewrite_live_hls_playlist env rw upstream \<and>
       rw_context rw = Some \<lparr>sc_secret = lc_live_hls_proxy_secret cfg, sc_expires_at = expires_at, sc_private_session_binding = Some b\<rparr> \<and>
       \<not> rw_direct_segments rw)"
proof -
  from answer_rewritten_for [OF live_history_ok assms(2)] obtain r0 r where r:
    "live_hls_request_input env cfg (lc_now_seconds call) (lc_cookie call) (lc_own_url call) (lc_uri call) Playlist = Inr r0"
    "request_ok r" "lr_private_session_binding r = lr_private_session_binding r0"
    "rewritten_for env cfg r (pr_body resp) (pr_cache_control resp)" by blast
  have b: "lr_private_session_binding r = Some b"
    and v: "verify_private_live_hls_session_binding env (lc_live_hls_proxy_secret cfg) (lc_cookie call) b"
    using r(1) assms(1) r(3) by (auto elim!: request_input_cases)
  have t: "lr_trusted_external_embed r" "\<not> lr_direct_segments r" using r(2) b by (simp_all add: request_ok_def)
  from r(4) obtain call' final_url upstream immutable where body: "pr_body resp = fetched_playlist env cfg call' r final_url upstream"
    and cc: "pr_cache_control resp = snd (live_hls_playlist_cache_policy immutable True)"
    unfolding rewritten_for_def b by auto
  have "pr_body resp = rewrite_live_hls_playlist env (request_target cfg (lc_now_seconds call') r final_url) upstream"
    by (simp add: body fetched_playlist_def maybe_route_live_resources_to_worker_def b Let_def)
  moreover have "pr_cache_control resp = ''private, no-store, max-age=0''" by (simp add: cc live_hls_playlist_cache_policy_def)
  ultimately show ?thesis
    using v t b by (auto simp: request_target_def trusted_signing_context_def)
qed


definition private_network :: live_network where
  "private_network = \<lparr>ln_http = (\<lambda>u _. Inr \<lparr>ha_status = 200, ha_status_text = ''200 OK'', ha_final_url = u, ha_content_type = None,
       ha_body = Some ''#EXTM3U''\<rparr>),
     ln_curl = (\<lambda>_ _. Inl Process_timed_out), ln_relay = (\<lambda>_ _. Inl Timed_out), ln_browser = (\<lambda>_ _. Inl Process_timed_out),
     ln_browser_payload = (\<lambda>_. None), ln_browser_script_path = []\<rparr>"

definition private_call :: live_call where
  "private_call = \<lparr>lc_method = ''GET'', lc_cookie = Some ''session=tok'', lc_accept_encoding = None, lc_uri = private_uri,
     lc_own_url = Inr (the (lv_parse sample_live_env ''https://jmp2.uk/'')), lc_now_seconds = 1000, lc_now_ms = 1000000, lc_audio = [],
     lc_refreshed = lr_source_url, lc_network = private_network\<rparr>"

definition private_answer :: "playlist_response app_result" where
  "private_answer = fst (live_hls_handler private_env sample_live_config private_call (live_history private_env sample_live_config [Live_prune 5]))"

lemma private_answer_given: "\<exists>resp. private_answer = Inr resp"
proof -
  have "(case private_request of Inl _ \<Rightarrow> False | Inr r \<Rightarrow> \<not> isl (fetch_live_hls_playlist_upstream private_env private_network r))"
    by code_simp
  then obtain r0 f where r0: "private_request = Inr r0" "fetch_live_hls_playlist_upstream private_env private_network r0 = Inr f"
    using sum.collapse(2) by (metis (no_types, lifting) sum.case_eq_if)
  have h: "live_history private_env sample_live_config [Live_prune 5] = []" by (simp add: live_history_def playlist_prune_def)
  show ?thesis
    unfolding private_answer_def h live_hls_handler_def
    using r0 by (simp add: private_call_def private_request_def playlist_get_fresh_def Let_def case_prod_beta)
qed

theorem private_playlist_stays_with_session_witness:
  "\<exists>resp. private_answer = Inr resp \<and> pr_cache_control resp = ''private, no-store, max-age=0''"
proof -
  have q: "query_pairs private_env (lu_query (lc_uri private_call)) LIVE_HLS_PRIVATE_SESSION_PARAM = Some private_binding" by code_simp
  obtain resp where r: "private_answer = Inr resp" using private_answer_given by blast
  from private_playlist_stays_with_session [OF q r [unfolded private_answer_def]] r show ?thesis by blast
qed



end
