(* ===== verification/LiveSegments.thy ===== *)
theory LiveSegments
  imports LiveHandlers
begin

text \<open>
  The segments of the live proxy: \<open>live_hls_resource_handler\<close> of \<open>src/live.rs\<close> with its three
  ways to answer (pass the bytes on, stream from HTTP, or fetch, repair and keep), the scan
  for a transport stream behind a PNG header and the choice of what ffmpeg does. What ffprobe
  and ffmpeg give is \<open>live_tools\<close>; a streamed body is shown as the whole body.
\<close>

section \<open>Bytes\<close>

definition url_path_is_mpegts :: "web_url \<Rightarrow> bool" where
  "url_path_is_mpegts url \<longleftrightarrow> ends_with (lower (wu_path url)) ''.ts''"

definition is_live_ts_segment :: "web_url \<Rightarrow> string \<Rightarrow> bool" where
  "is_live_ts_segment url content_type \<longleftrightarrow> ends_with (lower (wu_path url)) ''.ts'' \<or> contains (lower content_type) ''mp2t''"

definition live_resource_looks_like_playlist :: "string \<Rightarrow> string \<Rightarrow> bool" where
  "live_resource_looks_like_playlist content_type bytes \<longleftrightarrow> contains (lower content_type) ''mpegurl'' \<or> starts_with bytes ''#EXTM3U''"

definition be32 :: "string \<Rightarrow> nat" where
  "be32 s = foldl (\<lambda>acc c. 256 * acc + of_char c) 0 (take 4 s)"

definition hls_resource_content_type :: "string \<Rightarrow> string \<Rightarrow> string" where
  "hls_resource_content_type upstream head =
     (if length head \<ge> 8 \<and> take 4 (drop 4 head) \<in> {''ftyp'', ''styp'', ''moof'', ''sidx''} \<and> be32 head \<ge> 8
      then ''video/mp4'' else upstream)"

definition PNG_MAGIC :: string where "PNG_MAGIC = [CHR 0x89, CHR 0x50, CHR 0x4E, CHR 0x47]"

definition head_is_png_prefixed :: "string \<Rightarrow> bool" where
  "head_is_png_prefixed head \<longleftrightarrow> length head \<ge> 4 \<and> take 4 head = PNG_MAGIC"

definition is_sync_at :: "string \<Rightarrow> nat \<Rightarrow> bool" where
  "is_sync_at bytes i \<longleftrightarrow> bytes ! i = CHR 0x47 \<and> bytes ! (i + 188) = CHR 0x47 \<and> bytes ! (i + 376) = CHR 0x47"

definition png_prefixed_ts_strip_offset :: "string \<Rightarrow> nat option" where
  "png_prefixed_ts_strip_offset bytes =
     (if length bytes < 8 \<or> take 4 bytes \<noteq> PNG_MAGIC then None
      else List.find (is_sync_at bytes) [1..<min (length bytes - 376) 65536])"

text \<open>Every place the scan looks at is in the bytes, and what is left starts with a sync byte.\<close>

lemma png_scan_in_bounds:
  assumes "i \<in> set [1..<min (length bytes - 376) 65536]"
  shows "i + 376 < length bytes"
  using assms by auto

lemma find_SomeD: "List.find P xs = Some x \<Longrightarrow> x \<in> set xs \<and> P x"
  by (auto simp: find_Some_iff)

lemma png_strip_sync: "png_prefixed_ts_strip_offset bytes = Some i \<Longrightarrow> i + 376 < length bytes \<and> hd (drop i bytes) = CHR 0x47"
  unfolding png_prefixed_ts_strip_offset_def
  by (auto dest!: find_SomeD simp: is_sync_at_def hd_drop_conv_nth split: if_splits)

section \<open>Processing\<close>

definition LIVE_SEGMENT_MAX_TRANSCODE_BYTES :: nat where "LIVE_SEGMENT_MAX_TRANSCODE_BYTES = 24 * 1024 * 1024"
definition LIVE_SEGMENT_VIDEO_BITRATE :: string where "LIVE_SEGMENT_VIDEO_BITRATE = ''6000k''"

definition audio_codec_needs_live_transcode :: "string \<Rightarrow> bool" where
  "audio_codec_needs_live_transcode codec \<longleftrightarrow> (let c = lower (trim codec) in c \<noteq> [] \<and> c \<noteq> ''aac'' \<and> c \<noteq> ''mp3'')"

definition live_segment_video_bitrate_for_height :: "nat option \<Rightarrow> string" where
  "live_segment_video_bitrate_for_height video_height =
     (case video_height of
        None \<Rightarrow> LIVE_SEGMENT_VIDEO_BITRATE
      | Some height \<Rightarrow>
          if height \<le> 360 then ''1000k'' else if height \<le> 540 then ''1800k'' else if height \<le> 720 then ''3500k''
          else LIVE_SEGMENT_VIDEO_BITRATE)"

datatype live_segment_outcome = Passthrough | Transcoded string | TranscodeFailed

text \<open>ffprobe, the re-encoding at a bitrate, and the copy that drops data streams.\<close>

record live_tools =
  lt_probe :: "string \<Rightarrow> live_transcode_decision option"
  lt_transcode :: "string \<Rightarrow> string \<Rightarrow> string option"
  lt_remux :: "string \<Rightarrow> string option"

type_synonym audio_cache = "live_audio_decision live_entries"

definition segment_decision ::
  "live_tools \<Rightarrow> audio_cache \<Rightarrow> int \<Rightarrow> string \<Rightarrow> string \<Rightarrow> live_transcode_decision option \<times> audio_cache" where
  "segment_decision tools audio now key bytes =
     (case audio_get_fresh audio key now of
        Some d \<Rightarrow> (Some d, audio)
      | None \<Rightarrow> (case lt_probe tools bytes of Some d \<Rightarrow> (Some d, audio_record audio key d now) | None \<Rightarrow> (None, audio)))"

definition process_live_segment ::
  "live_tools \<Rightarrow> audio_cache \<Rightarrow> int \<Rightarrow> web_url \<Rightarrow> string \<Rightarrow> live_segment_outcome \<times> audio_cache" where
  "process_live_segment tools audio now url bytes =
     (if bytes = [] \<or> length bytes > LIVE_SEGMENT_MAX_TRANSCODE_BYTES then (Passthrough, audio)
      else case segment_decision tools audio now (live_audio_stream_key url) bytes of
        (None, audio) \<Rightarrow> (Passthrough, audio)
      | (Some decision, audio) \<Rightarrow>
          if \<not> needs_processing decision then (Passthrough, audio)
          else (case (if ltd_audio_needs_transcode decision
                      then lt_transcode tools bytes (live_segment_video_bitrate_for_height (ltd_video_height decision))
                      else lt_remux tools bytes) of
                  Some output \<Rightarrow> if output \<noteq> [] then Transcoded output else TranscodeFailed
                | None \<Rightarrow> TranscodeFailed, audio))"

section \<open>Answers\<close>

record resource_response =
  rr_content_type :: string
  rr_cache_control :: string
  rr_body :: string

definition live_segment_response :: "cached_live_segment \<Rightarrow> string \<Rightarrow> resource_response" where
  "live_segment_response cached cache_control =
     \<lparr>rr_content_type = cls_content_type cached, rr_cache_control = cache_control, rr_body = cls_bytes cached\<rparr>"

text \<open>\<open>None\<close>: a transport stream after all, left to the buffered path.\<close>

definition stream_live_hls_resource_via_http ::
  "live_env \<Rightarrow> live_network \<Rightarrow> live_hls_request \<Rightarrow> string \<Rightarrow> resource_response option app_result" where
  "stream_live_hls_resource_via_http env net r cache_control =
     (case checked_resource_answer net r (browser_bound_live_hls_referer_header env (lr_referer r)) of
        Inl e \<Rightarrow> Inl e
      | Inr (a, content_type) \<Rightarrow>
          if contains (lower content_type) ''mp2t'' then Inr None
          else case ha_body a of
            None \<Rightarrow> Inl (bad_gateway ''Live HLS resource read failed.'')
          | Some raw \<Rightarrow>
              if contains (lower content_type) ''png'' then
                (case png_prefixed_ts_strip_offset raw of
                   Some offset \<Rightarrow> Inr (Some \<lparr>rr_content_type = ''video/mp2t'', rr_cache_control = cache_control, rr_body = drop offset raw\<rparr>)
                 | None \<Rightarrow> Inr (Some \<lparr>rr_content_type = content_type, rr_cache_control = cache_control, rr_body = raw\<rparr>))
              else Inr (Some \<lparr>rr_content_type = hls_resource_content_type content_type raw, rr_cache_control = cache_control, rr_body = raw\<rparr>))"

definition stream_live_ts_passthrough ::
  "live_env \<Rightarrow> live_network \<Rightarrow> live_segment_output_cache \<Rightarrow> live_hls_request \<Rightarrow> string \<Rightarrow> int \<Rightarrow>
   resource_response app_result \<times> live_segment_output_cache" where
  "stream_live_ts_passthrough env net segments r cache_control now =
     (case segment_get_fresh segments (wu_text (lr_source_url r)) now of
        Some cached \<Rightarrow> (Inr (live_segment_response cached cache_control), segments)
      | None \<Rightarrow>
      case checked_resource_answer net r (browser_bound_live_hls_referer_header env (lr_referer r)) of
        Inl e \<Rightarrow> (Inl e, segments)
      | Inr (a, upstream_content_type) \<Rightarrow>
      case ha_body a of
        None \<Rightarrow> (Inl (bad_gateway ''Live HLS resource read failed.''), segments)
      | Some bytes \<Rightarrow>
      if head_is_png_prefixed bytes then
        let (offset, content_type) = (case png_prefixed_ts_strip_offset bytes of
              Some offset \<Rightarrow> (offset, ''video/mp2t'') | None \<Rightarrow> (0, upstream_content_type));
            bytes = drop offset bytes
        in (Inr \<lparr>rr_content_type = content_type, rr_cache_control = cache_control, rr_body = bytes\<rparr>,
            segment_store segments (wu_text (lr_source_url r)) content_type bytes now)
      else (Inr \<lparr>rr_content_type = (if url_path_is_mpegts (lr_source_url r) then ''video/mp2t'' else upstream_content_type),
                 rr_cache_control = cache_control, rr_body = bytes\<rparr>, segments))"

text \<open>What the buffered path makes of fetched bytes: \<open>None\<close> when ffmpeg failed on them.\<close>

definition repaired_segment ::
  "live_tools \<Rightarrow> audio_cache \<Rightarrow> int \<Rightarrow> web_url \<Rightarrow> string \<Rightarrow> string \<Rightarrow> (string \<times> string) option \<times> audio_cache" where
  "repaired_segment tools audio now url upstream_content_type bytes =
     (let content_type = hls_resource_content_type upstream_content_type bytes
      in case png_prefixed_ts_strip_offset bytes of
        Some offset \<Rightarrow> (Some (''video/mp2t'', drop offset bytes), audio)
      | None \<Rightarrow>
          if is_live_ts_segment url content_type then
            (case process_live_segment tools audio now url bytes of
               (Passthrough, audio) \<Rightarrow> (Some (content_type, bytes), audio)
             | (Transcoded output, audio) \<Rightarrow> (Some (''video/mp2t'', output), audio)
             | (TranscodeFailed, audio) \<Rightarrow> (None, audio))
          else (Some (content_type, bytes), audio))"

text \<open>The two caches the handler changes.\<close>

record segment_state =
  ss_segments :: live_segment_output_cache
  ss_audio :: audio_cache

definition buffered_live_resource ::
  "live_env \<Rightarrow> live_network \<Rightarrow> live_tools \<Rightarrow> segment_state \<Rightarrow> live_hls_request \<Rightarrow> string \<Rightarrow> int \<Rightarrow>
   resource_response app_result \<times> segment_state" where
  "buffered_live_resource env net tools st r cache_control now =
     (let segment_key = wu_text (lr_source_url r)
      in case segment_get_fresh (ss_segments st) segment_key now of
        Some cached \<Rightarrow> (Inr (live_segment_response cached cache_control), st)
      | None \<Rightarrow>
      case fetch_live_hls_resource_upstream env net r of
        Inl e \<Rightarrow> (Inl e, st)
      | Inr (_, upstream_content_type, bytes) \<Rightarrow>
      case repaired_segment tools (ss_audio st) now (lr_source_url r) upstream_content_type bytes of
        (None, audio) \<Rightarrow> (Inl (bad_gateway ''Live segment transcode failed.''), st\<lparr>ss_audio := audio\<rparr>)
      | (Some (content_type, bytes), audio) \<Rightarrow>
          (Inr \<lparr>rr_content_type = content_type, rr_cache_control = cache_control, rr_body = bytes\<rparr>,
           st\<lparr>ss_audio := audio,
              ss_segments := (if live_resource_looks_like_playlist content_type bytes then ss_segments st
                              else segment_store (ss_segments st) segment_key content_type bytes now)\<rparr>))"

definition live_hls_resource_handler ::
  "live_env \<Rightarrow> live_config \<Rightarrow> live_tools \<Rightarrow> live_call \<Rightarrow> segment_state \<Rightarrow> resource_response app_result \<times> segment_state" where
  "live_hls_resource_handler env cfg tools call st =
     (if lc_method call \<noteq> ''GET'' then (Inl (method_not_allowed ''Method not allowed.''), st)
      else case live_hls_request_input env cfg (lc_now_seconds call) (lc_cookie call) (lc_own_url call) (lc_uri call) Resource of
        Inl e \<Rightarrow> (Inl e, st)
      | Inr r \<Rightarrow>
      let url = lr_source_url r; net = lc_network call; now = lc_now_ms call;
          is_vod_segment = (lr_trusted_external_embed r \<and> query_pairs env (lu_query (lc_uri call)) ''vod'' = Some ''1'');
          cache_control = live_hls_resource_cache_control is_vod_segment (lr_private_session_binding r \<noteq> None);
          pass_on = (let (res, segments) = stream_live_ts_passthrough env net (ss_segments st) r cache_control now
                     in (res, st\<lparr>ss_segments := segments\<rparr>))
      in if lr_trusted_external_embed r \<and> is_real_debrid_stream_url url \<and> url_path_is_mpegts url then pass_on
         else case (if \<not> is_curl_fetch_live_hls_upstream url \<and> \<not> url_path_is_mpegts url
                    then stream_live_hls_resource_via_http env net r cache_control else Inr None) of
           Inl e \<Rightarrow> (Inl e, st)
         | Inr (Some response) \<Rightarrow> (Inr response, st)
         | Inr None \<Rightarrow>
             if \<not> is_curl_fetch_live_hls_upstream url \<and>
                (case audio_get_fresh (ss_audio st) (live_audio_stream_key url) now of
                   None \<Rightarrow> False | Some decision \<Rightarrow> \<not> needs_processing decision)
             then pass_on
             else buffered_live_resource env net tools st r cache_control now)"


section \<open>What the segment cache never holds\<close>

definition no_playlist_kept :: "live_segment_output_cache \<Rightarrow> bool" where
  "no_playlist_kept c \<longleftrightarrow> (\<forall>(k, e) \<in> set (lsc_entries c). \<not> starts_with (cls_bytes e) ''#EXTM3U'')"

lemma evict_loop_subset: "set (evict_loop m b n t l es) \<subseteq> set es"
proof (induction m b n t l es rule: evict_loop.induct)
  case (2 max_entries max_total_bytes remaining total_bytes key a len live entries)
  have "set (AList.delete key entries) \<subseteq> set entries" by (auto simp: AList.delete_eq)
  with 2 show ?case by (simp del: not_None_eq) blast
qed simp

lemma evict_subset: "set (evict_expired_then_oldest es m b x s l now) \<subseteq> set es"
proof -
  let ?es = "filter (\<lambda>(k, v). \<not> x v now) es"
  have "set (evict_loop m b n t live ?es) \<subseteq> set es" for n t live
    using evict_loop_subset [of m b n t live ?es] by auto
  then show ?thesis by (simp add: evict_expired_then_oldest_def Let_def)
qed

lemma update_subset: "set (AList.update k v es) \<subseteq> insert (k, v) (set es)"
  by (induction es) auto

lemma segment_store_no_playlist:
  assumes "no_playlist_kept c" and "\<not> starts_with bytes ''#EXTM3U''"
  shows "no_playlist_kept (segment_store c k ty bytes now)"
proof -
  have "set (lsc_entries (segment_store c k ty bytes now)) \<subseteq>
      insert (k, \<lparr>cls_content_type = ty, cls_bytes = bytes, cls_stored_at_ms = now\<rparr>) (set (lsc_entries c))"
    unfolding segment_store_def
    by (cases "bytes = [] \<or> length bytes > lsc_max_total_bytes c")
       (auto simp del: not_None_eq dest!: subsetD [OF evict_subset] subsetD [OF update_subset])
  with assms show ?thesis unfolding no_playlist_kept_def by fastforce
qed

lemma passthrough_no_playlist:
  assumes "no_playlist_kept c"
  shows "no_playlist_kept (snd (stream_live_ts_passthrough env net c r cc now))"
proof -
  have png: "\<not> starts_with bytes ''#EXTM3U''" if "head_is_png_prefixed bytes" for bytes
    using that by (cases bytes) (auto simp: head_is_png_prefixed_def PNG_MAGIC_def)
  have sync: "\<not> starts_with (drop i bytes) ''#EXTM3U''" if "png_prefixed_ts_strip_offset bytes = Some i" for bytes i
    using png_strip_sync [OF that] by (cases "drop i bytes") auto
  show ?thesis
    using assms by (auto simp: stream_live_ts_passthrough_def Let_def png sync split: option.split sum.split intro!: segment_store_no_playlist)
qed

lemma buffered_no_playlist:
  assumes "no_playlist_kept (ss_segments st)"
  shows "no_playlist_kept (ss_segments (snd (buffered_live_resource env net tools st r cc now)))"
  using assms
  by (auto simp: buffered_live_resource_def Let_def live_resource_looks_like_playlist_def split: option.split sum.split prod.split
      intro!: segment_store_no_playlist)

lemma resource_handler_no_playlist:
  assumes "no_playlist_kept (ss_segments st)"
  shows "no_playlist_kept (ss_segments (snd (live_hls_resource_handler env cfg tools call st)))"
  unfolding live_hls_resource_handler_def Let_def
  using assms by (auto simp: case_prod_beta passthrough_no_playlist buffered_no_playlist split: sum.split option.split)

datatype segment_event = Segment_call live_tools live_call | Segment_sweep int

fun segment_event_step :: "live_env \<Rightarrow> live_config \<Rightarrow> segment_event \<Rightarrow> segment_state \<Rightarrow> segment_state" where
  "segment_event_step env cfg (Segment_call tools call) st = snd (live_hls_resource_handler env cfg tools call st)"
| "segment_event_step env cfg (Segment_sweep now) st =
     st\<lparr>ss_segments := segment_prune (ss_segments st) now, ss_audio := audio_prune (ss_audio st) now\<rparr>"

interpretation segment_cache: invariant_steps "\<lambda>st :: segment_state. no_playlist_kept (ss_segments st)" "segment_event_step env cfg"
proof
  fix st :: segment_state and e assume "no_playlist_kept (ss_segments st)"
  then show "no_playlist_kept (ss_segments (segment_event_step env cfg e st))"
  proof (cases e)
    case (Segment_sweep now)
    then show ?thesis using \<open>no_playlist_kept _\<close> by (auto simp: no_playlist_kept_def segment_prune_def)
  qed (simp add: resource_handler_no_playlist)
qed

text \<open>
  A rolling playlist that was fetched as a resource is never replayed from the segment cache.
\<close>

lemma segments_never_replay_playlists:
  "no_playlist_kept (ss_segments (fold (segment_event_step env cfg) events
     \<lparr>ss_segments = live_segment_output_cache_new m b, ss_audio = []\<rparr>))"
  by (rule segment_cache.inv_fold) (simp add: no_playlist_kept_def live_segment_output_cache_new_def)

end
