(* ===== verification/Spec2Isabelle.thy ===== *)
theory Spec2Isabelle
  imports Prelude RateLimit SqlTable Json UserState Normalize PlaybackSessions ApiErrors Accounts
    AuthHandlers AuthSafety AuthThrottle ResolveJobs StaticFiles SourceHealth Caches NetworkGuards
    UserPrefs SecretStore ContinueWatching UserSettings Library UploadLibrary SourceRanking
    DebridTickets DebridValidation DebridClient DebridResolve DebridLease
    LiveCaches LiveGrants LivePlaylists LiveUpstream LiveHandlers LiveSegments
begin

text \<open>
  A verification development for the StreamArena server, the Rust program under \<open>src/\<close> of the
  repository. File names below are the repository's, function names are the source's; a definition
  keeps the name of the function it models wherever Isabelle allows it.

  \<^bold>\<open>The program.\<close> The server signs users in, keeps what they watched and want to watch, lets
  administrators manage accounts, serves the web client, stores uploads in a library of local media,
  looks for torrent sources of a title and turns one into a playable address through a debrid account,
  and relays live HLS streams. Everything durable is in SQLite (\<open>src/persistence.rs\<close> and
  \<open>src/persistence/\<close>) except the library, which is a JSON file (\<open>src/library.rs\<close>); everything else
  is in the memory of one process: rate limits, running jobs, upload sessions, the caches of the live
  relay, and the budgets of the calls to the debrid service. A request passes \<open>src/request_security.rs\<close>,
  is authenticated by \<open>src/auth.rs\<close>, and its handler (\<open>src/routes.rs\<close>, \<open>src/routes/\<close>,
  \<open>src/live.rs\<close>, \<open>src/upload.rs\<close>, \<open>src/static_files.rs\<close>) calls the accessors of the tables,
  the resolver (\<open>src/resolver.rs\<close>, \<open>src/resolver/\<close>) or an upstream.

  \<^bold>\<open>How it is modelled.\<close> A struct is a record, an enum a datatype. A table is a list of rows and an
  SQL statement a function on it (\<open>SqlTable\<close>); a unique or foreign key is a check of the statement
  that writes, with an error when it is broken. A handler takes its parts of the state, the request
  and one reading of the clock, and returns the answer (an \<open>api_error\<close> or a value) with the new
  state; every early return is a branch. Where several requests share memory and the code gives the
  lock up in between (the lease of a validation, the two debrid budgets, the task that owns an added
  torrent) the model is an \<open>inductive\<close> step relation whose steps are the sections under the lock, and
  the property is an invariant of every reachable state. Everywhere else a handler is one step, so
  that a sequence of requests is a list of them. What comes from elsewhere is a parameter: the JSON
  text format, SHA-256, HMAC, Argon2, AES-256-GCM, base64url, the URL and form codings, DNS, random
  bytes, regular expressions, \<open>ffmpeg\<close>, \<open>ffprobe\<close>, the file system behind a path, and every answer
  of the network. A property that relies on one of them names the law as a hypothesis (a parser
  reads back what the printer wrote; decryption undoes encryption) and has a witness with a concrete
  function that satisfies it.
\<close>

section \<open>The theories\<close>

subsection \<open>What the components share\<close>

text \<open>
  \<^item> \<open>Prelude\<close>: saturating 64-bit arithmetic as \<open>i64\<close> has it, the string operations of \<open>str\<close> that
    the source calls, decimal numbers, bytes and hexadecimal digits, two fact collections
    (\<open>stream_defs\<close>, \<open>invariant_intros\<close>), and three contracts as locales: \<open>commuting_steps\<close> (steps
    that commute give the same result in any order), \<open>replayable_steps\<close> (and may be delivered
    twice), \<open>invariant_steps\<close> (a step that keeps an invariant keeps it along every sequence).
  \<^item> \<open>SqlTable\<close>: selection, update, upsert, deletion and ordering on lists of rows, with \<open>LIKE\<close>.
  \<^item> \<open>Json\<close>: \<open>serde_json::Value\<close> and its accessors. A number is an integer or another numeral.
  \<^item> \<open>Normalize\<close>: the pure functions of \<open>src/utils.rs\<close>, the stable hash on 32-bit words included.
  \<^item> \<open>ApiErrors\<close>: the error value of \<open>src/error.rs\<close> with its status.
\<close>

subsection \<open>Accounts\<close>

text \<open>
  \<^item> \<open>RateLimit\<close> (\<open>src/rate_limit.rs\<close>): the sliding window and the failure cooldown, with the shift
    count and the saturation written out. No sequence of calls gets more than the budget accepted in
    a window; a cooldown doubles up to its bound.
  \<^item> \<open>Accounts\<close> (\<open>src/persistence.rs\<close>): users, sessions, reset and verification tokens. Each
    operation keeps the uniqueness and reference constraints (collection \<open>accounts_intros\<close>).
  \<^item> \<open>AuthHandlers\<close> (\<open>src/auth.rs\<close>, \<open>src/routes.rs\<close>, \<open>src/routes/admin.rs\<close>): sign-up, sign-in,
    reset, verification and the administration of users, with their three throttles; \<open>serve\<close> is the
    server of these routes.
  \<^item> \<open>AuthSafety\<close>: \<open>account_step\<close> is the specification of what one request may do to the accounts,
    \<open>serve_explained\<close> shows that \<open>serve\<close> does no more, and the properties follow from the
    specification: signing out after a change of credentials, who becomes an administrator, that one
    remains, that a link works once, and the schema.
  \<^item> \<open>AuthThrottle\<close>: the bound on the passwords verified for one address.
\<close>

subsection \<open>User data\<close>

text \<open>
  \<^item> \<open>UserState\<close> (\<open>src/persistence/user_state.rs\<close>): watch progress with its tombstones. The
    abstract state is one register per item that keeps the newest version (\<open>progress_reg\<close>), each
    mutation refines a step of the registers, and the registers interpret \<open>replayable_steps\<close>: hence
    the order and repetition of deliveries do not matter.
  \<^item> \<open>PlaybackSessions\<close> (\<open>src/persistence.rs\<close>): every operation on the sessions table, and
    \<open>lease_step\<close>, the interleaving of the requests that revalidate a session.
  \<^item> \<open>SourceHealth\<close>, \<open>Caches\<close> (\<open>src/persistence.rs\<close>): the counters of each source; the four cache
    tables, each an interpretation of the contract \<open>ttl_cache\<close>, and the sweep.
  \<^item> \<open>UserPrefs\<close> (\<open>src/persistence/user_preferences.rs\<close>), \<open>SecretStore\<close> (\<open>src/secret_store.rs\<close>):
    preferences; the envelopes of the stored credential and the migration of the key ring.
  \<^item> \<open>ContinueWatching\<close> (\<open>src/persistence/continue_watching.rs\<close>): saving, reconciliation with the
    playback sessions, my list.
  \<^item> \<open>UserSettings\<close> (\<open>src/routes/user_settings.rs\<close>, \<open>src/routes.rs\<close>): all handlers of user data;
    \<open>serve_user\<close> is the server of these routes. The remote check of a credential is its
    parameter, and \<open>DebridValidation\<close> models that check.
\<close>

subsection \<open>Local media\<close>

text \<open>
  \<^item> \<open>Library\<close> (\<open>src/library.rs\<close>): reading, normalising, changing and replacing the library file.
    What is read is well formed whatever the file holds, and a change is read back exactly.
  \<^item> \<open>UploadNaming\<close>, \<open>UploadSessions\<close>, \<open>UploadLibrary\<close> (\<open>src/upload.rs\<close>): names and identities;
    uploads in chunks with the failures of disk and network; what becomes of a finished upload, and
    the gallery downloads. The ghost argument of \<open>uploads\<close> is the text of the acknowledged chunks.
  \<^item> \<open>StaticFiles\<close> (\<open>src/static_files.rs\<close>): path resolution, access control and ranges.
  \<^item> \<open>ResolveJobs\<close> (\<open>src/resolve_jobs.rs\<close>): the store of background jobs with its eviction loop.
\<close>

subsection \<open>Sources and the debrid account\<close>

text \<open>
  \<^item> \<open>SourceText\<close>, \<open>SourceRanking\<close> (\<open>src/resolver.rs\<close>, \<open>src/resolver/scoring.rs\<close>): what is read out
    of a torrent's label, the filters, the score, the order and the selection.
  \<^item> \<open>DebridTickets\<close> (\<open>src/resolver/real_debrid.rs\<close>): the context of a request, the signed tickets of
    the remote playlist, and \<open>lazy_step\<close>, the interleaving of requests at the cache, the user's
    budget, the lock of a file and the four permits.
  \<^item> \<open>DebridValidation\<close>: the check of a new credential with its own budgets, as \<open>validation_step\<close>.
  \<^item> \<open>DebridClient\<close>: the requests, the answers and their errors, the memory of ready torrents, the
    choice of the file of a torrent, and the magnet address.
  \<^item> \<open>DebridResolve\<close>: the conversation of one attempt. The service is an arbitrary function of the
    conversation so far, so the properties hold for every behaviour of it.
  \<^item> \<open>DebridLease\<close>: the task that owns an added torrent, the request that waits for it, and their two
    channels, as \<open>torrent_lease_step\<close>.
\<close>

subsection \<open>The network boundary and the live relay\<close>

text \<open>
  \<^item> \<open>NetworkGuards\<close> (\<open>src/egress_policy.rs\<close>, \<open>src/request_security.rs\<close>): which addresses a DNS
    answer may have, an IPv6 address being eight 16-bit words, and which requests the CSRF middleware lets pass.
  \<^item> \<open>LiveGrants\<close> (\<open>src/live.rs\<close>): which addresses the relay fetches for whom; signatures and
    their minting. Security is stated up to \<open>hmac_collision\<close> of the two messages concerned, and no
    property assumes that there is none.
  \<^item> \<open>LivePlaylists\<close>: the rewriting of master, live and recorded playlists line by line.
  \<^item> \<open>LiveUpstream\<close>: which way an upstream is fetched and which answers are refused.
  \<^item> \<open>LiveCaches\<close>: playlist, segment and decision caches, an interpretation of \<open>ttl_cache\<close>.
  \<^item> \<open>LiveHandlers\<close>, \<open>LiveSegments\<close>: \<open>live_hls_handler\<close> and \<open>live_hls_resource_handler\<close> over all of
    these, with the invariants of what is kept in memory between requests.
\<close>

section \<open>What the properties say\<close>

text \<open>
  A property stands under a text block with its identifier; there are forty. In groups:

  \<^enum> Accounts: C1 and C4 to C9. They speak about sequences of requests to \<open>serve\<close> or of calls of the
    limiter, for any clock readings that do not go back where the code relies on that.
  \<^enum> User state and sessions: C2, C3, C10, C27, C28.
  \<^enum> Files and jobs: C11 to C13 and C36 to C40.
  \<^enum> The debrid account: C14 to C19. C14, C15, C19 hold for every behaviour of the service and every
    interleaving; C16 is up to a collision of the MAC.
  \<^enum> Ranking: C20 and C21, for every value of the rounded logarithm and every recogniser of labels.
  \<^enum> Caches, guards and stored secrets: C22 to C26.
  \<^enum> The live relay: C29 to C35.

  Beside them each theory proves the behaviour of its operations on every branch; these lemmas carry
  the properties. Some of the lemmas record behaviour that looks unintended, with a concrete input:
  \<open>series_wildcard_deletes_other_series\<close>, \<open>series_case_variant_survives\<close>, \<open>range_past_end_refused\<close>,
  \<open>unrelated_row_blocks_save\<close>, \<open>my_list_duplicate_refused\<close>, \<open>translated_loopback_is_public\<close>,
  \<open>init_section_leaves_with_its_segment\<close>, \<open>leading_attribute_written_twice\<close>,
  \<open>gallery_key_ignores_episode\<close>, \<open>explicit_series_id_is_not_stored_as_is\<close>,
  \<open>broken_direct_upload_leaves_file\<close>, \<open>null_field_becomes_text\<close>, \<open>compact_runtime_is_read_as_minutes\<close>.
\<close>

section \<open>Loops, bounds and arithmetic\<close>

text \<open>
  No definition takes fuel. A loop over a list is a structural recursion. The eviction loops
  (\<open>ResolveJobs.evict_while\<close>, \<open>DebridTickets.evict_down\<close>) end because each round removes an entry;
  \<open>LivePlaylists.replace_all\<close> and \<open>find_attribute_from\<close> because each round consumes text. The wait for
  a torrent (\<open>DebridResolve.poll_torrent\<close>) ends because each round takes the poll interval from the
  milliseconds that remain, at most twenty-one requests in all (C19). The lease relation has no run of
  more than six steps (C15).

  Times are \<open>i64\<close> milliseconds in the code. Where the code saturates, checks or could wrap at a bound
  that a request can reach, the model has the bound; where it adds a constant to the clock the model
  uses unbounded integers. Addresses, hashes and shift counts are words of their width. \<open>f64\<close> values are
  exact rationals; the rounded base-ten logarithm of the seeders is a parameter. Strings are lists of
  characters and the operations on them do what the source's do on ASCII text, where a character is a
  byte; the credential store works on bytes and checks that what it decrypts is UTF-8.
\<close>

section \<open>What is not modelled\<close>

text \<open>
  \<^item> Inside the modelled parts: failures of SQLite other than broken constraints; the foreign keys of
    the tables of preferences and progress; the streaming of a body (it is its bytes); compression,
    the locks that merge equal requests, and the refresh of expiring NTVS tokens in the live relay;
    the HEAD probe of a playable address; the bulk upsert of preferences, which only a test harness
    calls; \<open>title_from_filename_token\<close>, which only a test calls; the delivery of mail and the
    concurrency cap of the sign-in routes; a panic of a task.
  \<^item> The orchestration of the resolver (\<open>src/resolver.rs\<close> outside the functions mapped,
    \<open>src/resolver/subtitles.rs\<close>, \<open>hls_quality.rs\<close>, \<open>benchmark.rs\<close>): concurrent calls with timeouts and
    hedging, carried by the runtime's channels and races.
  \<^item> Scrapers of sites whose formats others define: the embed providers in \<open>src/resolver/\<close>,
    \<open>src/football.rs\<close>, \<open>src/football/\<close>, \<open>src/twitch.rs\<close>.
  \<^item> Glue around other programs and libraries: \<open>src/streaming.rs\<close>, \<open>src/playback_optimize.rs\<close>,
    \<open>src/process.rs\<close> and most of \<open>src/media.rs\<close> (\<open>ffmpeg\<close> and \<open>ffprobe\<close>), \<open>src/local_torrent.rs\<close>,
    \<open>src/email.rs\<close>, \<open>src/tmdb.rs\<close>, \<open>src/main.rs\<close>, \<open>src/config.rs\<close>, \<open>src/key_lock.rs\<close>,
    \<open>src/cleanup_guard.rs\<close>, \<open>src/provider_registry.rs\<close>, \<open>src/provider_budget.rs\<close>, the schema and
    migrations in \<open>src/persistence/migrations.rs\<close>.
  \<^item> Code for display only: \<open>src/home_bootstrap.rs\<close>, \<open>src/health.rs\<close>, \<open>src/routes/discovery.rs\<close>.
  \<^item> The clients in JavaScript and TypeScript, the edge workers and the deployment scripts.
\<close>

end
